(* ===== verification/Prelude.thy ===== *)
theory Prelude
  imports Complex_Main "HOL-Library.AList"
begin

text \<open>
  Shared vocabulary of the development: the exceptions the Python code raises or lets escape,
  results as \<open>py_exc + 'a\<close> with their sequencing \<open>bind_res\<close>, insertion-ordered dictionaries
  as association lists (\<open>dict_get\<close>, \<open>dict_set\<close>, \<open>dict_update\<close>), list slices with Python's
  negative bounds, and the theorem collections that carry the component proofs.
\<close>

section \<open>Theorem collections\<close>

named_theorems res_simps "equations that evaluate results and their sequencing"
named_theorems dict_simps "lookup-after-update laws of dictionaries"
named_theorems frame_simps "fields an operation leaves alone"

section \<open>Exceptions and results\<close>

datatype py_exc =
    ValueError string
  | KeyError string
  | PermissionError string
  | RuntimeError string
  | TypeError string
  | ZeroDivisionError
  | OverflowError
  | IndexError
  | QueueFull
  | IntegrityError string
  | AttributeError string

type_synonym 'a res = "py_exc + 'a"

definition bind_res :: "'a res \<Rightarrow> ('a \<Rightarrow> 'b res) \<Rightarrow> 'b res" where
  "bind_res m f = (case m of Inl e \<Rightarrow> Inl e | Inr x \<Rightarrow> f x)"

lemma bind_res_Inl [simp, res_simps]: "bind_res (Inl e) f = Inl e"
  by (simp add: bind_res_def)

lemma bind_res_Inr [simp, res_simps]: "bind_res (Inr x) f = f x"
  by (simp add: bind_res_def)

lemma bind_res_eq_Inr: "bind_res m f = Inr y \<longleftrightarrow> (\<exists>x. m = Inr x \<and> f x = Inr y)"
  by (cases m) auto

lemma bind_res_eq_Inl: "bind_res m f = Inl e \<longleftrightarrow> m = Inl e \<or> (\<exists>x. m = Inr x \<and> f x = Inl e)"
  by (cases m) auto

lemma bind_res_assoc: "bind_res (bind_res m f) g = bind_res m (\<lambda>x. bind_res (f x) g)"
  by (cases m) simp_all

definition is_ok :: "'a res \<Rightarrow> bool" where
  "is_ok r = (case r of Inl _ \<Rightarrow> False | Inr _ \<Rightarrow> True)"

lemma is_ok_simps [simp, res_simps]: "is_ok (Inl e) = False" "is_ok (Inr x) = True"
  by (simp_all add: is_ok_def)

lemma is_ok_iff: "is_ok r \<longleftrightarrow> (\<exists>x. r = Inr x)"
  by (cases r) auto

text \<open>A list comprehension or loop over a fallible body stops at the first exception.\<close>

fun map_res :: "('a \<Rightarrow> 'b res) \<Rightarrow> 'a list \<Rightarrow> 'b list res" where
  "map_res f [] = Inr []"
| "map_res f (x # xs) = bind_res (f x) (\<lambda>y. bind_res (map_res f xs) (\<lambda>ys. Inr (y # ys)))"

lemma map_res_element: "map_res f xs = Inr ys \<Longrightarrow> y \<in> set ys \<Longrightarrow> \<exists>x\<in>set xs. f x = Inr y"
  by (induction xs arbitrary: ys) (auto simp: bind_res_eq_Inr)

lemma map_res_Inr_iff: "map_res f xs = Inr ys \<longleftrightarrow> list_all2 (\<lambda>x y. f x = Inr y) xs ys"
  by (induction xs arbitrary: ys) (auto simp: bind_res_eq_Inr list_all2_Cons1)

lemma map_res_Inr: "(\<And>x. x \<in> set xs \<Longrightarrow> f x = Inr (g x)) \<Longrightarrow> map_res f xs = Inr (map g xs)"
  by (induction xs) simp_all

fun fold_res :: "('a \<Rightarrow> 's \<Rightarrow> 's res) \<Rightarrow> 'a list \<Rightarrow> 's \<Rightarrow> 's res" where
  "fold_res f [] s = Inr s"
| "fold_res f (x # xs) s = bind_res (f x s) (fold_res f xs)"

lemma fold_res_append: "fold_res f (xs @ ys) s = bind_res (fold_res f xs s) (fold_res f ys)"
proof (induction xs arbitrary: s)
  case (Cons x xs)
  then have "fold_res f (xs @ ys) = (\<lambda>t. bind_res (fold_res f xs t) (fold_res f ys))" by (rule ext)
  then show ?case by (simp add: bind_res_assoc)
qed simp

lemma fold_res_invariant:
  assumes step: "\<And>x s s'. x \<in> set xs \<Longrightarrow> P s \<Longrightarrow> f x s = Inr s' \<Longrightarrow> P s'"
    and init: "P s" and run: "fold_res f xs s = Inr s'"
  shows "P s'"
  using assms
proof (induction xs arbitrary: s)
  case Nil
  then show ?case by simp
next
  case (Cons x xs)
  from Cons.prems(3) obtain t where t: "f x s = Inr t" "fold_res f xs t = Inr s'"
    by (auto simp: bind_res_eq_Inr)
  then have "P t" using Cons.prems(1)[of x s t] Cons.prems(2) by simp
  with t(2) Cons.prems(1) show ?case by (intro Cons.IH) auto
qed

text \<open>
  An operation on a state either returns a value or raises; in both cases the state keeps what was
  done before. \<open>bind_act\<close> is the statement sequence: it goes on only after a normal return.
\<close>

type_synonym ('s, 'a) outcome = "'s \<times> 'a res"

definition bind_act :: "('s, 'a) outcome \<Rightarrow> ('s \<Rightarrow> 'a \<Rightarrow> ('s, 'b) outcome) \<Rightarrow> ('s, 'b) outcome" where
  "bind_act m f = (case snd m of Inl e \<Rightarrow> (fst m, Inl e) | Inr x \<Rightarrow> f (fst m) x)"

lemma bind_act_simps [simp, res_simps]:
  "bind_act (s, Inl e) f = (s, Inl e)"
  "bind_act (s, Inr x) f = f s x"
  by (simp_all add: bind_act_def)

lemma bind_act_eq_Inr:
  "bind_act m f = (s', Inr y) \<longleftrightarrow> (\<exists>s x. m = (s, Inr x) \<and> f s x = (s', Inr y))"
  by (cases m; cases "snd m") auto

lemma bind_act_cases:
  "bind_act m f = (s', r) \<longleftrightarrow>
     (\<exists>e. m = (s', Inl e) \<and> r = Inl e) \<or> (\<exists>s x. m = (s, Inr x) \<and> f s x = (s', r))"
  by (cases m; cases "snd m") auto

text \<open>A \<open>for\<close> loop over a body that changes state and may raise.\<close>

fun for_act :: "('a \<Rightarrow> 's \<Rightarrow> ('s, unit) outcome) \<Rightarrow> 'a list \<Rightarrow> 's \<Rightarrow> ('s, unit) outcome" where
  "for_act f [] s = (s, Inr ())"
| "for_act f (x # xs) s = bind_act (f x s) (\<lambda>s' _. for_act f xs s')"

lemma for_act_invariant:
  assumes "\<And>x s. x \<in> set xs \<Longrightarrow> P s \<Longrightarrow> P (fst (f x s))" and "P s"
  shows "P (fst (for_act f xs s))"
  using assms
proof (induction xs arbitrary: s)
  case (Cons x xs)
  have "P (fst (f x s))" using Cons.prems by simp
  with Cons show ?case by (cases "f x s"; cases "snd (f x s)") auto
qed simp

section \<open>Dictionaries\<close>

text \<open>
  A Python \<open>dict\<close> remembers insertion order; assigning to a present key keeps its place.
\<close>

type_synonym ('k, 'v) dict = "('k \<times> 'v) list"

abbreviation dict_get :: "('k, 'v) dict \<Rightarrow> 'k \<Rightarrow> 'v option" where
  "dict_get \<equiv> map_of"

abbreviation dict_set :: "'k \<Rightarrow> 'v \<Rightarrow> ('k, 'v) dict \<Rightarrow> ('k, 'v) dict" where
  "dict_set \<equiv> AList.update"

definition dict_get_or :: "('k, 'v) dict \<Rightarrow> 'k \<Rightarrow> 'v \<Rightarrow> 'v" where
  "dict_get_or d k v = (case dict_get d k of None \<Rightarrow> v | Some x \<Rightarrow> x)"

fun dict_update :: "('k, 'v) dict \<Rightarrow> ('k, 'v) dict \<Rightarrow> ('k, 'v) dict" where
  "dict_update d [] = d"
| "dict_update d ((k, v) # kvs) = dict_update (dict_set k v d) kvs"

lemma dict_get_set [simp, dict_simps]:
  "dict_get (dict_set k v d) k' = (if k' = k then Some v else dict_get d k')"
  by (simp add: update_conv')

lemma dict_get_or_set [simp, dict_simps]:
  "dict_get_or (dict_set k v d) k' x = (if k' = k then v else dict_get_or d k' x)"
  by (simp add: dict_get_or_def)

lemma dict_get_update:
  "dict_get (dict_update d kvs) k = (case dict_get (rev kvs) k of None \<Rightarrow> dict_get d k | Some v \<Rightarrow> Some v)"
  by (induction kvs arbitrary: d) (auto simp: map_add_def split: option.splits)

lemma dict_set_keys: "fst ` set (dict_set k v d) = insert k (fst ` set d)"
  by (induction d) auto

lemma dict_set_distinct: "distinct (map fst d) \<Longrightarrow> distinct (map fst (dict_set k v d))"
  by (rule distinct_update)

lemma dict_get_in: "dict_get d k = Some v \<Longrightarrow> (k, v) \<in> set d"
  by (rule map_of_SomeD)

lemma dict_get_or_in: "x \<in> set (dict_get_or d k []) \<Longrightarrow> (k, dict_get_or d k []) \<in> set d"
  by (cases "dict_get d k") (auto simp: dict_get_or_def dest: dict_get_in)

lemma dict_set_entries: "set (dict_set k v d) \<subseteq> insert (k, v) (set d)"
  by (induction d) auto

section \<open>Lists\<close>

text \<open>\<open>xs[-n:]\<close> for a positive \<open>n\<close>: the last \<open>n\<close> elements, or all of them.\<close>

definition last_n :: "nat \<Rightarrow> 'a list \<Rightarrow> 'a list" where
  "last_n n xs = drop (length xs - n) xs"

lemma length_last_n [simp]: "length (last_n n xs) = min n (length xs)"
  by (simp add: last_n_def)

lemma set_last_n: "set (last_n n xs) \<subseteq> set xs"
  by (auto simp: last_n_def dest: in_set_dropD)

lemma last_n_all: "length xs \<le> n \<Longrightarrow> last_n n xs = xs"
  by (simp add: last_n_def)

lemma last_n_snoc: "0 < n \<Longrightarrow> last_n n (xs @ [x]) = last_n (n - 1) xs @ [x]"
  by (auto simp: last_n_def)

lemma last_n_append_last_n: "last_n n (last_n n xs @ ys) = last_n n (xs @ ys)"
  by (cases "n \<le> length xs"; cases "n \<le> length ys") (simp_all add: last_n_def add.commute)

lemma last_in_last_n: "0 < n \<Longrightarrow> x \<in> set (last_n n (xs @ [x]))"
  by (simp add: last_n_snoc)

definition find_first :: "('a \<Rightarrow> bool) \<Rightarrow> 'a list \<Rightarrow> 'a option" where
  "find_first p xs = List.find p xs"

lemma find_first_simps [simp]:
  "find_first p [] = None"
  "find_first p (x # xs) = (if p x then Some x else find_first p xs)"
  by (simp_all add: find_first_def)

lemma find_first_None: "find_first p xs = None \<longleftrightarrow> (\<forall>x\<in>set xs. \<not> p x)"
  by (induction xs) auto

lemma find_first_SomeD: "find_first p xs = Some x \<Longrightarrow> p x \<and> x \<in> set xs"
  by (induction xs) (auto split: if_splits)

lemma find_first_append:
  "find_first p (xs @ ys) = (case find_first p xs of None \<Rightarrow> find_first p ys | Some x \<Rightarrow> Some x)"
  by (induction xs) auto

lemma find_first_unique:
  assumes "p x" and "x \<in> set xs" and "\<And>y. y \<in> set xs \<Longrightarrow> p y \<Longrightarrow> y = x"
  shows "find_first p xs = Some x"
proof (cases "find_first p xs")
  case None
  with assms(1,2) show ?thesis by (auto simp: find_first_None)
next
  case (Some y)
  with assms(3) show ?thesis by (auto dest: find_first_SomeD)
qed

end
