(* ===== verification/Py_Float.thy ===== *)
theory Py_Float
  imports Prelude
begin

text \<open>
  Python's \<open>float\<close>: IEEE 754 binary64 with round-to-nearest, ties to even. A value is an exact
  rational (\<open>Fin q\<close>), an infinity or NaN; every arithmetic result goes through \<open>fround\<close>, which
  rounds to 53 significant bits, keeps the subnormal range and overflows at \<open>2 ^ 1024\<close>.
  The two zeros are one value: the sources never observe the sign of a zero (Python raises on
  division by either of them). Comparisons follow IEEE: all of them are false on NaN.
  \<open>rnd\<close> is shown monotone, odd and exact on the representable numbers; the locale \<open>rounding\<close>
  states that contract and derives what the components use of it.
\<close>

section \<open>Integer logarithm and rounding to an integer\<close>

fun nlog2 :: "nat \<Rightarrow> nat" where
  "nlog2 n = (if n < 2 then 0 else Suc (nlog2 (n div 2)))"

declare nlog2.simps [simp del]

lemma nlog2_bounds: "0 < n \<Longrightarrow> 2 ^ nlog2 n \<le> n \<and> n < 2 ^ Suc (nlog2 n)"
proof (induction n rule: nlog2.induct)
  case (1 n)
  show ?case
  proof (cases "n < 2")
    case True
    with "1.prems" show ?thesis by (simp add: nlog2.simps)
  next
    case False
    then have "2 ^ nlog2 (n div 2) \<le> n div 2 \<and> n div 2 < 2 ^ Suc (nlog2 (n div 2))"
      by (intro "1.IH") auto
    with False show ?thesis by (simp add: nlog2.simps[of n]) linarith
  qed
qed

text \<open>\<open>\<lfloor>log\<^sub>2 q\<rfloor>\<close> of a positive rational.\<close>

definition ilog2 :: "rat \<Rightarrow> int" where
  "ilog2 q =
     (if 1 \<le> q then int (nlog2 (nat \<lfloor>q\<rfloor>))
      else - int (Suc (nlog2 (nat (\<lceil>1 / q\<rceil> - 1)))))"

lemma powi_nat: "(2::rat) powi (int n) = 2 ^ n"
  by simp

lemma powi_pos [simp]: "0 < (2::rat) powi k"
  by simp

lemma ilog2_bounds:
  assumes "0 < q"
  shows "2 powi ilog2 q \<le> q \<and> q < 2 powi (ilog2 q + 1)"
proof (cases "1 \<le> q")
  case True
  let ?n = "nat \<lfloor>q\<rfloor>"
  have n: "0 < ?n" "int ?n = \<lfloor>q\<rfloor>" using True by auto
  have b: "2 ^ nlog2 ?n \<le> ?n" "?n < 2 ^ Suc (nlog2 ?n)" using nlog2_bounds[OF n(1)] by auto
  have "(2::rat) ^ nlog2 ?n = rat_of_nat (2 ^ nlog2 ?n)" by simp
  also have "\<dots> \<le> rat_of_nat ?n" using b(1) by (simp only: of_nat_le_iff)
  also have "\<dots> = of_int \<lfloor>q\<rfloor>" using n(2) by (metis of_int_of_nat_eq)
  also have "\<dots> \<le> q" by simp
  finally have lo: "(2::rat) ^ nlog2 ?n \<le> q" .
  have "\<lfloor>q\<rfloor> + 1 \<le> int (2 ^ Suc (nlog2 ?n))" using b(2) n(2) by linarith
  then have "of_int (\<lfloor>q\<rfloor> + 1) \<le> (of_int (int (2 ^ Suc (nlog2 ?n))) :: rat)"
    by (simp only: of_int_le_iff)
  then have "rat_of_int (\<lfloor>q\<rfloor> + 1) \<le> 2 ^ Suc (nlog2 ?n)" by (simp add: of_int_of_nat_eq)
  moreover have "q < rat_of_int (\<lfloor>q\<rfloor> + 1)" by linarith
  ultimately have hi: "q < 2 ^ Suc (nlog2 ?n)" by (rule less_le_trans[rotated])
  have e: "ilog2 q + 1 = int (Suc (nlog2 ?n))" "ilog2 q = int (nlog2 ?n)"
    using True by (simp_all add: ilog2_def)
  show ?thesis using lo hi unfolding e(1) unfolding e(2) powi_nat by blast
next
  case False
  let ?m = "nat (\<lceil>1 / q\<rceil> - 1)"
  have q1: "1 < 1 / q" using assms False by simp
  then have c: "2 \<le> \<lceil>1 / q\<rceil>" by linarith
  have m: "0 < ?m" using c by linarith
  have mi: "int ?m = \<lceil>1 / q\<rceil> - 1" using c by linarith
  have b: "2 ^ nlog2 ?m \<le> ?m" "?m < 2 ^ Suc (nlog2 ?m)" using nlog2_bounds[OF m] by auto
  have "rat_of_nat (2 ^ nlog2 ?m) \<le> rat_of_nat ?m" using b(1) by (simp only: of_nat_le_iff)
  also have "rat_of_nat ?m = of_int (\<lceil>1 / q\<rceil> - 1)" using mi by (metis of_int_of_nat_eq)
  also have "\<dots> < 1 / q" by linarith
  finally have lo: "2 ^ nlog2 ?m < 1 / q" by simp
  have "\<lceil>1 / q\<rceil> \<le> int (2 ^ Suc (nlog2 ?m))" using b(2) mi by linarith
  then have "1 / q \<le> rat_of_int (int (2 ^ Suc (nlog2 ?m)))" by (simp only: ceiling_le_iff)
  then have hi: "1 / q \<le> 2 ^ Suc (nlog2 ?m)" by (simp only: of_int_of_nat_eq) simp
  have e: "ilog2 q = - int (Suc (nlog2 ?m))" "ilog2 q + 1 = - int (nlog2 ?m)"
    using False by (simp_all add: ilog2_def)
  have "1 / 2 ^ Suc (nlog2 ?m) \<le> q" using hi assms by (simp add: field_simps)
  moreover have "q < 1 / 2 ^ nlog2 ?m" using lo assms by (simp add: field_simps)
  ultimately show ?thesis
    unfolding e(2) unfolding e(1) by (simp add: power_int_minus field_simps del: of_nat_Suc)
qed

lemma powi_less_cancel: "(2::rat) powi a < 2 powi b \<longleftrightarrow> a < b"
  using power_int_strict_increasing[of a b "2::rat"] power_int_increasing[of b a "2::rat"]
  by (cases "a < b") auto

lemma powi_le_cancel: "(2::rat) powi a \<le> 2 powi b \<longleftrightarrow> a \<le> b"
  using powi_less_cancel[of b a] by (simp add: not_less[symmetric])

lemma ilog2_unique:
  assumes "2 powi e \<le> q" and "q < 2 powi (e + 1)"
  shows "ilog2 q = e"
proof -
  have q: "0 < q" using assms(1) powi_pos[of e] by linarith
  have "(2::rat) powi ilog2 q < 2 powi (e + 1)" and "(2::rat) powi e < 2 powi (ilog2 q + 1)"
    using ilog2_bounds[OF q] assms by linarith+
  then show ?thesis unfolding powi_less_cancel by linarith
qed

lemma ilog2_mono:
  assumes "0 < x" and "x \<le> y"
  shows "ilog2 x \<le> ilog2 y"
proof -
  have "(2::rat) powi ilog2 x < 2 powi (ilog2 y + 1)"
    using ilog2_bounds[of x] ilog2_bounds[of y] assms by linarith
  then show ?thesis unfolding powi_less_cancel by linarith
qed

text \<open>Round half to even, as \<open>round()\<close> and the hardware do.\<close>

definition rhe :: "rat \<Rightarrow> int" where
  "rhe x = (let f = \<lfloor>x\<rfloor>; d = x - of_int f in
     if d < 1 / 2 then f else if 1 / 2 < d then f + 1 else if even f then f else f + 1)"

lemma rhe_of_int [simp]: "rhe (of_int n) = n"
  by (simp add: rhe_def)

lemma rhe_near: "\<bar>of_int (rhe x) - x\<bar> \<le> 1 / 2"
  by (simp add: rhe_def Let_def abs_if) linarith

lemma rhe_unique:
  assumes "\<bar>x - of_int m\<bar> < 1 / 2 \<or> \<bar>x - of_int m\<bar> = 1 / 2 \<and> even m"
  shows "rhe x = m"
proof (cases "\<bar>x - of_int m\<bar> < 1 / 2")
  case True
  then have "\<bar>of_int (rhe x) - (of_int m :: rat)\<bar> < 1" using rhe_near[of x] by linarith
  then have "\<bar>rhe x - m\<bar> < 1" by linarith
  then show ?thesis by simp
next
  case False
  with assms have m: "even m" and x: "x = of_int m + 1 / 2 \<or> x = of_int m - 1 / 2"
    by (auto simp: abs_if split: if_splits)
  have "\<lfloor>rat_of_int m + 1 / 2\<rfloor> = m" "\<lfloor>rat_of_int m - 1 / 2\<rfloor> = m - 1" by linarith+
  with x m show ?thesis by (auto simp: rhe_def)
qed

lemma rhe_mono:
  assumes "x \<le> y"
  shows "rhe x \<le> rhe y"
proof (cases "\<lfloor>x\<rfloor> = \<lfloor>y\<rfloor>")
  case True
  then show ?thesis using assms by (auto simp: rhe_def Let_def)
next
  case False
  then have "\<lfloor>x\<rfloor> + 1 \<le> \<lfloor>y\<rfloor>" using floor_mono[OF assms] by linarith
  moreover have "rhe x \<le> \<lfloor>x\<rfloor> + 1" "\<lfloor>y\<rfloor> \<le> rhe y" by (auto simp: rhe_def Let_def)
  ultimately show ?thesis by linarith
qed

lemma rhe_uminus: "rhe (- x) = - rhe x"
proof -
  let ?d = "x - of_int \<lfloor>x\<rfloor>"
  consider "?d = 0" | "0 < ?d" "?d < 1" using floor_correct[of x] by linarith
  then show ?thesis
  proof cases
    case 1
    then have "x = of_int \<lfloor>x\<rfloor>" by simp
    then show ?thesis by (metis of_int_minus rhe_of_int)
  next
    case 2
    then have f: "\<lfloor>- x\<rfloor> = - \<lfloor>x\<rfloor> - 1" by linarith
    show ?thesis unfolding rhe_def Let_def f using 2 by (auto simp: field_simps)
  qed
qed

section \<open>Rounding to binary64\<close>

text \<open>
  \<open>quantum q\<close> is the exponent of the last bit kept for a value of \<open>q\<close>'s magnitude, \<open>grid k q\<close>
  the multiple of \<open>2 powi k\<close> nearest to \<open>q\<close>.
\<close>

definition quantum :: "rat \<Rightarrow> int" where
  "quantum q = max (ilog2 \<bar>q\<bar> - 52) (- 1074)"

definition grid :: "int \<Rightarrow> rat \<Rightarrow> rat" where
  "grid k q = of_int (rhe (q / 2 powi k)) * 2 powi k"

definition rnd :: "rat \<Rightarrow> rat" where
  "rnd q = (if q = 0 then 0 else grid (quantum q) q)"

lemma grid_mono: "x \<le> y \<Longrightarrow> grid k x \<le> grid k y"
  by (simp add: grid_def rhe_mono divide_right_mono)

lemma grid_uminus: "grid k (- x) = - grid k x"
  by (simp add: grid_def rhe_uminus)

lemma grid_exact: "grid k (of_int m * 2 powi k) = of_int m * 2 powi k"
  by (simp add: grid_def)

lemma grid_power:
  assumes "k \<le> e"
  shows "grid k (2 powi e) = 2 powi e"
proof -
  have "(2::rat) powi e = 2 powi (e - k) * 2 powi k"
    by (simp add: power_int_diff)
  also have "(2::rat) powi (e - k) = of_int (2 ^ nat (e - k))"
    using assms by (simp add: power_int_def)
  finally show ?thesis by (metis grid_exact)
qed

lemma quantum_uminus [simp]: "quantum (- x) = quantum x"
  by (simp add: quantum_def)

lemma rnd_0 [simp]: "rnd 0 = 0"
  by (simp add: rnd_def)

lemma rnd_uminus: "rnd (- x) = - rnd x"
  by (simp add: rnd_def grid_uminus)

lemma rnd_mono_pos:
  assumes "0 < x" and "x \<le> y"
  shows "rnd x \<le> rnd y"
proof (cases "quantum x = quantum y")
  case True
  then show ?thesis using assms by (simp add: rnd_def grid_mono)
next
  case False
  let ?e = "ilog2 y"
  have le: "ilog2 x \<le> ?e" using ilog2_mono assms by blast
  with False assms have q: "ilog2 x < ?e" "quantum x \<le> ?e" "quantum y \<le> ?e"
    by (auto simp: quantum_def max_def split: if_splits)
  have "x < 2 powi (ilog2 x + 1)" using ilog2_bounds[of x] assms(1) by blast
  also have "\<dots> \<le> 2 powi ?e" using q(1) unfolding powi_le_cancel by linarith
  finally have "grid (quantum x) x \<le> grid (quantum x) (2 powi ?e)" by (intro grid_mono) simp
  also have "\<dots> = grid (quantum y) (2 powi ?e)" using q by (simp add: grid_power)
  also have "\<dots> \<le> grid (quantum y) y"
    using ilog2_bounds[of y] assms by (intro grid_mono) auto
  finally show ?thesis using assms by (simp add: rnd_def)
qed

lemma rnd_nonneg:
  assumes "0 \<le> x"
  shows "0 \<le> rnd x"
  using assms grid_mono[of 0 x] by (auto simp: rnd_def grid_def zero_le_mult_iff rhe_def floor_less_iff)

lemma rnd_mono:
  assumes "x \<le> y"
  shows "rnd x \<le> rnd y"
proof -
  consider "0 < x" | "x \<le> 0" "0 \<le> y" | "y < 0" using assms by linarith
  then show ?thesis
  proof cases
    case 1
    then show ?thesis using rnd_mono_pos assms by blast
  next
    case 2
    then have "0 \<le> rnd (- x)" and "0 \<le> rnd y" by (auto intro: rnd_nonneg)
    then show ?thesis by (simp add: rnd_uminus)
  next
    case 3
    then have "rnd (- y) \<le> rnd (- x)" using assms by (intro rnd_mono_pos) auto
    then show ?thesis by (simp add: rnd_uminus)
  qed
qed

text \<open>The representable numbers \<open>m * 2 powi k\<close> with \<open>\<bar>m\<bar> \<le> 2 ^ 53\<close> are fixed.\<close>

lemma rnd_exact:
  assumes m: "\<bar>m\<bar> \<le> 2 ^ 53" and k: "- 1074 \<le> k"
  shows "rnd (of_int m * 2 powi k) = of_int m * 2 powi k"
proof (cases "\<bar>m\<bar> = 2 ^ 53")
  case True
  let ?q = "of_int m * 2 powi k :: rat"
  have "(2::rat) ^ 53 * 2 powi k = 2 powi (k + 53)" by (simp add: power_int_add)
  then have aq: "\<bar>?q\<bar> = 2 powi (k + 53)"
    using True by (simp add: abs_mult flip: of_int_abs)
  have "ilog2 \<bar>?q\<bar> = k + 53"
    unfolding aq by (rule ilog2_unique) (simp_all add: powi_less_cancel)
  then have "quantum ?q \<le> k + 53" using k by (simp add: quantum_def)
  then have "grid (quantum ?q) \<bar>?q\<bar> = \<bar>?q\<bar>" unfolding aq by (rule grid_power)
  then have "grid (quantum ?q) ?q = ?q"
    by (cases "0 \<le> ?q") (simp_all add: grid_uminus abs_of_nonneg abs_of_neg)
  then show ?thesis using True by (auto simp: rnd_def)
next
  case False
  let ?q = "of_int m * 2 powi k :: rat"
  show ?thesis
  proof (cases "m = 0")
    case True
    then show ?thesis by simp
  next
    case m0: False
    have "\<bar>?q\<bar> = of_int \<bar>m\<bar> * 2 powi k" by (simp add: abs_mult)
    also have "\<dots> < 2 ^ 53 * 2 powi k"
    proof -
      have "\<bar>m\<bar> < 2 ^ 53" using m False by linarith
      then have "rat_of_int \<bar>m\<bar> < of_int (2 ^ 53)" by (simp only: of_int_less_iff)
      then show ?thesis by simp
    qed
    also have "\<dots> = 2 powi (k + 53)" by (simp add: power_int_add)
    finally have ub: "\<bar>?q\<bar> < 2 powi (k + 53)" .
    have pos: "0 < \<bar>?q\<bar>" using m0 by simp
    have "(2::rat) powi ilog2 \<bar>?q\<bar> < 2 powi (k + 53)"
      using ilog2_bounds[OF pos] ub by linarith
    then have "ilog2 \<bar>?q\<bar> - 52 \<le> k" unfolding powi_less_cancel by linarith
    then have qk: "quantum ?q \<le> k" using k by (simp add: quantum_def)
    have "?q = of_int (m * 2 ^ nat (k - quantum ?q)) * 2 powi (quantum ?q)"
    proof -
      have "(2::rat) powi k = 2 powi (k - quantum ?q) * 2 powi (quantum ?q)"
        by (simp add: power_int_diff)
      moreover have "(2::rat) powi (k - quantum ?q) = 2 ^ nat (k - quantum ?q)"
        using qk by (simp add: power_int_def)
      ultimately show ?thesis by simp
    qed
    then have "grid (quantum ?q) ?q = ?q" by (metis grid_exact)
    then show ?thesis using m0 by (simp add: rnd_def)
  qed
qed

lemma rnd_int: "\<bar>m\<bar> \<le> 2 ^ 53 \<Longrightarrow> rnd (of_int m) = of_int m"
  using rnd_exact[of m 0] by simp

text \<open>Evaluation at a given result: the kernel checks the rounding of one number.\<close>

lemma rnd_eval:
  assumes "u = 2 powi k" "- 1074 \<le> k" "2 ^ 52 * u \<le> \<bar>q\<bar>" "\<bar>q\<bar> < 2 ^ 53 * u"
    and "\<bar>q - of_int m * u\<bar> < u / 2 \<or> \<bar>q - of_int m * u\<bar> = u / 2 \<and> even m"
  shows "rnd q = of_int m * u"
proof -
  have u: "0 < u" using assms(1) by simp
  have "(2::rat) powi (k + 52) = 2 ^ 52 * u" "(2::rat) powi (k + 52 + 1) = 2 ^ 53 * u"
    unfolding assms(1) by (simp_all add: power_int_add)
  then have "ilog2 \<bar>q\<bar> = k + 52" using assms(3,4) by (intro ilog2_unique) simp_all
  then have quant: "quantum q = k" using assms(2) by (simp add: quantum_def)
  have "\<bar>q / u - of_int m\<bar> = \<bar>q - of_int m * u\<bar> / u"
    using u by (simp add: field_simps abs_mult abs_divide[symmetric])
  then have "rhe (q / u) = m" using assms(5) u by (intro rhe_unique) (auto simp: field_simps)
  moreover have "q \<noteq> 0" using assms(3) u by auto
  ultimately show ?thesis using assms(1) quant by (simp add: rnd_def grid_def)
qed


section \<open>Values, comparisons, arithmetic\<close>

datatype pyfloat = Fin rat | PosInf | NegInf | NaN

definition fround :: "rat \<Rightarrow> pyfloat" where
  "fround q = (let r = rnd q in
     if 2 ^ 1024 \<le> r then PosInf else if r \<le> - (2 ^ 1024) then NegInf else Fin r)"

fun flt :: "pyfloat \<Rightarrow> pyfloat \<Rightarrow> bool" where
  "flt (Fin a) (Fin b) = (a < b)"
| "flt (Fin a) PosInf = True"
| "flt NegInf (Fin b) = True"
| "flt NegInf PosInf = True"
| "flt _ _ = False"

definition feq :: "pyfloat \<Rightarrow> pyfloat \<Rightarrow> bool" where
  "feq a b = (a = b \<and> a \<noteq> NaN)"

definition fle :: "pyfloat \<Rightarrow> pyfloat \<Rightarrow> bool" where
  "fle a b = (flt a b \<or> feq a b)"

fun fneg :: "pyfloat \<Rightarrow> pyfloat" where
  "fneg (Fin a) = Fin (- a)"
| "fneg PosInf = NegInf"
| "fneg NegInf = PosInf"
| "fneg NaN = NaN"

fun fadd :: "pyfloat \<Rightarrow> pyfloat \<Rightarrow> pyfloat" where
  "fadd (Fin a) (Fin b) = fround (a + b)"
| "fadd NaN _ = NaN"
| "fadd _ NaN = NaN"
| "fadd PosInf NegInf = NaN"
| "fadd NegInf PosInf = NaN"
| "fadd PosInf _ = PosInf"
| "fadd _ PosInf = PosInf"
| "fadd NegInf _ = NegInf"
| "fadd _ NegInf = NegInf"

definition fsub :: "pyfloat \<Rightarrow> pyfloat \<Rightarrow> pyfloat" where
  "fsub a b = fadd a (fneg b)"

text \<open>The sign of a nonzero number decides products and quotients with infinities.\<close>

definition inf_times :: "bool \<Rightarrow> pyfloat \<Rightarrow> pyfloat" where
  "inf_times pos b =
     (case b of Fin q \<Rightarrow> if q = 0 then NaN else if (0 < q) = pos then PosInf else NegInf
      | PosInf \<Rightarrow> if pos then PosInf else NegInf
      | NegInf \<Rightarrow> if pos then NegInf else PosInf
      | NaN \<Rightarrow> NaN)"

fun fmul :: "pyfloat \<Rightarrow> pyfloat \<Rightarrow> pyfloat" where
  "fmul (Fin a) (Fin b) = fround (a * b)"
| "fmul PosInf b = inf_times True b"
| "fmul NegInf b = inf_times False b"
| "fmul a PosInf = inf_times True a"
| "fmul a NegInf = inf_times False a"
| "fmul NaN _ = NaN"
| "fmul _ NaN = NaN"

text \<open>Division by a nonzero divisor; \<open>/\<close> itself raises on a zero divisor.\<close>

fun fdiv :: "pyfloat \<Rightarrow> pyfloat \<Rightarrow> pyfloat" where
  "fdiv (Fin a) (Fin b) = fround (a / b)"
| "fdiv NaN _ = NaN"
| "fdiv _ NaN = NaN"
| "fdiv (Fin _) _ = Fin 0"
| "fdiv PosInf (Fin b) = inf_times True (Fin b)"
| "fdiv NegInf (Fin b) = inf_times False (Fin b)"
| "fdiv _ _ = NaN"

definition py_div :: "pyfloat \<Rightarrow> pyfloat \<Rightarrow> pyfloat res" where
  "py_div a b = (if b = Fin 0 then Inl ZeroDivisionError else Inr (fdiv a b))"

fun fabs :: "pyfloat \<Rightarrow> pyfloat" where
  "fabs (Fin a) = Fin \<bar>a\<bar>"
| "fabs NaN = NaN"
| "fabs _ = PosInf"

text \<open>Python's \<open>max(a, b)\<close> and \<open>min(a, b)\<close> keep the first argument unless the second beats it.\<close>

definition fmax :: "pyfloat \<Rightarrow> pyfloat \<Rightarrow> pyfloat" where
  "fmax a b = (if flt a b then b else a)"

definition fmin :: "pyfloat \<Rightarrow> pyfloat \<Rightarrow> pyfloat" where
  "fmin a b = (if flt b a then b else a)"

text \<open>\<open>bool(x)\<close>, and \<open>sum(xs)\<close>: since Python 3.12 (the version the project requires) \<open>sum\<close> of floats
  carries Neumaier's compensation term, which is added at the end when it is finite.\<close>

definition ftruth :: "pyfloat \<Rightarrow> bool" where
  "ftruth x = (x \<noteq> Fin 0)"

fun is_finite :: "pyfloat \<Rightarrow> bool" where
  "is_finite (Fin q) = True"
| "is_finite _ = False"

fun neumaier :: "pyfloat \<Rightarrow> pyfloat \<Rightarrow> pyfloat list \<Rightarrow> pyfloat" where
  "neumaier s c [] = (if ftruth c \<and> is_finite c then fadd s c else s)"
| "neumaier s c (x # xs) =
     (let t = fadd s x;
          c' = (if fle (fabs x) (fabs s) then fadd c (fadd (fsub s t) x)
                else fadd c (fadd (fsub x t) s))
      in neumaier t c' xs)"

fun fsum :: "pyfloat list \<Rightarrow> pyfloat" where
  "fsum [] = Fin 0"
| "fsum (x # xs) = neumaier (fadd (Fin 0) x) (Fin 0) xs"

text \<open>\<open>float(n)\<close>, and \<open>round(x, n)\<close> to a float.\<close>

definition float_of_int :: "int \<Rightarrow> pyfloat" where
  "float_of_int n = fround (of_int n)"

fun fround_to :: "pyfloat \<Rightarrow> nat \<Rightarrow> pyfloat" where
  "fround_to (Fin q) n = fround (of_int (rhe (q * 10 ^ n)) / 10 ^ n)"
| "fround_to x n = x"

fun is_nan :: "pyfloat \<Rightarrow> bool" where
  "is_nan NaN = True"
| "is_nan _ = False"

fun is_inf :: "pyfloat \<Rightarrow> bool" where
  "is_inf PosInf = True"
| "is_inf NegInf = True"
| "is_inf _ = False"

text \<open>A decimal literal of the source is the double nearest to it.\<close>

definition dec :: "int \<Rightarrow> int \<Rightarrow> pyfloat" where
  "dec n d = fround (of_int n / of_int d)"

text \<open>Conversions between \<open>int\<close> and \<open>float\<close> that can raise: an integer beyond the float range, and
  \<open>int(x)\<close> or \<open>math.floor(x)\<close> of a value that is not finite.\<close>

definition int_to_float :: "int \<Rightarrow> pyfloat res" where
  "int_to_float n = (case fround (of_int n) of Fin q \<Rightarrow> Inr (Fin q) | _ \<Rightarrow> Inl OverflowError)"

definition floor_int :: "pyfloat \<Rightarrow> int res" where
  "floor_int x = (case x of Fin q \<Rightarrow> Inr \<lfloor>q\<rfloor>
     | NaN \<Rightarrow> Inl (ValueError ''cannot convert float NaN to integer'') | _ \<Rightarrow> Inl OverflowError)"

definition trunc_int :: "pyfloat \<Rightarrow> int res" where
  "trunc_int x = (case x of Fin q \<Rightarrow> Inr (if 0 \<le> q then \<lfloor>q\<rfloor> else \<lceil>q\<rceil>)
     | NaN \<Rightarrow> Inl (ValueError ''cannot convert float NaN to integer'') | _ \<Rightarrow> Inl OverflowError)"

section \<open>The rounding contract\<close>

text \<open>What the components use of the rounding: it keeps order, sign and the integers up to \<open>2 ^ 53\<close>.\<close>

locale rounding =
  fixes r :: "rat \<Rightarrow> rat"
  assumes mono: "x \<le> y \<Longrightarrow> r x \<le> r y"
    and odd: "r (- x) = - r x"
    and int_exact: "\<bar>m\<bar> \<le> 2 ^ 53 \<Longrightarrow> r (of_int m) = of_int m"
begin

lemma zero: "r 0 = 0"
  using int_exact[of 0] by simp

lemma one: "r 1 = 1"
  using int_exact[of 1] by simp

lemma nonneg: "0 \<le> x \<Longrightarrow> 0 \<le> r x"
  using mono[of 0 x] by (simp add: zero)

lemma nonpos: "x \<le> 0 \<Longrightarrow> r x \<le> 0"
  using mono[of x 0] by (simp add: zero)

lemma upper: "x \<le> of_int m \<Longrightarrow> \<bar>m\<bar> \<le> 2 ^ 53 \<Longrightarrow> r x \<le> of_int m"
  using mono[of x "of_int m"] by (simp add: int_exact)

lemma lower: "of_int m \<le> x \<Longrightarrow> \<bar>m\<bar> \<le> 2 ^ 53 \<Longrightarrow> of_int m \<le> r x"
  using mono[of "of_int m" x] by (simp add: int_exact)

lemma unit_interval: "0 \<le> x \<Longrightarrow> x \<le> 1 \<Longrightarrow> 0 \<le> r x \<and> r x \<le> 1"
  using nonneg mono[of x 1] by (simp add: one)

lemma abs_eq: "r \<bar>x\<bar> = \<bar>r x\<bar>"
  using nonneg[of x] nonpos[of x] by (cases "0 \<le> x") (simp_all add: odd)

end

interpretation binary64: rounding rnd
  by unfold_locales (auto simp: rnd_uminus intro: rnd_mono rnd_int)

lemma fround_not_NaN [simp]: "fround q \<noteq> NaN"
  by (simp add: fround_def Let_def)

lemma fround_Fin: "\<bar>rnd q\<bar> < 2 ^ 1024 \<Longrightarrow> fround q = Fin (rnd q)"
  by (auto simp: fround_def Let_def)

lemma fround_0 [simp]: "fround 0 = Fin 0"
  by (simp add: fround_Fin)

lemma two53_lt_2_1024: "(2::rat) ^ 53 < 2 ^ 1024"
  by (rule power_strict_increasing) simp_all

lemma fround_int:
  assumes "\<bar>m\<bar> \<le> 2 ^ 53"
  shows "fround (of_int m) = Fin (of_int m)"
proof -
  have "rat_of_int \<bar>m\<bar> \<le> of_int (2 ^ 53)" using assms by (simp only: of_int_le_iff)
  then have "\<bar>rat_of_int m\<bar> \<le> 2 ^ 53" by simp
  then have "\<bar>rat_of_int m\<bar> < 2 ^ 1024" using two53_lt_2_1024 by (rule le_less_trans)
  then show ?thesis using fround_Fin[of "of_int m"] by (simp only: rnd_int[OF assms])
qed

lemma fround_numeral [simp]:
  "(numeral n :: int) \<le> 2 ^ 53 \<Longrightarrow> fround (numeral n) = Fin (numeral n)"
  "(numeral n :: int) \<le> 2 ^ 53 \<Longrightarrow> fround (- numeral n) = Fin (- numeral n)"
  using fround_int[of "numeral n"] fround_int[of "- numeral n"] by simp_all

lemma fround_1 [simp]: "fround 1 = Fin 1" "fround (- 1) = Fin (- 1)"
  using fround_int[of 1] fround_int[of "- 1"] by simp_all

lemma fround_eval:
  assumes "u = 2 powi k" "- 1074 \<le> k" "k \<le> 970" "2 ^ 52 * u \<le> \<bar>q\<bar>" "\<bar>q\<bar> < 2 ^ 53 * u"
    and "\<bar>q - of_int m * u\<bar> < u / 2 \<or> \<bar>q - of_int m * u\<bar> = u / 2 \<and> even m" and "\<bar>m\<bar> \<le> 2 ^ 53"
  shows "fround q = Fin (of_int m * u)"
proof -
  have r: "rnd q = of_int m * u" using assms(1,2,4-6) by (rule rnd_eval)
  have u: "0 < u" using assms(1) by simp
  have "rat_of_int \<bar>m\<bar> \<le> of_int (2 ^ 53)" using assms(7) by (simp only: of_int_le_iff)
  then have "\<bar>of_int m * u\<bar> \<le> 2 ^ 53 * u" using u by (simp add: abs_mult)
  also have "\<dots> = 2 powi (k + 53)" unfolding assms(1) by (simp add: power_int_add)
  also have "\<dots> < 2 powi 1024" using assms(3) unfolding powi_less_cancel by linarith
  finally have "\<bar>rnd q\<bar> < 2 ^ 1024" by (simp add: r)
  then show ?thesis by (simp add: fround_Fin r)
qed

section \<open>Order and arithmetic laws\<close>

lemma flt_irrefl [simp]: "\<not> flt a a"
  by (cases a) simp_all

lemma flt_NaN [simp]: "\<not> flt NaN a" "\<not> flt a NaN"
  by (cases a; simp)+

lemma fle_NaN [simp]: "\<not> fle NaN a" "\<not> fle a NaN"
  by (simp_all add: fle_def feq_def)

lemma fle_Fin [simp]: "fle (Fin a) (Fin b) \<longleftrightarrow> a \<le> b"
  by (auto simp: fle_def feq_def)

lemma fle_inf [simp]:
  "fle a PosInf \<longleftrightarrow> a \<noteq> NaN" "fle NegInf a \<longleftrightarrow> a \<noteq> NaN"
  "fle PosInf a \<longleftrightarrow> a = PosInf" "fle a NegInf \<longleftrightarrow> a = NegInf"
  by (cases a; auto simp: fle_def feq_def)+

lemma fle_refl: "a \<noteq> NaN \<Longrightarrow> fle a a"
  by (simp add: fle_def feq_def)

lemma fle_trans: "fle a b \<Longrightarrow> fle b c \<Longrightarrow> fle a c"
  by (cases a; cases b; cases c) (auto simp: fle_def feq_def)

lemma flt_le_trans: "flt a b \<Longrightarrow> fle b c \<Longrightarrow> flt a c"
  by (cases a; cases b; cases c) (auto simp: fle_def feq_def)

lemma fle_lt_trans: "fle a b \<Longrightarrow> flt b c \<Longrightarrow> flt a c"
  by (cases a; cases b; cases c) (auto simp: fle_def feq_def)

lemma flt_trans: "flt a b \<Longrightarrow> flt b c \<Longrightarrow> flt a c"
  by (cases a; cases b; cases c) auto

lemma flt_imp_fle: "flt a b \<Longrightarrow> fle a b"
  by (simp add: fle_def)

lemma not_flt: "a \<noteq> NaN \<Longrightarrow> b \<noteq> NaN \<Longrightarrow> \<not> flt a b \<longleftrightarrow> fle b a"
  by (cases a; cases b) (auto simp: fle_def feq_def)

lemma not_fle: "a \<noteq> NaN \<Longrightarrow> b \<noteq> NaN \<Longrightarrow> \<not> fle a b \<longleftrightarrow> flt b a"
  by (cases a; cases b) (auto simp: fle_def feq_def)

lemma fround_mono: "x \<le> y \<Longrightarrow> fle (fround x) (fround y)"
  using rnd_mono[of x y] by (auto simp: fround_def Let_def fle_def feq_def)

lemma fround_le_int: "x \<le> of_int m \<Longrightarrow> \<bar>m\<bar> \<le> 2 ^ 53 \<Longrightarrow> fle (fround x) (Fin (of_int m))"
  using fround_mono[of x "of_int m"] by (simp add: fround_int)

lemma fround_ge_int: "of_int m \<le> x \<Longrightarrow> \<bar>m\<bar> \<le> 2 ^ 53 \<Longrightarrow> fle (Fin (of_int m)) (fround x)"
  using fround_mono[of "of_int m" x] by (simp add: fround_int)

lemma fround_nonneg: "0 \<le> x \<Longrightarrow> fle (Fin 0) (fround x)"
  using fround_mono[of 0 x] by simp

lemma fmax_ge1: "a \<noteq> NaN \<Longrightarrow> fle a (fmax a b)"
  by (simp add: fmax_def flt_imp_fle fle_refl)

lemma fmax_ge2: "a \<noteq> NaN \<Longrightarrow> b \<noteq> NaN \<Longrightarrow> fle b (fmax a b)"
  by (auto simp: fmax_def not_flt fle_refl)

lemma fmin_le1: "a \<noteq> NaN \<Longrightarrow> fle (fmin a b) a"
  by (simp add: fmin_def flt_imp_fle fle_refl)

lemma fmin_le2: "a \<noteq> NaN \<Longrightarrow> b \<noteq> NaN \<Longrightarrow> fle (fmin a b) b"
  by (auto simp: fmin_def not_flt fle_refl)

lemma fmax_cases: "fmax a b = a \<or> fmax a b = b"
  by (simp add: fmax_def)

lemma fmin_cases: "fmin a b = a \<or> fmin a b = b"
  by (simp add: fmin_def)

lemma fadd_NaN [simp]: "fadd NaN a = NaN" "fadd a NaN = NaN"
  by (cases a; simp)+

lemma fsub_Fin [simp]: "fsub (Fin a) (Fin b) = fround (a - b)"
  by (simp add: fsub_def)


text \<open>Not negative (NaN included) is kept by sums, products and quotients.\<close>

definition fnonneg :: "pyfloat \<Rightarrow> bool" where
  "fnonneg x = (\<not> flt x (Fin 0))"

lemma fnonneg_simps [simp]:
  "fnonneg (Fin q) \<longleftrightarrow> 0 \<le> q" "fnonneg PosInf" "fnonneg NaN" "\<not> fnonneg NegInf"
  by (auto simp: fnonneg_def)

lemma fnonneg_fround: "0 \<le> q \<Longrightarrow> fnonneg (fround q)"
  using binary64.nonneg[of q] by (auto simp: fround_def Let_def)

lemma fnonneg_fadd: "fnonneg a \<Longrightarrow> fnonneg b \<Longrightarrow> fnonneg (fadd a b)"
  by (cases a; cases b) (simp_all add: fnonneg_fround)

lemma fnonneg_fmul: "fnonneg a \<Longrightarrow> fnonneg b \<Longrightarrow> fnonneg (fmul a b)"
  by (cases a; cases b) (auto simp: fnonneg_fround inf_times_def)

lemma fnonneg_fdiv: "fnonneg a \<Longrightarrow> fnonneg b \<Longrightarrow> fnonneg (fdiv a b)"
  by (cases a; cases b) (auto simp: fnonneg_fround inf_times_def)

lemma fnonneg_fsub: "\<not> flt a b \<Longrightarrow> fnonneg (fsub a b)"
  by (cases a; cases b) (auto simp: fnonneg_fround fsub_def)

lemma fnonneg_fle: "fnonneg x \<Longrightarrow> x \<noteq> NaN \<Longrightarrow> fle (Fin 0) x"
  by (simp add: fnonneg_def not_flt)

lemma fnonneg_fmax: "fnonneg a \<Longrightarrow> fnonneg (fmax a b)"
  using flt_trans[of b "Fin 0"] by (cases a; cases b) (auto simp: fmax_def)

text \<open>\<open>round(x, n)\<close> stays between integers.\<close>

lemma fround_to_bounds:
  assumes "fle (Fin (of_int a)) x" and "fle x (Fin (of_int b))" and "\<bar>a\<bar> \<le> 2 ^ 53" and "\<bar>b\<bar> \<le> 2 ^ 53"
  shows "fle (Fin (of_int a)) (fround_to x n) \<and> fle (fround_to x n) (Fin (of_int b))"
proof -
  obtain q where q: "x = Fin q" "of_int a \<le> q" "q \<le> of_int b" using assms(1,2) by (cases x) auto
  have "rhe (of_int (a * 10 ^ n)) \<le> rhe (q * 10 ^ n)" "rhe (q * 10 ^ n) \<le> rhe (of_int (b * 10 ^ n))"
    using q by (intro rhe_mono; simp add: mult_right_mono)+
  then have i: "a * 10 ^ n \<le> rhe (q * 10 ^ n)" "rhe (q * 10 ^ n) \<le> b * 10 ^ n" by (simp_all only: rhe_of_int)
  have "rat_of_int (a * 10 ^ n) \<le> of_int (rhe (q * 10 ^ n))" "rat_of_int (rhe (q * 10 ^ n)) \<le> of_int (b * 10 ^ n)"
    using i by (simp_all only: of_int_le_iff)
  then have "rat_of_int a \<le> of_int (rhe (q * 10 ^ n)) / 10 ^ n" "of_int (rhe (q * 10 ^ n)) / 10 ^ n \<le> rat_of_int b"
    by (simp_all add: field_simps)
  then show ?thesis using fround_ge_int fround_le_int assms(3,4) by (simp add: q(1))
qed

text \<open>A rounded number is on the grid, so rounding it again changes nothing.\<close>

lemma rnd_on_grid:
  assumes "q \<noteq> 0"
  shows "\<exists>m k. rnd q = of_int m * 2 powi k \<and> \<bar>m\<bar> \<le> 2 ^ 53 \<and> - 1074 \<le> k"
proof -
  define k where "k = quantum q"
  have k: "- 1074 \<le> k" "ilog2 \<bar>q\<bar> + 1 \<le> k + 53" by (simp_all add: k_def quantum_def)
  have "\<bar>q\<bar> < 2 powi (ilog2 \<bar>q\<bar> + 1)" using ilog2_bounds[of "\<bar>q\<bar>"] assms by simp
  also have "\<dots> \<le> 2 powi (k + 53)" using k(2) by (simp add: powi_le_cancel)
  also have "\<dots> = 2 powi k * 2 ^ 53" by (simp add: power_int_add)
  finally have "\<bar>q\<bar> \<le> 2 powi k * 2 ^ 53" by simp
  then have "- (2 ^ 53) \<le> q / 2 powi k" "q / 2 powi k \<le> 2 ^ 53"
    by (auto simp: abs_le_iff field_simps)
  from rhe_mono[OF this(1)] rhe_mono[OF this(2)] have "\<bar>rhe (q / 2 powi k)\<bar> \<le> 2 ^ 53"
    using rhe_of_int[of "2 ^ 53"] rhe_of_int[of "- (2 ^ 53)"] by (simp add: abs_le_iff)
  moreover have "rnd q = of_int (rhe (q / 2 powi k)) * 2 powi k" using assms by (simp add: rnd_def grid_def k_def)
  ultimately show ?thesis using k(1) by blast
qed

lemma rnd_idem [simp]: "rnd (rnd q) = rnd q"
proof (cases "q = 0")
  case False
  from rnd_on_grid[OF this] obtain m k where "rnd q = of_int m * 2 powi k" "\<bar>m\<bar> \<le> 2 ^ 53" "- 1074 \<le> k" by blast
  then show ?thesis using rnd_exact by simp
qed simp

lemma fround_idem: "fround q = Fin r \<Longrightarrow> fround r = Fin r"
  by (auto simp: fround_def Let_def split: if_splits)

end
