(* ===== verification/Py_Text.thy ===== *)
theory Py_Text
  imports Py_Float
begin

text \<open>
  The \<open>str\<close> operations the sources use, on ASCII text (\<open>string\<close> is a list of characters):
  \<open>strip\<close>, \<open>lower\<close>, \<open>upper\<close>, \<open>isalnum\<close>, \<open>startswith\<close>, \<open>endswith\<close>, \<open>replace\<close> of one character,
  \<open>split\<close> with a limit, \<open>join\<close>, decimal numerals and the fixed-point format \<open>f"{x:.nf}"\<close>.
\<close>

section \<open>Characters\<close>

definition ord_of :: "char \<Rightarrow> nat" where
  "ord_of c = of_char c"

definition is_space :: "char \<Rightarrow> bool" where
  "is_space c = (let n = ord_of c in (9 \<le> n \<and> n \<le> 13) \<or> (28 \<le> n \<and> n \<le> 32))"

definition is_digit :: "char \<Rightarrow> bool" where
  "is_digit c = (48 \<le> ord_of c \<and> ord_of c \<le> 57)"

definition is_upper :: "char \<Rightarrow> bool" where
  "is_upper c = (65 \<le> ord_of c \<and> ord_of c \<le> 90)"

definition is_lower :: "char \<Rightarrow> bool" where
  "is_lower c = (97 \<le> ord_of c \<and> ord_of c \<le> 122)"

definition is_alnum :: "char \<Rightarrow> bool" where
  "is_alnum c = (is_digit c \<or> is_upper c \<or> is_lower c)"

definition lower_char :: "char \<Rightarrow> char" where
  "lower_char c = (if is_upper c then char_of (ord_of c + 32) else c)"

definition upper_char :: "char \<Rightarrow> char" where
  "upper_char c = (if is_lower c then char_of (ord_of c - 32) else c)"

lemma ord_char_of: "n < 256 \<Longrightarrow> ord_of (char_of n) = n"
  by (simp add: ord_of_def)

lemma is_upper_lower_char [simp]: "\<not> is_upper (lower_char c)"
  by (auto simp: lower_char_def is_upper_def ord_char_of)

lemma lower_char_idem [simp]: "lower_char (lower_char c) = lower_char c"
  using is_upper_lower_char[of c] by (simp add: lower_char_def)

lemma is_lower_upper_char [simp]: "\<not> is_lower (upper_char c)"
  by (auto simp: upper_char_def is_lower_def ord_char_of)

lemma upper_char_idem [simp]: "upper_char (upper_char c) = upper_char c"
  using is_lower_upper_char[of c] by (simp add: upper_char_def)

lemma is_space_lower_char [simp]: "is_space (lower_char c) = is_space c"
  by (auto simp: lower_char_def is_upper_def is_space_def Let_def ord_char_of)

section \<open>Strings\<close>

definition str_lower :: "string \<Rightarrow> string" where
  "str_lower s = map lower_char s"

definition str_upper :: "string \<Rightarrow> string" where
  "str_upper s = map upper_char s"

definition strip_by :: "(char \<Rightarrow> bool) \<Rightarrow> string \<Rightarrow> string" where
  "strip_by p s = rev (dropWhile p (rev (dropWhile p s)))"

definition str_strip :: "string \<Rightarrow> string" where
  "str_strip s = strip_by is_space s"

definition startswith :: "string \<Rightarrow> string \<Rightarrow> bool" where
  "startswith s p = (take (length p) s = p)"

definition endswith :: "string \<Rightarrow> string \<Rightarrow> bool" where
  "endswith s p = startswith (rev s) (rev p)"

definition remove_char :: "char \<Rightarrow> string \<Rightarrow> string" where
  "remove_char c s = filter (\<lambda>x. x \<noteq> c) s"

text \<open>\<open>s.split(c, n)\<close>: at most \<open>n\<close> cuts, at the leftmost occurrences.\<close>

fun split_max :: "char \<Rightarrow> nat \<Rightarrow> string \<Rightarrow> string list" where
  "split_max c n [] = [[]]"
| "split_max c n (x # xs) =
     (if x = c \<and> 0 < n then [] # split_max c (n - 1) xs
      else (case split_max c n xs of [] \<Rightarrow> [[x]] | y # ys \<Rightarrow> (x # y) # ys))"

fun join_with :: "string \<Rightarrow> string list \<Rightarrow> string" where
  "join_with sep [] = []"
| "join_with sep [x] = x"
| "join_with sep (x # y # zs) = x @ sep @ join_with sep (y # zs)"

lemma strip_by_map:
  assumes "\<And>c. p (f c) = p c"
  shows "strip_by p (map f s) = map f (strip_by p s)"
  using assms by (simp add: strip_by_def dropWhile_map rev_map comp_def)

lemma dropWhile_idem: "dropWhile p (dropWhile p xs) = dropWhile p xs"
  by (induction xs) simp_all

lemma hd_dropWhile_rev:
  "xs = [] \<or> \<not> p (hd xs) \<Longrightarrow>
   rev (dropWhile p (rev xs)) = [] \<or> \<not> p (hd (rev (dropWhile p (rev xs))))"
proof (induction xs rule: rev_induct)
  case Nil
  then show ?case by simp
next
  case (snoc x xs)
  then show ?case by (cases xs) auto
qed

lemma strip_by_idem: "strip_by p (strip_by p s) = strip_by p s"
proof -
  let ?t = "strip_by p s"
  have "dropWhile p s = [] \<or> \<not> p (hd (dropWhile p s))"
    by (induction s) auto
  then have "?t = [] \<or> \<not> p (hd ?t)"
    unfolding strip_by_def by (rule hd_dropWhile_rev)
  then have "dropWhile p ?t = ?t" by (cases ?t) auto
  then show ?thesis
    unfolding strip_by_def[of p ?t] by (simp add: strip_by_def dropWhile_idem)
qed

lemma str_strip_lower: "str_strip (str_lower s) = str_lower (str_strip s)"
  unfolding str_strip_def str_lower_def by (rule strip_by_map) simp

lemma str_strip_idem [simp]: "str_strip (str_strip s) = str_strip s"
  by (simp add: str_strip_def strip_by_idem)

lemma str_lower_idem [simp]: "str_lower (str_lower s) = str_lower s"
  by (simp add: str_lower_def)

lemma str_upper_idem [simp]: "str_upper (str_upper s) = str_upper s"
  by (simp add: str_upper_def)

lemma split_max_nonempty [simp]: "split_max c n s \<noteq> []"
  by (induction c n s rule: split_max.induct) (auto split: list.splits)

lemma split_max_0: "split_max c 0 s = [s]"
  by (induction s) simp_all

lemma split_max_free: "c \<notin> set s \<Longrightarrow> split_max c n s = [s]"
  by (induction s) auto

lemma split_max_append:
  "c \<notin> set a \<Longrightarrow> split_max c (Suc n) (a @ c # b) = a # split_max c n b"
  by (induction a) auto

section \<open>Numerals\<close>

fun nat_digits :: "nat \<Rightarrow> string" where
  "nat_digits n =
     (if n < 10 then [char_of (n + 48)] else nat_digits (n div 10) @ [char_of (n mod 10 + 48)])"

declare nat_digits.simps [simp del]

definition str_of_int :: "int \<Rightarrow> string" where
  "str_of_int n = (if n < 0 then ''-'' @ nat_digits (nat (- n)) else nat_digits (nat n))"

definition pad_left :: "nat \<Rightarrow> string \<Rightarrow> string" where
  "pad_left w s = replicate (w - length s) CHR ''0'' @ s"

text \<open>\<open>f"{x:.nf}"\<close>: \<open>n\<close> decimals, the exact value rounded half to even.\<close>

definition fmt_fixed :: "nat \<Rightarrow> pyfloat \<Rightarrow> string" where
  "fmt_fixed n x =
     (case x of
        Fin q \<Rightarrow>
          (let m = nat (rhe (\<bar>q\<bar> * 10 ^ n));
               body = nat_digits (m div 10 ^ n) @
                 (if n = 0 then [] else ''.'' @ pad_left n (nat_digits (m mod 10 ^ n)))
           in (if q < 0 then ''-'' else []) @ body)
      | PosInf \<Rightarrow> ''inf'' | NegInf \<Rightarrow> ''-inf'' | NaN \<Rightarrow> ''nan'')"

lemma nat_digits_digit: "c \<in> set (nat_digits n) \<Longrightarrow> is_digit c"
proof (induction n rule: nat_digits.induct)
  case (1 n)
  show ?case
  proof (cases "n < 10")
    case True
    then show ?thesis using "1.prems"
      by (auto simp: nat_digits.simps[of n] is_digit_def ord_char_of)
  next
    case False
    then have "c \<in> set (nat_digits (n div 10)) \<or> c = char_of (n mod 10 + 48)"
      using "1.prems" by (auto simp: nat_digits.simps[of n])
    then show ?thesis
      using "1.IH"[OF False] by (auto simp: is_digit_def ord_char_of)
  qed
qed

text \<open>\<open>int(s)\<close> on a decimal numeral: blanks around it, a sign, underscores between digits.\<close>

definition digit_val :: "char \<Rightarrow> nat" where
  "digit_val c = ord_of c - 48"

fun parse_digits :: "nat \<Rightarrow> string \<Rightarrow> nat option" where
  "parse_digits acc [] = Some acc"
| "parse_digits acc [c] = (if is_digit c then Some (acc * 10 + digit_val c) else None)"
| "parse_digits acc (c # d # cs) =
     (if \<not> is_digit c then None
      else if d = CHR ''_'' then (if cs = [] then None else parse_digits (acc * 10 + digit_val c) cs)
      else parse_digits (acc * 10 + digit_val c) (d # cs))"

definition parse_int :: "string \<Rightarrow> int option" where
  "parse_int s =
     (case str_strip s of
        [] \<Rightarrow> None
      | c # cs \<Rightarrow>
          if c = CHR ''-'' then (if cs = [] then None else map_option (\<lambda>n. - int n) (parse_digits 0 cs))
          else if c = CHR ''+'' then (if cs = [] then None else map_option int (parse_digits 0 cs))
          else map_option int (parse_digits 0 (c # cs)))"

lemma parse_digits_no_underscore:
  "\<forall>c\<in>set s. is_digit c \<Longrightarrow> parse_digits acc s = Some (foldl (\<lambda>a c. a * 10 + digit_val c) acc s)"
proof (induction acc s rule: parse_digits.induct)
  case (3 acc c d cs)
  then have "d \<noteq> CHR ''_''" by (auto simp: is_digit_def ord_of_def)
  with 3 show ?case by simp
qed simp_all

lemma foldl_nat_digits: "foldl (\<lambda>a c. a * 10 + digit_val c) 0 (nat_digits n) = n"
proof (induction n rule: nat_digits.induct)
  case (1 n)
  show ?case
  proof (cases "n < 10")
    case True
    then show ?thesis by (simp add: nat_digits.simps[of n] digit_val_def ord_char_of)
  next
    case False
    with "1.IH" show ?thesis by (simp add: nat_digits.simps[of n] digit_val_def ord_char_of)
  qed
qed

lemma nat_digits_nonempty [simp]: "nat_digits n \<noteq> []"
  by (subst nat_digits.simps) simp

lemma nat_digits_inj: "nat_digits m = nat_digits n \<Longrightarrow> m = n"
  by (metis foldl_nat_digits)

text \<open>Printing a number and reading it back is the identity.\<close>

lemma parse_int_nat_digits: "parse_int (nat_digits n) = Some (int n)"
proof -
  have dig: "\<forall>c\<in>set (nat_digits n). is_digit c" using nat_digits_digit by blast
  have nsp: "\<not> is_space c" if "is_digit c" for c
    using that by (auto simp: is_digit_def is_space_def Let_def)
  have strip: "str_strip (nat_digits n) = nat_digits n"
    unfolding str_strip_def strip_by_def
    by (metis dig dropWhile_eq_self_iff hd_in_set hd_rev last_in_set nat_digits_nonempty nsp rev_is_Nil_conv rev_rev_ident)
  obtain c cs where c: "nat_digits n = c # cs" by (cases "nat_digits n") simp_all
  then have "is_digit c" using dig by simp
  then have "c \<noteq> CHR ''-''" "c \<noteq> CHR ''+''" by (auto simp: is_digit_def ord_of_def)
  moreover have "parse_digits 0 (c # cs) = Some n"
    using parse_digits_no_underscore[of "c # cs" 0] dig foldl_nat_digits[of n] by (simp add: c)
  ultimately show ?thesis by (simp add: parse_int_def strip[unfolded c] c)
qed

end
