(* ===== verification/Py_Literals.thy ===== *)
theory Py_Literals
  imports Py_Float
begin

text \<open>
  The decimal literals of the sources as the doubles Python reads them as; each equation is the
  rounding of one rational, checked by the kernel through \<open>fround_eval\<close>.
\<close>

named_theorems dec_lits "values of the decimal literals"

lemma dec_m2_100 [dec_lits]: "dec (- 2) 100 = Fin (- 5764607523034235 / 288230376151711744)"
  using fround_eval[of "1 / 2 ^ 58" "- 58" "- 1 / 50" "- 5764607523034235"]
  by (simp add: dec_def power_int_def power_one_over)

lemma dec_m5_100 [dec_lits]: "dec (- 5) 100 = Fin (- 3602879701896397 / 72057594037927936)"
  using fround_eval[of "1 / 2 ^ 57" "- 57" "- 1 / 20" "- 7205759403792794"]
  by (simp add: dec_def power_int_def power_one_over)

lemma dec_m75_100 [dec_lits]: "dec (- 75) 100 = Fin (- 3 / 4)"
  using fround_eval[of "1 / 2 ^ 53" "- 53" "- 3 / 4" "- 6755399441055744"]
  by (simp add: dec_def power_int_def power_one_over)

lemma dec_1_100 [dec_lits]: "dec 1 100 = Fin (5764607523034235 / 576460752303423488)"
  using fround_eval[of "1 / 2 ^ 59" "- 59" "1 / 100" "5764607523034235"]
  by (simp add: dec_def power_int_def power_one_over)

lemma dec_1_1000 [dec_lits]: "dec 1 1000 = Fin (1152921504606847 / 1152921504606846976)"
  using fround_eval[of "1 / 2 ^ 62" "- 62" "1 / 1000" "4611686018427388"]
  by (simp add: dec_def power_int_def power_one_over)

lemma dec_1_1000000 [dec_lits]: "dec 1 1000000 = Fin (4722366482869645 / 4722366482869645213696)"
  using fround_eval[of "1 / 2 ^ 72" "- 72" "1 / 1000000" "4722366482869645"]
  by (simp add: dec_def power_int_def power_one_over)

lemma dec_1_100000000 [dec_lits]: "dec 1 100000000 = Fin (3022314549036573 / 302231454903657293676544)"
  using fround_eval[of "1 / 2 ^ 79" "- 79" "1 / 100000000" "6044629098073146"]
  by (simp add: dec_def power_int_def power_one_over)

lemma dec_12_10 [dec_lits]: "dec 12 10 = Fin (5404319552844595 / 4503599627370496)"
  using fround_eval[of "1 / 2 ^ 52" "- 52" "6 / 5" "5404319552844595"]
  by (simp add: dec_def power_int_def power_one_over)

lemma dec_12_100 [dec_lits]: "dec 12 100 = Fin (1080863910568919 / 9007199254740992)"
  using fround_eval[of "1 / 2 ^ 56" "- 56" "3 / 25" "8646911284551352"]
  by (simp add: dec_def power_int_def power_one_over)

lemma dec_14_10 [dec_lits]: "dec 14 10 = Fin (3152519739159347 / 2251799813685248)"
  using fround_eval[of "1 / 2 ^ 52" "- 52" "7 / 5" "6305039478318694"]
  by (simp add: dec_def power_int_def power_one_over)

lemma dec_15_100 [dec_lits]: "dec 15 100 = Fin (5404319552844595 / 36028797018963968)"
  using fround_eval[of "1 / 2 ^ 55" "- 55" "3 / 20" "5404319552844595"]
  by (simp add: dec_def power_int_def power_one_over)

lemma dec_16_10 [dec_lits]: "dec 16 10 = Fin (3602879701896397 / 2251799813685248)"
  using fround_eval[of "1 / 2 ^ 52" "- 52" "8 / 5" "7205759403792794"]
  by (simp add: dec_def power_int_def power_one_over)

lemma dec_17_10 [dec_lits]: "dec 17 10 = Fin (7656119366529843 / 4503599627370496)"
  using fround_eval[of "1 / 2 ^ 52" "- 52" "17 / 10" "7656119366529843"]
  by (simp add: dec_def power_int_def power_one_over)

lemma dec_18_100 [dec_lits]: "dec 18 100 = Fin (3242591731706757 / 18014398509481984)"
  using fround_eval[of "1 / 2 ^ 55" "- 55" "9 / 50" "6485183463413514"]
  by (simp add: dec_def power_int_def power_one_over)

lemma dec_2_100 [dec_lits]: "dec 2 100 = Fin (5764607523034235 / 288230376151711744)"
  using fround_eval[of "1 / 2 ^ 58" "- 58" "1 / 50" "5764607523034235"]
  by (simp add: dec_def power_int_def power_one_over)

lemma dec_20_100 [dec_lits]: "dec 20 100 = Fin (3602879701896397 / 18014398509481984)"
  using fround_eval[of "1 / 2 ^ 55" "- 55" "1 / 5" "7205759403792794"]
  by (simp add: dec_def power_int_def power_one_over)

lemma dec_24_10 [dec_lits]: "dec 24 10 = Fin (5404319552844595 / 2251799813685248)"
  using fround_eval[of "1 / 2 ^ 51" "- 51" "12 / 5" "5404319552844595"]
  by (simp add: dec_def power_int_def power_one_over)

lemma dec_35_100 [dec_lits]: "dec 35 100 = Fin (3152519739159347 / 9007199254740992)"
  using fround_eval[of "1 / 2 ^ 54" "- 54" "7 / 20" "6305039478318694"]
  by (simp add: dec_def power_int_def power_one_over)

lemma dec_4_10 [dec_lits]: "dec 4 10 = Fin (3602879701896397 / 9007199254740992)"
  using fround_eval[of "1 / 2 ^ 54" "- 54" "2 / 5" "7205759403792794"]
  by (simp add: dec_def power_int_def power_one_over)

lemma dec_4_1000 [dec_lits]: "dec 4 1000 = Fin (1152921504606847 / 288230376151711744)"
  using fround_eval[of "1 / 2 ^ 60" "- 60" "1 / 250" "4611686018427388"]
  by (simp add: dec_def power_int_def power_one_over)

lemma dec_45_100 [dec_lits]: "dec 45 100 = Fin (8106479329266893 / 18014398509481984)"
  using fround_eval[of "1 / 2 ^ 54" "- 54" "9 / 20" "8106479329266893"]
  by (simp add: dec_def power_int_def power_one_over)

lemma dec_5_100 [dec_lits]: "dec 5 100 = Fin (3602879701896397 / 72057594037927936)"
  using fround_eval[of "1 / 2 ^ 57" "- 57" "1 / 20" "7205759403792794"]
  by (simp add: dec_def power_int_def power_one_over)

lemma dec_50_100 [dec_lits]: "dec 50 100 = Fin (1 / 2)"
  using fround_eval[of "1 / 2 ^ 53" "- 53" "1 / 2" "4503599627370496"]
  by (simp add: dec_def power_int_def power_one_over)

lemma dec_55_100 [dec_lits]: "dec 55 100 = Fin (2476979795053773 / 4503599627370496)"
  using fround_eval[of "1 / 2 ^ 53" "- 53" "11 / 20" "4953959590107546"]
  by (simp add: dec_def power_int_def power_one_over)

lemma dec_6_10 [dec_lits]: "dec 6 10 = Fin (5404319552844595 / 9007199254740992)"
  using fround_eval[of "1 / 2 ^ 53" "- 53" "3 / 5" "5404319552844595"]
  by (simp add: dec_def power_int_def power_one_over)

lemma dec_62_100 [dec_lits]: "dec 62 100 = Fin (5584463537939415 / 9007199254740992)"
  using fround_eval[of "1 / 2 ^ 53" "- 53" "31 / 50" "5584463537939415"]
  by (simp add: dec_def power_int_def power_one_over)

lemma dec_65_100 [dec_lits]: "dec 65 100 = Fin (5854679515581645 / 9007199254740992)"
  using fround_eval[of "1 / 2 ^ 53" "- 53" "13 / 20" "5854679515581645"]
  by (simp add: dec_def power_int_def power_one_over)

lemma dec_68_100 [dec_lits]: "dec 68 100 = Fin (6124895493223875 / 9007199254740992)"
  using fround_eval[of "1 / 2 ^ 53" "- 53" "17 / 25" "6124895493223875"]
  by (simp add: dec_def power_int_def power_one_over)

lemma dec_7_10 [dec_lits]: "dec 7 10 = Fin (3152519739159347 / 4503599627370496)"
  using fround_eval[of "1 / 2 ^ 53" "- 53" "7 / 10" "6305039478318694"]
  by (simp add: dec_def power_int_def power_one_over)

lemma dec_8_10 [dec_lits]: "dec 8 10 = Fin (3602879701896397 / 4503599627370496)"
  using fround_eval[of "1 / 2 ^ 53" "- 53" "4 / 5" "7205759403792794"]
  by (simp add: dec_def power_int_def power_one_over)

lemma dec_8_100 [dec_lits]: "dec 8 100 = Fin (5764607523034235 / 72057594037927936)"
  using fround_eval[of "1 / 2 ^ 56" "- 56" "2 / 25" "5764607523034235"]
  by (simp add: dec_def power_int_def power_one_over)

lemma dec_9_10 [dec_lits]: "dec 9 10 = Fin (8106479329266893 / 9007199254740992)"
  using fround_eval[of "1 / 2 ^ 53" "- 53" "9 / 10" "8106479329266893"]
  by (simp add: dec_def power_int_def power_one_over)

lemma dec_95_100 [dec_lits]: "dec 95 100 = Fin (4278419646001971 / 4503599627370496)"
  using fround_eval[of "1 / 2 ^ 53" "- 53" "19 / 20" "8556839292003942"]
  by (simp add: dec_def power_int_def power_one_over)

lemma dec_995_1000 [dec_lits]: "dec 995 1000 = Fin (8962163258467287 / 9007199254740992)"
  using fround_eval[of "1 / 2 ^ 53" "- 53" "199 / 200" "8962163258467287"]
  by (simp add: dec_def power_int_def power_one_over)

lemma dec_999_1000 [dec_lits]: "dec 999 1000 = Fin (8998192055486251 / 9007199254740992)"
  using fround_eval[of "1 / 2 ^ 53" "- 53" "999 / 1000" "8998192055486251"]
  by (simp add: dec_def power_int_def power_one_over)

lemma dec_15_1000 [dec_lits]: "dec 15 1000 = Fin (1080863910568919 / 72057594037927936)"
  using fround_eval[of "1 / 2 ^ 59" "- 59" "3 / 200" "8646911284551352"]
  by (simp add: dec_def power_int_def power_one_over)

lemma dec_25_100 [dec_lits]: "dec 25 100 = Fin (1 / 4)"
  using fround_eval[of "1 / 2 ^ 54" "- 54" "1 / 4" "4503599627370496"]
  by (simp add: dec_def power_int_def power_one_over)

lemma dec_15_10 [dec_lits]: "dec 15 10 = Fin (3 / 2)"
  using fround_eval[of "1 / 2 ^ 52" "- 52" "3 / 2" "6755399441055744"]
  by (simp add: dec_def power_int_def power_one_over)

lemma dec_1_10 [dec_lits]: "dec 1 10 = Fin (3602879701896397 / 36028797018963968)"
  using fround_eval[of "1 / 2 ^ 56" "- 56" "1 / 10" "7205759403792794"]
  by (simp add: dec_def power_int_def power_one_over)

lemma dec_55_1000 [dec_lits]: "dec 55 1000 = Fin (7926335344172073 / 144115188075855872)"
  using fround_eval[of "1 / 2 ^ 57" "- 57" "11 / 200" "7926335344172073"]
  by (simp add: dec_def power_int_def power_one_over)

lemma dec_72_100 [dec_lits]: "dec 72 100 = Fin (3242591731706757 / 4503599627370496)"
  using fround_eval[of "1 / 2 ^ 53" "- 53" "18 / 25" "6485183463413514"]
  by (simp add: dec_def power_int_def power_one_over)

lemma dec_66_100 [dec_lits]: "dec 66 100 = Fin (5944751508129055 / 9007199254740992)"
  using fround_eval[of "1 / 2 ^ 53" "- 53" "33 / 50" "5944751508129055"]
  by (simp add: dec_def power_int_def power_one_over)

lemma dec_2_10 [dec_lits]: "dec 2 10 = Fin (3602879701896397 / 18014398509481984)"
  using fround_eval[of "1 / 2 ^ 55" "- 55" "1 / 5" "7205759403792794"]
  by (simp add: dec_def power_int_def power_one_over)

lemma dec_3_10 [dec_lits]: "dec 3 10 = Fin (5404319552844595 / 18014398509481984)"
  using fround_eval[of "1 / 2 ^ 54" "- 54" "3 / 10" "5404319552844595"]
  by (simp add: dec_def power_int_def power_one_over)

lemma dec_5_10 [dec_lits]: "dec 5 10 = Fin (1 / 2)"
  using fround_eval[of "1 / 2 ^ 53" "- 53" "1 / 2" "4503599627370496"]
  by (simp add: dec_def power_int_def power_one_over)

lemma dec_11_10 [dec_lits]: "dec 11 10 = Fin (2476979795053773 / 2251799813685248)"
  using fround_eval[of "1 / 2 ^ 52" "- 52" "11 / 10" "4953959590107546"]
  by (simp add: dec_def power_int_def power_one_over)

lemma dec_45_1000 [dec_lits]: "dec 45 1000 = Fin (3242591731706757 / 72057594037927936)"
  using fround_eval[of "1 / 2 ^ 57" "- 57" "9 / 200" "6485183463413514"]
  by (simp add: dec_def power_int_def power_one_over)

lemma dec_18_10 [dec_lits]: "dec 18 10 = Fin (8106479329266893 / 4503599627370496)"
  using fround_eval[of "1 / 2 ^ 52" "- 52" "9 / 5" "8106479329266893"]
  by (simp add: dec_def power_int_def power_one_over)

lemma dec_82_100 [dec_lits]: "dec 82 100 = Fin (7385903388887613 / 9007199254740992)"
  using fround_eval[of "1 / 2 ^ 53" "- 53" "41 / 50" "7385903388887613"]
  by (simp add: dec_def power_int_def power_one_over)

lemma dec_m8_100 [dec_lits]: "dec (- 8) 100 = Fin (- 5764607523034235 / 72057594037927936)"
  using fround_eval[of "1 / 2 ^ 56" "- 56" "- 2 / 25" "- 5764607523034235"]
  by (simp add: dec_def power_int_def power_one_over)

lemma dec_25_1000 [dec_lits]: "dec 25 1000 = Fin (3602879701896397 / 144115188075855872)"
  using fround_eval[of "1 / 2 ^ 58" "- 58" "1 / 40" "7205759403792794"]
  by (simp add: dec_def power_int_def power_one_over)

lemma dec_4_100 [dec_lits]: "dec 4 100 = Fin (5764607523034235 / 144115188075855872)"
  using fround_eval[of "1 / 2 ^ 57" "- 57" "1 / 25" "5764607523034235"]
  by (simp add: dec_def power_int_def power_one_over)

lemma dec_1_10000 [dec_lits]: "dec 1 10000 = Fin (7378697629483821 / 73786976294838206464)"
  using fround_eval[of "1 / 2 ^ 66" "- 66" "1 / 10000" "7378697629483821"]
  by (simp add: dec_def power_int_def power_one_over)

end
