(* ===== verification/Core_Model.thy ===== *)
theory Core_Model
  imports Py_Text Py_Literals
begin

text \<open>
  The data of \<open>aegis_trader/core\<close> (\<open>enums.py\<close>, \<open>events.py\<close>), \<open>aegis_trader/market_data/models.py\<close>
  and the snapshots the trading pipeline passes between its engines. Field names carry a short
  prefix because record fields share one name space. Times are instants: microseconds since
  1970-01-01T00:00:00 UTC.
\<close>

type_synonym instant = int

section \<open>Enumerations\<close>

datatype trading_mode = WATCH_MODE | PAPER_MODE | LIVE_MODE

datatype event_type =
    MARKET_TICK | ORDERBOOK_UPDATE | TRADE_UPDATE | BAR_CLOSED | FEATURE_UPDATE | REGIME_UPDATE
  | ORDERFLOW_UPDATE | SIGNAL_GENERATED | DA_VERDICT | ORDER_CREATED | ORDER_FILLED
  | POSITION_UPDATED | RISK_ALERT | KILL_SWITCH

datatype market_regime =
    TRENDING_UP | TRENDING_DOWN | CHOPPY | COMPRESSION | EXPANSION | PANIC | MEAN_REVERT

datatype session_phase = ASIA_GRIND | LONDON_OPEN | OVERLAP_ACTIVE | NY_AFTERNOON | DEAD_ZONE

datatype order_state =
    CREATED | VALIDATED | SUBMITTED | ACKNOWLEDGED | PARTIALLY_FILLED | FILLED | CANCELLED
  | REJECTED | EXPIRED

datatype certification_state = CERTIFIED | CONDITIONAL | CERT_REJECTED

section \<open>Events, signals and decisions\<close>

record 'p event =
  ev_id :: string
  ev_type :: event_type
  ev_sequence :: int
  ev_timestamp :: instant
  ev_symbol :: "string option"
  ev_payload :: 'p
  ev_replay :: bool

definition with_sequence :: "'p event \<Rightarrow> int \<Rightarrow> 'p event" where
  "with_sequence e n = e\<lparr>ev_sequence := n\<rparr>"

record signal =
  sg_strategy :: string
  sg_symbol :: string
  sg_side :: string
  sg_confidence :: pyfloat
  sg_entry_price :: pyfloat
  sg_stop_price :: pyfloat
  sg_take_profit_price :: pyfloat
  sg_notional :: pyfloat
  sg_reason :: string

record da_verdict =
  da_concern_score :: pyfloat
  da_veto :: bool
  da_size_multiplier :: pyfloat
  da_reasons :: "string list"

record risk_decision =
  rd_approved :: bool
  rd_reason :: string
  rd_adjusted_notional :: pyfloat
  rd_kill_switch :: bool

record order_intent =
  oi_symbol :: string
  oi_side :: string
  oi_quantity :: pyfloat
  oi_notional :: pyfloat
  oi_entry_price :: pyfloat
  oi_stop_price :: pyfloat
  oi_take_profit_price :: pyfloat
  oi_client_order_id :: string

section \<open>Market data\<close>

record market_tick =
  mt_symbol :: string
  mt_price :: pyfloat
  mt_quantity :: pyfloat
  mt_bid :: pyfloat
  mt_ask :: pyfloat
  mt_timestamp :: instant

text \<open>\<open>MarketTick.spread_bps\<close>; the divisor \<open>2\<close> is not zero and \<open>mid\<close> is positive or NaN when divided by.\<close>

definition spread_bps :: "market_tick \<Rightarrow> pyfloat" where
  "spread_bps t =
     (let mid = fdiv (fadd (mt_bid t) (mt_ask t)) (Fin 2)
      in if fle mid (Fin 0) then Fin 0
         else fmul (fdiv (fsub (mt_ask t) (mt_bid t)) mid) (Fin 10000))"

record bar =
  br_symbol :: string
  br_open :: pyfloat
  br_high :: pyfloat
  br_low :: pyfloat
  br_close :: pyfloat
  br_volume :: pyfloat
  br_start :: instant
  br_end :: instant
  br_closed :: bool

record feature_snapshot =
  fs_symbol :: string
  fs_atr :: pyfloat
  fs_ema20 :: pyfloat
  fs_ema50 :: pyfloat
  fs_ema200 :: pyfloat
  fs_vwap :: pyfloat
  fs_rvol :: pyfloat
  fs_volatility :: pyfloat
  fs_spread_bps :: pyfloat
  fs_liquidity_depth :: pyfloat
  fs_microstructure_score :: pyfloat

record orderflow_snapshot =
  of_symbol :: string
  of_cvd :: pyfloat
  of_delta_imbalance :: pyfloat
  of_sweeps :: int
  of_absorption :: pyfloat
  of_tape_acceleration :: pyfloat
  of_liquidity_vacuum :: bool
  of_spread_bps :: pyfloat
  of_liquidity_score :: pyfloat

record regime_snapshot =
  rs_symbol :: string
  rs_regime :: market_regime
  rs_session_phase :: session_phase
  rs_confidence :: pyfloat

text \<open>A quote whose ask is not below its bid never shows a negative spread.\<close>

lemma spread_bps_nonneg: "\<not> flt (mt_ask t) (mt_bid t) \<Longrightarrow> fnonneg (spread_bps t)"
proof -
  assume q: "\<not> flt (mt_ask t) (mt_bid t)"
  let ?mid = "fdiv (fadd (mt_bid t) (mt_ask t)) (Fin 2)"
  have "fnonneg ?mid" if "\<not> fle ?mid (Fin 0)"
    using that by (auto simp: fnonneg_def dest: flt_imp_fle)
  then have "fnonneg (fmul (fdiv (fsub (mt_ask t) (mt_bid t)) ?mid) (Fin 10000))"
    if "\<not> fle ?mid (Fin 0)"
    using that q by (intro fnonneg_fmul[OF fnonneg_fdiv[OF fnonneg_fsub]]) auto
  then show ?thesis by (simp add: spread_bps_def Let_def)
qed

end
