(* ===== verification/Market_Analysis.thy ===== *)
theory Market_Analysis
  imports Core_Model
begin

text \<open>
  Feature computation (\<open>features/engine.py\<close>), orderflow analytics and verification
  (\<open>orderflow/engine.py\<close>) and regime classification (\<open>regime/engine.py\<close>).
  \<open>FeatureEngine.bars\<close> is a dictionary from symbols to bounded histories (\<open>deque(maxlen=250)\<close>).
\<close>

section \<open>Feature engine\<close>

type_synonym feature_engine = "(string, bar list) dict"

text \<open>\<open>_ema\<close>: \<open>alpha\<close> and \<open>1 - alpha\<close> are floats; each step is two products and a sum.\<close>

fun ema_steps :: "pyfloat \<Rightarrow> pyfloat \<Rightarrow> pyfloat list \<Rightarrow> pyfloat" where
  "ema_steps alpha ema [] = ema"
| "ema_steps alpha ema (v # vs) =
     ema_steps alpha (fadd (fmul v alpha) (fmul ema (fsub (Fin 1) alpha))) vs"

definition ema :: "pyfloat list \<Rightarrow> nat \<Rightarrow> pyfloat" where
  "ema values period =
     (case values of
        [] \<Rightarrow> Fin 0
      | v # vs \<Rightarrow> ema_steps (fround (2 / of_nat (period + 1))) v vs)"

definition history_max :: nat where
  "history_max = 250"

text \<open>\<open>history.append(bar)\<close> on a full deque drops the oldest bar.\<close>

definition push_bar :: "feature_engine \<Rightarrow> bar \<Rightarrow> bar list" where
  "push_bar bars b = last_n history_max (dict_get_or bars (br_symbol b) [] @ [b])"

definition or_default :: "pyfloat \<Rightarrow> pyfloat \<Rightarrow> pyfloat" where
  "or_default x d = (if ftruth x then x else d)"

definition bar_vwap :: "pyfloat list \<Rightarrow> pyfloat list \<Rightarrow> pyfloat" where
  "bar_vwap closes volume =
     fdiv (fsum (map (\<lambda>(c, v). fmul c v) (zip (last_n 20 closes) (last_n 20 volume))))
          (or_default (fsum (last_n 20 volume)) (Fin 1))"

definition on_bar :: "feature_engine \<Rightarrow> bar \<Rightarrow> feature_engine \<times> feature_snapshot" where
  "on_bar bars b =
     (let history = push_bar bars b;
          closes = map br_close history;
          ranges = map (\<lambda>i. fsub (br_high i) (br_low i)) history;
          volume = map br_volume history;
          atr = fdiv (fsum (last_n 14 ranges)) (float_of_int (max 1 (min 14 (int (length ranges)))));
          prior = (if butlast volume = [] then [br_volume b] else butlast volume);
          avg_volume = fdiv (fsum prior) (float_of_int (max 1 (int (length prior))))
      in (dict_set (br_symbol b) history bars,
          \<lparr>fs_symbol = br_symbol b,
           fs_atr = atr,
           fs_ema20 = ema closes 20,
           fs_ema50 = ema closes 50,
           fs_ema200 = ema closes 200,
           fs_vwap = bar_vwap closes volume,
           fs_rvol = (if ftruth avg_volume then fdiv (br_volume b) avg_volume else Fin 1),
           fs_volatility = (if ftruth (br_close b) then fdiv atr (br_close b) else Fin 0),
           fs_spread_bps = Fin 0,
           fs_liquidity_depth = Fin 1,
           fs_microstructure_score = Fin (1 / 2)\<rparr>))"

definition enrich_tick :: "market_tick \<Rightarrow> feature_snapshot \<Rightarrow> feature_snapshot" where
  "enrich_tick t snap = snap\<lparr>fs_spread_bps := spread_bps t\<rparr>"

text \<open>The histories stay bounded and hold bars of their own symbol only.\<close>

definition feature_inv :: "feature_engine \<Rightarrow> bool" where
  "feature_inv bars =
     (\<forall>(s, h)\<in>set bars. length h \<le> history_max \<and> h \<noteq> [] \<and> (\<forall>b\<in>set h. br_symbol b = s))"

lemma push_bar_last: "push_bar bars b \<noteq> [] \<and> last (push_bar bars b) = b"
  by (simp add: push_bar_def last_n_snoc history_max_def)

lemma on_bar_step:
  assumes "feature_inv bars"
  shows "feature_inv (fst (on_bar bars b))"
proof -
  have sym: "\<forall>x\<in>set (dict_get_or bars (br_symbol b) []). br_symbol x = br_symbol b"
    using assms dict_get_or_in[of _ bars "br_symbol b"] by (fastforce simp: feature_inv_def)
  then have "\<forall>x\<in>set (push_bar bars b). br_symbol x = br_symbol b"
    using set_last_n[of history_max "dict_get_or bars (br_symbol b) [] @ [b]"]
    by (auto simp: push_bar_def)
  moreover have "length (push_bar bars b) \<le> history_max"
    by (simp add: push_bar_def)
  moreover have "push_bar bars b \<noteq> []" using push_bar_last by blast
  ultimately show ?thesis
    using assms dict_set_entries[of "br_symbol b" "push_bar bars b" bars]
    by (fastforce simp: on_bar_def Let_def feature_inv_def)
qed

fun on_bars :: "feature_engine \<Rightarrow> bar list \<Rightarrow> feature_engine" where
  "on_bars bars [] = bars"
| "on_bars bars (b # bs) = on_bars (fst (on_bar bars b)) bs"

lemma on_bars_inv: "feature_inv bars \<Longrightarrow> feature_inv (on_bars bars bs)"
  by (induction bs arbitrary: bars) (simp_all add: on_bar_step)

text \<open>The window each symbol keeps is exactly the last bars of that symbol.\<close>

lemma on_bar_history:
  "dict_get_or (fst (on_bar bars b)) s [] =
     (if br_symbol b = s then push_bar bars b else dict_get_or bars s [])"
  by (simp add: on_bar_def Let_def)

lemma on_bars_window:
  "last_n history_max (dict_get_or (on_bars bars bs) s []) =
     last_n history_max (dict_get_or bars s [] @ filter (\<lambda>b. br_symbol b = s) bs)"
proof (induction bs arbitrary: bars)
  case Nil
  then show ?case by simp
next
  case (Cons b bs)
  show ?case
    by (simp add: Cons on_bar_history push_bar_def)
      (metis append.assoc append_Cons append_Nil last_n_append_last_n)
qed

lemma on_bars_empty_window:
  "dict_get_or (on_bars [] bs) s [] = last_n history_max (filter (\<lambda>b. br_symbol b = s) bs)"
proof -
  have "feature_inv (on_bars [] bs)" by (rule on_bars_inv) (simp add: feature_inv_def)
  then have "length (dict_get_or (on_bars [] bs) s []) \<le> history_max"
    by (auto simp: dict_get_or_def feature_inv_def dest: dict_get_in split: option.splits)
  then show ?thesis using on_bars_window[of "[]" bs s] by (simp add: last_n_all dict_get_or_def)
qed

section \<open>Orderflow\<close>

definition from_tick :: "market_tick \<Rightarrow> orderflow_snapshot" where
  "from_tick t =
     (let imbalance = (if fle (mt_ask t) (mt_price t) then Fin 1
                       else if fle (mt_price t) (mt_bid t) then Fin (- 1) else Fin 0)
      in \<lparr>of_symbol = mt_symbol t,
          of_cvd = fmul (mt_quantity t) imbalance,
          of_delta_imbalance = imbalance,
          of_sweeps = (if flt (Fin 10) (mt_quantity t) then 1 else 0),
          of_absorption = Fin 0,
          of_tape_acceleration = fmin (Fin 1) (fdiv (mt_quantity t) (Fin 50)),
          of_liquidity_vacuum = flt (Fin 30) (spread_bps t),
          of_spread_bps = spread_bps t,
          of_liquidity_score = fmax (Fin 0) (fsub (Fin 1) (fdiv (spread_bps t) (Fin 100)))\<rparr>)"

definition orderflow_verify :: "signal \<Rightarrow> orderflow_snapshot \<Rightarrow> bool \<times> string" where
  "orderflow_verify s snap =
     (if of_liquidity_vacuum snap then (False, ''liquidity vacuum'')
      else if flt (Fin 20) (of_spread_bps snap) then (False, ''spread too wide'')
      else if sg_side s = ''buy'' \<and> flt (of_delta_imbalance snap) (Fin (- 3 / 4))
        then (False, ''hostile delta imbalance'')
      else (True, ''orderflow verified''))"

lemma orderflow_verify_iff:
  "fst (orderflow_verify s snap) \<longleftrightarrow>
     \<not> of_liquidity_vacuum snap \<and> \<not> flt (Fin 20) (of_spread_bps snap) \<and>
     \<not> (sg_side s = ''buy'' \<and> flt (of_delta_imbalance snap) (Fin (- 3 / 4)))"
  by (simp add: orderflow_verify_def)

text \<open>A tick that passes verification for a buy has a spread of at most 20 basis points and was
  not printed at or below the bid (unless the ask is crossed).\<close>

lemma verified_tick:
  "sg_side s = ''buy'' \<Longrightarrow> fst (orderflow_verify s (from_tick t)) \<Longrightarrow>
     \<not> flt (Fin 20) (spread_bps t) \<and> (fle (mt_ask t) (mt_price t) \<or> \<not> fle (mt_price t) (mt_bid t))"
  by (auto simp: orderflow_verify_iff from_tick_def Let_def split: if_splits)

lemma from_tick_liquidity_bounds:
  assumes "\<not> flt (mt_ask t) (mt_bid t)"
  shows "fle (Fin 0) (of_liquidity_score (from_tick t)) \<and> fle (of_liquidity_score (from_tick t)) (Fin 1)"
proof -
  let ?x = "fdiv (spread_bps t) (Fin 100)"
  have nn: "fnonneg ?x" using spread_bps_nonneg[OF assms] by (intro fnonneg_fdiv) auto
  then have "fsub (Fin 1) ?x = NaN \<or> fle (fsub (Fin 1) ?x) (Fin 1)"
  proof (cases ?x)
    case (Fin q)
    with nn have "fle (fround (1 - q)) (Fin (of_int 1))" by (intro fround_le_int) auto
    with Fin show ?thesis by simp
  qed (auto simp: fsub_def)
  then show ?thesis
    by (auto simp: from_tick_def Let_def fmax_def dest: flt_imp_fle)
qed

section \<open>Regime\<close>

definition classify_regime :: "feature_snapshot \<Rightarrow> session_phase \<Rightarrow> regime_snapshot" where
  "classify_regime f phase =
     (let (regime, confidence) =
        (if flt (Fin 25) (fs_spread_bps f) \<or> flt (dec 5 100) (fs_volatility f)
           then (PANIC, dec 8 10)
         else if flt (fs_ema50 f) (fs_ema20 f) \<and> flt (fs_ema200 f) (fs_ema50 f)
           then (TRENDING_UP, Fin (3 / 4))
         else if flt (fs_ema20 f) (fs_ema50 f) \<and> flt (fs_ema50 f) (fs_ema200 f)
           then (TRENDING_DOWN, Fin (3 / 4))
         else if flt (fs_volatility f) (dec 4 1000)
           then (COMPRESSION, dec 65 100)
         else (CHOPPY, dec 55 100))
      in \<lparr>rs_symbol = fs_symbol f, rs_regime = regime, rs_session_phase = phase,
          rs_confidence = confidence\<rparr>)"

text \<open>The classifier never yields \<open>EXPANSION\<close> or \<open>MEAN_REVERT\<close>; an uptrend means stacked averages
  in a calm book.\<close>

lemma classify_regime_range:
  "rs_regime (classify_regime f p) \<in> {PANIC, TRENDING_UP, TRENDING_DOWN, COMPRESSION, CHOPPY}"
  by (simp add: classify_regime_def Let_def)

lemma classify_trending_up:
  "rs_regime (classify_regime f p) = TRENDING_UP \<longleftrightarrow>
     \<not> flt (Fin 25) (fs_spread_bps f) \<and> \<not> flt (dec 5 100) (fs_volatility f) \<and>
     flt (fs_ema50 f) (fs_ema20 f) \<and> flt (fs_ema200 f) (fs_ema50 f)"
  by (simp add: classify_regime_def Let_def)

lemma classify_frame [frame_simps]:
  "rs_symbol (classify_regime f p) = fs_symbol f" "rs_session_phase (classify_regime f p) = p"
  by (simp_all add: classify_regime_def Let_def split_beta)

end
