(* ===== verification/Strategy_Plugins.thy ===== *)
theory Strategy_Plugins
  imports Market_Analysis
begin

text \<open>
  The live strategy plugins (\<open>strategies/plugins.py\<close>) and the engine that collects their signals
  (\<open>strategies/engine.py\<close>). A plugin is a function from the three snapshots to an optional signal;
  \<open>BreakoutContinuation\<close>, \<open>ReversalFade\<close> and \<open>MeanReversion\<close> inherit their parent's rule and differ
  in the name only.
\<close>

type_synonym strategy_plugin =
  "feature_snapshot \<Rightarrow> regime_snapshot \<Rightarrow> orderflow_snapshot \<Rightarrow> signal option"

definition atr_burst_evaluate :: "string \<Rightarrow> strategy_plugin" where
  "atr_burst_evaluate name f r ofl =
     (if rs_regime r \<noteq> TRENDING_UP \<or> flt (fs_rvol f) (dec 14 10) \<or> fle (of_delta_imbalance ofl) (Fin 0)
      then None
      else (let entry = fadd (fs_vwap f) (fs_atr f) in
        Some \<lparr>sg_strategy = name, sg_symbol = fs_symbol f, sg_side = ''buy'',
              sg_confidence = dec 68 100, sg_entry_price = entry,
              sg_stop_price = fsub entry (fmul (dec 12 10) (fs_atr f)),
              sg_take_profit_price = fadd entry (fmul (Fin 2) (fs_atr f)),
              sg_notional = Fin 100,
              sg_reason = ''trend aligned ATR expansion with positive delta''\<rparr>))"

definition vwap_reclaim_evaluate :: "string \<Rightarrow> strategy_plugin" where
  "vwap_reclaim_evaluate name f r ofl =
     (if rs_regime r \<notin> {TRENDING_UP, MEAN_REVERT} \<or> flt (fs_microstructure_score f) (dec 4 10) then None
      else if fle (of_delta_imbalance ofl) (Fin 0) \<or> flt (fs_rvol f) (Fin 1) then None
      else Some \<lparr>sg_strategy = name, sg_symbol = fs_symbol f, sg_side = ''buy'',
                 sg_confidence = dec 62 100, sg_entry_price = fs_vwap f,
                 sg_stop_price = fsub (fs_vwap f) (fs_atr f),
                 sg_take_profit_price = fadd (fs_vwap f) (fmul (dec 16 10) (fs_atr f)),
                 sg_notional = Fin 75,
                 sg_reason = ''VWAP reclaim with acceptable microstructure''\<rparr>)"

definition default_strategies :: "strategy_plugin list" where
  "default_strategies =
     [atr_burst_evaluate ''ATR Burst'',
      vwap_reclaim_evaluate ''VWAP Reclaim'',
      atr_burst_evaluate ''Breakout Continuation'',
      vwap_reclaim_evaluate ''Reversal Fade'',
      vwap_reclaim_evaluate ''Mean Reversion'']"

definition strategy_engine_evaluate ::
    "strategy_plugin list \<Rightarrow> feature_snapshot \<Rightarrow> regime_snapshot \<Rightarrow> orderflow_snapshot \<Rightarrow> signal list" where
  "strategy_engine_evaluate plugins f r ofl = List.map_filter (\<lambda>p. p f r ofl) plugins"

lemma map_filter_length: "length (List.map_filter f xs) \<le> length xs"
  by (simp add: map_filter_def)

lemma strategy_engine_mem:
  "s \<in> set (strategy_engine_evaluate ps f r ofl) \<longleftrightarrow> (\<exists>p\<in>set ps. p f r ofl = Some s)"
  by (force simp: strategy_engine_evaluate_def map_filter_def)

text \<open>What every signal of the shipped strategies satisfies.\<close>

lemma atr_burst_signal:
  "atr_burst_evaluate n f r ofl = Some s \<Longrightarrow>
     rs_regime r = TRENDING_UP \<and> \<not> fle (of_delta_imbalance ofl) (Fin 0) \<and>
     sg_side s = ''buy'' \<and> sg_symbol s = fs_symbol f \<and> sg_notional s = Fin 100"
  by (auto simp: atr_burst_evaluate_def Let_def split: if_splits)

lemma vwap_reclaim_signal:
  "vwap_reclaim_evaluate n f r ofl = Some s \<Longrightarrow>
     rs_regime r \<in> {TRENDING_UP, MEAN_REVERT} \<and> \<not> fle (of_delta_imbalance ofl) (Fin 0) \<and>
     sg_side s = ''buy'' \<and> sg_symbol s = fs_symbol f \<and> sg_notional s = Fin 75"
  by (auto simp: vwap_reclaim_evaluate_def Let_def split: if_splits)

lemmas default_signal_rules = atr_burst_signal vwap_reclaim_signal

lemma default_strategies_signal:
  assumes "s \<in> set (strategy_engine_evaluate default_strategies f r ofl)"
  shows "sg_side s = ''buy'' \<and> sg_symbol s = fs_symbol f \<and>
     rs_regime r \<in> {TRENDING_UP, MEAN_REVERT} \<and> \<not> fle (of_delta_imbalance ofl) (Fin 0) \<and>
     sg_notional s \<in> {Fin 75, Fin 100}"
  using assms by (auto simp: strategy_engine_mem default_strategies_def dest!: default_signal_rules)

lemma default_strategies_count:
  "length (strategy_engine_evaluate default_strategies f r ofl) \<le> 5"
  using map_filter_length[of "\<lambda>p. p f r ofl" default_strategies]
  by (simp add: strategy_engine_evaluate_def default_strategies_def)

end
