(* ===== verification/Risk_Engine.thy ===== *)
theory Risk_Engine
  imports Core_Model
begin

text \<open>
  The portfolio risk authority (\<open>risk/engine.py\<close>). \<open>approve\<close> and \<open>trigger_kill_switch\<close> update the
  engine and return a decision, so both return a pair. \<open>trading_step\<close> is the life of the engine:
  approvals followed or not by a recorded submission, external kill switches, and the loss figures
  other parts write into its public fields.
\<close>

record risk_limits =
  rl_max_daily_loss_pct :: pyfloat
  rl_max_position_notional :: pyfloat
  rl_max_portfolio_exposure :: pyfloat
  rl_max_trades_per_day :: int
  rl_consecutive_loss_lock :: int

record risk_engine =
  re_limits :: risk_limits
  re_kill_switch_active :: bool
  re_daily_loss_pct :: pyfloat
  re_open_exposure :: pyfloat
  re_trades_today :: int
  re_consecutive_losses :: int
  re_alerts :: "string list"

definition default_limits :: risk_limits where
  "default_limits =
     \<lparr>rl_max_daily_loss_pct = dec 2 100, rl_max_position_notional = Fin 250,
      rl_max_portfolio_exposure = Fin 1000, rl_max_trades_per_day = 12, rl_consecutive_loss_lock = 3\<rparr>"

definition new_risk_engine :: "risk_limits \<Rightarrow> risk_engine" where
  "new_risk_engine l =
     \<lparr>re_limits = l, re_kill_switch_active = False, re_daily_loss_pct = Fin 0,
      re_open_exposure = Fin 0, re_trades_today = 0, re_consecutive_losses = 0, re_alerts = []\<rparr>"

definition refuse :: "string \<Rightarrow> bool \<Rightarrow> risk_decision" where
  "refuse reason kill =
     \<lparr>rd_approved = False, rd_reason = reason, rd_adjusted_notional = Fin 0, rd_kill_switch = kill\<rparr>"

definition grant :: "string \<Rightarrow> pyfloat \<Rightarrow> risk_decision" where
  "grant reason notional =
     \<lparr>rd_approved = True, rd_reason = reason, rd_adjusted_notional = notional, rd_kill_switch = False\<rparr>"

definition trigger_kill_switch :: "risk_engine \<Rightarrow> string \<Rightarrow> risk_engine \<times> risk_decision" where
  "trigger_kill_switch e reason =
     (e\<lparr>re_kill_switch_active := True, re_alerts := re_alerts e @ [reason]\<rparr>, refuse reason True)"

definition approve :: "risk_engine \<Rightarrow> signal \<Rightarrow> risk_engine \<times> risk_decision" where
  "approve e s =
     (let l = re_limits e in
      if re_kill_switch_active e then (e, refuse ''kill switch active'' True)
      else if fle (rl_max_daily_loss_pct l) (re_daily_loss_pct e)
        then trigger_kill_switch e ''daily loss lock''
      else if rl_max_trades_per_day l \<le> re_trades_today e
        then (e, refuse ''max trades per day reached'' False)
      else if rl_consecutive_loss_lock l \<le> re_consecutive_losses e
        then trigger_kill_switch e ''consecutive loss lock''
      else if flt (rl_max_position_notional l) (sg_notional s)
        then (e, grant ''position notional reduced'' (rl_max_position_notional l))
      else if flt (rl_max_portfolio_exposure l) (fadd (re_open_exposure e) (sg_notional s))
        then (e, refuse ''portfolio exposure limit'' False)
      else (e, grant ''risk approved'' (sg_notional s)))"

definition record_submitted_trade :: "risk_engine \<Rightarrow> pyfloat \<Rightarrow> risk_engine" where
  "record_submitted_trade e n =
     e\<lparr>re_trades_today := re_trades_today e + 1, re_open_exposure := fadd (re_open_exposure e) n\<rparr>"

lemma refuse_simps [simp]:
  "rd_approved (refuse r k) = False" "rd_reason (refuse r k) = r" "rd_kill_switch (refuse r k) = k"
  by (simp_all add: refuse_def)

lemma grant_simps [simp]:
  "rd_approved (grant r n)" "rd_reason (grant r n) = r" "rd_adjusted_notional (grant r n) = n"
  "rd_kill_switch (grant r n) = False"
  by (simp_all add: grant_def)

lemma trigger_frame [frame_simps]:
  "re_limits (fst (trigger_kill_switch e r)) = re_limits e"
  "re_trades_today (fst (trigger_kill_switch e r)) = re_trades_today e"
  "re_open_exposure (fst (trigger_kill_switch e r)) = re_open_exposure e"
  by (simp_all add: trigger_kill_switch_def)

lemma trigger_effect [simp]:
  "re_kill_switch_active (fst (trigger_kill_switch e r))"
  "\<not> rd_approved (snd (trigger_kill_switch e r))"
  by (simp_all add: trigger_kill_switch_def)

lemma approve_frame [frame_simps]:
  "re_limits (fst (approve e s)) = re_limits e"
  "re_trades_today (fst (approve e s)) = re_trades_today e"
  "re_open_exposure (fst (approve e s)) = re_open_exposure e"
  by (simp_all add: approve_def Let_def trigger_frame)

lemma record_frame [frame_simps]:
  "re_limits (record_submitted_trade e n) = re_limits e"
  "re_kill_switch_active (record_submitted_trade e n) = re_kill_switch_active e"
  "re_trades_today (record_submitted_trade e n) = re_trades_today e + 1"
  "re_open_exposure (record_submitted_trade e n) = fadd (re_open_exposure e) n"
  by (simp_all add: record_submitted_trade_def)

text \<open>An approval leaves the engine as it was and means that every earlier guard let it pass.\<close>

lemma approve_grantedD:
  assumes "rd_approved (snd (approve e s))"
  shows "\<not> re_kill_switch_active e \<and> fst (approve e s) = e \<and>
     \<not> fle (rl_max_daily_loss_pct (re_limits e)) (re_daily_loss_pct e) \<and>
     re_trades_today e < rl_max_trades_per_day (re_limits e) \<and>
     re_consecutive_losses e < rl_consecutive_loss_lock (re_limits e) \<and>
     \<not> flt (rl_max_position_notional (re_limits e)) (rd_adjusted_notional (snd (approve e s)))"
  using assms by (auto simp: approve_def Let_def trigger_kill_switch_def split: if_splits)

lemma approve_kill_kept: "re_kill_switch_active e \<Longrightarrow> re_kill_switch_active (fst (approve e s))"
  by (simp add: approve_def)

section \<open>The life of the engine\<close>

inductive trading_step :: "risk_engine \<Rightarrow> risk_engine \<Rightarrow> bool" where
  step_decided: "trading_step e (fst (approve e s))"
| step_submitted: "rd_approved (snd (approve e s)) \<Longrightarrow>
     trading_step e (record_submitted_trade (fst (approve e s)) (rd_adjusted_notional (snd (approve e s))))"
| step_killed: "trading_step e (fst (trigger_kill_switch e reason))"
| step_losses: "trading_step e (e\<lparr>re_daily_loss_pct := x, re_consecutive_losses := n\<rparr>)"

inductive_cases trading_stepE: "trading_step e e'"

text \<open>The invariant of a day: the counter stays within the configured number of trades.\<close>

definition trades_within :: "risk_engine \<Rightarrow> bool" where
  "trades_within e = (re_trades_today e \<le> rl_max_trades_per_day (re_limits e))"

lemma trading_step_limits: "trading_step e e' \<Longrightarrow> re_limits e' = re_limits e"
  by (erule trading_stepE) (simp_all add: frame_simps)

lemma trading_step_trades_within: "trading_step e e' \<Longrightarrow> trades_within e \<Longrightarrow> trades_within e'"
  by (erule trading_stepE) (auto simp: trades_within_def frame_simps dest: approve_grantedD)

lemma trading_step_kill: "trading_step e e' \<Longrightarrow> re_kill_switch_active e \<Longrightarrow>
    re_kill_switch_active e' \<and> re_trades_today e' = re_trades_today e \<and> re_open_exposure e' = re_open_exposure e"
  by (erule trading_stepE) (auto simp: frame_simps approve_kill_kept dest: approve_grantedD)

text \<open>\<open>C1\<close>: Within one day the recorded trades never exceed the limit, whatever the sequence of
  approvals, submissions, kill switches and loss updates.\<close>

theorem trades_per_day_bounded:
  assumes "trading_step\<^sup>*\<^sup>* (new_risk_engine l) e" and "0 \<le> rl_max_trades_per_day l"
  shows "re_trades_today e \<le> rl_max_trades_per_day l"
proof -
  have "trades_within e \<and> re_limits e = l"
    using assms(1)
  proof (induction rule: rtranclp_induct)
    case base
    then show ?case using assms(2) by (simp add: trades_within_def new_risk_engine_def)
  next
    case (step y z)
    then show ?case using trading_step_trades_within trading_step_limits by auto
  qed
  then show ?thesis by (auto simp: trades_within_def)
qed

theorem trades_per_day_bounded_witness:
  "re_trades_today (fst (trigger_kill_switch (new_risk_engine default_limits) ''stale feeds'')) \<le> 12"
proof -
  have r: "trading_step\<^sup>*\<^sup>* (new_risk_engine default_limits)
     (fst (trigger_kill_switch (new_risk_engine default_limits) ''stale feeds''))"
    by (rule r_into_rtranclp) (rule step_killed)
  show ?thesis
    using trades_per_day_bounded[OF r] by (simp add: default_limits_def)
qed

text \<open>\<open>C2\<close>: The kill switch latches. Once it is active it stays active through every later step,
  nothing is approved again, and neither the trade count nor the exposure grows.\<close>

theorem kill_switch_latches:
  assumes "re_kill_switch_active e" and "trading_step\<^sup>*\<^sup>* e e'"
  shows "re_kill_switch_active e' \<and> \<not> rd_approved (snd (approve e' s)) \<and>
     re_trades_today e' = re_trades_today e \<and> re_open_exposure e' = re_open_exposure e"
proof -
  have "re_kill_switch_active e' \<and> re_trades_today e' = re_trades_today e \<and>
      re_open_exposure e' = re_open_exposure e"
    using assms(2)
  proof (induction rule: rtranclp_induct)
    case base
    then show ?case using assms(1) by simp
  next
    case (step y z)
    then show ?case using trading_step_kill by metis
  qed
  then show ?thesis by (simp add: approve_def)
qed


definition sample_signal :: "pyfloat \<Rightarrow> signal" where
  "sample_signal n =
     \<lparr>sg_strategy = ''ATR Burst'', sg_symbol = ''ETH/USDT'', sg_side = ''buy'', sg_confidence = dec 68 100,
      sg_entry_price = Fin 100, sg_stop_price = Fin 90, sg_take_profit_price = Fin 120,
      sg_notional = n, sg_reason = []\<rparr>"

theorem kill_switch_latches_witness:
  "re_kill_switch_active (fst (approve (fst (trigger_kill_switch (new_risk_engine default_limits) ''drill''))
     (sample_signal (Fin 100))))"
proof -
  let ?k = "fst (trigger_kill_switch (new_risk_engine default_limits) ''drill'')"
  have "trading_step\<^sup>*\<^sup>* ?k (fst (approve ?k (sample_signal (Fin 100))))"
    by (rule r_into_rtranclp) (rule step_decided)
  from kill_switch_latches[OF _ this] show ?thesis by simp
qed

inductive plain_step :: "risk_engine \<Rightarrow> risk_engine \<Rightarrow> bool" where
  plain: "trading_step e e' \<Longrightarrow> re_open_exposure e' = re_open_exposure e \<Longrightarrow> plain_step e e'"
| plain_submit: "rd_approved (snd (approve e s)) \<Longrightarrow>
     \<not> flt (rl_max_position_notional (re_limits e)) (sg_notional s) \<Longrightarrow>
     plain_step e (record_submitted_trade e (rd_adjusted_notional (snd (approve e s))))"

inductive_cases plain_stepE: "plain_step e e'"

lemma approve_plain_exposure:
  assumes "rd_approved (snd (approve e s))"
    and "\<not> flt (rl_max_position_notional (re_limits e)) (sg_notional s)"
  shows "rd_adjusted_notional (snd (approve e s)) = sg_notional s \<and>
     \<not> flt (rl_max_portfolio_exposure (re_limits e)) (fadd (re_open_exposure e) (sg_notional s))"
  using assms by (auto simp: approve_def Let_def trigger_kill_switch_def split: if_splits)

lemma plain_step_exposure:
  assumes "plain_step e e'"
    and "\<not> flt (rl_max_portfolio_exposure (re_limits e)) (re_open_exposure e)"
  shows "\<not> flt (rl_max_portfolio_exposure (re_limits e')) (re_open_exposure e') \<and> re_limits e' = re_limits e"
  using assms
  by (auto elim!: plain_stepE simp: frame_simps approve_plain_exposure dest: trading_step_limits)

text \<open>Exposure. As long as no approved signal is larger than the position limit (so that the
  reduction branch is not taken), the open exposure never passes the portfolio limit.\<close>

theorem exposure_bounded_without_reduction:
  assumes "plain_step\<^sup>*\<^sup>* (new_risk_engine l) e" and "fle (Fin 0) (rl_max_portfolio_exposure l)"
  shows "\<not> flt (rl_max_portfolio_exposure l) (re_open_exposure e)"
proof -
  have "\<not> flt (rl_max_portfolio_exposure (re_limits e)) (re_open_exposure e) \<and> re_limits e = l"
    using assms(1)
  proof (induction rule: rtranclp_induct)
    case base
    then show ?case using assms(2)
      by (cases "rl_max_portfolio_exposure l") (simp_all add: new_risk_engine_def)
  next
    case (step y z)
    then show ?case using plain_step_exposure by metis
  qed
  then show ?thesis by blast
qed

lemma default_limits_simps [simp]:
  "rl_max_daily_loss_pct default_limits = dec 2 100"
  "rl_max_position_notional default_limits = Fin 250"
  "rl_max_portfolio_exposure default_limits = Fin 1000"
  "rl_max_trades_per_day default_limits = 12"
  "rl_consecutive_loss_lock default_limits = 3"
  by (simp_all add: default_limits_def)

lemma sample_signal_notional [simp]: "sg_notional (sample_signal n) = n"
  by (simp add: sample_signal_def)

theorem exposure_bounded_without_reduction_witness:
  "\<not> flt (Fin 1000) (re_open_exposure
     (record_submitted_trade (new_risk_engine default_limits) (Fin 100)))"
proof -
  let ?e = "new_risk_engine default_limits"
  have a: "approve ?e (sample_signal (Fin 100)) = (?e, grant ''risk approved'' (Fin 100))"
    by (simp add: approve_def new_risk_engine_def dec_lits)
  have "plain_step ?e (record_submitted_trade ?e (rd_adjusted_notional (snd (approve ?e (sample_signal (Fin 100))))))"
    by (rule plain_submit) (simp_all add: a, simp add: new_risk_engine_def)
  then have "plain_step\<^sup>*\<^sup>* ?e (record_submitted_trade ?e (Fin 100))" by (simp add: a)
  from exposure_bounded_without_reduction[OF this] show ?thesis by simp
qed

definition loaded_engine :: "nat \<Rightarrow> risk_engine" where
  "loaded_engine n = (new_risk_engine default_limits)
     \<lparr>re_trades_today := int n, re_open_exposure := Fin (250 * of_nat n)\<rparr>"

lemma loaded_engine_simps [simp]:
  "re_limits (loaded_engine n) = default_limits"
  "re_open_exposure (loaded_engine n) = Fin (250 * of_nat n)"
  by (simp_all add: loaded_engine_def new_risk_engine_def)

lemma approve_loaded:
  "n < 12 \<Longrightarrow> approve (loaded_engine n) (sample_signal (Fin 300)) =
     (loaded_engine n, grant ''position notional reduced'' (Fin 250))"
  by (simp add: approve_def loaded_engine_def new_risk_engine_def dec_lits)

lemma record_loaded:
  assumes "n < 12"
  shows "record_submitted_trade (loaded_engine n) (Fin 250) = loaded_engine (Suc n)"
proof -
  have "\<bar>250 * int n + 250\<bar> \<le> 2 ^ 53" using assms by simp
  from fround_int[OF this] show ?thesis
    by (simp add: record_submitted_trade_def loaded_engine_def new_risk_engine_def algebra_simps)
qed

lemma loaded_reachable: "n \<le> 12 \<Longrightarrow> trading_step\<^sup>*\<^sup>* (new_risk_engine default_limits) (loaded_engine n)"
proof (induction n)
  case 0
  then show ?case by (simp add: loaded_engine_def new_risk_engine_def)
next
  case (Suc n)
  then have "trading_step (loaded_engine n) (loaded_engine (Suc n))"
    using step_submitted[of "loaded_engine n" "sample_signal (Fin 300)"]
    by (simp add: approve_loaded record_loaded)
  with Suc show ?case by (auto intro: rtranclp.rtrancl_into_rtrancl)
qed

text \<open>The reduction branch answers before the exposure check. From the default engine a day of
  five signals of notional 300, each reduced to 250, reaches an approved submission that leaves the
  portfolio above its limit of 1000.\<close>

theorem reduced_notional_skips_exposure_limit:
  "\<exists>e s. trading_step\<^sup>*\<^sup>* (new_risk_engine default_limits) e \<and> rd_approved (snd (approve e s)) \<and>
     flt (rl_max_portfolio_exposure (re_limits e))
         (re_open_exposure (record_submitted_trade e (rd_adjusted_notional (snd (approve e s)))))"
proof (intro exI conjI)
  show "trading_step\<^sup>*\<^sup>* (new_risk_engine default_limits) (loaded_engine 4)"
    by (rule loaded_reachable) simp
  show "rd_approved (snd (approve (loaded_engine 4) (sample_signal (Fin 300))))"
    by (simp add: approve_loaded)
  show "flt (rl_max_portfolio_exposure (re_limits (loaded_engine 4)))
      (re_open_exposure (record_submitted_trade (loaded_engine 4)
        (rd_adjusted_notional (snd (approve (loaded_engine 4) (sample_signal (Fin 300)))))))"
    by (simp add: approve_loaded record_loaded)
qed

end
