(* ===== verification/Order_Execution.thy ===== *)
theory Order_Execution
  imports Risk_Engine
begin

text \<open>
  The order manager (\<open>oms/order_manager.py\<close>), the exchange gateways (\<open>exchange/gateway.py\<close>,
  \<open>exchange/binance_testnet_gateway.py\<close>) and the serialised execution engine
  (\<open>execution/engine.py\<close>). The engine is written over any gateway: a record of two operations on a
  gateway state. The locale \<open>exchange_gateway\<close> is the contract it relies on, interpreted for the
  paper gateway and for the Binance gateway over an arbitrary ccxt client.
\<close>

section \<open>Order manager\<close>

record managed_order =
  mo_intent :: order_intent
  mo_state :: order_state
  mo_exchange_order_id :: "string option"
  mo_protection_verified :: bool

type_synonym order_manager = "(string, managed_order) dict"

text \<open>\<open>create_order\<close>; \<open>cid\<close> is the fresh \<open>aegis-<uuid4>\<close>. A zero entry price raises in the division.\<close>

definition create_order ::
    "order_manager \<Rightarrow> signal \<Rightarrow> pyfloat \<Rightarrow> string \<Rightarrow> (order_manager \<times> managed_order) res" where
  "create_order oms s adjusted cid =
     (if fle (sg_stop_price s) (Fin 0) \<or> fle (sg_take_profit_price s) (sg_entry_price s)
        then Inl (ValueError ''invalid OCO protection'')
      else bind_res (py_div adjusted (sg_entry_price s)) (\<lambda>quantity.
        let intent = \<lparr>oi_symbol = sg_symbol s, oi_side = sg_side s, oi_quantity = quantity,
              oi_notional = adjusted, oi_entry_price = sg_entry_price s,
              oi_stop_price = sg_stop_price s, oi_take_profit_price = sg_take_profit_price s,
              oi_client_order_id = cid\<rparr>;
            order = \<lparr>mo_intent = intent, mo_state = VALIDATED, mo_exchange_order_id = None,
              mo_protection_verified = True\<rparr>
        in Inr (dict_set cid order oms, order)))"

definition oms_transition ::
    "order_manager \<Rightarrow> string \<Rightarrow> order_state \<Rightarrow> string option \<Rightarrow> (order_manager \<times> managed_order) res" where
  "oms_transition oms cid st xid =
     (case dict_get oms cid of
        None \<Rightarrow> Inl (KeyError cid)
      | Some order \<Rightarrow>
          (let o1 = order\<lparr>mo_state := st\<rparr>;
               o2 = (case xid of Some x \<Rightarrow> if x \<noteq> [] then o1\<lparr>mo_exchange_order_id := Some x\<rparr> else o1
                     | None \<Rightarrow> o1)
           in Inr (dict_set cid o2 oms, o2)))"

definition has_unprotected_position :: "order_manager \<Rightarrow> bool" where
  "has_unprotected_position oms = list_ex (\<lambda>(_, order). \<not> mo_protection_verified order) oms"

lemma create_order_InrD:
  "create_order oms s n cid = Inr (oms', order) \<Longrightarrow>
     oms' = dict_set cid order oms \<and> mo_state order = VALIDATED \<and> mo_protection_verified order \<and>
     oi_client_order_id (mo_intent order) = cid \<and> oi_notional (mo_intent order) = n \<and>
     oi_symbol (mo_intent order) = sg_symbol s \<and> oi_side (mo_intent order) = sg_side s \<and>
     \<not> fle (sg_stop_price s) (Fin 0) \<and> \<not> fle (sg_take_profit_price s) (sg_entry_price s)"
  by (auto simp: create_order_def Let_def py_div_def split: if_splits)

lemma oms_transition_present:
  "dict_get oms cid = Some order \<Longrightarrow>
     \<exists>oms' order'. oms_transition oms cid st xid = Inr (oms', order') \<and>
       oms' = dict_set cid order' oms \<and> mo_state order' = st \<and> mo_intent order' = mo_intent order \<and>
       mo_protection_verified order' = mo_protection_verified order"
  by (auto simp: oms_transition_def Let_def split: option.splits)

text \<open>Well-formed books: every order is stored under its own client id.\<close>

definition oms_wf :: "order_manager \<Rightarrow> bool" where
  "oms_wf oms = (distinct (map fst oms) \<and> (\<forall>(k, order)\<in>set oms. oi_client_order_id (mo_intent order) = k))"

lemma oms_wf_set:
  assumes "oms_wf oms" and "oi_client_order_id (mo_intent order) = cid"
  shows "oms_wf (dict_set cid order oms)"
  using assms dict_set_entries[of cid order oms]
  by (fastforce simp: oms_wf_def intro: dict_set_distinct)

lemma oms_transition_wf:
  "oms_wf oms \<Longrightarrow> oms_transition oms cid st xid = Inr (oms', order') \<Longrightarrow> oms_wf oms'"
  by (auto simp: oms_transition_def Let_def oms_wf_def split: option.splits if_splits
      dest!: dict_get_in subsetD[OF dict_set_entries] intro: dict_set_distinct)

section \<open>Gateways\<close>

record order_result =
  or_exchange_order_id :: string
  or_client_order_id :: string
  or_accepted :: bool
  or_status :: string
  or_reason :: string

record 'g gateway_ops =
  gw_submit_oco :: "'g \<Rightarrow> order_intent \<Rightarrow> 'g \<times> order_result res"
  gw_emergency_flatten :: "'g \<Rightarrow> string \<Rightarrow> string \<Rightarrow> 'g \<times> unit res"

text \<open>\<open>PaperExchangeGateway\<close>.\<close>

record paper_gateway =
  pg_orders :: "(string, order_intent) dict"
  pg_flatten_reasons :: "string list"

definition paper_submit_oco :: "paper_gateway \<Rightarrow> order_intent \<Rightarrow> paper_gateway \<times> order_result res" where
  "paper_submit_oco g i =
     (g\<lparr>pg_orders := dict_set (oi_client_order_id i) i (pg_orders g)\<rparr>,
      Inr \<lparr>or_exchange_order_id = ''paper-'' @ oi_client_order_id i,
           or_client_order_id = oi_client_order_id i, or_accepted = True,
           or_status = ''ACKNOWLEDGED'', or_reason = []\<rparr>)"

definition paper_emergency_flatten :: "paper_gateway \<Rightarrow> string \<Rightarrow> string \<Rightarrow> paper_gateway \<times> unit res" where
  "paper_emergency_flatten g symbol reason =
     (g\<lparr>pg_flatten_reasons := pg_flatten_reasons g @ [symbol @ '':'' @ reason]\<rparr>, Inr ())"

definition paper_ops :: "paper_gateway gateway_ops" where
  "paper_ops = \<lparr>gw_submit_oco = paper_submit_oco, gw_emergency_flatten = paper_emergency_flatten\<rparr>"

text \<open>\<open>BinanceSpotTestnetGateway\<close>: the ccxt client is not part of the sources, so its state and its
  calls are parameters. A call that posts an order returns the response's \<open>orderListId\<close>, if any,
  or the text of the exception it raised.\<close>

record oco_params =
  oco_symbol :: string
  oco_side :: string
  oco_quantity :: string
  oco_price :: string
  oco_stop_price :: string
  oco_stop_limit_price :: string
  oco_time_in_force :: string
  oco_new_client_order_id :: string

record 'x ccxt_client =
  cx_amount_to_precision :: "string \<Rightarrow> pyfloat \<Rightarrow> string res"
  cx_price_to_precision :: "string \<Rightarrow> pyfloat \<Rightarrow> string res"
  cx_post_order_oco :: "'x \<Rightarrow> oco_params \<Rightarrow> 'x \<times> (string + string option)"
  cx_fetch_free_balance :: "'x \<Rightarrow> string \<Rightarrow> 'x \<times> pyfloat option res"
  cx_market_sell :: "'x \<Rightarrow> string \<Rightarrow> string \<Rightarrow> string \<Rightarrow> 'x \<times> unit res"

definition rejected_result :: "string \<Rightarrow> string \<Rightarrow> order_result" where
  "rejected_result cid reason =
     \<lparr>or_exchange_order_id = [], or_client_order_id = cid, or_accepted = False,
      or_status = ''REJECTED'', or_reason = reason\<rparr>"

definition oco_request :: "'x ccxt_client \<Rightarrow> order_intent \<Rightarrow> oco_params res" where
  "oco_request cx i =
     bind_res (cx_amount_to_precision cx (oi_symbol i) (oi_quantity i)) (\<lambda>qty.
     bind_res (cx_price_to_precision cx (oi_symbol i) (oi_take_profit_price i)) (\<lambda>price.
     bind_res (cx_price_to_precision cx (oi_symbol i) (oi_stop_price i)) (\<lambda>stop.
     bind_res (cx_price_to_precision cx (oi_symbol i) (fmul (oi_stop_price i) (dec 999 1000))) (\<lambda>limit.
       Inr \<lparr>oco_symbol = remove_char CHR ''/'' (oi_symbol i), oco_side = ''BUY'', oco_quantity = qty,
            oco_price = price, oco_stop_price = stop, oco_stop_limit_price = limit,
            oco_time_in_force = ''GTC'', oco_new_client_order_id = oi_client_order_id i\<rparr>))))"

definition binance_submit_oco :: "'x ccxt_client \<Rightarrow> 'x \<Rightarrow> order_intent \<Rightarrow> 'x \<times> order_result res" where
  "binance_submit_oco cx x i =
     (if oi_side i \<noteq> ''buy''
        then (x, Inr (rejected_result (oi_client_order_id i) ''spot phase is long-only''))
      else if fle (oi_stop_price i) (Fin 0) \<or> fle (oi_take_profit_price i) (oi_entry_price i)
        then (x, Inr (rejected_result (oi_client_order_id i) ''invalid OCO protection''))
      else (case oco_request cx i of
          Inl e \<Rightarrow> (x, Inl e)
        | Inr params \<Rightarrow>
            (case cx_post_order_oco cx x params of
               (x', Inl msg) \<Rightarrow> (x', Inr (rejected_result (oi_client_order_id i) msg))
             | (x', Inr lid) \<Rightarrow>
                 (x', Inr \<lparr>or_exchange_order_id = (case lid of None \<Rightarrow> [] | Some t \<Rightarrow> t),
                           or_client_order_id = oi_client_order_id i, or_accepted = True,
                           or_status = ''ACKNOWLEDGED'', or_reason = []\<rparr>))))"

definition base_asset :: "string \<Rightarrow> string" where
  "base_asset symbol = takeWhile (\<lambda>c. c \<noteq> CHR ''/'') symbol"

definition binance_emergency_flatten ::
    "'x ccxt_client \<Rightarrow> 'x \<Rightarrow> string \<Rightarrow> string \<Rightarrow> 'x \<times> unit res" where
  "binance_emergency_flatten cx x symbol reason =
     (case cx_fetch_free_balance cx x (base_asset symbol) of
        (x1, Inl e) \<Rightarrow> (x1, Inl e)
      | (x1, Inr free_opt) \<Rightarrow>
          (let free = (case free_opt of None \<Rightarrow> Fin 0 | Some v \<Rightarrow> v)
           in if flt (Fin 0) free
              then (case cx_amount_to_precision cx symbol free of
                      Inl e \<Rightarrow> (x1, Inl e)
                    | Inr amount \<Rightarrow>
                        cx_market_sell cx x1 symbol amount (''aegis-flatten-'' @ take 16 reason))
              else (x1, Inr ())))"

definition binance_ops :: "'x ccxt_client \<Rightarrow> 'x gateway_ops" where
  "binance_ops cx =
     \<lparr>gw_submit_oco = binance_submit_oco cx, gw_emergency_flatten = binance_emergency_flatten cx\<rparr>"

text \<open>The contract the execution engine needs of a gateway.\<close>

locale exchange_gateway =
  fixes ops :: "'g gateway_ops"
  assumes submit_keeps_client_id:
    "gw_submit_oco ops g i = (g', Inr r) \<Longrightarrow> or_client_order_id r = oi_client_order_id i"
  and submit_status:
    "gw_submit_oco ops g i = (g', Inr r) \<Longrightarrow>
       or_status r = (if or_accepted r then ''ACKNOWLEDGED'' else ''REJECTED'')"
  and refused_has_no_exchange_id:
    "gw_submit_oco ops g i = (g', Inr r) \<Longrightarrow> \<not> or_accepted r \<Longrightarrow> or_exchange_order_id r = []"

interpretation paper: exchange_gateway paper_ops
  by unfold_locales (auto simp: paper_ops_def paper_submit_oco_def)

interpretation binance: exchange_gateway "binance_ops cx" for cx :: "'x ccxt_client"
  by unfold_locales
    (auto simp: binance_ops_def binance_submit_oco_def rejected_result_def
      split: if_splits sum.splits prod.splits)

section \<open>Execution engine\<close>

record 'g execution_engine =
  ee_gateway :: 'g
  ee_oms :: order_manager
  ee_risk :: risk_engine
  ee_slippage_threshold_bps :: pyfloat

text \<open>Both fail-closed paths: kill switch, emergency flatten, then the exception (or the one the
  flatten itself raised).\<close>

definition fail_closed ::
    "'g gateway_ops \<Rightarrow> 'g execution_engine \<Rightarrow> managed_order \<Rightarrow> string \<Rightarrow> 'g execution_engine \<times> 'r res" where
  "fail_closed ops ee order reason =
     (let ee1 = ee\<lparr>ee_risk := fst (trigger_kill_switch (ee_risk ee) reason)\<rparr>;
          (g, r) = gw_emergency_flatten ops (ee_gateway ee1) (oi_symbol (mo_intent order)) reason
      in (ee1\<lparr>ee_gateway := g\<rparr>, case r of Inl e \<Rightarrow> Inl e | Inr _ \<Rightarrow> Inl (RuntimeError reason)))"

definition execution_submit ::
    "'g gateway_ops \<Rightarrow> 'g execution_engine \<Rightarrow> managed_order \<Rightarrow> pyfloat \<Rightarrow>
     'g execution_engine \<times> managed_order res" where
  "execution_submit ops ee order slippage =
     (if \<not> mo_protection_verified order then fail_closed ops ee order ''missing protection''
      else if flt (ee_slippage_threshold_bps ee) slippage then fail_closed ops ee order ''slippage breach''
      else (case gw_submit_oco ops (ee_gateway ee) (mo_intent order) of
          (g, Inl e) \<Rightarrow> (ee\<lparr>ee_gateway := g\<rparr>, Inl e)
        | (g, Inr result) \<Rightarrow>
            (let st = (if or_accepted result then ACKNOWLEDGED else REJECTED);
                 risk = (if or_accepted result
                         then record_submitted_trade (ee_risk ee) (oi_notional (mo_intent order))
                         else ee_risk ee);
                 ee1 = ee\<lparr>ee_gateway := g, ee_risk := risk\<rparr>
             in (case oms_transition (ee_oms ee1) (oi_client_order_id (mo_intent order)) st
                        (Some (or_exchange_order_id result)) of
                   Inl e \<Rightarrow> (ee1, Inl e)
                 | Inr (oms, order') \<Rightarrow> (ee1\<lparr>ee_oms := oms\<rparr>, Inr order')))))"

lemma fail_closed_effect:
  "re_kill_switch_active (ee_risk (fst (fail_closed ops ee order reason)))"
  "ee_oms (fst (fail_closed ops ee order reason)) = ee_oms ee"
  "\<exists>e. snd (fail_closed ops ee order reason) = Inl e"
  by (auto simp: fail_closed_def Let_def split_beta split: sum.splits)

lemma fail_closed_gateway:
  "ee_gateway (fst (fail_closed ops ee order reason)) =
     fst (gw_emergency_flatten ops (ee_gateway ee) (oi_symbol (mo_intent order)) reason)"
  by (simp add: fail_closed_def Let_def split_beta)

lemma fail_closed_exposure:
  "re_open_exposure (ee_risk (fst (fail_closed ops ee order reason))) = re_open_exposure (ee_risk ee)"
  "re_trades_today (ee_risk (fst (fail_closed ops ee order reason))) = re_trades_today (ee_risk ee)"
  by (simp_all add: fail_closed_def Let_def split_beta frame_simps)

definition blocked :: "'g execution_engine \<Rightarrow> managed_order \<Rightarrow> pyfloat \<Rightarrow> bool" where
  "blocked ee order slippage =
     (\<not> mo_protection_verified order \<or> flt (ee_slippage_threshold_bps ee) slippage)"

section \<open>What a submission does\<close>

lemma execution_submit_blocked:
  "blocked ee order slippage \<Longrightarrow> \<exists>reason. execution_submit ops ee order slippage = fail_closed ops ee order reason"
  by (auto simp: blocked_def execution_submit_def)

text \<open>\<open>C3\<close>: A submission without verified protection or with a slippage breach fails closed: it
  raises, the kill switch is on, nothing reaches the exchange except the flatten, the order book and
  the exposure are as before, and the risk engine approves nothing any more.\<close>

theorem execution_fails_closed:
  assumes "\<not> mo_protection_verified order \<or> flt (ee_slippage_threshold_bps ee) slippage"
    and "execution_submit ops ee order slippage = (ee', r)"
  shows "(\<exists>e. r = Inl e) \<and> re_kill_switch_active (ee_risk ee') \<and> ee_oms ee' = ee_oms ee \<and>
     re_open_exposure (ee_risk ee') = re_open_exposure (ee_risk ee) \<and>
     (\<exists>reason. ee_gateway ee' = fst (gw_emergency_flatten ops (ee_gateway ee) (oi_symbol (mo_intent order)) reason)) \<and>
     \<not> rd_approved (snd (approve (ee_risk ee') s))"
proof -
  have "blocked ee order slippage" using assms(1) by (simp add: blocked_def)
  then obtain reason where "execution_submit ops ee order slippage = fail_closed ops ee order reason"
    using execution_submit_blocked[of ee order slippage ops] by blast
  then have eq: "(ee', r) = fail_closed ops ee order reason" using assms(2) by simp
  have f: "ee' = fst (fail_closed ops ee order reason :: 'a execution_engine \<times> managed_order res)"
    and r: "r = snd (fail_closed ops ee order reason)" unfolding eq[symmetric] by simp_all
  have k: "re_kill_switch_active (ee_risk ee')" unfolding f by (rule fail_closed_effect)
  moreover have "\<not> rd_approved (snd (approve (ee_risk ee') s))" using k by (simp add: approve_def)
  moreover have "\<exists>e. r = Inl e" unfolding r by (rule fail_closed_effect)
  ultimately show ?thesis
    unfolding f using fail_closed_effect(2) fail_closed_exposure(1) fail_closed_gateway by blast
qed

definition sample_intent :: order_intent where
  "sample_intent = \<lparr>oi_symbol = ''ETH/USDT'', oi_side = ''buy'', oi_quantity = Fin 1, oi_notional = Fin 100,
     oi_entry_price = Fin 100, oi_stop_price = Fin 90, oi_take_profit_price = Fin 120,
     oi_client_order_id = ''aegis-1''\<rparr>"

definition sample_order :: "bool \<Rightarrow> managed_order" where
  "sample_order p = \<lparr>mo_intent = sample_intent, mo_state = VALIDATED, mo_exchange_order_id = None,
     mo_protection_verified = p\<rparr>"

definition sample_execution :: "paper_gateway execution_engine" where
  "sample_execution = \<lparr>ee_gateway = \<lparr>pg_orders = [], pg_flatten_reasons = []\<rparr>,
     ee_oms = [(''aegis-1'', sample_order True)], ee_risk = new_risk_engine default_limits,
     ee_slippage_threshold_bps = Fin 15\<rparr>"

theorem execution_fails_closed_witness:
  "re_kill_switch_active (ee_risk (fst (execution_submit paper_ops sample_execution (sample_order False) (Fin 0))))"
proof -
  have "\<not> mo_protection_verified (sample_order False) \<or> flt (ee_slippage_threshold_bps sample_execution) (Fin 0)"
    by (simp add: sample_order_def)
  from execution_fails_closed[OF this surjective_pairing] show ?thesis by simp
qed

context exchange_gateway
begin

text \<open>An order the exchange answered is in the book with the matching state, and the exposure moves
  exactly when it was accepted.\<close>

lemma answered:
  assumes "\<not> blocked ee order slippage"
    and "dict_get (ee_oms ee) (oi_client_order_id (mo_intent order)) = Some order"
    and "gw_submit_oco ops (ee_gateway ee) (mo_intent order) = (g, Inr result)"
    and "execution_submit ops ee order slippage = (ee', r)"
  shows "\<exists>order'. r = Inr order' \<and>
     dict_get (ee_oms ee') (or_client_order_id result) = Some order' \<and>
     mo_state order' = (if or_accepted result then ACKNOWLEDGED else REJECTED) \<and>
     mo_intent order' = mo_intent order \<and>
     (\<not> or_accepted result \<longrightarrow> mo_exchange_order_id order' = mo_exchange_order_id order) \<and>
     ee_risk ee' = (if or_accepted result
        then record_submitted_trade (ee_risk ee) (oi_notional (mo_intent order)) else ee_risk ee)"
  using assms submit_keeps_client_id[OF assms(3)] refused_has_no_exchange_id[OF assms(3)]
  by (auto simp: execution_submit_def blocked_def Let_def oms_transition_def split: if_splits)

end

text \<open>\<open>C4\<close>: Against Binance (any ccxt client), a protected order within the slippage threshold that
  the exchange answers ends acknowledged or rejected in the book; the exposure and the trade count
  are charged exactly when it was accepted, and a rejected order gets no exchange id.\<close>

theorem binance_submission_outcome:
  assumes "mo_protection_verified order" and "\<not> flt (ee_slippage_threshold_bps ee) slippage"
    and "dict_get (ee_oms ee) (oi_client_order_id (mo_intent order)) = Some order"
    and "binance_submit_oco cx (ee_gateway ee) (mo_intent order) = (g, Inr result)"
    and "execution_submit (binance_ops cx) ee order slippage = (ee', r)"
  shows "\<exists>order'. r = Inr order' \<and>
     dict_get (ee_oms ee') (oi_client_order_id (mo_intent order)) = Some order' \<and>
     mo_state order' = (if or_accepted result then ACKNOWLEDGED else REJECTED) \<and>
     (\<not> or_accepted result \<longrightarrow> mo_exchange_order_id order' = mo_exchange_order_id order) \<and>
     ee_risk ee' = (if or_accepted result
        then record_submitted_trade (ee_risk ee) (oi_notional (mo_intent order)) else ee_risk ee)"
proof -
  have b: "\<not> blocked ee order slippage" using assms(1,2) by (simp add: blocked_def)
  have s: "gw_submit_oco (binance_ops cx) (ee_gateway ee) (mo_intent order) = (g, Inr result)"
    using assms(4) by (simp add: binance_ops_def)
  show ?thesis
    using binance.answered[OF b assms(3) s assms(5)] binance.submit_keeps_client_id[OF s] by auto
qed

text \<open>A ccxt client that formats nothing and refuses every order, for the witness.\<close>

definition refusing_ccxt :: "unit ccxt_client" where
  "refusing_ccxt = \<lparr>cx_amount_to_precision = (\<lambda>_ _. Inr ''1''), cx_price_to_precision = (\<lambda>_ _. Inr ''1''),
     cx_post_order_oco = (\<lambda>x _. (x, Inl ''insufficient balance'')),
     cx_fetch_free_balance = (\<lambda>x _. (x, Inr None)), cx_market_sell = (\<lambda>x _ _ _. (x, Inr ()))\<rparr>"

definition refusing_execution :: "unit execution_engine" where
  "refusing_execution = \<lparr>ee_gateway = (), ee_oms = [(''aegis-1'', sample_order True)],
     ee_risk = new_risk_engine default_limits, ee_slippage_threshold_bps = Fin 15\<rparr>"

theorem binance_submission_outcome_witness:
  "\<exists>order'. snd (execution_submit (binance_ops refusing_ccxt) refusing_execution (sample_order True) (Fin 0))
     = Inr order' \<and> mo_state order' = REJECTED"
proof -
  have s: "binance_submit_oco refusing_ccxt (ee_gateway refusing_execution) (mo_intent (sample_order True)) =
      ((), Inr (rejected_result ''aegis-1'' ''insufficient balance''))"
    by (simp add: binance_submit_oco_def oco_request_def refusing_ccxt_def sample_order_def sample_intent_def)
  have o: "dict_get (ee_oms refusing_execution) (oi_client_order_id (mo_intent (sample_order True))) =
      Some (sample_order True)"
    by (simp add: refusing_execution_def sample_order_def sample_intent_def)
  have p: "mo_protection_verified (sample_order True)" "\<not> flt (ee_slippage_threshold_bps refusing_execution) (Fin 0)"
    by (simp_all add: sample_order_def refusing_execution_def)
  show ?thesis
    using binance_submission_outcome[OF p o s surjective_pairing] by (simp add: rejected_result_def) blast
qed

text \<open>The Binance gateway never posts an order that is not a buy, or whose stop is not positive
  or whose target is not above the entry: such an order is rejected without a call to the exchange,
  and every order it does post carries the bracket prices of the intent and its client id.\<close>

theorem binance_posts_only_protected_buys:
  "(oi_side i = ''buy'' \<and> \<not> fle (oi_stop_price i) (Fin 0) \<and>
      \<not> fle (oi_take_profit_price i) (oi_entry_price i) \<and>
      (\<exists>p. oco_request cx i = Inr p \<and> oco_new_client_order_id p = oi_client_order_id i \<and>
         cx_price_to_precision cx (oi_symbol i) (oi_stop_price i) = Inr (oco_stop_price p) \<and>
         fst (binance_submit_oco cx x i) = fst (cx_post_order_oco cx x p)))
   \<or> fst (binance_submit_oco cx x i) = x"
proof (cases "oi_side i \<noteq> ''buy'' \<or> fle (oi_stop_price i) (Fin 0) \<or> fle (oi_take_profit_price i) (oi_entry_price i)")
  case True
  then show ?thesis by (auto simp: binance_submit_oco_def)
next
  case False
  show ?thesis
  proof (cases "oco_request cx i")
    case (Inl e)
    with False show ?thesis by (simp add: binance_submit_oco_def)
  next
    case (Inr p)
    then have "oco_new_client_order_id p = oi_client_order_id i"
      "cx_price_to_precision cx (oi_symbol i) (oi_stop_price i) = Inr (oco_stop_price p)"
      by (auto simp: oco_request_def bind_res_eq_Inr)
    moreover have "fst (binance_submit_oco cx x i) = fst (cx_post_order_oco cx x p)"
      using False Inr by (auto simp: binance_submit_oco_def split: prod.splits sum.splits)
    ultimately show ?thesis using False Inr by blast
  qed
qed

end
