(* ===== verification/Consensus_Pipeline.thy ===== *)
theory Consensus_Pipeline
  imports Strategy_Plugins Order_Execution
begin

text \<open>
  The devil's advocate (\<open>consensus/devils_advocate.py\<close>), the consensus engine
  (\<open>consensus/engine.py\<close>) and one pass of the application (\<open>app.py\<close>): strategies, consensus, risk,
  order manager and execution, composed as \<open>run_once\<close> composes them.
\<close>

section \<open>Devil's advocate\<close>

definition concern :: "bool \<Rightarrow> pyfloat \<Rightarrow> string \<Rightarrow> pyfloat \<times> string list \<Rightarrow> pyfloat \<times> string list" where
  "concern c w name acc = (if c then (fadd (fst acc) w, snd acc @ [name]) else acc)"

definition da_concerns :: "signal \<Rightarrow> regime_snapshot \<Rightarrow> orderflow_snapshot \<Rightarrow> pyfloat \<times> string list" where
  "da_concerns s r ofl =
     concern (flt (sg_confidence s) (dec 6 10)) (dec 15 100) ''weak strategy confidence''
     (concern (flt (rs_confidence r) (dec 6 10)) (dec 12 100) ''weak regime confidence''
     (concern (flt (of_liquidity_score ofl) (Fin (1 / 2))) (dec 18 100) ''thin liquidity''
     (concern (flt (Fin 12) (of_spread_bps ofl)) (dec 15 100) ''elevated spread'' (Fin 0, []))))"

definition da_evaluate :: "signal \<Rightarrow> regime_snapshot \<Rightarrow> orderflow_snapshot \<Rightarrow> da_verdict" where
  "da_evaluate s r ofl =
     (let (score, concerns) = da_concerns s r ofl;
          veto = flt (dec 35 100) score;
          size_multiplier = (if veto then Fin 0 else if flt (dec 20 100) score then Fin (1 / 2) else Fin 1)
      in \<lparr>da_concern_score = score, da_veto = veto, da_size_multiplier = size_multiplier,
          da_reasons = concerns\<rparr>)"

section \<open>Consensus\<close>

record consensus_decision =
  cd_approved :: bool
  cd_reason :: string
  cd_signal :: signal
  cd_da_verdict :: "da_verdict option"

definition consensus_refuse :: "string \<Rightarrow> signal \<Rightarrow> da_verdict option \<Rightarrow> consensus_decision" where
  "consensus_refuse reason s v =
     \<lparr>cd_approved = False, cd_reason = reason, cd_signal = s, cd_da_verdict = v\<rparr>"

definition consensus_approve ::
    "signal \<Rightarrow> regime_snapshot \<Rightarrow> orderflow_snapshot \<Rightarrow> bool \<Rightarrow> consensus_decision" where
  "consensus_approve s r ofl news_clear =
     (if sg_side s \<noteq> ''buy'' then consensus_refuse ''spot phase is long-only'' s None
      else if fle (sg_entry_price s) (sg_stop_price s) then consensus_refuse ''invalid protective stop'' s None
      else (let (verified, reason) = orderflow_verify s ofl in
        if \<not> verified then consensus_refuse reason s None
        else if \<not> news_clear then consensus_refuse ''news filter blocked trade'' s None
        else (let v = da_evaluate s r ofl in
          if da_veto v then consensus_refuse (''devil'' @ [CHR 0x27] @ ''s advocate veto'') s (Some v)
          else \<lparr>cd_approved = True, cd_reason = ''approved'',
                cd_signal = s\<lparr>sg_notional := fmul (sg_notional s) (da_size_multiplier v)\<rparr>,
                cd_da_verdict = Some v\<rparr>)))"

named_theorems da_sums "the partial sums of the concern weights in binary64"

lemma da_sum1 [da_sums]: "fround (5404319552844595 / 36028797018963968) = Fin (5404319552844595 / 36028797018963968)"
  using fround_eval[of "1 / 2 ^ 55" "- 55" "5404319552844595 / 36028797018963968" "5404319552844595"]
  by (simp add: power_int_def power_one_over)

lemma da_sum2 [da_sums]: "fround (3242591731706757 / 18014398509481984) = Fin (3242591731706757 / 18014398509481984)"
  using fround_eval[of "1 / 2 ^ 55" "- 55" "3242591731706757 / 18014398509481984" "6485183463413514"]
  by (simp add: power_int_def power_one_over)

lemma da_sum3 [da_sums]: "fround (11889503016258109 / 36028797018963968) = Fin (2972375754064527 / 9007199254740992)"
  using fround_eval[of "1 / 2 ^ 54" "- 54" "11889503016258109 / 36028797018963968" "5944751508129054"]
  by (simp add: power_int_def power_one_over)

lemma da_sum4 [da_sums]: "fround (1080863910568919 / 9007199254740992) = Fin (1080863910568919 / 9007199254740992)"
  using fround_eval[of "1 / 2 ^ 56" "- 56" "1080863910568919 / 9007199254740992" "8646911284551352"]
  by (simp add: power_int_def power_one_over)

lemma da_sum5 [da_sums]: "fround (9727775195120271 / 36028797018963968) = Fin (607985949695017 / 2251799813685248)"
  using fround_eval[of "1 / 2 ^ 54" "- 54" "9727775195120271 / 36028797018963968" "4863887597560136"]
  by (simp add: power_int_def power_one_over)

lemma da_sum6 [da_sums]: "fround (5404319552844595 / 18014398509481984) = Fin (5404319552844595 / 18014398509481984)"
  using fround_eval[of "1 / 2 ^ 54" "- 54" "5404319552844595 / 18014398509481984" "5404319552844595"]
  by (simp add: power_int_def power_one_over)

lemma da_sum7 [da_sums]: "fround (2026619832316723 / 4503599627370496) = Fin (2026619832316723 / 4503599627370496)"
  using fround_eval[of "1 / 2 ^ 54" "- 54" "2026619832316723 / 4503599627370496" "8106479329266892"]
  by (simp add: power_int_def power_one_over)

lemma da_sum8 [da_sums]: "fround (17293822569102703 / 36028797018963968) = Fin (1080863910568919 / 2251799813685248)"
  using fround_eval[of "1 / 2 ^ 54" "- 54" "17293822569102703 / 36028797018963968" "8646911284551352"]
  by (simp add: power_int_def power_one_over)

lemma da_sum9 [da_sums]: "fround (15132094747964867 / 36028797018963968) = Fin (3783023686991217 / 9007199254740992)"
  using fround_eval[of "1 / 2 ^ 54" "- 54" "15132094747964867 / 36028797018963968" "7566047373982434"]
  by (simp add: power_int_def power_one_over)

lemma da_sum10 [da_sums]: "fround (16212958658533785 / 36028797018963968) = Fin (2026619832316723 / 4503599627370496)"
  using fround_eval[of "1 / 2 ^ 54" "- 54" "16212958658533785 / 36028797018963968" "8106479329266892"]
  by (simp add: power_int_def power_one_over)

lemma da_sum11 [da_sums]: "fround (21617278211378379 / 36028797018963968) = Fin (5404319552844595 / 9007199254740992)"
  using fround_eval[of "1 / 2 ^ 53" "- 53" "21617278211378379 / 36028797018963968" "5404319552844595"]
  by (simp add: power_int_def power_one_over)

definition concern_count :: "signal \<Rightarrow> regime_snapshot \<Rightarrow> orderflow_snapshot \<Rightarrow> nat" where
  "concern_count s r ofl =
     of_bool (flt (Fin 12) (of_spread_bps ofl)) + of_bool (flt (of_liquidity_score ofl) (Fin (1 / 2))) +
     of_bool (flt (rs_confidence r) (dec 6 10)) + of_bool (flt (sg_confidence s) (dec 6 10))"

lemma da_reasons_count: "length (da_reasons (da_evaluate s r ofl)) = concern_count s r ofl"
  by (simp add: da_evaluate_def da_concerns_def concern_def concern_count_def split_beta Let_def)

lemma da_verdict_all:
  "da_veto (da_evaluate s r ofl) = (3 \<le> concern_count s r ofl)"
  "da_size_multiplier (da_evaluate s r ofl) =
     (if 3 \<le> concern_count s r ofl then Fin 0 else if concern_count s r ofl = 2 then Fin (1 / 2) else Fin 1)"
  by (cases "flt (Fin 12) (of_spread_bps ofl)"; cases "flt (of_liquidity_score ofl) (Fin (1 / 2))";
      cases "flt (rs_confidence r) (dec 6 10)"; cases "flt (sg_confidence s) (dec 6 10)";
      simp add: da_evaluate_def da_concerns_def concern_def concern_count_def Let_def dec_lits da_sums)+

text \<open>The veto counts concerns. The four weights are decimal literals added in binary64, yet the
  verdict depends on their number only: three or more concerns veto, exactly two halve the size,
  fewer leave it whole.\<close>

theorem da_verdict_counts_concerns:
  "da_veto (da_evaluate s r ofl) = (3 \<le> concern_count s r ofl) \<and>
   length (da_reasons (da_evaluate s r ofl)) = concern_count s r ofl \<and>
   da_size_multiplier (da_evaluate s r ofl) =
     (if 3 \<le> concern_count s r ofl then Fin 0 else if concern_count s r ofl = 2 then Fin (1 / 2) else Fin 1)"
  by (simp add: da_reasons_count da_verdict_all)

text \<open>Consensus approves exactly the buys with a stop below the entry, a verified orderflow,
  clear news and at most two concerns; what it passes on is the signal itself, its notional scaled
  by the verdict's multiplier.\<close>

theorem consensus_approves_iff:
  "cd_approved (consensus_approve s r ofl news) \<longleftrightarrow>
     sg_side s = ''buy'' \<and> \<not> fle (sg_entry_price s) (sg_stop_price s) \<and>
     fst (orderflow_verify s ofl) \<and> news \<and> concern_count s r ofl \<le> 2"
  by (auto simp: consensus_approve_def consensus_refuse_def Let_def split_beta da_verdict_all not_le)

lemma consensus_approvedD:
  assumes "cd_approved (consensus_approve s r ofl news)"
  shows "cd_signal (consensus_approve s r ofl news) =
      s\<lparr>sg_notional := fmul (sg_notional s) (da_size_multiplier (da_evaluate s r ofl))\<rparr> \<and>
    sg_side s = ''buy'' \<and> \<not> fle (sg_entry_price s) (sg_stop_price s)"
  using assms by (auto simp: consensus_approve_def consensus_refuse_def Let_def split_beta split: if_splits)

section \<open>One pass of the application\<close>

text \<open>The body of the loop in \<open>run_once\<close>; the engine, the order manager and the risk engine are the
  objects the execution engine holds, so they live in one state.\<close>

definition process_signal ::
    "'g gateway_ops \<Rightarrow> regime_snapshot \<Rightarrow> orderflow_snapshot \<Rightarrow> string \<Rightarrow> signal \<Rightarrow>
     'g execution_engine \<Rightarrow> 'g execution_engine \<times> unit res" where
  "process_signal ops r ofl cid s ee =
     (let d = consensus_approve s r ofl True in
      if \<not> cd_approved d then (ee, Inr ())
      else (let (risk, rd) = approve (ee_risk ee) (cd_signal d);
                ee1 = ee\<lparr>ee_risk := risk\<rparr>
            in if \<not> rd_approved rd then (ee1, Inr ())
               else (case create_order (ee_oms ee1) (cd_signal d) (rd_adjusted_notional rd) cid of
                  Inl e \<Rightarrow> (ee1, Inl e)
                | Inr (oms, order) \<Rightarrow>
                    (case execution_submit ops (ee1\<lparr>ee_oms := oms\<rparr>) order (Fin 0) of
                       (ee2, Inl e) \<Rightarrow> (ee2, Inl e)
                     | (ee2, Inr _) \<Rightarrow> (ee2, Inr ())))))"

fun run_signals ::
    "'g gateway_ops \<Rightarrow> regime_snapshot \<Rightarrow> orderflow_snapshot \<Rightarrow> (string \<times> signal) list \<Rightarrow>
     'g execution_engine \<Rightarrow> 'g execution_engine \<times> unit res" where
  "run_signals ops r ofl [] ee = (ee, Inr ())"
| "run_signals ops r ofl ((cid, s) # rest) ee =
     (case process_signal ops r ofl cid s ee of
        (ee', Inl e) \<Rightarrow> (ee', Inl e)
      | (ee', Inr _) \<Rightarrow> run_signals ops r ofl rest ee')"

definition demo_features :: "string \<Rightarrow> feature_snapshot" where
  "demo_features symbol =
     \<lparr>fs_symbol = symbol, fs_atr = Fin 10, fs_ema20 = Fin 105, fs_ema50 = Fin 102, fs_ema200 = Fin 100,
      fs_vwap = Fin 106, fs_rvol = dec 17 10, fs_volatility = dec 1 100, fs_spread_bps = Fin 5,
      fs_liquidity_depth = Fin 1, fs_microstructure_score = dec 7 10\<rparr>"

definition demo_regime :: "string \<Rightarrow> regime_snapshot" where
  "demo_regime symbol =
     \<lparr>rs_symbol = symbol, rs_regime = TRENDING_UP, rs_session_phase = OVERLAP_ACTIVE,
      rs_confidence = dec 8 10\<rparr>"

definition demo_orderflow :: "string \<Rightarrow> orderflow_snapshot" where
  "demo_orderflow symbol =
     \<lparr>of_symbol = symbol, of_cvd = Fin 2, of_delta_imbalance = Fin 1, of_sweeps = 0, of_absorption = Fin 0,
      of_tape_acceleration = Fin (1 / 2), of_liquidity_vacuum = False, of_spread_bps = Fin 5,
      of_liquidity_score = dec 95 100\<rparr>"

text \<open>\<open>run_once\<close> over the paper gateway; \<open>cids\<close> are the fresh client order ids.\<close>

definition run_once ::
    "risk_limits \<Rightarrow> pyfloat \<Rightarrow> string list \<Rightarrow> string list \<Rightarrow> paper_gateway execution_engine \<times> unit res" where
  "run_once limits slippage_threshold symbols cids =
     (let ee = \<lparr>ee_gateway = \<lparr>pg_orders = [], pg_flatten_reasons = []\<rparr>, ee_oms = [],
                ee_risk = new_risk_engine limits, ee_slippage_threshold_bps = slippage_threshold\<rparr>;
          symbol = (case symbols of [] \<Rightarrow> ''ETH/USDT'' | x # _ \<Rightarrow> x);
          r = demo_regime symbol;
          ofl = demo_orderflow symbol
      in run_signals paper_ops r ofl
           (zip cids (strategy_engine_evaluate default_strategies (demo_features symbol) r ofl)) ee)"

text \<open>What every order of the book satisfies under the limits \<open>l\<close>.\<close>

definition order_ok :: "risk_limits \<Rightarrow> managed_order \<Rightarrow> bool" where
  "order_ok l order =
     (mo_protection_verified order \<and> oi_side (mo_intent order) = ''buy'' \<and>
      \<not> fle (oi_stop_price (mo_intent order)) (Fin 0) \<and>
      \<not> fle (oi_take_profit_price (mo_intent order)) (oi_entry_price (mo_intent order)) \<and>
      \<not> fle (oi_entry_price (mo_intent order)) (oi_stop_price (mo_intent order)) \<and>
      \<not> flt (rl_max_position_notional l) (oi_notional (mo_intent order)))"

definition book_ok :: "'g execution_engine \<Rightarrow> bool" where
  "book_ok ee =
     (oms_wf (ee_oms ee) \<and> (\<forall>(k, order)\<in>set (ee_oms ee). order_ok (re_limits (ee_risk ee)) order))"

lemma oms_transition_ok:
  assumes "oms_transition oms cid st xid = Inr (oms', order')"
    and "\<forall>(k, order)\<in>set oms. order_ok l order"
  shows "\<forall>(k, order)\<in>set oms'. order_ok l order"
proof -
  obtain order where o: "dict_get oms cid = Some order"
    using assms(1) by (auto simp: oms_transition_def split: option.splits)
  then have "order_ok l order" using assms(2) by (auto dest: dict_get_in)
  moreover have "oms' = dict_set cid order' oms" "mo_intent order' = mo_intent order"
    "mo_protection_verified order' = mo_protection_verified order"
    using oms_transition_present[OF o] assms(1) by (metis Inr_inject prod.inject)+
  ultimately show ?thesis
    using assms(2) dict_set_entries[of cid order' oms] by (fastforce simp: order_ok_def)
qed

lemma fail_closed_book_ok: "book_ok ee \<Longrightarrow> book_ok (fst (fail_closed ops ee order reason))"
  by (simp add: book_ok_def fail_closed_def Let_def split_beta frame_simps)

lemma execution_submit_book_ok:
  assumes "book_ok ee"
  shows "book_ok (fst (execution_submit ops ee order slippage))"
proof (cases "blocked ee order slippage")
  case True
  then show ?thesis using assms execution_submit_blocked fail_closed_book_ok by metis
next
  case False
  obtain g res where sub: "gw_submit_oco ops (ee_gateway ee) (mo_intent order) = (g, res)"
    by (cases "gw_submit_oco ops (ee_gateway ee) (mo_intent order)") auto
  show ?thesis
  proof (cases res)
    case (Inl e)
    with False sub assms show ?thesis by (simp add: execution_submit_def blocked_def book_ok_def)
  next
    case (Inr result)
    with False sub assms show ?thesis
      by (auto simp: execution_submit_def blocked_def book_ok_def Let_def frame_simps
          split: sum.splits dest: oms_transition_wf oms_transition_ok)
  qed
qed

lemma create_order_book_ok:
  assumes "book_ok ee" and "create_order (ee_oms ee) s n cid = Inr (oms, order)"
    and "sg_side s = ''buy''" and "\<not> fle (sg_entry_price s) (sg_stop_price s)"
    and "\<not> flt (rl_max_position_notional (re_limits (ee_risk ee))) n"
  shows "book_ok (ee\<lparr>ee_oms := oms\<rparr>)"
proof -
  have "oms = dict_set cid order (ee_oms ee)" "oi_client_order_id (mo_intent order) = cid"
    using create_order_InrD[OF assms(2)] by simp_all
  moreover have "order_ok (re_limits (ee_risk ee)) order"
    using assms(2-5) by (auto simp: create_order_def order_ok_def Let_def py_div_def split: if_splits)
  ultimately show ?thesis
    using assms(1) dict_set_entries[of cid order "ee_oms ee"] oms_wf_set[of "ee_oms ee" order cid]
    by (fastforce simp: book_ok_def)
qed

lemma process_signal_book_ok:
  assumes "book_ok ee"
  shows "book_ok (fst (process_signal ops r ofl cid s ee))"
proof -
  let ?d = "consensus_approve s r ofl True"
  let ?a = "approve (ee_risk ee) (cd_signal ?d)"
  let ?ee1 = "ee\<lparr>ee_risk := fst ?a\<rparr>"
  have b1: "book_ok ?ee1" using assms by (simp add: book_ok_def frame_simps)
  consider "\<not> cd_approved ?d" | "cd_approved ?d" "\<not> rd_approved (snd ?a)"
    | "cd_approved ?d" "rd_approved (snd ?a)" by blast
  then show ?thesis
  proof cases
    case 3
    have n: "\<not> flt (rl_max_position_notional (re_limits (ee_risk ?ee1))) (rd_adjusted_notional (snd ?a))"
      using approve_grantedD[OF 3(2)] by simp
    have s: "sg_side (cd_signal ?d) = ''buy''" "\<not> fle (sg_entry_price (cd_signal ?d)) (sg_stop_price (cd_signal ?d))"
      using consensus_approvedD[OF 3(1)] by simp_all
    show ?thesis
    proof (cases "create_order (ee_oms ?ee1) (cd_signal ?d) (rd_adjusted_notional (snd ?a)) cid")
      case (Inl e)
      with 3 b1 show ?thesis by (simp add: process_signal_def Let_def split_beta)
    next
      case (Inr p)
      then obtain oms order where p: "create_order (ee_oms ?ee1) (cd_signal ?d) (rd_adjusted_notional (snd ?a)) cid
          = Inr (oms, order)" by (cases p) simp
      have "book_ok (fst (execution_submit ops (?ee1\<lparr>ee_oms := oms\<rparr>) order (Fin 0)))"
        by (rule execution_submit_book_ok) (rule create_order_book_ok[OF b1 p s n])
      then show ?thesis using 3 p
        by (auto simp: process_signal_def Let_def split_beta split: prod.splits sum.splits)
    qed
  qed (use assms b1 in \<open>simp_all add: process_signal_def Let_def split_beta\<close>)
qed

lemma run_signals_book_ok: "book_ok ee \<Longrightarrow> book_ok (fst (run_signals ops r ofl xs ee))"
proof (induction xs arbitrary: ee)
  case Nil
  then show ?case by simp
next
  case (Cons x xs)
  obtain cid s where x: "x = (cid, s)" by (cases x)
  obtain ee' res where p: "process_signal ops r ofl cid s ee = (ee', res)"
    by (cases "process_signal ops r ofl cid s ee")
  have "book_ok ee'" using process_signal_book_ok[OF Cons.prems, of ops r ofl cid s] p by simp
  then show ?case using Cons.IH by (simp add: x p split: sum.splits)
qed

text \<open>\<open>C5\<close>: Whatever the gateway answers and whatever signals come in, every order the pass leaves in
  the book is a protected buy with its stop positive and below the entry, its target above it, and a
  notional that does not exceed the position limit of the risk engine.\<close>

theorem pipeline_orders_protected:
  assumes "ee_oms ee = []"
    and "dict_get (ee_oms (fst (run_signals ops r ofl xs ee))) cid = Some order"
  shows "mo_protection_verified order \<and> oi_client_order_id (mo_intent order) = cid \<and>
     oi_side (mo_intent order) = ''buy'' \<and>
     \<not> fle (oi_stop_price (mo_intent order)) (Fin 0) \<and>
     \<not> fle (oi_take_profit_price (mo_intent order)) (oi_entry_price (mo_intent order)) \<and>
     \<not> fle (oi_entry_price (mo_intent order)) (oi_stop_price (mo_intent order)) \<and>
     \<not> flt (rl_max_position_notional (re_limits (ee_risk (fst (run_signals ops r ofl xs ee)))))
           (oi_notional (mo_intent order))"
proof -
  have "book_ok ee" using assms(1) by (simp add: book_ok_def oms_wf_def)
  then have "book_ok (fst (run_signals ops r ofl xs ee))" by (rule run_signals_book_ok)
  then show ?thesis using dict_get_in[OF assms(2)] by (auto simp: book_ok_def order_ok_def oms_wf_def)
qed

definition empty_execution :: "paper_gateway execution_engine" where
  "empty_execution = sample_execution\<lparr>ee_oms := []\<rparr>"

lemma demo_round1 [da_sums]: "fround (27021597764222975 / 2251799813685248) = Fin (12)"
  using fround_eval[of "1 / 2 ^ 49" "- 49" "27021597764222975 / 2251799813685248" "6755399441055744"]
  by (simp add: power_int_def power_one_over)

lemma pipeline_sample:
  "\<exists>order. dict_get (ee_oms (fst (run_signals paper_ops (demo_regime ''ETH/USDT'') (demo_orderflow ''ETH/USDT'')
     [(''aegis-1'', sample_signal (Fin 100))] empty_execution))) ''aegis-1'' = Some order"
  by (simp add: process_signal_def consensus_approve_def orderflow_verify_def da_verdict_all concern_count_def
      demo_orderflow_def demo_regime_def sample_signal_def empty_execution_def sample_execution_def
      approve_def new_risk_engine_def create_order_def py_div_def execution_submit_def paper_ops_def
      paper_submit_oco_def oms_transition_def Let_def dec_lits split_beta)

theorem pipeline_orders_protected_witness:
  "\<exists>order. dict_get (ee_oms (fst (run_signals paper_ops (demo_regime ''ETH/USDT'') (demo_orderflow ''ETH/USDT'')
     [(''aegis-1'', sample_signal (Fin 100))] empty_execution))) ''aegis-1'' = Some order \<and>
     mo_protection_verified order"
proof -
  obtain order where o: "dict_get (ee_oms (fst (run_signals paper_ops (demo_regime ''ETH/USDT'')
      (demo_orderflow ''ETH/USDT'') [(''aegis-1'', sample_signal (Fin 100))] empty_execution))) ''aegis-1'' = Some order"
    using pipeline_sample by blast
  have "ee_oms empty_execution = []" by (simp add: empty_execution_def)
  from pipeline_orders_protected[OF this o] o show ?thesis by blast
qed

end
