(* ===== verification/Event_Bus.thy ===== *)
theory Event_Bus
  imports Core_Model "HOL-Library.List_Lexorder" "HOL-Library.Char_ord" "HOL-Library.Multiset"
begin

text \<open>
  \<open>core/event_bus.py\<close>, \<open>backtest/replay.py\<close>, \<open>storage/replay_store.py\<close> and \<open>storage/async_writer.py\<close>.
  The \<open>asyncio.PriorityQueue\<close> of the bus is reached through the locale \<open>priority_queue\<close>,
  interpreted on the sorted list that models it. Handlers are names \<open>'h\<close>; what a handler does to the
  bus and to the rest of the world \<open>'w\<close> is a parameter. A \<open>maxsize\<close> that is not positive means an
  unbounded queue, as in \<open>asyncio\<close>.
\<close>

section \<open>The replay order\<close>

text \<open>The sort key of \<open>EventBus.replay\<close>: timestamp, then sequence, then event id.\<close>

datatype replay_key = Replay_Key (rk_time: instant) (rk_sequence: int) (rk_id: string)

instantiation replay_key :: linorder
begin

definition less_eq_replay_key :: "replay_key \<Rightarrow> replay_key \<Rightarrow> bool" where
  "less_eq_replay_key a b =
     (rk_time a < rk_time b \<or> rk_time a = rk_time b \<and>
       (rk_sequence a < rk_sequence b \<or> rk_sequence a = rk_sequence b \<and> rk_id a \<le> rk_id b))"

definition less_replay_key :: "replay_key \<Rightarrow> replay_key \<Rightarrow> bool" where
  "less_replay_key a b = (a \<le> b \<and> \<not> b \<le> a)"

instance
  by standard (auto simp: less_eq_replay_key_def less_replay_key_def intro: replay_key.expand)

end

definition replay_key_of :: "'p event \<Rightarrow> replay_key" where
  "replay_key_of e = Replay_Key (ev_timestamp e) (ev_sequence e) (ev_id e)"

section \<open>The priority queue\<close>

lemma filter_mset_none: "filter_mset P M = {#} \<longleftrightarrow> (\<forall>x\<in>#M. \<not> P x)"
  by (induction M) auto

locale priority_queue =
  fixes pq_empty :: 'q
    and pq_put :: "int \<Rightarrow> 'e \<Rightarrow> 'q \<Rightarrow> 'q"
    and pq_get :: "'q \<Rightarrow> ((int \<times> 'e) \<times> 'q) option"
    and pq_items :: "'q \<Rightarrow> (int \<times> 'e) multiset"
    and pq_ok :: "'q \<Rightarrow> bool"
  assumes ok_empty: "pq_ok pq_empty"
    and ok_put: "pq_ok q \<Longrightarrow> pq_ok (pq_put k e q)"
    and ok_get: "pq_ok q \<Longrightarrow> pq_get q = Some (x, q') \<Longrightarrow> pq_ok q'"
    and items_empty: "pq_items pq_empty = {#}"
    and items_put: "pq_items (pq_put k e q) = add_mset (k, e) (pq_items q)"
    and get_None: "pq_get q = None \<longleftrightarrow> pq_items q = {#}"
    and get_Some: "pq_get q = Some ((k, e), q') \<Longrightarrow> pq_items q = add_mset (k, e) (pq_items q')"
    and get_least: "pq_ok q \<Longrightarrow> pq_get q = Some ((k, e), q') \<Longrightarrow> (k', e') \<in># pq_items q' \<Longrightarrow> k \<le> k'"
begin

text \<open>A bus numbers what it puts from a counter. Its queue stays below the counter, and what it
  hands out next comes before everything it still holds or will put later.\<close>

definition numbered :: "int \<Rightarrow> 'q \<Rightarrow> bool" where
  "numbered n q \<longleftrightarrow> pq_ok q \<and> (\<forall>(k, e)\<in>#pq_items q. k \<le> n) \<and>
     (\<forall>k. size (filter_mset (\<lambda>x. fst x = k) (pq_items q)) \<le> 1)"

lemma numbered_empty: "numbered n pq_empty"
  by (simp add: numbered_def items_empty ok_empty)

lemma numbered_put:
  assumes "numbered n q" shows "numbered (n + 1) (pq_put (n + 1) e q)"
proof -
  have "filter_mset (\<lambda>x. fst x = n + 1) (pq_items q) = {#}"
    using assms by (force simp: numbered_def filter_mset_none)
  then show ?thesis using assms by (force simp: numbered_def items_put ok_put)
qed

lemma numbered_get:
  assumes "numbered n q" and "pq_get q = Some ((k, e), q')"
  shows "numbered n q' \<and> k \<le> n \<and> (\<forall>(k', e')\<in>#pq_items q'. k < k')"
proof -
  have items: "pq_items q = add_mset (k, e) (pq_items q')" using assms(2) by (rule get_Some)
  have one: "size (filter_mset (\<lambda>x. fst x = j) (pq_items q)) \<le> 1" for j
    using assms(1) by (simp add: numbered_def)
  have none: "filter_mset (\<lambda>x. fst x = k) (pq_items q') = {#}"
    using one[of k] by (simp add: items)
  have "size (filter_mset (\<lambda>x. fst x = j) (pq_items q')) \<le> 1" for j
  proof (cases "j = k")
    case True
    then show ?thesis by (simp only: none size_empty)
  next
    case False
    then show ?thesis using one[of j] by (simp add: items)
  qed
  moreover have "k < k'" if "(k', e') \<in># pq_items q'" for k' e'
  proof -
    have "k \<le> k'" using get_least[OF _ assms(2) that] assms(1) by (simp add: numbered_def)
    moreover have "k' \<noteq> k" using none that by (auto simp: filter_mset_none)
    ultimately show ?thesis by simp
  qed
  ultimately show ?thesis
    using assms(1) ok_get[OF _ assms(2)] by (auto simp: numbered_def items)
qed

lemma numbered_skip: "numbered n q \<Longrightarrow> numbered (n + 1) q"
  by (force simp: numbered_def)

text \<open>All runs of a counter and a queue: numbered puts, numbers lost to a full queue, gets. \<open>d\<close> is
  what has been handed out, in order.\<close>

inductive pq_run :: "int \<Rightarrow> 'q \<Rightarrow> (int \<times> 'e) list \<Rightarrow> bool" where
  start: "pq_run 0 pq_empty []"
| put: "pq_run n q d \<Longrightarrow> pq_run (n + 1) (pq_put (n + 1) e q) d"
| skip: "pq_run n q d \<Longrightarrow> pq_run (n + 1) q d"
| get: "pq_run n q d \<Longrightarrow> pq_get q = Some (x, q') \<Longrightarrow> pq_run n q' (d @ [x])"

lemma run_numbered: "pq_run n q d \<Longrightarrow> numbered n q"
proof (induction rule: pq_run.induct)
  case (get n q d x q')
  then show ?case using numbered_get[of n q "fst x" "snd x" q'] by simp
qed (auto intro: numbered_empty numbered_put numbered_skip)

lemma run_order:
  "pq_run n q d \<Longrightarrow> sorted_wrt (<) (map fst d) \<and>
     (\<forall>k\<in>fst ` set d. k \<le> n \<and> (\<forall>(k', e')\<in>#pq_items q. k < k'))"
proof (induction rule: pq_run.induct)
  case (get n q d x q')
  obtain k e where x: "x = (k, e)" by (cases x)
  have g: "k \<le> n" "\<forall>(k', e')\<in>#pq_items q'. k < k'" "pq_items q = add_mset (k, e) (pq_items q')"
    using numbered_get[OF run_numbered[OF get(1)]] get_Some get(2) by (auto simp: x)
  then show ?case using get.IH by (auto simp: x sorted_wrt_append)
qed (auto simp: items_empty items_put dest: run_numbered)

end

text \<open>The model of the queue: entries sorted by key.\<close>

type_synonym 'e pqueue = "(int \<times> 'e) list"

fun heap_put :: "int \<Rightarrow> 'e \<Rightarrow> 'e pqueue \<Rightarrow> 'e pqueue" where
  "heap_put k e [] = [(k, e)]"
| "heap_put k e ((k', e') # q) = (if k < k' then (k, e) # (k', e') # q else (k', e') # heap_put k e q)"

fun heap_get :: "'e pqueue \<Rightarrow> ((int \<times> 'e) \<times> 'e pqueue) option" where
  "heap_get [] = None"
| "heap_get (x # q) = Some (x, q)"

definition heap_ok :: "'e pqueue \<Rightarrow> bool" where
  "heap_ok q = sorted (map fst q)"

lemma heap_put_items: "mset (heap_put k e q) = add_mset (k, e) (mset q)"
  by (induction k e q rule: heap_put.induct) auto

lemma heap_put_set: "set (heap_put k e q) = insert (k, e) (set q)"
  using heap_put_items[of k e q] by (metis set_mset_add_mset_insert set_mset_mset)

lemma heap_put_length [simp]: "length (heap_put k e q) = Suc (length q)"
  by (induction k e q rule: heap_put.induct) auto

lemma heap_put_ok: "heap_ok q \<Longrightarrow> heap_ok (heap_put k e q)"
proof (induction k e q rule: heap_put.induct)
  case (2 k e k' e' q)
  then show ?case by (auto simp: heap_ok_def heap_put_set)
qed (simp add: heap_ok_def)

text \<open>A key above all others goes to the back: publication order is queue order.\<close>

lemma heap_put_last: "(\<And>x. x \<in> fst ` set q \<Longrightarrow> x \<le> k) \<Longrightarrow> heap_put k e q = q @ [(k, e)]"
proof (induction k e q rule: heap_put.induct)
  case (2 k e k' e' q)
  have "k' \<le> k" by (rule "2.prems") simp
  moreover from this have "heap_put k e q = q @ [(k, e)]" by (intro "2.IH" "2.prems") auto
  ultimately show ?case by simp
qed simp

interpretation heap: priority_queue "[]" heap_put heap_get mset heap_ok
proof
  fix q q' :: "'e pqueue" and k e x k' e'
  show "heap_get q = None \<longleftrightarrow> mset q = {#}" by (cases q) auto
  show "heap_get q = Some ((k, e), q') \<Longrightarrow> mset q = add_mset (k, e) (mset q')" by (cases q) auto
  show "heap_ok q \<Longrightarrow> heap_get q = Some (x, q') \<Longrightarrow> heap_ok q'" by (cases q) (auto simp: heap_ok_def)
  show "heap_ok q \<Longrightarrow> heap_get q = Some ((k, e), q') \<Longrightarrow> (k', e') \<in># mset q' \<Longrightarrow> k \<le> k'"
    by (cases q) (auto simp: heap_ok_def)
qed (auto simp: heap_put_items heap_put_ok, simp add: heap_ok_def)

section \<open>The bus\<close>

record ('p, 'h) bus =
  bus_maxsize :: int
  bus_sequence :: int
  bus_queue :: "'p event pqueue"
  bus_subscribers :: "(event_type, 'h list) dict"
  bus_all_subscribers :: "'h list"
  bus_running :: bool

definition new_bus :: "int \<Rightarrow> ('p, 'h) bus" where
  "new_bus n = \<lparr>bus_maxsize = n, bus_sequence = 0, bus_queue = [], bus_subscribers = [],
     bus_all_subscribers = [], bus_running = False\<rparr>"

definition default_queue_maxsize :: int where
  "default_queue_maxsize = 10000"

definition bus_depth :: "('p, 'h) bus \<Rightarrow> nat" where
  "bus_depth b = length (bus_queue b)"

definition subscribe :: "('p, 'h) bus \<Rightarrow> event_type \<Rightarrow> 'h \<Rightarrow> ('p, 'h) bus" where
  "subscribe b t h = b\<lparr>bus_subscribers :=
     dict_set t (dict_get_or (bus_subscribers b) t [] @ [h]) (bus_subscribers b)\<rparr>"

definition subscribe_all :: "('p, 'h) bus \<Rightarrow> 'h \<Rightarrow> ('p, 'h) bus" where
  "subscribe_all b h = b\<lparr>bus_all_subscribers := bus_all_subscribers b @ [h]\<rparr>"

definition queue_full :: "int \<Rightarrow> nat \<Rightarrow> bool" where
  "queue_full maxsize n = (0 < maxsize \<and> maxsize \<le> int n)"

text \<open>The counter moves before the queue may refuse.\<close>

definition publish :: "('p, 'h) bus \<Rightarrow> 'p event \<Rightarrow> ('p, 'h) bus \<times> 'p event res" where
  "publish b e =
     (let n = bus_sequence b + 1; ordered = with_sequence e n; b1 = b\<lparr>bus_sequence := n\<rparr>
      in if queue_full (bus_maxsize b) (bus_depth b) then (b1, Inl QueueFull)
         else (b1\<lparr>bus_queue := heap_put (ev_sequence ordered) ordered (bus_queue b)\<rparr>, Inr ordered))"

definition take_event :: "('p, 'h) bus \<Rightarrow> ('p event \<times> ('p, 'h) bus) option" where
  "take_event b = (case heap_get (bus_queue b) of
     None \<Rightarrow> None | Some ((_, e), q) \<Rightarrow> Some (e, b\<lparr>bus_queue := q\<rparr>))"

definition handlers_for :: "('p, 'h) bus \<Rightarrow> 'p event \<Rightarrow> 'h list" where
  "handlers_for b e = bus_all_subscribers b @ dict_get_or (bus_subscribers b) (ev_type e) []"

type_synonym ('p, 'h, 'w) handler_sem =
  "'h \<Rightarrow> 'p event \<Rightarrow> ('p, 'h) bus \<times> 'w \<Rightarrow> (('p, 'h) bus \<times> 'w, unit) outcome"

text \<open>\<open>_dispatch\<close>: the handler list is fixed before the first handler runs; the first exception ends it.\<close>

definition dispatch ::
    "('p, 'h, 'w) handler_sem \<Rightarrow> 'p event \<Rightarrow> ('p, 'h) bus \<times> 'w \<Rightarrow> (('p, 'h) bus \<times> 'w, unit) outcome" where
  "dispatch run e s = for_act (\<lambda>h. run h e) (handlers_for (fst s) e) s"

definition drain_once ::
    "('p, 'h, 'w) handler_sem \<Rightarrow> ('p, 'h) bus \<times> 'w \<Rightarrow> (('p, 'h) bus \<times> 'w, 'p event option) outcome" where
  "drain_once run s = (case take_event (fst s) of
     None \<Rightarrow> (s, Inr None)
   | Some (e, b) \<Rightarrow> bind_act (dispatch run e (b, snd s)) (\<lambda>s' _. (s', Inr (Some e))))"

text \<open>\<open>run\<close> until stopped; the result \<open>True\<close> is a stop, \<open>False\<close> an empty queue at which the task waits.\<close>

partial_function (option) run_loop ::
    "('p, 'h, 'w) handler_sem \<Rightarrow> ('p, 'h) bus \<times> 'w \<Rightarrow> (('p, 'h) bus \<times> 'w, bool) outcome option" where
  "run_loop run s =
     (if \<not> bus_running (fst s) then Some (s, Inr True)
      else case take_event (fst s) of
        None \<Rightarrow> Some (s, Inr False)
      | Some (e, b) \<Rightarrow> (case dispatch run e (b, snd s) of
            (s', Inl x) \<Rightarrow> Some (s', Inl x)
          | (s', Inr _) \<Rightarrow> run_loop run s'))"

definition bus_run ::
    "('p, 'h, 'w) handler_sem \<Rightarrow> ('p, 'h) bus \<times> 'w \<Rightarrow> (('p, 'h) bus \<times> 'w, bool) outcome option" where
  "bus_run run s = run_loop run ((fst s)\<lparr>bus_running := True\<rparr>, snd s)"

definition bus_stop :: "('p, 'h) bus \<Rightarrow> ('p, 'h) bus" where
  "bus_stop b = b\<lparr>bus_running := False\<rparr>"

fun publish_all :: "'p event list \<Rightarrow> ('p, 'h) bus \<Rightarrow> (('p, 'h) bus, 'p event list) outcome" where
  "publish_all [] b = (b, Inr [])"
| "publish_all (e # es) b =
     bind_act (publish b (e\<lparr>ev_replay := True\<rparr>)) (\<lambda>b1 o1.
     bind_act (publish_all es b1) (\<lambda>b2 os. (b2, Inr (o1 # os))))"

text \<open>\<open>while not self._queue.empty(): await self.drain_once()\<close>; handlers may publish, so it need not end.\<close>

partial_function (option) drain_all ::
    "('p, 'h, 'w) handler_sem \<Rightarrow> ('p, 'h) bus \<times> 'w \<Rightarrow> (('p, 'h) bus \<times> 'w, unit) outcome option" where
  "drain_all run s =
     (if bus_queue (fst s) = [] then Some (s, Inr ())
      else case drain_once run s of
          (s', Inl x) \<Rightarrow> Some (s', Inl x)
        | (s', Inr _) \<Rightarrow> drain_all run s')"

definition bus_replay ::
    "('p, 'h, 'w) handler_sem \<Rightarrow> 'p event list \<Rightarrow> ('p, 'h) bus \<times> 'w \<Rightarrow>
     (('p, 'h) bus \<times> 'w, 'p event list) outcome option" where
  "bus_replay run events s =
     (case publish_all (sort_key replay_key_of events) (fst s) of
        (b, Inl x) \<Rightarrow> Some ((b, snd s), Inl x)
      | (b, Inr ordered) \<Rightarrow> (case drain_all run (b, snd s) of
            None \<Rightarrow> None
          | Some (s', Inl x) \<Rightarrow> Some (s', Inl x)
          | Some (s', Inr _) \<Rightarrow> Some (s', Inr ordered)))"

section \<open>Replay engine, replay store, asynchronous writer\<close>

record replay_result =
  rr_input_events :: nat
  rr_output_events :: nat
  rr_deterministic :: bool

definition no_handlers :: "('p, unit, unit) handler_sem" where
  "no_handlers h e s = (s, Inr ())"

definition replay_engine_run :: "'p event list \<Rightarrow> replay_result res option" where
  "replay_engine_run events =
     (case bus_replay no_handlers events (new_bus default_queue_maxsize, ()) of
        None \<Rightarrow> None
      | Some (_, Inl x) \<Rightarrow> Some (Inl x)
      | Some (_, Inr first) \<Rightarrow> (case bus_replay no_handlers events (new_bus default_queue_maxsize, ()) of
            None \<Rightarrow> None
          | Some (_, Inl x) \<Rightarrow> Some (Inl x)
          | Some (_, Inr second) \<Rightarrow> Some (Inr
              \<lparr>rr_input_events = length events, rr_output_events = length first,
               rr_deterministic = (map ev_sequence first = map ev_sequence second)\<rparr>)))"

type_synonym 'p replay_store = "'p event list"

definition store_append :: "'p replay_store \<Rightarrow> 'p event \<Rightarrow> 'p replay_store" where
  "store_append st e = st @ [e]"

definition store_load :: "'p replay_store \<Rightarrow> 'p event list" where
  "store_load st = sort_key ev_sequence st"

record 'r async_writer =
  aw_maxsize :: int
  aw_queue :: "'r list"
  aw_running :: bool

definition new_writer :: "int \<Rightarrow> 'r async_writer" where
  "new_writer n = \<lparr>aw_maxsize = n, aw_queue = [], aw_running = False\<rparr>"

definition enqueue :: "'r async_writer \<Rightarrow> 'r \<Rightarrow> 'r async_writer \<times> unit res" where
  "enqueue w r = (if queue_full (aw_maxsize w) (length (aw_queue w)) then (w, Inl QueueFull)
     else (w\<lparr>aw_queue := aw_queue w @ [r]\<rparr>, Inr ()))"

partial_function (option) writer_loop ::
    "('r \<Rightarrow> 'r async_writer \<times> 'w \<Rightarrow> ('r async_writer \<times> 'w, unit) outcome) \<Rightarrow>
     'r async_writer \<times> 'w \<Rightarrow> ('r async_writer \<times> 'w, bool) outcome option" where
  "writer_loop handle s =
     (if \<not> aw_running (fst s) then Some (s, Inr True)
      else case aw_queue (fst s) of
        [] \<Rightarrow> Some (s, Inr False)
      | r # rs \<Rightarrow> (case handle r ((fst s)\<lparr>aw_queue := rs\<rparr>, snd s) of
            (s', Inl x) \<Rightarrow> Some (s', Inl x)
          | (s', Inr _) \<Rightarrow> writer_loop handle s'))"

definition writer_run ::
    "('r \<Rightarrow> 'r async_writer \<times> 'w \<Rightarrow> ('r async_writer \<times> 'w, unit) outcome) \<Rightarrow>
     'r async_writer \<times> 'w \<Rightarrow> ('r async_writer \<times> 'w, bool) outcome option" where
  "writer_run handle s = writer_loop handle ((fst s)\<lparr>aw_running := True\<rparr>, snd s)"

definition writer_stop :: "'r async_writer \<Rightarrow> 'r async_writer" where
  "writer_stop w = w\<lparr>aw_running := False\<rparr>"

section \<open>The bus is a queue in publication order\<close>

lemma new_bus_simps [simp, frame_simps]:
  "bus_maxsize (new_bus n) = n" "bus_sequence (new_bus n) = 0" "bus_queue (new_bus n) = []"
  "bus_subscribers (new_bus n) = []" "bus_all_subscribers (new_bus n) = []"
  by (simp_all add: new_bus_def)

lemma with_sequence_simps [simp]:
  "ev_sequence (with_sequence e n) = n" "ev_replay (with_sequence e n) = ev_replay e"
  "ev_id (with_sequence e n) = ev_id e" "ev_timestamp (with_sequence e n) = ev_timestamp e"
  "ev_type (with_sequence e n) = ev_type e" "ev_payload (with_sequence e n) = ev_payload e"
  by (simp_all add: with_sequence_def)

text \<open>What any number of tasks can do to a bus; \<open>acc\<close> collects what publications returned, \<open>del\<close>
  what was taken for dispatch.\<close>

inductive bus_step ::
    "('p, 'h) bus \<times> 'p event list \<times> 'p event list \<Rightarrow> ('p, 'h) bus \<times> 'p event list \<times> 'p event list \<Rightarrow> bool" where
  published: "publish b e = (b', Inr ordered) \<Longrightarrow> bus_step (b, acc, del) (b', acc @ [ordered], del)"
| refused: "publish b e = (b', Inl x) \<Longrightarrow> bus_step (b, acc, del) (b', acc, del)"
| taken: "take_event b = Some (e, b') \<Longrightarrow> bus_step (b, acc, del) (b', acc, del @ [e])"
| subscribed: "bus_step (b, acc, del) (subscribe b t h, acc, del)"
| subscribed_all: "bus_step (b, acc, del) (subscribe_all b h, acc, del)"
| stopped: "bus_step (b, acc, del) (bus_stop b, acc, del)"
| started: "bus_step (b, acc, del) (b\<lparr>bus_running := True\<rparr>, acc, del)"

inductive_cases bus_stepE: "bus_step s s'"

abbreviation entry :: "'p event \<Rightarrow> int \<times> 'p event" where
  "entry e \<equiv> (ev_sequence e, e)"

definition bus_inv :: "('p, 'h) bus \<times> 'p event list \<times> 'p event list \<Rightarrow> bool" where
  "bus_inv s = (case s of (b, acc, del) \<Rightarrow>
     heap.pq_run (bus_sequence b) (bus_queue b) (map entry del) \<and>
     map entry acc = map entry del @ bus_queue b \<and>
     (0 < bus_maxsize b \<longrightarrow> int (bus_depth b) \<le> bus_maxsize b))"

lemma bus_queue_below:
  "bus_inv (b, acc, del) \<Longrightarrow> x \<in> fst ` set (bus_queue b) \<Longrightarrow> x \<le> bus_sequence b"
  using heap.run_numbered by (fastforce simp: bus_inv_def heap.numbered_def)

lemma bus_inv_publish:
  assumes inv: "bus_inv (b, acc, del)" and pub: "publish b e = (b', Inr ordered)"
  shows "bus_inv (b', acc @ [ordered], del)"
proof -
  let ?n = "bus_sequence b + 1"
  have o: "ordered = with_sequence e ?n" "\<not> queue_full (bus_maxsize b) (bus_depth b)"
      "b' = b\<lparr>bus_sequence := ?n, bus_queue := heap_put ?n ordered (bus_queue b)\<rparr>"
    using pub by (auto simp: publish_def Let_def split: if_splits)
  have "heap_put ?n ordered (bus_queue b) = bus_queue b @ [entry ordered]"
    using bus_queue_below[OF inv] o(1) by (subst heap_put_last) force+
  moreover have "heap.pq_run ?n (heap_put ?n ordered (bus_queue b)) (map entry del)"
    using inv by (intro heap.pq_run.put) (simp add: bus_inv_def)
  ultimately show ?thesis using inv o by (auto simp: bus_inv_def queue_full_def bus_depth_def)
qed

lemma bus_inv_refused:
  "bus_inv (b, acc, del) \<Longrightarrow> publish b e = (b', Inl x) \<Longrightarrow> bus_inv (b', acc, del)"
  by (auto simp: bus_inv_def publish_def Let_def bus_depth_def intro: heap.pq_run.skip split: if_splits)

lemma bus_inv_taken:
  assumes inv: "bus_inv (b, acc, del)" and take: "take_event b = Some (e, b')"
  shows "bus_inv (b', acc, del @ [e])"
proof -
  obtain k q where q: "heap_get (bus_queue b) = Some ((k, e), q)" "b' = b\<lparr>bus_queue := q\<rparr>"
    using take by (auto simp: take_event_def split: option.splits)
  then have b: "bus_queue b = (k, e) # q" by (cases "bus_queue b") auto
  have "(k, e) \<in> set (map entry acc)" using inv b by (simp add: bus_inv_def)
  then have k: "k = ev_sequence e" by auto
  have "heap.pq_run (bus_sequence b) q (map entry del @ [entry e])"
    using inv q k by (intro heap.pq_run.get[of _ "bus_queue b"]) (auto simp: bus_inv_def)
  then show ?thesis using inv b k q(2) by (auto simp: bus_inv_def bus_depth_def)
qed

lemma bus_inv_frame:
  "bus_inv (b, acc, del) \<Longrightarrow> bus_sequence b' = bus_sequence b \<Longrightarrow> bus_queue b' = bus_queue b \<Longrightarrow>
   bus_maxsize b' = bus_maxsize b \<Longrightarrow> bus_inv (b', acc, del)"
  by (simp add: bus_inv_def bus_depth_def)

lemma bus_inv_step: "bus_step s s' \<Longrightarrow> bus_inv s \<Longrightarrow> bus_inv s'"
proof (induction rule: bus_step.induct)
  case (published b e b' ordered acc del)
  then show ?case by (rule bus_inv_publish[rotated])
next
  case (refused b e b' x acc del)
  then show ?case by (rule bus_inv_refused[rotated])
next
  case (taken b e b' acc del)
  then show ?case by (rule bus_inv_taken[rotated])
qed (auto elim!: bus_inv_frame simp: subscribe_def subscribe_all_def bus_stop_def)

lemma bus_inv_reach: "bus_step\<^sup>*\<^sup>* (new_bus n, [], []) s \<Longrightarrow> bus_inv s"
proof (induction rule: rtranclp_induct)
  case base
  then show ?case using heap.pq_run.start by (auto simp: bus_inv_def bus_depth_def)
qed (rule bus_inv_step)

text \<open>\<open>C6\<close>: Whatever tasks and handlers do with the bus, events are dispatched in publication
  order. At every moment the accepted events are those dispatched so far followed by those still
  queued, and the sequence numbers of the dispatched events increase strictly.\<close>

theorem bus_dispatches_in_publication_order:
  assumes "bus_step\<^sup>*\<^sup>* (new_bus n, [], []) (b, acc, del)"
  shows "acc = del @ map snd (bus_queue b) \<and> sorted_wrt (<) (map ev_sequence del) \<and>
     (\<forall>e\<in>set del. ev_sequence e \<le> bus_sequence b) \<and>
     (bus_maxsize b \<le> 0 \<or> int (bus_depth b) \<le> bus_maxsize b)"
proof -
  have inv: "bus_inv (b, acc, del)" using assms by (rule bus_inv_reach)
  then have "map snd (map entry acc) = map snd (map entry del @ bus_queue b)" by (simp add: bus_inv_def)
  then have "acc = del @ map snd (bus_queue b)" by (simp add: comp_def)
  moreover have "heap.pq_run (bus_sequence b) (bus_queue b) (map entry del)"
    using inv by (simp add: bus_inv_def)
  from heap.run_order[OF this] have "sorted_wrt (<) (map ev_sequence del) \<and>
      (\<forall>e\<in>set del. ev_sequence e \<le> bus_sequence b)" by (simp add: comp_def)
  moreover have "bus_maxsize b \<le> 0 \<or> int (bus_depth b) \<le> bus_maxsize b"
    using inv by (auto simp: bus_inv_def)
  ultimately show ?thesis by simp
qed

definition sample_event :: "string \<Rightarrow> instant \<Rightarrow> unit event" where
  "sample_event i t = \<lparr>ev_id = i, ev_type = MARKET_TICK, ev_sequence = 0, ev_timestamp = t,
     ev_symbol = None, ev_payload = (), ev_replay = False\<rparr>"

theorem bus_dispatches_in_publication_order_witness:
  "let b = (new_bus 2)\<lparr>bus_sequence := 1, bus_queue := []\<rparr>;
       o1 = with_sequence (sample_event ''a'' 5) 1
   in [o1] = [o1] @ map snd (bus_queue (b :: (unit, unit) bus))"
proof -
  let ?b = "(new_bus 2)\<lparr>bus_sequence := 1, bus_queue := [(1, with_sequence (sample_event ''a'' 5) 1)]\<rparr> :: (unit, unit) bus"
  let ?c = "?b\<lparr>bus_queue := []\<rparr>"
  let ?o = "with_sequence (sample_event ''a'' 5) 1"
  have "publish (new_bus 2 :: (unit, unit) bus) (sample_event ''a'' 5) = (?b, Inr ?o)"
    by (simp add: publish_def queue_full_def bus_depth_def Let_def)
  then have "bus_step (new_bus 2, [], []) (?b, [] @ [?o], [])" by (rule published)
  moreover have "take_event ?b = Some (?o, ?c)" by (simp add: take_event_def)
  then have "bus_step (?b, [?o], []) (?c, [?o], [] @ [?o])" by (rule taken)
  ultimately have "bus_step\<^sup>*\<^sup>* (new_bus 2, [], []) (?c, [?o], [?o])" by simp
  from bus_dispatches_in_publication_order[OF this] show ?thesis by (simp add: Let_def)
qed

text \<open>Publications only extend what was accepted.\<close>

lemma bus_steps_accept:
  "bus_step\<^sup>*\<^sup>* s s' \<Longrightarrow> \<exists>new. fst (snd s') = fst (snd s) @ new"
  by (induction rule: rtranclp_induct) (auto elim!: bus_stepE)

lemma accepted_events: "bus_inv (b, acc, del) \<Longrightarrow> acc = del @ map snd (bus_queue b)"
  by (auto simp: bus_inv_def comp_def dest: arg_cong[of _ _ "map snd"])

text \<open>\<open>C16\<close>: No queued event starves: an event with i events before it in the queue is the one dispatched after i further
  dispatches, whatever is published, refused, subscribed or stopped meanwhile, and until the events queued
  now are all dispatched the bus always has an event to take.
\<close>

theorem queued_events_are_dispatched:
  assumes "bus_step\<^sup>*\<^sup>* (new_bus n, [], []) (b, acc, del)" and "bus_step\<^sup>*\<^sup>* (b, acc, del) (b', acc', del')"
  shows "(\<forall>i<bus_depth b. length del + i < length del' \<longrightarrow> del' ! (length del + i) = snd (bus_queue b ! i)) \<and>
    (length del' < length del + bus_depth b \<longrightarrow> (\<exists>e b''. take_event b' = Some (e, b'')))"
proof -
  have now: "acc = del @ map snd (bus_queue b)" using bus_inv_reach[OF assms(1)] by (rule accepted_events)
  have then': "acc' = del' @ map snd (bus_queue b')"
    using bus_inv_reach[OF rtranclp_trans[OF assms]] by (rule accepted_events)
  obtain new where new: "acc' = acc @ new" using bus_steps_accept[OF assms(2)] by auto
  have turn: "del' ! (length del + i) = snd (bus_queue b ! i)" if "i < bus_depth b" "length del + i < length del'" for i
  proof -
    have "acc' ! (length del + i) = map snd (bus_queue b) ! i" using that(1) by (simp add: new now bus_depth_def nth_append)
    then show ?thesis using that by (simp add: then' bus_depth_def nth_append)
  qed
  have "\<exists>e b''. take_event b' = Some (e, b'')" if "length del' < length del + bus_depth b"
  proof -
    from that have "length del' < length acc'" by (simp add: new now bus_depth_def)
    then obtain x q where "bus_queue b' = x # q" unfolding then' by (cases "bus_queue b'") auto
    then show ?thesis by (cases x) (simp add: take_event_def)
  qed
  with turn show ?thesis by blast
qed

theorem queued_events_are_dispatched_witness:
  "let b = (new_bus 2)\<lparr>bus_sequence := 1, bus_queue := [(1, with_sequence (sample_event ''a'' 5) 1)]\<rparr> :: (unit, unit) bus
   in snd (bus_queue b ! 0) = with_sequence (sample_event ''a'' 5) 1 \<and> (\<exists>e b''. take_event b = Some (e, b''))"
proof -
  let ?o = "with_sequence (sample_event ''a'' 5) 1"
  let ?b = "(new_bus 2)\<lparr>bus_sequence := 1, bus_queue := [(1, ?o)]\<rparr> :: (unit, unit) bus"
  let ?c = "?b\<lparr>bus_queue := []\<rparr>"
  have "publish (new_bus 2 :: (unit, unit) bus) (sample_event ''a'' 5) = (?b, Inr ?o)"
    by (simp add: publish_def queue_full_def bus_depth_def Let_def)
  then have "bus_step (new_bus 2, [], []) (?b, [] @ [?o], [])" by (rule published)
  then have b: "bus_step\<^sup>*\<^sup>* (new_bus 2, [], []) (?b, [?o], [])" by simp
  have "bus_step (?b, [?o], []) (?c, [?o], [] @ [?o])" by (rule taken) (simp add: take_event_def)
  then have c: "bus_step\<^sup>*\<^sup>* (?b, [?o], []) (?c, [?o], [?o])" by simp
  from queued_events_are_dispatched[OF b c] queued_events_are_dispatched[OF b rtranclp.rtrancl_refl]
  show ?thesis by (simp add: Let_def bus_depth_def)
qed

section \<open>Replay\<close>

fun renumber :: "int \<Rightarrow> 'p event list \<Rightarrow> 'p event list" where
  "renumber n [] = []"
| "renumber n (e # es) = with_sequence (e\<lparr>ev_replay := True\<rparr>) (n + 1) # renumber (n + 1) es"

lemma length_renumber [simp]: "length (renumber n es) = length es"
  by (induction es arbitrary: n) auto

lemma renumber_sequences: "map ev_sequence (renumber n es) = map (\<lambda>i. n + 1 + int i) [0..<length es]"
proof (induction es arbitrary: n)
  case (Cons e es)
  then show ?case by (simp add: upt_conv_Cons map_Suc_upt[symmetric] comp_def algebra_simps del: upt_Suc)
qed simp

lemma renumber_ids: "map ev_id (renumber n es) = map ev_id es"
  by (induction es arbitrary: n) auto

definition fits :: "int \<Rightarrow> nat \<Rightarrow> bool" where
  "fits maxsize n = (maxsize \<le> 0 \<or> int n \<le> maxsize)"

text \<open>Publishing a list onto a bus whose queue is below its counter appends it, renumbered, or runs
  into the bound.\<close>

lemma publish_all_ok:
  assumes "\<forall>k\<in>fst ` set (bus_queue b). k \<le> bus_sequence b" and "fits (bus_maxsize b) (bus_depth b + length es)"
  shows "publish_all es b =
     (b\<lparr>bus_sequence := bus_sequence b + int (length es),
        bus_queue := bus_queue b @ map entry (renumber (bus_sequence b) es)\<rparr>,
      Inr (renumber (bus_sequence b) es))"
  using assms
proof (induction es arbitrary: b)
  case (Cons e es)
  let ?o = "with_sequence (e\<lparr>ev_replay := True\<rparr>) (bus_sequence b + 1)"
  let ?b = "b\<lparr>bus_sequence := bus_sequence b + 1, bus_queue := bus_queue b @ [entry ?o]\<rparr>"
  have "heap_put (bus_sequence b + 1) ?o (bus_queue b) = bus_queue b @ [entry ?o]"
    using Cons.prems(1) by (subst heap_put_last) force+
  moreover have "\<not> queue_full (bus_maxsize b) (bus_depth b)"
    using Cons.prems(2) by (auto simp: fits_def queue_full_def)
  ultimately have pub: "publish b (e\<lparr>ev_replay := True\<rparr>) = (?b, Inr ?o)"
    by (simp add: publish_def Let_def)
  have "\<forall>k\<in>fst ` set (bus_queue ?b). k \<le> bus_sequence ?b" using Cons.prems(1) by auto
  moreover have "fits (bus_maxsize ?b) (bus_depth ?b + length es)"
    using Cons.prems(2) by (simp add: bus_depth_def)
  ultimately show ?case by (simp add: Cons.IH pub algebra_simps)
qed simp

lemma publish_all_overflow:
  assumes "\<not> fits (bus_maxsize b) (bus_depth b + length es)" and "fits (bus_maxsize b) (bus_depth b)"
  shows "snd (publish_all es b) = Inl QueueFull"
  using assms
proof (induction es arbitrary: b)
  case (Cons e es)
  show ?case
  proof (cases "queue_full (bus_maxsize b) (bus_depth b)")
    case True
    then show ?thesis by (simp add: publish_def Let_def)
  next
    case False
    then obtain b' o' where p: "publish b (e\<lparr>ev_replay := True\<rparr>) = (b', Inr o')"
        "bus_maxsize b' = bus_maxsize b" "bus_depth b' = Suc (bus_depth b)"
      by (simp add: publish_def Let_def bus_depth_def)
    then have "\<not> fits (bus_maxsize b') (bus_depth b' + length es)" "fits (bus_maxsize b') (bus_depth b')"
      using Cons.prems False by (auto simp: fits_def queue_full_def)
    then have "snd (publish_all es b') = Inl QueueFull" by (rule Cons.IH)
    then show ?thesis by (simp add: p(1) bind_act_def)
  qed
qed (simp add: fits_def)

text \<open>Handlers that leave the bus alone and do not raise: draining ends and shows them every queued
  event, in queue order, each to the handlers in subscription order.\<close>

definition bus_neutral :: "('p, 'h, 'w) handler_sem \<Rightarrow> ('h \<Rightarrow> 'p event \<Rightarrow> 'w \<Rightarrow> 'w) \<Rightarrow> bool" where
  "bus_neutral run f = (\<forall>h e b w. run h e (b, w) = ((b, f h e w), Inr ()))"

definition deliver :: "('h \<Rightarrow> 'p event \<Rightarrow> 'w \<Rightarrow> 'w) \<Rightarrow> ('p, 'h) bus \<Rightarrow> 'p event \<Rightarrow> 'w \<Rightarrow> 'w" where
  "deliver f b e = fold (\<lambda>h. f h e) (handlers_for b e)"

lemma dispatch_neutral:
  assumes "bus_neutral run f"
  shows "dispatch run e (b, w) = ((b, deliver f b e w), Inr ())"
proof -
  have "for_act (\<lambda>h. run h e) hs (b, w) = ((b, fold (\<lambda>h. f h e) hs w), Inr ())" for hs
    using assms by (induction hs arbitrary: w) (simp_all add: bus_neutral_def)
  then show ?thesis by (simp add: dispatch_def deliver_def)
qed

lemma deliver_queue [simp]: "deliver f (b\<lparr>bus_queue := q\<rparr>) = deliver f b"
  "deliver f (b\<lparr>bus_sequence := n\<rparr>) = deliver f b"
  by (simp_all add: deliver_def handlers_for_def fun_eq_iff)

lemma drain_all_neutral:
  assumes "bus_neutral run f"
  shows "drain_all run (b, w) =
     Some ((b\<lparr>bus_queue := []\<rparr>, fold (deliver f b) (map snd (bus_queue b)) w), Inr ())"
proof (induction "bus_queue b" arbitrary: b w)
  case Nil
  then show ?case by (subst drain_all.simps) simp
next
  case (Cons x q)
  obtain k e where x: "x = (k, e)" by (cases x)
  then have "take_event b = Some (e, b\<lparr>bus_queue := q\<rparr>)" using Cons.hyps(2)[symmetric] by (simp add: take_event_def)
  then have "drain_once run (b, w) = ((b\<lparr>bus_queue := q\<rparr>, deliver f b e w), Inr (Some e))"
    using assms by (simp add: drain_once_def dispatch_neutral)
  moreover have "drain_all run (b\<lparr>bus_queue := q\<rparr>, deliver f b e w) =
      Some ((b\<lparr>bus_queue := []\<rparr>, fold (deliver f b) (map snd q) (deliver f b e w)), Inr ())"
    using Cons.hyps(1)[of "b\<lparr>bus_queue := q\<rparr>" "deliver f b e w"] by simp
  ultimately show ?case using Cons.hyps(2)[symmetric] by (subst drain_all.simps) (simp add: x)
qed

definition replay_order :: "'p event list \<Rightarrow> 'p event list" where
  "replay_order events = renumber 0 (sort_key replay_key_of events)"

lemma bus_replay_fresh:
  assumes "bus_neutral run f" and "bus_queue b = []" and "bus_sequence b = 0" and "fits (bus_maxsize b) (length events)"
  shows "bus_replay run events (b, w) =
     Some ((b\<lparr>bus_sequence := int (length events)\<rparr>, fold (deliver f b) (replay_order events) w),
           Inr (replay_order events))"
proof -
  have "publish_all (sort_key replay_key_of events) b =
      (b\<lparr>bus_sequence := int (length events), bus_queue := map entry (replay_order events)\<rparr>,
       Inr (replay_order events))"
    using assms(2-4) by (subst publish_all_ok) (simp_all add: bus_depth_def replay_order_def)
  then show ?thesis using assms(2) by (simp add: bus_replay_def drain_all_neutral[OF assms(1)] comp_def)
qed

lemma renumber_numbers: "map ev_sequence (renumber 0 es) = map int [1..<length es + 1]"
proof -
  have "map (\<lambda>i. 0 + 1 + int i) [0..<length es] = map int (map Suc [0..<length es])" by simp
  also have "map Suc [0..<length es] = [1..<length es + 1]" by (simp add: map_Suc_upt del: upt_Suc)
  finally show ?thesis by (simp only: renumber_sequences)
qed

lemma store_load_replay: "store_load (replay_order events) = replay_order events"
proof -
  have "sorted (map ev_sequence (replay_order events))"
    unfolding replay_order_def renumber_numbers by (simp add: sorted_iff_nth_mono del: upt_Suc)
  then show ?thesis by (simp add: store_load_def sort_key_id_if_sorted)
qed

definition record_events :: "('p, unit, 'p replay_store) handler_sem" where
  "record_events h e s = ((fst s, store_append (snd s) e), Inr ())"

text \<open>Replaying recorded events through a fresh bus whose one subscriber appends to a replay
  store publishes them in the order of timestamp, sequence and event id, numbered from 1 and marked as
  replayed; the subscriber sees exactly that list; the store loads it back; the queue ends empty.\<close>

theorem replay_feeds_store:
  assumes "n \<le> 0 \<or> int (length events) \<le> n"
  shows "\<exists>b' ordered. bus_replay record_events events (subscribe_all (new_bus n) (), []) =
       Some ((b', ordered), Inr ordered) \<and> bus_queue b' = [] \<and> store_load ordered = ordered \<and>
     map ev_id ordered = map ev_id (sort_key replay_key_of events) \<and>
     map ev_sequence ordered = map int [1..<length events + 1] \<and> (\<forall>e\<in>set ordered. ev_replay e)"
proof -
  let ?b = "subscribe_all (new_bus n) () :: ('a, unit) bus"
  have n: "bus_neutral (record_events :: ('a, unit, 'a replay_store) handler_sem) (\<lambda>h e w. store_append w e)"
    by (simp add: bus_neutral_def record_events_def)
  have "fold (deliver (\<lambda>h e w. store_append w e) ?b) es w = w @ es" for es w
    by (induction es arbitrary: w)
      (simp_all add: deliver_def handlers_for_def subscribe_all_def dict_get_or_def store_append_def)
  moreover have "map ev_sequence (replay_order events) = map int [1..<length events + 1]"
    unfolding replay_order_def renumber_numbers by simp
  moreover have "\<forall>e\<in>set (renumber k es). ev_replay e" for k and es :: "'a event list"
    by (induction es arbitrary: k) auto
  ultimately show ?thesis
    using bus_replay_fresh[OF n, of ?b events "[]"] assms store_load_replay[of events]
    by (simp add: fits_def subscribe_all_def) (simp add: replay_order_def renumber_ids)
qed

theorem replay_feeds_store_witness:
  "\<exists>b' ordered. bus_replay record_events [sample_event ''b'' 7, sample_event ''a'' 7]
     (subscribe_all (new_bus 2) (), []) = Some ((b', ordered), Inr ordered) \<and> map ev_id ordered = [''a'', ''b'']"
proof -
  have "sort_key replay_key_of [sample_event ''b'' 7, sample_event ''a'' 7] =
      [sample_event ''a'' 7, sample_event ''b'' 7]"
    by (simp add: sample_event_def replay_key_of_def less_eq_replay_key_def less_replay_key_def)
  with replay_feeds_store[of 2 "[sample_event ''b'' 7, sample_event ''a'' 7]"] show ?thesis
    by (force simp: sample_event_def)
qed

text \<open>The replay engine. Up to the queue bound of 10000 events two replays number the events
  alike, so the run is reported deterministic with as many outputs as inputs; a longer recording ends
  in \<open>QueueFull\<close>, since everything is published before the first event is drained.\<close>

theorem replay_engine_outcome:
  "replay_engine_run events = Some
     (if length events \<le> 10000
      then Inr \<lparr>rr_input_events = length events, rr_output_events = length events, rr_deterministic = True\<rparr>
      else Inl QueueFull)"
proof (cases "length events \<le> 10000")
  case True
  have "bus_neutral (no_handlers :: ('a, unit, unit) handler_sem) (\<lambda>h e w. w)"
    by (simp add: bus_neutral_def no_handlers_def)
  from bus_replay_fresh[OF this, of "new_bus default_queue_maxsize" events "()"] True show ?thesis
    by (simp add: replay_engine_run_def default_queue_maxsize_def fits_def replay_order_def)
next
  case False
  let ?b = "new_bus default_queue_maxsize :: ('a, unit) bus"
  have "snd (publish_all (sort_key replay_key_of events) ?b) = Inl QueueFull"
    using False by (intro publish_all_overflow) (auto simp: fits_def default_queue_maxsize_def bus_depth_def)
  then obtain b where "publish_all (sort_key replay_key_of events) ?b = (b, Inl QueueFull)"
    by (metis prod.collapse)
  with False show ?thesis by (simp add: replay_engine_run_def bus_replay_def)
qed

section \<open>The writer is a bounded queue\<close>

lemma writer_run_order:
  assumes "\<forall>r q w. handle r (q, w) = ((q, f r w), Inr ())" and "aw_running q"
  shows "writer_loop handle (q, w) = Some ((q\<lparr>aw_queue := []\<rparr>, fold f (aw_queue q) w), Inr False)"
  using assms(2)
proof (induction "aw_queue q" arbitrary: q w)
  case Nil
  then show ?case by (subst writer_loop.simps) (simp flip: Nil(1))
next
  case (Cons r rs)
  have "writer_loop handle (q\<lparr>aw_queue := rs\<rparr>, f r w) =
      Some ((q\<lparr>aw_queue := []\<rparr>, fold f rs (f r w)), Inr False)"
    using Cons(1)[of "q\<lparr>aw_queue := rs\<rparr>" "f r w"] Cons.prems by simp
  then show ?case
    using assms(1) Cons.prems by (subst writer_loop.simps) (simp flip: Cons(2))
qed

end
