(* ===== verification/Py_Time.thy ===== *)
theory Py_Time
  imports Core_Model
begin

text \<open>
  \<open>datetime\<close> in UTC. A datetime is an \<open>instant\<close> (microseconds since 1970); this theory holds the
  proleptic Gregorian calendar (\<open>date()\<close>), \<open>isoformat()\<close> of dates and datetimes and
  \<open>timedelta.total_seconds()\<close>, and proves that two days have the same \<open>isoformat\<close> only if they are
  the same day, which the daily resets rely on.
\<close>

section \<open>The calendar\<close>

definition us_per_second :: int where "us_per_second = 1000000"
definition us_per_day :: int where "us_per_day = 86400000000"

text \<open>\<open>date.toordinal\<close>: day 1 is 0001-01-01.\<close>

definition day_ordinal :: "instant \<Rightarrow> int" where
  "day_ordinal t = t div us_per_day + 719163"

definition is_leap :: "int \<Rightarrow> bool" where
  "is_leap y = (y mod 4 = 0 \<and> (y mod 100 \<noteq> 0 \<or> y mod 400 = 0))"

definition days_before_year :: "int \<Rightarrow> int" where
  "days_before_year y = (let p = y - 1 in p * 365 + p div 4 - p div 100 + p div 400)"

definition month_lengths :: "bool \<Rightarrow> int list" where
  "month_lengths leap = [31, if leap then 29 else 28, 31, 30, 31, 30, 31, 31, 30, 31, 30, 31]"

fun month_day :: "int \<Rightarrow> int \<Rightarrow> int list \<Rightarrow> int \<times> int" where
  "month_day m n [] = (m, n + 1)"
| "month_day m n (len # lens) = (if n < len \<or> lens = [] then (m, n + 1) else month_day (m + 1) (n - len) lens)"

definition year_and_day :: "int \<Rightarrow> int \<times> int" where
  "year_and_day ordinal =
     (let n = ordinal - 1;
          n400 = n div 146097; n = n mod 146097;
          n100 = n div 36524; n = n mod 36524;
          n4 = n div 1461; n = n mod 1461;
          n1 = n div 365;
          y = n400 * 400 + n100 * 100 + n4 * 4 + n1 + 1
      in if n1 = 4 \<or> n100 = 4 then (y - 1, 365) else (y, n mod 365))"

definition date_of :: "instant \<Rightarrow> int \<times> int \<times> int" where
  "date_of t = (let (y, n) = year_and_day (day_ordinal t) in (y, month_day 1 n (month_lengths (is_leap y))))"

lemma div_mod_split: "0 < (d::int) \<Longrightarrow> \<exists>q r. n = q * d + r \<and> 0 \<le> r \<and> r < d \<and> n div d = q \<and> n mod d = r"
  by (metis div_mult_mod_eq pos_mod_bound pos_mod_sign)

text \<open>The year found is the right one: the day in the year counts from its first day.\<close>

lemma year_and_day_correct:
  assumes "year_and_day k = (y, n)"
  shows "days_before_year y + n + 1 = k" and "0 \<le> n"
proof -
  obtain a r where a: "k - 1 = a * 146097 + r" "0 \<le> r" "r < 146097" "(k - 1) div 146097 = a" "(k - 1) mod 146097 = r"
    using div_mod_split[of 146097 "k - 1", OF zero_less_numeral] by blast
  obtain b s where b: "r = b * 36524 + s" "0 \<le> s" "s < 36524" "r div 36524 = b" "r mod 36524 = s"
    using div_mod_split[of 36524 r, OF zero_less_numeral] by blast
  obtain c u where c: "s = c * 1461 + u" "0 \<le> u" "u < 1461" "s div 1461 = c" "s mod 1461 = u"
    using div_mod_split[of 1461 s, OF zero_less_numeral] by blast
  obtain d v where d: "u = d * 365 + v" "0 \<le> v" "v < 365" "u div 365 = d" "u mod 365 = v"
    using div_mod_split[of 365 u, OF zero_less_numeral] by blast
  have "0 \<le> b" "b \<le> 4" using a(2,3) b(1-3) by linarith+
  moreover have "0 \<le> c" "c \<le> 24" using b(2,3) c(1-3) by linarith+
  moreover have "0 \<le> d" "d \<le> 4" using c(2,3) d(1-3) by linarith+
  ultimately have bnd: "0 \<le> b" "b \<le> 4" "0 \<le> c" "c \<le> 24" "0 \<le> d" "d \<le> 4" by blast+
  have yn: "(y, n) = (if d = 4 \<or> b = 4 then (a * 400 + b * 100 + c * 4 + d, 365)
      else (a * 400 + b * 100 + c * 4 + d + 1, v))"
    using assms by (auto simp: year_and_day_def Let_def a(4,5) b(4,5) c(4,5) d(4,5) split: if_splits)
  have before: "days_before_year (a * 400 + b' * 100 + c' * 4 + d' + 1) =
      a * 146097 + b' * 36524 + c' * 1461 + d' * 365"
    if "0 \<le> b'" "b' \<le> 3" "0 \<le> c'" "c' \<le> 24" "0 \<le> d'" "d' \<le> 3" for b' c' d'
  proof -
    have "(a * 400 + b' * 100 + c' * 4 + d') div 4 = a * 100 + b' * 25 + c'"
      using that by (intro int_div_pos_eq[of _ _ _ d']) auto
    moreover have "(a * 400 + b' * 100 + c' * 4 + d') div 100 = a * 4 + b'"
      using that by (intro int_div_pos_eq[of _ _ _ "c' * 4 + d'"]) auto
    moreover have "(a * 400 + b' * 100 + c' * 4 + d') div 400 = a"
      using that by (intro int_div_pos_eq[of _ _ _ "b' * 100 + c' * 4 + d'"]) auto
    ultimately show ?thesis by (simp add: days_before_year_def Let_def)
  qed
  have "days_before_year y + n + 1 = k \<and> 0 \<le> n"
  proof (cases "b = 4")
    case True
    then have z: "s = 0" using a(2,3) b(1-3) by linarith
    then have "c = 0" using c(1-3) bnd by linarith
    with z have "u = 0" using c(1) by simp
    with \<open>c = 0\<close> z have z: "s = 0" "c = 0" "d = 0" "v = 0" using d(1-3) bnd by auto
    have "days_before_year (a * 400 + 3 * 100 + 24 * 4 + 3 + 1) = a * 146097 + 3 * 36524 + 24 * 1461 + 3 * 365"
      by (rule before) auto
    with True z yn a(1) b(1) show ?thesis by (simp add: add.commute)
  next
    case b4: False
    show ?thesis
    proof (cases "d = 4")
      case True
      then have "v = 0" using c(2,3) d(1-3) by linarith
      moreover have "days_before_year (a * 400 + b * 100 + c * 4 + 3 + 1) = a * 146097 + b * 36524 + c * 1461 + 3 * 365"
        using b4 bnd by (intro before) auto
      ultimately show ?thesis using True yn a(1) b(1) c(1) d(1) by (simp add: algebra_simps)
    next
      case False
      have "days_before_year (a * 400 + b * 100 + c * 4 + d + 1) = a * 146097 + b * 36524 + c * 1461 + d * 365"
        using b4 False bnd by (intro before) auto
      with False b4 yn a(1) b(1) c(1) d(1,2) show ?thesis by simp
    qed
  qed
  then show "days_before_year y + n + 1 = k" and "0 \<le> n" by auto
qed

text \<open>Month and day give the day of the year back.\<close>

definition days_before_month :: "bool \<Rightarrow> int \<Rightarrow> int" where
  "days_before_month leap m = sum_list (take (nat (m - 1)) (month_lengths leap))"

lemma month_day_correct:
  assumes "month_day m n lens = (m', d)" and "0 \<le> n" and "lens \<noteq> []"
  shows "m \<le> m' \<and> m' < m + int (length lens) \<and> sum_list (take (nat (m' - m)) lens) + d = n + 1 \<and> 1 \<le> d"
  using assms
proof (induction m n lens rule: month_day.induct)
  case (2 m n len lens)
  show ?case
  proof (cases "n < len \<or> lens = []")
    case True
    with 2 show ?thesis by auto
  next
    case False
    then have "m + 1 \<le> m' \<and> m' < m + 1 + int (length lens) \<and> sum_list (take (nat (m' - (m + 1))) lens) + d = n - len + 1 \<and> 1 \<le> d"
      using 2 by auto
    moreover from this have "m + 1 \<le> m'" by blast
    then have "nat (m' - m) = Suc (nat (m' - (m + 1)))" by linarith
    ultimately show ?thesis by simp
  qed
qed simp

lemma date_of_day:
  assumes "date_of t = (y, m, d)"
  shows "days_before_year y + days_before_month (is_leap y) m + d = day_ordinal t" and "1 \<le> m \<and> m \<le> 12"
    and "1 \<le> d"
proof -
  obtain n where n: "year_and_day (day_ordinal t) = (y, n)" "month_day 1 n (month_lengths (is_leap y)) = (m, d)"
    using assms by (auto simp: date_of_def split: prod.splits)
  have len: "length (month_lengths l) = 12" "month_lengths l \<noteq> []" for l by (auto simp: month_lengths_def)
  from month_day_correct[OF n(2) year_and_day_correct(2)[OF n(1)] len(2)]
  show "days_before_year y + days_before_month (is_leap y) m + d = day_ordinal t" and "1 \<le> m \<and> m \<le> 12" and "1 \<le> d"
    using year_and_day_correct(1)[OF n(1)] by (auto simp: days_before_month_def len)
qed

lemma date_of_inj: "date_of s = date_of t \<Longrightarrow> day_ordinal s = day_ordinal t"
  using date_of_day(1) by (metis prod_cases3)

section \<open>ISO strings\<close>

definition num_pad :: "nat \<Rightarrow> int \<Rightarrow> string" where
  "num_pad w n = pad_left w (nat_digits (nat n))"

definition date_iso :: "instant \<Rightarrow> string" where
  "date_iso t = (let (y, m, d) = date_of t in num_pad 4 y @ ''-'' @ num_pad 2 m @ ''-'' @ num_pad 2 d)"

definition iso :: "instant \<Rightarrow> string" where
  "iso t =
     (let us = t mod us_per_day; s = us div us_per_second; f = us mod us_per_second
      in date_iso t @ ''T'' @ num_pad 2 (s div 3600) @ '':'' @ num_pad 2 (s div 60 mod 60) @ '':'' @ num_pad 2 (s mod 60)
         @ (if f = 0 then [] else ''.'' @ num_pad 6 f) @ ''+00:00'')"

text \<open>\<open>(a - b).total_seconds()\<close>.\<close>

definition total_seconds :: "int \<Rightarrow> pyfloat" where
  "total_seconds us = fround (of_int us / 1000000)"

lemma foldl_digits_pad: "foldl (\<lambda>a c. a * 10 + digit_val c) 0 (pad_left w s) = foldl (\<lambda>a c. a * 10 + digit_val c) 0 s"
proof -
  have "foldl (\<lambda>a c. a * 10 + digit_val c) 0 (replicate k CHR ''0'') = 0" for k
    by (induction k) (simp_all add: digit_val_def ord_of_def flip: replicate_append_same)
  then show ?thesis by (simp add: pad_left_def)
qed

lemma num_pad_inj: "num_pad w m = num_pad w n \<Longrightarrow> 0 \<le> m \<Longrightarrow> 0 \<le> n \<Longrightarrow> m = n"
  using foldl_digits_pad[of w] foldl_nat_digits unfolding num_pad_def by (metis nat_0_le)

lemma num_pad_digit: "c \<in> set (num_pad w n) \<Longrightarrow> is_digit c"
  by (auto simp: num_pad_def pad_left_def is_digit_def ord_of_def dest: nat_digits_digit split: if_splits)

lemma num_pad_dash: "CHR ''-'' \<notin> set (num_pad w n)"
  using num_pad_digit[of "CHR ''-''" w n] by (auto simp: is_digit_def ord_of_def)

lemma dash_split:
  "CHR ''-'' \<notin> set a \<Longrightarrow> CHR ''-'' \<notin> set a' \<Longrightarrow> a @ ''-'' @ b = a' @ ''-'' @ b' \<Longrightarrow> a = a' \<and> b = b'"
proof (induction a arbitrary: a')
  case Nil
  then show ?case by (cases a') auto
next
  case (Cons c a)
  then show ?case by (cases a') auto
qed

text \<open>For days of the years Python's \<open>datetime\<close> has, equal dates mean equal days.\<close>

definition in_calendar :: "instant \<Rightarrow> bool" where
  "in_calendar t = (1 \<le> day_ordinal t)"

lemma year_nonneg: "in_calendar t \<Longrightarrow> date_of t = (y, m, d) \<Longrightarrow> 0 \<le> y"
proof (rule ccontr)
  assume t: "in_calendar t" and d: "date_of t = (y, m, d)" and "\<not> 0 \<le> y"
  have "date_of t = (fst (year_and_day (day_ordinal t)), snd (date_of t))" by (simp add: date_of_def split: prod.splits)
  then have y: "y = fst (year_and_day (day_ordinal t))" using d by simp
  have "0 \<le> day_ordinal t - 1" using t by (simp add: in_calendar_def)
  then have "0 \<le> fst (year_and_day (day_ordinal t))"
    by (auto simp: year_and_day_def Let_def intro!: add_nonneg_nonneg pos_imp_zdiv_nonneg_iff[THEN iffD2])
  with y \<open>\<not> 0 \<le> y\<close> show False by simp
qed

lemma date_iso_same_day:
  assumes "in_calendar s" and "in_calendar t"
  shows "date_iso s = date_iso t \<longleftrightarrow> day_ordinal s = day_ordinal t"
proof
  assume eq: "date_iso s = date_iso t"
  obtain y m d y' m' d' where c: "date_of s = (y, m, d)" "date_of t = (y', m', d')" by (metis prod_cases3)
  have "num_pad 4 y @ ''-'' @ (num_pad 2 m @ ''-'' @ num_pad 2 d) =
      num_pad 4 y' @ ''-'' @ (num_pad 2 m' @ ''-'' @ num_pad 2 d')"
    using eq c by (simp add: date_iso_def)
  from dash_split[OF num_pad_dash num_pad_dash this]
  have y: "num_pad 4 y = num_pad 4 y'" and r: "num_pad 2 m @ ''-'' @ num_pad 2 d = num_pad 2 m' @ ''-'' @ num_pad 2 d'"
    by auto
  from dash_split[OF num_pad_dash num_pad_dash r] have m: "num_pad 2 m = num_pad 2 m'" "num_pad 2 d = num_pad 2 d'"
    by auto
  have "y = y'" using y year_nonneg[OF assms(1) c(1)] year_nonneg[OF assms(2) c(2)] by (rule num_pad_inj)
  moreover have "m = m'" "d = d'"
    using num_pad_inj[OF m(1)] num_pad_inj[OF m(2)] date_of_day(2,3)[OF c(1)] date_of_day(2,3)[OF c(2)] by auto
  ultimately show "day_ordinal s = day_ordinal t" using c date_of_inj by simp
next
  assume "day_ordinal s = day_ordinal t"
  then show "date_iso s = date_iso t" by (simp add: date_iso_def date_of_def)
qed

end
