(* ===== verification/Stability.thy ===== *)
theory Stability
  imports Py_Time
begin

text \<open>
  \<open>bot/stability_framework.py\<close>: the guardrail object each bot runtime consults. \<open>ProductionStabilityFramework\<close>
  is the pair of a fixed \<open>stability_config\<close> and a mutable \<open>stability_state\<close>; every method is a function
  of both and returns the new state. Clock readings (\<open>datetime.now(UTC)\<close>) are arguments. \<open>math.log10\<close>
  is the C library's and a parameter of the quantity sanitizer.
\<close>

section \<open>Order sanitizer\<close>

record symbol_rules =
  sr_min_qty :: pyfloat
  sr_step_size :: pyfloat
  sr_min_notional :: pyfloat
  sr_tick_size :: pyfloat
  sr_max_capital_usd :: pyfloat

definition default_symbol_rules :: symbol_rules where
  "default_symbol_rules = \<lparr>sr_min_qty = Fin 0, sr_step_size = dec 1 1000000, sr_min_notional = Fin 0,
     sr_tick_size = dec 1 1000000, sr_max_capital_usd = Fin 1000\<rparr>"

text \<open>\<open>float(f"{x:.nf}")\<close> reads the correctly rounded decimal back.\<close>

definition reparse_fixed :: "nat \<Rightarrow> pyfloat \<Rightarrow> pyfloat" where
  "reparse_fixed n x = fround_to x n"

text \<open>\<open>math.floor(x / s) * s\<close>.\<close>

definition floor_step :: "pyfloat \<Rightarrow> pyfloat \<Rightarrow> pyfloat res" where
  "floor_step x s = bind_res (py_div x s) (\<lambda>r. bind_res (floor_int r) (\<lambda>k.
     bind_res (int_to_float k) (\<lambda>kf. Inr (fmul kf s))))"

definition step_precision :: "(pyfloat \<Rightarrow> pyfloat) \<Rightarrow> pyfloat \<Rightarrow> nat res" where
  "step_precision log10 s =
     (if flt s (Fin 1)
      then bind_res (case fneg (log10 s) of Fin q \<Rightarrow> Inr (rhe q)
             | NaN \<Rightarrow> Inl (ValueError ''cannot convert float NaN to integer'') | _ \<Rightarrow> Inl OverflowError)
           (\<lambda>p. Inr (nat (max 0 p)))
      else Inr 0)"

definition sanitize_reasons :: "symbol_rules \<Rightarrow> pyfloat \<Rightarrow> pyfloat \<Rightarrow> string list" where
  "sanitize_reasons r price qty =
     (if flt qty (sr_min_qty r) then [''QTY_BELOW_MIN''] else []) @
     (if flt (fmul price qty) (sr_min_notional r) then [''NOTIONAL_BELOW_MIN''] else [])"

definition sanitize_qty ::
    "(pyfloat \<Rightarrow> pyfloat) \<Rightarrow> symbol_rules \<Rightarrow> pyfloat \<Rightarrow> pyfloat \<Rightarrow> (pyfloat option \<times> string option) res" where
  "sanitize_qty log10 r price qty =
     (if fle price (Fin 0) \<or> fle qty (Fin 0) then Inr (None, Some ''INVALID_PRICE_OR_QTY'')
      else
        (let step = fmax (sr_step_size r) (dec 1 100000000);
             reasons = sanitize_reasons r price qty;
             wanted = fmax (fmax qty (sr_min_qty r))
               (if ftruth (sr_min_notional r) then fdiv (sr_min_notional r) price else Fin 0)
         in bind_res (floor_step wanted step) (\<lambda>down.
            bind_res (step_precision log10 step) (\<lambda>p.
            let adjusted = reparse_fixed p down
            in if fle adjusted (Fin 0) then Inr (None, Some ''SANITIZED_QTY_ZERO'')
               else if flt (sr_max_capital_usd r) (fmul adjusted price) then Inr (None, Some ''CAPITAL_EXCEEDED'')
               else Inr (Some adjusted, if reasons = [] then None else Some (join_with '' / '' reasons))))))"

definition sanitize_price :: "symbol_rules \<Rightarrow> pyfloat \<Rightarrow> pyfloat res" where
  "sanitize_price r price =
     (let tick = fmax (sr_tick_size r) (dec 1 100000000)
      in bind_res (floor_step price tick) (\<lambda>x. Inr (reparse_fixed 12 x)))"

section \<open>Configuration and state\<close>

record stability_config =
  sc_framework_name :: string
  sc_heartbeat_stale_seconds :: int
  sc_heartbeat_halt_seconds :: int
  sc_signal_queue_max :: int
  sc_db_queue_max :: int
  sc_queue_warning_pct :: pyfloat
  sc_max_daily_loss_pct :: pyfloat
  sc_max_daily_profit_usd :: pyfloat
  sc_max_trades_day :: int
  sc_max_consecutive_losses :: int
  sc_max_drawdown_pct :: pyfloat
  sc_max_portfolio_exposure_pct :: pyfloat
  sc_max_single_symbol_exposure_pct :: pyfloat
  sc_market_data_stale_seconds :: int
  sc_exchange_clock_drift_seconds :: int
  sc_require_protection :: bool
  sc_emergency_exit_bypasses_daily_pnl :: bool
  sc_execution_rules :: symbol_rules

definition default_stability_config :: stability_config where
  "default_stability_config =
     \<lparr>sc_framework_name = ''PRODUCTION_STABILITY_V2'', sc_heartbeat_stale_seconds = 120,
      sc_heartbeat_halt_seconds = 300, sc_signal_queue_max = 2000, sc_db_queue_max = 10000,
      sc_queue_warning_pct = dec 80 100, sc_max_daily_loss_pct = Fin 2, sc_max_daily_profit_usd = Fin 3000,
      sc_max_trades_day = 10, sc_max_consecutive_losses = 3, sc_max_drawdown_pct = Fin 5,
      sc_max_portfolio_exposure_pct = Fin 80, sc_max_single_symbol_exposure_pct = Fin 25,
      sc_market_data_stale_seconds = 180, sc_exchange_clock_drift_seconds = 5, sc_require_protection = True,
      sc_emergency_exit_bypasses_daily_pnl = True, sc_execution_rules = default_symbol_rules\<rparr>"

record stability_state =
  ss_framework_name :: string
  ss_status :: string
  ss_risk_state :: string
  ss_protection_state :: string
  ss_day :: string
  ss_daily_realized_pnl :: pyfloat
  ss_trades_today :: int
  ss_consecutive_losses :: int
  ss_equity_peak :: "pyfloat option"
  ss_restart_required :: bool
  ss_shutdown_required :: bool
  ss_last_heartbeat :: string
  ss_last_reason :: string
  ss_supervisor_action :: string
  ss_alert_level :: string
  ss_alert_code :: string
  ss_data_state :: string
  ss_reconciliation_state :: string
  ss_portfolio_state :: string
  ss_in_flight :: "(string, bool) dict"
  ss_processed_events :: "string list"

definition new_stability_state :: "string \<Rightarrow> instant \<Rightarrow> stability_state" where
  "new_stability_state name now =
     \<lparr>ss_framework_name = name, ss_status = ''READY'', ss_risk_state = ''OK'',
      ss_protection_state = ''UNKNOWN'', ss_day = date_iso now, ss_daily_realized_pnl = Fin 0,
      ss_trades_today = 0, ss_consecutive_losses = 0, ss_equity_peak = None, ss_restart_required = False,
      ss_shutdown_required = False, ss_last_heartbeat = [], ss_last_reason = [],
      ss_supervisor_action = ''NONE'', ss_alert_level = ''INFO'', ss_alert_code = [],
      ss_data_state = ''UNKNOWN'', ss_reconciliation_state = ''NOT_RUN'', ss_portfolio_state = ''UNKNOWN'',
      ss_in_flight = [(''entry'', False), (''partial'', False), (''exit'', False), (''stop'', False), (''emergency'', False)],
      ss_processed_events = []\<rparr>"

record stability_alert =
  sa_timestamp :: string
  sa_level :: string
  sa_code :: string
  sa_message :: string
  sa_action :: string

record reconciliation_plan =
  rp_action :: string
  rp_reason :: string
  rp_checks :: "string list"

record order_lifecycle_event =
  ol_timestamp :: string
  ol_bot_id :: string
  ol_client_order_id :: string
  ol_symbol :: string
  ol_side :: string
  ol_status :: string
  ol_quantity :: pyfloat
  ol_price :: pyfloat
  ol_reason :: string

text \<open>\<open>a or b\<close> on strings.\<close>

definition or_str :: "string \<Rightarrow> string \<Rightarrow> string" where
  "or_str a b = (if a = [] then b else a)"

section \<open>Alerts, locks, protection\<close>

definition alert_of :: "stability_state \<Rightarrow> instant \<Rightarrow> stability_alert" where
  "alert_of s now = \<lparr>sa_timestamp = iso now, sa_level = ss_alert_level s, sa_code = ss_alert_code s,
     sa_message = ss_last_reason s, sa_action = ss_supervisor_action s\<rparr>"

text \<open>The part of \<open>_alert\<close> that changes the state; its return value is \<open>alert_of\<close> of the result.\<close>

definition raise_alert :: "string \<Rightarrow> string \<Rightarrow> string \<Rightarrow> string \<Rightarrow> stability_state \<Rightarrow> stability_state" where
  "raise_alert level code message action s =
     s\<lparr>ss_alert_level := level, ss_alert_code := code, ss_last_reason := message, ss_supervisor_action := action\<rparr>"

definition lock_risk :: "string \<Rightarrow> string \<Rightarrow> stability_state \<Rightarrow> stability_state" where
  "lock_risk reason message s =
     raise_alert ''WARNING'' reason (or_str message reason) ''BLOCK_NEW_ENTRIES''
       (s\<lparr>ss_risk_state := reason, ss_status := ''RISK_LOCKED''\<rparr>)"

definition mark_protection :: "stability_config \<Rightarrow> bool \<Rightarrow> string \<Rightarrow> stability_state \<Rightarrow> stability_state" where
  "mark_protection c verified reason s =
     (let s1 = s\<lparr>ss_protection_state := (if verified then ''PROTECTED'' else ''UNPROTECTED'')\<rparr>
      in if \<not> verified \<and> sc_require_protection c
         then raise_alert ''CRITICAL'' ''PROTECTION_REQUIRED'' (or_str reason ''protective order missing'')
                ''HALT_AND_PROTECT''
                (s1\<lparr>ss_shutdown_required := True, ss_status := ''HALTED'', ss_risk_state := ''PROTECTION_REQUIRED''\<rparr>)
         else s1)"

definition daily_locks :: "string list" where
  "daily_locks = [''MAX_TRADES_DAY'', ''CONSECUTIVE_LOSS_LOCK'', ''DAILY_LOSS_LOCK'', ''DAILY_PROFIT_LOCK'',
     ''PORTFOLIO_EXPOSURE_LOCK'', ''SYMBOL_EXPOSURE_LOCK'']"

definition reset_day_if_needed :: "instant \<Rightarrow> stability_state \<Rightarrow> stability_state" where
  "reset_day_if_needed now s =
     (if ss_day s = date_iso now then s
      else (let s1 = s\<lparr>ss_day := date_iso now, ss_daily_realized_pnl := Fin 0, ss_trades_today := 0,
                       ss_consecutive_losses := 0\<rparr>
            in if ss_risk_state s1 \<in> set daily_locks
               then s1\<lparr>ss_risk_state := ''OK'', ss_status := ''READY'', ss_last_reason := ''daily lock reset''\<rparr>
               else s1))"

definition daily_loss_limit :: "stability_config \<Rightarrow> pyfloat option \<Rightarrow> pyfloat" where
  "daily_loss_limit c equity = (case equity of
     None \<Rightarrow> PosInf
   | Some e \<Rightarrow> if fle e (Fin 0) then PosInf else fmul e (fdiv (sc_max_daily_loss_pct c) (Fin 100)))"

section \<open>Startup, heartbeats, data feed\<close>

definition startup_check :: "stability_config \<Rightarrow> bool \<Rightarrow> bool \<Rightarrow> stability_state \<Rightarrow> stability_state \<times> bool \<times> string" where
  "startup_check c has_position verified s =
     (let s1 = s\<lparr>ss_status := ''READY'',
                ss_protection_state := (if verified then ''PROTECTED'' else if has_position then ''UNPROTECTED'' else ''FLAT'')\<rparr>
      in if has_position \<and> sc_require_protection c \<and> \<not> verified
         then (let r = ''existing position is missing protective stop/OCO''
               in (s1\<lparr>ss_status := ''HALTED'', ss_shutdown_required := True,
                     ss_risk_state := ''PROTECTION_REQUIRED'', ss_last_reason := r\<rparr>, False, r))
         else (s1\<lparr>ss_last_reason := ''framework ready''\<rparr>, True, ''framework ready''))"

definition heartbeat :: "instant \<Rightarrow> stability_state \<Rightarrow> stability_state" where
  "heartbeat now s =
     (let s1 = (reset_day_if_needed now s)\<lparr>ss_last_heartbeat := iso now\<rparr>
      in if ss_status s1 \<in> {''HALTED'', ''RISK_LOCKED''} then s1 else s1\<lparr>ss_status := ''READY''\<rparr>)"

definition age_seconds :: "instant \<Rightarrow> instant \<Rightarrow> pyfloat" where
  "age_seconds now seen = fmax (Fin 0) (total_seconds (now - seen))"

definition exceeds :: "pyfloat \<Rightarrow> int \<Rightarrow> bool" where
  "exceeds x n = flt (Fin (of_int n)) x"

definition stale_message :: "string \<Rightarrow> int \<Rightarrow> string" where
  "stale_message what n = what @ '' > '' @ str_of_int n @ ''s''"

definition detect_stale_heartbeat ::
    "stability_config \<Rightarrow> instant option \<Rightarrow> instant \<Rightarrow> stability_state \<Rightarrow> stability_state \<times> bool \<times> string" where
  "detect_stale_heartbeat c last_seen now s =
     (case last_seen of
        None \<Rightarrow>
          (let s1 = raise_alert ''CRITICAL'' ''HEARTBEAT_MISSING'' ''heartbeat missing'' ''RESTART''
                      (s\<lparr>ss_restart_required := True\<rparr>)
           in (s1, True, ss_last_reason s1))
      | Some seen \<Rightarrow>
          (let age = age_seconds now seen
           in if exceeds age (sc_heartbeat_halt_seconds c)
              then (let s1 = raise_alert ''CRITICAL'' ''HEARTBEAT_HALTED''
                              (stale_message ''heartbeat stale'' (sc_heartbeat_halt_seconds c)) ''HALT_AND_RESTART''
                              (s\<lparr>ss_restart_required := True, ss_shutdown_required := True, ss_status := ''HALTED''\<rparr>)
                    in (s1, True, ss_last_reason s1))
              else if exceeds age (sc_heartbeat_stale_seconds c)
              then (let s1 = raise_alert ''WARNING'' ''HEARTBEAT_STALE''
                              (stale_message ''heartbeat stale'' (sc_heartbeat_stale_seconds c)) ''RESTART''
                              (s\<lparr>ss_restart_required := True\<rparr>)
                    in (s1, True, ss_last_reason s1))
              else (s\<lparr>ss_restart_required := False, ss_supervisor_action := ''NONE''\<rparr>, False, ''heartbeat fresh'')))"

definition data_feed_is_unhealthy ::
    "stability_config \<Rightarrow> instant option \<Rightarrow> instant option \<Rightarrow> instant \<Rightarrow> stability_state \<Rightarrow> stability_state \<times> bool" where
  "data_feed_is_unhealthy c last_seen exchange_time now s =
     (case last_seen of
        None \<Rightarrow> (raise_alert ''CRITICAL'' ''MARKET_DATA_MISSING'' ''market data heartbeat missing'' ''HALT''
                   (s\<lparr>ss_data_state := ''MISSING''\<rparr>), True)
      | Some seen \<Rightarrow>
          if exceeds (age_seconds now seen) (sc_market_data_stale_seconds c)
          then (raise_alert ''CRITICAL'' ''MARKET_DATA_STALE''
                  (stale_message ''market data stale'' (sc_market_data_stale_seconds c)) ''HALT''
                  (s\<lparr>ss_data_state := ''STALE''\<rparr>), True)
          else (case exchange_time of
                  Some ex \<Rightarrow>
                    if exceeds (fabs (total_seconds (now - ex))) (sc_exchange_clock_drift_seconds c)
                    then (raise_alert ''WARNING'' ''EXCHANGE_CLOCK_DRIFT''
                            (stale_message ''exchange clock drift'' (sc_exchange_clock_drift_seconds c)) ''THROTTLE''
                            (s\<lparr>ss_data_state := ''CLOCK_DRIFT''\<rparr>), True)
                    else (s\<lparr>ss_data_state := ''OK''\<rparr>, False)
                | None \<Rightarrow> (s\<lparr>ss_data_state := ''OK''\<rparr>, False)))"

definition queue_near_capacity :: "stability_config \<Rightarrow> int \<Rightarrow> int \<Rightarrow> bool res" where
  "queue_near_capacity c depth max_depth =
     (if max_depth \<le> 0 then Inr False
      else bind_res (int_to_float max_depth) (\<lambda>m.
           bind_res (trunc_int (fmul m (sc_queue_warning_pct c))) (\<lambda>k. Inr (k \<le> max 0 depth))))"

section \<open>Supervision\<close>

record supervision_input =
  si_last_seen :: "instant option"
  si_last_market_data_seen :: "instant option"
  si_exchange_time :: "instant option"
  si_signal_queue_depth :: int
  si_db_queue_depth :: int
  si_has_position :: bool
  si_protection_verified :: bool
  si_now :: "instant option"

text \<open>Without an explicit \<open>now\<close> the heartbeat check, the feed check and the alert each read the clock.\<close>

record clock_readings =
  ck_heartbeat :: instant
  ck_feed :: instant
  ck_alert :: instant

definition heartbeat_alerts :: "string list" where
  "heartbeat_alerts = [''HEARTBEAT_STALE'', ''HEARTBEAT_HALTED'', ''HEARTBEAT_MISSING'']"

definition or_now :: "instant option \<Rightarrow> instant \<Rightarrow> instant" where
  "or_now now reading = (case now of None \<Rightarrow> reading | Some t \<Rightarrow> t)"

definition supervise_queues ::
    "stability_config \<Rightarrow> supervision_input \<Rightarrow> stability_state \<Rightarrow> (stability_state, unit) outcome" where
  "supervise_queues c i s =
     (case queue_near_capacity c (si_signal_queue_depth i) (sc_signal_queue_max c) of
        Inl e \<Rightarrow> (s, Inl e)
      | Inr True \<Rightarrow> (raise_alert ''WARNING'' ''SIGNAL_QUEUE_HIGH'' ''signal queue near capacity'' ''THROTTLE'' s, Inr ())
      | Inr False \<Rightarrow>
          (case queue_near_capacity c (si_db_queue_depth i) (sc_db_queue_max c) of
             Inl e \<Rightarrow> (s, Inl e)
           | Inr True \<Rightarrow> (raise_alert ''WARNING'' ''DB_QUEUE_HIGH'' ''db queue near capacity'' ''THROTTLE'' s, Inr ())
           | Inr False \<Rightarrow>
               (if ss_shutdown_required s
                then raise_alert ''CRITICAL'' ''SHUTDOWN_REQUIRED'' (or_str (ss_last_reason s) ''shutdown required'') ''HALT'' s
                else if ss_restart_required s
                then raise_alert (or_str (ss_alert_level s) ''WARNING'') (or_str (ss_alert_code s) ''RESTART_REQUIRED'')
                       (ss_last_reason s) ''RESTART'' s
                else raise_alert ''INFO'' ''FRAMEWORK_OK'' ''framework ready'' ''NONE'' s, Inr ())))"

definition supervise ::
    "stability_config \<Rightarrow> supervision_input \<Rightarrow> clock_readings \<Rightarrow> stability_state \<Rightarrow> (stability_state, unit) outcome" where
  "supervise c i ck s =
     (let s1 = fst (detect_stale_heartbeat c (si_last_seen i) (or_now (si_now i) (ck_heartbeat ck)) s)
      in if ss_alert_code s1 \<in> set heartbeat_alerts then (s1, Inr ())
         else
           (let watch = (si_last_market_data_seen i \<noteq> None \<or> si_exchange_time i \<noteq> None);
                (s2, bad) = (if watch then data_feed_is_unhealthy c (si_last_market_data_seen i) (si_exchange_time i)
                                            (or_now (si_now i) (ck_feed ck)) s1
                             else (s1, False))
            in if bad then (s2, Inr ())
               else if si_has_position i \<and> sc_require_protection c \<and> \<not> si_protection_verified i
               then (raise_alert ''CRITICAL'' ''PROTECTION_MISSING'' ''position protection missing'' ''HALT_AND_PROTECT''
                       (mark_protection c False ''position protection missing'' s2), Inr ())
               else supervise_queues c i s2))"

definition evaluate_supervision ::
    "stability_config \<Rightarrow> supervision_input \<Rightarrow> clock_readings \<Rightarrow> stability_state \<Rightarrow>
     (stability_state, stability_alert) outcome" where
  "evaluate_supervision c i ck s =
     bind_act (supervise c i ck s) (\<lambda>s' _. (s', Inr (alert_of s' (ck_alert ck))))"

section \<open>Reconciliation, exposure, order lifecycle\<close>

definition reconciliation_checks :: "string list" where
  "reconciliation_checks = [''exchange_position'', ''local_position'', ''open_orders'',
     ''protective_stop_or_oco'', ''last_processed_event'']"

definition plan :: "string \<Rightarrow> string \<Rightarrow> reconciliation_plan" where
  "plan action reason = \<lparr>rp_action = action, rp_reason = reason, rp_checks = reconciliation_checks\<rparr>"

definition restart_reconciliation_plan ::
    "stability_config \<Rightarrow> pyfloat \<Rightarrow> pyfloat \<Rightarrow> bool \<Rightarrow> bool \<Rightarrow> stability_state \<Rightarrow> stability_state \<times> reconciliation_plan" where
  "restart_reconciliation_plan c exchange_qty local_qty protected orders_verified s =
     (if flt (dec 1 100000000) (fabs (fsub exchange_qty local_qty))
      then (let s1 = raise_alert ''CRITICAL'' ''POSITION_RECONCILIATION_MISMATCH'' ''exchange/local position mismatch''
                       ''HALT_AND_RECONCILE'' (s\<lparr>ss_restart_required := True, ss_reconciliation_state := ''MISMATCH''\<rparr>)
            in (s1, plan ''HALT_AND_RECONCILE'' (ss_last_reason s1)))
      else if flt (Fin 0) exchange_qty \<and> sc_require_protection c \<and> \<not> protected
      then (let s1 = (mark_protection c False ''restart reconciliation found missing protection'' s)
                       \<lparr>ss_reconciliation_state := ''UNPROTECTED''\<rparr>
            in (s1, plan ''HALT_AND_PROTECT'' (ss_last_reason s1)))
      else if flt (Fin 0) exchange_qty \<and> \<not> orders_verified
      then (let s1 = raise_alert ''CRITICAL'' ''ORDER_RECONCILIATION_REQUIRED'' ''open order state could not be verified''
                       ''HALT_AND_RECONCILE'' (s\<lparr>ss_reconciliation_state := ''OPEN_ORDER_UNKNOWN''\<rparr>)
            in (s1, plan ''HALT_AND_RECONCILE'' (ss_last_reason s1)))
      else (s\<lparr>ss_reconciliation_state := ''OK''\<rparr>, plan ''RESUME'' ''restart reconciliation passed''))"

definition check_portfolio_exposure ::
    "stability_config \<Rightarrow> pyfloat \<Rightarrow> pyfloat \<Rightarrow> pyfloat \<Rightarrow> stability_state \<Rightarrow> stability_state \<times> bool \<times> string" where
  "check_portfolio_exposure c equity total_exposure symbol_exposure s =
     (if fle equity (Fin 0)
      then (let s1 = raise_alert ''CRITICAL'' ''INVALID_EQUITY'' ''portfolio equity is invalid'' ''HALT''
                       (s\<lparr>ss_portfolio_state := ''INVALID_EQUITY''\<rparr>) in (s1, False, ss_last_reason s1))
      else
        (let total_pct = fmul (fdiv total_exposure equity) (Fin 100);
             symbol_pct = fmul (fdiv symbol_exposure equity) (Fin 100)
         in if flt (sc_max_portfolio_exposure_pct c) total_pct
            then (let s1 = lock_risk ''PORTFOLIO_EXPOSURE_LOCK'' ''portfolio exposure limit reached''
                             (s\<lparr>ss_portfolio_state := ''TOTAL_EXPOSURE_LIMIT''\<rparr>) in (s1, False, ss_last_reason s1))
            else if flt (sc_max_single_symbol_exposure_pct c) symbol_pct
            then (let s1 = lock_risk ''SYMBOL_EXPOSURE_LOCK'' ''single-symbol exposure limit reached''
                             (s\<lparr>ss_portfolio_state := ''SYMBOL_EXPOSURE_LIMIT''\<rparr>) in (s1, False, ss_last_reason s1))
            else (s\<lparr>ss_portfolio_state := ''OK''\<rparr>, True, ''portfolio exposure approved'')))"

definition seen_event :: "stability_state \<Rightarrow> string \<Rightarrow> bool" where
  "seen_event s k = (k \<in> set (ss_processed_events s))"

definition processed_max :: nat where "processed_max = 2000"

definition mark_event :: "string \<Rightarrow> stability_state \<Rightarrow> stability_state" where
  "mark_event k s = (if seen_event s k then s
     else s\<lparr>ss_processed_events := last_n processed_max (ss_processed_events s @ [k])\<rparr>)"

definition record_order_lifecycle ::
    "string \<Rightarrow> string \<Rightarrow> string \<Rightarrow> string \<Rightarrow> string \<Rightarrow> pyfloat \<Rightarrow> pyfloat \<Rightarrow> string \<Rightarrow> instant \<Rightarrow>
     stability_state \<Rightarrow> stability_state \<times> order_lifecycle_event" where
  "record_order_lifecycle bot_id client_order_id symbol side status quantity price reason now s =
     (mark_event (bot_id @ '':'' @ client_order_id @ '':'' @ status) s,
      \<lparr>ol_timestamp = iso now, ol_bot_id = bot_id, ol_client_order_id = client_order_id, ol_symbol = symbol,
       ol_side = side, ol_status = status, ol_quantity = quantity, ol_price = price, ol_reason = reason\<rparr>)"

definition alert_payloads :: "string list \<Rightarrow> instant \<Rightarrow> stability_state \<Rightarrow> (string \<times> stability_alert) list" where
  "alert_payloads channels now s = map (\<lambda>ch. (ch, alert_of s now)) channels"

section \<open>Trade gate, operations, results\<close>

definition any_in_flight :: "stability_state \<Rightarrow> bool" where
  "any_in_flight s = (\<exists>(k, b)\<in>set (ss_in_flight s). b)"

definition can_open_trade ::
    "stability_config \<Rightarrow> pyfloat option \<Rightarrow> stability_state \<Rightarrow> stability_state \<times> bool \<times> string" where
  "can_open_trade c equity s =
     (if ss_shutdown_required s then (s, False, or_str (ss_last_reason s) ''framework halted'')
      else if any_in_flight s then (s, False, ''execution operation already in flight'')
      else if ss_risk_state s \<noteq> ''OK'' then (s, False, or_str (ss_last_reason s) (ss_risk_state s))
      else if sc_max_trades_day c \<le> ss_trades_today s
      then (lock_risk ''MAX_TRADES_DAY'' ''max trades per day reached'' s, False, ''max trades per day reached'')
      else if sc_max_consecutive_losses c \<le> ss_consecutive_losses s
      then (lock_risk ''CONSECUTIVE_LOSS_LOCK'' ''consecutive loss lockout'' s, False, ''consecutive loss lockout'')
      else if fle (ss_daily_realized_pnl s) (fneg (daily_loss_limit c equity))
      then (lock_risk ''DAILY_LOSS_LOCK'' ''daily loss limit reached'' s, False, ''daily loss limit reached'')
      else if fle (sc_max_daily_profit_usd c) (ss_daily_realized_pnl s)
      then (lock_risk ''DAILY_PROFIT_LOCK'' ''daily profit lock reached'' s, False, ''daily profit lock reached'')
      else (s, True, ''framework approved''))"

definition begin_operation ::
    "string \<Rightarrow> string option \<Rightarrow> stability_state \<Rightarrow> stability_state \<times> bool \<times> string" where
  "begin_operation operation event_key s =
     (let key = (case event_key of None \<Rightarrow> [] | Some k \<Rightarrow> k)
      in if dict_get (ss_in_flight s) operation = None then (s, False, ''unknown operation: '' @ operation)
         else if key \<noteq> [] \<and> seen_event s key then (s, False, ''duplicate event blocked'')
         else if any_in_flight s then (s, False, ''operation already in flight'')
         else (let s1 = s\<lparr>ss_in_flight := dict_set operation True (ss_in_flight s)\<rparr>
               in (if key \<noteq> [] then mark_event key s1 else s1, True, ''operation accepted'')))"

definition end_operation :: "string \<Rightarrow> bool \<Rightarrow> string \<Rightarrow> stability_state \<Rightarrow> stability_state" where
  "end_operation operation success reason s =
     (let s1 = (if dict_get (ss_in_flight s) operation \<noteq> None
                then s\<lparr>ss_in_flight := dict_set operation False (ss_in_flight s)\<rparr> else s)
      in if success then s1 else s1\<lparr>ss_last_reason := or_str reason (operation @ '' failed'')\<rparr>)"

definition update_drawdown :: "stability_config \<Rightarrow> pyfloat \<Rightarrow> stability_state \<Rightarrow> stability_state" where
  "update_drawdown c equity s =
     (let before = (case ss_equity_peak s of None \<Rightarrow> equity | Some p \<Rightarrow> if ftruth p then p else equity);
          peak = fmax equity before;
          s1 = s\<lparr>ss_equity_peak := Some peak\<rparr>;
          drawdown = (if \<not> ftruth peak then Fin 0 else fmul (fdiv (fsub peak equity) peak) (Fin 100))
      in if fle (sc_max_drawdown_pct c) drawdown
         then lock_risk ''GLOBAL_DRAWDOWN_LOCK'' ''global drawdown lock reached'' s1 else s1)"

definition record_trade_result ::
    "stability_config \<Rightarrow> pyfloat \<Rightarrow> pyfloat option \<Rightarrow> instant \<Rightarrow> stability_state \<Rightarrow> stability_state" where
  "record_trade_result c pnl equity now s =
     (let s0 = reset_day_if_needed now s;
          s1 = s0\<lparr>ss_trades_today := ss_trades_today s0 + 1,
                  ss_daily_realized_pnl := fadd (ss_daily_realized_pnl s0) pnl,
                  ss_consecutive_losses := (if flt pnl (Fin 0) then ss_consecutive_losses s0 + 1 else 0)\<rparr>;
          s2 = (case equity of None \<Rightarrow> s1 | Some e \<Rightarrow> update_drawdown c e s1)
      in fst (can_open_trade c equity s2))"

definition snapshot :: "stability_config \<Rightarrow> stability_state \<Rightarrow> stability_config \<times> stability_state" where
  "snapshot c s = (c, s)"

section \<open>Runs of the framework\<close>

inductive stability_step :: "stability_config \<Rightarrow> stability_state \<Rightarrow> stability_state \<Rightarrow> bool" for c where
  step_startup: "stability_step c s (fst (startup_check c p v s))"
| step_heartbeat: "stability_step c s (heartbeat now s)"
| step_detect: "stability_step c s (fst (detect_stale_heartbeat c seen now s))"
| step_feed: "stability_step c s (fst (data_feed_is_unhealthy c seen ex now s))"
| step_supervise: "stability_step c s (fst (evaluate_supervision c i ck s))"
| step_reconcile: "stability_step c s (fst (restart_reconciliation_plan c ex_q lo_q p v s))"
| step_exposure: "stability_step c s (fst (check_portfolio_exposure c equity total_e symbol_e s))"
| step_lifecycle: "stability_step c s (fst (record_order_lifecycle b cid sy sd st q pr r now s))"
| step_open: "stability_step c s (fst (can_open_trade c equity' s))"
| step_begin: "stability_step c s (fst (begin_operation op key s))"
| step_end: "stability_step c s (end_operation op success r s)"
| step_result: "stability_step c s (record_trade_result c pnl equity' now s)"
| step_protection: "stability_step c s (mark_protection c v r s)"
| step_mark: "stability_step c s (mark_event k s)"

named_theorems stability_defs "the operations of the framework"

lemmas [stability_defs] = startup_check_def heartbeat_def detect_stale_heartbeat_def
  data_feed_is_unhealthy_def restart_reconciliation_plan_def check_portfolio_exposure_def
  record_order_lifecycle_def can_open_trade_def begin_operation_def end_operation_def
  record_trade_result_def mark_protection_def mark_event_def reset_day_if_needed_def
  update_drawdown_def raise_alert_def lock_risk_def Let_def

lemma raise_alert_frame [simp, frame_simps]:
  "ss_status (raise_alert l k m a s) = ss_status s"
  "ss_risk_state (raise_alert l k m a s) = ss_risk_state s"
  "ss_shutdown_required (raise_alert l k m a s) = ss_shutdown_required s"
  "ss_in_flight (raise_alert l k m a s) = ss_in_flight s"
  "ss_processed_events (raise_alert l k m a s) = ss_processed_events s"
  "ss_trades_today (raise_alert l k m a s) = ss_trades_today s"
  "ss_consecutive_losses (raise_alert l k m a s) = ss_consecutive_losses s"
  "ss_daily_realized_pnl (raise_alert l k m a s) = ss_daily_realized_pnl s"
  "ss_day (raise_alert l k m a s) = ss_day s"
  "ss_alert_code (raise_alert l k m a s) = k"
  "ss_last_reason (raise_alert l k m a s) = m"
  "ss_protection_state (raise_alert l k m a s) = ss_protection_state s"
  by (simp_all add: raise_alert_def)

lemma lock_risk_frame [simp, frame_simps]:
  "ss_risk_state (lock_risk r m s) = r"
  "ss_status (lock_risk r m s) = ''RISK_LOCKED''"
  "ss_shutdown_required (lock_risk r m s) = ss_shutdown_required s"
  "ss_in_flight (lock_risk r m s) = ss_in_flight s"
  "ss_processed_events (lock_risk r m s) = ss_processed_events s"
  "ss_trades_today (lock_risk r m s) = ss_trades_today s"
  "ss_consecutive_losses (lock_risk r m s) = ss_consecutive_losses s"
  "ss_daily_realized_pnl (lock_risk r m s) = ss_daily_realized_pnl s"
  "ss_day (lock_risk r m s) = ss_day s"
  by (simp_all add: lock_risk_def)

text \<open>Supervision as a whole moves only along these single changes.\<close>

lemma supervision_induct:
  assumes "P s"
    and detect: "\<And>seen now s. P s \<Longrightarrow> P (fst (detect_stale_heartbeat c seen now s))"
    and feed: "\<And>seen ex now s. P s \<Longrightarrow> P (fst (data_feed_is_unhealthy c seen ex now s))"
    and alert: "\<And>l k m a s. P s \<Longrightarrow> P (raise_alert l k m a s)"
    and protection: "\<And>v r s. P s \<Longrightarrow> P (mark_protection c v r s)"
  shows "P (fst (evaluate_supervision c i ck s))"
proof -
  have queues: "P (fst (supervise_queues c i s))" if "P s" for s
    using that alert by (auto simp: supervise_queues_def split: sum.splits bool.splits)
  define s1 where "s1 = fst (detect_stale_heartbeat c (si_last_seen i) (or_now (si_now i) (ck_heartbeat ck)) s)"
  define p where "p = (if si_last_market_data_seen i \<noteq> None \<or> si_exchange_time i \<noteq> None
      then data_feed_is_unhealthy c (si_last_market_data_seen i) (si_exchange_time i) (or_now (si_now i) (ck_feed ck)) s1
      else (s1, False))"
  have s1: "P s1" unfolding s1_def using assms(1) by (rule detect)
  then have p: "P (fst p)" unfolding p_def using feed by auto
  have "P (fst (supervise c i ck s))"
    unfolding supervise_def s1_def[symmetric] Let_def p_def[symmetric] split_beta
    using s1 p queues[OF p] alert[OF protection[OF p]] by auto
  then show ?thesis
    by (cases "supervise c i ck s"; cases "snd (supervise c i ck s)") (auto simp: evaluate_supervision_def)
qed

text \<open>A property that every single change keeps is kept by every step.\<close>

lemma stability_step_induct:
  assumes step: "stability_step c s t" and "P s"
    and "\<And>seen now s. P s \<Longrightarrow> P (fst (detect_stale_heartbeat c seen now s))"
    and "\<And>seen ex now s. P s \<Longrightarrow> P (fst (data_feed_is_unhealthy c seen ex now s))"
    and "\<And>l k m a s. P s \<Longrightarrow> P (raise_alert l k m a s)"
    and "\<And>v r s. P s \<Longrightarrow> P (mark_protection c v r s)"
    and "\<And>p v s. P s \<Longrightarrow> P (fst (startup_check c p v s))"
    and "\<And>now s. P s \<Longrightarrow> P (heartbeat now s)"
    and "\<And>x l v w s. P s \<Longrightarrow> P (fst (restart_reconciliation_plan c x l v w s))"
    and "\<And>e x y s. P s \<Longrightarrow> P (fst (check_portfolio_exposure c e x y s))"
    and "\<And>k s. P s \<Longrightarrow> P (mark_event k s)"
    and "\<And>e s. P s \<Longrightarrow> P (fst (can_open_trade c e s))"
    and "\<And>op k s. P s \<Longrightarrow> P (fst (begin_operation op k s))"
    and "\<And>op ok r s. P s \<Longrightarrow> P (end_operation op ok r s)"
    and "\<And>p e now s. P s \<Longrightarrow> P (record_trade_result c p e now s)"
  shows "P t"
  using step
proof cases
  case (step_supervise i ck)
  then show ?thesis using assms by (simp add: supervision_induct)
qed (use assms in \<open>auto simp: record_order_lifecycle_def\<close>)

lemma mark_event_frame [simp, frame_simps]:
  "ss_in_flight (mark_event k s) = ss_in_flight s" "ss_risk_state (mark_event k s) = ss_risk_state s"
  "ss_shutdown_required (mark_event k s) = ss_shutdown_required s"
  by (simp_all add: mark_event_def)

lemma can_open_trade_frame [simp, frame_simps]:
  "ss_in_flight (fst (can_open_trade c e s)) = ss_in_flight s"
  "ss_processed_events (fst (can_open_trade c e s)) = ss_processed_events s"
  "ss_shutdown_required (fst (can_open_trade c e s)) = ss_shutdown_required s"
  "ss_trades_today (fst (can_open_trade c e s)) = ss_trades_today s"
  "ss_consecutive_losses (fst (can_open_trade c e s)) = ss_consecutive_losses s"
  "ss_daily_realized_pnl (fst (can_open_trade c e s)) = ss_daily_realized_pnl s"
  "ss_day (fst (can_open_trade c e s)) = ss_day s"
  by (simp_all add: can_open_trade_def)

lemma reset_day_frame [simp, frame_simps]:
  "ss_in_flight (reset_day_if_needed now s) = ss_in_flight s"
  "ss_processed_events (reset_day_if_needed now s) = ss_processed_events s"
  "ss_shutdown_required (reset_day_if_needed now s) = ss_shutdown_required s"
  "ss_day (reset_day_if_needed now s) = date_iso now"
  by (simp_all add: reset_day_if_needed_def Let_def)

lemma update_drawdown_frame [simp, frame_simps]:
  "ss_in_flight (update_drawdown c e s) = ss_in_flight s"
  "ss_processed_events (update_drawdown c e s) = ss_processed_events s"
  "ss_shutdown_required (update_drawdown c e s) = ss_shutdown_required s"
  "ss_trades_today (update_drawdown c e s) = ss_trades_today s"
  "ss_consecutive_losses (update_drawdown c e s) = ss_consecutive_losses s"
  "ss_daily_realized_pnl (update_drawdown c e s) = ss_daily_realized_pnl s"
  "ss_day (update_drawdown c e s) = ss_day s"
  by (simp_all add: update_drawdown_def Let_def)

lemma record_trade_result_frame [simp, frame_simps]:
  "ss_in_flight (record_trade_result c p e now s) = ss_in_flight s"
  "ss_processed_events (record_trade_result c p e now s) = ss_processed_events s"
  "ss_shutdown_required (record_trade_result c p e now s) = ss_shutdown_required s"
  by (cases e; simp add: record_trade_result_def Let_def)+

lemma heartbeat_frame [simp, frame_simps]:
  "ss_in_flight (heartbeat now s) = ss_in_flight s"
  "ss_processed_events (heartbeat now s) = ss_processed_events s"
  "ss_shutdown_required (heartbeat now s) = ss_shutdown_required s"
  "ss_risk_state (heartbeat now s) = ss_risk_state (reset_day_if_needed now s)"
  by (simp_all add: heartbeat_def Let_def)

lemma mark_protection_frame [simp, frame_simps]:
  "ss_in_flight (mark_protection c v r s) = ss_in_flight s"
  "ss_processed_events (mark_protection c v r s) = ss_processed_events s"
  by (simp_all add: mark_protection_def Let_def)

lemma detect_frame [simp, frame_simps]:
  "ss_in_flight (fst (detect_stale_heartbeat c seen now s)) = ss_in_flight s"
  "ss_processed_events (fst (detect_stale_heartbeat c seen now s)) = ss_processed_events s"
  "ss_risk_state (fst (detect_stale_heartbeat c seen now s)) = ss_risk_state s"
  by (simp_all add: detect_stale_heartbeat_def Let_def split: option.splits)

lemma feed_frame [simp, frame_simps]:
  "ss_in_flight (fst (data_feed_is_unhealthy c seen ex now s)) = ss_in_flight s"
  "ss_processed_events (fst (data_feed_is_unhealthy c seen ex now s)) = ss_processed_events s"
  "ss_risk_state (fst (data_feed_is_unhealthy c seen ex now s)) = ss_risk_state s"
  "ss_shutdown_required (fst (data_feed_is_unhealthy c seen ex now s)) = ss_shutdown_required s"
  by (simp_all add: data_feed_is_unhealthy_def split: option.splits)

lemma startup_frame [simp, frame_simps]:
  "ss_in_flight (fst (startup_check c p v s)) = ss_in_flight s"
  "ss_processed_events (fst (startup_check c p v s)) = ss_processed_events s"
  by (simp_all add: startup_check_def Let_def)

lemma reconcile_frame [simp, frame_simps]:
  "ss_in_flight (fst (restart_reconciliation_plan c x l v w s)) = ss_in_flight s"
  "ss_processed_events (fst (restart_reconciliation_plan c x l v w s)) = ss_processed_events s"
  by (simp_all add: restart_reconciliation_plan_def Let_def)

lemma exposure_frame [simp, frame_simps]:
  "ss_in_flight (fst (check_portfolio_exposure c e x y s)) = ss_in_flight s"
  "ss_processed_events (fst (check_portfolio_exposure c e x y s)) = ss_processed_events s"
  "ss_shutdown_required (fst (check_portfolio_exposure c e x y s)) = ss_shutdown_required s"
  by (simp_all add: check_portfolio_exposure_def Let_def)

lemma begin_end_frame [simp, frame_simps]:
  "ss_shutdown_required (fst (begin_operation op k s)) = ss_shutdown_required s"
  "ss_risk_state (fst (begin_operation op k s)) = ss_risk_state s"
  "ss_shutdown_required (end_operation op ok r s) = ss_shutdown_required s"
  "ss_risk_state (end_operation op ok r s) = ss_risk_state s"
  "ss_processed_events (end_operation op ok r s) = ss_processed_events s"
  by (simp_all add: begin_operation_def end_operation_def Let_def)

lemma shutdown_mono:
  "ss_shutdown_required s \<Longrightarrow> ss_shutdown_required (fst (detect_stale_heartbeat c seen now s))"
  "ss_shutdown_required s \<Longrightarrow> ss_shutdown_required (mark_protection c v r s)"
  "ss_shutdown_required s \<Longrightarrow> ss_shutdown_required (fst (startup_check c p v s))"
  "ss_shutdown_required s \<Longrightarrow> ss_shutdown_required (fst (restart_reconciliation_plan c x l v w s))"
  by (simp_all add: detect_stale_heartbeat_def mark_protection_def startup_check_def
      restart_reconciliation_plan_def Let_def split: option.splits)

lemma stability_step_shutdown:
  "stability_step c s t \<Longrightarrow> ss_shutdown_required s \<Longrightarrow> ss_shutdown_required t"
  by (erule stability_step_induct) (simp_all add: shutdown_mono)

text \<open>A required shutdown is final. From then on, whatever the runtime calls and whatever day it
  is, no trade may be opened.\<close>

theorem shutdown_is_final:
  assumes "ss_shutdown_required s" and "(stability_step c)\<^sup>*\<^sup>* s t"
  shows "ss_shutdown_required t \<and> \<not> fst (snd (can_open_trade c equity t))"
proof -
  have "ss_shutdown_required t"
    using assms(2,1) by (induction rule: rtranclp_induct) (auto dest: stability_step_shutdown)
  then show ?thesis by (simp add: can_open_trade_def)
qed

theorem shutdown_is_final_witness:
  "\<not> fst (snd (can_open_trade default_stability_config None
     (heartbeat 0 (mark_protection default_stability_config False [] (new_stability_state ''x'' 0)))))"
proof -
  let ?s = "mark_protection default_stability_config False [] (new_stability_state ''x'' 0)"
  have "ss_shutdown_required ?s" by (simp add: mark_protection_def default_stability_config_def Let_def)
  moreover have "(stability_step default_stability_config)\<^sup>*\<^sup>* ?s (heartbeat 0 ?s)"
    by (rule r_into_rtranclp) (rule step_heartbeat)
  ultimately show ?thesis using shutdown_is_final by blast
qed

section \<open>Operations in flight and duplicate events\<close>

lemma in_flight_update_false:
  "length (filter snd d) \<le> 1 \<Longrightarrow> length (filter snd (dict_set k False d)) \<le> 1"
proof (induction d)
  case (Cons x d)
  obtain k' v where x: "x = (k', v)" by (cases x)
  have "length (filter snd (dict_set k False d)) \<le> length (filter snd d)"
    by (induction d) (auto simp: le_SucI)
  with Cons show ?case by (auto simp: x split: if_splits)
qed simp

lemma in_flight_set_true:
  "\<forall>(k, b)\<in>set d. \<not> b \<Longrightarrow> length (filter snd (dict_set k True d)) \<le> 1"
proof (induction d)
  case (Cons x d)
  obtain k' v where x: "x = (k', v)" by (cases x)
  have "filter snd d = []" using Cons.prems by (auto simp: filter_empty_conv)
  with Cons show ?case by (auto simp: x)
qed simp

definition one_in_flight :: "stability_state \<Rightarrow> bool" where
  "one_in_flight s = (length (filter snd (ss_in_flight s)) \<le> 1)"

lemma begin_operation_effect:
  "(\<not> fst (snd (begin_operation op k s)) \<and> fst (begin_operation op k s) = s) \<or>
   (fst (snd (begin_operation op k s)) \<and> (\<forall>(j, b)\<in>set (ss_in_flight s). \<not> b) \<and>
    ss_in_flight (fst (begin_operation op k s)) = dict_set op True (ss_in_flight s))"
proof (cases "any_in_flight s")
  case True
  then show ?thesis by (simp add: begin_operation_def Let_def)
next
  case False
  then have "\<forall>(j, b)\<in>set (ss_in_flight s). \<not> b" by (force simp: any_in_flight_def)
  then show ?thesis by (simp add: begin_operation_def Let_def del: split_paired_All)
qed

lemma stability_step_one_in_flight:
  "stability_step c s t \<Longrightarrow> one_in_flight s \<Longrightarrow> one_in_flight t"
proof (erule stability_step_induct)
  fix op k s assume "one_in_flight s"
  then show "one_in_flight (fst (begin_operation op k s))"
    using begin_operation_effect[of op k s] in_flight_set_true[of "ss_in_flight s" op]
    by (auto simp: one_in_flight_def)
next
  fix op ok r s assume "one_in_flight s"
  then show "one_in_flight (end_operation op ok r s)"
    using in_flight_update_false[of "ss_in_flight s" op]
    by (simp add: end_operation_def Let_def one_in_flight_def)
qed (simp_all add: one_in_flight_def)

text \<open>\<open>C7\<close>: Operations exclude each other. In every reachable state at most one operation is in
  flight; while one is, no other can begin and no trade can open.\<close>

theorem operations_are_exclusive:
  assumes "(stability_step c)\<^sup>*\<^sup>* (new_stability_state name t0) s"
  shows "length (filter snd (ss_in_flight s)) \<le> 1 \<and>
    (any_in_flight s \<longrightarrow> \<not> fst (snd (begin_operation op key s)) \<and> \<not> fst (snd (can_open_trade c equity s)))"
proof -
  have "one_in_flight s"
    using assms
    by (induction rule: rtranclp_induct)
      (simp add: new_stability_state_def one_in_flight_def, rule stability_step_one_in_flight)
  then show ?thesis
    by (auto simp: one_in_flight_def begin_operation_def can_open_trade_def Let_def)
qed

theorem operations_are_exclusive_witness:
  "\<not> fst (snd (begin_operation ''exit'' None (fst (begin_operation ''entry'' None (new_stability_state ''x'' 0)))))"
proof -
  let ?s = "fst (begin_operation ''entry'' None (new_stability_state ''x'' 0))"
  have "any_in_flight ?s" by (simp add: begin_operation_def new_stability_state_def any_in_flight_def)
  moreover have "(stability_step default_stability_config)\<^sup>*\<^sup>* (new_stability_state ''x'' 0) ?s"
    by (rule r_into_rtranclp) (rule step_begin)
  ultimately show ?thesis using operations_are_exclusive by blast
qed

text \<open>Marking: each step appends at most one new event and then keeps the last two thousand.\<close>

lemma begin_operation_processed:
  "ss_processed_events (fst (begin_operation op k s)) = ss_processed_events s \<or>
   (\<exists>j. ss_processed_events (fst (begin_operation op k s)) = last_n processed_max (ss_processed_events s @ [j]))"
  by (auto simp: begin_operation_def mark_event_def Let_def split: option.splits)

lemma stability_step_processed:
  assumes "stability_step c s t"
  shows "ss_processed_events t = ss_processed_events s \<or>
    (\<exists>j. ss_processed_events t = last_n processed_max (ss_processed_events s @ [j]))"
  using assms
proof cases
  case (step_supervise i ck)
  have "ss_processed_events (fst (evaluate_supervision c i ck s)) = ss_processed_events s"
    by (rule supervision_induct) simp_all
  then show ?thesis using step_supervise by simp
next
  case (step_begin op key)
  then show ?thesis using begin_operation_processed by simp
qed (auto simp: record_order_lifecycle_def mark_event_def)

lemma stability_run_processed:
  assumes "(stability_step c ^^ n) s t" and "length (ss_processed_events s) \<le> processed_max"
  shows "\<exists>new. length new \<le> n \<and> ss_processed_events t = last_n processed_max (ss_processed_events s @ new)"
  using assms(1)
proof (induction n arbitrary: t)
  case 0
  then show ?case using assms(2) by (auto simp: last_n_all)
next
  case (Suc n)
  then obtain u where u: "(stability_step c ^^ n) s u" "stability_step c u t" by auto
  then obtain new where new: "length new \<le> n"
      "ss_processed_events u = last_n processed_max (ss_processed_events s @ new)" using Suc.IH by blast
  consider "ss_processed_events t = ss_processed_events u"
    | j where "ss_processed_events t = last_n processed_max (ss_processed_events u @ [j])"
    using stability_step_processed[OF u(2)] by blast
  then show ?case
  proof cases
    case 1
    then show ?thesis using new by (intro exI[of _ new]) simp
  next
    case (2 j)
    then show ?thesis using new by (intro exI[of _ "new @ [j]"]) (simp add: last_n_append_last_n)
  qed
qed

lemma last_n_keeps: "length new < n \<Longrightarrow> x \<in> set (last_n n (xs @ [x] @ new))"
  by (simp add: last_n_def)

text \<open>\<open>C8\<close>: An event key acts once. After \<open>begin_operation\<close> accepted a key, every later operation with
  that key is refused, for at least the next 1999 calls of any kind, and the memory of keys stays
  bounded.\<close>

theorem accepted_event_blocks_duplicates:
  assumes "begin_operation op (Some k) s = (s1, True, msg)" and "k \<noteq> []"
    and "length (ss_processed_events s) \<le> 2000" and "(stability_step c ^^ n) s1 t" and "n < 2000"
  shows "\<not> fst (snd (begin_operation op' (Some k) t)) \<and> length (ss_processed_events t) \<le> 2000"
proof -
  have "\<not> seen_event s k" using assms(1,2) by (auto simp: begin_operation_def Let_def split: if_splits)
  moreover have "s1 = mark_event k (s\<lparr>ss_in_flight := dict_set op True (ss_in_flight s)\<rparr>)"
    using assms(1,2) by (auto simp: begin_operation_def Let_def split: if_splits)
  ultimately have s1: "ss_processed_events s1 = last_n processed_max (ss_processed_events s @ [k])"
    by (simp add: mark_event_def seen_event_def)
  then have "length (ss_processed_events s1) \<le> processed_max" by simp
  from stability_run_processed[OF assms(4) this] obtain new where new: "length new \<le> n"
      "ss_processed_events t = last_n processed_max (ss_processed_events s1 @ new)" by blast
  then have t: "ss_processed_events t = last_n processed_max (ss_processed_events s @ [k] @ new)"
    by (simp add: s1 last_n_append_last_n)
  moreover have "k \<in> set (last_n processed_max (ss_processed_events s @ [k] @ new))"
    using new(1) assms(5) by (intro last_n_keeps) (simp add: processed_max_def)
  ultimately have "seen_event t k" by (simp add: seen_event_def)
  then show ?thesis using assms(2) t by (simp add: begin_operation_def Let_def processed_max_def)
qed

theorem accepted_event_blocks_duplicates_witness:
  "\<not> fst (snd (begin_operation ''entry'' (Some ''e1'')
     (end_operation ''entry'' True [] (fst (begin_operation ''entry'' (Some ''e1'') (new_stability_state ''x'' 0))))))"
proof -
  let ?n = "new_stability_state ''x'' 0" and ?s = "fst (begin_operation ''entry'' (Some ''e1'') (new_stability_state ''x'' 0))"
  have ok: "begin_operation ''entry'' (Some ''e1'') ?n = (?s, True, ''operation accepted'')"
    by (simp add: begin_operation_def new_stability_state_def any_in_flight_def seen_event_def Let_def)
  have "stability_step default_stability_config ?s (end_operation ''entry'' True [] ?s)" by (rule step_end)
  then have one: "(stability_step default_stability_config ^^ 1) ?s (end_operation ''entry'' True [] ?s)"
    by (simp only: relpowp_1)
  have "length (ss_processed_events ?n) \<le> 2000" by (simp add: new_stability_state_def)
  from accepted_event_blocks_duplicates[OF ok _ this one] show ?thesis by simp
qed

section \<open>The trade gate\<close>

definition within_limits :: "stability_config \<Rightarrow> pyfloat option \<Rightarrow> stability_state \<Rightarrow> bool" where
  "within_limits c equity s =
     (ss_trades_today s < sc_max_trades_day c \<and> ss_consecutive_losses s < sc_max_consecutive_losses c \<and>
      \<not> fle (ss_daily_realized_pnl s) (fneg (daily_loss_limit c equity)) \<and>
      \<not> fle (sc_max_daily_profit_usd c) (ss_daily_realized_pnl s))"

text \<open>The trade gate. A trade may open exactly when the framework is not shut down, nothing is
  in flight, no risk lock is set and the four daily limits hold. An approval changes nothing; when a
  limit refuses, the framework is locked afterwards, the lock is one that a new day lifts, and until
  then the gate stays shut for every equity.\<close>

theorem trade_gate:
  "fst (snd (can_open_trade c equity s)) =
     (\<not> ss_shutdown_required s \<and> \<not> any_in_flight s \<and> ss_risk_state s = ''OK'' \<and> within_limits c equity s) \<and>
   (fst (snd (can_open_trade c equity s)) \<longrightarrow> fst (can_open_trade c equity s) = s) \<and>
   (\<not> ss_shutdown_required s \<and> \<not> any_in_flight s \<and> ss_risk_state s = ''OK'' \<and> \<not> within_limits c equity s \<longrightarrow>
      (let s' = fst (can_open_trade c equity s)
       in ss_risk_state s' \<in> set daily_locks \<and> ss_status s' = ''RISK_LOCKED'' \<and>
          \<not> fst (snd (can_open_trade c e2 s'))))"
proof -
  have "ss_risk_state (fst (can_open_trade c equity s)) \<in> set daily_locks \<and>
      ss_status (fst (can_open_trade c equity s)) = ''RISK_LOCKED'' \<and> ss_risk_state (fst (can_open_trade c equity s)) \<noteq> ''OK''"
    if "\<not> ss_shutdown_required s" "\<not> any_in_flight s" "ss_risk_state s = ''OK''" "\<not> within_limits c equity s"
    using that by (auto simp: can_open_trade_def within_limits_def daily_locks_def)
  moreover have "\<not> fst (snd (can_open_trade c e2 u))" if "ss_risk_state u \<noteq> ''OK''" for u
    using that by (simp add: can_open_trade_def)
  moreover have "fst (snd (can_open_trade c equity s)) =
     (\<not> ss_shutdown_required s \<and> \<not> any_in_flight s \<and> ss_risk_state s = ''OK'' \<and> within_limits c equity s)"
    by (simp add: can_open_trade_def within_limits_def not_le)
  moreover have "fst (snd (can_open_trade c equity s)) \<Longrightarrow> fst (can_open_trade c equity s) = s"
    by (auto simp: can_open_trade_def split: if_splits)
  ultimately show ?thesis unfolding Let_def by blast
qed

theorem trade_gate_witness:
  "\<not> fst (snd (can_open_trade default_stability_config None
     (fst (can_open_trade default_stability_config (Some (Fin 100))
       ((new_stability_state ''x'' 0)\<lparr>ss_trades_today := 10\<rparr>)))))"
proof -
  let ?s = "(new_stability_state ''x'' 0)\<lparr>ss_trades_today := 10\<rparr>"
  have "\<not> ss_shutdown_required ?s \<and> \<not> any_in_flight ?s \<and> ss_risk_state ?s = ''OK'' \<and>
      \<not> within_limits default_stability_config (Some (Fin 100)) ?s"
    by (simp add: new_stability_state_def any_in_flight_def within_limits_def default_stability_config_def)
  then show ?thesis
    using trade_gate[of default_stability_config "Some (Fin 100)" ?s None] by (metis (no_types))
qed

section \<open>Counting by the day\<close>

text \<open>The daily counters. A result recorded on the same calendar day as the state's day adds to
  the day's counters; the first result of another day starts them afresh; and a run of losses that
  reaches the configured length, or a day that reaches its number of trades, leaves the gate shut.\<close>

theorem trade_result_counts_by_day:
  assumes "ss_day s = date_iso t0" and "in_calendar t0" and "in_calendar now"
    and same: "same = (day_ordinal now = day_ordinal t0)" and s'_def: "s' = record_trade_result c pnl equity now s"
  shows "ss_day s' = date_iso now \<and>
     ss_trades_today s' = (if same then ss_trades_today s + 1 else 1) \<and>
     ss_daily_realized_pnl s' = fadd (if same then ss_daily_realized_pnl s else Fin 0) pnl \<and>
     ss_consecutive_losses s' = (if flt pnl (Fin 0) then (if same then ss_consecutive_losses s + 1 else 1) else 0) \<and>
     (sc_max_trades_day c \<le> ss_trades_today s' \<or> sc_max_consecutive_losses c \<le> ss_consecutive_losses s' \<longrightarrow>
        \<not> fst (snd (can_open_trade c e2 s')))"
proof -
  have d: "ss_day s = date_iso now \<longleftrightarrow> same"
    using date_iso_same_day[OF assms(3,2)] assms(1) by (auto simp: same)
  have r: "ss_trades_today (reset_day_if_needed now s) = (if same then ss_trades_today s else 0)"
    "ss_daily_realized_pnl (reset_day_if_needed now s) = (if same then ss_daily_realized_pnl s else Fin 0)"
    "ss_consecutive_losses (reset_day_if_needed now s) = (if same then ss_consecutive_losses s else 0)"
    by (simp_all add: reset_day_if_needed_def d Let_def)
  have gate: "\<not> fst (snd (can_open_trade c e2 u))"
    if "sc_max_trades_day c \<le> ss_trades_today u \<or> sc_max_consecutive_losses c \<le> ss_consecutive_losses u" for u
    using that by (auto simp: can_open_trade_def)
  have "ss_day s' = date_iso now \<and> ss_trades_today s' = (if same then ss_trades_today s + 1 else 1) \<and>
     ss_daily_realized_pnl s' = fadd (if same then ss_daily_realized_pnl s else Fin 0) pnl \<and>
     ss_consecutive_losses s' = (if flt pnl (Fin 0) then (if same then ss_consecutive_losses s + 1 else 1) else 0)"
    by (cases equity) (simp_all add: s'_def record_trade_result_def Let_def r)
  with gate[of s'] show ?thesis by blast
qed

theorem trade_result_counts_by_day_witness:
  "ss_trades_today (record_trade_result default_stability_config (Fin (-1)) None 86400000001
     (record_trade_result default_stability_config (Fin 1) None 86400000000 (new_stability_state ''x'' 0))) = 2"
proof -
  let ?c = default_stability_config
  let ?s = "record_trade_result ?c (Fin 1) None 86400000000 (new_stability_state ''x'' 0)"
  have cal: "in_calendar 0" "in_calendar 86400000000" "in_calendar 86400000001"
    "day_ordinal 86400000000 \<noteq> day_ordinal 0" "day_ordinal 86400000001 = day_ordinal 86400000000"
    by (simp_all add: in_calendar_def day_ordinal_def us_per_day_def)
  have "ss_day (new_stability_state ''x'' 0) = date_iso 0" by (simp add: new_stability_state_def)
  from trade_result_counts_by_day[OF this cal(1,2) refl, of _ ?c "Fin 1" None, OF refl]
  have s: "ss_day ?s = date_iso 86400000000" "ss_trades_today ?s = 1" using cal(4) by auto
  from trade_result_counts_by_day[OF s(1) cal(2,3) refl, of _ ?c "Fin (-1)" None, OF refl] s(2) cal(5)
  show ?thesis by simp
qed

text \<open>The drawdown lock is meant to outlast the day (it is not among the locks a new day lifts),
  but an exposure check replaces it by a daily lock: afterwards a heartbeat on any later day reports the
  framework unlocked, and the gate may open again.\<close>

theorem exposure_check_downgrades_drawdown_lock:
  assumes "ss_risk_state s = ''GLOBAL_DRAWDOWN_LOCK''" and "flt (Fin 0) equity"
    and "flt (sc_max_portfolio_exposure_pct c) (fmul (fdiv exposure equity) (Fin 100))"
    and "ss_day s = date_iso t0" and "in_calendar t0" and "in_calendar now" and "day_ordinal now \<noteq> day_ordinal t0"
  shows "ss_risk_state (heartbeat now s) = ''GLOBAL_DRAWDOWN_LOCK'' \<and>
     ss_risk_state (heartbeat now (fst (check_portfolio_exposure c equity exposure sym_exposure s))) = ''OK'' \<and>
     ss_status (heartbeat now (fst (check_portfolio_exposure c equity exposure sym_exposure s))) = ''READY''"
proof -
  have d: "ss_day s \<noteq> date_iso now" using date_iso_same_day[OF assms(6,5)] assms(4,7) by simp
  have e: "\<not> fle equity (Fin 0)" using assms(2) by (auto dest: flt_le_trans)
  show ?thesis
    using assms(1,3) d e
    by (simp add: check_portfolio_exposure_def heartbeat_def reset_day_if_needed_def Let_def daily_locks_def
        lock_risk_def raise_alert_def)
qed

theorem exposure_check_downgrades_drawdown_lock_witness:
  "ss_risk_state (heartbeat 86400000000 (fst (check_portfolio_exposure default_stability_config (Fin 1) (Fin 1) (Fin 0)
     ((new_stability_state ''x'' 0)\<lparr>ss_risk_state := ''GLOBAL_DRAWDOWN_LOCK''\<rparr>)))) = ''OK''"
proof -
  let ?s = "(new_stability_state ''x'' 0)\<lparr>ss_risk_state := ''GLOBAL_DRAWDOWN_LOCK''\<rparr>"
  have "ss_risk_state ?s = ''GLOBAL_DRAWDOWN_LOCK''" "ss_day ?s = date_iso 0" by (simp_all add: new_stability_state_def)
  moreover have "flt (Fin 0) (Fin 1)" by simp
  moreover have "flt (sc_max_portfolio_exposure_pct default_stability_config) (fmul (fdiv (Fin 1) (Fin 1)) (Fin 100))"
    by (simp add: default_stability_config_def)
  moreover have "in_calendar 0" "in_calendar 86400000000" "day_ordinal 86400000000 \<noteq> day_ordinal 0"
    by (simp_all add: in_calendar_def day_ordinal_def us_per_day_def)
  ultimately show ?thesis using exposure_check_downgrades_drawdown_lock by blast
qed

section \<open>Supervision and reconciliation\<close>

text \<open>A heartbeat alert never clears. Once its code is in the state, a supervision pass with a
  fresh heartbeat still returns that alert and looks at nothing else: not at the data feed, not at a
  position without protection, not at the queues.\<close>

theorem heartbeat_alert_sticks:
  assumes "ss_alert_code s \<in> set heartbeat_alerts" and "si_last_seen i = Some seen"
    and "\<not> exceeds (age_seconds (or_now (si_now i) (ck_heartbeat ck)) seen) (sc_heartbeat_halt_seconds c)"
    and "\<not> exceeds (age_seconds (or_now (si_now i) (ck_heartbeat ck)) seen) (sc_heartbeat_stale_seconds c)"
  shows "evaluate_supervision c i ck s =
     (let s' = s\<lparr>ss_restart_required := False, ss_supervisor_action := ''NONE''\<rparr>
      in (s', Inr (alert_of s' (ck_alert ck)))) \<and>
     sa_code (alert_of (fst (evaluate_supervision c i ck s)) (ck_alert ck)) = ss_alert_code s"
proof -
  have "supervise c i ck s = (s\<lparr>ss_restart_required := False, ss_supervisor_action := ''NONE''\<rparr>, Inr ())"
    using assms by (simp add: supervise_def detect_stale_heartbeat_def Let_def)
  then show ?thesis by (simp add: evaluate_supervision_def alert_of_def Let_def)
qed

definition unprotected_input :: supervision_input where
  "unprotected_input = \<lparr>si_last_seen = Some 0, si_last_market_data_seen = None, si_exchange_time = None,
     si_signal_queue_depth = 0, si_db_queue_depth = 0, si_has_position = True, si_protection_verified = False,
     si_now = Some 0\<rparr>"

theorem heartbeat_alert_sticks_witness:
  "\<exists>s' a. evaluate_supervision default_stability_config unprotected_input
      \<lparr>ck_heartbeat = 0, ck_feed = 0, ck_alert = 0\<rparr>
      ((new_stability_state ''x'' 0)\<lparr>ss_alert_code := ''HEARTBEAT_STALE''\<rparr>) = (s', Inr a) \<and>
    ss_protection_state s' = ''UNKNOWN'' \<and> \<not> ss_shutdown_required s'"
proof -
  let ?s = "(new_stability_state ''x'' 0)\<lparr>ss_alert_code := ''HEARTBEAT_STALE''\<rparr>"
  let ?ck = "\<lparr>ck_heartbeat = 0, ck_feed = 0, ck_alert = 0\<rparr> :: clock_readings"
  have "age_seconds (or_now (si_now unprotected_input) (ck_heartbeat ?ck)) 0 = Fin 0"
    by (simp add: age_seconds_def or_now_def unprotected_input_def total_seconds_def fmax_def)
  then have "\<not> exceeds (age_seconds (or_now (si_now unprotected_input) (ck_heartbeat ?ck)) 0) (sc_heartbeat_halt_seconds default_stability_config)"
    "\<not> exceeds (age_seconds (or_now (si_now unprotected_input) (ck_heartbeat ?ck)) 0) (sc_heartbeat_stale_seconds default_stability_config)"
    by (simp_all add: exceeds_def default_stability_config_def)
  moreover have "ss_alert_code ?s \<in> set heartbeat_alerts" "si_last_seen unprotected_input = Some 0"
    by (simp_all add: heartbeat_alerts_def unprotected_input_def)
  ultimately have "evaluate_supervision default_stability_config unprotected_input ?ck ?s =
     (let s' = ?s\<lparr>ss_restart_required := False, ss_supervisor_action := ''NONE''\<rparr>
      in (s', Inr (alert_of s' (ck_alert ?ck))))"
    using heartbeat_alert_sticks by blast
  then show ?thesis by (simp add: Let_def new_stability_state_def)
qed

definition quantities_differ :: "pyfloat \<Rightarrow> pyfloat \<Rightarrow> bool" where
  "quantities_differ x y = flt (dec 1 100000000) (fabs (fsub x y))"

text \<open>After a restart the plan is to resume exactly when the two quantities agree within 1e-8 and
  an open position has its protection (where required) and its orders verified. Every other plan raises
  a critical alert; for a position without protection it also shuts the trade gate for good.\<close>

theorem reconciliation_resumes_iff:
  "(rp_action (snd (restart_reconciliation_plan c x y protected verified s)) = ''RESUME'') =
     (\<not> quantities_differ x y \<and> (\<not> flt (Fin 0) x \<or> (protected \<or> \<not> sc_require_protection c) \<and> verified)) \<and>
   (rp_action (snd (restart_reconciliation_plan c x y protected verified s)) = ''RESUME'' \<or>
     ss_alert_level (fst (restart_reconciliation_plan c x y protected verified s)) = ''CRITICAL'') \<and>
   (rp_action (snd (restart_reconciliation_plan c x y protected verified s)) = ''HALT_AND_PROTECT'' \<longrightarrow>
     \<not> fst (snd (can_open_trade c e (fst (restart_reconciliation_plan c x y protected verified s)))))"
proof (cases "quantities_differ x y")
  case True
  then show ?thesis by (simp add: restart_reconciliation_plan_def Let_def plan_def raise_alert_def quantities_differ_def)
next
  case m: False
  show ?thesis
  proof (cases "flt (Fin 0) x \<and> sc_require_protection c \<and> \<not> protected")
    case True
    with m show ?thesis
      by (simp add: restart_reconciliation_plan_def Let_def plan_def raise_alert_def mark_protection_def
          can_open_trade_def quantities_differ_def)
  next
    case False
    with m show ?thesis
      by (auto simp: restart_reconciliation_plan_def Let_def plan_def raise_alert_def quantities_differ_def)
  qed
qed

theorem reconciliation_resumes_iff_witness:
  "\<not> fst (snd (can_open_trade default_stability_config None
     (fst (restart_reconciliation_plan default_stability_config (Fin 1) (Fin 1) False True (new_stability_state ''x'' 0)))))"
proof -
  let ?p = "snd (restart_reconciliation_plan default_stability_config (Fin 1) (Fin 1) False True (new_stability_state ''x'' 0))"
  have "rp_action ?p = ''HALT_AND_PROTECT''"
    by (simp add: restart_reconciliation_plan_def Let_def plan_def default_stability_config_def dec_lits)
  then show ?thesis
    using reconciliation_resumes_iff[of default_stability_config "Fin 1" "Fin 1" False True "new_stability_state ''x'' 0" None]
    by metis
qed

section \<open>What the sanitizer promises\<close>

lemma int_to_float_Inr: "int_to_float k = Inr y \<Longrightarrow> \<exists>q. y = Fin q"
  by (cases "fround (of_int k)") (auto simp: int_to_float_def)

lemma floor_step_Inr: "floor_step x s = Inr y \<Longrightarrow> \<exists>q. y = fmul (Fin q) s"
  by (auto simp: floor_step_def bind_res_eq_Inr dest: int_to_float_Inr)

text \<open>A quantity the sanitizer returns is positive, its value at the given price stays within the
  capital cap, it is a multiple of the step rounded to the step's decimals, and the note lists exactly
  the exchange minimums the request missed.\<close>

theorem sanitized_quantity:
  assumes "sanitize_qty log10 r price qty = Inr (Some q, note)"
  shows "\<not> fle q (Fin 0) \<and> \<not> flt (sr_max_capital_usd r) (fmul q price) \<and> flt (Fin 0) price \<noteq> is_nan price \<and>
     (\<exists>k p. q = reparse_fixed p (fmul (Fin k) (fmax (sr_step_size r) (dec 1 100000000)))) \<and>
     (note = None \<longleftrightarrow> \<not> flt qty (sr_min_qty r) \<and> \<not> flt (fmul price qty) (sr_min_notional r))"
proof -
  have p: "\<not> fle price (Fin 0)" using assms by (auto simp: sanitize_qty_def split: if_splits)
  then have "flt (Fin 0) price \<noteq> is_nan price" by (cases price) auto
  moreover obtain d n where d: "floor_step (fmax (fmax qty (sr_min_qty r))
       (if ftruth (sr_min_notional r) then fdiv (sr_min_notional r) price else Fin 0))
       (fmax (sr_step_size r) (dec 1 100000000)) = Inr d"
     "q = reparse_fixed n d" "\<not> fle q (Fin 0)" "\<not> flt (sr_max_capital_usd r) (fmul q price)"
     "note = (if sanitize_reasons r price qty = [] then None else Some (join_with '' / '' (sanitize_reasons r price qty)))"
    using assms by (auto simp: sanitize_qty_def Let_def bind_res_eq_Inr split: if_splits)
  moreover from floor_step_Inr[OF d(1)] have "\<exists>k. d = fmul (Fin k) (fmax (sr_step_size r) (dec 1 100000000))" by auto
  ultimately show ?thesis by (auto simp: sanitize_reasons_def)
qed

definition coarse_rules :: symbol_rules where
  "coarse_rules = \<lparr>sr_min_qty = Fin (3/2), sr_step_size = Fin 1, sr_min_notional = Fin 3, sr_tick_size = Fin 1,
     sr_max_capital_usd = Fin 1000\<rparr>"

lemma fround_three_halves: "fround (3 / 2) = Fin (3 / 2)"
  using fround_eval[of "1 / 2 ^ 52" "- 52" "3 / 2" "6755399441055744"] by (simp add: power_int_def power_one_over)

lemma rhe_1 [simp]: "rhe 1 = 1" using rhe_of_int[of 1] by simp

lemma floor_three_halves: "\<lfloor>3 / 2 :: rat\<rfloor> = 1" by (simp add: floor_eq_iff)

lemma sanitize_coarse: "sanitize_qty log10 coarse_rules (Fin 2) (Fin 1) = Inr (Some (Fin 1), Some ''QTY_BELOW_MIN / NOTIONAL_BELOW_MIN'')"
  by (simp add: sanitize_qty_def coarse_rules_def sanitize_reasons_def Let_def fmax_def ftruth_def floor_step_def
      py_div_def floor_int_def int_to_float_def step_precision_def reparse_fixed_def fround_three_halves floor_three_halves
      dec_lits)

theorem sanitized_quantity_witness: "\<not> flt (sr_max_capital_usd coarse_rules) (fmul (Fin 1) (Fin 2))"
  using sanitized_quantity[OF sanitize_coarse[of "\<lambda>x. x"]] by blast

text \<open>The quantity is rounded down to the step after it was raised to the exchange minimums, so a
  returned quantity can lie below the minimum quantity and below the minimum notional it was raised to.\<close>

theorem sanitized_quantity_below_minimum:
  "\<exists>r price qty q note. sanitize_qty log10 r price qty = Inr (Some q, note) \<and>
     flt q (sr_min_qty r) \<and> flt (fmul q price) (sr_min_notional r)"
  by (intro exI conjI, rule sanitize_coarse) (simp_all add: coarse_rules_def)

end
