(* ===== verification/Auth_Password.thy ===== *)
theory Auth_Password
  imports Py_Text "HOL-Library.Word"
begin

text \<open>
  Password hashing of \<open>security/auth.py\<close>. Base64 is modelled as \<open>base64.b64encode\<close> and the lenient
  \<open>base64.b64decode\<close> of the standard library; SHA-256 and PBKDF2 (OpenSSL's, through \<open>hashlib\<close>) are
  the parameters collected in \<open>crypto\<close>.
\<close>

type_synonym byte_string = "8 word list"

record crypto =
  cr_sha256_hex :: "string \<Rightarrow> string"
  cr_pbkdf2 :: "string \<Rightarrow> byte_string \<Rightarrow> int \<Rightarrow> byte_string res"

section \<open>Base64\<close>

definition b64_char :: "nat \<Rightarrow> char" where
  "b64_char n = (if n < 26 then char_of (n + 65) else if n < 52 then char_of (n + 71)
     else if n < 62 then char_of (n - 4) else if n = 62 then CHR ''+'' else CHR ''/'')"

definition b64_val :: "char \<Rightarrow> nat option" where
  "b64_val c = (let n = ord_of c in
     if 65 \<le> n \<and> n \<le> 90 then Some (n - 65) else if 97 \<le> n \<and> n \<le> 122 then Some (n - 71)
     else if 48 \<le> n \<and> n \<le> 57 then Some (n + 4) else if c = CHR ''+'' then Some 62
     else if c = CHR ''/'' then Some 63 else None)"

fun b64_encode :: "nat list \<Rightarrow> string" where
  "b64_encode [] = []"
| "b64_encode [a] = [b64_char (a div 4), b64_char (a mod 4 * 16), CHR ''='', CHR ''='']"
| "b64_encode [a, b] =
     [b64_char (a div 4), b64_char (a mod 4 * 16 + b div 16), b64_char (b mod 16 * 4), CHR ''='']"
| "b64_encode (a # b # c # bs) =
     b64_char (a div 4) # b64_char (a mod 4 * 16 + b div 16) # b64_char (b mod 16 * 4 + c div 64) #
     b64_char (c mod 64) # b64_encode bs"

text \<open>The decoder keeps the position in the group of four, the bits left over and the number of pad
  characters; it skips characters outside the alphabet and stops at a complete padding.\<close>

fun b64_scan :: "nat \<Rightarrow> nat \<Rightarrow> nat \<Rightarrow> string \<Rightarrow> nat list option" where
  "b64_scan q rest pads [] = (if q = 0 then Some [] else None)"
| "b64_scan q rest pads (c # cs) =
     (if c = CHR ''='' then
        (if 2 \<le> q \<and> 4 \<le> q + (pads + 1) then Some []
         else b64_scan q rest (if 2 \<le> q then pads + 1 else pads) cs)
      else case b64_val c of
        None \<Rightarrow> b64_scan q rest pads cs
      | Some v \<Rightarrow>
          if q = 0 then b64_scan 1 v 0 cs
          else if q = 1 then map_option ((#) (rest * 4 + v div 16)) (b64_scan 2 (v mod 16) 0 cs)
          else if q = 2 then map_option ((#) (rest * 16 + v div 4)) (b64_scan 3 (v mod 4) 0 cs)
          else map_option ((#) (rest * 64 + v)) (b64_scan 0 0 0 cs))"

definition b64encode :: "byte_string \<Rightarrow> string" where
  "b64encode bs = b64_encode (map unat bs)"

definition b64decode :: "string \<Rightarrow> byte_string option" where
  "b64decode s = map_option (map word_of_nat) (b64_scan 0 0 0 s)"

lemma b64_val_char: "n < 64 \<Longrightarrow> b64_val (b64_char n) = Some n"
  by (auto simp: b64_val_def b64_char_def ord_char_of Let_def ord_of_def)

lemma b64_char_not_special: "n < 64 \<Longrightarrow> b64_char n \<noteq> CHR ''='' \<and> b64_char n \<noteq> CHR ''$''"
proof -
  assume "n < 64"
  then have "b64_val (b64_char n) = Some n" by (rule b64_val_char)
  moreover have "b64_val (CHR ''='') = None" "b64_val (CHR ''$'') = None"
    by (simp_all add: b64_val_def ord_of_def Let_def)
  ultimately show ?thesis by auto
qed

lemma b64_scan_char:
  "n < 64 \<Longrightarrow> b64_scan q rest pads (b64_char n # cs) =
     (if q = 0 then b64_scan 1 n 0 cs
      else if q = 1 then map_option ((#) (rest * 4 + n div 16)) (b64_scan 2 (n mod 16) 0 cs)
      else if q = 2 then map_option ((#) (rest * 16 + n div 4)) (b64_scan 3 (n mod 4) 0 cs)
      else map_option ((#) (rest * 64 + n)) (b64_scan 0 0 0 cs))"
  using b64_char_not_special[of n] b64_val_char[of n] by simp

lemma digit_split: "(y::nat) < n \<Longrightarrow> (x * n + y) div n = x \<and> (x * n + y) mod n = y"
  by simp

lemma b64_digits:
  fixes a b c :: nat
  assumes "a < 256" "b < 256" "c < 256"
  shows "a div 4 < 64" "a mod 4 * 16 + b div 16 < 64" "b mod 16 * 4 + c div 64 < 64" "c mod 64 < 64"
    and "a mod 4 * 16 < 64" "b mod 16 * 4 < 64"
    and "a div 4 * 4 + (a mod 4 * 16 + b div 16) div 16 = a"
    and "(a mod 4 * 16 + b div 16) mod 16 * 16 + (b mod 16 * 4 + c div 64) div 4 = b"
    and "(b mod 16 * 4 + c div 64) mod 4 * 64 + c mod 64 = c"
    and "a div 4 * 4 + a mod 4 * 16 div 16 = a" "(a mod 4 * 16 + b div 16) mod 16 * 16 + b mod 16 * 4 div 4 = b"
proof -
  have q: "b div 16 < 16" "c div 64 < 4" "a div 4 < 64" using assms by (simp_all add: less_mult_imp_div_less)
  have m: "a mod 4 < 4" "b mod 16 < 16" "c mod 64 < 64" by simp_all
  show "a div 4 < 64" "c mod 64 < 64" "a mod 4 * 16 < 64" "b mod 16 * 4 < 64" using q m by simp_all
  show "a mod 4 * 16 + b div 16 < 64" "b mod 16 * 4 + c div 64 < 64" using q m by linarith+
  note s1 = digit_split[OF q(1), of "a mod 4"] and s2 = digit_split[OF q(2), of "b mod 16"]
  show "a div 4 * 4 + (a mod 4 * 16 + b div 16) div 16 = a" using s1 by simp
  show "(a mod 4 * 16 + b div 16) mod 16 * 16 + (b mod 16 * 4 + c div 64) div 4 = b" using s1 s2 by simp
  show "(b mod 16 * 4 + c div 64) mod 4 * 64 + c mod 64 = c" using s2 by simp
  show "a div 4 * 4 + a mod 4 * 16 div 16 = a" by simp
  show "(a mod 4 * 16 + b div 16) mod 16 * 16 + b mod 16 * 4 div 4 = b" using s1 by simp
qed

lemma b64_scan_encode: "\<forall>b\<in>set bs. b < 256 \<Longrightarrow> b64_scan 0 0 0 (b64_encode bs) = Some bs"
proof (induction bs rule: b64_encode.induct)
  case (2 a)
  then show ?case using b64_digits[of a 0 0] by (simp add: b64_scan_char del: b64_scan.simps(2)) simp
next
  case (3 a b)
  then show ?case using b64_digits[of a b 0] by (simp add: b64_scan_char del: b64_scan.simps(2)) simp
next
  case (4 a b c bs)
  then show ?case using b64_digits[of a b c] by (simp add: b64_scan_char del: b64_scan.simps(2))
qed simp

lemma bytes_below: "\<forall>b\<in>set (map unat (bs :: byte_string)). b < 256"
proof -
  have "unat b < 256" for b :: "8 word" using unsigned_less[of b, where 'a = nat] by simp
  then show ?thesis by auto
qed

lemma b64_roundtrip: "b64decode (b64encode bs) = Some bs"
  by (simp only: b64decode_def b64encode_def b64_scan_encode[OF bytes_below]) (simp add: comp_def)

lemma b64_encode_no_dollar: "\<forall>b\<in>set bs. b < 256 \<Longrightarrow> CHR ''$'' \<notin> set (b64_encode bs)"
proof (induction bs rule: b64_encode.induct)
  case (2 a)
  then show ?case using b64_digits[of a 0 0] b64_char_not_special by (auto simp: eq_commute[of "CHR ''$''"])
next
  case (3 a b)
  then show ?case using b64_digits[of a b 0] b64_char_not_special by (auto simp: eq_commute[of "CHR ''$''"])
next
  case (4 a b c bs)
  then show ?case using b64_digits[of a b c] b64_char_not_special by (auto simp: eq_commute[of "CHR ''$''"])
qed simp

section \<open>Hashing and verifying\<close>

definition password_algorithm :: string where "password_algorithm = ''pbkdf2_sha256''"
definition password_iterations :: int where "password_iterations = 390000"

definition hash_password :: "crypto \<Rightarrow> byte_string \<Rightarrow> string \<Rightarrow> string res" where
  "hash_password cr salt password =
     (if password = [] then Inl (ValueError ''Password cannot be empty'')
      else bind_res (cr_pbkdf2 cr password salt password_iterations) (\<lambda>digest.
        Inr (join_with ''$'' [password_algorithm, str_of_int password_iterations, b64encode salt, b64encode digest])))"

text \<open>\<open>ValueError\<close> and \<open>TypeError\<close> mean "no match"; any other exception leaves the function.\<close>

definition derive_key :: "crypto \<Rightarrow> string \<Rightarrow> byte_string \<Rightarrow> int \<Rightarrow> byte_string option res" where
  "derive_key cr password salt iterations =
     (case cr_pbkdf2 cr password salt iterations of
        Inr d \<Rightarrow> Inr (Some d)
      | Inl (ValueError _) \<Rightarrow> Inr None
      | Inl (TypeError _) \<Rightarrow> Inr None
      | Inl e \<Rightarrow> Inl e)"

definition verify_password :: "crypto \<Rightarrow> string \<Rightarrow> string \<Rightarrow> bool res" where
  "verify_password cr password stored =
     (case split_max CHR ''$'' 3 stored of
        [algorithm, iterations_text, salt_text, digest_text] \<Rightarrow>
          if algorithm \<noteq> password_algorithm then Inr False
          else (case (b64decode salt_text, b64decode digest_text, parse_int iterations_text) of
              (Some salt, Some expected, Some iterations) \<Rightarrow>
                bind_res (derive_key cr password salt iterations) (\<lambda>candidate. Inr (candidate = Some expected))
            | _ \<Rightarrow> Inr False)
      | _ \<Rightarrow> Inr False)"

definition hash_token :: "crypto \<Rightarrow> string \<Rightarrow> string" where
  "hash_token cr token = cr_sha256_hex cr token"

lemma b64encode_no_dollar: "CHR ''$'' \<notin> set (b64encode bs)"
  unfolding b64encode_def by (rule b64_encode_no_dollar[OF bytes_below])

lemma iterations_text: "CHR ''$'' \<notin> set (str_of_int password_iterations)"
  "parse_int (str_of_int password_iterations) = Some password_iterations"
proof -
  have "str_of_int password_iterations = nat_digits 390000"
    by (simp add: str_of_int_def password_iterations_def)
  then show "CHR ''$'' \<notin> set (str_of_int password_iterations)"
    "parse_int (str_of_int password_iterations) = Some password_iterations"
    using nat_digits_digit[of "CHR ''$''" 390000] parse_int_nat_digits[of 390000]
    by (auto simp: is_digit_def ord_of_def password_iterations_def)
qed

lemma stored_hash_split:
  "split_max CHR ''$'' 3 (join_with ''$'' [password_algorithm, str_of_int password_iterations, b64encode salt, b64encode digest]) =
     [password_algorithm, str_of_int password_iterations, b64encode salt, b64encode digest]"
proof -
  have a: "CHR ''$'' \<notin> set password_algorithm" by (simp add: password_algorithm_def)
  show ?thesis unfolding numeral_3_eq_3
    using split_max_append[OF a, of "Suc (Suc 0)"] split_max_append[OF iterations_text(1), of "Suc 0"]
      split_max_append[OF b64encode_no_dollar, of 0] by (simp add: split_max_0)
qed

lemma verify_stored:
  assumes "cr_pbkdf2 cr other salt password_iterations = Inr d"
  shows "verify_password cr other (join_with ''$'' [password_algorithm, str_of_int password_iterations, b64encode salt,
     b64encode digest]) = Inr (d = digest)"
  using assms unfolding verify_password_def stored_hash_split
  by (simp add: b64_roundtrip iterations_text derive_key_def)

lemma hash_verifies: "hash_password cr salt password = Inr h \<Longrightarrow> verify_password cr password h = Inr True"
  by (auto simp: hash_password_def bind_res_eq_Inr verify_stored simp del: join_with.simps split: if_splits)

text \<open>\<open>C39\<close>: Passwords round-trip. A password that hashes verifies against its hash; any other password
  verifies exactly if it derives the same key with the salt in the hash.\<close>

theorem password_hash_roundtrip:
  assumes "cr_pbkdf2 cr password salt 390000 = Inr digest" and "password \<noteq> []"
  shows "\<exists>h. hash_password cr salt password = Inr h \<and> verify_password cr password h = Inr True \<and>
    (\<forall>other d. cr_pbkdf2 cr other salt 390000 = Inr d \<longrightarrow> verify_password cr other h = Inr (d = digest))"
proof -
  let ?h = "join_with ''$'' [password_algorithm, str_of_int password_iterations, b64encode salt, b64encode digest]"
  have "verify_password cr other ?h = Inr (d = digest)" if "cr_pbkdf2 cr other salt 390000 = Inr d" for other d
    using that by (intro verify_stored) (simp add: password_iterations_def)
  moreover have "hash_password cr salt password = Inr ?h"
    using assms by (simp add: hash_password_def password_iterations_def)
  ultimately show ?thesis using assms(1) by (intro exI[of _ ?h]) (auto simp del: join_with.simps)
qed

text \<open>A crypto for examples: the key is the length of the password.\<close>

definition toy_crypto :: crypto where
  "toy_crypto = \<lparr>cr_sha256_hex = \<lambda>s. s, cr_pbkdf2 = \<lambda>p salt n. Inr [word_of_nat (length p)]\<rparr>"

theorem password_hash_roundtrip_witness:
  "\<exists>h. hash_password toy_crypto [7] ''secret'' = Inr h \<and> verify_password toy_crypto ''secret'' h = Inr True \<and>
    verify_password toy_crypto ''wrong'' h = Inr False"
proof -
  have "cr_pbkdf2 toy_crypto ''secret'' [7] 390000 = Inr [6]" by (simp add: toy_crypto_def)
  moreover have "cr_pbkdf2 toy_crypto ''wrong'' [7] 390000 = Inr [5]" by (simp add: toy_crypto_def)
  ultimately show ?thesis
    using password_hash_roundtrip[of toy_crypto "''secret''" "[7]" "[6]"] by fastforce
qed

end
