(* ===== verification/Auth_Tables.thy ===== *)
theory Auth_Tables
  imports Auth_Password Core_Model "HOL-Library.List_Lexorder" "HOL-Library.Char_ord"
begin

text \<open>
  The security tables of \<open>storage/models.py\<close> and the unit of work of a SQLAlchemy session: \<open>tx_work\<close>
  is what the session sees (pending rows are flushed before a query), \<open>tx_saved\<close> what the database
  holds. \<open>commit\<close> copies the first to the second; a session closed without commit loses its work.
  The columns \<open>created_at\<close> and \<open>updated_at\<close> are left out where no code reads them. JSON columns hold
  the list or dictionary they encode. A new row takes the next larger id.
\<close>

section \<open>Rows\<close>

record user_row =
  u_id :: int
  u_name :: string
  u_email :: string
  u_password_hash :: string
  u_status :: string
  u_subscription_tier :: string
  u_tenant_id :: string
  u_force_password_change :: bool
  u_failed_login_attempts :: int
  u_last_login_at :: "instant option"

record named_row =
  nr_id :: int
  nr_name :: string

record described_row = named_row +
  nr_description :: string

record role_row = described_row +
  nr_system_role :: bool

record screen_row = named_row +
  nr_route :: string

record link_row =
  lk_owner :: int
  lk_target :: int

record session_row =
  se_token_hash :: string
  se_user_id :: int
  se_tenant_id :: string
  se_status :: string
  se_roles :: "string list"
  se_permissions :: "string list"
  se_screens :: "string list"
  se_subscription_tier :: string
  se_last_seen_at :: instant
  se_expires_at :: instant
  se_absolute_expires_at :: instant

record token_row =
  tk_user_id :: int
  tk_token_hash :: string
  tk_purpose :: string
  tk_used :: bool
  tk_expires_at :: instant
  tk_used_at :: "instant option"

record audit_row =
  au_event_type :: string
  au_actor :: "int option"
  au_target :: "int option"
  au_session_id :: string
  au_details :: "(string, string) dict"

record bootstrap_row =
  ab_id :: int
  ab_email :: string
  ab_password_hash :: string
  ab_attempts_remaining :: int
  ab_used :: bool
  ab_expired :: bool
  ab_created_at :: instant
  ab_expires_at :: instant
  ab_used_at :: "instant option"
  ab_last_attempt_at :: "instant option"

record sec_db =
  db_users :: "user_row list"
  db_roles :: "role_row list"
  db_permissions :: "described_row list"
  db_screens :: "screen_row list"
  db_actions :: "described_row list"
  db_user_roles :: "link_row list"
  db_role_permissions :: "link_row list"
  db_role_screens :: "link_row list"
  db_sessions :: "session_row list"
  db_tokens :: "token_row list"
  db_audits :: "audit_row list"
  db_bootstraps :: "bootstrap_row list"

definition empty_db :: sec_db where
  "empty_db = \<lparr>db_users = [], db_roles = [], db_permissions = [], db_screens = [], db_actions = [],
     db_user_roles = [], db_role_permissions = [], db_role_screens = [], db_sessions = [], db_tokens = [],
     db_audits = [], db_bootstraps = []\<rparr>"

definition next_id :: "int list \<Rightarrow> int" where
  "next_id ids = fold max ids 0 + 1"

lemma fold_max_ge: "(m::int) \<le> fold max ids m \<and> (\<forall>i\<in>set ids. i \<le> fold max ids m)"
proof (induction ids arbitrary: m)
  case (Cons i ids)
  have "max i m \<le> fold max ids (max i m)" "\<forall>j\<in>set ids. j \<le> fold max ids (max i m)" using Cons.IH by blast+
  then show ?case by auto
qed simp

lemma next_id_fresh: "i \<in> set ids \<Longrightarrow> i < next_id ids"
  using fold_max_ge[where m = 0 and ids = ids] by (auto simp: next_id_def)

section \<open>Unit of work\<close>

record txn =
  tx_work :: sec_db
  tx_saved :: sec_db

definition open_session :: "sec_db \<Rightarrow> txn" where
  "open_session db = \<lparr>tx_work = db, tx_saved = db\<rparr>"

definition commit :: "txn \<Rightarrow> txn" where
  "commit t = t\<lparr>tx_saved := tx_work t\<rparr>"

definition change :: "(sec_db \<Rightarrow> sec_db) \<Rightarrow> txn \<Rightarrow> txn" where
  "change f t = t\<lparr>tx_work := f (tx_work t)\<rparr>"

text \<open>One call in its own session: what is left in the database, and the result.\<close>

definition run_call :: "(txn \<Rightarrow> (txn, 'a) outcome) \<Rightarrow> sec_db \<Rightarrow> sec_db \<times> 'a res" where
  "run_call f db = (let (t, r) = f (open_session db) in (tx_saved t, r))"

lemma txn_simps [simp]:
  "tx_work (commit t) = tx_work t" "tx_saved (commit t) = tx_work t"
  "tx_work (change f t) = f (tx_work t)" "tx_saved (change f t) = tx_saved t"
  "tx_work (open_session db) = db" "tx_saved (open_session db) = db"
  by (simp_all add: commit_def change_def open_session_def)

section \<open>Queries and row updates\<close>

definition user_by_email :: "string \<Rightarrow> sec_db \<Rightarrow> user_row option" where
  "user_by_email e db = find_first (\<lambda>u. u_email u = e) (db_users db)"

definition user_by_id :: "int \<Rightarrow> sec_db \<Rightarrow> user_row option" where
  "user_by_id i db = find_first (\<lambda>u. u_id u = i) (db_users db)"

definition row_by_name :: "string \<Rightarrow> 'x named_row_scheme list \<Rightarrow> 'x named_row_scheme option" where
  "row_by_name n rows = find_first (\<lambda>r. nr_name r = n) rows"

definition open_token :: "string \<Rightarrow> string \<Rightarrow> sec_db \<Rightarrow> token_row option" where
  "open_token h purpose db =
     find_first (\<lambda>k. tk_token_hash k = h \<and> tk_purpose k = purpose \<and> \<not> tk_used k) (db_tokens db)"

definition active_session :: "string \<Rightarrow> sec_db \<Rightarrow> session_row option" where
  "active_session h db = find_first (\<lambda>s. se_token_hash s = h \<and> se_status s = ''ACTIVE'') (db_sessions db)"

definition map_where :: "('a \<Rightarrow> bool) \<Rightarrow> ('a \<Rightarrow> 'a) \<Rightarrow> 'a list \<Rightarrow> 'a list" where
  "map_where p f xs = map (\<lambda>x. if p x then f x else x) xs"

lemma map_where_simps [simp]:
  "map_where p f [] = []" "map_where p f (x # xs) = (if p x then f x else x) # map_where p f xs"
  "length (map_where p f xs) = length xs"
  by (simp_all add: map_where_def)

lemma set_map_where: "x \<in> set (map_where p f xs) \<longleftrightarrow> (\<exists>y\<in>set xs. x = (if p y then f y else y))"
  by (auto simp: map_where_def)

definition update_user :: "int \<Rightarrow> (user_row \<Rightarrow> user_row) \<Rightarrow> sec_db \<Rightarrow> sec_db" where
  "update_user i f db = db\<lparr>db_users := map_where (\<lambda>u. u_id u = i) f (db_users db)\<rparr>"

definition update_token :: "string \<Rightarrow> (token_row \<Rightarrow> token_row) \<Rightarrow> sec_db \<Rightarrow> sec_db" where
  "update_token h f db = db\<lparr>db_tokens := map_where (\<lambda>k. tk_token_hash k = h) f (db_tokens db)\<rparr>"

definition update_session :: "string \<Rightarrow> (session_row \<Rightarrow> session_row) \<Rightarrow> sec_db \<Rightarrow> sec_db" where
  "update_session h f db = db\<lparr>db_sessions := map_where (\<lambda>s. se_token_hash s = h) f (db_sessions db)\<rparr>"

definition update_bootstrap :: "int \<Rightarrow> (bootstrap_row \<Rightarrow> bootstrap_row) \<Rightarrow> sec_db \<Rightarrow> sec_db" where
  "update_bootstrap i f db = db\<lparr>db_bootstraps := map_where (\<lambda>b. ab_id b = i) f (db_bootstraps db)\<rparr>"

text \<open>The first row with the latest \<open>created_at\<close> among those of an email.\<close>

fun latest_bootstrap :: "bootstrap_row list \<Rightarrow> bootstrap_row option" where
  "latest_bootstrap [] = None"
| "latest_bootstrap (b # bs) = (case latest_bootstrap bs of
     None \<Rightarrow> Some b
   | Some c \<Rightarrow> if ab_created_at b < ab_created_at c then Some c else Some b)"

lemma latest_bootstrap_in: "latest_bootstrap bs = Some b \<Longrightarrow> b \<in> set bs"
  by (induction bs arbitrary: b) (auto split: option.splits if_splits)

lemma latest_bootstrap_None: "latest_bootstrap bs = None \<longleftrightarrow> bs = []"
  by (cases bs) (auto split: option.splits)

definition audit_event ::
    "string \<Rightarrow> int option \<Rightarrow> int option \<Rightarrow> string \<Rightarrow> (string, string) dict \<Rightarrow> txn \<Rightarrow> txn" where
  "audit_event event actor target session_id details =
     change (\<lambda>db. db\<lparr>db_audits := db_audits db @
       [\<lparr>au_event_type = event, au_actor = actor, au_target = target, au_session_id = session_id,
         au_details = details\<rparr>]\<rparr>)"

end
