(* ===== verification/Auth.thy ===== *)
theory Auth
  imports Auth_Tables
begin

text \<open>
  The operations of \<open>security/auth.py\<close>. Each takes the transaction state and returns it with a result
  or the exception raised; what the code draws from outside (clock readings, random tokens and salts)
  is an argument.
\<close>

record auth_settings =
  as_captcha_required :: bool
  as_captcha_shared_secret :: string
  as_idle_minutes :: int
  as_absolute_hours :: int
  as_bootstrap_admin_email :: string
  as_bootstrap_admin_temp_password :: string

definition default_auth_settings :: auth_settings where
  "default_auth_settings = \<lparr>as_captcha_required = False, as_captcha_shared_secret = [],
     as_idle_minutes = 30, as_absolute_hours = 12, as_bootstrap_admin_email = [],
     as_bootstrap_admin_temp_password = []\<rparr>"

definition minutes :: "int \<Rightarrow> int" where "minutes n = n * 60000000"
definition hours :: "int \<Rightarrow> int" where "hours n = n * 3600000000"

record session_context =
  cx_session_token :: string
  cx_user_id :: int
  cx_email :: string
  cx_roles :: "string list"
  cx_permissions :: "string list"
  cx_allowed_screens :: "string list"
  cx_subscription_tier :: string
  cx_tenant_id :: string
  cx_expires_at :: instant
  cx_force_password_change :: bool

definition normalize_email :: "string \<Rightarrow> string" where
  "normalize_email e = str_lower (str_strip e)"

definition tenant_for_email :: "crypto \<Rightarrow> string \<Rightarrow> string" where
  "tenant_for_email cr e = ''user-'' @ take 24 (cr_sha256_hex cr e)"

definition validate_captcha :: "auth_settings \<Rightarrow> string \<Rightarrow> string \<Rightarrow> bool" where
  "validate_captcha st response expected =
     (if \<not> as_captcha_required st then True
      else (let secret = (if expected = [] then as_captcha_shared_secret st else expected)
            in secret \<noteq> [] \<and> str_strip response = secret))"

section \<open>Roles and access\<close>

definition assign_role :: "int \<Rightarrow> string \<Rightarrow> txn \<Rightarrow> (txn, unit) outcome" where
  "assign_role uid role_name t =
     (case row_by_name role_name (db_roles (tx_work t)) of
        None \<Rightarrow> (t, Inl (ValueError (''Unknown role: '' @ role_name)))
      | Some role \<Rightarrow>
          (let link = \<lparr>lk_owner = uid, lk_target = nr_id role\<rparr>
           in (if link \<in> set (db_user_roles (tx_work t)) then t
               else change (\<lambda>db. db\<lparr>db_user_roles := db_user_roles db @ [link]\<rparr>) t, Inr ())))"

definition linked :: "link_row list \<Rightarrow> int list \<Rightarrow> 'x named_row_scheme list \<Rightarrow> string list" where
  "linked links owners rows =
     [nr_name r. r \<leftarrow> rows, l \<leftarrow> links, lk_target l = nr_id r \<and> lk_owner l \<in> set owners]"

definition user_role_rows :: "sec_db \<Rightarrow> int \<Rightarrow> role_row list" where
  "user_role_rows db uid =
     [r. r \<leftarrow> db_roles db, l \<leftarrow> db_user_roles db, lk_target l = nr_id r \<and> lk_owner l = uid]"

definition effective_access :: "sec_db \<Rightarrow> int \<Rightarrow> string set \<times> string set \<times> string set" where
  "effective_access db uid =
     (let rows = user_role_rows db uid; ids = map nr_id rows
      in if ids = [] then ({}, {}, {})
         else (set (map nr_name rows), set (linked (db_role_permissions db) ids (db_permissions db)),
               set (linked (db_role_screens db) ids (db_screens db))))"

definition can_access_screen :: "session_context option \<Rightarrow> string \<Rightarrow> bool" where
  "can_access_screen context screen =
     (case context of None \<Rightarrow> False
      | Some c \<Rightarrow>
          (let other = (if screen = ''USER PROFILE'' then ''MY PROFILE''
                        else if screen = ''MY PROFILE'' then ''USER PROFILE'' else [])
           in screen \<in> set (cx_allowed_screens c) \<or> other \<in> set (cx_allowed_screens c)))"

definition has_permission :: "session_context option \<Rightarrow> string \<Rightarrow> bool" where
  "has_permission context p = (case context of None \<Rightarrow> False | Some c \<Rightarrow> p \<in> set (cx_permissions c))"

section \<open>Tokens and sessions\<close>

text \<open>A second row with the same hash violates the unique constraint.\<close>

definition create_user_token ::
    "crypto \<Rightarrow> int \<Rightarrow> string \<Rightarrow> int \<Rightarrow> string \<Rightarrow> instant \<Rightarrow> txn \<Rightarrow> (txn, string) outcome" where
  "create_user_token cr uid purpose ttl token now t =
     (let h = hash_token cr token
      in if h \<in> tk_token_hash ` set (db_tokens (tx_work t)) then (t, Inl (IntegrityError ''activation_tokens''))
         else (change (\<lambda>db. db\<lparr>db_tokens := db_tokens db @
                 [\<lparr>tk_user_id = uid, tk_token_hash = h, tk_purpose = purpose, tk_used = False,
                   tk_expires_at = now + ttl, tk_used_at = None\<rparr>]\<rparr>) t, Inr token))"

definition create_session ::
    "crypto \<Rightarrow> auth_settings \<Rightarrow> user_row \<Rightarrow> string \<Rightarrow> instant \<Rightarrow> txn \<Rightarrow> (txn, session_context) outcome" where
  "create_session cr st user token now t =
     (let (roles, permissions, screens) = effective_access (tx_work t) (u_id user);
          h = hash_token cr token;
          expires = now + minutes (as_idle_minutes st);
          absolute = now + hours (as_absolute_hours st)
      in if h \<in> se_token_hash ` set (db_sessions (tx_work t)) then (t, Inl (IntegrityError ''sessions''))
         else (change (\<lambda>db. db\<lparr>db_sessions := db_sessions db @
                 [\<lparr>se_token_hash = h, se_user_id = u_id user, se_tenant_id = u_tenant_id user,
                   se_status = ''ACTIVE'', se_roles = sorted_list_of_set roles,
                   se_permissions = sorted_list_of_set permissions, se_screens = sorted_list_of_set screens,
                   se_subscription_tier = u_subscription_tier user, se_last_seen_at = now,
                   se_expires_at = expires, se_absolute_expires_at = absolute\<rparr>]\<rparr>) t,
               Inr \<lparr>cx_session_token = token, cx_user_id = u_id user, cx_email = u_email user,
                    cx_roles = sorted_list_of_set roles, cx_permissions = sorted_list_of_set permissions,
                    cx_allowed_screens = sorted_list_of_set screens,
                    cx_subscription_tier = u_subscription_tier user, cx_tenant_id = u_tenant_id user,
                    cx_expires_at = expires, cx_force_password_change = u_force_password_change user\<rparr>))"

definition resolve_session ::
    "crypto \<Rightarrow> auth_settings \<Rightarrow> string \<Rightarrow> instant \<Rightarrow> txn \<Rightarrow> txn \<times> session_context option" where
  "resolve_session cr st token now t =
     (let h = hash_token cr token
      in case active_session h (tx_work t) of
          None \<Rightarrow> (t, None)
        | Some row \<Rightarrow>
            if se_expires_at row \<le> now \<or> se_absolute_expires_at row \<le> now
            then (commit (audit_event ''session_expired'' (Some (se_user_id row)) None h []
                    (change (update_session h (\<lambda>s. s\<lparr>se_status := ''EXPIRED''\<rparr>)) t)), None)
            else (case user_by_id (se_user_id row) (tx_work t) of
                    None \<Rightarrow> (t, None)
                  | Some user \<Rightarrow>
                      if u_status user \<noteq> ''ACTIVE'' then (t, None)
                      else (let expires = min (now + minutes (as_idle_minutes st)) (se_absolute_expires_at row)
                            in (commit (change (update_session h
                                  (\<lambda>s. s\<lparr>se_last_seen_at := now, se_expires_at := expires\<rparr>)) t),
                                Some \<lparr>cx_session_token = token, cx_user_id = u_id user, cx_email = u_email user,
                                      cx_roles = se_roles row, cx_permissions = se_permissions row,
                                      cx_allowed_screens = se_screens row,
                                      cx_subscription_tier = se_subscription_tier row,
                                      cx_tenant_id = se_tenant_id row, cx_expires_at = expires,
                                      cx_force_password_change = u_force_password_change user\<rparr>))))"

definition logout_session :: "crypto \<Rightarrow> string \<Rightarrow> txn \<Rightarrow> txn" where
  "logout_session cr token t =
     (let h = hash_token cr token
      in commit (audit_event ''logout'' None None h []
           (change (update_session h (\<lambda>s. s\<lparr>se_status := ''EXPIRED''\<rparr>)) t)))"

section \<open>Accounts\<close>

definition new_user :: "crypto \<Rightarrow> string \<Rightarrow> string \<Rightarrow> string \<Rightarrow> string \<Rightarrow> string \<Rightarrow> sec_db \<Rightarrow> user_row" where
  "new_user cr name email status tier pw_hash db =
     \<lparr>u_id = next_id (map u_id (db_users db)), u_name = name, u_email = email, u_password_hash = pw_hash,
      u_status = status, u_subscription_tier = tier, u_tenant_id = tenant_for_email cr email,
      u_force_password_change = False, u_failed_login_attempts = 0, u_last_login_at = None\<rparr>"

definition register_user ::
    "crypto \<Rightarrow> auth_settings \<Rightarrow> string \<Rightarrow> string \<Rightarrow> string \<Rightarrow> string \<Rightarrow> instant \<Rightarrow> txn \<Rightarrow> (txn, string) outcome" where
  "register_user cr st name email captcha token now t =
     (if \<not> validate_captcha st captcha []
      then (audit_event ''registration_captcha_failed'' None None [] [(''email'', email)] t,
            Inl (PermissionError ''CAPTCHA validation failed''))
      else
        (let e = normalize_email email
         in case user_by_email e (tx_work t) of
              Some existing \<Rightarrow>
                (audit_event ''registration_duplicate'' None (Some (u_id existing)) [] [(''email'', e)] t,
                 Inl (ValueError ''Email is already registered''))
            | None \<Rightarrow>
                (let user = new_user cr (str_strip name) e ''PENDING_ACTIVATION'' ''BASIC_USER'' [] (tx_work t);
                     uid = u_id user
                 in bind_act (assign_role uid ''BASIC_USER''
                       (change (\<lambda>db. db\<lparr>db_users := db_users db @ [user]\<rparr>) t)) (\<lambda>t1 _.
                    bind_act (create_user_token cr uid ''ACTIVATION'' (hours 24) token now t1) (\<lambda>t2 tok.
                    (commit (audit_event ''activation_email_queued'' None (Some uid) [] [(''delivery'', ''placeholder'')]
                       (audit_event ''registration_requested'' None (Some uid) [] [(''email'', e)] t2)),
                     Inr tok))))))"

definition invalid_or_expired :: "string \<Rightarrow> txn \<Rightarrow> (txn, bool) outcome" where
  "invalid_or_expired event t =
     (commit (audit_event event None None [] [(''reason'', ''invalid_or_expired'')] t), Inr False)"

definition activate_user :: "crypto \<Rightarrow> string \<Rightarrow> instant \<Rightarrow> txn \<Rightarrow> (txn, bool) outcome" where
  "activate_user cr token now t =
     (let h = hash_token cr token
      in case open_token h ''ACTIVATION'' (tx_work t) of
           None \<Rightarrow> invalid_or_expired ''activation_failed'' t
         | Some row \<Rightarrow>
             if tk_expires_at row \<le> now then invalid_or_expired ''activation_failed'' t
             else (commit (audit_event ''activation_success'' None (Some (tk_user_id row)) [] []
                     (change (update_token h (\<lambda>k. k\<lparr>tk_used := True, tk_used_at := Some now\<rparr>))
                       (change (update_user (tk_user_id row) (\<lambda>u. u\<lparr>u_status := ''ACTIVE''\<rparr>)) t))), Inr True))"

definition set_user_password ::
    "crypto \<Rightarrow> int \<Rightarrow> string \<Rightarrow> bool \<Rightarrow> byte_string \<Rightarrow> txn \<Rightarrow> (txn, unit) outcome" where
  "set_user_password cr uid password force salt t =
     (case hash_password cr salt password of
        Inl e \<Rightarrow> (t, Inl e)
      | Inr h \<Rightarrow> (commit (audit_event ''password_changed'' None (Some uid) [] []
          (change (update_user uid (\<lambda>u. u\<lparr>u_password_hash := h, u_force_password_change := force\<rparr>)) t)), Inr ()))"

definition login_check :: "crypto \<Rightarrow> string \<Rightarrow> user_row option \<Rightarrow> bool res" where
  "login_check cr password user =
     (case user of None \<Rightarrow> Inr False
      | Some u \<Rightarrow> if u_status u \<noteq> ''ACTIVE'' then Inr False else verify_password cr password (u_password_hash u))"

definition login_user ::
    "crypto \<Rightarrow> auth_settings \<Rightarrow> string \<Rightarrow> string \<Rightarrow> string \<Rightarrow> string \<Rightarrow> instant \<Rightarrow> instant \<Rightarrow> txn \<Rightarrow>
     (txn, session_context) outcome" where
  "login_user cr st email password captcha token now now2 t =
     (let e = normalize_email email
      in if \<not> validate_captcha st captcha []
         then (commit (audit_event ''login_captcha_failed'' None None [] [(''email'', e)] t),
               Inl (PermissionError ''CAPTCHA validation failed''))
         else (case login_check cr password (user_by_email e (tx_work t)) of
             Inl x \<Rightarrow> (t, Inl x)
           | Inr False \<Rightarrow>
               (commit (case user_by_email e (tx_work t) of
                  Some u \<Rightarrow> audit_event ''login_failed'' None (Some (u_id u)) [] [(''status'', u_status u)]
                     (change (update_user (u_id u) (\<lambda>u. u\<lparr>u_failed_login_attempts := u_failed_login_attempts u + 1\<rparr>)) t)
                | None \<Rightarrow> audit_event ''login_failed'' None None [] [(''email'', e)] t),
                Inl (PermissionError ''Invalid credentials''))
           | Inr True \<Rightarrow>
               (case user_by_email e (tx_work t) of
                  None \<Rightarrow> (t, Inl (PermissionError ''Invalid credentials''))
                | Some u \<Rightarrow>
                    bind_act (create_session cr st u token now t) (\<lambda>t1 cx.
                      (commit (audit_event ''login_success'' (Some (u_id u)) None (hash_token cr (cx_session_token cx)) []
                        (change (update_user (u_id u)
                          (\<lambda>u. u\<lparr>u_failed_login_attempts := 0, u_last_login_at := Some now2\<rparr>)) t1)), Inr cx)))))"

definition create_password_reset ::
    "crypto \<Rightarrow> string \<Rightarrow> string \<Rightarrow> instant \<Rightarrow> txn \<Rightarrow> (txn, string option) outcome" where
  "create_password_reset cr email token now t =
     (case user_by_email (normalize_email email) (tx_work t) of
        None \<Rightarrow> (commit (audit_event ''password_reset_requested_unknown'' None None [] [(''email'', email)] t), Inr None)
      | Some u \<Rightarrow>
          bind_act (create_user_token cr (u_id u) ''PASSWORD_RESET'' (hours 1) token now t) (\<lambda>t1 tok.
            (commit (audit_event ''password_reset_requested'' None (Some (u_id u)) [] [] t1), Inr (Some tok))))"

definition reset_password ::
    "crypto \<Rightarrow> string \<Rightarrow> string \<Rightarrow> byte_string \<Rightarrow> instant \<Rightarrow> txn \<Rightarrow> (txn, bool) outcome" where
  "reset_password cr token new_password salt now t =
     (let h = hash_token cr token
      in case open_token h ''PASSWORD_RESET'' (tx_work t) of
           None \<Rightarrow> invalid_or_expired ''password_reset_failed'' t
         | Some row \<Rightarrow>
             if tk_expires_at row \<le> now then invalid_or_expired ''password_reset_failed'' t
             else (case hash_password cr salt new_password of
                 Inl x \<Rightarrow> (t, Inl x)
               | Inr ph \<Rightarrow>
                   (commit (audit_event ''password_reset_success'' None (Some (tk_user_id row)) [] []
                     (change (update_token h (\<lambda>k. k\<lparr>tk_used := True, tk_used_at := Some now\<rparr>))
                       (change (update_user (tk_user_id row)
                          (\<lambda>u. u\<lparr>u_password_hash := ph, u_force_password_change := False\<rparr>)) t))), Inr True)))"

section \<open>Administrator bootstrap\<close>

definition bootstrap_failed :: "string \<Rightarrow> string \<Rightarrow> string \<Rightarrow> txn \<Rightarrow> (txn, int) outcome" where
  "bootstrap_failed e reason message t =
     (commit (audit_event ''admin_bootstrap_failed'' None None [] [(''email'', e), (''reason'', reason)] t),
      Inl (PermissionError message))"

text \<open>The administrator's user row, created or reactivated; the result is its id.\<close>

definition admin_account :: "crypto \<Rightarrow> string \<Rightarrow> string \<Rightarrow> txn \<Rightarrow> txn \<times> int" where
  "admin_account cr e ph t =
     (case user_by_email e (tx_work t) of
        None \<Rightarrow> (let u = new_user cr ''Platform Admin'' e ''ACTIVE'' ''POWER_USER'' ph (tx_work t)
                 in (change (\<lambda>db. db\<lparr>db_users := db_users db @ [u]\<rparr>) t, u_id u))
      | Some u \<Rightarrow> (change (update_user (u_id u)
            (\<lambda>u. u\<lparr>u_status := ''ACTIVE'', u_password_hash := ph, u_force_password_change := False\<rparr>)) t, u_id u))"

definition credential_unavailable :: "instant \<Rightarrow> bootstrap_row option \<Rightarrow> bool" where
  "credential_unavailable now row =
     (case row of None \<Rightarrow> True
      | Some b \<Rightarrow> ab_used b \<or> ab_expired b \<or> ab_expires_at b \<le> now \<or> ab_attempts_remaining b \<le> 0)"

definition wrong_attempt :: "bootstrap_row \<Rightarrow> bootstrap_row" where
  "wrong_attempt b =
     b\<lparr>ab_attempts_remaining := ab_attempts_remaining b - 1,
       ab_expired := (if ab_attempts_remaining b - 1 \<le> 0 then True else ab_expired b)\<rparr>"

definition grant_admin :: "int \<Rightarrow> int \<Rightarrow> instant \<Rightarrow> txn \<Rightarrow> (txn, int) outcome" where
  "grant_admin uid bid now t =
     bind_act (assign_role uid ''ADMIN'' t) (\<lambda>t1 _.
       (commit (audit_event ''admin_bootstrap_success'' (Some uid) (Some uid) [] []
          (change (update_bootstrap bid (\<lambda>b. b\<lparr>ab_used := True, ab_used_at := Some now\<rparr>)) t1)), Inr uid))"

definition bootstrap_for :: "string \<Rightarrow> sec_db \<Rightarrow> bootstrap_row option" where
  "bootstrap_for e db = latest_bootstrap (filter (\<lambda>b. ab_email b = e) (db_bootstraps db))"

definition consume_admin_bootstrap ::
    "crypto \<Rightarrow> string \<Rightarrow> string \<Rightarrow> string \<Rightarrow> byte_string \<Rightarrow> instant \<Rightarrow> txn \<Rightarrow> (txn, int) outcome" where
  "consume_admin_bootstrap cr email temporary permanent salt now t =
     (let e = normalize_email email; row = bootstrap_for e (tx_work t)
      in if credential_unavailable now row then bootstrap_failed e ''unavailable'' ''Bootstrap credential unavailable'' t
         else (let b = the row;
                   t0 = change (update_bootstrap (ab_id b) (\<lambda>b. b\<lparr>ab_last_attempt_at := Some now\<rparr>)) t
               in case verify_password cr temporary (ab_password_hash b) of
                    Inl x \<Rightarrow> (t0, Inl x)
                  | Inr False \<Rightarrow> bootstrap_failed e ''bad_password'' ''Invalid bootstrap password''
                      (change (update_bootstrap (ab_id b) wrong_attempt) t0)
                  | Inr True \<Rightarrow> (case hash_password cr salt permanent of
                        Inl x \<Rightarrow> (t0, Inl x)
                      | Inr ph \<Rightarrow> (let (t1, uid) = admin_account cr e ph t0 in grant_admin uid (ab_id b) now t1))))"

section \<open>Default roles, permissions, screens, actions\<close>

definition default_roles :: "(string \<times> string) list" where
  "default_roles = [
     (''BASIC_USER'', ''Free user with profile, subscription, and homepage access.''),
     (''POWER_USER'', ''Subscription user with premium bot visibility and performance export.''),
     (''ADMIN'', ''Full platform administration, RBAC, subscription, and operations access.'')]"

definition default_permissions :: "(string \<times> string) list" where
  "default_permissions = [
     (''profile:view'', ''View own profile and subscription state.''),
     (''trades:view_own'', ''View own trades and P&L.''),
     (''trades:export_own'', ''Export own trades.''),
     (''bots:view'', ''View bot marketplace and deployment guidance.''),
     (''bots:execute_premium'', ''Launch premium bots where validation gates pass.''),
     (''admin:manage_users'', ''Manage users and status.''),
     (''admin:manage_rbac'', ''Create roles and manage permissions.''),
     (''admin:manage_subscriptions'', ''Manage subscription status.''),
     (''admin:operate_bots'', ''Operate bot runtime and emergency controls.'')]"

definition default_screens :: "(string \<times> string) list" where
  "default_screens = [
     (''DASHBOARD'', ''/''),
     (''MY PROFILE'', ''/profile''),
     (''BOT MANAGEMENT'', ''/bot-management''),
     (''JOURNAL'', ''/journal''),
     (''ORDERFLOW'', ''/orderflow''),
     (''RISK'', ''/risk''),
     (''SYSTEM HEALTH'', ''/system-health''),
     (''TRADE MANAGEMENT'', ''/trade-management''),
     (''USER ADMIN'', ''/user-admin'')]"

definition default_actions :: "(string \<times> string) list" where
  "default_actions = [
     (''register'', ''Register a user.''),
     (''activate'', ''Activate a user.''),
     (''login'', ''Create a secure session.''),
     (''logout'', ''End a secure session.''),
     (''reset_password'', ''Reset a password.''),
     (''export_csv'', ''Export own data.''),
     (''start_bot'', ''Start a bot.''),
     (''stop_bot'', ''Stop a bot.''),
     (''emergency_stop'', ''Emergency stop controls.'')]"

text \<open>The code iterates over sets here; the order, which only decides the order of the link rows, is
  that of the source.\<close>

definition role_permission_names :: "(string \<times> string list) list" where
  "role_permission_names =
     [(''BASIC_USER'', [''profile:view'']),
      (''POWER_USER'', [''profile:view'', ''trades:view_own'', ''trades:export_own'', ''bots:view'', ''bots:execute_premium'']),
      (''ADMIN'', map fst default_permissions)]"

definition role_screen_names :: "(string \<times> string list) list" where
  "role_screen_names =
     [(''BASIC_USER'', [''DASHBOARD'', ''MY PROFILE'']),
      (''POWER_USER'', [''DASHBOARD'', ''MY PROFILE'', ''BOT MANAGEMENT'', ''JOURNAL'', ''TRADE MANAGEMENT'']),
      (''ADMIN'', map fst default_screens)]"

text \<open>\<open>_ensure_named_rows\<close> and \<open>_ensure_screen_rows\<close>: rows that are missing are added, in order; \<open>mk\<close>
  builds a row from its id, name and second column.\<close>

definition ensure_row ::
    "(int \<Rightarrow> string \<Rightarrow> string \<Rightarrow> 'x named_row_scheme) \<Rightarrow> string \<times> string \<Rightarrow> 'x named_row_scheme list \<Rightarrow> 'x named_row_scheme list" where
  "ensure_row mk nv rows =
     (case row_by_name (fst nv) rows of
        Some _ \<Rightarrow> rows
      | None \<Rightarrow> rows @ [mk (next_id (map nr_id rows)) (fst nv) (snd nv)])"

definition ensure_named_rows ::
    "(int \<Rightarrow> string \<Rightarrow> string \<Rightarrow> 'x named_row_scheme) \<Rightarrow> (string \<times> string) list \<Rightarrow> 'x named_row_scheme list \<Rightarrow> 'x named_row_scheme list" where
  "ensure_named_rows mk values rows = fold (ensure_row mk) values rows"

definition make_role :: "int \<Rightarrow> string \<Rightarrow> string \<Rightarrow> role_row" where
  "make_role i n d = \<lparr>nr_id = i, nr_name = n, nr_description = d, nr_system_role = True\<rparr>"

definition make_described :: "int \<Rightarrow> string \<Rightarrow> string \<Rightarrow> described_row" where
  "make_described i n d = \<lparr>nr_id = i, nr_name = n, nr_description = d\<rparr>"

definition make_screen :: "int \<Rightarrow> string \<Rightarrow> string \<Rightarrow> screen_row" where
  "make_screen i n d = \<lparr>nr_id = i, nr_name = n, nr_route = d\<rparr>"

definition row_id :: "string \<Rightarrow> 'x named_row_scheme list \<Rightarrow> int" where
  "row_id n rows = (case row_by_name n rows of None \<Rightarrow> 0 | Some r \<Rightarrow> nr_id r)"

definition ensure_link :: "link_row \<Rightarrow> link_row list \<Rightarrow> link_row list" where
  "ensure_link l links = (if l \<in> set links then links else links @ [l])"

definition role_links :: "(string \<times> string list) list \<Rightarrow> role_row list \<Rightarrow> 'x named_row_scheme list \<Rightarrow> link_row list" where
  "role_links names roles rows =
     [\<lparr>lk_owner = row_id role roles, lk_target = row_id n rows\<rparr>. (role, ns) \<leftarrow> names, n \<leftarrow> ns]"

definition ensure_role_permissions :: "sec_db \<Rightarrow> sec_db" where
  "ensure_role_permissions db = db\<lparr>db_role_permissions :=
     fold ensure_link (role_links role_permission_names (db_roles db) (db_permissions db)) (db_role_permissions db)\<rparr>"

definition ensure_role_screens :: "sec_db \<Rightarrow> sec_db" where
  "ensure_role_screens db = db\<lparr>db_role_screens :=
     fold ensure_link (role_links role_screen_names (db_roles db) (db_screens db)) (db_role_screens db)\<rparr>"

definition admin_count :: "sec_db \<Rightarrow> nat" where
  "admin_count db = length [u. u \<leftarrow> db_users db, l \<leftarrow> db_user_roles db, r \<leftarrow> db_roles db,
     lk_owner l = u_id u \<and> nr_id r = lk_target l \<and> nr_name r = ''ADMIN'']"

definition ensure_admin_bootstrap ::
    "crypto \<Rightarrow> auth_settings \<Rightarrow> byte_string \<Rightarrow> instant \<Rightarrow> sec_db \<Rightarrow> sec_db res" where
  "ensure_admin_bootstrap cr st salt now db =
     (let e = normalize_email (as_bootstrap_admin_email st); pw = as_bootstrap_admin_temp_password st
      in if admin_count db \<noteq> 0 \<or> e = [] \<or> pw = [] then Inr db
         else if \<exists>b\<in>set (db_bootstraps db). ab_email b = e \<and> \<not> ab_used b \<and> \<not> ab_expired b then Inr db
         else bind_res (hash_password cr salt pw) (\<lambda>h. Inr (db\<lparr>db_bootstraps := db_bootstraps db @
           [\<lparr>ab_id = next_id (map ab_id (db_bootstraps db)), ab_email = e, ab_password_hash = h,
             ab_attempts_remaining = 3, ab_used = False, ab_expired = False, ab_created_at = now,
             ab_expires_at = now + hours 24, ab_used_at = None, ab_last_attempt_at = None\<rparr>]\<rparr>)))"

definition ensure_tables :: "sec_db \<Rightarrow> sec_db" where
  "ensure_tables db = db
     \<lparr>db_roles := ensure_named_rows make_role default_roles (db_roles db),
      db_permissions := ensure_named_rows make_described default_permissions (db_permissions db),
      db_screens := ensure_named_rows make_screen default_screens (db_screens db),
      db_actions := ensure_named_rows make_described default_actions (db_actions db)\<rparr>"

definition bootstrap_security_defaults ::
    "crypto \<Rightarrow> auth_settings \<Rightarrow> byte_string \<Rightarrow> instant \<Rightarrow> txn \<Rightarrow> (txn, unit) outcome" where
  "bootstrap_security_defaults cr st salt now t =
     (let t1 = change (\<lambda>db. ensure_role_screens (ensure_role_permissions (ensure_tables db))) t
      in case ensure_admin_bootstrap cr st salt now (tx_work t1) of
           Inl x \<Rightarrow> (t1, Inl x)
         | Inr db \<Rightarrow> (commit (change (\<lambda>_. db) t1), Inr ()))"

definition security_schema_summary :: "sec_db \<Rightarrow> (string, nat) dict" where
  "security_schema_summary db =
     [(''users'', length (db_users db)), (''roles'', length (db_roles db)),
      (''permissions'', length (db_permissions db)), (''screens'', length (db_screens db)),
      (''actions'', length (db_actions db)), (''sessions'', length (db_sessions db)),
      (''audit_trail'', length (db_audits db)), (''admin_bootstrap_credentials'', length (db_bootstraps db))]"

end
