(* ===== verification/Auth_Safety.thy ===== *)
theory Auth_Safety
  imports Auth
begin

text \<open>
  What no sequence of security calls can do. Every call of \<open>Auth\<close> decomposes into the primitive row
  changes of \<open>db_change\<close> (a refinement, \<open>auth_call_changes\<close>); facts about sessions, tokens and the
  administrator credential that every primitive change keeps are then facts about all calls.
\<close>

section \<open>Primitive changes\<close>

inductive db_change :: "sec_db \<Rightarrow> sec_db \<Rightarrow> bool" where
  audit_add: "db_change db (db\<lparr>db_audits := db_audits db @ [a]\<rparr>)"
| user_add: "u_id u \<notin> u_id ` set (db_users db) \<Longrightarrow> db_change db (db\<lparr>db_users := db_users db @ [u]\<rparr>)"
| user_update: "(\<And>u. u_id (f u) = u_id u) \<Longrightarrow> db_change db (update_user i f db)"
| user_role_add: "db_change db (db\<lparr>db_user_roles := db_user_roles db @ [l]\<rparr>)"
| token_add: "tk_token_hash k \<notin> tk_token_hash ` set (db_tokens db) \<Longrightarrow>
    db_change db (db\<lparr>db_tokens := db_tokens db @ [k]\<rparr>)"
| token_use: "db_change db (update_token h (\<lambda>k. k\<lparr>tk_used := True, tk_used_at := Some now\<rparr>) db)"
| session_add: "se_token_hash s \<notin> se_token_hash ` set (db_sessions db) \<Longrightarrow>
    db_change db (db\<lparr>db_sessions := db_sessions db @ [s]\<rparr>)"
| session_expire: "db_change db (update_session h (\<lambda>s. s\<lparr>se_status := ''EXPIRED''\<rparr>) db)"
| session_touch: "db_change db (update_session h (\<lambda>s. s\<lparr>se_last_seen_at := now, se_expires_at := e\<rparr>) db)"
| bootstrap_touch: "db_change db (update_bootstrap i (\<lambda>b. b\<lparr>ab_last_attempt_at := Some now\<rparr>) db)"
| bootstrap_wrong: "db_change db (update_bootstrap i wrong_attempt db)"
| bootstrap_use: "db_change db (update_bootstrap i (\<lambda>b. b\<lparr>ab_used := True, ab_used_at := Some now\<rparr>) db)"
| bootstrap_add: "admin_count db = 0 \<Longrightarrow> db_change db (db\<lparr>db_bootstraps := db_bootstraps db @ [b]\<rparr>)"
| defaults: "db_change db (ensure_role_screens (ensure_role_permissions (ensure_tables db)))"

text \<open>A transaction that started from \<open>db\<close>: both its work and what it saved are reached by changes.\<close>

definition reaches :: "sec_db \<Rightarrow> txn \<Rightarrow> bool" where
  "reaches db t \<longleftrightarrow> db_change\<^sup>*\<^sup>* db (tx_work t) \<and> db_change\<^sup>*\<^sup>* db (tx_saved t)"

lemma reaches_open: "reaches db (open_session db)"
  by (simp add: reaches_def)

lemma reaches_commit: "reaches db t \<Longrightarrow> reaches db (commit t)"
  by (simp add: reaches_def)

lemma reaches_change: "reaches db t \<Longrightarrow> db_change (tx_work t) (f (tx_work t)) \<Longrightarrow> reaches db (change f t)"
  by (auto simp: reaches_def intro: rtranclp.rtrancl_into_rtrancl)

lemma reaches_audit: "reaches db t \<Longrightarrow> reaches db (audit_event e a b c d t)"
  unfolding audit_event_def by (erule reaches_change) (rule audit_add)

lemma reaches_bind:
  assumes "reaches db (fst m)" and "\<And>t x. reaches db t \<Longrightarrow> reaches db (fst (f t x))"
  shows "reaches db (fst (bind_act m f))"
  using assms by (cases m; cases "snd m") auto

lemma reaches_user: "reaches db t \<Longrightarrow> (\<And>u. u_id (f u) = u_id u) \<Longrightarrow> reaches db (change (update_user i f) t)"
  by (erule reaches_change) (rule user_update)

lemma reaches_token: "reaches db t \<Longrightarrow> reaches db (change (update_token h (\<lambda>k. k\<lparr>tk_used := True, tk_used_at := Some now\<rparr>)) t)"
  by (erule reaches_change) (rule token_use)

lemma reaches_expire: "reaches db t \<Longrightarrow> reaches db (change (update_session h (\<lambda>s. s\<lparr>se_status := ''EXPIRED''\<rparr>)) t)"
  by (erule reaches_change) (rule session_expire)

lemma reaches_touch:
  "reaches db t \<Longrightarrow> reaches db (change (update_session h (\<lambda>s. s\<lparr>se_last_seen_at := now, se_expires_at := e\<rparr>)) t)"
  by (erule reaches_change) (rule session_touch)

lemma reaches_credential:
  "reaches db t \<Longrightarrow> reaches db (change (update_bootstrap i (\<lambda>b. b\<lparr>ab_last_attempt_at := Some now\<rparr>)) t)"
  "reaches db t \<Longrightarrow> reaches db (change (update_bootstrap i wrong_attempt) t)"
  "reaches db t \<Longrightarrow> reaches db (change (update_bootstrap i (\<lambda>b. b\<lparr>ab_used := True, ab_used_at := Some now\<rparr>)) t)"
  by (erule reaches_change, rule bootstrap_touch bootstrap_wrong bootstrap_use)+

lemma new_user_fresh: "u_id (new_user cr n e s tier ph db) \<notin> u_id ` set (db_users db)"
  using next_id_fresh[of _ "map u_id (db_users db)"] by (auto simp: new_user_def)

lemma reaches_new_user:
  "reaches db t \<Longrightarrow> reaches db (change (\<lambda>d. d\<lparr>db_users := db_users d @ [new_user cr n e s tier ph (tx_work t)]\<rparr>) t)"
  by (erule reaches_change) (rule user_add[OF new_user_fresh])

lemma reaches_assign_role: "reaches db t \<Longrightarrow> reaches db (fst (assign_role uid r t))"
  unfolding assign_role_def Let_def
  by (auto split: option.splits intro: reaches_change user_role_add)

lemma reaches_create_user_token:
  "reaches db t \<Longrightarrow> reaches db (fst (create_user_token cr uid purpose ttl tok now t))"
  unfolding create_user_token_def Let_def by (auto intro!: reaches_change token_add)

lemma reaches_create_session: "reaches db t \<Longrightarrow> reaches db (fst (create_session cr st u tok now t))"
  unfolding create_session_def Let_def split_beta by (auto intro!: reaches_change session_add)

lemmas reaches_intros = reaches_open reaches_commit reaches_audit reaches_user reaches_token reaches_expire
  reaches_touch reaches_credential reaches_new_user

lemma reaches_resolve: "reaches db t \<Longrightarrow> reaches db (fst (resolve_session cr st tok now t))"
  unfolding resolve_session_def Let_def by (simp add: reaches_intros split: option.split)

lemma reaches_logout: "reaches db t \<Longrightarrow> reaches db (logout_session cr tok t)"
  unfolding logout_session_def Let_def by (simp add: reaches_intros)

lemmas reaches_calls = reaches_bind reaches_assign_role reaches_create_user_token reaches_create_session

lemma reaches_register: "reaches db t \<Longrightarrow> reaches db (fst (register_user cr st n e cap tok now t))"
  unfolding register_user_def Let_def
  by (simp add: reaches_intros split: option.split) (intro allI impI reaches_calls; simp add: reaches_intros)

lemma reaches_invalid: "reaches db t \<Longrightarrow> reaches db (fst (invalid_or_expired ev t))"
  by (simp add: invalid_or_expired_def reaches_intros)

lemma reaches_activate: "reaches db t \<Longrightarrow> reaches db (fst (activate_user cr tok now t))"
  unfolding activate_user_def Let_def by (simp add: reaches_intros reaches_invalid split: option.split)

lemma reaches_set_password: "reaches db t \<Longrightarrow> reaches db (fst (set_user_password cr uid pw force salt t))"
  unfolding set_user_password_def by (simp add: reaches_intros split: sum.split)

lemma reaches_login: "reaches db t \<Longrightarrow> reaches db (fst (login_user cr st e pw cap tok now now2 t))"
  unfolding login_user_def Let_def
  by (simp add: reaches_intros split: option.split sum.split bool.split)
    (intro allI impI conjI reaches_calls; simp add: reaches_intros)

lemma reaches_create_reset: "reaches db t \<Longrightarrow> reaches db (fst (create_password_reset cr e tok now t))"
  unfolding create_password_reset_def
  by (simp add: reaches_intros split: option.split) (intro allI impI reaches_calls; simp add: reaches_intros)

lemma reaches_reset: "reaches db t \<Longrightarrow> reaches db (fst (reset_password cr tok pw salt now t))"
  unfolding reset_password_def Let_def
  by (simp add: reaches_intros reaches_invalid split: option.split sum.split)

lemma reaches_bootstrap_failed: "reaches db t \<Longrightarrow> reaches db (fst (bootstrap_failed e r m t))"
  by (simp add: bootstrap_failed_def reaches_intros)

lemma reaches_grant: "reaches db t \<Longrightarrow> reaches db (fst (grant_admin uid bid now t))"
  unfolding grant_admin_def by (intro reaches_calls) (simp_all add: reaches_intros)

lemma reaches_account: "reaches db t \<Longrightarrow> reaches db (fst (admin_account cr e ph t))"
  unfolding admin_account_def Let_def by (simp add: reaches_intros split: option.split)

lemma reaches_consume: "reaches db t \<Longrightarrow> reaches db (fst (consume_admin_bootstrap cr e tmp perm salt now t))"
  unfolding consume_admin_bootstrap_def Let_def split_beta
  by (simp add: reaches_intros reaches_bootstrap_failed reaches_grant reaches_account split: sum.split bool.split)

lemma reaches_defaults: "reaches db t \<Longrightarrow> reaches db (fst (bootstrap_security_defaults cr st salt now t))"
proof -
  assume r: "reaches db t"
  let ?t = "change (\<lambda>db. ensure_role_screens (ensure_role_permissions (ensure_tables db))) t"
  have t: "reaches db ?t" using r by (rule reaches_change) (rule defaults)
  have "reaches db (change (\<lambda>_. d) ?t)" if "ensure_admin_bootstrap cr st salt now (tx_work ?t) = Inr d" for d
  proof (cases "d = tx_work ?t")
    case True
    then show ?thesis using t by (simp add: reaches_def)
  next
    case False
    with that show ?thesis
      by (intro reaches_change[OF t])
        (auto simp: ensure_admin_bootstrap_def Let_def bind_res_eq_Inr split: if_splits intro!: bootstrap_add)
  qed
  with t show ?thesis
    unfolding bootstrap_security_defaults_def Let_def
    by (simp add: reaches_intros split: sum.split)
qed

section \<open>Calls\<close>

text \<open>One security call, in its own session, from one database to the next.\<close>

inductive auth_call :: "crypto \<Rightarrow> auth_settings \<Rightarrow> sec_db \<Rightarrow> sec_db \<Rightarrow> bool" for cr st where
  call_register: "auth_call cr st db (fst (run_call (register_user cr st n e cap tok now) db))"
| call_activate: "auth_call cr st db (fst (run_call (activate_user cr tok now) db))"
| call_password: "auth_call cr st db (fst (run_call (set_user_password cr uid pw force salt) db))"
| call_login: "auth_call cr st db (fst (run_call (login_user cr st e pw cap tok now now2) db))"
| call_logout: "auth_call cr st db (fst (run_call (\<lambda>t. (logout_session cr tok t, Inr ())) db))"
| call_create_reset: "auth_call cr st db (fst (run_call (create_password_reset cr e tok now) db))"
| call_reset: "auth_call cr st db (fst (run_call (reset_password cr tok pw salt now) db))"
| call_consume: "auth_call cr st db (fst (run_call (consume_admin_bootstrap cr e tmp perm salt now) db))"
| call_resolve: "auth_call cr st db (fst (run_call (\<lambda>t. (fst (resolve_session cr st tok now t), Inr ())) db))"
| call_defaults: "auth_call cr st db (fst (run_call (bootstrap_security_defaults cr st salt now) db))"

abbreviation auth_calls :: "crypto \<Rightarrow> auth_settings \<Rightarrow> sec_db \<Rightarrow> sec_db \<Rightarrow> bool" where
  "auth_calls cr st \<equiv> (auth_call cr st)\<^sup>*\<^sup>*"

lemma run_call_reaches:
  assumes "\<And>t. reaches db t \<Longrightarrow> reaches db (fst (f t))"
  shows "db_change\<^sup>*\<^sup>* db (fst (run_call f db))"
  using assms[OF reaches_open] by (simp add: run_call_def split_beta reaches_def)

lemma auth_call_changes: "auth_call cr st db db' \<Longrightarrow> db_change\<^sup>*\<^sup>* db db'"
proof (induction rule: auth_call.induct)
  case (call_logout db tok)
  then show ?case by (rule run_call_reaches) (simp add: reaches_logout)
next
  case (call_resolve db tok now)
  then show ?case by (rule run_call_reaches) (simp add: reaches_resolve)
qed (rule run_call_reaches, simp add: reaches_register reaches_activate reaches_set_password reaches_login
    reaches_create_reset reaches_reset reaches_consume reaches_defaults)+

lemma auth_calls_changes: "auth_calls cr st db db' \<Longrightarrow> db_change\<^sup>*\<^sup>* db db'"
  by (induction rule: rtranclp_induct) (auto dest: auth_call_changes)

text \<open>A fact every primitive change keeps holds after all calls.\<close>

lemma calls_keep:
  assumes "auth_calls cr st db db'" and "Q db" and "\<And>d d'. db_change d d' \<Longrightarrow> Q d \<Longrightarrow> Q d'"
  shows "Q db'"
  using auth_calls_changes[OF assms(1)] assms(2,3) by (induction rule: rtranclp_induct) auto

lemma defaults_frame [simp, frame_simps]:
  "db_sessions (ensure_role_screens (ensure_role_permissions (ensure_tables db))) = db_sessions db"
  "db_tokens (ensure_role_screens (ensure_role_permissions (ensure_tables db))) = db_tokens db"
  "db_bootstraps (ensure_role_screens (ensure_role_permissions (ensure_tables db))) = db_bootstraps db"
  "db_users (ensure_role_screens (ensure_role_permissions (ensure_tables db))) = db_users db"
  "db_user_roles (ensure_role_screens (ensure_role_permissions (ensure_tables db))) = db_user_roles db"
  "db_roles (ensure_role_screens (ensure_role_permissions (ensure_tables db))) =
     ensure_named_rows make_role default_roles (db_roles db)"
  by (simp_all add: ensure_role_screens_def ensure_role_permissions_def ensure_tables_def)

section \<open>Sessions end\<close>

definition session_over :: "string \<Rightarrow> instant \<Rightarrow> sec_db \<Rightarrow> bool" where
  "session_over h now db \<longleftrightarrow> h \<in> se_token_hash ` set (db_sessions db) \<and>
     (\<forall>s\<in>set (db_sessions db). se_token_hash s = h \<longrightarrow> se_status s \<noteq> ''ACTIVE'' \<or> se_absolute_expires_at s \<le> now)"

lemma image_map_where: "(\<And>x. g (f x) = g x) \<Longrightarrow> g ` set (map_where p f xs) = g ` set xs"
  by (induction xs) auto

lemma ball_map_where:
  "(\<forall>x\<in>set (map_where p f xs). Q x) \<longleftrightarrow> (\<forall>x\<in>set xs. Q (if p x then f x else x))"
  by (induction xs) auto

lemma session_over_change: "db_change d d' \<Longrightarrow> session_over h now d \<Longrightarrow> session_over h now d'"
proof (induction rule: db_change.induct)
  case (session_expire db h')
  then show ?case by (simp add: session_over_def update_session_def ball_map_where image_map_where)
next
  case (session_touch db h' now' e)
  then show ?case by (simp add: session_over_def update_session_def ball_map_where image_map_where)
qed (auto simp: session_over_def update_user_def update_token_def update_bootstrap_def)

lemma resolve_over:
  assumes "session_over (hash_token cr token) now db"
  shows "snd (resolve_session cr st token now (open_session db)) = None"
proof (cases "active_session (hash_token cr token) db")
  case None
  then show ?thesis by (simp add: resolve_session_def Let_def)
next
  case (Some row)
  then have "row \<in> set (db_sessions db)" "se_token_hash row = hash_token cr token" "se_status row = ''ACTIVE''"
    by (auto simp: active_session_def dest: find_first_SomeD)
  then have "se_absolute_expires_at row \<le> now" using assms by (auto simp: session_over_def)
  with Some show ?thesis by (simp add: resolve_session_def Let_def)
qed

text \<open>\<open>C9\<close>: Sessions end. Once every row of a session token is logged out or past its absolute expiry,
  no sequence of security calls, whatever their tokens and times, makes the token resolve again; in
  particular activity cannot extend a session beyond its absolute expiry.\<close>

theorem ended_session_never_resolves:
  assumes "hash_token cr token \<in> se_token_hash ` set (db_sessions db)"
    and "\<forall>s\<in>set (db_sessions db). se_token_hash s = hash_token cr token \<longrightarrow>
           se_status s = ''EXPIRED'' \<or> se_absolute_expires_at s \<le> now"
    and "auth_calls cr st db db'"
  shows "snd (resolve_session cr st token now (open_session db')) = None"
proof -
  have "session_over (hash_token cr token) now db" using assms(1,2) by (auto simp: session_over_def)
  then have "session_over (hash_token cr token) now db'"
    using session_over_change by (rule calls_keep[OF assms(3)])
  then show ?thesis by (rule resolve_over)
qed

definition sample_user :: user_row where
  "sample_user = \<lparr>u_id = 1, u_name = ''Ann'', u_email = ''ann@x.io'', u_password_hash = [], u_status = ''ACTIVE'',
     u_subscription_tier = ''BASIC_USER'', u_tenant_id = ''t'', u_force_password_change = False,
     u_failed_login_attempts = 0, u_last_login_at = None\<rparr>"

definition sample_session :: "string \<Rightarrow> instant \<Rightarrow> session_row" where
  "sample_session token absolute = \<lparr>se_token_hash = hash_token toy_crypto token, se_user_id = 1, se_tenant_id = ''t'',
     se_status = ''ACTIVE'', se_roles = [], se_permissions = [], se_screens = [], se_subscription_tier = ''BASIC_USER'',
     se_last_seen_at = 0, se_expires_at = absolute, se_absolute_expires_at = absolute\<rparr>"

theorem ended_session_never_resolves_witness:
  "snd (resolve_session toy_crypto default_auth_settings ''tok'' 50 (open_session
     (empty_db\<lparr>db_users := [sample_user], db_sessions := [sample_session ''tok'' 40]\<rparr>))) = None"
  by (rule ended_session_never_resolves[OF _ _ rtranclp.rtrancl_refl]) (simp_all add: sample_session_def)

text \<open>What resolving a session grants. It succeeds only for an active row that is past neither
  its idle nor its absolute expiry and whose user is active; the context carries the access stored at
  login; the new expiry lies within the idle time and never beyond the absolute one, which stays.\<close>

theorem resolved_session_is_live:
  assumes "resolve_session cr st token now (open_session db) = (t, Some cx)"
  shows "\<exists>row u. row \<in> set (db_sessions db) \<and> se_token_hash row = hash_token cr token \<and> se_status row = ''ACTIVE'' \<and>
     now < se_expires_at row \<and> now < se_absolute_expires_at row \<and>
     u \<in> set (db_users db) \<and> u_id u = se_user_id row \<and> u_status u = ''ACTIVE'' \<and>
     cx_user_id cx = u_id u \<and> cx_permissions cx = se_permissions row \<and> cx_allowed_screens cx = se_screens row \<and>
     cx_expires_at cx \<le> se_absolute_expires_at row \<and> cx_expires_at cx \<le> now + minutes (as_idle_minutes st) \<and>
     map se_absolute_expires_at (db_sessions (tx_saved t)) = map se_absolute_expires_at (db_sessions db)"
proof -
  obtain row where row: "active_session (hash_token cr token) db = Some row"
      "\<not> (se_expires_at row \<le> now \<or> se_absolute_expires_at row \<le> now)"
    using assms by (auto simp: resolve_session_def Let_def split: option.splits if_splits)
  obtain u where u: "user_by_id (se_user_id row) db = Some u" "u_status u = ''ACTIVE''"
    using assms row by (auto simp: resolve_session_def Let_def split: option.splits if_splits)
  have t: "t = commit (change (update_session (hash_token cr token) (\<lambda>s. s\<lparr>se_last_seen_at := now,
        se_expires_at := min (now + minutes (as_idle_minutes st)) (se_absolute_expires_at row)\<rparr>)) (open_session db))"
    and cx: "cx_expires_at cx = min (now + minutes (as_idle_minutes st)) (se_absolute_expires_at row)"
      "cx_user_id cx = u_id u" "cx_permissions cx = se_permissions row" "cx_allowed_screens cx = se_screens row"
    using assms row u by (auto simp: resolve_session_def Let_def)
  have "map se_absolute_expires_at (db_sessions (tx_saved t)) = map se_absolute_expires_at (db_sessions db)"
    by (simp add: t update_session_def map_where_def)
  moreover have "row \<in> set (db_sessions db) \<and> se_token_hash row = hash_token cr token \<and> se_status row = ''ACTIVE''"
    using row(1) by (auto simp: active_session_def dest: find_first_SomeD)
  moreover have "u \<in> set (db_users db) \<and> u_id u = se_user_id row"
    using u(1) by (auto simp: user_by_id_def dest: find_first_SomeD)
  ultimately show ?thesis using row(2) u(2) cx by (intro exI[of _ row] exI[of _ u]) simp
qed

theorem resolved_session_is_live_witness:
  "\<exists>t cx. resolve_session toy_crypto default_auth_settings ''tok'' 10 (open_session
     (empty_db\<lparr>db_users := [sample_user], db_sessions := [sample_session ''tok'' 40]\<rparr>)) = (t, Some cx) \<and>
     cx_expires_at cx \<le> 40"
proof -
  let ?db = "empty_db\<lparr>db_users := [sample_user], db_sessions := [sample_session ''tok'' 40]\<rparr>"
  have "\<exists>t cx. resolve_session toy_crypto default_auth_settings ''tok'' 10 (open_session ?db) = (t, Some cx)"
    by (simp add: resolve_session_def active_session_def user_by_id_def sample_session_def sample_user_def Let_def)
  then obtain t cx where r: "resolve_session toy_crypto default_auth_settings ''tok'' 10 (open_session ?db) = (t, Some cx)"
    by blast
  from resolved_session_is_live[OF r] have "cx_expires_at cx \<le> 40" by (auto simp: sample_session_def)
  with r show ?thesis by blast
qed

section \<open>Tokens work once\<close>

definition token_spent :: "string \<Rightarrow> sec_db \<Rightarrow> bool" where
  "token_spent h db \<longleftrightarrow> h \<in> tk_token_hash ` set (db_tokens db) \<and>
     (\<forall>k\<in>set (db_tokens db). tk_token_hash k = h \<longrightarrow> tk_used k)"

lemma token_spent_change: "db_change d d' \<Longrightarrow> token_spent h d \<Longrightarrow> token_spent h d'"
proof (induction rule: db_change.induct)
  case (token_use db h' now)
  then show ?case by (simp add: token_spent_def update_token_def ball_map_where image_map_where)
qed (auto simp: token_spent_def update_user_def update_session_def update_bootstrap_def)

lemma open_token_spent: "token_spent h db \<Longrightarrow> open_token h purpose db = None"
  by (auto simp: open_token_def find_first_None token_spent_def)

lemma use_spends:
  "open_token h purpose db = Some k \<Longrightarrow> db_tokens d = map_where (\<lambda>k. tk_token_hash k = h)
     (\<lambda>k. k\<lparr>tk_used := True, tk_used_at := Some now\<rparr>) (db_tokens db) \<Longrightarrow> token_spent h d"
  by (auto simp: open_token_def token_spent_def ball_map_where image_map_where dest: find_first_SomeD)

text \<open>\<open>C10\<close>: Activation and reset tokens work once. After \<open>activate_user\<close> or \<open>reset_password\<close> accepted a
  token, neither accepts it again, whatever calls come between and whatever the time.\<close>

theorem tokens_are_single_use:
  assumes "run_call (activate_user cr token now) db = (db1, Inr True) \<or>
      run_call (reset_password cr token pw salt now) db = (db1, Inr True)"
    and "auth_calls cr st db1 db2"
  shows "snd (run_call (activate_user cr token now2) db2) = Inr False \<and>
     snd (run_call (reset_password cr token pw2 salt2 now2) db2) = Inr False"
proof -
  let ?h = "hash_token cr token"
  have "token_spent ?h db1"
    using assms(1)
  proof
    assume "run_call (activate_user cr token now) db = (db1, Inr True)"
    then show ?thesis
      by (cases "open_token ?h ''ACTIVATION'' db")
        (auto simp: run_call_def activate_user_def Let_def invalid_or_expired_def audit_event_def update_token_def
          update_user_def split: if_splits elim!: use_spends[where now = now])
  next
    assume "run_call (reset_password cr token pw salt now) db = (db1, Inr True)"
    then show ?thesis
      by (cases "open_token ?h ''PASSWORD_RESET'' db")
        (auto simp: run_call_def reset_password_def Let_def invalid_or_expired_def audit_event_def update_token_def
          update_user_def split: if_splits sum.splits elim!: use_spends[where now = now])
  qed
  then have "token_spent ?h db2" using token_spent_change by (rule calls_keep[OF assms(2)])
  then have "open_token ?h p db2 = None" for p by (rule open_token_spent)
  then show ?thesis
    by (simp add: run_call_def activate_user_def reset_password_def Let_def invalid_or_expired_def)
qed

definition sample_token :: token_row where
  "sample_token = \<lparr>tk_user_id = 1, tk_token_hash = ''tok'', tk_purpose = ''ACTIVATION'', tk_used = False,
     tk_expires_at = 100, tk_used_at = None\<rparr>"

theorem tokens_are_single_use_witness:
  "\<exists>db1. run_call (activate_user toy_crypto ''tok'' 5) (empty_db\<lparr>db_users := [sample_user], db_tokens := [sample_token]\<rparr>)
      = (db1, Inr True) \<and> snd (run_call (activate_user toy_crypto ''tok'' 6) db1) = Inr False"
proof -
  let ?db = "empty_db\<lparr>db_users := [sample_user], db_tokens := [sample_token]\<rparr>"
  obtain db1 where r: "run_call (activate_user toy_crypto ''tok'' 5) ?db = (db1, Inr True)"
    by (simp add: run_call_def activate_user_def Let_def open_token_def sample_token_def toy_crypto_def hash_token_def)
  show ?thesis
    using tokens_are_single_use[OF disjI1[OF r] rtranclp.rtrancl_refl] r by blast
qed

section \<open>The administrator credential\<close>

definition credential_done :: "string \<Rightarrow> sec_db \<Rightarrow> bool" where
  "credential_done e db \<longleftrightarrow> admin_count db \<noteq> 0 \<and> (\<exists>b. bootstrap_for e db = Some b \<and> ab_used b)"

lemma latest_bootstrap_map:
  assumes "\<And>b. ab_created_at (f b) = ab_created_at b"
  shows "latest_bootstrap (map f bs) = map_option f (latest_bootstrap bs)"
  using assms by (induction bs) (auto split: option.splits)

lemma bootstrap_for_update:
  assumes "\<And>b. ab_created_at (f b) = ab_created_at b" and "\<And>b. ab_email (f b) = ab_email b"
  shows "bootstrap_for e (update_bootstrap i f db) =
     map_option (\<lambda>b. if ab_id b = i then f b else b) (bootstrap_for e db)"
proof -
  have "filter (\<lambda>b. ab_email b = e) (map_where (\<lambda>b. ab_id b = i) f bs) =
      map (\<lambda>b. if ab_id b = i then f b else b) (filter (\<lambda>b. ab_email b = e) bs)" for bs
    using assms(2) by (induction bs) auto
  then show ?thesis
    using latest_bootstrap_map[of "\<lambda>b. if ab_id b = i then f b else b"] assms(1)
    by (simp add: bootstrap_for_def update_bootstrap_def)
qed

text \<open>An administrator link is never lost: rows are only added and their ids and names stay.\<close>

definition admin_link :: "sec_db \<Rightarrow> bool" where
  "admin_link db \<longleftrightarrow> (\<exists>l\<in>set (db_user_roles db). lk_owner l \<in> u_id ` set (db_users db) \<and>
     (\<exists>r\<in>set (db_roles db). nr_id r = lk_target l \<and> nr_name r = ''ADMIN''))"

lemma admin_count_nonzero: "admin_count db \<noteq> 0 \<longleftrightarrow> admin_link db"
  by (auto simp: admin_count_def admin_link_def image_iff)

lemma admin_count_link: "0 < admin_count db \<longleftrightarrow> admin_link db"
  using admin_count_nonzero[of db] by simp

lemma ensure_named_rows_keeps: "set rows \<subseteq> set (ensure_named_rows mk values rows)"
proof (induction "values" arbitrary: rows)
  case (Cons v vs)
  have "set rows \<subseteq> set (ensure_row mk v rows)" by (auto simp: ensure_row_def split: option.splits)
  with Cons show ?case by (fastforce simp: ensure_named_rows_def)
qed (simp add: ensure_named_rows_def)

lemma admin_link_change: "db_change d d' \<Longrightarrow> admin_link d \<Longrightarrow> admin_link d'"
proof (induction rule: db_change.induct)
  case (user_update f db i)
  then have "u_id ` set (map_where (\<lambda>u. u_id u = i) f (db_users db)) = u_id ` set (db_users db)"
    by (intro image_map_where) simp
  with user_update show ?case by (simp add: admin_link_def update_user_def)
next
  case (defaults db)
  then show ?case using ensure_named_rows_keeps[of "db_roles db" make_role default_roles]
    by (auto simp: admin_link_def)
qed (auto simp: admin_link_def update_token_def update_session_def update_bootstrap_def)

lemma credential_done_change:
  assumes "db_change d d'" and "credential_done e d" shows "credential_done e d'"
proof -
  have "admin_count d' \<noteq> 0"
    using admin_link_change[OF assms(1)] assms(2) by (simp add: credential_done_def admin_count_link)
  moreover have "\<exists>b. bootstrap_for e d' = Some b \<and> ab_used b"
    using assms
  proof (induction rule: db_change.induct)
    case (bootstrap_add db b)
    then show ?case by (simp add: credential_done_def)
  next
    case (bootstrap_touch db i now)
    then obtain b where "bootstrap_for e db = Some b" "ab_used b" by (auto simp: credential_done_def)
    then show ?case by (simp add: bootstrap_for_update)
  next
    case (bootstrap_wrong db i)
    then obtain b where "bootstrap_for e db = Some b" "ab_used b" by (auto simp: credential_done_def)
    then show ?case by (simp add: bootstrap_for_update wrong_attempt_def)
  next
    case (bootstrap_use db i now)
    then obtain b where "bootstrap_for e db = Some b" "ab_used b" by (auto simp: credential_done_def)
    then show ?case by (simp add: bootstrap_for_update)
  qed (auto simp: credential_done_def bootstrap_for_def update_user_def update_token_def update_session_def)
  ultimately show ?thesis by (simp add: credential_done_def)
qed

lemma assign_role_ok:
  assumes "assign_role uid r t = (t', Inr ())"
  shows "\<exists>role. role \<in> set (db_roles (tx_work t')) \<and> nr_name role = r \<and>
      \<lparr>lk_owner = uid, lk_target = nr_id role\<rparr> \<in> set (db_user_roles (tx_work t'))"
    and "db_users (tx_work t') = db_users (tx_work t)" and "db_bootstraps (tx_work t') = db_bootstraps (tx_work t)"
proof -
  obtain role where role: "row_by_name r (db_roles (tx_work t)) = Some role"
    using assms by (auto simp: assign_role_def split: option.splits)
  then have "role \<in> set (db_roles (tx_work t))" "nr_name role = r"
    by (auto simp: row_by_name_def dest: find_first_SomeD)
  with assms role show "\<exists>role. role \<in> set (db_roles (tx_work t')) \<and> nr_name role = r \<and>
      \<lparr>lk_owner = uid, lk_target = nr_id role\<rparr> \<in> set (db_user_roles (tx_work t'))"
    and "db_users (tx_work t') = db_users (tx_work t)" "db_bootstraps (tx_work t') = db_bootstraps (tx_work t)"
    by (auto simp: assign_role_def Let_def split: if_splits)
qed

lemma admin_account_frame:
  "snd (admin_account cr e ph t) \<in> u_id ` set (db_users (tx_work (fst (admin_account cr e ph t))))"
  "db_bootstraps (tx_work (fst (admin_account cr e ph t))) = db_bootstraps (tx_work t)"
  by (auto simp: admin_account_def Let_def update_user_def user_by_email_def set_map_where image_map_where
      split: option.splits dest: find_first_SomeD)

lemma grant_admin_ok:
  assumes "grant_admin uid bid now t = (t', Inr uid')" and "uid \<in> u_id ` set (db_users (tx_work t))"
    and "bootstrap_for e (tx_work t) = Some b" and "ab_id b = bid"
  shows "credential_done e (tx_saved t')"
proof -
  obtain t1 where a: "assign_role uid ''ADMIN'' t = (t1, Inr ())"
    and t': "tx_saved t' = tx_work (audit_event ''admin_bootstrap_success'' (Some uid) (Some uid) [] []
       (change (update_bootstrap bid (\<lambda>b. b\<lparr>ab_used := True, ab_used_at := Some now\<rparr>)) t1))"
    using assms(1) by (cases "assign_role uid ''ADMIN'' t"; cases "snd (assign_role uid ''ADMIN'' t)")
      (auto simp: grant_admin_def)
  note ok = assign_role_ok[OF a]
  let ?d = "update_bootstrap bid (\<lambda>b. b\<lparr>ab_used := True, ab_used_at := Some now\<rparr>) (tx_work t1)"
  have "bootstrap_for e (tx_work t1) = Some b" using assms(3) ok(3) by (simp add: bootstrap_for_def)
  then have "bootstrap_for e ?d = Some (b\<lparr>ab_used := True, ab_used_at := Some now\<rparr>)"
    using assms(4) by (simp add: bootstrap_for_update)
  moreover obtain role where role: "role \<in> set (db_roles (tx_work t1))" "nr_name role = ''ADMIN''"
      "\<lparr>lk_owner = uid, lk_target = nr_id role\<rparr> \<in> set (db_user_roles (tx_work t1))" using ok(1) by blast
  have "admin_link ?d"
    unfolding admin_link_def
    by (rule bexI[of _ "\<lparr>lk_owner = uid, lk_target = nr_id role\<rparr>"])
      (use role assms(2) in \<open>auto simp: update_bootstrap_def ok(2)\<close>)
  ultimately show ?thesis
    by (simp add: t' audit_event_def credential_done_def admin_count_link)
      (simp add: bootstrap_for_def admin_link_def)
qed

text \<open>The administrator credential works once. After a successful \<open>consume_admin_bootstrap\<close> every
  later attempt for that email is refused as unavailable, with any password, at any time and after any
  security calls, the start-up bootstrap included.\<close>

theorem admin_bootstrap_is_single_use:
  assumes "run_call (consume_admin_bootstrap cr email tmp perm salt now) db = (db1, Inr uid)"
    and "auth_calls cr st db1 db2"
  shows "snd (run_call (consume_admin_bootstrap cr email tmp2 perm2 salt2 now2) db2) =
     Inl (PermissionError ''Bootstrap credential unavailable'')"
proof -
  let ?e = "normalize_email email"
  have "\<not> credential_unavailable now (bootstrap_for ?e db)"
    using assms(1) by (auto simp: run_call_def consume_admin_bootstrap_def Let_def bootstrap_failed_def)
  then obtain b where b: "bootstrap_for ?e db = Some b" by (auto simp: credential_unavailable_def split: option.splits)
  let ?t0 = "change (update_bootstrap (ab_id b) (\<lambda>b. b\<lparr>ab_last_attempt_at := Some now\<rparr>)) (open_session db)"
  have v: "verify_password cr tmp (ab_password_hash b) = Inr True"
    and "\<exists>ph. hash_password cr salt perm = Inr ph"
    using assms(1) b \<open>\<not> credential_unavailable now (bootstrap_for ?e db)\<close>
    by (auto simp: run_call_def consume_admin_bootstrap_def Let_def bootstrap_failed_def
        split: sum.splits bool.splits prod.splits)
  then obtain ph where ph: "hash_password cr salt perm = Inr ph" by blast
  obtain t1 i where acc: "admin_account cr ?e ph ?t0 = (t1, i)" by (cases "admin_account cr ?e ph ?t0")
  obtain t' where t': "grant_admin i (ab_id b) now t1 = (t', Inr uid)" "db1 = tx_saved t'"
    using assms(1) b v ph acc \<open>\<not> credential_unavailable now (bootstrap_for ?e db)\<close>
    by (auto simp: run_call_def consume_admin_bootstrap_def Let_def split: prod.splits)
  have "bootstrap_for ?e (tx_work ?t0) = Some (b\<lparr>ab_last_attempt_at := Some now\<rparr>)"
    using b by (simp add: bootstrap_for_update)
  then have "bootstrap_for ?e (tx_work t1) = Some (b\<lparr>ab_last_attempt_at := Some now\<rparr>)"
    using admin_account_frame(2)[of cr ?e ph ?t0] acc by (simp add: bootstrap_for_def)
  then have "credential_done ?e db1"
    using grant_admin_ok[OF t'(1)] admin_account_frame(1)[of cr ?e ph ?t0] acc t'(2) by simp
  then have "credential_done ?e db2" using credential_done_change by (rule calls_keep[OF assms(2)])
  then have "credential_unavailable now2 (bootstrap_for ?e db2)"
    by (auto simp: credential_done_def credential_unavailable_def)
  then show ?thesis by (simp add: run_call_def consume_admin_bootstrap_def Let_def bootstrap_failed_def)
qed

definition sample_hash :: string where
  "sample_hash = (case hash_password toy_crypto [] ''first'' of Inl _ \<Rightarrow> [] | Inr h \<Rightarrow> h)"

definition sample_credential :: bootstrap_row where
  "sample_credential = \<lparr>ab_id = 1, ab_email = ''a@b.c'', ab_password_hash = sample_hash,
     ab_attempts_remaining = 3, ab_used = False, ab_expired = False, ab_created_at = 0, ab_expires_at = 1000,
     ab_used_at = None, ab_last_attempt_at = None\<rparr>"

lemma sample_credential_verifies: "verify_password toy_crypto ''first'' sample_hash = Inr True"
proof -
  obtain h where "hash_password toy_crypto [] ''first'' = Inr h"
    by (simp add: hash_password_def toy_crypto_def)
  then show ?thesis by (simp add: sample_hash_def hash_verifies)
qed

theorem admin_bootstrap_is_single_use_witness:
  "\<exists>db1 uid. run_call (consume_admin_bootstrap toy_crypto ''A@b.c '' ''first'' ''second'' [] 5)
      (empty_db\<lparr>db_roles := [make_role 1 ''ADMIN'' []], db_bootstraps := [sample_credential]\<rparr>) = (db1, Inr uid) \<and>
    snd (run_call (consume_admin_bootstrap toy_crypto ''A@b.c '' ''first'' ''third'' [] 6) db1) =
      Inl (PermissionError ''Bootstrap credential unavailable'')"
proof -
  let ?db = "empty_db\<lparr>db_roles := [make_role 1 ''ADMIN'' []], db_bootstraps := [sample_credential]\<rparr>"
  have e: "normalize_email ''A@b.c '' = ''a@b.c''" by code_simp
  have h: "\<exists>h. hash_password toy_crypto [] ''second'' = Inr h" by (simp add: hash_password_def toy_crypto_def)
  then obtain db1 where r: "run_call (consume_admin_bootstrap toy_crypto ''A@b.c '' ''first'' ''second'' [] 5) ?db = (db1, Inr 1)"
    by (auto simp: run_call_def consume_admin_bootstrap_def e Let_def bootstrap_for_def credential_unavailable_def
        sample_credential_def sample_credential_verifies admin_account_def user_by_email_def empty_db_def
        grant_admin_def assign_role_def row_by_name_def make_role_def new_user_def next_id_def update_bootstrap_def)
  show ?thesis
    using admin_bootstrap_is_single_use[OF r rtranclp.rtrancl_refl, where ?tmp2.0 = "''first''" and ?perm2.0 = "''third''"
        and ?salt2.0 = "[]" and ?now2.0 = 6] r
    by blast
qed

end
