(* ===== verification/Auth_Access.thy ===== *)
theory Auth_Access
  imports Auth_Safety
begin

text \<open>
  What single security calls do: registration is all or nothing, a login opens a session exactly for an
  active user with the right password and stores the union of the user's roles, the default tables are
  idempotent and grant each role its own access, and an administrator credential that timed out blocks
  the bootstrap.
\<close>

section \<open>Registration\<close>

lemma assign_role_cases:
  "assign_role uid r t = (t, Inl (ValueError (''Unknown role: '' @ r))) \<and> row_by_name r (db_roles (tx_work t)) = None \<or>
   (\<exists>t'. assign_role uid r t = (t', Inr ()) \<and> tx_saved t' = tx_saved t \<and> row_by_name r (db_roles (tx_work t)) \<noteq> None \<and>
      tx_work t' = (tx_work t)\<lparr>db_user_roles := db_user_roles (tx_work t')\<rparr>)"
  by (auto simp: assign_role_def Let_def split: option.split)

definition registration_allowed :: "crypto \<Rightarrow> auth_settings \<Rightarrow> string \<Rightarrow> string \<Rightarrow> string \<Rightarrow> sec_db \<Rightarrow> bool" where
  "registration_allowed cr st email captcha token db =
     (validate_captcha st captcha [] \<and> user_by_email (normalize_email email) db = None \<and>
      row_by_name ''BASIC_USER'' (db_roles db) \<noteq> None \<and> hash_token cr token \<notin> tk_token_hash ` set (db_tokens db))"

text \<open>Registration is all or nothing. It succeeds exactly if the captcha holds, the normalized
  email is new, the default role exists and the token is fresh; then one pending user with that role and
  an activation token valid for 24 hours is stored. Otherwise the call raises and the database is as it
  was: the audit rows of a failed captcha and of a duplicate registration are lost with the rollback.\<close>

theorem registration_is_atomic:
  assumes "run_call (register_user cr st name email captcha token now) db = (db', r)"
  shows "if registration_allowed cr st email captcha token db
    then r = Inr token \<and>
      (\<exists>u. db_users db' = db_users db @ [u] \<and> u_email u = normalize_email email \<and> u_status u = ''PENDING_ACTIVATION'' \<and>
         (\<exists>role. row_by_name ''BASIC_USER'' (db_roles db) = Some role \<and>
            \<lparr>lk_owner = u_id u, lk_target = nr_id role\<rparr> \<in> set (db_user_roles db')) \<and>
         db_tokens db' = db_tokens db @ [\<lparr>tk_user_id = u_id u, tk_token_hash = hash_token cr token,
           tk_purpose = ''ACTIVATION'', tk_used = False, tk_expires_at = now + hours 24, tk_used_at = None\<rparr>])
    else (\<exists>e. r = Inl e) \<and> db' = db"
proof (cases "validate_captcha st captcha [] \<and> user_by_email (normalize_email email) db = None")
  case False
  then show ?thesis using assms
    by (cases "validate_captcha st captcha []"; cases "user_by_email (normalize_email email) db")
      (auto simp: registration_allowed_def run_call_def register_user_def Let_def audit_event_def)
next
  case True
  let ?u = "new_user cr (str_strip name) (normalize_email email) ''PENDING_ACTIVATION'' ''BASIC_USER'' [] db"
  let ?t = "change (\<lambda>d. d\<lparr>db_users := db_users d @ [?u]\<rparr>) (open_session db)"
  show ?thesis
  proof (cases "row_by_name ''BASIC_USER'' (db_roles db)")
    case None
    then have "assign_role (u_id ?u) ''BASIC_USER'' ?t = (?t, Inl (ValueError ''Unknown role: BASIC_USER''))"
      by (simp add: assign_role_def)
    then show ?thesis using assms True None
      by (auto simp: registration_allowed_def run_call_def register_user_def Let_def)
  next
    case (Some role)
    then obtain t1 where t1: "assign_role (u_id ?u) ''BASIC_USER'' ?t = (t1, Inr ())" "tx_saved t1 = db"
        "tx_work t1 = (tx_work ?t)\<lparr>db_user_roles := db_user_roles (tx_work t1)\<rparr>"
        "\<lparr>lk_owner = u_id ?u, lk_target = nr_id role\<rparr> \<in> set (db_user_roles (tx_work t1))"
      by (auto simp: assign_role_def Let_def)
    have w: "db_tokens (tx_work t1) = db_tokens db" "db_users (tx_work t1) = db_users db @ [?u]"
      by (subst t1(3), simp)+
    show ?thesis
      using assms True Some t1 w
      by (auto simp: registration_allowed_def run_call_def register_user_def Let_def create_user_token_def
          audit_event_def new_user_def split: if_splits)
  qed
qed

theorem registration_is_atomic_witness:
  "fst (run_call (register_user toy_crypto default_auth_settings ''Ann'' '' ANN@x.io'' [] ''t'' 0)
     (empty_db\<lparr>db_users := [sample_user]\<rparr>)) = empty_db\<lparr>db_users := [sample_user]\<rparr>"
proof -
  let ?db = "empty_db\<lparr>db_users := [sample_user]\<rparr>"
  obtain db' r where c: "run_call (register_user toy_crypto default_auth_settings ''Ann'' '' ANN@x.io'' [] ''t'' 0) ?db = (db', r)"
    by (cases "run_call (register_user toy_crypto default_auth_settings ''Ann'' '' ANN@x.io'' [] ''t'' 0) ?db")
  have "normalize_email '' ANN@x.io'' = ''ann@x.io''" by code_simp
  then have "\<not> registration_allowed toy_crypto default_auth_settings '' ANN@x.io'' [] ''t'' ?db"
    by (simp add: registration_allowed_def user_by_email_def sample_user_def)
  with registration_is_atomic[OF c] c show ?thesis by simp
qed

section \<open>Login\<close>

text \<open>What the tables grant a user, read off the rows: a role is held by a link row, and what a role is linked to is granted.\<close>

definition holds_role :: "sec_db \<Rightarrow> int \<Rightarrow> role_row \<Rightarrow> bool" where
  "holds_role db uid role \<longleftrightarrow> role \<in> set (db_roles db) \<and> \<lparr>lk_owner = uid, lk_target = nr_id role\<rparr> \<in> set (db_user_roles db)"

definition granted :: "link_row list \<Rightarrow> 'x named_row_scheme list \<Rightarrow> sec_db \<Rightarrow> int \<Rightarrow> string \<Rightarrow> bool" where
  "granted links rows db uid name \<longleftrightarrow>
     (\<exists>role row. holds_role db uid role \<and> row \<in> set rows \<and> nr_name row = name \<and> \<lparr>lk_owner = nr_id role, lk_target = nr_id row\<rparr> \<in> set links)"

abbreviation grants_permission :: "sec_db \<Rightarrow> int \<Rightarrow> string \<Rightarrow> bool" where
  "grants_permission db \<equiv> granted (db_role_permissions db) (db_permissions db) db"

abbreviation grants_screen :: "sec_db \<Rightarrow> int \<Rightarrow> string \<Rightarrow> bool" where
  "grants_screen db \<equiv> granted (db_role_screens db) (db_screens db) db"

lemma link_row_in: "(\<exists>l\<in>set links. lk_target l = t \<and> lk_owner l = w) \<longleftrightarrow> \<lparr>lk_owner = w, lk_target = t\<rparr> \<in> set links"
proof
  assume "\<exists>l\<in>set links. lk_target l = t \<and> lk_owner l = w"
  then obtain l where "l \<in> set links" "lk_target l = t" "lk_owner l = w" by blast
  then show "\<lparr>lk_owner = w, lk_target = t\<rparr> \<in> set links" by (metis (full_types) link_row.surjective old.unit.exhaust)
qed (rule bexI[of _ "\<lparr>lk_owner = w, lk_target = t\<rparr>"], simp_all)

lemma user_role_rows_set: "set (user_role_rows db uid) = {role. holds_role db uid role}"
  unfolding holds_role_def link_row_in[symmetric] by (auto simp: user_role_rows_def)

lemma linked_set:
  "set (linked links (map nr_id (user_role_rows db uid)) rows) = {name. granted links rows db uid name}"
proof -
  have "name \<in> set (linked links (map nr_id (user_role_rows db uid)) rows) \<longleftrightarrow>
      (\<exists>row\<in>set rows. nr_name row = name \<and> (\<exists>role\<in>set (user_role_rows db uid). \<exists>l\<in>set links. lk_target l = nr_id row \<and> lk_owner l = nr_id role))" for name
    by (auto simp: linked_def)
  then show ?thesis unfolding user_role_rows_set link_row_in granted_def by blast
qed

lemma effective_access_granted:
  "effective_access db uid = ({nr_name role | role. holds_role db uid role}, {p. grants_permission db uid p}, {s. grants_screen db uid s})"
proof (cases "user_role_rows db uid = []")
  case True
  then have "\<not> holds_role db uid role" for role using user_role_rows_set[of db uid] by auto
  with True show ?thesis by (simp add: effective_access_def granted_def)
next
  case False
  then show ?thesis
    using user_role_rows_set[of db uid] by (auto simp: effective_access_def Let_def linked_set)
qed

lemma effective_access_finite:
  "finite (fst (effective_access db i))" "finite (fst (snd (effective_access db i)))" "finite (snd (snd (effective_access db i)))"
  by (simp_all add: effective_access_def Let_def)

text \<open>Who may log in: an active account of that email whose stored hash verifies the password.\<close>

definition login_account :: "crypto \<Rightarrow> string \<Rightarrow> string \<Rightarrow> sec_db \<Rightarrow> user_row \<Rightarrow> bool" where
  "login_account cr email password db u \<longleftrightarrow>
     u \<in> set (db_users db) \<and> u_email u = email \<and> u_status u = ''ACTIVE'' \<and> verify_password cr password (u_password_hash u) = Inr True"

lemma user_by_email_iff:
  assumes "distinct (map u_email (db_users db))"
  shows "user_by_email e db = Some u \<longleftrightarrow> u \<in> set (db_users db) \<and> u_email u = e"
proof
  assume u: "u \<in> set (db_users db) \<and> u_email u = e"
  then obtain v where v: "user_by_email e db = Some v" using find_first_None[of "\<lambda>u. u_email u = e" "db_users db"]
    by (cases "user_by_email e db") (auto simp: user_by_email_def)
  then have "v \<in> set (db_users db)" "u_email v = e"
    using find_first_SomeD[OF v[unfolded user_by_email_def]] by simp_all
  then have "v = u" using u assms by (auto simp: distinct_map dest: inj_onD)
  with v show "user_by_email e db = Some u" by simp
qed (auto simp: user_by_email_def dest: find_first_SomeD)

lemma login_check_iff:
  assumes "distinct (map u_email (db_users db))"
  shows "login_check cr password (user_by_email e db) = Inr True \<longleftrightarrow> (\<exists>u. login_account cr e password db u)"
    and "login_check cr password (user_by_email e db) = Inr True \<Longrightarrow> user_by_email e db = Some u \<Longrightarrow> login_account cr e password db u"
proof -
  show "login_check cr password (user_by_email e db) = Inr True \<Longrightarrow> user_by_email e db = Some u \<Longrightarrow> login_account cr e password db u"
    using user_by_email_iff[OF assms, of e u] by (simp add: login_check_def login_account_def split: if_splits)
  show "login_check cr password (user_by_email e db) = Inr True \<longleftrightarrow> (\<exists>u. login_account cr e password db u)"
  proof (cases "user_by_email e db")
    case None
    then have "\<not> (u \<in> set (db_users db) \<and> u_email u = e)" for u using user_by_email_iff[OF assms, of e u] by simp
    with None show ?thesis by (auto simp: login_check_def login_account_def)
  next
    case (Some u)
    then have "v = u" if "v \<in> set (db_users db)" "u_email v = e" for v
      using user_by_email_iff[OF assms, of e v] that by simp
    with Some user_by_email_iff[OF assms, of e u] show ?thesis by (auto simp: login_check_def login_account_def)
  qed
qed

text \<open>\<open>C38\<close>: Where no two accounts have the same email, a login opens a session exactly if the captcha, when one is required, equals the
  secret, the normalized email belongs to an active account whose stored hash verifies the password, and the token is fresh.
  The one session added belongs to that account, carries the permissions and screens that the link rows grant to the
  roles of the account, and expires after the idle time, at the latest after the absolute time. Any other login raises and leaves the
  sessions as they were.\<close>

theorem login_outcome:
  assumes "run_call (login_user cr st email password captcha token now now2) db = (db', r)"
    and "distinct (map u_email (db_users db))"
  shows "if (\<not> as_captcha_required st \<or> as_captcha_shared_secret st \<noteq> [] \<and> str_strip captcha = as_captcha_shared_secret st) \<and>
      (\<exists>u. login_account cr (normalize_email email) password db u) \<and> hash_token cr token \<notin> se_token_hash ` set (db_sessions db)
    then \<exists>u cx s. login_account cr (normalize_email email) password db u \<and> r = Inr cx \<and> cx_user_id cx = u_id u \<and>
      db_sessions db' = db_sessions db @ [s] \<and> se_user_id s = u_id u \<and> se_token_hash s = hash_token cr token \<and> se_status s = ''ACTIVE'' \<and>
      se_expires_at s = now + minutes (as_idle_minutes st) \<and> se_absolute_expires_at s = now + hours (as_absolute_hours st) \<and>
      set (cx_roles cx) = {nr_name role | role. holds_role db (u_id u) role} \<and>
      set (cx_permissions cx) = {p. grants_permission db (u_id u) p} \<and> set (cx_allowed_screens cx) = {s. grants_screen db (u_id u) s} \<and>
      cx_force_password_change cx = u_force_password_change u \<and>
      se_roles s = cx_roles cx \<and> se_permissions s = cx_permissions cx \<and> se_screens s = cx_allowed_screens cx
    else (\<exists>e. r = Inl e) \<and> db_sessions db' = db_sessions db"
proof -
  let ?e = "normalize_email email"
  have captcha_iff: "validate_captcha st captcha [] \<longleftrightarrow>
      \<not> as_captcha_required st \<or> as_captcha_shared_secret st \<noteq> [] \<and> str_strip captcha = as_captcha_shared_secret st"
    by (simp add: validate_captcha_def Let_def)
  consider (captcha) "\<not> validate_captcha st captcha []"
    | (check) "validate_captcha st captcha []" "login_check cr password (user_by_email ?e db) \<noteq> Inr True"
    | (ok) u where "validate_captcha st captcha []" "user_by_email ?e db = Some u"
        "login_check cr password (user_by_email ?e db) = Inr True"
    by (cases "user_by_email ?e db") (auto simp: login_check_def)
  then show ?thesis
  proof cases
    case captcha
    then show ?thesis using assms(1) unfolding captcha_iff[symmetric] by (auto simp: run_call_def login_user_def Let_def audit_event_def)
  next
    case check
    then show ?thesis using assms(1) unfolding captcha_iff[symmetric] login_check_iff(1)[OF assms(2), symmetric]
      by (auto simp: run_call_def login_user_def Let_def audit_event_def update_user_def split: sum.splits bool.splits option.splits)
  next
    case ok
    have account: "login_account cr ?e password db u" by (rule login_check_iff(2)[OF assms(2) ok(3,2)])
    obtain roles permissions screens where access: "effective_access db (u_id u) = (roles, permissions, screens)"
      by (cases "effective_access db (u_id u)")
    note f = effective_access_finite[of db "u_id u", unfolded access fst_conv snd_conv]
    have sets: "{nr_name role | role. holds_role db (u_id u) role} = roles" "{p. grants_permission db (u_id u) p} = permissions"
      "{s. grants_screen db (u_id u) s} = screens" using access unfolding effective_access_granted by simp_all
    show ?thesis
    proof (cases "hash_token cr token \<in> se_token_hash ` set (db_sessions db)")
      case True
      with assms(1) ok show ?thesis
        unfolding captcha_iff[symmetric] login_check_iff(1)[OF assms(2), symmetric]
        by (auto simp: run_call_def login_user_def Let_def create_session_def access)
    next
      case False
      define s where "s = \<lparr>se_token_hash = hash_token cr token, se_user_id = u_id u, se_tenant_id = u_tenant_id u,
         se_status = ''ACTIVE'', se_roles = sorted_list_of_set roles, se_permissions = sorted_list_of_set permissions,
         se_screens = sorted_list_of_set screens, se_subscription_tier = u_subscription_tier u, se_last_seen_at = now,
         se_expires_at = now + minutes (as_idle_minutes st), se_absolute_expires_at = now + hours (as_absolute_hours st)\<rparr>"
      obtain cx where cx: "r = Inr cx" "cx_user_id cx = u_id u" "cx_roles cx = sorted_list_of_set roles"
          "cx_permissions cx = sorted_list_of_set permissions" "cx_allowed_screens cx = sorted_list_of_set screens"
          "cx_force_password_change cx = u_force_password_change u"
        and db': "db_sessions db' = db_sessions db @ [s]"
        using assms(1) ok False
        by (auto simp: run_call_def login_user_def Let_def create_session_def audit_event_def update_user_def access s_def)
      show ?thesis unfolding captcha_iff[symmetric] login_check_iff(1)[OF assms(2), symmetric]
        using ok False account cx db' f by (intro iffD2[OF if_P] exI[of _ u] exI[of _ cx] exI[of _ s]) (simp_all add: s_def sets[symmetric])
    qed
  qed
qed

section \<open>The default tables\<close>

lemma row_by_name_append: "row_by_name n rows = Some r \<Longrightarrow> row_by_name n (rows @ rest) = Some r"
  by (simp add: row_by_name_def find_first_append)

lemma ensure_named_rows_lookup:
  "row_by_name n rows = Some r \<Longrightarrow> row_by_name n (ensure_named_rows mk vs rows) = Some r"
proof (induction vs arbitrary: rows)
  case (Cons v vs)
  have "row_by_name n (ensure_row mk v rows) = Some r"
    using Cons.prems by (auto simp: ensure_row_def row_by_name_append split: option.splits)
  then show ?case using Cons.IH by (simp add: ensure_named_rows_def)
qed (simp add: ensure_named_rows_def)

lemma ensure_named_rows_present:
  assumes "\<And>i n d. nr_name (mk i n d) = n" and "v \<in> set vs"
  shows "row_by_name (fst v) (ensure_named_rows mk vs rows) \<noteq> None"
  using assms(2)
proof (induction vs arbitrary: rows)
  case (Cons w ws)
  show ?case
  proof (cases "v = w")
    case True
    obtain r where "row_by_name (fst v) (ensure_row mk v rows) = Some r"
      using assms(1) by (cases "row_by_name (fst v) rows")
        (auto simp: ensure_row_def row_by_name_def find_first_append)
    with True show ?thesis using ensure_named_rows_lookup[of "fst v" "ensure_row mk v rows" r mk ws]
      by (simp add: ensure_named_rows_def)
  next
    case False
    with Cons show ?thesis by (simp add: ensure_named_rows_def)
  qed
qed simp

lemma ensure_named_rows_id:
  "(\<And>v. v \<in> set vs \<Longrightarrow> row_by_name (fst v) rows \<noteq> None) \<Longrightarrow> ensure_named_rows mk vs rows = rows"
proof (induction vs)
  case (Cons v vs)
  then obtain r where "row_by_name (fst v) rows = Some r" by fastforce
  with Cons show ?case by (simp add: ensure_named_rows_def ensure_row_def)
qed (simp add: ensure_named_rows_def)

lemma ensure_named_rows_idem:
  "(\<And>i n d. nr_name (mk i n d) = n) \<Longrightarrow>
   ensure_named_rows mk vs (ensure_named_rows mk vs rows) = ensure_named_rows mk vs rows"
  by (rule ensure_named_rows_id) (rule ensure_named_rows_present)

lemma ensure_links_set: "set (fold ensure_link ls links) = set links \<union> set ls"
  by (induction ls arbitrary: links) (auto simp: ensure_link_def)

lemma ensure_links_id: "set ls \<subseteq> set links \<Longrightarrow> fold ensure_link ls links = links"
  by (induction ls) (auto simp: ensure_link_def)

definition install_defaults :: "sec_db \<Rightarrow> sec_db" where
  "install_defaults db = ensure_role_screens (ensure_role_permissions (ensure_tables db))"

lemma ensure_tables_idem: "ensure_tables (ensure_tables db) = ensure_tables db"
  by (simp add: ensure_tables_def ensure_named_rows_idem make_role_def make_described_def make_screen_def)

lemma ensure_role_permissions_id:
  "set (role_links role_permission_names (db_roles db) (db_permissions db)) \<subseteq> set (db_role_permissions db) \<Longrightarrow>
   ensure_role_permissions db = db"
  by (simp add: ensure_role_permissions_def ensure_links_id)

lemma ensure_role_screens_id:
  "set (role_links role_screen_names (db_roles db) (db_screens db)) \<subseteq> set (db_role_screens db) \<Longrightarrow>
   ensure_role_screens db = db"
  by (simp add: ensure_role_screens_def ensure_links_id)

lemma ensure_tables_id:
  assumes "db_roles db = db_roles (ensure_tables d)" "db_permissions db = db_permissions (ensure_tables d)"
    "db_screens db = db_screens (ensure_tables d)" "db_actions db = db_actions (ensure_tables d)"
  shows "ensure_tables db = db"
  using assms by (simp add: ensure_tables_def ensure_named_rows_idem make_role_def make_described_def make_screen_def)

lemma install_defaults_stable:
  assumes "db_roles db = db_roles (install_defaults d)" "db_permissions db = db_permissions (install_defaults d)"
    "db_screens db = db_screens (install_defaults d)" "db_actions db = db_actions (install_defaults d)"
    "db_role_permissions db = db_role_permissions (install_defaults d)"
    "db_role_screens db = db_role_screens (install_defaults d)"
  shows "install_defaults db = db"
proof -
  have "ensure_tables db = db"
    using assms(1-4) by (intro ensure_tables_id[where d = d])
      (simp_all add: install_defaults_def ensure_role_screens_def ensure_role_permissions_def)
  moreover have "ensure_role_permissions db = db"
    using assms by (intro ensure_role_permissions_id)
      (simp add: install_defaults_def ensure_role_screens_def ensure_role_permissions_def ensure_links_set)
  moreover have "ensure_role_screens db = db"
    using assms by (intro ensure_role_screens_id)
      (simp add: install_defaults_def ensure_role_screens_def ensure_role_permissions_def ensure_links_set)
  ultimately show ?thesis by (simp add: install_defaults_def)
qed

lemma ensure_admin_bootstrap_Inr:
  assumes "ensure_admin_bootstrap cr st salt now db = Inr d"
  shows "d = db \<or> (\<exists>b. d = db\<lparr>db_bootstraps := db_bootstraps db @ [b]\<rparr> \<and>
     ab_email b = normalize_email (as_bootstrap_admin_email st) \<and> \<not> ab_used b \<and> \<not> ab_expired b)"
  using assms by (auto simp: ensure_admin_bootstrap_def Let_def bind_res_eq_Inr split: if_splits)

lemma ensure_admin_bootstrap_again:
  assumes "ensure_admin_bootstrap cr st salt now db = Inr d"
  shows "ensure_admin_bootstrap cr st salt2 now2 d = Inr d"
proof -
  let ?e = "normalize_email (as_bootstrap_admin_email st)"
  let ?open = "\<exists>b\<in>set (db_bootstraps db). ab_email b = ?e \<and> \<not> ab_used b \<and> \<not> ab_expired b"
  show ?thesis
  proof (cases "admin_count db \<noteq> 0 \<or> ?e = [] \<or> as_bootstrap_admin_temp_password st = [] \<or> ?open")
    case True
    then have "ensure_admin_bootstrap cr st n now' db = Inr db" for n now'
      by (auto simp: ensure_admin_bootstrap_def Let_def)
    with assms show ?thesis by simp
  next
    case False
    then obtain h where "d = db\<lparr>db_bootstraps := db_bootstraps db @
        [\<lparr>ab_id = next_id (map ab_id (db_bootstraps db)), ab_email = ?e, ab_password_hash = h,
          ab_attempts_remaining = 3, ab_used = False, ab_expired = False, ab_created_at = now,
          ab_expires_at = now + hours 24, ab_used_at = None, ab_last_attempt_at = None\<rparr>]\<rparr>"
      using assms by (auto simp: ensure_admin_bootstrap_def Let_def bind_res_eq_Inr split: if_splits)
    then show ?thesis by (simp add: ensure_admin_bootstrap_def Let_def)
  qed
qed

text \<open>The start-up bootstrap is idempotent. Once it has run, running it again, with any salt and
  at any time, leaves every table as it is.\<close>

theorem bootstrap_is_idempotent:
  assumes "run_call (bootstrap_security_defaults cr st salt now) db = (db1, Inr ())"
  shows "run_call (bootstrap_security_defaults cr st salt2 now2) db1 = (db1, Inr ())"
proof -
  have e: "ensure_admin_bootstrap cr st salt now (install_defaults db) = Inr db1"
    using assms by (auto simp: run_call_def bootstrap_security_defaults_def Let_def install_defaults_def split: sum.splits)
  have "install_defaults db1 = db1"
    using ensure_admin_bootstrap_Inr[OF e] by (auto intro!: install_defaults_stable[where d = db])
  moreover have "ensure_admin_bootstrap cr st salt2 now2 db1 = Inr db1"
    using e by (rule ensure_admin_bootstrap_again)
  ultimately show ?thesis
    by (simp add: run_call_def bootstrap_security_defaults_def Let_def install_defaults_def)
qed

theorem bootstrap_is_idempotent_witness:
  "\<exists>db1. run_call (bootstrap_security_defaults toy_crypto default_auth_settings [] 0) empty_db = (db1, Inr ()) \<and>
     run_call (bootstrap_security_defaults toy_crypto default_auth_settings [9] 7) db1 = (db1, Inr ())"
proof -
  have "normalize_email [] = []" by code_simp
  then have "ensure_admin_bootstrap toy_crypto default_auth_settings [] 0 d = Inr d" for d
    by (simp add: ensure_admin_bootstrap_def default_auth_settings_def)
  then have r: "run_call (bootstrap_security_defaults toy_crypto default_auth_settings [] 0) empty_db =
      (install_defaults empty_db, Inr ())"
    unfolding run_call_def bootstrap_security_defaults_def Let_def install_defaults_def[symmetric] txn_simps
    by simp
  from bootstrap_is_idempotent[OF r, of "[9]" 7] r show ?thesis by blast
qed

definition with_role :: "string \<Rightarrow> int \<Rightarrow> sec_db" where
  "with_role role uid = (install_defaults empty_db)
     \<lparr>db_user_roles := [\<lparr>lk_owner = uid, lk_target = row_id role (db_roles (install_defaults empty_db))\<rparr>]\<rparr>"

text \<open>Ids are fresh, so they are distinct, and a name and its id determine each other.\<close>

lemma ensure_named_rows_ids:
  assumes "\<And>i n d. nr_id (mk i n d) = i" and "distinct (map nr_id rows)"
  shows "distinct (map nr_id (ensure_named_rows mk vs rows))"
  using assms(2)
proof (induction vs arbitrary: rows)
  case (Cons v vs)
  have "distinct (map nr_id (ensure_row mk v rows))"
    using Cons.prems assms(1) next_id_fresh[of _ "map nr_id rows"]
    by (fastforce simp: ensure_row_def split: option.splits)
  then show ?case using Cons.IH by (simp add: ensure_named_rows_def)
qed (simp add: ensure_named_rows_def)

lemma ensure_named_rows_names:
  assumes "\<And>i n d. nr_name (mk i n d) = n"
  shows "nr_name ` set (ensure_named_rows mk vs rows) = nr_name ` set rows \<union> fst ` set vs"
proof (induction vs arbitrary: rows)
  case (Cons v vs)
  have "nr_name ` set (ensure_row mk v rows) = insert (fst v) (nr_name ` set rows)"
  proof (cases "row_by_name (fst v) rows")
    case None
    then show ?thesis using assms by (simp add: ensure_row_def)
  next
    case (Some r)
    then have "fst v = nr_name r" "r \<in> set rows" by (auto simp: row_by_name_def dest: find_first_SomeD)
    then have "fst v \<in> nr_name ` set rows" by (rule image_eqI)
    with Some show ?thesis by (simp add: ensure_row_def insert_absorb)
  qed
  then show ?case using Cons.IH[of "ensure_row mk v rows"] by (simp add: ensure_named_rows_def)
qed (simp add: ensure_named_rows_def)

lemma row_id_row:
  assumes "distinct (map nr_id rows)" and "n \<in> nr_name ` set rows"
  shows "r \<in> set rows \<and> nr_id r = row_id n rows \<Longrightarrow> nr_name r = n" and "\<exists>r\<in>set rows. nr_id r = row_id n rows \<and> nr_name r = n"
proof -
  obtain q where q: "row_by_name n rows = Some q"
    using assms(2) by (cases "row_by_name n rows") (auto simp: row_by_name_def find_first_None)
  then have "q \<in> set rows" "nr_name q = n" "row_id n rows = nr_id q"
    by (auto simp: row_by_name_def row_id_def dest: find_first_SomeD)
  then show "r \<in> set rows \<and> nr_id r = row_id n rows \<Longrightarrow> nr_name r = n"
    and "\<exists>r\<in>set rows. nr_id r = row_id n rows \<and> nr_name r = n"
    using assms(1) by (auto simp: distinct_map dest: inj_onD)
qed

lemma linked_role_links:
  assumes roles: "distinct (map nr_id roles)" "fst ` set names \<subseteq> nr_name ` set roles"
    and rows: "distinct (map nr_id rows)" "\<Union> (set ` snd ` set names) \<subseteq> nr_name ` set rows"
    and names: "distinct (map fst names)" "(role, ns) \<in> set names"
    and links: "set links = set (role_links names roles rows)"
  shows "set (linked links [row_id role roles] rows) = set ns"
proof (intro equalityI subsetI)
  fix n assume "n \<in> set (linked links [row_id role roles] rows)"
  then obtain r where r: "r \<in> set rows" "nr_name r = n"
      "\<lparr>lk_owner = row_id role roles, lk_target = nr_id r\<rparr> \<in> set links"
    by (auto simp: linked_def) (metis (full_types) link_row.surjective unit.exhaust)
  then obtain role' ns' n' where l: "(role', ns') \<in> set names" "n' \<in> set ns'"
      "row_id role roles = row_id role' roles" "nr_id r = row_id n' rows"
    using links by (auto simp: role_links_def)
  have "n' \<in> nr_name ` set rows" using l(1,2) rows(2) by force
  then have "n = n'" using row_id_row(1)[OF rows(1)] r(1,2) l(4) by blast
  moreover have "role \<in> nr_name ` set roles" "role' \<in> nr_name ` set roles" using l(1) names(2) roles(2) by force+
  then have "role' = role" using row_id_row[OF roles(1)] l(3) by metis
  then have "ns' = ns" using names l(1) by (metis eq_key_imp_eq_value)
  ultimately show "n \<in> set ns" using l(2) by simp
next
  fix n assume n: "n \<in> set ns"
  then have "n \<in> nr_name ` set rows" using names(2) rows(2) by force
  then obtain r where r: "r \<in> set rows" "nr_id r = row_id n rows" "nr_name r = n" using row_id_row(2)[OF rows(1)] by blast
  have "\<lparr>lk_owner = row_id role roles, lk_target = row_id n rows\<rparr> \<in> set links"
    using names(2) n links by (force simp: role_links_def)
  then show "n \<in> set (linked links [row_id role roles] rows)"
    using r by (force simp: linked_def)
qed

lemma fresh_tables:
  "db_roles (install_defaults empty_db) = ensure_named_rows make_role default_roles []"
  "db_permissions (install_defaults empty_db) = ensure_named_rows make_described default_permissions []"
  "db_screens (install_defaults empty_db) = ensure_named_rows make_screen default_screens []"
  "set (db_role_permissions (install_defaults empty_db)) = set (role_links role_permission_names
     (db_roles (install_defaults empty_db)) (db_permissions (install_defaults empty_db)))"
  "set (db_role_screens (install_defaults empty_db)) = set (role_links role_screen_names
     (db_roles (install_defaults empty_db)) (db_screens (install_defaults empty_db)))"
  by (simp_all add: install_defaults_def ensure_role_screens_def ensure_role_permissions_def ensure_tables_def
      empty_db_def ensure_links_set)

lemma role_row_unique:
  assumes "distinct (map nr_id rows)" and "r \<in> set rows"
  shows "[q. q \<leftarrow> rows, nr_id r = nr_id q] = [r]"
  using assms by (induction rows) (auto intro!: concat_eq_Nil_conv[THEN iffD2] simp: image_iff)

text \<open>On fresh default tables each role grants exactly its own permissions and screens: a user
  with one of the three roles has the access the source lists for it and nothing else.\<close>

theorem default_roles_grant:
  assumes "(role, permissions) \<in> set role_permission_names" and "(role, screens) \<in> set role_screen_names"
  shows "effective_access (with_role role uid) uid = ({role}, set permissions, set screens)"
proof -
  let ?db = "install_defaults empty_db"
  have ids: "distinct (map nr_id (db_roles ?db))" "distinct (map nr_id (db_permissions ?db))" "distinct (map nr_id (db_screens ?db))"
    unfolding fresh_tables
    by (rule ensure_named_rows_ids, simp add: make_role_def make_described_def make_screen_def, simp)+
  have names: "nr_name ` set (db_roles ?db) = fst ` set default_roles"
    "nr_name ` set (db_permissions ?db) = fst ` set default_permissions"
    "nr_name ` set (db_screens ?db) = fst ` set default_screens"
    unfolding fresh_tables by (simp_all add: ensure_named_rows_names make_role_def make_described_def make_screen_def)
  have in_tables: "fst ` set role_permission_names \<subseteq> fst ` set default_roles"
    "fst ` set role_screen_names \<subseteq> fst ` set default_roles"
    "\<Union> (set ` snd ` set role_permission_names) \<subseteq> fst ` set default_permissions"
    "\<Union> (set ` snd ` set role_screen_names) \<subseteq> fst ` set default_screens"
    "distinct (map fst role_permission_names)" "distinct (map fst role_screen_names)"
    by (simp_all add: role_permission_names_def role_screen_names_def default_roles_def default_permissions_def
        default_screens_def)
  have p: "set (linked (db_role_permissions ?db) [row_id role (db_roles ?db)] (db_permissions ?db)) = set permissions"
    using in_tables ids names assms(1) fresh_tables(4) by (intro linked_role_links) simp_all
  have s: "set (linked (db_role_screens ?db) [row_id role (db_roles ?db)] (db_screens ?db)) = set screens"
    using in_tables ids names assms(2) fresh_tables(5) by (intro linked_role_links) simp_all
  have "role \<in> nr_name ` set (db_roles ?db)" using assms(1) in_tables(1) names(1) by force
  then obtain r where r: "r \<in> set (db_roles ?db)" "nr_id r = row_id role (db_roles ?db)" "nr_name r = role"
    using row_id_row(2)[OF ids(1)] by blast
  have "user_role_rows (with_role role uid) uid = [q. q \<leftarrow> db_roles ?db, nr_id r = nr_id q]"
    by (simp add: user_role_rows_def with_role_def r(2))
  then have "user_role_rows (with_role role uid) uid = [r]" using role_row_unique[OF ids(1) r(1)] by simp
  then show ?thesis using p s r by (simp add: effective_access_def with_role_def Let_def)
qed

theorem default_roles_grant_witness:
  "effective_access (with_role ''BASIC_USER'' 7) 7 = ({''BASIC_USER''}, {''profile:view''}, {''DASHBOARD'', ''MY PROFILE''})"
  using default_roles_grant[of "''BASIC_USER''" "[''profile:view'']" "[''DASHBOARD'', ''MY PROFILE'']" 7]
  by (simp add: role_permission_names_def role_screen_names_def)

text \<open>A user with the default role, and the same user suspended.\<close>

definition basic_user :: user_row where
  "basic_user = sample_user\<lparr>u_password_hash := join_with ''$'' [password_algorithm, str_of_int password_iterations, b64encode [7], b64encode [6]]\<rparr>"

definition basic_db :: sec_db where
  "basic_db = (with_role ''BASIC_USER'' 1)\<lparr>db_users := [basic_user]\<rparr>"

definition suspended_db :: sec_db where
  "suspended_db = basic_db\<lparr>db_users := [basic_user\<lparr>u_status := ''SUSPENDED''\<rparr>]\<rparr>"

lemma basic_access: "effective_access basic_db 1 = ({''BASIC_USER''}, {''profile:view''}, {''DASHBOARD'', ''MY PROFILE''})"
proof -
  have "effective_access basic_db 1 = effective_access (with_role ''BASIC_USER'' 1) 1"
    unfolding effective_access_def user_role_rows_def basic_db_def Let_def by simp
  then show ?thesis
    using default_roles_grant[of "''BASIC_USER''" "[''profile:view'']" "[''DASHBOARD'', ''MY PROFILE'']" 1]
    by (simp add: role_permission_names_def role_screen_names_def)
qed

lemma basic_password: "verify_password toy_crypto ''secret'' (u_password_hash basic_user) = Inr True"
proof -
  have "cr_pbkdf2 toy_crypto ''secret'' [7] password_iterations = Inr [6]" by (simp add: toy_crypto_def)
  then show ?thesis unfolding basic_user_def by (simp add: verify_stored del: join_with.simps)
qed

theorem login_outcome_witness:
  "(\<exists>cx. snd (run_call (login_user toy_crypto default_auth_settings ''ann@x.io'' ''secret'' [] ''t'' 0 0) basic_db) = Inr cx \<and>
      set (cx_roles cx) = {''BASIC_USER''} \<and> set (cx_allowed_screens cx) = {''DASHBOARD'', ''MY PROFILE''}) \<and>
   (\<exists>e. snd (run_call (login_user toy_crypto default_auth_settings ''ann@x.io'' ''secret'' [] ''t'' 0 0) suspended_db) = Inl e)"
proof
  have email: "normalize_email ''ann@x.io'' = ''ann@x.io''" by code_simp
  have free: "\<not> as_captcha_required default_auth_settings" by (simp add: default_auth_settings_def)
  have none: "db_sessions basic_db = []" "db_sessions suspended_db = []"
    by (simp_all add: suspended_db_def basic_db_def with_role_def install_defaults_def empty_db_def)
  let ?c = "run_call (login_user toy_crypto default_auth_settings ''ann@x.io'' ''secret'' [] ''t'' 0 0) basic_db"
  have ann: "u_email basic_user = ''ann@x.io''" "u_status basic_user = ''ACTIVE''" "u_id basic_user = 1" by (simp_all add: basic_user_def sample_user_def)
  then have account: "login_account toy_crypto ''ann@x.io'' ''secret'' basic_db u \<longleftrightarrow> u = basic_user" for u
    by (auto simp: login_account_def basic_db_def basic_password)
  have "distinct (map u_email (db_users basic_db))" by (simp add: basic_db_def)
  from login_outcome[of toy_crypto default_auth_settings "''ann@x.io''" "''secret''" "[]" "''t''" 0 0 basic_db "fst ?c" "snd ?c", OF _ this]
  obtain cx where cx: "snd ?c = Inr cx" "set (cx_roles cx) = {nr_name role | role. holds_role basic_db 1 role}"
      "set (cx_allowed_screens cx) = {s. grants_screen basic_db 1 s}"
    by (auto simp: email account none free ann(3))
  then show "\<exists>cx. snd ?c = Inr cx \<and> set (cx_roles cx) = {''BASIC_USER''} \<and> set (cx_allowed_screens cx) = {''DASHBOARD'', ''MY PROFILE''}"
    using basic_access unfolding effective_access_granted by auto
  let ?d = "run_call (login_user toy_crypto default_auth_settings ''ann@x.io'' ''secret'' [] ''t'' 0 0) suspended_db"
  have suspended: "\<not> login_account toy_crypto ''ann@x.io'' ''secret'' suspended_db u" for u
    by (auto simp: login_account_def suspended_db_def)
  have "distinct (map u_email (db_users suspended_db))" by (simp add: suspended_db_def)
  from login_outcome[of toy_crypto default_auth_settings "''ann@x.io''" "''secret''" "[]" "''t''" 0 0 suspended_db "fst ?d" "snd ?d", OF _ this]
  show "\<exists>e. snd ?d = Inl e" by (auto simp: email suspended)
qed

section \<open>A credential that timed out\<close>

text \<open>A bootstrap credential that was never used but timed out is a dead end. It is not marked
  expired, so the start-up bootstrap takes it for an open one and issues no new credential, while every
  attempt to use it is refused as unavailable and leaves it as it is.\<close>

theorem timed_out_credential_blocks_bootstrap:
  assumes "bootstrap_for (normalize_email (as_bootstrap_admin_email st)) db = Some b"
    and "\<not> ab_used b" and "\<not> ab_expired b" and "ab_expires_at b \<le> now"
  shows "ensure_admin_bootstrap cr st salt now db = Inr db \<and>
     snd (run_call (consume_admin_bootstrap cr (as_bootstrap_admin_email st) tmp perm salt now) db) =
       Inl (PermissionError ''Bootstrap credential unavailable'') \<and>
     db_bootstraps (fst (run_call (consume_admin_bootstrap cr (as_bootstrap_admin_email st) tmp perm salt now) db)) =
       db_bootstraps db"
proof -
  have "b \<in> set (db_bootstraps db)" "ab_email b = normalize_email (as_bootstrap_admin_email st)"
    using latest_bootstrap_in[OF assms(1)[unfolded bootstrap_for_def]] by auto
  then have "ensure_admin_bootstrap cr st salt now db = Inr db"
    using assms(2,3) by (auto simp: ensure_admin_bootstrap_def Let_def)
  moreover have "credential_unavailable now (bootstrap_for (normalize_email (as_bootstrap_admin_email st)) db)"
    using assms(1,4) by (simp add: credential_unavailable_def)
  ultimately show ?thesis
    by (simp add: run_call_def consume_admin_bootstrap_def Let_def bootstrap_failed_def audit_event_def)
qed

theorem timed_out_credential_blocks_bootstrap_witness:
  "snd (run_call (consume_admin_bootstrap toy_crypto ''a@b.c'' ''first'' ''x'' [] 2000)
     (empty_db\<lparr>db_bootstraps := [sample_credential]\<rparr>)) = Inl (PermissionError ''Bootstrap credential unavailable'')"
proof -
  let ?st = "default_auth_settings\<lparr>as_bootstrap_admin_email := ''a@b.c''\<rparr>"
  have "normalize_email ''a@b.c'' = ''a@b.c''" by code_simp
  then have "bootstrap_for (normalize_email (as_bootstrap_admin_email ?st)) (empty_db\<lparr>db_bootstraps := [sample_credential]\<rparr>)
      = Some sample_credential" by (simp add: bootstrap_for_def sample_credential_def)
  from timed_out_credential_blocks_bootstrap[OF this, of 2000] show ?thesis by (simp add: sample_credential_def)
qed

end
