(* ===== verification/Replay_Metrics.thy ===== *)
theory Replay_Metrics
  imports Py_Text Py_Literals
begin

text \<open>
  \<open>analytics/replay_metrics.py\<close>: the bar-by-bar replay of the base strategy, its metrics, the scan
  classification and the proximity and confidence scores. A row is the record of the numeric columns the
  code reads; the text of its \<open>open_time\<close> is what \<open>isoformat()\<close> gave. The mean, standard deviation and
  square root of the Sharpe proxy are pandas' and the C library's and come as the parameter \<open>sharpe\<close>.
  Reading and writing the report files is not modelled.
\<close>

record bar_row =
  rw_symbol :: string
  rw_open_time :: string
  rw_high :: pyfloat
  rw_low :: pyfloat
  rw_close :: pyfloat
  rw_atr14 :: pyfloat
  rw_ema20 :: pyfloat
  rw_ema50 :: pyfloat
  rw_vwap :: pyfloat
  rw_rvol30 :: pyfloat
  rw_delta_ratio :: pyfloat
  rw_volatility :: pyfloat
  rw_orderflow_score :: "pyfloat option"

record trade =
  tr_symbol :: string
  tr_entry_time :: string
  tr_exit_time :: string
  tr_entry_price :: pyfloat
  tr_exit_price :: pyfloat
  tr_stop_price :: pyfloat
  tr_take_profit_price :: pyfloat
  tr_bars_held :: int
  tr_return_pct :: pyfloat
  tr_pnl :: pyfloat
  tr_exit_reason :: string

record proximity =
  px_watch_score :: pyfloat
  px_buy_score :: pyfloat
  px_sell_score :: pyfloat
  px_orderflow_score :: pyfloat
  px_watch_missing :: string
  px_buy_missing :: string
  px_sell_missing :: string
  px_orderflow_reason :: string

record symbol_metrics =
  sm_symbol :: string
  sm_candles :: nat
  sm_trades :: nat
  sm_wins :: nat
  sm_losses :: nat
  sm_win_rate :: pyfloat
  sm_total_pnl :: pyfloat
  sm_total_return_pct :: pyfloat
  sm_profit_factor :: pyfloat
  sm_max_drawdown_pct :: pyfloat
  sm_avg_trade_return_pct :: pyfloat
  sm_sharpe_proxy :: pyfloat
  sm_last_close :: pyfloat
  sm_scan_bucket :: string
  sm_scan_reason :: string
  sm_active_entry :: "pyfloat option"
  sm_active_pnl :: "pyfloat option"
  sm_active_pnl_pct :: "pyfloat option"
  sm_proximity :: proximity
  sm_confidence_score :: pyfloat
  sm_confidence_reason :: string

section \<open>Signals\<close>

definition in_band :: "pyfloat \<Rightarrow> bool" where
  "in_band v = (fle (dec 1 1000) v \<and> fle v (dec 8 100))"

definition buy_signal :: "bar_row \<Rightarrow> bool" where
  "buy_signal r = (flt (rw_ema20 r) (rw_close r) \<and> flt (rw_ema50 r) (rw_ema20 r) \<and> flt (rw_vwap r) (rw_close r) \<and>
     fle (dec 9 10) (rw_rvol30 r) \<and> flt (dec 2 100) (rw_delta_ratio r) \<and> in_band (rw_volatility r))"

type_synonym gates = "(string \<times> bool) list"

definition watch_gates :: "bar_row \<Rightarrow> gates" where
  "watch_gates r =
     [(''above EMA20'', flt (rw_ema20 r) (rw_close r)),
      (''EMA20 >= EMA50'', fle (rw_ema50 r) (rw_ema20 r)),
      (''near VWAP'', fle (fmul (rw_vwap r) (dec 995 1000)) (rw_close r)),
      (''RVOL >= 0.70'', fle (dec 7 10) (rw_rvol30 r)),
      (''delta > -0.05'', flt (dec (- 5) 100) (rw_delta_ratio r))]"

definition watch_signal :: "bar_row \<Rightarrow> bool" where
  "watch_signal r = (3 \<le> length (filter snd (watch_gates r)))"

definition buy_gates :: "bar_row \<Rightarrow> pyfloat \<Rightarrow> gates" where
  "buy_gates r orderflow =
     [(''above EMA20'', flt (rw_ema20 r) (rw_close r)),
      (''EMA20 > EMA50'', flt (rw_ema50 r) (rw_ema20 r)),
      (''above VWAP'', flt (rw_vwap r) (rw_close r)),
      (''RVOL >= 0.90'', fle (dec 9 10) (rw_rvol30 r)),
      (''delta > 0.02'', flt (dec 2 100) (rw_delta_ratio r)),
      (''orderflow >= 55'', fle (Fin 55) orderflow),
      (''volatility in band'', in_band (rw_volatility r))]"

definition sell_gates :: "bar_row \<Rightarrow> pyfloat \<Rightarrow> bool \<Rightarrow> gates" where
  "sell_gates r orderflow active =
     [(''below EMA20'', flt (rw_close r) (rw_ema20 r)),
      (''below VWAP'', flt (rw_close r) (rw_vwap r)),
      (''negative delta'', flt (rw_delta_ratio r) (dec (- 2) 100)),
      (''orderflow weak'', flt orderflow (Fin 45)),
      (''volatility breach'', flt (dec 8 100) (rw_volatility r)),
      (''active trade'', active)]"

text \<open>\<open>n / m\<close> on integers is the correctly rounded quotient.\<close>

definition int_div :: "nat \<Rightarrow> nat \<Rightarrow> pyfloat" where
  "int_div n m = fround (of_nat n / of_nat m)"

definition gate_score :: "gates \<Rightarrow> pyfloat" where
  "gate_score gs = (if gs = [] then Fin 0
     else fround_to (fmul (int_div (length (filter snd gs)) (length gs)) (Fin 100)) 1)"

definition missing_gates :: "gates \<Rightarrow> string" where
  "missing_gates gs =
     (let missing = map fst (filter (\<lambda>g. \<not> snd g) gs)
      in if missing = [] then ''ready'' else join_with '', '' missing)"

definition unit_clamp :: "pyfloat \<Rightarrow> pyfloat" where
  "unit_clamp x = fmax (Fin 0) (fmin (Fin 1) x)"

definition proxy_orderflow_score :: "pyfloat \<Rightarrow> pyfloat \<Rightarrow> pyfloat \<Rightarrow> pyfloat" where
  "proxy_orderflow_score rvol delta volatility =
     (let d = unit_clamp (fdiv (fadd delta (Fin 1)) (Fin 2));
          r = unit_clamp (fdiv rvol (Fin 2));
          v = (if in_band volatility then Fin 1 else dec 35 100)
      in fround_to (fmul (fadd (fadd (fmul d (dec 45 100)) (fmul r (dec 35 100))) (fmul v (dec 20 100))) (Fin 100)) 1)"

definition orderflow_reason :: "pyfloat \<Rightarrow> pyfloat \<Rightarrow> pyfloat \<Rightarrow> pyfloat \<Rightarrow> string" where
  "orderflow_reason score delta rvol volatility =
     (if fle (Fin 70) score then ''supportive flow: positive pressure/liquidity''
      else if fle (Fin 55) score then ''acceptable flow: confirmation present''
      else if fle (Fin 45) score then ''neutral flow: needs stronger confirmation''
      else ''weak flow: delta '' @ fmt_fixed 2 delta @ '', rvol '' @ fmt_fixed 2 rvol @ '', volatility '' @ fmt_fixed 4 volatility)"

definition row_orderflow :: "bar_row \<Rightarrow> pyfloat" where
  "row_orderflow r = (case rw_orderflow_score r of
     Some x \<Rightarrow> if x = NaN then proxy_orderflow_score (rw_rvol30 r) (rw_delta_ratio r) (rw_volatility r) else x
   | None \<Rightarrow> proxy_orderflow_score (rw_rvol30 r) (rw_delta_ratio r) (rw_volatility r))"

definition signal_proximity :: "bar_row \<Rightarrow> bool \<Rightarrow> proximity" where
  "signal_proximity r active =
     (let flow = row_orderflow r
      in \<lparr>px_watch_score = gate_score (watch_gates r), px_buy_score = gate_score (buy_gates r flow),
          px_sell_score = gate_score (sell_gates r flow active), px_orderflow_score = fround_to flow 1,
          px_watch_missing = missing_gates (watch_gates r), px_buy_missing = missing_gates (buy_gates r flow),
          px_sell_missing = missing_gates (sell_gates r flow active),
          px_orderflow_reason = orderflow_reason flow (rw_delta_ratio r) (rw_rvol30 r) (rw_volatility r)\<rparr>)"

section \<open>The replay\<close>

record position =
  ps_entry :: pyfloat
  ps_entry_time :: string
  ps_stop :: pyfloat
  ps_take_profit :: pyfloat
  ps_bars :: int

record replay_state =
  rp_trades :: "trade list"
  rp_equity :: pyfloat
  rp_curve :: "pyfloat list"
  rp_position :: "position option"

definition exit_of :: "int \<Rightarrow> position \<Rightarrow> bar_row \<Rightarrow> (pyfloat \<times> string) option" where
  "exit_of max_hold p r =
     (if fle (rw_low r) (ps_stop p) then Some (ps_stop p, ''stop'')
      else if fle (ps_take_profit p) (rw_high r) then Some (ps_take_profit p, ''take_profit'')
      else if max_hold \<le> ps_bars p then Some (rw_close r, ''time'')
      else if flt (rw_close r) (rw_ema20 r) then Some (rw_close r, ''ema20_loss'')
      else None)"

definition close_trade :: "string \<Rightarrow> pyfloat \<Rightarrow> position \<Rightarrow> bar_row \<Rightarrow> pyfloat \<Rightarrow> string \<Rightarrow> trade res" where
  "close_trade symbol notional p r price reason =
     bind_res (py_div (fsub price (ps_entry p)) (ps_entry p)) (\<lambda>x.
       let ret = fmul x (Fin 100)
       in Inr \<lparr>tr_symbol = symbol, tr_entry_time = ps_entry_time p, tr_exit_time = rw_open_time r,
               tr_entry_price = ps_entry p, tr_exit_price = price, tr_stop_price = ps_stop p,
               tr_take_profit_price = ps_take_profit p, tr_bars_held = ps_bars p, tr_return_pct = ret,
               tr_pnl = fmul notional (fdiv ret (Fin 100)), tr_exit_reason = reason\<rparr>)"

definition manage_position ::
    "string \<Rightarrow> pyfloat \<Rightarrow> int \<Rightarrow> bar_row \<Rightarrow> replay_state \<Rightarrow> replay_state res" where
  "manage_position symbol notional max_hold r s =
     (case rp_position s of
        None \<Rightarrow> Inr s
      | Some p0 \<Rightarrow>
          (let p = p0\<lparr>ps_bars := ps_bars p0 + 1\<rparr>
           in case exit_of max_hold p r of
                None \<Rightarrow> Inr (s\<lparr>rp_position := Some p\<rparr>)
              | Some (price, reason) \<Rightarrow>
                  bind_res (close_trade symbol notional p r price reason) (\<lambda>t.
                    Inr (s\<lparr>rp_equity := fadd (rp_equity s) (tr_pnl t), rp_trades := rp_trades s @ [t],
                           rp_position := None\<rparr>))))"

definition enter_position :: "bar_row \<Rightarrow> replay_state \<Rightarrow> replay_state" where
  "enter_position r s =
     (if rp_position s = None \<and> buy_signal r
      then s\<lparr>rp_position := Some
             \<lparr>ps_entry = rw_close r, ps_entry_time = rw_open_time r,
              ps_stop = fmax (dec 1 1000000) (fsub (rw_close r) (fmul (dec 14 10) (rw_atr14 r))),
              ps_take_profit = fadd (rw_close r) (fmul (dec 24 10) (rw_atr14 r)), ps_bars = 0\<rparr>\<rparr>
      else s)"

definition replay_bar :: "string \<Rightarrow> pyfloat \<Rightarrow> int \<Rightarrow> bar_row \<Rightarrow> replay_state \<Rightarrow> replay_state res" where
  "replay_bar symbol notional max_hold r s =
     bind_res (manage_position symbol notional max_hold r s) (\<lambda>s1.
       let s2 = enter_position r s1 in Inr (s2\<lparr>rp_curve := rp_curve s2 @ [rp_equity s2]\<rparr>))"

definition warmup_bars :: nat where "warmup_bars = 200"

definition replay_rows :: "string \<Rightarrow> pyfloat \<Rightarrow> int \<Rightarrow> bar_row list \<Rightarrow> replay_state res" where
  "replay_rows symbol notional max_hold rows =
     fold_res (replay_bar symbol notional max_hold) (drop warmup_bars rows)
       \<lparr>rp_trades = [], rp_equity = Fin 0, rp_curve = replicate (min warmup_bars (length rows)) (Fin 0),
        rp_position = None\<rparr>"

section \<open>Metrics\<close>

definition pct_change :: "pyfloat \<Rightarrow> pyfloat \<Rightarrow> pyfloat res" where
  "pct_change x entry = bind_res (py_div (fsub x entry) entry) (\<lambda>q. Inr (fmul q (Fin 100)))"

definition classify_latest ::
    "bar_row \<Rightarrow> position option \<Rightarrow> pyfloat \<Rightarrow>
     (string \<times> string \<times> pyfloat option \<times> pyfloat option \<times> pyfloat option) res" where
  "classify_latest latest active notional =
     (case active of
        Some p \<Rightarrow> bind_res (pct_change (rw_close latest) (ps_entry p)) (\<lambda>pct.
          Inr (''IN TRADE'', ''active replay position tracking mark-to-market'', Some (ps_entry p),
               Some (fdiv (fmul notional pct) (Fin 100)), Some pct))
      | None \<Rightarrow> Inr
          (if buy_signal latest then (''BUY'', ''trend, VWAP, RVOL, and taker delta aligned'', None, None, None)
           else if watch_signal latest then (''WATCH'', ''setup forming but confirmation incomplete'', None, None, None)
           else (''NO SIGNAL'', ''conditions below entry threshold'', None, None, None)))"

text \<open>Peak and drawdown of the account along the equity curve.\<close>

fun drawdown_from :: "pyfloat \<Rightarrow> pyfloat \<Rightarrow> pyfloat \<Rightarrow> pyfloat list \<Rightarrow> pyfloat" where
  "drawdown_from notional peak worst [] = worst"
| "drawdown_from notional peak worst (e # es) =
     (let account = fadd notional e; peak' = fmax peak account
      in drawdown_from notional peak'
           (if flt (Fin 0) peak' then fmax worst (fmul (fdiv (fsub peak' account) peak') (Fin 100)) else worst) es)"

definition max_drawdown_pct :: "pyfloat list \<Rightarrow> pyfloat \<Rightarrow> pyfloat" where
  "max_drawdown_pct curve notional = drawdown_from notional NegInf (Fin 0) curve"

definition sharpe_proxy :: "(pyfloat list \<Rightarrow> pyfloat) \<Rightarrow> pyfloat list \<Rightarrow> pyfloat" where
  "sharpe_proxy sharpe returns = (if length returns < 2 then Fin 0 else sharpe returns)"

definition profit_factor :: "trade list \<Rightarrow> pyfloat" where
  "profit_factor trades =
     (let gains = fsum [tr_pnl t. t \<leftarrow> trades, flt (Fin 0) (tr_pnl t)];
          losses = fabs (fsum [tr_pnl t. t \<leftarrow> trades, flt (tr_pnl t) (Fin 0)])
      in if losses = Fin 0 then (if flt (Fin 0) gains then PosInf else Fin 0) else fdiv gains losses)"

definition confidence_horizon :: nat where "confidence_horizon = 12"

text \<open>The forward returns of the past bars whose buy score is at least 80.\<close>

definition forward_sample :: "bar_row list \<Rightarrow> nat \<Rightarrow> nat \<Rightarrow> pyfloat option res" where
  "forward_sample rows horizon i =
     (if flt (px_buy_score (signal_proximity (rows ! i) False)) (Fin 80) then Inr None
      else bind_res (pct_change (rw_close (rows ! (i + horizon))) (rw_close (rows ! i))) (\<lambda>x. Inr (Some x)))"

definition forward_samples :: "bar_row list \<Rightarrow> nat \<Rightarrow> pyfloat list res" where
  "forward_samples rows horizon =
     bind_res (map_res (forward_sample rows horizon) [warmup_bars..<length rows - horizon]) (\<lambda>xs. Inr (List.map_filter id xs))"

definition confidence_value :: "pyfloat \<Rightarrow> pyfloat list \<Rightarrow> pyfloat" where
  "confidence_value buy_score samples =
     (if samples = [] then fround_to (fmul buy_score (dec 35 100)) 1
      else
        (let n = length samples;
             avg = fdiv (fsum samples) (Fin (of_nat n));
             win_rate = int_div (length (filter (flt (Fin 0)) samples)) n;
             quality = fmin (Fin 1) (int_div n 80);
             expectancy = unit_clamp (fdiv (fadd avg (Fin 1)) (Fin 2));
             reliability = fmul (fadd (fmul win_rate (dec 65 100)) (fmul expectancy (dec 35 100))) quality;
             confidence = fadd (fmul buy_score (dec 55 100)) (fmul (fmul reliability (Fin 100)) (dec 45 100))
         in fround_to (fmax (Fin 0) (fmin (Fin 100) confidence)) 1))"

definition confidence_text :: "pyfloat list \<Rightarrow> nat \<Rightarrow> string" where
  "confidence_text samples horizon =
     (if samples = [] then ''low confidence: no historical high-score samples''
      else str_of_int (int (length samples)) @ '' high-score samples, win '' @
           fmt_fixed 1 (fmul (int_div (length (filter (flt (Fin 0)) samples)) (length samples)) (Fin 100)) @ ''%, avg '' @
           fmt_fixed 2 (fdiv (fsum samples) (Fin (of_nat (length samples)))) @ ''% over '' @ str_of_int (int horizon) @ '' bars'')"

definition confidence_from_score_backtest :: "bar_row list \<Rightarrow> proximity \<Rightarrow> (pyfloat \<times> string) res" where
  "confidence_from_score_backtest rows current =
     bind_res (forward_samples rows confidence_horizon) (\<lambda>samples.
       Inr (confidence_value (px_buy_score current) samples, confidence_text samples confidence_horizon))"

definition win_rate :: "trade list \<Rightarrow> pyfloat" where
  "win_rate trades = (if trades = [] then Fin 0
     else fmul (int_div (length (filter (\<lambda>t. flt (Fin 0) (tr_pnl t)) trades)) (length trades)) (Fin 100))"

definition metrics_of ::
    "(pyfloat list \<Rightarrow> pyfloat) \<Rightarrow> bar_row list \<Rightarrow> pyfloat \<Rightarrow> replay_state \<Rightarrow> symbol_metrics res" where
  "metrics_of sharpe rows notional s =
     (let latest = last rows; trades = rp_trades s; returns = map tr_return_pct trades;
          prox = signal_proximity latest (rp_position s \<noteq> None)
      in bind_res (classify_latest latest (rp_position s) notional) (\<lambda>(bucket, reason, entry, pnl, pct).
         bind_res (confidence_from_score_backtest rows prox) (\<lambda>(score, text).
         bind_res (py_div (rp_equity s) notional) (\<lambda>ratio.
         Inr \<lparr>sm_symbol = rw_symbol latest, sm_candles = length rows, sm_trades = length trades,
              sm_wins = length (filter (\<lambda>t. flt (Fin 0) (tr_pnl t)) trades),
              sm_losses = length (filter (\<lambda>t. fle (tr_pnl t) (Fin 0)) trades),
              sm_win_rate = win_rate trades, sm_total_pnl = rp_equity s,
              sm_total_return_pct = fmul ratio (Fin 100), sm_profit_factor = profit_factor trades,
              sm_max_drawdown_pct = max_drawdown_pct (rp_curve s) notional,
              sm_avg_trade_return_pct =
                (if returns = [] then Fin 0 else fdiv (fsum returns) (Fin (of_nat (length returns)))),
              sm_sharpe_proxy = sharpe_proxy sharpe returns, sm_last_close = rw_close latest,
              sm_scan_bucket = bucket, sm_scan_reason = reason, sm_active_entry = entry, sm_active_pnl = pnl,
              sm_active_pnl_pct = pct, sm_proximity = prox, sm_confidence_score = score,
              sm_confidence_reason = text\<rparr>))))"

definition run_symbol_replay ::
    "(pyfloat list \<Rightarrow> pyfloat) \<Rightarrow> bar_row list \<Rightarrow> pyfloat \<Rightarrow> int \<Rightarrow> (symbol_metrics \<times> trade list) res" where
  "run_symbol_replay sharpe rows notional max_hold =
     (if rows = [] then Inl (ValueError ''cannot replay empty feature set'')
      else bind_res (replay_rows (rw_symbol (last rows)) notional max_hold rows) (\<lambda>s.
           bind_res (metrics_of sharpe rows notional s) (\<lambda>m. Inr (m, rp_trades s))))"

section \<open>What the trades of a replay satisfy\<close>

definition trade_ok :: "int \<Rightarrow> trade \<Rightarrow> bool" where
  "trade_ok max_hold t =
     (1 \<le> tr_bars_held t \<and> tr_bars_held t \<le> max 1 max_hold \<and>
      (tr_exit_reason t = ''stop'' \<and> tr_exit_price t = tr_stop_price t \<or>
       tr_exit_reason t = ''take_profit'' \<and> tr_exit_price t = tr_take_profit_price t \<or>
       tr_exit_reason t = ''time'' \<and> max_hold \<le> tr_bars_held t \<or>
       tr_exit_reason t = ''ema20_loss'' \<and> tr_bars_held t < max_hold) \<and>
      fle (dec 1 1000000) (tr_stop_price t))"

definition replay_inv :: "int \<Rightarrow> nat \<Rightarrow> replay_state \<Rightarrow> bool" where
  "replay_inv max_hold n s =
     ((\<forall>t\<in>set (rp_trades s). trade_ok max_hold t) \<and>
      rp_equity s = foldl fadd (Fin 0) (map tr_pnl (rp_trades s)) \<and> length (rp_curve s) = n \<and>
      (\<forall>p. rp_position s = Some p \<longrightarrow> 0 \<le> ps_bars p \<and> ps_bars p < max 1 max_hold \<and> fle (dec 1 1000000) (ps_stop p)))"

lemma close_trade_fields:
  "close_trade symbol notional p r price reason = Inr t \<Longrightarrow> tr_bars_held t = ps_bars p \<and> tr_exit_price t = price \<and>
     tr_exit_reason t = reason \<and> tr_stop_price t = ps_stop p \<and> tr_take_profit_price t = ps_take_profit p"
  by (auto simp: close_trade_def bind_res_eq_Inr Let_def)

lemma manage_position_inv:
  assumes "replay_inv max_hold n s" and "manage_position symbol notional max_hold r s = Inr s'"
  shows "replay_inv max_hold n s'"
proof (cases "rp_position s")
  case None
  then show ?thesis using assms by (simp add: manage_position_def)
next
  case (Some p0)
  let ?p = "p0\<lparr>ps_bars := ps_bars p0 + 1\<rparr>"
  have p0: "0 \<le> ps_bars p0" "ps_bars p0 < max 1 max_hold" "fle (dec 1 1000000) (ps_stop p0)"
    using assms(1) Some by (auto simp: replay_inv_def)
  show ?thesis
  proof (cases "exit_of max_hold ?p r")
    case None
    then have "ps_bars ?p < max_hold" by (auto simp: exit_of_def split: if_splits)
    with None Some assms p0 show ?thesis by (auto simp: manage_position_def Let_def replay_inv_def)
  next
    case (Some e)
    obtain price reason where e: "e = (price, reason)" by (cases e)
    obtain t where t: "close_trade symbol notional ?p r price reason = Inr t"
        "s' = s\<lparr>rp_equity := fadd (rp_equity s) (tr_pnl t), rp_trades := rp_trades s @ [t], rp_position := None\<rparr>"
      using assms(2) \<open>rp_position s = Some p0\<close> Some e by (auto simp: manage_position_def Let_def bind_res_eq_Inr)
    have "trade_ok max_hold t"
      using close_trade_fields[OF t(1)] Some e p0 by (auto simp: trade_ok_def exit_of_def split: if_splits)
    then show ?thesis using assms(1) t(2) by (auto simp: replay_inv_def)
  qed
qed

lemma replay_bar_inv:
  assumes "replay_inv max_hold n s" and "replay_bar symbol notional max_hold r s = Inr s'"
  shows "replay_inv max_hold (Suc n) s'"
proof -
  obtain s1 where s1: "manage_position symbol notional max_hold r s = Inr s1"
      "s' = (enter_position r s1)\<lparr>rp_curve := rp_curve (enter_position r s1) @ [rp_equity (enter_position r s1)]\<rparr>"
    using assms(2) by (auto simp: replay_bar_def bind_res_eq_Inr Let_def)
  have "replay_inv max_hold n s1" using assms(1) s1(1) by (rule manage_position_inv)
  then show ?thesis
    by (auto simp: s1(2) replay_inv_def enter_position_def dec_def intro!: fmax_ge1)
qed

lemma replay_rows_inv:
  assumes "replay_rows symbol notional max_hold rows = Inr s"
  shows "replay_inv max_hold (length rows) s"
proof -
  have run: "fold_res (replay_bar symbol notional max_hold) rs s0 = Inr s \<Longrightarrow> replay_inv max_hold n s0 \<Longrightarrow>
      replay_inv max_hold (n + length rs) s" for rs s0 n
  proof (induction rs arbitrary: s0 n)
    case (Cons r rs)
    then obtain s1 where "replay_bar symbol notional max_hold r s0 = Inr s1"
        "fold_res (replay_bar symbol notional max_hold) rs s1 = Inr s" by (auto simp: bind_res_eq_Inr)
    with Cons.IH[of s1 "Suc n"] replay_bar_inv[OF Cons.prems(2)] show ?case by simp
  qed simp
  have "replay_inv max_hold (min warmup_bars (length rows)) \<lparr>rp_trades = [], rp_equity = Fin 0,
      rp_curve = replicate (min warmup_bars (length rows)) (Fin 0), rp_position = None\<rparr>"
    by (simp add: replay_inv_def)
  from run[OF assms[unfolded replay_rows_def] this]
  have "replay_inv max_hold (min warmup_bars (length rows) + (length rows - warmup_bars)) s" by simp
  moreover have "min warmup_bars (length rows) + (length rows - warmup_bars) = length rows" by linarith
  ultimately show ?thesis by simp
qed

lemma wins_losses:
  "length (filter (\<lambda>t. flt (Fin 0) (tr_pnl t)) ts) + length (filter (\<lambda>t. fle (tr_pnl t) (Fin 0)) ts) \<le> length ts"
proof (induction ts)
  case (Cons t ts)
  have "\<not> (flt (Fin 0) (tr_pnl t) \<and> fle (tr_pnl t) (Fin 0))" using flt_le_trans[of "Fin 0" "tr_pnl t" "Fin 0"] by auto
  with Cons show ?case by auto
qed simp

text \<open>Every trade a replay reports is well-formed (it was held between one bar and the hold limit,
  exits by stop or target at exactly that price, by time only at the limit, and its stop is positive),
  the reported counts and the profit are those of the trades, and the equity curve has one point per
  candle.\<close>

theorem replay_trades_wellformed:
  assumes "run_symbol_replay sharpe rows notional max_hold = Inr (m, trades)"
  shows "(\<forall>t\<in>set trades. trade_ok max_hold t) \<and> sm_trades m = length trades \<and> sm_candles m = length rows \<and>
     sm_total_pnl m = foldl fadd (Fin 0) (map tr_pnl trades) \<and> sm_wins m + sm_losses m \<le> sm_trades m"
proof -
  obtain s where s: "replay_rows (rw_symbol (last rows)) notional max_hold rows = Inr s" "trades = rp_trades s"
      "metrics_of sharpe rows notional s = Inr m"
    using assms by (auto simp: run_symbol_replay_def bind_res_eq_Inr split: if_splits)
  have m: "sm_trades m = length trades \<and> sm_candles m = length rows \<and> sm_total_pnl m = rp_equity s \<and>
      sm_wins m = length (filter (\<lambda>t. flt (Fin 0) (tr_pnl t)) trades) \<and>
      sm_losses m = length (filter (\<lambda>t. fle (tr_pnl t) (Fin 0)) trades)"
    using s(2,3) by (auto simp: metrics_of_def Let_def bind_res_eq_Inr)
  with wins_losses[of trades] replay_rows_inv[OF s(1)] s(2) show ?thesis by (simp add: replay_inv_def)
qed

definition breakout_row :: bar_row where
  "breakout_row = \<lparr>rw_symbol = ''X'', rw_open_time = ''t'', rw_high = Fin 100, rw_low = Fin 100, rw_close = Fin 100,
     rw_atr14 = Fin 0, rw_ema20 = Fin 90, rw_ema50 = Fin 80, rw_vwap = Fin 95, rw_rvol30 = Fin 1,
     rw_delta_ratio = Fin (1 / 2), rw_volatility = Fin (1 / 20), rw_orderflow_score = Some (Fin 60)\<rparr>"

definition breakout_rows :: "bar_row list" where
  "breakout_rows = replicate 200 breakout_row @ [breakout_row, breakout_row\<lparr>rw_close := Fin 70\<rparr>]"

lemma breakout_signal [simp]: "buy_signal breakout_row" "\<not> buy_signal (breakout_row\<lparr>rw_close := Fin 70\<rparr>)"
  by (simp_all add: buy_signal_def breakout_row_def in_band_def dec_lits)

lemma breakout_replay:
  "\<exists>t. replay_rows ''X'' (Fin 1000) 24 breakout_rows = Inr \<lparr>rp_trades = [t], rp_equity = Fin 0,
     rp_curve = replicate 200 (Fin 0) @ [Fin 0, Fin 0], rp_position = None\<rparr>"
proof -
  let ?s0 = "\<lparr>rp_trades = [], rp_equity = Fin 0, rp_curve = replicate 200 (Fin 0), rp_position = None\<rparr>"
  let ?p = "\<lparr>ps_entry = Fin 100, ps_entry_time = ''t'', ps_stop = Fin 100, ps_take_profit = Fin 100, ps_bars = 0\<rparr>"
  let ?r2 = "breakout_row\<lparr>rw_close := Fin 70\<rparr>"
  have d: "drop warmup_bars breakout_rows = [breakout_row, ?r2]" "min warmup_bars (length breakout_rows) = 200"
    by (simp_all add: breakout_rows_def warmup_bars_def)
  have one: "replay_bar ''X'' (Fin 1000) 24 breakout_row ?s0 =
      Inr (?s0\<lparr>rp_curve := rp_curve ?s0 @ [Fin 0], rp_position := Some ?p\<rparr>)"
    by (simp add: replay_bar_def manage_position_def enter_position_def Let_def)
      (simp add: breakout_row_def fmax_def dec_lits)
  have "\<exists>t. manage_position ''X'' (Fin 1000) 24 ?r2 (?s0\<lparr>rp_curve := rp_curve ?s0 @ [Fin 0], rp_position := Some ?p\<rparr>) =
      Inr \<lparr>rp_trades = [t], rp_equity = Fin 0, rp_curve = replicate 200 (Fin 0) @ [Fin 0], rp_position = None\<rparr>"
    by (simp add: manage_position_def exit_of_def breakout_row_def close_trade_def py_div_def Let_def)
  then show ?thesis
    unfolding replay_rows_def d
    by (auto simp: one replay_bar_def[of _ _ _ ?r2] enter_position_def Let_def)
qed

theorem replay_trades_wellformed_witness:
  "\<exists>m t. run_symbol_replay (\<lambda>_. Fin 0) breakout_rows (Fin 1000) 24 = Inr (m, [t]) \<and> trade_ok 24 t \<and> sm_trades m = 1"
proof -
  obtain t where r: "replay_rows ''X'' (Fin 1000) 24 breakout_rows = Inr \<lparr>rp_trades = [t], rp_equity = Fin 0,
     rp_curve = replicate 200 (Fin 0) @ [Fin 0, Fin 0], rp_position = None\<rparr>" using breakout_replay by blast
  have l: "last breakout_rows = breakout_row\<lparr>rw_close := Fin 70\<rparr>" "breakout_rows \<noteq> []" "length breakout_rows = 202"
    by (simp_all add: breakout_rows_def)
  have "forward_samples breakout_rows confidence_horizon = Inr []"
    by (simp add: forward_samples_def warmup_bars_def confidence_horizon_def l(3) List.map_filter_def)
  then have "\<exists>m. run_symbol_replay (\<lambda>_. Fin 0) breakout_rows (Fin 1000) 24 = Inr (m, [t])"
    using r l by (simp add: run_symbol_replay_def metrics_of_def classify_latest_def confidence_from_score_backtest_def
        py_div_def Let_def) (simp add: breakout_row_def)
  then obtain m where m: "run_symbol_replay (\<lambda>_. Fin 0) breakout_rows (Fin 1000) 24 = Inr (m, [t])" by blast
  from replay_trades_wellformed[OF m] m show ?thesis by auto
qed

section \<open>Bounds of the scores\<close>

lemma gate_score_bounds: "fle (Fin 0) (gate_score gs) \<and> fle (gate_score gs) (Fin 100)"
proof (cases "gs = []")
  case False
  let ?c = "length (filter snd gs)" and ?n = "length gs"
  have "(of_nat ?c :: rat) \<le> of_nat ?n" by (simp add: length_filter_le)
  then have "0 \<le> of_nat ?c / (of_nat ?n :: rat)" "of_nat ?c / of_nat ?n \<le> (1::rat)"
    using False by (simp_all add: divide_le_eq_1)
  then have "fle (Fin (of_int 0)) (int_div ?c ?n)" "fle (int_div ?c ?n) (Fin (of_int 1))"
    unfolding int_div_def by (intro fround_ge_int fround_le_int; simp)+
  then obtain q where q: "int_div ?c ?n = Fin q" "0 \<le> q" "q \<le> 1" by (cases "int_div ?c ?n") auto
  then have "fle (Fin (of_int 0)) (fround (q * 100))" "fle (fround (q * 100)) (Fin (of_int 100))"
    by (intro fround_ge_int fround_le_int; simp)+
  from fround_to_bounds[OF this, of 1] show ?thesis using False q by (simp add: gate_score_def)
qed (simp add: gate_score_def)

lemma clamp_bounds: "fle (Fin 0) (fmax (Fin 0) (fmin (Fin (of_int b)) x)) \<and>
    (0 \<le> b \<longrightarrow> fle (fmax (Fin 0) (fmin (Fin (of_int b)) x)) (Fin (of_int b)))"
  by (cases x) (auto simp: fmax_def fmin_def)

lemma confidence_value_bounds:
  assumes "fle (Fin 0) b" and "fle b (Fin 100)"
  shows "fle (Fin 0) (confidence_value b samples) \<and> fle (confidence_value b samples) (Fin 100) \<and>
    (samples = [] \<longrightarrow> fle (confidence_value b samples) (Fin 36))"
proof -
  obtain q where q: "b = Fin q" "0 \<le> q" "q \<le> 100" using assms by (cases b) auto
  define v :: rat where "v = 3152519739159347 / 9007199254740992"
  have v: "dec 35 100 = Fin v" by (simp add: dec_lits v_def)
  have "0 \<le> q * v" "q * v \<le> 36" using q by (simp_all add: v_def)
  then have "fle (Fin (of_int 0)) (fround (q * v))" "fle (fround (q * v)) (Fin (of_int 36))"
    by (intro fround_ge_int fround_le_int; simp)+
  from fround_to_bounds[OF this, of 1]
  have e: "fle (Fin 0) (confidence_value b [])" "fle (confidence_value b []) (Fin 36)"
    by (simp_all add: confidence_value_def q(1) v)
  have "fle (Fin 36) (Fin 100)" by simp
  then have "fle (confidence_value b []) (Fin 100)" using e(2) fle_trans by blast
  moreover have "fle (Fin (of_int 0)) (fround_to (fmax (Fin 0) (fmin (Fin (of_int 100)) x)) 1) \<and>
      fle (fround_to (fmax (Fin 0) (fmin (Fin (of_int 100)) x)) 1) (Fin (of_int 100))" for x
    using clamp_bounds[of 100 x] by (intro fround_to_bounds) simp_all
  ultimately show ?thesis using e by (cases "samples = []") (simp_all add: confidence_value_def Let_def)
qed

lemma drawdown_mono: "worst \<noteq> NaN \<Longrightarrow> fle worst (drawdown_from notional peak worst curve)"
proof (induction curve arbitrary: peak worst)
  case Nil
  then show ?case by (simp add: fle_refl)
next
  case (Cons e es)
  have m: "fle worst (fmax worst y) \<and> fmax worst y \<noteq> NaN" for y
    using Cons.prems by (cases worst; cases y) (auto simp: fmax_def fle_def feq_def)
  show ?case using Cons m by (auto simp: Let_def intro: fle_trans)
qed

text \<open>The scores are what a dashboard may rely on: watch, buy and sell scores lie between 0 and
  100, so does the confidence, which stays at or below 36 without historical samples, and the drawdown
  is never negative. A row that gives a buy signal misses at most the orderflow gate.\<close>

theorem scores_are_bounded:
  "fle (Fin 0) (px_watch_score (signal_proximity r active)) \<and> fle (px_watch_score (signal_proximity r active)) (Fin 100) \<and>
   fle (Fin 0) (px_buy_score (signal_proximity r active)) \<and> fle (px_buy_score (signal_proximity r active)) (Fin 100) \<and>
   fle (Fin 0) (px_sell_score (signal_proximity r active)) \<and> fle (px_sell_score (signal_proximity r active)) (Fin 100) \<and>
   fle (Fin 0) (confidence_value (px_buy_score (signal_proximity r active)) samples) \<and>
   fle (confidence_value (px_buy_score (signal_proximity r active)) samples) (Fin 100) \<and>
   fle (confidence_value (px_buy_score (signal_proximity r active)) []) (Fin 36) \<and>
   fle (Fin 0) (max_drawdown_pct curve notional) \<and>
   (buy_signal r \<longrightarrow> px_buy_missing (signal_proximity r active) \<in> {''ready'', ''orderflow >= 55''})"
proof -
  have b: "fle (Fin 0) (px_buy_score (signal_proximity r active))" "fle (px_buy_score (signal_proximity r active)) (Fin 100)"
    using gate_score_bounds by (simp_all add: signal_proximity_def Let_def)
  have "px_buy_missing (signal_proximity r active) \<in> {''ready'', ''orderflow >= 55''}" if "buy_signal r"
    using that by (simp add: signal_proximity_def buy_signal_def buy_gates_def missing_gates_def Let_def)
  then show ?thesis
    using b confidence_value_bounds[OF b] confidence_value_bounds[OF b, of "[]"] gate_score_bounds drawdown_mono[of "Fin 0"]
    by (simp add: max_drawdown_pct_def) (simp add: signal_proximity_def Let_def)
qed

theorem scores_are_bounded_witness:
  "px_buy_missing (signal_proximity breakout_row False) \<in> {''ready'', ''orderflow >= 55''}"
  using scores_are_bounded[of breakout_row False "[]" "[]" "Fin 1"] breakout_signal(1) by blast

end
