(* ===== verification/Optimization.thy ===== *)
theory Optimization
  imports Replay_Metrics Py_Time "HOL-Library.Multiset"
begin

text \<open>
  \<open>strategies/optimization.py\<close>: the objective, the parameter grid, the split by time and the ranking of
  the grid. A feature set is a list of rows, each with the instant \<open>pd.to_datetime(..., errors="coerce")\<close>
  read from its time column (\<open>None\<close> where it could not). Pandas' sort by that column need not be stable, so
  it is the parameter \<open>by_time\<close>; the strategy factory and its replays are the caller's and parameters too.
\<close>

section \<open>Objective\<close>

record optimization_objective =
  oo_return_weight :: pyfloat
  oo_sharpe_weight :: pyfloat
  oo_profit_factor_weight :: pyfloat
  oo_drawdown_penalty :: pyfloat
  oo_min_trades :: int
  oo_low_trade_penalty :: pyfloat

definition default_objective :: optimization_objective where
  "default_objective = \<lparr>oo_return_weight = Fin 1, oo_sharpe_weight = Fin 25, oo_profit_factor_weight = Fin 10,
     oo_drawdown_penalty = Fin 2, oo_min_trades = 5, oo_low_trade_penalty = Fin 25\<rparr>"

definition objective_score :: "optimization_objective \<Rightarrow> symbol_metrics \<Rightarrow> pyfloat res" where
  "objective_score obj m =
     (let pf = fmin (sm_profit_factor m) (Fin 10);
          base = fsub (fadd (fadd (fmul (sm_total_return_pct m) (oo_return_weight obj))
                                  (fmul (sm_sharpe_proxy m) (oo_sharpe_weight obj)))
                            (fmul pf (oo_profit_factor_weight obj)))
                      (fmul (sm_max_drawdown_pct m) (oo_drawdown_penalty obj))
      in if int (sm_trades m) < oo_min_trades obj
         then bind_res (int_to_float (oo_min_trades obj - int (sm_trades m)))
                (\<lambda>missing. Inr (fround_to (fsub base (fmul (oo_low_trade_penalty obj) missing)) 6))
         else Inr (fround_to base 6))"

section \<open>Parameter grid\<close>

record 'v parameter_spec =
  sp_name :: string
  sp_values :: "'v list"

text \<open>\<open>itertools.product\<close>: the last factor varies fastest.\<close>

fun cartesian :: "'v list list \<Rightarrow> 'v list list" where
  "cartesian [] = [[]]"
| "cartesian (xs # xss) = concat (map (\<lambda>x. map ((#) x) (cartesian xss)) xs)"

definition parameter_grid :: "'v parameter_spec list \<Rightarrow> (string, 'v) dict list" where
  "parameter_grid specs =
     (if specs = [] then [[]]
      else map (\<lambda>vs. dict_update [] (zip (map sp_name specs) vs)) (cartesian (map sp_values specs)))"

section \<open>Split by time\<close>

type_synonym 'r rows = "(instant option \<times> 'r) list"

definition split_index :: "nat \<Rightarrow> pyfloat \<Rightarrow> int res" where
  "split_index n fraction =
     bind_res (trunc_int (fmul (float_of_int (int n)) (fsub (Fin 1) fraction)))
       (\<lambda>k. Inr (max 1 (min (int n - 1) k)))"

definition split_by_time ::
    "('r rows \<Rightarrow> 'r rows) \<Rightarrow> pyfloat \<Rightarrow> 'r rows \<Rightarrow> ('r rows \<times> 'r rows) res" where
  "split_by_time by_time fraction df =
     (if df = [] then Inl (ValueError ''cannot split empty feature set'')
      else if \<not> (flt (Fin 0) fraction \<and> flt fraction (Fin 1))
      then Inl (ValueError ''validation_fraction must be between 0 and 1'')
      else (let dated = by_time (filter (\<lambda>r. fst r \<noteq> None) df)
            in bind_res (split_index (length dated) fraction)
                 (\<lambda>k. Inr (take (nat k) dated, drop (nat k) dated))))"

section \<open>Aggregated metrics\<close>

definition fmax_list :: "pyfloat list \<Rightarrow> pyfloat" where
  "fmax_list xs = foldl fmax (hd xs) (tl xs)"

definition fmean :: "pyfloat list \<Rightarrow> pyfloat" where
  "fmean xs = fdiv (fsum xs) (float_of_int (int (length xs)))"

definition summary_profit_factor :: "symbol_metrics list \<Rightarrow> pyfloat" where
  "summary_profit_factor items =
     (let gains = fsum (map (\<lambda>m. fmax (Fin 0) (sm_total_pnl m)) items);
          gross_losses = fabs (fsum (map (\<lambda>m. fmin (Fin 0) (sm_total_pnl m)) items))
      in if feq gross_losses (Fin 0) \<and> flt (Fin 0) gains then PosInf
         else if feq gross_losses (Fin 0) then Fin 0 else fdiv gains gross_losses)"

definition summarize_metrics :: "symbol_metrics list \<Rightarrow> string \<Rightarrow> symbol_metrics res" where
  "summarize_metrics items name =
     (if items = [] then Inl (ValueError ''cannot summarize empty metrics'')
      else (let trades = sum_list (map sm_trades items); wins = sum_list (map sm_wins items) in
        Inr \<lparr>sm_symbol = name, sm_candles = sum_list (map sm_candles items), sm_trades = trades, sm_wins = wins,
           sm_losses = sum_list (map sm_losses items),
           sm_win_rate = (if trades = 0 then Fin 0 else fmul (int_div wins trades) (Fin 100)),
           sm_total_pnl = fsum (map sm_total_pnl items),
           sm_total_return_pct = fsum (map sm_total_return_pct items),
           sm_profit_factor = summary_profit_factor items,
           sm_max_drawdown_pct = fmax_list (map sm_max_drawdown_pct items),
           sm_avg_trade_return_pct = fmean (map sm_avg_trade_return_pct items),
           sm_sharpe_proxy = fmean (map sm_sharpe_proxy items), sm_last_close = sm_last_close (last items),
           sm_scan_bucket = ''OPTIMIZED'', sm_scan_reason = ''parameter optimization aggregate'',
           sm_active_entry = None, sm_active_pnl = None, sm_active_pnl_pct = None,
           sm_proximity =
             \<lparr>px_watch_score = fmean (map (\<lambda>m. px_watch_score (sm_proximity m)) items),
              px_buy_score = fmean (map (\<lambda>m. px_buy_score (sm_proximity m)) items),
              px_sell_score = fmean (map (\<lambda>m. px_sell_score (sm_proximity m)) items),
              px_orderflow_score = fmean (map (\<lambda>m. px_orderflow_score (sm_proximity m)) items),
              px_watch_missing = ''aggregate'', px_buy_missing = ''aggregate'', px_sell_missing = ''aggregate'',
              px_orderflow_reason = ''aggregate''\<rparr>,
           sm_confidence_score = fmean (map sm_confidence_score items),
           sm_confidence_reason = ''aggregate''\<rparr>))"

section \<open>Optimisation\<close>

record 'r strategy =
  sg_name :: string
  sg_replay :: "'r rows \<Rightarrow> pyfloat \<Rightarrow> symbol_metrics res"

record 'v optimization_result =
  or_rank :: int
  or_parameters :: "(string, 'v) dict"
  or_score :: pyfloat
  or_train_score :: pyfloat
  or_validation_score :: "pyfloat option"
  or_metrics :: symbol_metrics

definition min_validation_rows :: nat where
  "min_validation_rows = 210"

text \<open>The train metrics of one feature set, and its validation metrics when the validation part is long enough.\<close>

definition evaluate_dataset ::
    "('r rows \<Rightarrow> 'r rows) \<Rightarrow> 'r strategy \<Rightarrow> pyfloat \<Rightarrow> pyfloat option \<Rightarrow> 'r rows
      \<Rightarrow> (symbol_metrics \<times> symbol_metrics option) res" where
  "evaluate_dataset by_time strategy notional fraction df =
     (case fraction of
        None \<Rightarrow> bind_res (sg_replay strategy df notional) (\<lambda>m. Inr (m, None))
      | Some f \<Rightarrow>
          bind_res (split_by_time by_time f df) (\<lambda>(train, validation).
          bind_res (sg_replay strategy train notional) (\<lambda>m.
          if min_validation_rows \<le> length validation
          then bind_res (sg_replay strategy validation notional) (\<lambda>v. Inr (m, Some v))
          else Inr (m, None))))"

definition blended_score :: "pyfloat \<Rightarrow> pyfloat option \<Rightarrow> pyfloat" where
  "blended_score train validation = (case validation of
      None \<Rightarrow> train
    | Some v \<Rightarrow> fround_to (fadd (fmul train (dec 4 10)) (fmul v (dec 6 10))) 6)"

definition validation_summary ::
    "optimization_objective \<Rightarrow> symbol_metrics list \<Rightarrow> string \<Rightarrow> (symbol_metrics \<times> pyfloat) option res" where
  "validation_summary obj ms name =
     (if ms = [] then Inr None
      else bind_res (summarize_metrics ms name) (\<lambda>s. bind_res (objective_score obj s) (\<lambda>v. Inr (Some (s, v)))))"

definition evaluate_parameters ::
    "((string, 'v) dict \<Rightarrow> 'r strategy res) \<Rightarrow> ('r rows \<Rightarrow> 'r rows) \<Rightarrow> optimization_objective \<Rightarrow> pyfloat
      \<Rightarrow> pyfloat option \<Rightarrow> 'r rows list \<Rightarrow> (string, 'v) dict \<Rightarrow> 'v optimization_result res" where
  "evaluate_parameters factory by_time obj notional fraction datasets params =
     bind_res (factory params) (\<lambda>strategy.
     bind_res (map_res (evaluate_dataset by_time strategy notional fraction) datasets) (\<lambda>ms.
     bind_res (summarize_metrics (map fst ms) (sg_name strategy @ '' train'')) (\<lambda>train.
     bind_res (objective_score obj train) (\<lambda>train_score.
     bind_res (validation_summary obj (List.map_filter snd ms) (sg_name strategy @ '' validation'')) (\<lambda>validation.
     Inr \<lparr>or_rank = 0, or_parameters = params,
          or_score = blended_score train_score (map_option snd validation), or_train_score = train_score,
          or_validation_score = map_option snd validation,
          or_metrics = (case validation of None \<Rightarrow> train | Some (s, _) \<Rightarrow> s)\<rparr>)))))"

text \<open>\<open>sorted(results, key=score, reverse=True)\<close>: stable, larger scores first.\<close>

fun insert_ranked :: "'v optimization_result \<Rightarrow> 'v optimization_result list \<Rightarrow> 'v optimization_result list" where
  "insert_ranked r [] = [r]"
| "insert_ranked r (x # xs) = (if flt (or_score r) (or_score x) then x # insert_ranked r xs else r # x # xs)"

definition sort_ranked :: "'v optimization_result list \<Rightarrow> 'v optimization_result list" where
  "sort_ranked rs = foldr insert_ranked rs []"

definition assign_ranks :: "'v optimization_result list \<Rightarrow> 'v optimization_result list" where
  "assign_ranks rs = map (\<lambda>(i, r). r\<lparr>or_rank := int i + 1\<rparr>) (enumerate 0 rs)"

definition optimize_parameters ::
    "((string, 'v) dict \<Rightarrow> 'r strategy res) \<Rightarrow> ('r rows \<Rightarrow> 'r rows) \<Rightarrow> optimization_objective option \<Rightarrow> pyfloat
      \<Rightarrow> pyfloat option \<Rightarrow> 'r rows list \<Rightarrow> 'v parameter_spec list \<Rightarrow> 'v optimization_result list res" where
  "optimize_parameters factory by_time objective notional fraction feature_sets specs =
     (let obj = (case objective of None \<Rightarrow> default_objective | Some x \<Rightarrow> x);
          datasets = filter (\<lambda>df. df \<noteq> []) feature_sets
      in if datasets = [] then Inl (ValueError ''at least one non-empty feature set is required'')
         else bind_res (map_res (evaluate_parameters factory by_time obj notional fraction datasets) (parameter_grid specs))
                (\<lambda>results. Inr (assign_ranks (sort_ranked results))))"

section \<open>The ranking\<close>

lemma mset_insert_ranked: "mset (insert_ranked r rs) = {#r#} + mset rs"
  by (induction rs) auto

lemma mset_sort_ranked: "mset (sort_ranked rs) = mset rs"
  by (induction rs) (auto simp: sort_ranked_def mset_insert_ranked)

lemma set_sort_ranked: "set (sort_ranked rs) = set rs"
  by (metis mset_sort_ranked set_mset_mset)

lemma length_sort_ranked [simp]: "length (sort_ranked rs) = length rs"
  by (metis mset_sort_ranked size_mset)

definition descending :: "'v optimization_result list \<Rightarrow> bool" where
  "descending = sorted_wrt (\<lambda>x y. fle (or_score y) (or_score x))"

lemma insert_ranked_descending:
  "descending rs \<Longrightarrow> \<forall>x\<in>set (r # rs). or_score x \<noteq> NaN \<Longrightarrow> descending (insert_ranked r rs)"
proof (induction rs)
  case (Cons x xs)
  have set: "set (insert_ranked r xs) = insert r (set xs)"
    using mset_insert_ranked[of r xs] by (metis set_mset_mset set_mset_add_mset_insert union_mset_add_mset_left empty_neutral(1))
  show ?case
  proof (cases "flt (or_score r) (or_score x)")
    case True
    with Cons set show ?thesis by (auto simp: descending_def flt_imp_fle)
  next
    case False
    with Cons.prems have "fle (or_score x) (or_score r)" by (simp add: not_flt)
    with Cons.prems(1) False show ?thesis by (auto simp: descending_def intro: fle_trans)
  qed
qed (simp add: descending_def)

lemma sort_ranked_descending: "\<forall>x\<in>set rs. or_score x \<noteq> NaN \<Longrightarrow> descending (sort_ranked rs)"
proof (induction rs)
  case (Cons r rs)
  then have "descending (insert_ranked r (sort_ranked rs))"
    by (intro insert_ranked_descending) (auto simp: set_sort_ranked)
  then show ?case by (simp add: sort_ranked_def)
qed (simp add: sort_ranked_def descending_def)

text \<open>Equal scores keep the order of the grid: the sort is stable.\<close>

lemma sort_ranked_stable:
  "\<forall>x\<in>set rs. or_score x \<noteq> NaN \<Longrightarrow> filter (\<lambda>r. or_score r = s) (sort_ranked rs) = filter (\<lambda>r. or_score r = s) rs"
proof (induction rs)
  case (Cons r rs)
  have ins: "filter (\<lambda>r. or_score r = s) (insert_ranked r xs) =
      (if or_score r = s then r # filter (\<lambda>r. or_score r = s) xs else filter (\<lambda>r. or_score r = s) xs)"
    if "descending xs" for xs :: "'a optimization_result list"
    using that
  proof (induction xs)
    case (Cons x xs)
    then show ?case by (auto simp: descending_def)
  qed simp
  have "sort_ranked (r # rs) = insert_ranked r (sort_ranked rs)" by (simp add: sort_ranked_def)
  with Cons ins[OF sort_ranked_descending] show ?case by simp
qed (simp add: sort_ranked_def)

lemma assign_ranks_nth: "i < length rs \<Longrightarrow> assign_ranks rs ! i = (rs ! i)\<lparr>or_rank := int i + 1\<rparr>"
  by (simp add: assign_ranks_def nth_enumerate_eq)

lemma length_assign_ranks [simp]: "length (assign_ranks rs) = length rs"
  by (simp add: assign_ranks_def)

lemma map_assign_ranks: "(\<And>r k. f (r\<lparr>or_rank := k\<rparr>) = f r) \<Longrightarrow> map f (assign_ranks rs) = map f rs"
  by (intro nth_equalityI) (simp_all add: assign_ranks_nth)

lemma evaluate_parameters_fields:
  assumes "evaluate_parameters factory by_time obj notional fraction datasets params = Inr r"
  shows "or_parameters r = params \<and> or_score r = blended_score (or_train_score r) (or_validation_score r)"
  using assms by (auto simp: evaluate_parameters_def bind_res_eq_Inr)

lemma length_cartesian: "length (cartesian xss) = prod_list (map length xss)"
  by (induction xss) (simp_all add: length_concat comp_def sum_list_triv)

lemma length_parameter_grid: "length (parameter_grid specs) = prod_list (map (length \<circ> sp_values) specs)"
  by (simp add: parameter_grid_def length_cartesian comp_def)

text \<open>\<open>C33\<close>: An optimisation that returns has one result for every point of the grid, whose size is the
  product of the numbers of candidate values; the ranks run from 1 in steps of 1, scores never increase down
  the ranking (they are numbers, not NaN), and each score is the train score or, with a validation part,
  the weighted mean of train and validation score.\<close>

theorem optimization_ranking:
  assumes "optimize_parameters factory by_time objective notional fraction feature_sets specs = Inr results"
    and "\<forall>r\<in>set results. or_score r \<noteq> NaN"
  shows "mset (map or_parameters results) = mset (parameter_grid specs) \<and>
     length results = prod_list (map (length \<circ> sp_values) specs) \<and>
     (\<forall>i<length results. or_rank (results ! i) = int i + 1 \<and>
        or_score (results ! i) = blended_score (or_train_score (results ! i)) (or_validation_score (results ! i))) \<and>
     sorted_wrt (\<lambda>x y. fle (or_score y) (or_score x)) results"
proof -
  obtain obj datasets rs where rs: "map_res (evaluate_parameters factory by_time obj notional fraction datasets)
      (parameter_grid specs) = Inr rs" "results = assign_ranks (sort_ranked rs)"
    using assms(1) by (auto simp: optimize_parameters_def Let_def bind_res_eq_Inr split: if_splits)
  then have all: "list_all2 (\<lambda>p r. or_parameters r = p \<and>
      or_score r = blended_score (or_train_score r) (or_validation_score r)) (parameter_grid specs) rs"
    by (auto simp: map_res_Inr_iff dest!: evaluate_parameters_fields elim: list_all2_mono)
  then have par: "map or_parameters rs = parameter_grid specs" and len: "length rs = length (parameter_grid specs)"
    and sc: "\<forall>r\<in>set rs. or_score r = blended_score (or_train_score r) (or_validation_score r)"
    by (auto simp: list_all2_conv_all_nth in_set_conv_nth intro!: nth_equalityI)
  have "map or_score results = map or_score (sort_ranked rs)"
    unfolding rs(2) by (rule map_assign_ranks) simp
  then have nan: "\<forall>r\<in>set rs. or_score r \<noteq> NaN"
    using assms(2) by (metis (no_types, lifting) in_set_conv_nth length_map nth_map set_sort_ranked)
  have "mset (map or_parameters results) = mset (map or_parameters (sort_ranked rs))"
    unfolding rs(2) by (subst map_assign_ranks) simp_all
  also have "\<dots> = mset (parameter_grid specs)" by (simp add: mset_map mset_sort_ranked flip: par)
  finally have perm: "mset (map or_parameters results) = mset (parameter_grid specs)" .
  have "sorted_wrt (\<lambda>x y. fle (or_score y) (or_score x)) results"
    using sort_ranked_descending[OF nan] by (auto simp: descending_def sorted_wrt_iff_nth_less rs(2) assign_ranks_nth)
  moreover have "or_score (results ! i) = blended_score (or_train_score (results ! i)) (or_validation_score (results ! i))"
    if "i < length results" for i
    using that sc nth_mem[of i "sort_ranked rs"] by (simp add: rs(2) assign_ranks_nth set_sort_ranked)
  ultimately show ?thesis using perm len by (simp add: length_parameter_grid rs(2) assign_ranks_nth)
qed

text \<open>Two grid points whose strategy returns the parameter itself: the second one wins.\<close>

definition flat_metrics :: "rat \<Rightarrow> symbol_metrics" where
  "flat_metrics q = \<lparr>sm_symbol = ''X'', sm_candles = 300, sm_trades = 5, sm_wins = 3, sm_losses = 2,
     sm_win_rate = Fin 60, sm_total_pnl = Fin 0, sm_total_return_pct = Fin q, sm_profit_factor = Fin 0,
     sm_max_drawdown_pct = Fin 0, sm_avg_trade_return_pct = Fin 0, sm_sharpe_proxy = Fin 0, sm_last_close = Fin 1,
     sm_scan_bucket = [], sm_scan_reason = [], sm_active_entry = None, sm_active_pnl = None, sm_active_pnl_pct = None,
     sm_proximity = \<lparr>px_watch_score = Fin 0, px_buy_score = Fin 0, px_sell_score = Fin 0, px_orderflow_score = Fin 0,
       px_watch_missing = [], px_buy_missing = [], px_sell_missing = [], px_orderflow_reason = []\<rparr>,
     sm_confidence_score = Fin 0, sm_confidence_reason = []\<rparr>"

definition echo_factory :: "(string, rat) dict \<Rightarrow> unit strategy res" where
  "echo_factory params = Inr \<lparr>sg_name = ''echo'', sg_replay = (\<lambda>_ _. Inr (flat_metrics (dict_get_or params ''k'' 0)))\<rparr>"

definition echo_specs :: "rat parameter_spec list" where
  "echo_specs = [\<lparr>sp_name = ''k'', sp_values = [1, 2]\<rparr>]"

lemma echo_score:
  assumes "q \<in> {1, 2}"
  shows "\<exists>m. evaluate_parameters echo_factory id default_objective (Fin 1000) None [[(None, ())]] [(''k'', q)] =
    Inr \<lparr>or_rank = 0, or_parameters = [(''k'', q)], or_score = Fin q, or_train_score = Fin q,
         or_validation_score = None, or_metrics = m\<rparr>"
  using assms
  by (auto simp: evaluate_parameters_def echo_factory_def evaluate_dataset_def summarize_metrics_def Let_def
      flat_metrics_def objective_score_def default_objective_def validation_summary_def List.map_filter_def
      summary_profit_factor_def fmean_def fmax_list_def fmin_def fmax_def feq_def rhe_def blended_score_def
      float_of_int_def ftruth_def dict_get_or_def)

lemma echo_optimization:
  "\<exists>results. optimize_parameters echo_factory id None (Fin 1000) None [[(None, ())], []] echo_specs = Inr results \<and>
     map or_parameters results = [[(''k'', 2)], [(''k'', 1)]] \<and> map or_score results = [Fin 2, Fin 1]"
proof -
  obtain m m' where m: "evaluate_parameters echo_factory id default_objective (Fin 1000) None [[(None, ())]] [(''k'', 1)] =
      Inr \<lparr>or_rank = 0, or_parameters = [(''k'', 1)], or_score = Fin 1, or_train_score = Fin 1,
           or_validation_score = None, or_metrics = m\<rparr>"
    "evaluate_parameters echo_factory id default_objective (Fin 1000) None [[(None, ())]] [(''k'', 2)] =
      Inr \<lparr>or_rank = 0, or_parameters = [(''k'', 2)], or_score = Fin 2, or_train_score = Fin 2,
           or_validation_score = None, or_metrics = m'\<rparr>"
    using echo_score[of 1] echo_score[of 2] by blast
  have g: "parameter_grid echo_specs = [[(''k'', 1)], [(''k'', 2)]]" by (simp add: parameter_grid_def echo_specs_def)
  show ?thesis
    by (simp add: optimize_parameters_def g m sort_ranked_def assign_ranks_def)
qed

theorem optimization_ranking_witness:
  "\<exists>results. optimize_parameters echo_factory id None (Fin 1000) None [[(None, ())], []] echo_specs = Inr results \<and>
     length results = 2 \<and> or_rank (results ! 0) = 1 \<and> or_score (results ! 0) = Fin 2"
proof -
  obtain rs where rs: "optimize_parameters echo_factory id None (Fin 1000) None [[(None, ())], []] echo_specs = Inr rs"
      "map or_score rs = [Fin 2, Fin 1]"
    using echo_optimization by (elim exE conjE)
  then obtain r r' where two: "rs = [r, r']" "or_score r = Fin 2" "or_score r' = Fin 1" by auto
  then have "\<forall>r\<in>set rs. or_score r \<noteq> NaN" by simp
  from optimization_ranking[OF rs(1) this] have "or_rank (rs ! 0) = 1" using two(1) by auto
  with rs(1) two show ?thesis by simp
qed

section \<open>The split\<close>

definition time_key :: "instant option \<times> 'r \<Rightarrow> instant" where
  "time_key r = the (fst r)"

lemma split_index_bounds:
  assumes "split_index n fraction = Inr k"
  shows "1 \<le> k \<and> (2 \<le> n \<longrightarrow> k < int n)"
  using assms by (auto simp: split_index_def bind_res_eq_Inr)

lemma split_index_total:
  assumes "n \<le> 2 ^ 53" and "flt (Fin 0) fraction" and "flt fraction (Fin 1)"
  shows "\<exists>k. split_index n fraction = Inr k"
proof -
  obtain q where q: "fraction = Fin q" "0 < q" "q < 1" using assms by (cases fraction) auto
  have "fle (Fin (of_int 0)) (fround (1 - q))" "fle (fround (1 - q)) (Fin (of_int 1))"
    using q by (intro fround_ge_int fround_le_int; simp)+
  then obtain p where p: "fround (1 - q) = Fin p" "0 \<le> p" "p \<le> 1" by (cases "fround (1 - q)") auto
  have "int n \<le> int (2 ^ 53)" using assms(1) by (simp only: of_nat_le_iff)
  then have "\<bar>int n\<bar> \<le> 2 ^ 53" by simp
  from fround_int[OF this] have n: "float_of_int (int n) = Fin (of_nat n)" by (simp add: float_of_int_def)
  have "rat_of_nat n * p \<le> of_nat n" using p by (simp add: mult_left_le)
  then have "fle (Fin (of_int 0)) (fround (of_nat n * p))" "fle (fround (of_nat n * p)) (Fin (of_int (int n)))"
    using p \<open>\<bar>int n\<bar> \<le> 2 ^ 53\<close> by (intro fround_ge_int fround_le_int; simp)+
  then obtain x where "fround (of_nat n * p) = Fin x" by (cases "fround (of_nat n * p)") auto
  then show ?thesis by (auto simp: split_index_def n q(1) p(1) trunc_int_def)
qed

text \<open>Given a sort by time, a split with a fraction between 0 and 1 of at most \<open>2 ^ 53\<close> rows returns,
  loses only the rows without a time, never lets a training row lie after a validation row, and with two or
  more dated rows leaves neither part empty.\<close>

theorem split_has_no_lookahead:
  assumes "df \<noteq> []" and "flt (Fin 0) fraction" and "flt fraction (Fin 1)" and "length df \<le> 2 ^ 53"
    and sort: "\<And>rs. mset (by_time rs) = mset rs \<and> sorted_wrt (\<lambda>x y. time_key x \<le> time_key y) (by_time rs)"
  shows "\<exists>train validation. split_by_time by_time fraction df = Inr (train, validation) \<and>
     mset train + mset validation = filter_mset (\<lambda>r. fst r \<noteq> None) (mset df) \<and>
     (\<forall>x\<in>set train. \<forall>y\<in>set validation. time_key x \<le> time_key y) \<and>
     (2 \<le> length (filter (\<lambda>r. fst r \<noteq> None) df) \<longrightarrow> train \<noteq> [] \<and> validation \<noteq> [])"
proof -
  let ?d = "filter (\<lambda>r. fst r \<noteq> None) df" and ?s = "by_time (filter (\<lambda>r. fst r \<noteq> None) df)"
  have len: "length ?s = length ?d" using sort[of ?d] by (metis size_mset)
  also have "\<dots> \<le> 2 ^ 53" using assms(4) length_filter_le[of _ df] by (rule le_trans[rotated])
  finally obtain k where k: "split_index (length ?s) fraction = Inr k"
    using split_index_total assms(2,3) by blast
  let ?k = "nat k"
  have run: "split_by_time by_time fraction df = Inr (take ?k ?s, drop ?k ?s)"
    using assms(1-3) k by (simp add: split_by_time_def Let_def)
  have "mset (take ?k ?s) + mset (drop ?k ?s) = mset ?d"
    using sort[of ?d] by (metis append_take_drop_id mset_append)
  moreover have "\<forall>x\<in>set (take ?k ?s). \<forall>y\<in>set (drop ?k ?s). time_key x \<le> time_key y"
    using sort[of ?d] by (metis append_take_drop_id sorted_wrt_append)
  moreover have "2 \<le> length ?d \<Longrightarrow> take ?k ?s \<noteq> [] \<and> drop ?k ?s \<noteq> []"
    using split_index_bounds[OF k] len by auto
  ultimately show ?thesis using run by (auto simp: mset_filter)
qed

theorem split_has_no_lookahead_witness:
  "\<exists>train validation. split_by_time (sort_key time_key) (Fin (1 / 4)) [(Some 9, ''b''), (None, ''x''), (Some 4, ''a'')] =
     Inr (train, validation) \<and> train \<noteq> [] \<and> validation \<noteq> []"
proof -
  have s: "mset (sort_key time_key rs) = mset rs \<and>
      sorted_wrt (\<lambda>x y. time_key x \<le> time_key y) (sort_key time_key rs)" for rs :: "string rows"
    using sorted_sort_key[of time_key rs] by (simp add: sorted_map)
  have "2 \<le> length (filter (\<lambda>r. fst r \<noteq> None) [(Some (9::instant), ''b''), (None, ''x''), (Some 4, ''a'')])" by simp
  with split_has_no_lookahead[of "[(Some 9, ''b''), (None, ''x''), (Some 4, ''a'')]" "Fin (1 / 4)" "sort_key time_key", OF _ _ _ _ s]
  show ?thesis by fastforce
qed

end
