(* ===== verification/Exits.thy ===== *)
theory Exits
  imports Py_Text Py_Literals
begin

text \<open>
  \<open>strategies/exits.py\<close>: the exit rules of the daily and of the five-minute strategies. A feature row
  and an open trade are the dictionaries the code reads by key; a missing key is a \<open>KeyError\<close>. The flags
  the code reads with a default (\<open>is_complete\<close>, \<open>partial_taken\<close>) and the bar count are fields of their own.
\<close>

record price_row =
  pr_values :: "(string, pyfloat) dict"
  pr_is_complete :: "bool option"

record open_trade =
  ot_values :: "(string, pyfloat) dict"
  ot_partial_taken :: "bool option"
  ot_bars :: "int option"

definition value_at :: "(string, pyfloat) dict \<Rightarrow> string \<Rightarrow> pyfloat res" where
  "value_at d k = (case dict_get d k of None \<Rightarrow> Inl (KeyError k) | Some x \<Rightarrow> Inr x)"

record daily_exit_config =
  dx_hard_stop_atr_mult :: pyfloat
  dx_atr_trail_mult :: pyfloat
  dx_trend_column :: string
  dx_time_stop_bars :: int
  dx_time_stop_min_pnl_pct :: pyfloat

definition default_daily_exit :: daily_exit_config where
  "default_daily_exit = \<lparr>dx_hard_stop_atr_mult = Fin 2, dx_atr_trail_mult = Fin 2, dx_trend_column = ''ema20'',
     dx_time_stop_bars = 25, dx_time_stop_min_pnl_pct = Fin 3\<rparr>"

definition daily_exit_priority :: "string list" where
  "daily_exit_priority = [''HARD_STOP'', ''ATR_TRAIL'', ''TREND_BREAK'', ''TIME_STOP'']"

record daily_exit_decision =
  dd_reason :: string
  dd_exit_price :: pyfloat
  dd_stop_price :: pyfloat
  dd_mfe_pct :: pyfloat
  dd_mae_pct :: pyfloat

record burst_params =
  bp_atr_mult :: pyfloat
  bp_ema_stop_len :: int
  bp_ema_fast_len :: int
  bp_tp_rr :: pyfloat

record sell_decision =
  sd_signal_type :: string
  sd_reason :: string
  sd_exit_price :: "pyfloat option"
  sd_partial_qty :: pyfloat
  sd_stop_price :: "pyfloat option"
  sd_force_shutdown :: bool
  sd_bypass_daily_pnl_limits :: bool
  sd_cancel_protection :: bool
  sd_replace_protection :: bool

section \<open>Five-minute rules\<close>

definition partial_profit_usd :: pyfloat where "partial_profit_usd = Fin 100"
definition partial_tp_fraction :: pyfloat where "partial_tp_fraction = dec 50 100"
definition default_min_notional :: pyfloat where "default_min_notional = Fin 5"

definition five_min_atr_burst_params :: "string \<Rightarrow> burst_params" where
  "five_min_atr_burst_params symbol =
     (let n = str_upper (remove_char CHR ''/'' symbol)
      in if startswith n ''SOL'' then \<lparr>bp_atr_mult = dec 15 10, bp_ema_stop_len = 33, bp_ema_fast_len = 10, bp_tp_rr = Fin 1\<rparr>
         else if startswith n ''ETH'' then \<lparr>bp_atr_mult = Fin 2, bp_ema_stop_len = 21, bp_ema_fast_len = 20, bp_tp_rr = Fin 0\<rparr>
         else \<lparr>bp_atr_mult = dec 15 10, bp_ema_stop_len = 33, bp_ema_fast_len = 20,
               bp_tp_rr = (if startswith n ''BTC'' then Fin 1 else Fin 0)\<rparr>)"

definition initial_five_min_stop :: "pyfloat \<Rightarrow> pyfloat \<Rightarrow> pyfloat \<Rightarrow> pyfloat" where
  "initial_five_min_stop entry atr mult =
     (let stop = fsub entry (fmul mult atr);
          stop = (if fle entry stop then fsub entry atr else stop)
      in fmax (dec 1 1000000) stop)"

text \<open>The reward-to-risk target and the dollar target of the partial exit.\<close>

definition rr_target_hit :: "pyfloat \<Rightarrow> pyfloat \<Rightarrow> pyfloat \<Rightarrow> pyfloat \<Rightarrow> bool" where
  "rr_target_hit tp_rr entry stop high =
     (let risk = fmax (Fin 0) (fsub entry stop)
      in flt (Fin 0) tp_rr \<and> flt (Fin 0) risk \<and> fle (fadd entry (fmul tp_rr risk)) high)"

definition usd_target_hit :: "pyfloat \<Rightarrow> pyfloat \<Rightarrow> bool" where
  "usd_target_hit entry high =
     (let qty = (if flt (Fin 0) entry then fdiv partial_profit_usd entry else Fin 0)
      in fle partial_profit_usd (fmul (fsub high entry) qty))"

definition partial_tp :: "pyfloat \<Rightarrow> pyfloat \<Rightarrow> bool \<Rightarrow> bool \<Rightarrow> sell_decision" where
  "partial_tp entry high rr_hit force =
     \<lparr>sd_signal_type = ''PARTIAL_TP'', sd_reason = (if rr_hit then ''partial_tp_rr'' else ''partial_tp_usd''),
      sd_exit_price = Some high, sd_partial_qty = partial_tp_fraction, sd_stop_price = Some entry,
      sd_force_shutdown = force, sd_bypass_daily_pnl_limits = False, sd_cancel_protection = force,
      sd_replace_protection = (\<not> force)\<rparr>"

definition five_min_partial_tp_decision ::
    "price_row \<Rightarrow> open_trade \<Rightarrow> pyfloat \<Rightarrow> pyfloat \<Rightarrow> sell_decision option res" where
  "five_min_partial_tp_decision row trade tp_rr min_notional =
     (if ot_partial_taken trade = Some True then Inr None
      else bind_res (value_at (ot_values trade) ''entry'') (\<lambda>entry.
           bind_res (value_at (pr_values row) ''high'') (\<lambda>high.
           bind_res (value_at (ot_values trade) ''stop'') (\<lambda>stop.
           let remaining = dict_get_or (ot_values trade) ''remaining'' (Fin 1);
               notional = dict_get_or (ot_values trade) ''notional'' (Fin 100);
               rr_hit = rr_target_hit tp_rr entry stop high
           in if \<not> (rr_hit \<or> usd_target_hit entry high) then Inr None
              else (let after = fmul remaining (fsub (Fin 1) partial_tp_fraction)
                    in Inr (Some (partial_tp entry high rr_hit (flt (fmul notional after) min_notional))))))))"

definition final_exit :: "string \<Rightarrow> pyfloat \<Rightarrow> pyfloat \<Rightarrow> sell_decision" where
  "final_exit reason price stop =
     \<lparr>sd_signal_type = ''FINAL_EXIT'', sd_reason = reason, sd_exit_price = Some price, sd_partial_qty = Fin 0,
      sd_stop_price = Some stop, sd_force_shutdown = False, sd_bypass_daily_pnl_limits = False,
      sd_cancel_protection = True, sd_replace_protection = False\<rparr>"

definition five_min_final_exit_decision :: "price_row \<Rightarrow> open_trade \<Rightarrow> sell_decision option res" where
  "five_min_final_exit_decision row trade =
     bind_res (value_at (pr_values row) ''close'') (\<lambda>close.
     bind_res (value_at (pr_values row) ''low'') (\<lambda>low.
     bind_res (value_at (ot_values trade) ''stop'') (\<lambda>stop.
     let ema_fast = dict_get_or (pr_values row) ''kcj_ema_fast''
           (dict_get_or (pr_values row) ''exit_ema_fast'' (dict_get_or (pr_values row) ''ema20'' close))
     in Inr (if fle low stop then Some (final_exit ''ATR_STOP'' stop stop)
             else if flt close ema_fast then Some (final_exit ''MA_EXIT'' close stop) else None))))"

definition emergency_exit :: "pyfloat \<Rightarrow> pyfloat \<Rightarrow> sell_decision" where
  "emergency_exit price stop =
     \<lparr>sd_signal_type = ''EMERGENCY_EXIT'', sd_reason = ''EMERGENCY_ATR_BURST'', sd_exit_price = Some price,
      sd_partial_qty = Fin 0, sd_stop_price = Some stop, sd_force_shutdown = True,
      sd_bypass_daily_pnl_limits = True, sd_cancel_protection = True, sd_replace_protection = False\<rparr>"

definition five_min_emergency_exit_decision ::
    "price_row \<Rightarrow> open_trade \<Rightarrow> pyfloat \<Rightarrow> pyfloat \<Rightarrow> sell_decision option res" where
  "five_min_emergency_exit_decision row trade previous_atr mult =
     (if pr_is_complete row \<noteq> Some False then Inr None
      else bind_res (value_at (pr_values row) ''open'') (\<lambda>op.
           bind_res (value_at (pr_values row) ''close'') (\<lambda>close.
           bind_res (value_at (pr_values row) ''low'') (\<lambda>low.
           let adverse = fmax (fabs (fsub close op)) (fabs (fsub low op))
           in if flt close op \<and> fle (fmul mult previous_atr) adverse
              then bind_res (value_at (ot_values trade) ''stop'') (\<lambda>stop. Inr (Some (emergency_exit close stop)))
              else Inr None))))"

section \<open>Daily rules\<close>

definition pct_of_entry :: "pyfloat \<Rightarrow> pyfloat \<Rightarrow> pyfloat" where
  "pct_of_entry x entry =
     (if flt (Fin 0) entry then fmul (fdiv (fsub x entry) entry) (Fin 100) else Fin 0)"

definition atr_stop :: "pyfloat \<Rightarrow> pyfloat \<Rightarrow> pyfloat \<Rightarrow> pyfloat" where
  "atr_stop level mult atr = fmax (dec 1 1000000) (fsub level (fmul mult atr))"

text \<open>The levels of the bar: the extremes so far, both stops, and the trade after its update.\<close>

record daily_levels =
  dl_highest :: pyfloat
  dl_lowest :: pyfloat
  dl_hard_stop :: pyfloat
  dl_trail_stop :: pyfloat
  dl_stop :: pyfloat
  dl_mfe :: pyfloat
  dl_mae :: pyfloat

definition daily_levels_of ::
    "daily_exit_config \<Rightarrow> open_trade \<Rightarrow> pyfloat \<Rightarrow> pyfloat \<Rightarrow> pyfloat \<Rightarrow> pyfloat \<Rightarrow> daily_levels" where
  "daily_levels_of c trade entry high low atr =
     (let highest = fmax (dict_get_or (ot_values trade) ''highest_high'' entry) high;
          lowest = fmin (dict_get_or (ot_values trade) ''lowest_low'' entry) low;
          hard = atr_stop entry (dx_hard_stop_atr_mult c) atr;
          trail = atr_stop highest (dx_atr_trail_mult c) atr
      in \<lparr>dl_highest = highest, dl_lowest = lowest, dl_hard_stop = hard, dl_trail_stop = trail,
          dl_stop = fmax (fmax (dict_get_or (ot_values trade) ''stop'' hard) hard) trail,
          dl_mfe = pct_of_entry highest entry, dl_mae = pct_of_entry lowest entry\<rparr>)"

definition update_trade :: "daily_levels \<Rightarrow> open_trade \<Rightarrow> open_trade" where
  "update_trade l trade = trade\<lparr>ot_values :=
     dict_set ''stop'' (dl_stop l) (dict_set ''mae_pct'' (dl_mae l) (dict_set ''mfe_pct'' (dl_mfe l)
       (dict_set ''lowest_low'' (dl_lowest l) (dict_set ''highest_high'' (dl_highest l) (ot_values trade)))))\<rparr>"

definition daily_decision :: "daily_levels \<Rightarrow> string \<Rightarrow> pyfloat \<Rightarrow> pyfloat \<Rightarrow> daily_exit_decision" where
  "daily_decision l reason close stop = \<lparr>dd_reason = reason, dd_exit_price = close, dd_stop_price = stop,
     dd_mfe_pct = dl_mfe l, dd_mae_pct = dl_mae l\<rparr>"

definition decide_daily ::
    "daily_exit_config \<Rightarrow> daily_levels \<Rightarrow> (string, pyfloat) dict \<Rightarrow> open_trade \<Rightarrow> pyfloat \<Rightarrow> pyfloat \<Rightarrow>
     daily_exit_decision option res" where
  "decide_daily c l row trade close entry =
     (if fle close (dl_hard_stop l) then Inr (Some (daily_decision l ''HARD_STOP'' close (dl_hard_stop l)))
      else if flt close (dl_trail_stop l) then Inr (Some (daily_decision l ''ATR_TRAIL'' close (dl_trail_stop l)))
      else bind_res (value_at row (dx_trend_column c)) (\<lambda>trend.
        if flt close trend then Inr (Some (daily_decision l ''TREND_BREAK'' close trend))
        else (case ot_bars trade of
            None \<Rightarrow> Inl (KeyError ''bars'')
          | Some bars \<Rightarrow>
              if dx_time_stop_bars c < bars \<and> flt (pct_of_entry close entry) (dx_time_stop_min_pnl_pct c)
              then Inr (Some (daily_decision l ''TIME_STOP'' close (dl_stop l))) else Inr None)))"

definition daily_timeframe_exit ::
    "daily_exit_config \<Rightarrow> price_row \<Rightarrow> open_trade \<Rightarrow> (open_trade, daily_exit_decision option) outcome" where
  "daily_timeframe_exit c row trade =
     (case bind_res (value_at (pr_values row) ''close'') (\<lambda>close.
           bind_res (value_at (pr_values row) ''high'') (\<lambda>high.
           bind_res (value_at (pr_values row) ''low'') (\<lambda>low.
           bind_res (value_at (pr_values row) ''atr14'') (\<lambda>atr.
           bind_res (value_at (ot_values trade) ''entry'') (\<lambda>entry. Inr (close, high, low, atr, entry)))))) of
        Inl e \<Rightarrow> (trade, Inl e)
      | Inr (close, high, low, atr, entry) \<Rightarrow>
          (let l = daily_levels_of c trade entry high low atr
           in (update_trade l trade, decide_daily c l (pr_values row) trade close entry)))"

section \<open>Priority of the daily exits\<close>

definition daily_triggers ::
    "daily_exit_config \<Rightarrow> daily_levels \<Rightarrow> pyfloat \<Rightarrow> int \<Rightarrow> pyfloat \<Rightarrow> pyfloat \<Rightarrow> string \<Rightarrow> bool" where
  "daily_triggers c l trend bars close entry reason =
     (if reason = ''HARD_STOP'' then fle close (dl_hard_stop l)
      else if reason = ''ATR_TRAIL'' then flt close (dl_trail_stop l)
      else if reason = ''TREND_BREAK'' then flt close trend
      else dx_time_stop_bars c < bars \<and> flt (pct_of_entry close entry) (dx_time_stop_min_pnl_pct c))"

lemma daily_timeframe_exit_eq:
  assumes "value_at (pr_values row) ''close'' = Inr close" "value_at (pr_values row) ''high'' = Inr high"
    "value_at (pr_values row) ''low'' = Inr low" "value_at (pr_values row) ''atr14'' = Inr atr"
    "value_at (ot_values trade) ''entry'' = Inr entry"
  shows "daily_timeframe_exit c row trade =
     (let l = daily_levels_of c trade entry high low atr
      in (update_trade l trade, decide_daily c l (pr_values row) trade close entry))"
  using assms by (simp add: daily_timeframe_exit_def)

text \<open>The daily exit stack follows its documented priority: the reason of the decision is the first
  of hard stop, ATR trail, trend break, time stop whose condition holds, the trade stays open exactly if
  none holds, and an exit is at the close.\<close>

theorem daily_exit_follows_priority:
  assumes "value_at (pr_values row) ''close'' = Inr close" "value_at (pr_values row) ''high'' = Inr high"
    "value_at (pr_values row) ''low'' = Inr low" "value_at (pr_values row) ''atr14'' = Inr atr"
    "value_at (ot_values trade) ''entry'' = Inr entry"
    and "value_at (pr_values row) (dx_trend_column c) = Inr trend" and "ot_bars trade = Some bars"
  shows "\<exists>d. snd (daily_timeframe_exit c row trade) = Inr d \<and>
     map_option dd_reason d =
       find_first (daily_triggers c (daily_levels_of c trade entry high low atr) trend bars close entry) daily_exit_priority \<and>
     (d = None \<or> map_option dd_exit_price d = Some close)"
  using assms(6,7)
  by (simp add: daily_timeframe_exit_eq[OF assms(1-5)] Let_def decide_daily_def daily_triggers_def
      daily_exit_priority_def daily_decision_def)

definition sample_row :: "pyfloat \<Rightarrow> pyfloat \<Rightarrow> price_row" where
  "sample_row close atr = \<lparr>pr_values = [(''close'', close), (''high'', close), (''low'', close), (''atr14'', atr),
     (''ema20'', Fin 100)], pr_is_complete = None\<rparr>"

definition sample_open_trade :: open_trade where
  "sample_open_trade = \<lparr>ot_values = [(''entry'', Fin 100), (''stop'', Fin 120), (''highest_high'', Fin 130)],
     ot_partial_taken = None, ot_bars = Some 1\<rparr>"

lemma sample_values:
  "value_at (pr_values (sample_row close atr)) ''close'' = Inr close"
  "value_at (pr_values (sample_row close atr)) ''high'' = Inr close"
  "value_at (pr_values (sample_row close atr)) ''low'' = Inr close"
  "value_at (pr_values (sample_row close atr)) ''atr14'' = Inr atr"
  "value_at (pr_values (sample_row close atr)) ''ema20'' = Inr (Fin 100)"
  "value_at (ot_values sample_open_trade) ''entry'' = Inr (Fin 100)"
  by (simp_all add: value_at_def sample_row_def sample_open_trade_def)

theorem daily_exit_follows_priority_witness:
  "\<exists>d. snd (daily_timeframe_exit default_daily_exit (sample_row (Fin 110) (Fin 5)) sample_open_trade) = Inr d \<and>
     map_option dd_reason d = Some ''ATR_TRAIL''"
proof -
  have t: "value_at (pr_values (sample_row (Fin 110) (Fin 5))) (dx_trend_column default_daily_exit) = Inr (Fin 100)"
    "ot_bars sample_open_trade = Some 1"
    by (simp_all add: sample_values default_daily_exit_def) (simp add: sample_open_trade_def)
  have "find_first (daily_triggers default_daily_exit (daily_levels_of default_daily_exit sample_open_trade (Fin 100)
      (Fin 110) (Fin 110) (Fin 5)) (Fin 100) 1 (Fin 110) (Fin 100)) daily_exit_priority = Some ''ATR_TRAIL''"
    by (simp add: daily_triggers_def daily_exit_priority_def daily_levels_of_def sample_open_trade_def atr_stop_def
        default_daily_exit_def dict_get_or_def fmax_def dec_lits Let_def)
  with daily_exit_follows_priority[OF sample_values(1-4,6) t] show ?thesis by auto
qed

section \<open>The recorded stop\<close>

lemma fmax_not_NaN: "a \<noteq> NaN \<Longrightarrow> fmax a b \<noteq> NaN"
  by (cases a; cases b) (auto simp: fmax_def)

fun daily_run :: "daily_exit_config \<Rightarrow> price_row list \<Rightarrow> open_trade \<Rightarrow> open_trade" where
  "daily_run c [] trade = trade"
| "daily_run c (row # rows) trade = daily_run c rows (fst (daily_timeframe_exit c row trade))"

lemma recorded_stop_step:
  assumes "dict_get (ot_values trade) ''stop'' = Some s" and "s \<noteq> NaN"
  shows "\<exists>s'. dict_get (ot_values (fst (daily_timeframe_exit c row trade))) ''stop'' = Some s' \<and> s' \<noteq> NaN \<and> fle s s'"
proof -
  have m: "fmax (fmax s h) t \<noteq> NaN \<and> fle s (fmax (fmax s h) t)" for h t
    using fmax_not_NaN assms(2) fmax_ge1 by (metis fle_trans)
  show ?thesis
  proof (cases "fst (daily_timeframe_exit c row trade) = trade")
    case True
    then show ?thesis using assms by (auto simp: fle_refl)
  next
    case False
    then obtain close high low atr entry where l: "fst (daily_timeframe_exit c row trade) =
        update_trade (daily_levels_of c trade entry high low atr) trade"
      by (auto simp: daily_timeframe_exit_def Let_def split: sum.splits prod.splits)
    show ?thesis using assms(1) m by (auto simp: l update_trade_def daily_levels_of_def Let_def dict_get_or_def)
  qed
qed

text \<open>The stop recorded in a daily trade only moves up, over any sequence of bars and whatever the
  ATR does. But the exit rule does not look at it: with a grown ATR a bar can close below the recorded
  stop and leave the trade open.\<close>

theorem recorded_daily_stop_ratchets:
  assumes "dict_get (ot_values trade) ''stop'' = Some s" and "s \<noteq> NaN"
  shows "(\<exists>s'. dict_get (ot_values (daily_run c rows trade)) ''stop'' = Some s' \<and> fle s s') \<and>
    (\<exists>c row trade close. dict_get (pr_values row) ''close'' = Some close \<and>
      snd (daily_timeframe_exit c row trade) = Inr None \<and>
      (\<exists>s'. dict_get (ot_values (fst (daily_timeframe_exit c row trade))) ''stop'' = Some s' \<and> flt close s'))"
proof
  have "\<exists>s'. dict_get (ot_values (daily_run c rows trade)) ''stop'' = Some s' \<and> s' \<noteq> NaN \<and> fle s s'"
    using assms
  proof (induction rows arbitrary: trade s)
    case Nil
    then show ?case by (simp add: fle_refl)
  next
    case (Cons row rows)
    from recorded_stop_step[OF Cons.prems, of c row] obtain s1 where
      s1: "dict_get (ot_values (fst (daily_timeframe_exit c row trade))) ''stop'' = Some s1" "s1 \<noteq> NaN" "fle s s1" by blast
    from Cons.IH[OF s1(1,2)] s1(3) show ?case by (auto intro: fle_trans)
  qed
  then show "\<exists>s'. dict_get (ot_values (daily_run c rows trade)) ''stop'' = Some s' \<and> fle s s'" by blast
  have "daily_timeframe_exit default_daily_exit (sample_row (Fin 110) (Fin 20)) sample_open_trade =
      (let l = daily_levels_of default_daily_exit sample_open_trade (Fin 100) (Fin 110) (Fin 110) (Fin 20)
       in (update_trade l sample_open_trade,
           decide_daily default_daily_exit l (pr_values (sample_row (Fin 110) (Fin 20))) sample_open_trade (Fin 110) (Fin 100)))"
    by (rule daily_timeframe_exit_eq[OF sample_values(1-4,6)])
  then have "snd (daily_timeframe_exit default_daily_exit (sample_row (Fin 110) (Fin 20)) sample_open_trade) = Inr None \<and>
      dict_get (ot_values (fst (daily_timeframe_exit default_daily_exit (sample_row (Fin 110) (Fin 20)) sample_open_trade)))
        ''stop'' = Some (Fin 120)"
    by (simp add: decide_daily_def value_at_def sample_row_def sample_open_trade_def daily_levels_of_def atr_stop_def
        default_daily_exit_def dict_get_or_def fmax_def dec_lits Let_def update_trade_def)
  moreover have "dict_get (pr_values (sample_row (Fin 110) (Fin 20))) ''close'' = Some (Fin 110)" by (simp add: sample_row_def)
  moreover have "flt (Fin 110) (Fin 120)" by simp
  ultimately show "\<exists>c row trade close. dict_get (pr_values row) ''close'' = Some close \<and>
      snd (daily_timeframe_exit c row trade) = Inr None \<and>
      (\<exists>s'. dict_get (ot_values (fst (daily_timeframe_exit c row trade))) ''stop'' = Some s' \<and> flt close s')"
    by blast
qed

theorem recorded_daily_stop_ratchets_witness:
  "\<exists>s'. dict_get (ot_values (daily_run default_daily_exit [sample_row (Fin 110) (Fin 20), sample_row (Fin 105) (Fin 30)]
      sample_open_trade)) ''stop'' = Some s' \<and> fle (Fin 120) s'"
proof -
  have "dict_get (ot_values sample_open_trade) ''stop'' = Some (Fin 120)" by (simp add: sample_open_trade_def)
  from recorded_daily_stop_ratchets[OF this] show ?thesis by blast
qed

section \<open>The partial exit\<close>

text \<open>A five-minute partial exit happens at most once per trade, at the bar's high, takes half the
  position and moves the stop to break-even; the protection is replaced, unless the half that is left
  would fall below the exchange minimum, in which case the bot is shut down and the protection
  cancelled.\<close>

theorem partial_exit_outcome:
  assumes "five_min_partial_tp_decision row trade tp_rr min_notional = Inr (Some d)"
  shows "ot_partial_taken trade \<noteq> Some True \<and> sd_exit_price d = dict_get (pr_values row) ''high'' \<and>
     sd_stop_price d = dict_get (ot_values trade) ''entry'' \<and> sd_partial_qty d = dec 50 100 \<and>
     sd_replace_protection d = (\<not> sd_force_shutdown d) \<and> sd_cancel_protection d = sd_force_shutdown d \<and>
     sd_force_shutdown d = flt (fmul (dict_get_or (ot_values trade) ''notional'' (Fin 100))
       (fmul (dict_get_or (ot_values trade) ''remaining'' (Fin 1)) (fsub (Fin 1) (dec 50 100)))) min_notional"
  using assms
  by (auto simp: five_min_partial_tp_decision_def bind_res_eq_Inr value_at_def partial_tp_def Let_def
      partial_tp_fraction_def split: option.splits if_splits)

definition target_row :: price_row where
  "target_row = \<lparr>pr_values = [(''high'', Fin 130)], pr_is_complete = None\<rparr>"

definition target_trade :: open_trade where
  "target_trade = \<lparr>ot_values = [(''entry'', Fin 100), (''stop'', Fin 90)], ot_partial_taken = None, ot_bars = None\<rparr>"

theorem partial_exit_outcome_witness:
  "\<exists>d. five_min_partial_tp_decision target_row target_trade (Fin 1) (Fin 5) = Inr (Some d) \<and> sd_stop_price d = Some (Fin 100)"
proof -
  have "\<exists>d. five_min_partial_tp_decision target_row target_trade (Fin 1) (Fin 5) = Inr (Some d)"
    by (simp add: five_min_partial_tp_decision_def target_row_def target_trade_def value_at_def rr_target_hit_def
        fmax_def Let_def)
  then obtain d where d: "five_min_partial_tp_decision target_row target_trade (Fin 1) (Fin 5) = Inr (Some d)" by blast
  from partial_exit_outcome[OF d] d show ?thesis by (simp add: target_trade_def)
qed

end
