(* ===== verification/Py_Row.thy ===== *)
theory Py_Row
  imports Exits
begin

text \<open>
  A feature row, the pandas \<open>Series\<close> the strategies read: its numeric columns (\<open>pr_values\<close>), boolean
  columns and text columns by name. \<open>row["c"]\<close> is \<open>value_at\<close>, a \<open>KeyError\<close> when the column is absent;
  \<open>row.get("c", d)\<close> is \<open>dict_get_or\<close>. \<open>safe_float\<close> is the guarded read both strategy modules define.
\<close>

record feature_row = price_row +
  fr_flags :: "(string, bool) dict"
  fr_texts :: "(string, string) dict"

definition num_at :: "feature_row \<Rightarrow> string \<Rightarrow> pyfloat res" where
  "num_at r c = value_at (pr_values r) c"

definition num_or :: "feature_row \<Rightarrow> string \<Rightarrow> pyfloat \<Rightarrow> pyfloat" where
  "num_or r c d = dict_get_or (pr_values r) c d"

definition flag_or :: "feature_row \<Rightarrow> string \<Rightarrow> bool \<Rightarrow> bool" where
  "flag_or r c d = dict_get_or (fr_flags r) c d"

definition text_or :: "feature_row \<Rightarrow> string \<Rightarrow> string \<Rightarrow> string" where
  "text_or r c d = dict_get_or (fr_texts r) c d"

text \<open>\<open>float(value)\<close> when it is a finite number, else the default.\<close>

definition finite_or :: "pyfloat option \<Rightarrow> pyfloat \<Rightarrow> pyfloat" where
  "finite_or x d = (case x of None \<Rightarrow> d | Some v \<Rightarrow> if is_finite v then v else d)"

definition safe_float :: "feature_row \<Rightarrow> string \<Rightarrow> pyfloat \<Rightarrow> pyfloat" where
  "safe_float r c d = finite_or (dict_get (pr_values r) c) d"

lemma is_finite_iff: "is_finite x \<longleftrightarrow> (\<exists>q. x = Fin q)"
  by (cases x) simp_all

lemma finite_or_finite [simp]: "is_finite d \<Longrightarrow> is_finite (finite_or x d)"
  by (simp add: finite_or_def split: option.split)

lemma safe_float_finite [simp]: "is_finite d \<Longrightarrow> is_finite (safe_float r c d)"
  by (simp add: safe_float_def)

lemma finite_or_Some [simp]: "is_finite x \<Longrightarrow> finite_or (Some x) d = x"
  by (simp add: finite_or_def)

text \<open>\<open>max(low, min(high, x))\<close> stays between its bounds even for NaN.\<close>

definition clamp :: "pyfloat \<Rightarrow> pyfloat \<Rightarrow> pyfloat \<Rightarrow> pyfloat" where
  "clamp x low high = fmax low (fmin high x)"

lemma clamp_ge: "low \<noteq> NaN \<Longrightarrow> fle low (clamp x low high)"
  by (simp add: clamp_def fmax_ge1)

lemma clamp_le:
  assumes "fle low high"
  shows "fle (clamp x low high) high"
proof -
  have h: "high \<noteq> NaN" using assms by auto
  show ?thesis
    using assms fmin_le1[OF h, of x] by (auto simp: clamp_def fmax_def)
qed

lemma clamp_finite: "fle (Fin a) (Fin b) \<Longrightarrow> \<exists>q. clamp x (Fin a) (Fin b) = Fin q \<and> a \<le> q \<and> q \<le> b"
  using clamp_ge[of "Fin a" x "Fin b"] clamp_le[of "Fin a" "Fin b" x]
  by (cases "clamp x (Fin a) (Fin b)") auto

end
