(* ===== verification/Atr_Reversion.thy ===== *)
theory Atr_Reversion
  imports Py_Row
begin

text \<open>
  \<open>strategies/atr_mean_reversion.py\<close>: the long-only trade machine on top of the ATR indicators. One bar
  is \<open>generate_timeframe_signal\<close> followed by \<open>update_position_state\<close>; three partial exits or a stop close
  the trade. The indicator columns themselves (rolling means and deviations) are pandas' and part of the
  row; the logging is left out.
\<close>

section \<open>Configuration, state, signal\<close>

record reversion_config =
  rc_timeframe :: string
  rc_atr_stop_length :: int
  rc_atr_multiplier :: pyfloat
  rc_atr_fast_length :: int
  rc_atr_slow_length :: int
  rc_drift_length :: int
  rc_confidence_interval :: string
  rc_min_candles :: int

definition critical_values :: "(string, pyfloat) dict" where
  "critical_values = [(''90%'', dec 1645 1000), (''95%'', dec 196 100), (''99%'', dec 258 100)]"

definition critical_value :: "reversion_config \<Rightarrow> pyfloat" where
  "critical_value c = dict_get_or critical_values (rc_confidence_interval c) (dec 196 100)"

definition default_atr_mean_reversion_config :: "string \<Rightarrow> reversion_config" where
  "default_atr_mean_reversion_config timeframe =
     (let base = \<lparr>rc_timeframe = ''1h'', rc_atr_stop_length = 14, rc_atr_multiplier = Fin 2, rc_atr_fast_length = 5,
                  rc_atr_slow_length = 50, rc_drift_length = 14, rc_confidence_interval = ''95%'', rc_min_candles = 60\<rparr>
      in if str_lower timeframe = ''10m''
         then base\<lparr>rc_timeframe := ''10m'', rc_atr_multiplier := dec 15 10, rc_confidence_interval := ''90%''\<rparr>
         else base)"

record reversion_state =
  rs_symbol :: string
  rs_timeframe :: string
  rs_position_size :: pyfloat
  rs_entry_signal_triggered :: bool
  rs_initial_entry_price :: pyfloat
  rs_risk_amount :: pyfloat
  rs_initial_order_size :: pyfloat
  rs_stop_loss :: pyfloat
  rs_tp_taken_count :: int

definition new_reversion_state :: "string \<Rightarrow> string \<Rightarrow> reversion_state" where
  "new_reversion_state name timeframe = \<lparr>rs_symbol = name, rs_timeframe = timeframe, rs_position_size = Fin 0,
     rs_entry_signal_triggered = False, rs_initial_entry_price = Fin 0, rs_risk_amount = Fin 0,
     rs_initial_order_size = Fin 0, rs_stop_loss = Fin 0, rs_tp_taken_count = 0\<rparr>"

definition reset_trade :: "reversion_state \<Rightarrow> reversion_state" where
  "reset_trade s = s\<lparr>rs_position_size := Fin 0, rs_entry_signal_triggered := False, rs_initial_entry_price := Fin 0,
     rs_risk_amount := Fin 0, rs_initial_order_size := Fin 0, rs_stop_loss := Fin 0, rs_tp_taken_count := 0\<rparr>"

datatype signal_name = BUY | HOLD | SELL_STOP | PARTIAL_SELL_TP1 | PARTIAL_SELL_TP2 | PARTIAL_SELL_TP3

record reversion_signal =
  rg_symbol :: string
  rg_timeframe :: string
  rg_close :: pyfloat
  rg_atr_14 :: pyfloat
  rg_atr_fast_5 :: pyfloat
  rg_atr_slow_50 :: pyfloat
  rg_test_stat :: pyfloat
  rg_reject_H0 :: bool
  rg_drift :: pyfloat
  rg_drift_confirmation :: bool
  rg_entry_signal :: bool
  rg_stop_loss :: pyfloat
  rg_tp1 :: pyfloat
  rg_tp2 :: pyfloat
  rg_tp3 :: pyfloat
  rg_signal :: signal_name

section \<open>Signals\<close>

definition tp_levels :: "pyfloat \<Rightarrow> pyfloat \<Rightarrow> pyfloat \<times> pyfloat \<times> pyfloat" where
  "tp_levels entry risk =
     (if fle entry (Fin 0) \<or> fle risk (Fin 0) then (Fin 0, Fin 0, Fin 0)
      else (fadd entry risk, fadd entry (fmul (Fin 2) risk), fadd entry (fmul (Fin 3) risk)))"

definition signal_from_row ::
    "feature_row \<Rightarrow> reversion_state \<Rightarrow> pyfloat \<Rightarrow> pyfloat \<times> pyfloat \<times> pyfloat \<Rightarrow> bool \<Rightarrow> signal_name \<Rightarrow> reversion_signal" where
  "signal_from_row row s stop tps entry sig =
     \<lparr>rg_symbol = remove_char CHR ''/'' (text_or row ''symbol'' (rs_symbol s)),
      rg_timeframe = text_or row ''timeframe'' (rs_timeframe s),
      rg_close = safe_float row ''close'' (Fin 0), rg_atr_14 = safe_float row ''atr_14'' (Fin 0),
      rg_atr_fast_5 = safe_float row ''atr_fast_5'' (Fin 0), rg_atr_slow_50 = safe_float row ''atr_slow_50'' (Fin 0),
      rg_test_stat = safe_float row ''test_stat'' (Fin 0), rg_reject_H0 = flag_or row ''reject_H0'' False,
      rg_drift = safe_float row ''drift'' (Fin 0), rg_drift_confirmation = flag_or row ''drift_confirmation'' False,
      rg_entry_signal = entry, rg_stop_loss = finite_or (Some stop) (Fin 0),
      rg_tp1 = finite_or (Some (fst tps)) (Fin 0), rg_tp2 = finite_or (Some (fst (snd tps))) (Fin 0),
      rg_tp3 = finite_or (Some (snd (snd tps))) (Fin 0), rg_signal = sig\<rparr>"

text \<open>The exit of an open trade: the stop first, then the next profit level only.\<close>

definition exit_signal :: "pyfloat \<Rightarrow> pyfloat \<Rightarrow> int \<Rightarrow> pyfloat \<times> pyfloat \<times> pyfloat \<Rightarrow> signal_name" where
  "exit_signal close stop taken tps =
     (if fle close stop then SELL_STOP
      else if taken = 0 \<and> fle (fst tps) close then PARTIAL_SELL_TP1
      else if taken = 1 \<and> fle (fst (snd tps)) close then PARTIAL_SELL_TP2
      else if taken = 2 \<and> fle (snd (snd tps)) close then PARTIAL_SELL_TP3
      else HOLD)"

text \<open>\<open>indicators\<close> is a whole frame or a single row; only a frame has a candle count.\<close>

datatype indicators = Frame "feature_row list" | Series feature_row

definition latest_row :: "indicators \<Rightarrow> feature_row res" where
  "latest_row i = (case i of Series r \<Rightarrow> Inr r | Frame rs \<Rightarrow> if rs = [] then Inl IndexError else Inr (last rs))"

definition too_short :: "reversion_config \<Rightarrow> indicators \<Rightarrow> bool" where
  "too_short c i = (case i of Frame rs \<Rightarrow> int (length rs) < rc_min_candles c
     | Series r \<Rightarrow> (case dict_get (pr_values r) ''atr_slow_50'' of None \<Rightarrow> True | Some x \<Rightarrow> is_nan x))"

definition signal_of_row :: "reversion_config \<Rightarrow> bool \<Rightarrow> feature_row \<Rightarrow> reversion_state \<Rightarrow> reversion_signal" where
  "signal_of_row c short row s =
     (let close = safe_float row ''close'' (Fin 0); low = safe_float row ''low'' (Fin 0);
          atr = safe_float row ''atr_14'' (Fin 0);
          risk = safe_float row ''risk_amount'' (fmul atr (rc_atr_multiplier c));
          seed = safe_float row ''stop_loss_seed'' (fsub low risk);
          inside = flt (Fin 0) (rs_position_size s);
          stop = (if inside then fmax (rs_stop_loss s) seed else seed);
          tps = tp_levels (rs_initial_entry_price s) (rs_risk_amount s)
      in if short then signal_from_row row s stop tps False HOLD
         else if fle (rs_position_size s) (Fin 0)
         then (if (rs_entry_signal_triggered s \<or> flag_or row ''reject_H0'' False) \<and> flag_or row ''drift_confirmation'' False
               then signal_from_row row s seed (tp_levels close risk) True BUY
               else signal_from_row row s stop tps False HOLD)
         else signal_from_row row s stop tps False (exit_signal close stop (rs_tp_taken_count s) tps))"

definition generate_timeframe_signal ::
    "indicators \<Rightarrow> reversion_state \<Rightarrow> reversion_config option \<Rightarrow> reversion_signal res" where
  "generate_timeframe_signal i s config =
     (let c = (case config of None \<Rightarrow> default_atr_mean_reversion_config (rs_timeframe s) | Some c \<Rightarrow> c)
      in bind_res (latest_row i) (\<lambda>row. Inr (signal_of_row c (too_short c i) row s)))"

section \<open>Position updates\<close>

definition reduce_position :: "int \<Rightarrow> reversion_state \<Rightarrow> reversion_state" where
  "reduce_position taken s = s\<lparr>rs_position_size :=
       fmax (Fin 0) (fsub (rs_position_size s) (fdiv (rs_initial_order_size s) (Fin 3))), rs_tp_taken_count := taken\<rparr>"

definition after_partial :: "pyfloat \<Rightarrow> reversion_state \<Rightarrow> reversion_state" where
  "after_partial stop s =
     (let s1 = s\<lparr>rs_stop_loss := fmax (rs_stop_loss s) stop\<rparr>
      in if fle (rs_position_size s1) (Fin 0) then reset_trade s1 else s1)"

definition update_position_state :: "reversion_signal \<Rightarrow> pyfloat \<Rightarrow> reversion_state \<Rightarrow> reversion_state" where
  "update_position_state g order_size s =
     (case rg_signal g of
        BUY \<Rightarrow> s\<lparr>rs_position_size := order_size, rs_entry_signal_triggered := False,
                 rs_initial_entry_price := rg_close g,
                 rs_risk_amount := fmax (Fin 0) (fsub (rg_close g) (rg_stop_loss g)),
                 rs_initial_order_size := order_size, rs_stop_loss := rg_stop_loss g, rs_tp_taken_count := 0\<rparr>
      | HOLD \<Rightarrow>
          (let s1 = (if rg_reject_H0 g \<and> fle (rs_position_size s) (Fin 0) then s\<lparr>rs_entry_signal_triggered := True\<rparr> else s)
           in if flt (Fin 0) (rs_position_size s1)
              then s1\<lparr>rs_stop_loss := fmax (rs_stop_loss s1) (rg_stop_loss g)\<rparr> else s1)
      | SELL_STOP \<Rightarrow> reset_trade s
      | PARTIAL_SELL_TP1 \<Rightarrow> after_partial (rg_stop_loss g) (reduce_position 1 s)
      | PARTIAL_SELL_TP2 \<Rightarrow> after_partial (rg_stop_loss g) (reduce_position 2 s)
      | PARTIAL_SELL_TP3 \<Rightarrow> reset_trade s)"

section \<open>Two timeframes\<close>

definition is_partial_sell :: "signal_name \<Rightarrow> bool" where
  "is_partial_sell g = (g \<in> {PARTIAL_SELL_TP1, PARTIAL_SELL_TP2, PARTIAL_SELL_TP3})"

definition sell_priority :: "reversion_signal \<Rightarrow> reversion_signal \<Rightarrow> reversion_signal option" where
  "sell_priority hourly ten =
     (if rg_signal ten = SELL_STOP then Some ten
      else if rg_signal hourly = SELL_STOP then Some hourly
      else find_first (\<lambda>g. is_partial_sell (rg_signal g)) [ten, hourly])"

record combined_signal =
  cs_signal :: signal_name
  cs_source_timeframe :: string
  cs_reason :: string

definition buy_allowed :: "reversion_signal \<Rightarrow> reversion_signal \<Rightarrow> string \<Rightarrow> bool" where
  "buy_allowed hourly ten mode =
     (rg_entry_signal hourly \<and> rg_drift_confirmation hourly \<and> rg_reject_H0 hourly \<and>
      flt (rg_stop_loss ten) (rg_close ten) \<and>
      (rg_entry_signal ten \<or> mode = ''confirmation'' \<and> rg_drift_confirmation ten))"

definition combine_1h_10m_signals :: "reversion_signal \<Rightarrow> reversion_signal \<Rightarrow> string \<Rightarrow> combined_signal" where
  "combine_1h_10m_signals hourly ten mode =
     (case sell_priority hourly ten of
        Some g \<Rightarrow> \<lparr>cs_signal = rg_signal g, cs_source_timeframe = rg_timeframe g, cs_reason = ''sell priority''\<rparr>
      | None \<Rightarrow>
          if buy_allowed hourly ten mode
          then \<lparr>cs_signal = BUY, cs_source_timeframe = ''multi'', cs_reason = ''1h trigger plus 10m confirmation''\<rparr>
          else \<lparr>cs_signal = HOLD, cs_source_timeframe = ''multi'',
                cs_reason = ''multi-timeframe confirmation incomplete''\<rparr>)"

section \<open>The life of a trade\<close>

text \<open>One bar of the machine, whatever the indicators are.\<close>

inductive reversion_step :: "reversion_config option \<Rightarrow> pyfloat \<Rightarrow> reversion_state \<Rightarrow> reversion_state \<Rightarrow> bool"
  for config order_size where
  bar: "generate_timeframe_signal i s config = Inr g \<Longrightarrow>
    reversion_step config order_size s (update_position_state g order_size s)"

inductive_cases reversion_stepE: "reversion_step config order_size s t"

definition reversion_flat :: "reversion_state \<Rightarrow> bool" where
  "reversion_flat s = (rs_position_size s = Fin 0 \<and> rs_initial_entry_price s = Fin 0 \<and> rs_risk_amount s = Fin 0 \<and>
     rs_initial_order_size s = Fin 0 \<and> rs_stop_loss s = Fin 0 \<and> rs_tp_taken_count s = 0)"

definition reversion_open :: "rat \<Rightarrow> reversion_state \<Rightarrow> bool" where
  "reversion_open n s = (\<not> rs_entry_signal_triggered s \<and> rs_initial_order_size s = Fin n \<and>
     (\<exists>q. rs_position_size s = Fin q \<and> 0 < q \<and> q \<le> n) \<and> is_finite (rs_stop_loss s) \<and>
     fle (Fin 0) (rs_risk_amount s) \<and> rs_tp_taken_count s \<in> {0, 1, 2})"

lemma reset_trade_flat [simp]: "reversion_flat (reset_trade s)"
  by (simp add: reset_trade_def reversion_flat_def)

lemma signal_from_row_fields [simp]:
  "rg_signal (signal_from_row row s stop tps e g) = g"
  "rg_stop_loss (signal_from_row row s stop tps e g) = finite_or (Some stop) (Fin 0)"
  "rg_close (signal_from_row row s stop tps e g) = safe_float row ''close'' (Fin 0)"
  "rg_entry_signal (signal_from_row row s stop tps e g) = e"
  by (simp_all add: signal_from_row_def)

lemma reduced_size:
  assumes "fround n = Fin n" and "0 \<le> q" and "q \<le> n"
  shows "\<exists>p. fmax (Fin 0) (fsub (Fin q) (fdiv (Fin n) (Fin 3))) = Fin p \<and> 0 \<le> p \<and> p \<le> n"
proof -
  have "fle (fround 0) (fround (n / 3))" "fle (fround (n / 3)) (fround n)" using assms by (intro fround_mono; simp)+
  then obtain t where t: "fround (n / 3) = Fin t" "0 \<le> t" "t \<le> n"
    using assms(1) by (cases "fround (n / 3)") auto
  have "fle (fround (q - t)) (fround n)" using assms t by (intro fround_mono) simp
  moreover have "fle (fround (- n)) (fround (q - t))" using assms t by (intro fround_mono) simp
  moreover have "fround (- n) = Fin (- n)"
    using assms(1) by (auto simp: fround_def Let_def rnd_uminus split: if_splits)
  ultimately obtain p where "fround (q - t) = Fin p" "p \<le> n" using assms(1) by (cases "fround (q - t)") auto
  then show ?thesis using t assms by (auto simp: fmax_def)
qed

lemma reduce_position_frame [simp]:
  "rs_entry_signal_triggered (reduce_position k s) = rs_entry_signal_triggered s"
  "rs_initial_order_size (reduce_position k s) = rs_initial_order_size s"
  "rs_risk_amount (reduce_position k s) = rs_risk_amount s"
  "rs_stop_loss (reduce_position k s) = rs_stop_loss s"
  "rs_tp_taken_count (reduce_position k s) = k"
  by (simp_all add: reduce_position_def)

lemma after_partial_cases:
  assumes "reversion_open n s" and "fround n = Fin n" and "0 < n" and "is_finite stop" and "k \<in> {1, 2}"
  shows "reversion_flat (after_partial stop (reduce_position k s)) \<or>
     reversion_open n (after_partial stop (reduce_position k s)) \<and>
       rs_tp_taken_count (after_partial stop (reduce_position k s)) = k \<and>
       fle (rs_stop_loss s) (rs_stop_loss (after_partial stop (reduce_position k s)))"
proof -
  obtain q where q: "rs_position_size s = Fin q" "0 < q" "q \<le> n" using assms(1) by (auto simp: reversion_open_def)
  obtain p where p: "fmax (Fin 0) (fsub (Fin q) (fdiv (Fin n) (Fin 3))) = Fin p" "0 \<le> p" "p \<le> n"
    using reduced_size[OF assms(2)] q by (metis less_imp_le)
  obtain a b where ab: "rs_stop_loss s = Fin a" "stop = Fin b" using assms(1,4)
    by (auto simp: reversion_open_def is_finite_iff)
  have size: "rs_position_size (reduce_position k s) = Fin p"
    using assms(1) q(1) p(1) by (simp add: reduce_position_def reversion_open_def)
  show ?thesis
  proof (cases "p = 0")
    case True
    then have "after_partial stop (reduce_position k s) =
        reset_trade ((reduce_position k s)\<lparr>rs_stop_loss := fmax (rs_stop_loss (reduce_position k s)) stop\<rparr>)"
      using size by (simp add: after_partial_def Let_def)
    then show ?thesis by simp
  next
    case False
    with p(2) have "after_partial stop (reduce_position k s) =
        (reduce_position k s)\<lparr>rs_stop_loss := fmax (Fin a) (Fin b)\<rparr>"
      using size ab by (simp add: after_partial_def Let_def)
    then show ?thesis
      using assms(1,5) size False p by (simp add: reversion_open_def ab fmax_ge1) (auto simp: fmax_def)
  qed
qed

lemma exit_signal_cases:
  "exit_signal close stop k tps = PARTIAL_SELL_TP1 \<Longrightarrow> k = 0"
  "exit_signal close stop k tps = PARTIAL_SELL_TP2 \<Longrightarrow> k = 1"
  "exit_signal close stop k tps = PARTIAL_SELL_TP3 \<Longrightarrow> k = 2"
  "exit_signal close stop k tps \<noteq> BUY"
  by (auto simp: exit_signal_def split: if_splits)

lemma generate_cases:
  assumes "generate_timeframe_signal i s config = Inr g"
  shows "is_finite (rg_stop_loss g) \<and> is_finite (rg_close g) \<and>
    (reversion_flat s \<longrightarrow> rg_signal g \<in> {BUY, HOLD}) \<and>
    (reversion_open n s \<longrightarrow> rg_signal g \<noteq> BUY \<and> (rg_signal g = PARTIAL_SELL_TP1 \<longrightarrow> rs_tp_taken_count s = 0) \<and>
      (rg_signal g = PARTIAL_SELL_TP2 \<longrightarrow> rs_tp_taken_count s = 1) \<and>
      (rg_signal g = PARTIAL_SELL_TP3 \<longrightarrow> rs_tp_taken_count s = 2))"
proof -
  obtain c short row where g: "g = signal_of_row c short row s"
    using assms by (auto simp: generate_timeframe_signal_def Let_def bind_res_eq_Inr)
  show ?thesis
    unfolding g by (auto simp: signal_of_row_def Let_def reversion_flat_def reversion_open_def exit_signal_cases)
qed

text \<open>What one bar does to a flat and to an open machine.\<close>

lemma reversion_step_cases:
  assumes "reversion_step config (Fin n) s t" and "fround n = Fin n" and "0 < n"
    and "reversion_flat s \<or> reversion_open n s"
  shows "(reversion_flat s \<and> (reversion_flat t \<or> reversion_open n t \<and> rs_tp_taken_count t = 0)) \<or>
    (reversion_open n s \<and> (reversion_flat t \<or> reversion_open n t \<and> fle (rs_stop_loss s) (rs_stop_loss t) \<and>
       rs_tp_taken_count t \<in> {rs_tp_taken_count s, rs_tp_taken_count s + 1}))"
proof -
  obtain i g where g: "generate_timeframe_signal i s config = Inr g" "t = update_position_state g (Fin n) s"
    using assms(1) by (auto elim: reversion_stepE)
  note sig = generate_cases[OF g(1), of n]
  obtain b c where bc: "rg_stop_loss g = Fin b" "rg_close g = Fin c" using sig by (auto simp: is_finite_iff)
  from assms(4) show ?thesis
  proof
    assume flat: "reversion_flat s"
    then have "rg_signal g = BUY \<or> rg_signal g = HOLD" using sig by simp
    then show ?thesis
    proof
      assume "rg_signal g = BUY"
      then show ?thesis using flat assms(3) bc
        by (simp add: g(2) update_position_state_def reversion_open_def fmax_ge1)
    next
      assume "rg_signal g = HOLD"
      then show ?thesis using flat
        by (simp add: g(2) update_position_state_def reversion_flat_def)
    qed
  next
    assume open': "reversion_open n s"
    then obtain q a where q: "rs_position_size s = Fin q" "0 < q" "q \<le> n" "rs_stop_loss s = Fin a"
      by (auto simp: reversion_open_def is_finite_iff)
    have fin: "is_finite (rg_stop_loss g)" using sig by simp
    show ?thesis
    proof (cases "rg_signal g")
      case BUY
      then show ?thesis using sig open' by simp
    next
      case HOLD
      then show ?thesis using open' q bc
        by (simp add: g(2) update_position_state_def reversion_open_def fmax_ge1) (simp add: fmax_def)
    next
      case SELL_STOP
      then show ?thesis using open' by (simp add: g(2) update_position_state_def)
    next
      case PARTIAL_SELL_TP1
      then show ?thesis using open' sig after_partial_cases[OF open' assms(2,3) fin, of 1]
        by (auto simp: g(2) update_position_state_def)
    next
      case PARTIAL_SELL_TP2
      then show ?thesis using open' sig after_partial_cases[OF open' assms(2,3) fin, of 2]
        by (auto simp: g(2) update_position_state_def)
    next
      case PARTIAL_SELL_TP3
      then show ?thesis using open' by (simp add: g(2) update_position_state_def)
    qed
  qed
qed

lemma reversion_reachable:
  assumes "(reversion_step config (Fin n))\<^sup>*\<^sup>* (new_reversion_state name tf) s" and "fround n = Fin n" and "0 < n"
  shows "reversion_flat s \<or> reversion_open n s"
  using assms(1)
proof (induction rule: rtranclp_induct)
  case base
  then show ?case by (simp add: new_reversion_state_def reversion_flat_def)
next
  case (step s t)
  then show ?case using reversion_step_cases[OF step.hyps(2) assms(2,3) step.IH] by blast
qed

text \<open>\<open>C15\<close>: From a new state, over any bars, the machine is either flat with every trade field cleared, or
  in a trade of at most the order size with zero to two profits taken and no pending entry trigger; within
  a trade the stop never moves down, profits are taken one level at a time, and a trade opens only when the
  machine was flat.\<close>

theorem reversion_trade_lifecycle:
  assumes "(reversion_step config (Fin n))\<^sup>*\<^sup>* (new_reversion_state name tf) s"
    and "reversion_step config (Fin n) s t" and "fround n = Fin n" and "0 < n"
  shows "(reversion_flat t \<or> reversion_open n t) \<and>
    (reversion_open n s \<and> reversion_open n t \<longrightarrow> fle (rs_stop_loss s) (rs_stop_loss t) \<and>
       rs_tp_taken_count t \<in> {rs_tp_taken_count s, rs_tp_taken_count s + 1}) \<and>
    (reversion_flat s \<and> reversion_open n t \<longrightarrow> rs_tp_taken_count t = 0)"
proof -
  have excl: "\<not> (reversion_flat x \<and> reversion_open n x)" for x by (auto simp: reversion_flat_def reversion_open_def)
  from reversion_step_cases[OF assms(2-4) reversion_reachable[OF assms(1,3,4)]] excl show ?thesis by blast
qed

text \<open>A bar that rejects H0 with a rising drift opens the trade.\<close>

definition entry_row :: feature_row where
  "entry_row = \<lparr>pr_values = [(''close'', Fin 100), (''low'', Fin 99), (''atr_14'', Fin 1), (''atr_slow_50'', Fin 1)],
     pr_is_complete = None, fr_flags = [(''reject_H0'', True), (''drift_confirmation'', True)], fr_texts = []\<rparr>"

lemma entry_row_signal:
  "generate_timeframe_signal (Series entry_row) (new_reversion_state ''X'' ''1h'') None =
     Inr (signal_from_row entry_row (new_reversion_state ''X'' ''1h'') (Fin 97) (Fin 102, Fin 104, Fin 106) True BUY)"
  by (simp add: generate_timeframe_signal_def latest_row_def too_short_def signal_of_row_def entry_row_def
      safe_float_def finite_or_def flag_or_def dict_get_or_def tp_levels_def new_reversion_state_def default_atr_mean_reversion_config_def
      str_lower_def lower_char_def is_upper_def ord_of_def Let_def)

theorem reversion_trade_lifecycle_witness:
  "\<exists>t. reversion_step None (Fin 3) (new_reversion_state ''X'' ''1h'') t \<and> reversion_open 3 t \<and> rs_tp_taken_count t = 0"
proof -
  let ?s = "new_reversion_state ''X'' ''1h''"
  let ?g = "signal_from_row entry_row ?s (Fin 97) (Fin 102, Fin 104, Fin 106) True BUY"
  have st: "reversion_step None (Fin 3) ?s (update_position_state ?g (Fin 3) ?s)"
    by (rule bar[OF entry_row_signal])
  have op: "reversion_open 3 (update_position_state ?g (Fin 3) ?s)" "reversion_flat ?s"
    by (simp_all add: update_position_state_def reversion_open_def reversion_flat_def new_reversion_state_def
        safe_float_def finite_or_def entry_row_def fmax_def)
  have "fround 3 = Fin 3" "0 < (3::rat)" by simp_all
  from reversion_trade_lifecycle[OF rtranclp.rtrancl_refl st this] op st show ?thesis by blast
qed

text \<open>The combination of both timeframes sells whenever either side does, a stop before any partial
  exit and the ten-minute side first; it buys only on an hourly entry with fresh rejection and drift
  confirmed on the ten-minute side above its stop.\<close>

theorem combined_signal_priority:
  "(cs_signal (combine_1h_10m_signals hourly ten mode) = SELL_STOP \<longleftrightarrow>
      rg_signal hourly = SELL_STOP \<or> rg_signal ten = SELL_STOP) \<and>
   (is_partial_sell (cs_signal (combine_1h_10m_signals hourly ten mode)) \<longleftrightarrow>
      rg_signal hourly \<noteq> SELL_STOP \<and> rg_signal ten \<noteq> SELL_STOP \<and>
      (is_partial_sell (rg_signal hourly) \<or> is_partial_sell (rg_signal ten))) \<and>
   (cs_signal (combine_1h_10m_signals hourly ten mode) = BUY \<longleftrightarrow>
      rg_signal hourly \<in> {BUY, HOLD} \<and> rg_signal ten \<in> {BUY, HOLD} \<and> buy_allowed hourly ten mode)"
  by (cases "rg_signal hourly"; cases "rg_signal ten")
    (simp_all add: combine_1h_10m_signals_def sell_priority_def is_partial_sell_def)

text \<open>The profit levels a BUY announces are not the ones the trade then uses. The announcement
  counts from the ATR risk, the trade from the distance of the close to the stop, which also contains the
  distance of the close to the low.\<close>

theorem announced_targets_differ:
  "\<exists>g t. generate_timeframe_signal (Series entry_row) (new_reversion_state ''X'' ''1h'') None = Inr g \<and>
     rg_signal g = BUY \<and> t = update_position_state g (Fin 3) (new_reversion_state ''X'' ''1h'') \<and>
     rg_tp1 g = Fin 102 \<and> fst (tp_levels (rs_initial_entry_price t) (rs_risk_amount t)) = Fin 103"
  unfolding entry_row_signal
  by (simp add: signal_from_row_def update_position_state_def tp_levels_def safe_float_def finite_or_def entry_row_def fmax_def)

end
