(* ===== verification/Backtest_Framework.thy ===== *)
theory Backtest_Framework
  imports Py_Row Replay_Metrics
begin

text \<open>
  The base class of \<open>strategies/backtest_plugins.py\<close>: exit rules, the bar-by-bar replay with partial profit,
  trailing stop and drawdown lock, and the metrics. A strategy is the record of its class attributes and its
  \<open>entry_signal\<close>. The dict of the open trade is the one of \<open>Exits\<close> with the entry time and the flags.
  Pandas' exponentially weighted mean is the parameter \<open>ewm\<close>, the Sharpe ratio the parameter \<open>sharpe\<close>.
  All rows of a frame have the same columns.
\<close>

record backtest_signal =
  bs_entry :: bool
  bs_stop_price :: pyfloat
  bs_take_profit_price :: pyfloat
  bs_reason :: string

record active_trade = open_trade +
  at_entry_time :: string
  at_flags :: "(string, bool) dict"

record backtest_strategy =
  bk_name :: string
  bk_default_timeframe :: string
  bk_max_hold_bars :: int
  bk_drawdown_lock_pct :: "pyfloat option"
  bk_daily_exit :: daily_exit_config
  bk_lower_stack :: bool
  bk_entry_signal :: "feature_row \<Rightarrow> feature_row option \<Rightarrow> backtest_signal option res"

section \<open>The open trade\<close>

definition trade_value :: "active_trade \<Rightarrow> string \<Rightarrow> pyfloat res" where
  "trade_value t k = value_at (ot_values t) k"

definition trade_value_or :: "active_trade \<Rightarrow> string \<Rightarrow> pyfloat \<Rightarrow> pyfloat" where
  "trade_value_or t k d = dict_get_or (ot_values t) k d"

definition set_value :: "string \<Rightarrow> pyfloat \<Rightarrow> active_trade \<Rightarrow> active_trade" where
  "set_value k v t = t\<lparr>ot_values := dict_set k v (ot_values t)\<rparr>"

definition set_flag :: "string \<Rightarrow> bool \<Rightarrow> active_trade \<Rightarrow> active_trade" where
  "set_flag k b t = t\<lparr>at_flags := dict_set k b (at_flags t)\<rparr>"

definition trade_bars :: "active_trade \<Rightarrow> int res" where
  "trade_bars t = (case ot_bars t of None \<Rightarrow> Inl (KeyError ''bars'') | Some n \<Rightarrow> Inr n)"

text \<open>\<open>float(a or b)\<close>: zero and \<open>None\<close> fall back to \<open>b\<close>.\<close>

definition or_price :: "pyfloat option \<Rightarrow> pyfloat \<Rightarrow> pyfloat" where
  "or_price x d = (case x of None \<Rightarrow> d | Some v \<Rightarrow> if ftruth v then v else d)"

section \<open>Exit rules\<close>

definition uses_daily_exit_stack :: "backtest_strategy \<Rightarrow> bool" where
  "uses_daily_exit_stack k = (str_lower (bk_default_timeframe k) \<in> {''1d'', ''d'', ''daily''})"

definition uses_five_min_stack :: "backtest_strategy \<Rightarrow> bool" where
  "uses_five_min_stack k = (bk_lower_stack k \<and> \<not> uses_daily_exit_stack k)"

definition daily_exit_reason ::
    "backtest_strategy \<Rightarrow> feature_row \<Rightarrow> active_trade \<Rightarrow> (active_trade, string option) outcome" where
  "daily_exit_reason k row t =
     (case daily_timeframe_exit (bk_daily_exit k) (price_row.truncate row) (open_trade.truncate t) of
        (t', Inl e) \<Rightarrow> (t\<lparr>ot_values := ot_values t'\<rparr>, Inl e)
      | (t', Inr None) \<Rightarrow> (t\<lparr>ot_values := ot_values t'\<rparr>, Inr None)
      | (t', Inr (Some d)) \<Rightarrow>
          (set_value ''mae_pct'' (dd_mae_pct d) (set_value ''mfe_pct'' (dd_mfe_pct d)
             (set_value ''daily_exit_stop'' (dd_stop_price d) (set_value ''exit_price'' (dd_exit_price d)
                (t\<lparr>ot_values := ot_values t'\<rparr>)))), Inr (Some (dd_reason d))))"

definition five_min_exit_reason ::
    "backtest_strategy \<Rightarrow> feature_row \<Rightarrow> active_trade \<Rightarrow> (active_trade, string option) outcome" where
  "five_min_exit_reason k row t =
     (case five_min_final_exit_decision (price_row.truncate row) (open_trade.truncate t) of
        Inl e \<Rightarrow> (t, Inl e)
      | Inr (Some d) \<Rightarrow>
          bind_act (t, num_at row ''close'') (\<lambda>t close.
            (set_flag ''cancel_protection'' (sd_cancel_protection d)
               (set_value ''exit_price'' (or_price (sd_exit_price d) close) t), Inr (Some (sd_reason d))))
      | Inr None \<Rightarrow>
          bind_act (t, trade_bars t) (\<lambda>t bars.
            if bk_max_hold_bars k \<le> bars
            then bind_act (t, num_at row ''close'') (\<lambda>t close. (set_value ''exit_price'' close t, Inr (Some ''TIME_STOP'')))
            else (t, Inr None)))"

definition plain_exit_reason :: "backtest_strategy \<Rightarrow> feature_row \<Rightarrow> active_trade \<Rightarrow> string option res" where
  "plain_exit_reason k row t =
     bind_res (num_at row ''close'') (\<lambda>close. bind_res (num_at row ''low'') (\<lambda>low.
     bind_res (trade_value t ''stop'') (\<lambda>stop.
     if fle low stop then Inr (Some ''stop'')
     else bind_res (num_at row ''high'') (\<lambda>high. bind_res (trade_value t ''take_profit'') (\<lambda>target.
       if fle target high then Inr (Some ''take_profit'')
       else bind_res (trade_bars t) (\<lambda>bars.
         if bk_max_hold_bars k \<le> bars then Inr (Some ''time'')
         else bind_res (num_at row ''ema20'') (\<lambda>ema20.
           Inr (if flt close ema20 then Some ''ema20_loss'' else None))))))))"

definition exit_reason ::
    "backtest_strategy \<Rightarrow> feature_row \<Rightarrow> active_trade \<Rightarrow> (active_trade, string option) outcome" where
  "exit_reason k row t =
     (if uses_daily_exit_stack k then daily_exit_reason k row t
      else if bk_lower_stack k then five_min_exit_reason k row t
      else (t, plain_exit_reason k row t))"

section \<open>Preparing the rows\<close>

definition has_column :: "string \<Rightarrow> feature_row list \<Rightarrow> bool" where
  "has_column c rows = (rows \<noteq> [] \<and> dict_get (pr_values (hd rows)) c \<noteq> None)"

definition set_column :: "string \<Rightarrow> pyfloat list \<Rightarrow> feature_row list \<Rightarrow> feature_row list" where
  "set_column c xs rows = map2 (\<lambda>r x. r\<lparr>pr_values := dict_set c x (pr_values r)\<rparr>) rows xs"

definition default_column :: "string \<Rightarrow> pyfloat list \<Rightarrow> feature_row list \<Rightarrow> feature_row list" where
  "default_column c xs rows = (if has_column c rows then rows else set_column c xs rows)"

definition column :: "string \<Rightarrow> feature_row list \<Rightarrow> pyfloat list res" where
  "column c rows = map_res (\<lambda>r. num_at r c) rows"

definition prepare_exit_rows ::
    "(int \<Rightarrow> pyfloat list \<Rightarrow> pyfloat list) \<Rightarrow> backtest_strategy \<Rightarrow> feature_row list \<Rightarrow> feature_row list res" where
  "prepare_exit_rows ewm k rows =
     (if uses_daily_exit_stack k \<or> \<not> bk_lower_stack k then Inr rows
      else (let params = five_min_atr_burst_params (if rows = [] then [] else text_or (last rows) ''symbol'' []) in
        bind_res (column ''close'' rows) (\<lambda>close.
        let r1 = default_column ''exit_ema_fast'' (ewm (bp_ema_fast_len params) close) rows;
            r2 = default_column ''exit_ema_stop'' (ewm (bp_ema_stop_len params) close) r1
        in bind_res (column ''exit_ema_fast'' r2) (\<lambda>fast. bind_res (column ''exit_ema_stop'' r2) (\<lambda>stop.
           Inr (default_column ''kcj_ema_stop'' stop (default_column ''kcj_ema_fast'' fast r2)))))))"

section \<open>The replay\<close>

record backtest_state =
  bt_trades :: "trade list"
  bt_equity :: pyfloat
  bt_curve :: "pyfloat list"
  bt_peak :: pyfloat
  bt_locked :: bool
  bt_position :: "active_trade option"

definition entry_return :: "active_trade \<Rightarrow> pyfloat \<Rightarrow> pyfloat res" where
  "entry_return t price = bind_res (trade_value t ''entry'') (\<lambda>entry. pct_change price entry)"

text \<open>The partial exit at a profit target; it may close the whole trade.\<close>

definition take_partial :: "sell_decision \<Rightarrow> pyfloat \<Rightarrow> active_trade \<Rightarrow> (active_trade \<times> string option) res" where
  "take_partial d close t =
     (let price = or_price (sd_exit_price d) close; qty = sd_partial_qty d in
      bind_res (entry_return t price) (\<lambda>ret. bind_res (trade_value t ''entry'') (\<lambda>entry.
      let realized = fadd (trade_value_or t ''realized_pct'' (Fin 0)) (fmul qty ret);
          remaining = fmax (Fin 0) (fsub (trade_value_or t ''remaining'' (Fin 1)) qty);
          t1 = set_flag ''replace_protection'' (sd_replace_protection d)
                 (set_value ''stop'' (or_price (sd_stop_price d) entry)
                    (set_value ''remaining'' remaining (set_value ''realized_pct'' realized t)))
      in if sd_force_shutdown d
         then Inr (set_flag ''force_shutdown'' True (set_value ''exit_price'' price (set_value ''remaining'' (Fin 0)
                (set_value ''realized_pct'' (fadd realized (fmul remaining ret))
                   (t1\<lparr>ot_partial_taken := Some True\<rparr>)))), Some ''PARTIAL_TP_MIN_NOTIONAL_EXIT'')
         else Inr (t1\<lparr>ot_partial_taken := Some True\<rparr>, None))))"

definition partial_step ::
    "backtest_strategy \<Rightarrow> string \<Rightarrow> feature_row \<Rightarrow> pyfloat \<Rightarrow> active_trade \<Rightarrow> (active_trade \<times> string option) res" where
  "partial_step k name row close t =
     (if uses_five_min_stack k
      then bind_res (five_min_partial_tp_decision (price_row.truncate row) (open_trade.truncate t)
                       (bp_tp_rr (five_min_atr_burst_params name)) default_min_notional) (\<lambda>d.
             case d of None \<Rightarrow> Inr (t, None) | Some p \<Rightarrow> take_partial p close t)
      else Inr (t, None))"

definition exit_price_of :: "string \<Rightarrow> pyfloat \<Rightarrow> active_trade \<Rightarrow> pyfloat res" where
  "exit_price_of reason close t =
     (case dict_get (ot_values t) ''exit_price'' of
        Some x \<Rightarrow> Inr x
      | None \<Rightarrow> if reason = ''stop'' then trade_value t ''stop''
                else if reason = ''take_profit'' then trade_value t ''take_profit'' else Inr close)"

definition closed_trade ::
    "string \<Rightarrow> pyfloat \<Rightarrow> feature_row \<Rightarrow> string \<Rightarrow> pyfloat \<Rightarrow> active_trade \<Rightarrow> trade res" where
  "closed_trade name notional row reason close t =
     bind_res (exit_price_of reason close t) (\<lambda>price. bind_res (entry_return t price) (\<lambda>ret.
     bind_res (trade_value t ''entry'') (\<lambda>entry. bind_res (trade_value t ''stop'') (\<lambda>stop.
     bind_res (trade_value t ''take_profit'') (\<lambda>target. bind_res (trade_bars t) (\<lambda>bars.
     let return_pct = fadd (trade_value_or t ''realized_pct'' (Fin 0)) (fmul (trade_value_or t ''remaining'' (Fin 1)) ret)
     in Inr \<lparr>tr_symbol = name, tr_entry_time = at_entry_time t, tr_exit_time = text_or row ''open_time'' [],
             tr_entry_price = entry, tr_exit_price = price, tr_stop_price = stop, tr_take_profit_price = target,
             tr_bars_held = bars, tr_return_pct = return_pct, tr_pnl = fmul notional (fdiv return_pct (Fin 100)),
             tr_exit_reason = reason\<rparr>))))))"

text \<open>Booking a closed trade: equity, peak and the drawdown lock.\<close>

definition drawdown_reached :: "pyfloat option \<Rightarrow> pyfloat \<Rightarrow> pyfloat \<Rightarrow> bool" where
  "drawdown_reached limit peak account = (case limit of None \<Rightarrow> False
     | Some l \<Rightarrow> flt (Fin 0) peak \<and> fle l (fmul (fdiv (fsub peak account) peak) (Fin 100)))"

definition book_trade :: "pyfloat option \<Rightarrow> pyfloat \<Rightarrow> trade \<Rightarrow> backtest_state \<Rightarrow> backtest_state" where
  "book_trade limit notional t s =
     (let equity = fadd (bt_equity s) (tr_pnl t); account = fadd notional equity; peak = fmax (bt_peak s) account
      in s\<lparr>bt_trades := bt_trades s @ [t], bt_equity := equity, bt_peak := peak,
           bt_locked := bt_locked s \<or> drawdown_reached limit peak account, bt_position := None\<rparr>)"

definition trail_stop :: "backtest_strategy \<Rightarrow> feature_row \<Rightarrow> active_trade \<Rightarrow> active_trade res" where
  "trail_stop k row t =
     (if uses_five_min_stack k
      then bind_res (trade_value t ''stop'') (\<lambda>stop.
        Inr (set_value ''stop'' (fmax stop (num_or row ''exit_ema_stop'' (num_or row ''kcj_ema_stop'' stop))) t))
      else Inr t)"

definition manage_trade ::
    "backtest_strategy \<Rightarrow> string \<Rightarrow> pyfloat \<Rightarrow> feature_row \<Rightarrow> pyfloat \<Rightarrow> backtest_state \<Rightarrow> backtest_state res" where
  "manage_trade k name notional row close s =
     (case bt_position s of
        None \<Rightarrow> Inr s
      | Some t0 \<Rightarrow>
          bind_res (trade_bars t0) (\<lambda>bars.
          bind_res (partial_step k name row close (t0\<lparr>ot_bars := Some (bars + 1)\<rparr>)) (\<lambda>(t1, forced).
          let out = (case forced of Some r \<Rightarrow> (t1, Inr (Some r)) | None \<Rightarrow> exit_reason k row t1) in
          bind_res (snd out) (\<lambda>reason.
            case reason of
              Some r \<Rightarrow> bind_res (closed_trade name notional row r close (fst out)) (\<lambda>tr.
                          Inr (book_trade (bk_drawdown_lock_pct k) notional tr s))
            | None \<Rightarrow> bind_res (trail_stop k row (fst out)) (\<lambda>t2. Inr (s\<lparr>bt_position := Some t2\<rparr>))))))"

definition opened_trade ::
    "backtest_strategy \<Rightarrow> string \<Rightarrow> pyfloat \<Rightarrow> feature_row \<Rightarrow> pyfloat \<Rightarrow> backtest_signal \<Rightarrow> active_trade res" where
  "opened_trade k name notional row close sig =
     bind_res (if uses_five_min_stack k
               then (let params = five_min_atr_burst_params name in
                 bind_res (num_at row ''atr14'') (\<lambda>atr.
                 let stop = initial_five_min_stop close atr (bp_atr_mult params); risk = fmax (Fin 0) (fsub close stop)
                 in Inr (stop, if flt (Fin 0) (bp_tp_rr params) \<and> flt (Fin 0) risk
                               then fadd close (fmul (bp_tp_rr params) risk) else bs_take_profit_price sig)))
               else Inr (bs_stop_price sig, bs_take_profit_price sig))
       (\<lambda>(stop, target). Inr \<lparr>ot_values = [(''entry'', close), (''stop'', stop), (''take_profit'', target),
            (''notional'', notional), (''remaining'', Fin 1), (''realized_pct'', Fin 0)],
          ot_partial_taken = Some False, ot_bars = Some 0, at_entry_time = text_or row ''open_time'' [], at_flags = []\<rparr>)"

definition open_position ::
    "backtest_strategy \<Rightarrow> string \<Rightarrow> pyfloat \<Rightarrow> feature_row \<Rightarrow> feature_row option \<Rightarrow> pyfloat \<Rightarrow> backtest_state \<Rightarrow> backtest_state res" where
  "open_position k name notional row previous close s =
     (if bt_position s \<noteq> None \<or> bt_locked s then Inr s
      else bind_res (bk_entry_signal k row previous) (\<lambda>sig.
        case sig of None \<Rightarrow> Inr s
        | Some g \<Rightarrow> bind_res (opened_trade k name notional row close g) (\<lambda>t. Inr (s\<lparr>bt_position := Some t\<rparr>))))"

definition record_equity :: "backtest_state \<Rightarrow> backtest_state" where
  "record_equity s = s\<lparr>bt_curve := bt_curve s @ [bt_equity s]\<rparr>"

definition backtest_bar ::
    "backtest_strategy \<Rightarrow> string \<Rightarrow> pyfloat \<Rightarrow> feature_row list \<Rightarrow> nat \<Rightarrow> backtest_state \<Rightarrow> backtest_state res" where
  "backtest_bar k name notional rows i s =
     (let row = rows ! i; previous = (if 0 < i then Some (rows ! (i - 1)) else None) in
      bind_res (num_at row ''close'') (\<lambda>close.
      bind_res (manage_trade k name notional row close s) (\<lambda>s1.
      bind_res (open_position k name notional row previous close s1) (\<lambda>s2. Inr (record_equity s2)))))"

definition new_backtest :: "pyfloat \<Rightarrow> nat \<Rightarrow> backtest_state" where
  "new_backtest notional n = \<lparr>bt_trades = [], bt_equity = Fin 0, bt_curve = replicate n (Fin 0), bt_peak = notional,
     bt_locked = False, bt_position = None\<rparr>"

definition backtest_rows ::
    "backtest_strategy \<Rightarrow> string \<Rightarrow> pyfloat \<Rightarrow> feature_row list \<Rightarrow> backtest_state res" where
  "backtest_rows k name notional rows =
     fold_res (backtest_bar k name notional rows) [min warmup_bars (length rows)..<length rows]
       (new_backtest notional (min warmup_bars (length rows)))"

section \<open>Metrics\<close>

text \<open>The columns the proximity and the confidence read; the score functions are those of \<open>Replay_Metrics\<close>.\<close>

definition bar_of :: "feature_row \<Rightarrow> bar_row res" where
  "bar_of r =
     bind_res (num_at r ''close'') (\<lambda>close. bind_res (num_at r ''ema20'') (\<lambda>ema20.
     bind_res (num_at r ''ema50'') (\<lambda>ema50. bind_res (num_at r ''vwap'') (\<lambda>vwap.
     bind_res (num_at r ''rvol30'') (\<lambda>rvol. bind_res (num_at r ''delta_ratio'') (\<lambda>delta.
     bind_res (num_at r ''volatility'') (\<lambda>volatility.
       Inr \<lparr>rw_symbol = text_or r ''symbol'' [], rw_open_time = text_or r ''open_time'' [],
            rw_high = num_or r ''high'' NaN, rw_low = num_or r ''low'' NaN, rw_close = close,
            rw_atr14 = num_or r ''atr14'' NaN, rw_ema20 = ema20, rw_ema50 = ema50, rw_vwap = vwap,
            rw_rvol30 = rvol, rw_delta_ratio = delta, rw_volatility = volatility,
            rw_orderflow_score = dict_get (pr_values r) ''orderflow_score''\<rparr>)))))))"

definition row_proximity :: "feature_row \<Rightarrow> bool \<Rightarrow> proximity res" where
  "row_proximity r active = bind_res (bar_of r) (\<lambda>b. Inr (signal_proximity b active))"

definition rows_confidence :: "feature_row list \<Rightarrow> proximity \<Rightarrow> (pyfloat \<times> string) res" where
  "rows_confidence rows current = bind_res (map_res bar_of rows) (\<lambda>bars. confidence_from_score_backtest bars current)"

type_synonym scan_class = "string \<times> string \<times> pyfloat option \<times> pyfloat option \<times> pyfloat option"

definition classify_rows ::
    "backtest_strategy \<Rightarrow> feature_row list \<Rightarrow> active_trade option \<Rightarrow> pyfloat \<Rightarrow> scan_class res" where
  "classify_rows k rows active notional =
     (let latest = last rows; previous = (if 1 < length rows then Some (rows ! (length rows - 2)) else None) in
      bind_res (num_at latest ''close'') (\<lambda>close.
      case active of
        Some t \<Rightarrow> bind_res (trade_value t ''entry'') (\<lambda>entry. bind_res (pct_change close entry) (\<lambda>pct.
          Inr (''IN TRADE'', bk_name k @ '' active replay position tracking mark-to-market'', Some entry,
               Some (fdiv (fmul notional pct) (Fin 100)), Some pct)))
      | None \<Rightarrow> bind_res (bk_entry_signal k latest previous) (\<lambda>sig.
          case sig of
            Some g \<Rightarrow> Inr (''BUY'', bs_reason g, None, None, None)
          | None \<Rightarrow> bind_res (row_proximity latest False) (\<lambda>prox.
              if fle (Fin 60) (px_watch_score prox)
              then Inr (''WATCH'', bk_name k @ '' setup forming'', None, None, None)
              else Inr (''NO SIGNAL'', bk_name k @ '' conditions below entry threshold'', None, None, None)))))"

definition backtest_metrics ::
    "(pyfloat list \<Rightarrow> pyfloat) \<Rightarrow> feature_row list \<Rightarrow> pyfloat \<Rightarrow> trade list \<Rightarrow> pyfloat \<Rightarrow> pyfloat list \<Rightarrow> bool
      \<Rightarrow> scan_class \<Rightarrow> symbol_metrics res" where
  "backtest_metrics sharpe rows notional trades equity curve active scan =
     (let latest = last rows; returns = map tr_return_pct trades; (bucket, reason, entry, pnl, pct) = scan in
      bind_res (row_proximity latest active) (\<lambda>prox.
      bind_res (rows_confidence rows prox) (\<lambda>(score, text).
      bind_res (py_div equity notional) (\<lambda>ratio. bind_res (num_at latest ''close'') (\<lambda>close.
      Inr \<lparr>sm_symbol = text_or latest ''symbol'' [], sm_candles = length rows, sm_trades = length trades,
           sm_wins = length (filter (\<lambda>t. flt (Fin 0) (tr_pnl t)) trades),
           sm_losses = length (filter (\<lambda>t. fle (tr_pnl t) (Fin 0)) trades),
           sm_win_rate = win_rate trades, sm_total_pnl = equity, sm_total_return_pct = fmul ratio (Fin 100),
           sm_profit_factor = profit_factor trades, sm_max_drawdown_pct = max_drawdown_pct curve notional,
           sm_avg_trade_return_pct =
             (if returns = [] then Fin 0 else fdiv (fsum returns) (Fin (of_nat (length returns)))),
           sm_sharpe_proxy = sharpe_proxy sharpe returns, sm_last_close = close, sm_scan_bucket = bucket,
           sm_scan_reason = reason, sm_active_entry = entry, sm_active_pnl = pnl, sm_active_pnl_pct = pct,
           sm_proximity = prox, sm_confidence_score = score, sm_confidence_reason = text\<rparr>)))))"

definition backtest_replay ::
    "(pyfloat list \<Rightarrow> pyfloat) \<Rightarrow> (int \<Rightarrow> pyfloat list \<Rightarrow> pyfloat list) \<Rightarrow> backtest_strategy \<Rightarrow> feature_row list \<Rightarrow> pyfloat
      \<Rightarrow> (symbol_metrics \<times> trade list) res" where
  "backtest_replay sharpe ewm k df notional =
     (if df = [] then Inl (ValueError ''cannot replay empty feature set'')
      else bind_res (prepare_exit_rows ewm k df) (\<lambda>rows.
        bind_res (backtest_rows k (text_or (last df) ''symbol'' []) notional rows) (\<lambda>s.
        bind_res (classify_rows k rows (bt_position s) notional) (\<lambda>scan.
        bind_res (backtest_metrics sharpe rows notional (bt_trades s) (bt_equity s) (bt_curve s)
                    (bt_position s \<noteq> None) scan) (\<lambda>m. Inr (m, bt_trades s))))))"

section \<open>Accounting, holding time and the drawdown lock\<close>

lemma trade_bars_simps [simp]:
  "trade_bars (t\<lparr>ot_bars := Some n\<rparr>) = Inr n"
  "ot_bars (set_value key v t) = ot_bars t" "ot_bars (set_flag key b t) = ot_bars t"
  "ot_bars (t\<lparr>ot_values := vs\<rparr>) = ot_bars t" "ot_bars (t\<lparr>ot_partial_taken := p\<rparr>) = ot_bars t"
  by (simp_all add: trade_bars_def set_value_def set_flag_def)

lemma take_partial_bars: "take_partial d close t = Inr (t', r) \<Longrightarrow> ot_bars t' = ot_bars t"
  by (auto simp: take_partial_def Let_def bind_res_eq_Inr split: if_splits)

lemma partial_step_bars: "partial_step k name row close t = Inr (t', r) \<Longrightarrow> ot_bars t' = ot_bars t"
  by (auto simp: partial_step_def bind_res_eq_Inr dest: take_partial_bars split: if_splits option.splits)

lemma exit_reason_bars: "ot_bars (fst (exit_reason k row t)) = ot_bars t"
  by (auto simp: exit_reason_def daily_exit_reason_def five_min_exit_reason_def bind_act_def
      split: prod.split sum.split option.split)

lemma trail_stop_bars: "trail_stop k row t = Inr t' \<Longrightarrow> ot_bars t' = ot_bars t"
  by (auto simp: trail_stop_def bind_res_eq_Inr split: if_splits)

lemma closed_trade_fields:
  "closed_trade name notional row reason close t = Inr tr \<Longrightarrow> tr_exit_reason tr = reason \<and> ot_bars t = Some (tr_bars_held tr)"
  by (auto simp: closed_trade_def bind_res_eq_Inr Let_def trade_bars_def split: option.splits)

text \<open>Without the daily stack a trade is kept only below the hold limit.\<close>

lemma kept_below_limit:
  assumes "\<not> uses_daily_exit_stack k" and "exit_reason k row t = (t', Inr None)" and "ot_bars t = Some n"
  shows "n < bk_max_hold_bars k"
  using assms
  by (auto simp: exit_reason_def five_min_exit_reason_def plain_exit_reason_def bind_act_def bind_res_def trade_bars_def
      split: if_splits sum.splits option.splits)

definition backtest_inv :: "backtest_strategy \<Rightarrow> nat \<Rightarrow> backtest_state \<Rightarrow> bool" where
  "backtest_inv k n s =
     (bt_equity s = foldl fadd (Fin 0) (map tr_pnl (bt_trades s)) \<and> length (bt_curve s) = n \<and>
      (bt_locked s \<longrightarrow> bt_position s = None) \<and>
      (\<forall>t\<in>set (bt_trades s). 1 \<le> tr_bars_held t \<and>
         (uses_daily_exit_stack k \<or> tr_bars_held t \<le> max 1 (bk_max_hold_bars k))) \<and>
      (\<forall>p. bt_position s = Some p \<longrightarrow> (\<exists>b. ot_bars p = Some b \<and> 0 \<le> b \<and>
         (uses_daily_exit_stack k \<or> b < max 1 (bk_max_hold_bars k)))))"

lemma manage_trade_cases:
  assumes "manage_trade k name notional row close s = Inr s'" and "bt_position s = Some t0" and "ot_bars t0 = Some b"
  shows "(\<exists>tr. s' = book_trade (bk_drawdown_lock_pct k) notional tr s \<and> tr_bars_held tr = b + 1) \<or>
    (\<exists>t. s' = s\<lparr>bt_position := Some t\<rparr> \<and> ot_bars t = Some (b + 1) \<and>
       (uses_daily_exit_stack k \<or> b + 1 < bk_max_hold_bars k))"
proof -
  let ?t = "t0\<lparr>ot_bars := Some (b + 1)\<rparr>"
  obtain t1 forced reason where
    p: "partial_step k name row close ?t = Inr (t1, forced)" and
    o': "snd (case forced of Some r \<Rightarrow> (t1, Inr (Some r)) | None \<Rightarrow> exit_reason k row t1) = Inr reason" and
    r': "(case reason of Some r \<Rightarrow> bind_res (closed_trade name notional row r close
              (fst (case forced of Some r \<Rightarrow> (t1, Inr (Some r)) | None \<Rightarrow> exit_reason k row t1))) (\<lambda>tr.
            Inr (book_trade (bk_drawdown_lock_pct k) notional tr s))
        | None \<Rightarrow> bind_res (trail_stop k row
              (fst (case forced of Some r \<Rightarrow> (t1, Inr (Some r)) | None \<Rightarrow> exit_reason k row t1))) (\<lambda>t2.
            Inr (s\<lparr>bt_position := Some t2\<rparr>))) = Inr s'"
    using assms by (auto simp: manage_trade_def bind_res_eq_Inr trade_bars_def Let_def split: prod.splits)
  define out where "out = (case forced of Some r \<Rightarrow> (t1, Inr (Some r)) | None \<Rightarrow> exit_reason k row t1)"
  note o = out_def o'[folded out_def] and r = r'[folded out_def]
  have t1: "ot_bars t1 = Some (b + 1)" using partial_step_bars[OF p] by simp
  then have out: "ot_bars (fst out) = Some (b + 1)"
    using exit_reason_bars[of k row t1] by (simp add: o(1) split: option.split)
  show ?thesis
  proof (cases reason)
    case None
    then have "forced = None" using o by (auto split: option.splits)
    with o None have ex: "exit_reason k row t1 = (fst out, Inr None)" by (metis option.simps(4) prod.collapse)
    obtain t2 where "trail_stop k row (fst out) = Inr t2" "s' = s\<lparr>bt_position := Some t2\<rparr>"
      using r None by (auto simp: bind_res_eq_Inr)
    then show ?thesis using trail_stop_bars out kept_below_limit[OF _ ex t1] by metis
  next
    case (Some reason')
    then obtain tr where tr: "closed_trade name notional row reason' close (fst out) = Inr tr"
        "s' = book_trade (bk_drawdown_lock_pct k) notional tr s" using r by (auto simp: bind_res_eq_Inr)
    have "tr_bars_held tr = b + 1" using closed_trade_fields[OF tr(1)] out by simp
    then show ?thesis using tr(2) by blast
  qed
qed

lemma book_trade_inv:
  assumes "backtest_inv k n s" and "1 \<le> tr_bars_held tr"
    and "uses_daily_exit_stack k \<or> tr_bars_held tr \<le> max 1 (bk_max_hold_bars k)"
  shows "backtest_inv k n (book_trade limit notional tr s)"
  using assms by (auto simp: backtest_inv_def book_trade_def Let_def)

lemma manage_trade_inv:
  assumes "backtest_inv k n s" and "manage_trade k name notional row close s = Inr s'"
  shows "backtest_inv k n s'"
proof (cases "bt_position s")
  case None
  then show ?thesis using assms by (simp add: manage_trade_def)
next
  case (Some t0)
  obtain b where b: "ot_bars t0 = Some b" "0 \<le> b" "uses_daily_exit_stack k \<or> b < max 1 (bk_max_hold_bars k)"
    using assms(1) Some by (auto simp: backtest_inv_def)
  from manage_trade_cases[OF assms(2) Some b(1)] show ?thesis
  proof (elim disjE exE conjE)
    fix tr assume tr: "s' = book_trade (bk_drawdown_lock_pct k) notional tr s" "tr_bars_held tr = b + 1"
    have "uses_daily_exit_stack k \<or> tr_bars_held tr \<le> max 1 (bk_max_hold_bars k)" using b(3) tr(2) by linarith
    then show ?thesis using book_trade_inv[OF assms(1)] tr b(2) by simp
  next
    fix t assume "s' = s\<lparr>bt_position := Some t\<rparr>" "ot_bars t = Some (b + 1)"
      "uses_daily_exit_stack k"
    then show ?thesis using assms(1) Some b by (auto simp: backtest_inv_def)
  next
    fix t assume "s' = s\<lparr>bt_position := Some t\<rparr>" "ot_bars t = Some (b + 1)" "b + 1 < bk_max_hold_bars k"
    then show ?thesis using assms(1) Some b by (auto simp: backtest_inv_def)
  qed
qed

lemma opened_trade_bars: "opened_trade k name notional row close sig = Inr t \<Longrightarrow> ot_bars t = Some 0"
  by (auto simp: opened_trade_def bind_res_eq_Inr)

lemma open_position_cases:
  assumes "open_position k name notional row previous close s = Inr s'"
  shows "s' = s \<or> bt_position s = None \<and> \<not> bt_locked s \<and> (\<exists>t. s' = s\<lparr>bt_position := Some t\<rparr> \<and> ot_bars t = Some 0)"
  using assms by (auto simp: open_position_def bind_res_eq_Inr dest: opened_trade_bars split: if_splits option.splits)

lemma backtest_bar_inv:
  assumes "backtest_inv k n s" and "backtest_bar k name notional rows i s = Inr s'"
  shows "backtest_inv k (Suc n) s'"
proof -
  obtain close s1 s2 where b: "manage_trade k name notional (rows ! i) close s = Inr s1"
      "open_position k name notional (rows ! i) (if 0 < i then Some (rows ! (i - 1)) else None) close s1 = Inr s2"
      "s' = record_equity s2"
    using assms(2) by (auto simp: backtest_bar_def Let_def bind_res_eq_Inr)
  have "backtest_inv k n s2"
    using manage_trade_inv[OF assms(1) b(1)] open_position_cases[OF b(2)] by (auto simp: backtest_inv_def)
  then show ?thesis by (simp add: b(3) record_equity_def backtest_inv_def)
qed

text \<open>Every bar adds one point to the curve and keeps what holds of a state; the shape of both folds below.\<close>

lemma backtest_fold_inv:
  assumes "fold_res (backtest_bar k name notional rows) is s = Inr s'" and "backtest_inv k n s"
  shows "backtest_inv k (n + length is) s'"
  using assms
proof (induction "is" arbitrary: s n)
  case (Cons i "is")
  then obtain s1 where s1: "backtest_bar k name notional rows i s = Inr s1"
      "fold_res (backtest_bar k name notional rows) is s1 = Inr s'" by (auto simp: bind_res_eq_Inr)
  with Cons.IH[OF s1(2), of "Suc n"] backtest_bar_inv[OF Cons.prems(2)] show ?case by simp
qed simp

lemma new_backtest_inv: "backtest_inv k n (new_backtest notional n)"
  by (simp add: backtest_inv_def new_backtest_def)

lemma locked_bar:
  assumes "bt_locked s" and "bt_position s = None" and "backtest_bar k name notional rows i s = Inr s'"
  shows "s' = record_equity s"
  using assms by (auto simp: backtest_bar_def Let_def bind_res_eq_Inr manage_trade_def open_position_def)

lemma locked_fold:
  assumes "fold_res (backtest_bar k name notional rows) is s = Inr s'" and "bt_locked s" and "bt_position s = None"
  shows "bt_trades s' = bt_trades s \<and> bt_equity s' = bt_equity s \<and> bt_position s' = None \<and> bt_locked s'"
  using assms
proof (induction "is" arbitrary: s)
  case (Cons i "is")
  then obtain s1 where s1: "backtest_bar k name notional rows i s = Inr s1"
      "fold_res (backtest_bar k name notional rows) is s1 = Inr s'" by (auto simp: bind_res_eq_Inr)
  have "s1 = record_equity s" using locked_bar Cons.prems(2,3) s1(1) by blast
  then show ?case using Cons.IH[OF s1(2)] Cons.prems by (simp add: record_equity_def)
qed simp

text \<open>\<open>C13\<close>: Once the drawdown lock of a replay is set it is final: over all later bars no trade opens or
  closes and the equity stays what it was.\<close>

theorem drawdown_lock_is_final:
  assumes "fold_res (backtest_bar k name notional rows) [n..<m] (new_backtest notional n) = Inr s" and "bt_locked s"
    and "fold_res (backtest_bar k name notional rows) [n..<m'] (new_backtest notional n) = Inr s'" and "n \<le> m" and "m \<le> m'"
  shows "bt_trades s' = bt_trades s \<and> bt_equity s' = bt_equity s \<and> bt_position s' = None"
proof -
  have "[n..<m'] = [n..<m] @ [m..<m']" using assms(4,5) upt_add_eq_append[of n m "m' - m"] by simp
  then have rest: "fold_res (backtest_bar k name notional rows) [m..<m'] s = Inr s'"
    using assms(1,3) by (simp add: fold_res_append)
  have "bt_position s = None"
    using backtest_fold_inv[OF assms(1) new_backtest_inv] assms(2) by (simp add: backtest_inv_def)
  from locked_fold[OF rest assms(2) this] show ?thesis by simp
qed

text \<open>A replay that returns has closed every reported trade after at least one bar and, outside the
  daily stack, at the latest at the hold limit; the reported profit is the sum of the trades' profits in
  order, wins and losses do not exceed the trades, and there is one candle per row.\<close>

theorem backtest_accounting:
  assumes "backtest_replay sharpe ewm k df notional = Inr (m, trades)"
  shows "sm_total_pnl m = foldl fadd (Fin 0) (map tr_pnl trades) \<and> sm_trades m = length trades \<and>
    sm_wins m + sm_losses m \<le> sm_trades m \<and>
    (\<forall>t\<in>set trades. 1 \<le> tr_bars_held t \<and> (uses_daily_exit_stack k \<or> tr_bars_held t \<le> max 1 (bk_max_hold_bars k)))"
proof -
  obtain rows s scan where r: "backtest_rows k (text_or (last df) ''symbol'' []) notional rows = Inr s"
      "backtest_metrics sharpe rows notional (bt_trades s) (bt_equity s) (bt_curve s) (bt_position s \<noteq> None) scan = Inr m"
      "trades = bt_trades s"
    using assms by (auto simp: backtest_replay_def bind_res_eq_Inr split: if_splits)
  have m: "sm_total_pnl m = bt_equity s \<and> sm_trades m = length trades \<and>
      sm_wins m = length (filter (\<lambda>t. flt (Fin 0) (tr_pnl t)) trades) \<and>
      sm_losses m = length (filter (\<lambda>t. fle (tr_pnl t) (Fin 0)) trades)"
    using r(2,3) by (auto simp: backtest_metrics_def Let_def bind_res_eq_Inr split: prod.splits)
  have "backtest_inv k (min warmup_bars (length rows) + length [min warmup_bars (length rows)..<length rows]) s"
    using backtest_fold_inv[OF r(1)[unfolded backtest_rows_def] new_backtest_inv] .
  with m wins_losses[of trades] r(3) show ?thesis by (simp add: backtest_inv_def)
qed

section \<open>A losing trade\<close>

text \<open>A strategy that always enters with its stop at half the price, without the lower-timeframe stack.\<close>

definition eager_strategy :: backtest_strategy where
  "eager_strategy = \<lparr>bk_name = ''Eager'', bk_default_timeframe = ''1h'', bk_max_hold_bars = 24,
     bk_drawdown_lock_pct = Some (Fin 6), bk_daily_exit = default_daily_exit, bk_lower_stack = False,
     bk_entry_signal = (\<lambda>_ _. Inr (Some \<lparr>bs_entry = True, bs_stop_price = Fin 50, bs_take_profit_price = Fin 200,
        bs_reason = ''always''\<rparr>))\<rparr>"

definition eager_row :: "rat \<Rightarrow> feature_row" where
  "eager_row low = \<lparr>pr_values = [(''close'', Fin 100), (''low'', Fin low), (''high'', Fin 100), (''ema20'', Fin 90),
     (''ema50'', Fin 80), (''vwap'', Fin 95), (''rvol30'', Fin 1), (''delta_ratio'', Fin (1 / 2)),
     (''volatility'', Fin 1)], pr_is_complete = None, fr_flags = [], fr_texts = [(''symbol'', ''X'')]\<rparr>"

lemma eager_plain [simp]: "\<not> uses_daily_exit_stack eager_strategy" "\<not> uses_five_min_stack eager_strategy"
  "\<not> bk_lower_stack eager_strategy" "bk_drawdown_lock_pct eager_strategy = Some (Fin 6)"
  by (simp_all add: uses_daily_exit_stack_def uses_five_min_stack_def eager_strategy_def str_lower_def lower_char_def
      is_upper_def ord_of_def)

lemma fround_half: "fround (1 / 2) = Fin (1 / 2)" "fround (- (1 / 2)) = Fin (- (1 / 2))"
  using fround_eval[of "1 / 2 ^ 53" "- 53" "1 / 2" "4503599627370496"]
    fround_eval[of "1 / 2 ^ 53" "- 53" "- (1 / 2)" "- 4503599627370496"]
  by (simp_all add: power_int_def power_one_over)

definition eager_trade :: active_trade where
  "eager_trade = \<lparr>ot_values = [(''entry'', Fin 100), (''stop'', Fin 50), (''take_profit'', Fin 200),
     (''notional'', Fin 1000), (''remaining'', Fin 1), (''realized_pct'', Fin 0)],
     ot_partial_taken = Some False, ot_bars = Some 0, at_entry_time = [], at_flags = []\<rparr>"

definition eager_loss :: trade where
  "eager_loss = \<lparr>tr_symbol = ''X'', tr_entry_time = [], tr_exit_time = [], tr_entry_price = Fin 100, tr_exit_price = Fin 50,
     tr_stop_price = Fin 50, tr_take_profit_price = Fin 200, tr_bars_held = 1, tr_return_pct = Fin (- 50),
     tr_pnl = Fin (- 500), tr_exit_reason = ''stop''\<rparr>"

lemma eager_opens:
  assumes "rows ! i = eager_row low" and "bt_position s = None" and "\<not> bt_locked s"
  shows "backtest_bar eager_strategy ''X'' (Fin 1000) rows i s = Inr (record_equity (s\<lparr>bt_position := Some eager_trade\<rparr>))"
proof -
  have "opened_trade eager_strategy ''X'' (Fin 1000) (eager_row low) (Fin 100)
      \<lparr>bs_entry = True, bs_stop_price = Fin 50, bs_take_profit_price = Fin 200, bs_reason = ''always''\<rparr> = Inr eager_trade"
    by (simp add: opened_trade_def eager_trade_def text_or_def eager_row_def dict_get_or_def)
  moreover have "num_at (eager_row low) ''close'' = Inr (Fin 100)" by (simp add: num_at_def value_at_def eager_row_def)
  ultimately show ?thesis using assms
    by (simp add: backtest_bar_def Let_def manage_trade_def open_position_def eager_strategy_def)
qed

lemma eager_stops:
  assumes "rows ! i = eager_row 40" and "bt_position s = Some eager_trade" and "bt_equity s = Fin 0" and "bt_peak s = Fin 1000"
  shows "backtest_bar eager_strategy ''X'' (Fin 1000) rows i s =
    Inr (record_equity (s\<lparr>bt_trades := bt_trades s @ [eager_loss], bt_equity := Fin (- 500), bt_peak := Fin 1000,
      bt_locked := True, bt_position := None\<rparr>))"
proof -
  let ?t = "eager_trade\<lparr>ot_bars := Some 1\<rparr>"
  have c: "num_at (eager_row 40) ''close'' = Inr (Fin 100)" "num_at (eager_row 40) ''low'' = Inr (Fin 40)"
    by (simp_all add: num_at_def value_at_def eager_row_def)
  have e: "exit_reason eager_strategy (eager_row 40) ?t = (?t, Inr (Some ''stop''))"
    by (simp add: exit_reason_def plain_exit_reason_def c trade_value_def value_at_def eager_trade_def)
  have t: "closed_trade ''X'' (Fin 1000) (eager_row 40) ''stop'' (Fin 100) ?t = Inr eager_loss"
    by (simp add: closed_trade_def exit_price_of_def trade_value_def value_at_def entry_return_def pct_change_def py_div_def
        trade_bars_def trade_value_or_def dict_get_or_def eager_trade_def eager_loss_def text_or_def eager_row_def fround_half)
  have b: "trade_bars eager_trade = Inr 0" by (simp add: trade_bars_def eager_trade_def)
  have k: "book_trade (Some (Fin 6)) (Fin 1000) eager_loss s =
      s\<lparr>bt_trades := bt_trades s @ [eager_loss], bt_equity := Fin (- 500), bt_peak := Fin 1000, bt_locked := True, bt_position := None\<rparr>"
    using assms by (simp add: book_trade_def eager_loss_def drawdown_reached_def fmax_def fround_half Let_def)
  show ?thesis
    using assms c b e t k
    by (simp add: backtest_bar_def Let_def manage_trade_def partial_step_def open_position_def)
qed

lemma eager_run:
  assumes "rows ! n = eager_row 100" and "rows ! Suc n = eager_row 40"
  shows "\<exists>s. fold_res (backtest_bar eager_strategy ''X'' (Fin 1000) rows) [n..<Suc (Suc n)] (new_backtest (Fin 1000) n) = Inr s \<and>
    bt_locked s \<and> bt_trades s = [eager_loss] \<and> bt_equity s = Fin (- 500) \<and> bt_position s = None"
proof -
  have "[n..<Suc (Suc n)] = [n, Suc n]" by (simp add: upt_rec)
  then show ?thesis
    using eager_opens[OF assms(1), of "new_backtest (Fin 1000) n"] eager_stops[OF assms(2)]
    by (simp add: new_backtest_def record_equity_def)
qed

theorem drawdown_lock_is_final_witness:
  "\<exists>s. fold_res (backtest_bar eager_strategy ''X'' (Fin 1000) [eager_row 100, eager_row 40, eager_row 100]) [0..<3]
     (new_backtest (Fin 1000) 0) = Inr s \<and> bt_trades s = [eager_loss]"
proof -
  let ?rows = "[eager_row 100, eager_row 40, eager_row 100]"
  obtain s where s: "fold_res (backtest_bar eager_strategy ''X'' (Fin 1000) ?rows) [0..<Suc (Suc 0)] (new_backtest (Fin 1000) 0) = Inr s"
      "bt_locked s" "bt_trades s = [eager_loss]" "bt_position s = None"
    using eager_run[of ?rows 0] by (auto simp del: upt_Suc)
  have "backtest_bar eager_strategy ''X'' (Fin 1000) ?rows 2 s = Inr (record_equity s)"
    using s(2,4) by (simp add: backtest_bar_def Let_def manage_trade_def open_position_def num_at_def value_at_def eager_row_def)
  moreover have u: "[0..<3] = [0..<Suc (Suc 0)] @ [2::nat]" by (simp add: upt_rec)
  ultimately have r: "fold_res (backtest_bar eager_strategy ''X'' (Fin 1000) ?rows) [0..<3] (new_backtest (Fin 1000) 0) =
      Inr (record_equity s)" unfolding u fold_res_append s(1) by simp
  from drawdown_lock_is_final[OF s(1,2) r] s(3) r show ?thesis by auto
qed

text \<open>The same trade after a warm-up of 200 bars, with the metrics of the whole replay.\<close>

definition eager_rows :: "feature_row list" where
  "eager_rows = replicate 200 (eager_row 100) @ [eager_row 100, eager_row 40]"

lemma eager_bar_of: "\<exists>b. bar_of (eager_row low) = Inr b"
  by (simp add: bar_of_def num_at_def value_at_def eager_row_def)

lemma eager_rows_facts:
  "length eager_rows = 202" "eager_rows \<noteq> []" "last eager_rows = eager_row 40"
  "eager_rows ! 200 = eager_row 100" "eager_rows ! Suc 200 = eager_row 40"
  by (simp_all add: eager_rows_def nth_append)

lemma eager_backtest:
  "\<exists>s. backtest_rows eager_strategy ''X'' (Fin 1000) eager_rows = Inr s \<and> bt_locked s \<and> bt_trades s = [eager_loss] \<and>
     bt_equity s = Fin (- 500) \<and> bt_position s = None"
proof -
  have "backtest_rows eager_strategy ''X'' (Fin 1000) eager_rows =
      fold_res (backtest_bar eager_strategy ''X'' (Fin 1000) eager_rows) [200..<Suc (Suc 200)] (new_backtest (Fin 1000) 200)"
    by (simp add: backtest_rows_def eager_rows_facts(1) warmup_bars_def)
  then show ?thesis using eager_run[OF eager_rows_facts(4,5)] by (simp only:)
qed

lemma eager_confidence: "\<exists>c. rows_confidence eager_rows p = Inr c"
proof -
  have "bar_of r = Inr (projr (bar_of r))" if "r \<in> set eager_rows" for r
    using that eager_bar_of[of 100] eager_bar_of[of 40] by (auto simp: eager_rows_def)
  then have m: "map_res bar_of eager_rows = Inr (map (\<lambda>r. projr (bar_of r)) eager_rows)" by (rule map_res_Inr)
  have "forward_samples (map (\<lambda>r. projr (bar_of r)) eager_rows) confidence_horizon = Inr []"
    by (simp add: forward_samples_def warmup_bars_def confidence_horizon_def eager_rows_facts(1) List.map_filter_def)
  then show ?thesis by (simp add: rows_confidence_def m confidence_from_score_backtest_def)
qed

lemma eager_close: "num_at (eager_row low) ''close'' = Inr (Fin 100)"
  by (simp add: num_at_def value_at_def eager_row_def)

lemma eager_metrics:
  "\<exists>m. backtest_metrics sharpe eager_rows (Fin 1000) trades (Fin (- 500)) curve False scan = Inr m"
proof -
  obtain p where p: "row_proximity (eager_row 40) False = Inr p"
    using eager_bar_of[of 40] by (auto simp: row_proximity_def)
  obtain c where c: "rows_confidence eager_rows p = Inr c" using eager_confidence by (rule exE)
  show ?thesis
    by (cases scan; cases c) (simp add: backtest_metrics_def eager_rows_facts(3) eager_close p c py_div_def Let_def)
qed

lemma eager_replay: "\<exists>m. backtest_replay sharpe ewm eager_strategy eager_rows (Fin 1000) = Inr (m, [eager_loss])"
proof -
  obtain s where s: "backtest_rows eager_strategy ''X'' (Fin 1000) eager_rows = Inr s" "bt_trades s = [eager_loss]"
      "bt_equity s = Fin (- 500)" "bt_position s = None"
    using eager_backtest by (elim exE conjE) (rule that)
  obtain scan where scan: "classify_rows eager_strategy eager_rows None (Fin 1000) = Inr scan"
    by (simp add: classify_rows_def eager_rows_facts(3) eager_close) (simp add: eager_strategy_def)
  have t: "text_or (last eager_rows) ''symbol'' [] = ''X''"
    by (simp add: eager_rows_facts(3) text_or_def dict_get_or_def eager_row_def)
  obtain m where m: "backtest_metrics sharpe eager_rows (Fin 1000) [eager_loss] (Fin (- 500)) (bt_curve s) False scan = Inr m"
    using eager_metrics by (rule exE)
  show ?thesis
    using s scan m by (simp add: backtest_replay_def prepare_exit_rows_def eager_rows_facts(2) t)
qed

theorem backtest_accounting_witness:
  "\<exists>m. backtest_replay (\<lambda>_. Fin 0) (\<lambda>_ xs. xs) eager_strategy eager_rows (Fin 1000) = Inr (m, [eager_loss]) \<and>
     sm_total_pnl m = Fin (- 500) \<and> sm_trades m = 1"
proof -
  obtain m where m: "backtest_replay (\<lambda>_. Fin 0) (\<lambda>_ xs. xs) eager_strategy eager_rows (Fin 1000) = Inr (m, [eager_loss])"
    using eager_replay by (rule exE)
  have "foldl fadd (Fin 0) (map tr_pnl [eager_loss]) = Fin (- 500)" by (simp add: eager_loss_def)
  with backtest_accounting[OF m] m show ?thesis by auto
qed

end
