(* ===== verification/Backtest_Entries.thy ===== *)
theory Backtest_Entries
  imports Backtest_Framework
begin

text \<open>
  The entry rules of the strategies in \<open>strategies/backtest_plugins.py\<close> and the strategy records built on
  them. A Python \<open>and\<close> over column reads is \<open>all_hold\<close>: it stops at the first false condition, so a column
  behind it is not read and raises no \<open>KeyError\<close>. The derived columns (moving averages, momentum, the
  session flag, the statistics of the mean-reversion strategy) are pandas' work and part of the rows.
\<close>

fun all_hold :: "bool res list \<Rightarrow> bool res" where
  "all_hold [] = Inr True"
| "all_hold (c # cs) = bind_res c (\<lambda>b. if b then all_hold cs else Inr False)"

lemma all_hold_True: "all_hold cs = Inr True \<longleftrightarrow> (\<forall>c\<in>set cs. c = Inr True)"
  by (induction cs) (auto simp: bind_res_eq_Inr)

definition when_holds :: "bool res list \<Rightarrow> backtest_signal \<Rightarrow> backtest_signal option res" where
  "when_holds cs g = bind_res (all_hold cs) (\<lambda>b. Inr (if b then Some g else None))"

definition col :: "feature_row \<Rightarrow> string \<Rightarrow> (pyfloat \<Rightarrow> bool) \<Rightarrow> bool res" where
  "col r c p = bind_res (num_at r c) (\<lambda>x. Inr (p x))"

definition entry_at :: "pyfloat \<Rightarrow> pyfloat \<Rightarrow> string \<Rightarrow> backtest_signal" where
  "entry_at stop target reason =
     \<lparr>bs_entry = True, bs_stop_price = fmax (dec 1 1000000) stop, bs_take_profit_price = target, bs_reason = reason\<rparr>"

lemma when_holds_Some: "when_holds cs g = Inr (Some g') \<longleftrightarrow> g' = g \<and> (\<forall>c\<in>set cs. c = Inr True)"
  by (auto simp: when_holds_def bind_res_eq_Inr all_hold_True[symmetric] split: if_splits)

section \<open>Momentum, burst, reclaim\<close>

definition existing_momentum_entry :: "feature_row \<Rightarrow> feature_row option \<Rightarrow> backtest_signal option res" where
  "existing_momentum_entry row previous =
     bind_res (num_at row ''close'') (\<lambda>close. bind_res (num_at row ''atr14'') (\<lambda>atr.
     when_holds
       [bind_res (num_at row ''ema20'') (\<lambda>ema20. if flt ema20 close then col row ''ema50'' (\<lambda>ema50. flt ema50 ema20) else Inr False),
        col row ''vwap'' (\<lambda>v. flt v close), col row ''rvol30'' (fle (dec 9 10)), col row ''delta_ratio'' (flt (dec 2 100)),
        col row ''volatility'' in_band]
       (entry_at (fsub close (fmul (dec 14 10) atr)) (fadd close (fmul (dec 24 10) atr))
          ''trend, VWAP, RVOL, and taker delta aligned'')))"

definition atr_trend_burst_entry :: "feature_row \<Rightarrow> feature_row option \<Rightarrow> backtest_signal option res" where
  "atr_trend_burst_entry row previous =
     (if previous = None then Inr None
      else bind_res (num_at row ''close'') (\<lambda>close. bind_res (num_at row ''open'') (\<lambda>op.
        bind_res (num_at row ''high'') (\<lambda>high. bind_res (num_at row ''low'') (\<lambda>low.
        bind_res (num_at row ''atr14'') (\<lambda>atr. bind_res (num_at row ''ema20'') (\<lambda>ema20.
        bind_res (num_at row ''ema200'') (\<lambda>ema200.
        let atr_frac = (if flt (Fin 0) close then fdiv atr close else Fin 0);
            change = fmax (fmax (fabs (fsub close op)) (fabs (fsub high op))) (fabs (fsub low op))
        in bind_res (all_hold [col row ''delta_ratio'' (flt (dec (- 5) 100)), col row ''rvol30'' (fle (dec 8 10))]) (\<lambda>flow_ok.
           let stop = fmin low (fsub close (fmul (dec 115 100) atr))
           in when_holds
             [Inr (flt ema20 close \<and> flt ema200 ema20), Inr (fle (fmul (dec 15 10) atr) change), Inr (flt op close),
              Inr (fle (dec 2 1000) atr_frac \<and> fle atr_frac (dec 3 100)), Inr flow_ok]
             (entry_at stop (fadd close (fmul (dec 18 10) (fsub close stop)))
                ''ATR burst with EMA20/200 trend and acceptable flow''))))))))))"

definition vwap_reclaim_entry :: "feature_row \<Rightarrow> feature_row option \<Rightarrow> backtest_signal option res" where
  "vwap_reclaim_entry row previous =
     (case previous of None \<Rightarrow> Inr None
      | Some prev \<Rightarrow>
          bind_res (num_at row ''close'') (\<lambda>close. bind_res (num_at row ''vwap'') (\<lambda>vwap.
          bind_res (num_at row ''atr14'') (\<lambda>atr.
          bind_res (num_at prev ''close'') (\<lambda>prev_close. bind_res (num_at prev ''vwap'') (\<lambda>prev_vwap.
          when_holds
            [Inr (flt prev_close prev_vwap \<and> flt vwap close), col row ''ema20'' (\<lambda>e. flt e close),
             col row ''delta_ratio'' (flt (Fin 0)), col row ''rvol30'' (fle (dec 8 10))]
            (entry_at (fsub close atr) (fadd close (fmul (dec 17 10) atr))
               ''VWAP reclaim with positive delta and volume confirmation'')))))))"

section \<open>Symbols\<close>

definition normalized_symbol :: "string \<Rightarrow> string" where
  "normalized_symbol name = str_upper (remove_char CHR ''/'' name)"

definition is_supported_symbol :: "string list \<Rightarrow> string \<Rightarrow> bool" where
  "is_supported_symbol tokens name = list_ex (\<lambda>t. startswith (normalized_symbol name) t) tokens"

fun contains_text :: "string \<Rightarrow> string \<Rightarrow> bool" where
  "contains_text token [] = (token = [])"
| "contains_text token (c # cs) = (startswith (c # cs) token \<or> contains_text token cs)"

definition is_symbol :: "string \<Rightarrow> string \<Rightarrow> bool" where
  "is_symbol name token = contains_text token (normalized_symbol name)"

section \<open>KCJ ATR trend burst\<close>

record kcj_params =
  kp_ema_fast_len :: int
  kp_ema_slow_len :: int
  kp_ema_stop_len :: int
  kp_atr_burst_mult :: pyfloat
  kp_tp_rr :: pyfloat
  kp_atr_min_frac :: pyfloat
  kp_atr_max_frac :: pyfloat
  kp_min_rvol :: pyfloat
  kp_min_delta :: pyfloat
  kp_min_orderflow_score :: pyfloat
  kp_max_atr_strength :: pyfloat
  kp_min_close_location :: pyfloat
  kp_max_upper_wick_frac :: pyfloat
  kp_max_previous_drop_atr :: pyfloat

definition kcj_params_of :: "string \<Rightarrow> kcj_params" where
  "kcj_params_of name =
     (let sell = five_min_atr_burst_params name; is_alt = (is_symbol name ''LINEA'' \<or> is_symbol name ''DOGE'')
      in \<lparr>kp_ema_fast_len = bp_ema_fast_len sell, kp_ema_slow_len = (if is_symbol name ''ETH'' then 100 else 200),
          kp_ema_stop_len = bp_ema_stop_len sell, kp_atr_burst_mult = bp_atr_mult sell, kp_tp_rr = bp_tp_rr sell,
          kp_atr_min_frac = (if is_alt then dec 4 1000 else dec 2 1000),
          kp_atr_max_frac = (if is_alt then dec 21 1000 else dec 3 100),
          kp_min_rvol = (if is_alt then dec 115 100 else dec 105 100),
          kp_min_delta = (if is_alt then dec 6 100 else dec 3 100),
          kp_min_orderflow_score = (if is_alt then Fin 58 else Fin 55),
          kp_max_atr_strength = (if is_alt then dec 32 10 else dec 36 10), kp_min_close_location = dec 68 100,
          kp_max_upper_wick_frac = dec 28 100, kp_max_previous_drop_atr = dec 14 10\<rparr>)"

definition kcj_tokens :: "string list" where
  "kcj_tokens = [''BTC'', ''ETH'', ''XRP'', ''DOGE'']"

definition row_flow_or_proxy :: "feature_row \<Rightarrow> pyfloat \<Rightarrow> pyfloat" where
  "row_flow_or_proxy row atr_frac =
     (let proxy = proxy_orderflow_score (num_or row ''rvol30'' (Fin 1)) (num_or row ''delta_ratio'' (Fin 0))
                    (num_or row ''volatility'' atr_frac)
      in case dict_get (pr_values row) ''orderflow_score'' of Some x \<Rightarrow> if x = NaN then proxy else x | None \<Rightarrow> proxy)"

definition previous_drop :: "feature_row option \<Rightarrow> pyfloat \<Rightarrow> pyfloat res" where
  "previous_drop previous atr =
     (case previous of None \<Rightarrow> Inr (Fin 0)
      | Some prev \<Rightarrow> if \<not> flt (Fin 0) atr then Inr (Fin 0)
          else bind_res (num_at prev ''open'') (\<lambda>op. bind_res (num_at prev ''close'') (\<lambda>close.
               Inr (fdiv (fmax (Fin 0) (fsub op close)) atr))))"

definition kcj_entry :: "feature_row \<Rightarrow> feature_row option \<Rightarrow> backtest_signal option res" where
  "kcj_entry row previous =
     (let name = text_or row ''symbol'' []; p = kcj_params_of name in
      if \<not> is_supported_symbol kcj_tokens name then Inr None
      else bind_res (num_at row ''close'') (\<lambda>close. bind_res (num_at row ''open'') (\<lambda>op.
        bind_res (num_at row ''high'') (\<lambda>high. bind_res (num_at row ''low'') (\<lambda>low.
        bind_res (num_at row ''atr14'') (\<lambda>atr.
        let ratio = num_or row ''kcj_ratio'' (Fin 0);
            atr_frac = (if flt (Fin 0) close then fdiv atr close else Fin 0);
            bull_floor = (if is_symbol name ''BTC'' then dec 975 1000 else dec 985 1000);
            change = fabs (fsub close op); strength = (if flt (Fin 0) atr then fdiv change atr else Fin 0);
            candle_range = fmax (dec 1 1000000) (fsub high low)
        in bind_res (previous_drop previous atr) (\<lambda>drop_atr.
           let stop = initial_five_min_stop close atr (bp_atr_mult (five_min_atr_burst_params name));
               target = (if flt (Fin 0) (kp_tp_rr p)
                         then fadd close (fmul (fmax (dec 1 1000000) (kp_tp_rr p)) (fsub close stop))
                         else fadd close (fmul (Fin 2) atr))
           in Inr
             (if flt bull_floor ratio \<and> flt ratio (dec 105 100) \<and> fle (fmul (kp_atr_burst_mult p) atr) change \<and>
                 flt (dec 135 100) strength \<and> fle strength (kp_max_atr_strength p) \<and> flt op close \<and>
                 flt (num_or row ''vwap'' close) close \<and>
                 fle (num_or row ''kcj_ema_fast'' (num_or row ''ema20'' close)) close \<and>
                 fle (kp_min_close_location p) (fdiv (fsub close low) candle_range) \<and>
                 fle (fdiv (fsub high (fmax op close)) candle_range) (kp_max_upper_wick_frac p) \<and>
                 flt (Fin 0) (num_or row ''kcj_ema_slope_fast'' (Fin 0)) \<and>
                 flt (Fin 0) (num_or row ''kcj_ema_slope_slow'' (Fin 0)) \<and>
                 fle (kp_min_rvol p) (num_or row ''rvol30'' (Fin 1)) \<and>
                 fle (kp_min_delta p) (num_or row ''delta_ratio'' (Fin 0)) \<and>
                 fle (kp_min_orderflow_score p) (row_flow_or_proxy row atr_frac) \<and>
                 fle drop_atr (kp_max_previous_drop_atr p) \<and>
                 fle (kp_atr_min_frac p) atr_frac \<and> fle atr_frac (kp_atr_max_frac p) \<and>
                 flag_or row ''kcj_in_session'' True
              then Some \<lparr>bs_entry = True, bs_stop_price = stop, bs_take_profit_price = target,
                         bs_reason = ''KCJ ATR burst parity: trend, session, volatility, and cycle gates aligned''\<rparr>
              else None))))))))"

section \<open>Daily research strategies\<close>

definition default_atr_pct :: "pyfloat \<Rightarrow> pyfloat \<Rightarrow> pyfloat" where
  "default_atr_pct atr close = (if flt (Fin 0) close then fdiv atr close else Fin 0)"

definition research_momentum_entry :: "feature_row \<Rightarrow> feature_row option \<Rightarrow> backtest_signal option res" where
  "research_momentum_entry row previous =
     (if previous = None then Inr None
      else bind_res (num_at row ''close'') (\<lambda>close. bind_res (num_at row ''atr14'') (\<lambda>atr.
        bind_res (num_at row ''ema50'') (\<lambda>ema50. bind_res (num_at row ''ema200'') (\<lambda>ema200.
        let atr_pct = num_or row ''atr_pct'' (default_atr_pct atr close);
            ratio = num_or row ''momentum_volatility_ratio'' (Fin 0);
            stop = fmax (dec 1 1000000) (fsub close (fmul (Fin 2) atr));
            base = ''research trend/momentum setup with ATR risk control''
        in Inr
          (if flt ema200 close \<and> flt ema200 ema50 \<and> flt ema50 close \<and> flt (Fin 0) (num_or row ''momentum63'' (Fin 0)) \<and>
              flag_or row ''top_momentum_eligible'' True \<and> in_band atr_pct \<and>
              str_lower (text_or row ''sentiment_label'' []) \<noteq> ''negative''
           then Some \<lparr>bs_entry = True, bs_stop_price = stop,
                      bs_take_profit_price = fadd close (fmul (Fin 2) (fsub close stop)),
                      bs_reason = (if flt (Fin 0) ratio then base @ ''; momentum-volatility ratio '' @ fmt_fixed 2 ratio else base)\<rparr>
           else None))))))"

definition tsmom_entry :: "feature_row \<Rightarrow> feature_row option \<Rightarrow> backtest_signal option res" where
  "tsmom_entry row previous =
     (if previous = None then Inr None
      else bind_res (num_at row ''close'') (\<lambda>close. bind_res (num_at row ''atr14'') (\<lambda>atr.
        let atr_pct = num_or row ''atr_pct'' (default_atr_pct atr close);
            stop = fmax (dec 1 1000000) (fsub close (fmul (Fin 2) atr))
        in bind_res (bind_res (num_at row ''ema200'') (\<lambda>ema200. if flt ema200 close
             then bind_res (num_at row ''ema50'') (\<lambda>ema50. Inr (flt ema200 ema50)) else Inr False)) (\<lambda>trend_ok.
           Inr
            (if trend_ok \<and> flt (Fin 0) (num_or row ''tsmom252'' (Fin 0)) \<and> flt (Fin 0) (num_or row ''tsmom_vol_score'' (Fin 0)) \<and>
                in_band atr_pct \<and> flag_or row ''top_momentum_eligible'' True
             then Some \<lparr>bs_entry = True, bs_stop_price = stop,
                        bs_take_profit_price = fadd close (fmul (Fin 2) (fsub close stop)),
                        bs_reason = ''academic time-series momentum positive over 252 bars with volatility scaling''\<rparr>
             else None)))))"

definition reversal_entry :: "feature_row \<Rightarrow> feature_row option \<Rightarrow> backtest_signal option res" where
  "reversal_entry row previous =
     (case previous of None \<Rightarrow> Inr None
      | Some prev \<Rightarrow>
        bind_res (num_at row ''close'') (\<lambda>close. bind_res (num_at row ''atr14'') (\<lambda>atr.
        let atr_pct = num_or row ''atr_pct'' (default_atr_pct atr close);
            stop = fmax (dec 1 1000000) (fsub close (fmul (Fin 2) atr))
        in bind_res (all_hold [col prev ''close'' (\<lambda>c. flt c close), col row ''ema20'' (\<lambda>e. fle e close)]) (\<lambda>reclaiming.
           bind_res (col row ''ema200'' (\<lambda>e. flt e close)) (\<lambda>regime_ok.
           let liquidity_ok = (fle (dec 8 10) (num_or row ''rvol30'' (Fin 1)) \<and>
                               flt (dec (- 15) 100) (num_or row ''delta_ratio'' (Fin 0)))
           in Inr
            (if fle (num_or row ''reversal21'' (Fin 0)) (dec (- 8) 100) \<and> reclaiming \<and> regime_ok \<and> liquidity_ok \<and>
                fle (dec 1 1000) atr_pct \<and> fle atr_pct (dec 10 100)
             then Some \<lparr>bs_entry = True, bs_stop_price = stop,
                        bs_take_profit_price = fadd close (fmul (dec 16 10) (fsub close stop)),
                        bs_reason = ''academic short-term reversal: prior-month loser reclaim with liquidity confirmation''\<rparr>
             else None))))))"

section \<open>Mean reversion\<close>

definition mean_reversion_entry :: "string list \<Rightarrow> feature_row \<Rightarrow> feature_row option \<Rightarrow> backtest_signal option res" where
  "mean_reversion_entry tokens row previous =
     (if previous = None \<or> tokens \<noteq> [] \<and> \<not> is_supported_symbol tokens (text_or row ''symbol'' []) \<or>
         \<not> flag_or row ''kl_entry_signal'' False then Inr None
      else bind_res (num_at row ''close'') (\<lambda>close. bind_res (num_at row ''atr14'') (\<lambda>atr.
        let risk = num_or row ''kl_risk_amt'' (fmul atr (Fin 2))
        in Inr (Some (entry_at (fsub close risk) (fadd close (fmul (Fin 3) risk))
                 ''TradingView ATR diversion rejected H0 with upward drift confirmation'')))))"

text \<open>\<open>_stateful_entry_signals\<close>: a rejection of H0 arms the trigger, a drift confirmation fires it once.\<close>

fun stateful_entry_signals :: "bool \<Rightarrow> feature_row list \<Rightarrow> bool list" where
  "stateful_entry_signals triggered [] = []"
| "stateful_entry_signals triggered (row # rows) =
     (let armed = (flag_or row ''kl_reject_h0'' False \<or> triggered);
          fires = (armed \<and> flag_or row ''kl_drift_confirmation'' False)
      in fires # stateful_entry_signals (armed \<and> \<not> fires) rows)"

section \<open>Strategy records\<close>

definition base_strategy ::
    "string \<Rightarrow> string \<Rightarrow> int \<Rightarrow> (feature_row \<Rightarrow> feature_row option \<Rightarrow> backtest_signal option res) \<Rightarrow> backtest_strategy" where
  "base_strategy name timeframe hold entry = \<lparr>bk_name = name, bk_default_timeframe = timeframe, bk_max_hold_bars = hold,
     bk_drawdown_lock_pct = Some (Fin 6), bk_daily_exit = default_daily_exit, bk_lower_stack = True, bk_entry_signal = entry\<rparr>"

definition existing_momentum :: backtest_strategy where
  "existing_momentum = base_strategy ''Existing Momentum'' ''1h'' 24 existing_momentum_entry"

definition atr_trend_burst :: backtest_strategy where
  "atr_trend_burst = base_strategy ''ATR Trend Burst'' ''1h'' 18 atr_trend_burst_entry"

definition vwap_reclaim :: backtest_strategy where
  "vwap_reclaim = base_strategy ''VWAP Reclaim'' ''1h'' 24 vwap_reclaim_entry"

definition kcj_burst :: backtest_strategy where
  "kcj_burst = base_strategy ''KCJ ATR Trend Burst 5m'' ''5m'' 288 kcj_entry"

definition research_momentum :: backtest_strategy where
  "research_momentum = base_strategy ''Research Momentum Volatility'' ''1d'' 40 research_momentum_entry"

definition time_series_momentum :: backtest_strategy where
  "time_series_momentum = base_strategy ''Academic Time-Series Momentum'' ''1d'' 32 tsmom_entry"

definition short_term_reversal :: backtest_strategy where
  "short_term_reversal = (base_strategy ''Academic Short-Term Reversal'' ''1d'' 21 reversal_entry)
     \<lparr>bk_daily_exit := default_daily_exit\<lparr>dx_time_stop_bars := 25, dx_time_stop_min_pnl_pct := Fin 2\<rparr>\<rparr>"

definition mean_reversion :: backtest_strategy where
  "mean_reversion = (base_strategy ''TradingView Mean Reversion ATR'' ''1h'' 72 (mean_reversion_entry []))\<lparr>bk_lower_stack := False\<rparr>"

definition mean_reversion_10m :: backtest_strategy where
  "mean_reversion_10m = mean_reversion\<lparr>bk_name := ''TradingView Mean Reversion ATR 10m'', bk_default_timeframe := ''10m'',
     bk_max_hold_bars := 288\<rparr>"

definition mean_reversion_1h :: backtest_strategy where
  "mean_reversion_1h = mean_reversion\<lparr>bk_name := ''TradingView Mean Reversion ATR 1h'',
     bk_entry_signal := mean_reversion_entry [''TRX'']\<rparr>"

end
