(* ===== verification/Backtest_Loops.thy ===== *)
theory Backtest_Loops
  imports Backtest_Entries
begin

text \<open>
  The two strategies of \<open>strategies/backtest_plugins.py\<close> with a replay loop of their own: the KCJ burst
  (cycle gate, commission, half position at the profit target) and the ATR mean reversion (three partial
  exits, trailing stop). Both loops run on the frame \<open>_prepare_rows\<close> makes with pandas; the functions here
  take that frame. Positions, booking and the drawdown lock are those of \<open>Backtest_Framework\<close>.
\<close>

section \<open>KCJ burst\<close>

record kcj_state = backtest_state +
  kj_can_trade_cycle :: bool

definition kcj_partial_qty :: pyfloat where "kcj_partial_qty = dec 50 100"
definition kcj_commission_rate :: pyfloat where "kcj_commission_rate = dec 1 10000"
definition remaining_dust :: pyfloat where "remaining_dust = dec 1 1000000"

definition kcj_fee_pct :: pyfloat where
  "kcj_fee_pct = fmul (fmul kcj_commission_rate (Fin 100)) (Fin 2)"

text \<open>A crossing of the ratio through one opens or closes the trading cycle.\<close>

definition kcj_cycle :: "pyfloat \<Rightarrow> pyfloat \<Rightarrow> bool \<Rightarrow> bool" where
  "kcj_cycle previous_ratio ratio can =
     (let opened = (if fle previous_ratio (Fin 1) \<and> flt (Fin 1) ratio then True else can)
      in if fle (Fin 1) previous_ratio \<and> flt ratio (Fin 1) then False else opened)"

record bar_exit =
  bx_trade :: active_trade
  bx_realized_pct :: pyfloat
  bx_remaining :: pyfloat
  bx_reason :: string
  bx_stop_price :: pyfloat

definition part_return :: "active_trade \<Rightarrow> pyfloat \<Rightarrow> pyfloat \<Rightarrow> pyfloat res" where
  "part_return t part price = bind_res (entry_return t price) (\<lambda>ret. Inr (fmul part ret))"

definition kcj_take_partial :: "sell_decision \<Rightarrow> pyfloat \<Rightarrow> bar_exit \<Rightarrow> bar_exit res" where
  "kcj_take_partial d close x =
     (let price = or_price (sd_exit_price d) close in
      bind_res (part_return (bx_trade x) kcj_partial_qty price) (\<lambda>gain.
      bind_res (trade_value (bx_trade x) ''entry'') (\<lambda>entry.
      let stop = or_price (sd_stop_price d) entry;
          t = (set_value ''stop'' stop (bx_trade x))\<lparr>ot_partial_taken := Some True\<rparr>;
          y = x\<lparr>bx_trade := t, bx_realized_pct := fadd (bx_realized_pct x) gain,
                bx_remaining := fsub (bx_remaining x) kcj_partial_qty, bx_stop_price := stop\<rparr>
      in if sd_force_shutdown d
         then bind_res (part_return t (bx_remaining y) price) (\<lambda>rest.
           Inr (y\<lparr>bx_realized_pct := fadd (bx_realized_pct y) rest, bx_remaining := Fin 0,
                  bx_reason := ''partial_tp_min_notional_exit''\<rparr>))
         else Inr y)))"

definition kcj_final :: "int \<Rightarrow> feature_row \<Rightarrow> pyfloat \<Rightarrow> bar_exit \<Rightarrow> bar_exit res" where
  "kcj_final max_hold row close x =
     bind_res (if flt remaining_dust (bx_remaining x)
               then five_min_final_exit_decision (price_row.truncate row) (open_trade.truncate (bx_trade x)) else Inr None)
       (\<lambda>final. case final of
          Some d \<Rightarrow> bind_res (part_return (bx_trade x) (bx_remaining x) (or_price (sd_exit_price d) close)) (\<lambda>gain.
            Inr (x\<lparr>bx_realized_pct := fadd (bx_realized_pct x) gain, bx_reason := sd_reason d, bx_remaining := Fin 0\<rparr>))
        | None \<Rightarrow> bind_res (trade_bars (bx_trade x)) (\<lambda>bars.
            if max_hold \<le> bars
            then bind_res (part_return (bx_trade x) (bx_remaining x) close) (\<lambda>gain.
              Inr (x\<lparr>bx_realized_pct := fadd (bx_realized_pct x) gain, bx_reason := ''TIME_STOP'', bx_remaining := Fin 0\<rparr>))
            else bind_res (trade_value (bx_trade x) ''stop'') (\<lambda>stop. bind_res (num_at row ''kcj_ema_stop'') (\<lambda>ema.
              Inr (x\<lparr>bx_trade := set_value ''stop'' (fmax stop ema) (set_value ''remaining'' (bx_remaining x) (bx_trade x)),
                     bx_stop_price := fmax stop ema\<rparr>)))))"

definition kcj_bar_exit :: "int \<Rightarrow> pyfloat \<Rightarrow> feature_row \<Rightarrow> pyfloat \<Rightarrow> active_trade \<Rightarrow> bar_exit res" where
  "kcj_bar_exit max_hold tp_rr row close t =
     bind_res (trade_value t ''stop'') (\<lambda>stop. bind_res (trade_value t ''remaining'') (\<lambda>remaining.
     bind_res (five_min_partial_tp_decision (price_row.truncate row) (open_trade.truncate t) tp_rr default_min_notional) (\<lambda>d.
     let x = \<lparr>bx_trade = t, bx_realized_pct = Fin 0, bx_remaining = remaining, bx_reason = [], bx_stop_price = stop\<rparr>
     in bind_res (case d of None \<Rightarrow> Inr x | Some p \<Rightarrow> kcj_take_partial p close x) (kcj_final max_hold row close))))"

definition kcj_trade :: "string \<Rightarrow> pyfloat \<Rightarrow> feature_row \<Rightarrow> pyfloat \<Rightarrow> bar_exit \<Rightarrow> trade res" where
  "kcj_trade name notional row close x =
     bind_res (trade_value (bx_trade x) ''entry'') (\<lambda>entry. bind_res (trade_bars (bx_trade x)) (\<lambda>bars.
     let return_pct = fsub (bx_realized_pct x) kcj_fee_pct
     in Inr \<lparr>tr_symbol = name, tr_entry_time = at_entry_time (bx_trade x), tr_exit_time = text_or row ''open_time'' [],
             tr_entry_price = entry, tr_exit_price = close, tr_stop_price = bx_stop_price x,
             tr_take_profit_price = trade_value_or (bx_trade x) ''take_profit'' close, tr_bars_held = bars,
             tr_return_pct = return_pct, tr_pnl = fmul notional (fdiv return_pct (Fin 100)),
             tr_exit_reason = (if bx_reason x = [] then ''PARTIAL_TP'' else bx_reason x)\<rparr>))"

definition lift_state :: "(backtest_state \<Rightarrow> backtest_state) \<Rightarrow> kcj_state \<Rightarrow> kcj_state" where
  "lift_state f s = backtest_state.extend (f (backtest_state.truncate s)) (kcj_state.fields (kj_can_trade_cycle s))"

definition kcj_manage ::
    "backtest_strategy \<Rightarrow> string \<Rightarrow> pyfloat \<Rightarrow> feature_row \<Rightarrow> pyfloat \<Rightarrow> kcj_state \<Rightarrow> kcj_state res" where
  "kcj_manage k name notional row close s =
     (case bt_position s of
        None \<Rightarrow> Inr s
      | Some t0 \<Rightarrow>
          bind_res (trade_bars t0) (\<lambda>bars.
          bind_res (kcj_bar_exit (bk_max_hold_bars k) (kp_tp_rr (kcj_params_of name)) row close (t0\<lparr>ot_bars := Some (bars + 1)\<rparr>)) (\<lambda>x.
          if fle (bx_remaining x) remaining_dust
          then bind_res (kcj_trade name notional row close x) (\<lambda>tr.
            Inr (lift_state (book_trade (bk_drawdown_lock_pct k) notional tr) s))
          else Inr (s\<lparr>bt_position := Some (bx_trade x)\<rparr>))))"

definition kcj_open ::
    "backtest_strategy \<Rightarrow> pyfloat \<Rightarrow> feature_row \<Rightarrow> feature_row \<Rightarrow> pyfloat \<Rightarrow> kcj_state \<Rightarrow> kcj_state res" where
  "kcj_open k notional row previous close s =
     (if bt_position s \<noteq> None \<or> \<not> kj_can_trade_cycle s \<or> bt_locked s then Inr s
      else bind_res (bk_entry_signal k row (Some previous)) (\<lambda>sig.
        case sig of None \<Rightarrow> Inr s
        | Some g \<Rightarrow> Inr (s\<lparr>bt_position := Some \<lparr>ot_values = [(''entry'', close), (''stop'', bs_stop_price g),
              (''take_profit'', bs_take_profit_price g), (''notional'', notional), (''remaining'', Fin 1)],
              ot_partial_taken = Some False, ot_bars = Some 0, at_entry_time = text_or row ''open_time'' [], at_flags = []\<rparr>,
            kj_can_trade_cycle := False\<rparr>)))"

definition kcj_bar ::
    "backtest_strategy \<Rightarrow> string \<Rightarrow> pyfloat \<Rightarrow> feature_row list \<Rightarrow> nat \<Rightarrow> kcj_state \<Rightarrow> kcj_state res" where
  "kcj_bar k name notional rows i s =
     (let row = rows ! i; previous = rows ! (i - 1) in
      bind_res (num_at row ''kcj_ratio'') (\<lambda>ratio. bind_res (num_at previous ''kcj_ratio'') (\<lambda>previous_ratio.
      bind_res (num_at row ''close'') (\<lambda>close.
      let s0 = s\<lparr>kj_can_trade_cycle := kcj_cycle previous_ratio ratio (kj_can_trade_cycle s)\<rparr> in
      bind_res (kcj_manage k name notional row close s0) (\<lambda>s1.
      bind_res (kcj_open k notional row previous close s1) (\<lambda>s2. Inr (lift_state record_equity s2)))))))"

definition kcj_warmup :: "string \<Rightarrow> nat" where
  "kcj_warmup name = nat (max (kp_ema_slow_len (kcj_params_of name) + 20) 220)"

definition new_kcj :: "pyfloat \<Rightarrow> nat \<Rightarrow> kcj_state" where
  "new_kcj notional n = backtest_state.extend (new_backtest notional n) (kcj_state.fields False)"

definition kcj_rows :: "backtest_strategy \<Rightarrow> string \<Rightarrow> pyfloat \<Rightarrow> feature_row list \<Rightarrow> kcj_state res" where
  "kcj_rows k name notional rows =
     (let w = min (kcj_warmup name) (length rows)
      in fold_res (kcj_bar k name notional rows) [w..<length rows] (new_kcj notional w))"

definition finish_replay ::
    "(pyfloat list \<Rightarrow> pyfloat) \<Rightarrow> backtest_strategy \<Rightarrow> feature_row list \<Rightarrow> pyfloat \<Rightarrow> backtest_state
      \<Rightarrow> (symbol_metrics \<times> trade list) res" where
  "finish_replay sharpe k rows notional s =
     bind_res (classify_rows k rows (bt_position s) notional) (\<lambda>scan.
     bind_res (backtest_metrics sharpe rows notional (bt_trades s) (bt_equity s) (bt_curve s) (bt_position s \<noteq> None) scan)
       (\<lambda>m. Inr (m, bt_trades s)))"

definition kcj_replay ::
    "(pyfloat list \<Rightarrow> pyfloat) \<Rightarrow> (feature_row list \<Rightarrow> feature_row list) \<Rightarrow> backtest_strategy \<Rightarrow> feature_row list \<Rightarrow> pyfloat
      \<Rightarrow> (symbol_metrics \<times> trade list) res" where
  "kcj_replay sharpe prepare k df notional =
     (if df = [] then Inl (ValueError ''cannot replay empty feature set'')
      else if prepare df = [] then Inl IndexError
      else bind_res (kcj_rows k (text_or (last (prepare df)) ''symbol'' []) notional (prepare df)) (\<lambda>s.
           finish_replay sharpe k (prepare df) notional (backtest_state.truncate s)))"

section \<open>Mean reversion\<close>

definition reversion_warmup :: nat where "reversion_warmup = max 50 14 + 3"

definition profit_levels :: "(int \<times> pyfloat) list" where
  "profit_levels = [(1, Fin 1), (2, Fin 2), (3, Fin 3)]"

text \<open>One level of the profit ladder; \<open>tp_count\<close> is kept among the numbers of the trade.\<close>

definition take_level :: "pyfloat \<Rightarrow> int \<times> pyfloat \<Rightarrow> bar_exit \<Rightarrow> bar_exit res" where
  "take_level close lm x =
     bind_res (bind_res (trade_value (bx_trade x) ''tp_count'') trunc_int) (\<lambda>count.
     if count \<noteq> fst lm - 1 then Inr x
     else bind_res (trade_value (bx_trade x) ''entry'') (\<lambda>entry. bind_res (trade_value (bx_trade x) ''risk_amt'') (\<lambda>risk.
       if fle (fadd entry (fmul (snd lm) risk)) close
       then (let qty = fmin (bx_remaining x) (fdiv (Fin 1) (Fin 3)) in
         bind_res (part_return (bx_trade x) qty close) (\<lambda>gain.
           let left = fsub (bx_remaining x) qty
           in Inr (x\<lparr>bx_realized_pct := fadd (bx_realized_pct x) gain, bx_remaining := left,
                bx_trade := set_value ''remaining'' left (set_value ''tp_count'' (Fin (of_int (fst lm))) (bx_trade x))\<rparr>)))
       else Inr x)))"

definition reversion_exit_reason ::
    "int \<Rightarrow> feature_row \<Rightarrow> active_trade \<Rightarrow> (active_trade, string option) outcome" where
  "reversion_exit_reason max_hold row t =
     bind_act (t, trade_value t ''stop'') (\<lambda>t stop.
     bind_act (t, num_at row ''low'') (\<lambda>t low.
       if fle low stop then (set_value ''exit_price'' stop t, Inr (Some ''ATR_TRAILING_STOP''))
       else bind_act (t, trade_bars t) (\<lambda>t bars.
         if max_hold \<le> bars
         then bind_act (t, num_at row ''close'') (\<lambda>t close. (set_value ''exit_price'' close t, Inr (Some ''TIME_STOP'')))
         else (t, Inr None))))"

definition reversion_trade :: "string \<Rightarrow> pyfloat \<Rightarrow> feature_row \<Rightarrow> pyfloat \<Rightarrow> string \<Rightarrow> bar_exit \<Rightarrow> trade res" where
  "reversion_trade name notional row close reason x =
     (let t = bx_trade x; price = trade_value_or t ''exit_price'' close in
      bind_res (part_return t (fmax (Fin 0) (bx_remaining x)) price) (\<lambda>open_pct.
      bind_res (trade_value t ''entry'') (\<lambda>entry. bind_res (trade_value t ''stop'') (\<lambda>stop.
      bind_res (trade_value t ''take_profit'') (\<lambda>target. bind_res (trade_bars t) (\<lambda>bars.
      let return_pct = fadd (fadd (trade_value_or t ''realized_pct'' (Fin 0)) (bx_realized_pct x)) open_pct
      in Inr \<lparr>tr_symbol = name, tr_entry_time = at_entry_time t, tr_exit_time = text_or row ''open_time'' [],
              tr_entry_price = entry, tr_exit_price = price, tr_stop_price = stop, tr_take_profit_price = target,
              tr_bars_held = bars, tr_return_pct = return_pct,
              tr_pnl = fdiv (fmul notional return_pct) (Fin 100), tr_exit_reason = reason\<rparr>))))))"

definition reversion_trail :: "feature_row \<Rightarrow> active_trade \<Rightarrow> active_trade res" where
  "reversion_trail row t =
     bind_res (trade_value t ''stop'') (\<lambda>stop. bind_res (num_at row ''low'') (\<lambda>low. bind_res (num_at row ''kl_atr_tsl'') (\<lambda>tsl.
       Inr (set_value ''stop'' (fmax stop (fsub low tsl)) t))))"

definition reversion_manage ::
    "backtest_strategy \<Rightarrow> string \<Rightarrow> pyfloat \<Rightarrow> feature_row \<Rightarrow> pyfloat \<Rightarrow> backtest_state \<Rightarrow> backtest_state res" where
  "reversion_manage k name notional row close s =
     (case bt_position s of
        None \<Rightarrow> Inr s
      | Some t0 \<Rightarrow>
          bind_res (trade_bars t0) (\<lambda>bars.
          bind_res (reversion_trail row (t0\<lparr>ot_bars := Some (bars + 1)\<rparr>)) (\<lambda>t1.
          bind_res (trade_value t1 ''remaining'') (\<lambda>remaining.
          bind_res (fold_res (take_level close) profit_levels
              \<lparr>bx_trade = t1, bx_realized_pct = Fin 0, bx_remaining = remaining, bx_reason = [], bx_stop_price = Fin 0\<rparr>) (\<lambda>x.
          let out = reversion_exit_reason (bk_max_hold_bars k) row (bx_trade x) in
          bind_res (snd out) (\<lambda>reason.
          let (t2, reason) = (if fle (bx_remaining x) remaining_dust
                              then (set_value ''exit_price'' close (fst out), Some ''TP_LVL3'') else (fst out, reason))
          in case reason of
               Some r \<Rightarrow> bind_res (reversion_trade name notional row close r (x\<lparr>bx_trade := t2\<rparr>)) (\<lambda>tr.
                 Inr (book_trade (bk_drawdown_lock_pct k) notional tr s))
             | None \<Rightarrow> Inr (s\<lparr>bt_position := Some (set_value ''remaining'' (bx_remaining x)
                 (set_value ''realized_pct'' (fadd (trade_value_or t2 ''realized_pct'' (Fin 0)) (bx_realized_pct x)) t2))\<rparr>)))))))"

definition reversion_open ::
    "backtest_strategy \<Rightarrow> feature_row \<Rightarrow> feature_row option \<Rightarrow> pyfloat \<Rightarrow> backtest_state \<Rightarrow> backtest_state res" where
  "reversion_open k row previous close s =
     (if bt_position s \<noteq> None \<or> bt_locked s then Inr s
      else bind_res (bk_entry_signal k row previous) (\<lambda>sig.
        case sig of None \<Rightarrow> Inr s
        | Some g \<Rightarrow> Inr (s\<lparr>bt_position := Some \<lparr>ot_values = [(''entry'', close), (''stop'', bs_stop_price g),
              (''take_profit'', bs_take_profit_price g), (''risk_amt'', fmax (dec 1 1000000) (fsub close (bs_stop_price g))),
              (''remaining'', Fin 1), (''realized_pct'', Fin 0), (''tp_count'', Fin 0)],
              ot_partial_taken = None, ot_bars = Some 0, at_entry_time = text_or row ''open_time'' [], at_flags = []\<rparr>\<rparr>)))"

definition reversion_bar ::
    "backtest_strategy \<Rightarrow> string \<Rightarrow> pyfloat \<Rightarrow> feature_row list \<Rightarrow> nat \<Rightarrow> backtest_state \<Rightarrow> backtest_state res" where
  "reversion_bar k name notional rows i s =
     (let row = rows ! i; previous = (if 0 < i then Some (rows ! (i - 1)) else None) in
      bind_res (num_at row ''close'') (\<lambda>close.
      bind_res (reversion_manage k name notional row close s) (\<lambda>s1.
      bind_res (reversion_open k row previous close s1) (\<lambda>s2. Inr (record_equity s2)))))"

definition reversion_replay ::
    "(pyfloat list \<Rightarrow> pyfloat) \<Rightarrow> (feature_row list \<Rightarrow> feature_row list) \<Rightarrow> backtest_strategy \<Rightarrow> feature_row list \<Rightarrow> pyfloat
      \<Rightarrow> (symbol_metrics \<times> trade list) res" where
  "reversion_replay sharpe prepare k df notional =
     (if df = [] \<or> prepare df = [] then Inl (ValueError ''cannot replay empty feature set'')
      else (let rows = prepare df; w = min reversion_warmup (length rows) in
        bind_res (fold_res (reversion_bar k (text_or (last rows) ''symbol'' []) notional rows) [w..<length rows]
                    (new_backtest notional w)) (\<lambda>s. finish_replay sharpe k rows notional s)))"

section \<open>What the KCJ loop books\<close>

lemma lift_state_fields [simp]:
  "bt_trades (lift_state f s) = bt_trades (f (backtest_state.truncate s))"
  "bt_equity (lift_state f s) = bt_equity (f (backtest_state.truncate s))"
  "bt_position (lift_state f s) = bt_position (f (backtest_state.truncate s))"
  "bt_locked (lift_state f s) = bt_locked (f (backtest_state.truncate s))"
  by (simp_all add: lift_state_def backtest_state.defs kcj_state.defs)

lemma truncate_fields [simp]:
  "bt_trades (backtest_state.truncate s) = bt_trades s" "bt_equity (backtest_state.truncate s) = bt_equity s"
  "bt_peak (backtest_state.truncate s) = bt_peak s" "bt_locked (backtest_state.truncate s) = bt_locked s"
  by (simp_all add: backtest_state.defs)

lemma entry_return_same: "dict_get (ot_values t') ''entry'' = dict_get (ot_values t) ''entry'' \<Longrightarrow> entry_return t' p = entry_return t p"
  by (simp add: entry_return_def trade_value_def value_at_def)

lemma part_return_eq_Inr: "part_return t part p = Inr x \<longleftrightarrow> (\<exists>ret. entry_return t p = Inr ret \<and> x = fmul part ret)"
  by (auto simp: part_return_def bind_res_eq_Inr)

lemma kcj_after_partial:
  assumes "ot_partial_taken t = Some True" and "kcj_bar_exit max_hold tp_rr row close t = Inr x"
    and "trade_value t ''remaining'' = Inr r" and "flt remaining_dust r"
  shows "bx_remaining x = r \<or>
    (\<exists>price ret. entry_return t price = Inr ret \<and> bx_realized_pct x = fadd (Fin 0) (fmul r ret))"
proof -
  have "five_min_partial_tp_decision (price_row.truncate row) (open_trade.truncate t) tp_rr default_min_notional = Inr None"
    using assms(1) by (simp add: five_min_partial_tp_decision_def open_trade.defs)
  then obtain stop where x: "kcj_final max_hold row close
      \<lparr>bx_trade = t, bx_realized_pct = Fin 0, bx_remaining = r, bx_reason = [], bx_stop_price = stop\<rparr> = Inr x"
    using assms(2,3) by (auto simp: kcj_bar_exit_def bind_res_eq_Inr Let_def)
  then show ?thesis using assms(4)
    by (auto simp: kcj_final_def bind_res_eq_Inr part_return_eq_Inr split: option.splits if_splits) blast+
qed

text \<open>Once the KCJ loop has taken its partial profit on an earlier bar, that profit is never booked: a
  later bar either leaves trades and equity as they are, or closes the trade with the return of the rest
  alone, less the fee. (The base loop keeps the realized part in the trade.)\<close>

theorem kcj_partial_profit_is_lost:
  assumes "kcj_manage k name notional row close s = Inr s'" and "bt_position s = Some t"
    and "ot_partial_taken t = Some True" and "trade_value t ''remaining'' = Inr r" and "flt remaining_dust r"
  shows "(bt_trades s' = bt_trades s \<and> bt_equity s' = bt_equity s \<and> bt_position s' \<noteq> None) \<or>
    (\<exists>tr price ret. bt_trades s' = bt_trades s @ [tr] \<and> bt_equity s' = fadd (bt_equity s) (tr_pnl tr) \<and>
       entry_return t price = Inr ret \<and> tr_return_pct tr = fsub (fadd (Fin 0) (fmul r ret)) kcj_fee_pct \<and>
       tr_pnl tr = fmul notional (fdiv (tr_return_pct tr) (Fin 100)))"
proof -
  obtain b x where x: "kcj_bar_exit (bk_max_hold_bars k) (kp_tp_rr (kcj_params_of name)) row close (t\<lparr>ot_bars := Some b\<rparr>) = Inr x"
      "(if fle (bx_remaining x) remaining_dust
        then bind_res (kcj_trade name notional row close x) (\<lambda>tr. Inr (lift_state (book_trade (bk_drawdown_lock_pct k) notional tr) s))
        else Inr (s\<lparr>bt_position := Some (bx_trade x)\<rparr>)) = Inr s'"
    using assms(1,2) by (auto simp: kcj_manage_def bind_res_eq_Inr)
  have tv: "trade_value (t\<lparr>ot_bars := Some b\<rparr>) = trade_value t" "entry_return (t\<lparr>ot_bars := Some b\<rparr>) = entry_return t"
    by (auto simp: trade_value_def entry_return_def fun_eq_iff)
  have after: "bx_remaining x = r \<or>
      (\<exists>price ret. entry_return t price = Inr ret \<and> bx_realized_pct x = fadd (Fin 0) (fmul r ret))"
    using kcj_after_partial[OF _ x(1), of r] assms(3-5) by (simp add: tv)
  show ?thesis
  proof (cases "fle (bx_remaining x) remaining_dust")
    case True
    have "bx_remaining x \<noteq> r"
      using True assms(5) flt_le_trans[OF assms(5), of remaining_dust] by auto
    then obtain price ret where p: "entry_return t price = Inr ret" "bx_realized_pct x = fadd (Fin 0) (fmul r ret)"
      using after by blast
    obtain tr where tr: "kcj_trade name notional row close x = Inr tr"
        "s' = lift_state (book_trade (bk_drawdown_lock_pct k) notional tr) s"
      using x(2) True by (auto simp: bind_res_eq_Inr)
    have "tr_return_pct tr = fsub (bx_realized_pct x) kcj_fee_pct \<and> tr_pnl tr = fmul notional (fdiv (tr_return_pct tr) (Fin 100))"
      using tr(1) by (auto simp: kcj_trade_def bind_res_eq_Inr Let_def)
    then show ?thesis using p tr(2) by (auto simp: book_trade_def Let_def)
  next
    case False
    then show ?thesis using x(2) by auto
  qed
qed

section \<open>The entry trigger\<close>

text \<open>The trigger over any two predicates on the rows.\<close>

fun trigger_run :: "('a \<Rightarrow> bool) \<Rightarrow> ('a \<Rightarrow> bool) \<Rightarrow> bool \<Rightarrow> 'a list \<Rightarrow> bool list" where
  "trigger_run arm fire t [] = []"
| "trigger_run arm fire t (x # xs) =
     (let a = (arm x \<or> t); f = (a \<and> fire x) in f # trigger_run arm fire (a \<and> \<not> f) xs)"

lemma stateful_entry_signals_run:
  "stateful_entry_signals t rows = trigger_run (\<lambda>r. flag_or r ''kl_reject_h0'' False) (\<lambda>r. flag_or r ''kl_drift_confirmation'' False) t rows"
  by (induction rows arbitrary: t) (simp_all only: stateful_entry_signals.simps trigger_run.simps Let_def)

lemma length_trigger_run [simp]: "length (trigger_run arm fire t xs) = length xs"
  by (induction xs arbitrary: t) (simp_all add: Let_def)

lemma trigger_run_spec:
  "i < length xs \<Longrightarrow> trigger_run arm fire t xs ! i \<longleftrightarrow> fire (xs ! i) \<and>
      ((\<exists>j\<le>i. arm (xs ! j) \<and> (\<forall>l\<in>{j..<i}. \<not> trigger_run arm fire t xs ! l)) \<or>
       t \<and> (\<forall>l\<in>{0..<i}. \<not> trigger_run arm fire t xs ! l))"
proof (induction xs arbitrary: t i)
  case (Cons x xs)
  define a where "a = (arm x \<or> t)"
  define f where "f = (a \<and> fire x)"
  let ?S = "trigger_run arm fire (a \<and> \<not> f) xs"
  have eq: "trigger_run arm fire t (x # xs) = f # ?S"
    unfolding trigger_run.simps Let_def a_def[symmetric] f_def[symmetric] by (rule refl)
  show ?case
  proof (cases i)
    case 0
    then show ?thesis by (simp add: Let_def) blast
  next
    case (Suc n)
    have ex: "(\<exists>j\<le>Suc n. P j) \<longleftrightarrow> P 0 \<or> (\<exists>j\<le>n. P (Suc j))" for P :: "nat \<Rightarrow> bool"
      by (metis Suc_le_mono le0 not0_implies_Suc)
    have all0: "(\<forall>l\<in>{0..<Suc n}. \<not> (f # ?S) ! l) \<longleftrightarrow> \<not> f \<and> (\<forall>l\<in>{0..<n}. \<not> ?S ! l)"
      by (auto simp: nth_Cons split: nat.splits)
    have allS: "(\<forall>l\<in>{Suc j..<Suc n}. \<not> (f # ?S) ! l) \<longleftrightarrow> (\<forall>l\<in>{j..<n}. \<not> ?S ! l)" for j
      by (auto simp: nth_Cons split: nat.splits)
    have "n < length xs" using Cons.prems Suc by simp
    note at_n = Cons.IH[OF this, of "a \<and> \<not> f"]
    have "?S ! n \<longleftrightarrow> fire (xs ! n) \<and> ((arm x \<and> \<not> f \<and> (\<forall>l\<in>{0..<n}. \<not> ?S ! l) \<or>
        (\<exists>j\<le>n. arm (xs ! j) \<and> (\<forall>l\<in>{j..<n}. \<not> ?S ! l))) \<or> t \<and> \<not> f \<and> (\<forall>l\<in>{0..<n}. \<not> ?S ! l))"
      unfolding at_n using a_def by auto
    then show ?thesis unfolding eq Suc ex all0 allS nth_Cons_Suc nth_Cons_0 .
  qed
qed simp

text \<open>The mean-reversion entry fires on a bar exactly if the drift confirms there and H0 was rejected
  on that bar or on an earlier one since which no entry fired: a rejection buys at most one entry.\<close>

theorem entry_trigger_fires_once:
  assumes "i < length rows"
  shows "stateful_entry_signals False rows ! i \<longleftrightarrow>
    flag_or (rows ! i) ''kl_drift_confirmation'' False \<and>
    (\<exists>j\<le>i. flag_or (rows ! j) ''kl_reject_h0'' False \<and> (\<forall>l\<in>{j..<i}. \<not> stateful_entry_signals False rows ! l))"
  unfolding stateful_entry_signals_run using trigger_run_spec[OF assms] by (simp only: simp_thms)

theorem entry_trigger_fires_once_witness:
  "stateful_entry_signals False
     [\<lparr>pr_values = [], pr_is_complete = None, fr_flags = [(''kl_reject_h0'', True)], fr_texts = []\<rparr>,
      \<lparr>pr_values = [], pr_is_complete = None, fr_flags = [(''kl_drift_confirmation'', True)], fr_texts = []\<rparr>,
      \<lparr>pr_values = [], pr_is_complete = None, fr_flags = [(''kl_drift_confirmation'', True)], fr_texts = []\<rparr>] ! 1"
proof -
  let ?rows = "[\<lparr>pr_values = [], pr_is_complete = None, fr_flags = [(''kl_reject_h0'', True)], fr_texts = []\<rparr>,
      \<lparr>pr_values = [], pr_is_complete = None, fr_flags = [(''kl_drift_confirmation'', True)], fr_texts = []\<rparr>,
      \<lparr>pr_values = [], pr_is_complete = None, fr_flags = [(''kl_drift_confirmation'', True)], fr_texts = []\<rparr>]"
  have "1 < length ?rows" by simp
  moreover have "flag_or (?rows ! 1) ''kl_drift_confirmation'' False" "flag_or (?rows ! 0) ''kl_reject_h0'' False"
    by (simp_all add: flag_or_def dict_get_or_def)
  moreover have "\<forall>l\<in>{0..<1}. \<not> stateful_entry_signals False ?rows ! l"
    by (simp add: flag_or_def dict_get_or_def)
  ultimately show ?thesis
    using entry_trigger_fires_once[of 1 ?rows] by (metis zero_le_one)
qed

text \<open>A trade at 100 whose half was sold at 200 is then stopped out at its entry: the booked return is the
  fee alone, a loss, though half the position doubled.\<close>

definition halved_trade :: active_trade where
  "halved_trade = \<lparr>ot_values = [(''entry'', Fin 100), (''stop'', Fin 100), (''take_profit'', Fin 300),
     (''notional'', Fin 1000), (''remaining'', Fin (1 / 2))], ot_partial_taken = Some True, ot_bars = Some 1,
     at_entry_time = [], at_flags = []\<rparr>"

definition stopped_row :: feature_row where
  "stopped_row = \<lparr>pr_values = [(''close'', Fin 100), (''low'', Fin 90), (''kcj_ema_stop'', Fin 90)], pr_is_complete = None,
     fr_flags = [], fr_texts = []\<rparr>"

definition halved_state :: kcj_state where
  "halved_state = (new_kcj (Fin 1000) 0)\<lparr>bt_position := Some halved_trade\<rparr>"

lemma fee_hundred: "fround (184467440737095525 / 18446744073709551616) = Fin (5764607523034235 / 576460752303423488)"
  using fround_eval[of "1 / 2 ^ 59" "- 59" "184467440737095525 / 18446744073709551616" "5764607523034235"]
  by (simp add: power_int_def power_one_over)
lemma fee_twice: "fround (5764607523034235 / 288230376151711744) = Fin (5764607523034235 / 288230376151711744)"
  using fround_eval[of "1 / 2 ^ 58" "- 58" "5764607523034235 / 288230376151711744" "5764607523034235"]
  by (simp add: power_int_def power_one_over)
lemma fee_net: "fround (5764607523034235 / 288230376151711744) = Fin (5764607523034235 / 288230376151711744)"
  using fround_eval[of "1 / 2 ^ 58" "- 58" "5764607523034235 / 288230376151711744" "5764607523034235"]
  by (simp add: power_int_def power_one_over)
lemma fee_loss: "fround (- (5764607523034235 / 288230376151711744)) = Fin (- (5764607523034235 / 288230376151711744))"
  using fee_net by (auto simp: fround_def Let_def rnd_uminus split: if_splits)

lemma kcj_fee_value: "fsub (Fin 0) kcj_fee_pct = Fin (- (5764607523034235 / 288230376151711744))"
  by (simp add: kcj_fee_pct_def kcj_commission_rate_def dec_lits fee_hundred fee_twice fee_loss)

lemma halved_closes:
  "\<exists>s'. kcj_manage kcj_burst ''XRP/USDT'' (Fin 1000) stopped_row (Fin 100) halved_state = Inr s' \<and>
     (\<exists>tr. bt_trades s' = [tr] \<and> tr_return_pct tr = fsub (Fin 0) kcj_fee_pct) \<and> bt_position s' = None"
proof -
  let ?t = "halved_trade\<lparr>ot_bars := Some 2\<rparr>"
  have d: "five_min_partial_tp_decision (price_row.truncate stopped_row) (open_trade.truncate ?t)
      (kp_tp_rr (kcj_params_of ''XRP/USDT'')) default_min_notional = Inr None"
    by (simp add: five_min_partial_tp_decision_def open_trade.defs halved_trade_def)
  have f: "five_min_final_exit_decision (price_row.truncate stopped_row) (open_trade.truncate ?t) =
      Inr (Some (final_exit ''ATR_STOP'' (Fin 100) (Fin 100)))"
    by (simp add: five_min_final_exit_decision_def price_row.defs open_trade.defs value_at_def stopped_row_def halved_trade_def)
  have v: "trade_value ?t ''stop'' = Inr (Fin 100)" "trade_value ?t ''remaining'' = Inr (Fin (1 / 2))"
    "trade_value ?t ''entry'' = Inr (Fin 100)" "trade_bars ?t = Inr 2" "trade_bars halved_trade = Inr 1"
    "entry_return ?t (Fin 100) = Inr (Fin 0)"
    by (simp_all add: trade_value_def value_at_def halved_trade_def trade_bars_def entry_return_def pct_change_def py_div_def)
  have g: "flt remaining_dust (Fin (1 / 2))" "fle (Fin 0) remaining_dust" by (simp_all add: remaining_dust_def dec_lits)
  show ?thesis
    by (simp add: kcj_manage_def kcj_bar_exit_def kcj_final_def d f v g halved_state_def final_exit_def or_price_def ftruth_def
        part_return_def kcj_trade_def Let_def) (simp add: book_trade_def Let_def new_kcj_def backtest_state.defs new_backtest_def)
qed

theorem kcj_partial_profit_is_lost_witness:
  "\<exists>s' tr. kcj_manage kcj_burst ''XRP/USDT'' (Fin 1000) stopped_row (Fin 100) halved_state = Inr s' \<and>
     bt_trades s' = [tr] \<and> flt (tr_return_pct tr) (Fin 0) \<and> bt_equity s' = fadd (bt_equity halved_state) (tr_pnl tr)"
proof -
  obtain s' tr where s': "kcj_manage kcj_burst ''XRP/USDT'' (Fin 1000) stopped_row (Fin 100) halved_state = Inr s'"
      "bt_trades s' = [tr]" "tr_return_pct tr = fsub (Fin 0) kcj_fee_pct" "bt_position s' = None"
    using halved_closes by (elim exE conjE) (rule that)
  have h: "bt_position halved_state = Some halved_trade" "ot_partial_taken halved_trade = Some True"
    "trade_value halved_trade ''remaining'' = Inr (Fin (1 / 2))" "flt remaining_dust (Fin (1 / 2))" "bt_trades halved_state = []"
    by (simp_all add: halved_state_def new_kcj_def backtest_state.defs new_backtest_def halved_trade_def trade_value_def value_at_def
        remaining_dust_def dec_lits)
  from kcj_partial_profit_is_lost[OF s'(1) h(1-4)] s'(2,4) h(5)
  have "bt_equity s' = fadd (bt_equity halved_state) (tr_pnl tr)" by auto
  moreover have "flt (tr_return_pct tr) (Fin 0)" unfolding s'(3) kcj_fee_value by simp
  ultimately show ?thesis using s'(1,2) by (intro exI conjI)
qed

end
