(* ===== verification/Aapif.thy ===== *)
theory Aapif
  imports Py_Row
begin

text \<open>
  \<open>strategies/aapif.py\<close>: the regime classifier, the execution-realism model, the position sizer, the
  survivability assessment and the shadow decision built from them, and the metrics of a return series.
  \<open>math.sqrt\<close> and \<open>**\<close> are the C library's and come as the parameters \<open>sqrt_of\<close> and \<open>pow_of\<close>.
  The two descriptive tables \<open>GAP_ANALYSIS_ARCHETYPES\<close> and \<open>EVOLUTION_ROADMAP\<close> hold prose only.
\<close>

datatype aapif_regime =
    TREND_EXPANSION | VOLATILITY_BREAKOUT | MEAN_REVERSION | VOLATILITY_COMPRESSION | PANIC | LIQUIDITY_CRISIS
  | LOW_VOLATILITY_CHOP | MACRO_SHOCK | LIQUIDATION_CASCADE | TREND_EXHAUSTION | FALSE_BREAKOUT | RISK_OFF | RISK_ON

definition all_regimes :: "aapif_regime list" where
  "all_regimes = [TREND_EXPANSION, VOLATILITY_BREAKOUT, MEAN_REVERSION, VOLATILITY_COMPRESSION, PANIC,
     LIQUIDITY_CRISIS, LOW_VOLATILITY_CHOP, MACRO_SHOCK, LIQUIDATION_CASCADE, TREND_EXHAUSTION, FALSE_BREAKOUT,
     RISK_OFF, RISK_ON]"

fun regime_value :: "aapif_regime \<Rightarrow> string" where
  "regime_value TREND_EXPANSION = ''TREND_EXPANSION''"
| "regime_value VOLATILITY_BREAKOUT = ''VOLATILITY_BREAKOUT''"
| "regime_value MEAN_REVERSION = ''MEAN_REVERSION''"
| "regime_value VOLATILITY_COMPRESSION = ''VOLATILITY_COMPRESSION''"
| "regime_value PANIC = ''PANIC''"
| "regime_value LIQUIDITY_CRISIS = ''LIQUIDITY_CRISIS''"
| "regime_value LOW_VOLATILITY_CHOP = ''LOW_VOLATILITY_CHOP''"
| "regime_value MACRO_SHOCK = ''MACRO_SHOCK''"
| "regime_value LIQUIDATION_CASCADE = ''LIQUIDATION_CASCADE''"
| "regime_value TREND_EXHAUSTION = ''TREND_EXHAUSTION''"
| "regime_value FALSE_BREAKOUT = ''FALSE_BREAKOUT''"
| "regime_value RISK_OFF = ''RISK_OFF''"
| "regime_value RISK_ON = ''RISK_ON''"

definition crisis_regimes :: "aapif_regime list" where
  "crisis_regimes = [PANIC, LIQUIDITY_CRISIS, MACRO_SHOCK, LIQUIDATION_CASCADE, RISK_OFF]"

definition caution_regimes :: "aapif_regime list" where
  "caution_regimes = [FALSE_BREAKOUT, TREND_EXHAUSTION, LOW_VOLATILITY_CHOP]"

definition strategy_regime_map :: "(string, aapif_regime list) dict" where
  "strategy_regime_map =
     [(''Aegis Adaptive Momentum Expansion Engine (AAMX-5)'', [TREND_EXPANSION, VOLATILITY_BREAKOUT, RISK_ON]),
      (''Aegis Statistical Volatility Reversion Engine (ASVR-1H)'', [MEAN_REVERSION, TREND_EXHAUSTION, RISK_ON]),
      (''Aegis Tactical Reversion Confirmation Engine (ATRC-10)'', [MEAN_REVERSION, TREND_EXHAUSTION, FALSE_BREAKOUT]),
      (''Aegis Directional Volatility Expansion Engine (ADVE)'', [TREND_EXPANSION, VOLATILITY_BREAKOUT]),
      (''Aegis Liquidity Reclaim Continuation Engine (ALRC)'', [TREND_EXPANSION, RISK_ON]),
      (''Aegis Flow Momentum Alignment Engine (AFMA)'', [TREND_EXPANSION, RISK_ON]),
      (''Aegis Quantitative Momentum Regime Engine (AQMR)'', [TREND_EXPANSION, RISK_ON, VOLATILITY_BREAKOUT]),
      (''Aegis Systematic Trend Persistence Engine (ASTP)'', [TREND_EXPANSION, RISK_ON]),
      (''Aegis Tactical Mean Reversion Engine (ATMR)'', [MEAN_REVERSION, TREND_EXHAUSTION]),
      (''Aegis Adaptive Portfolio Orchestration Engine (AAPO)'', all_regimes)]"

record market_regime_snapshot =
  mr_regime :: aapif_regime
  mr_confidence :: pyfloat
  mr_reason :: string
  mr_volatility :: pyfloat
  mr_liquidity_score :: pyfloat
  mr_trend_score :: pyfloat
  mr_shock_score :: pyfloat

record execution_estimate =
  ee_spread_bps :: pyfloat
  ee_slippage_bps :: pyfloat
  ee_latency_bps :: pyfloat
  ee_impact_bps :: pyfloat
  ee_outage_penalty_bps :: pyfloat
  ee_partial_fill_probability :: pyfloat
  ee_rejection_probability :: pyfloat
  ee_live_backtest_degradation_bps :: pyfloat
  ee_execution_fragility_score :: pyfloat
  ee_liquidity_sensitivity :: pyfloat
  ee_scalability_limit_notional :: pyfloat

record sizing_decision =
  sz_strategy_name :: string
  sz_symbol :: string
  sz_target_weight :: pyfloat
  sz_volatility_scaled_weight :: pyfloat
  sz_drawdown_throttle :: pyfloat
  sz_correlation_throttle :: pyfloat
  sz_regime_throttle :: pyfloat
  sz_final_weight :: pyfloat
  sz_reason :: string

record survivability_assessment =
  su_strategy_name :: string
  su_survivability_score :: pyfloat
  su_anti_fragility_score :: pyfloat
  su_drawdown_cluster_risk :: pyfloat
  su_liquidity_crisis_risk :: pyfloat
  su_recommendation :: string

section \<open>Regime classification\<close>

text \<open>\<open>aapif._proxy_orderflow_score\<close> is not the one of the replay modules.\<close>

definition aapif_orderflow_score :: "pyfloat \<Rightarrow> pyfloat \<Rightarrow> pyfloat \<Rightarrow> pyfloat" where
  "aapif_orderflow_score rvol delta volatility =
     clamp (fsub (fadd (fadd (Fin 50) (fmul (fsub rvol (Fin 1)) (Fin 18))) (fmul delta (Fin 120)))
                 (fmul volatility (Fin 120))) (Fin 0) (Fin 100)"

record regime_inputs =
  ri_close :: pyfloat
  ri_open :: pyfloat
  ri_atr :: pyfloat
  ri_volatility :: pyfloat
  ri_rvol :: pyfloat
  ri_delta :: pyfloat
  ri_ema20 :: pyfloat
  ri_ema50 :: pyfloat
  ri_ema200 :: pyfloat
  ri_spread_bps :: pyfloat
  ri_orderflow :: pyfloat
  ri_candle_range :: pyfloat
  ri_bar_return :: pyfloat
  ri_previous_return :: pyfloat
  ri_atr_frac :: pyfloat
  ri_trend_score :: pyfloat
  ri_liquidity_score :: pyfloat
  ri_shock_score :: pyfloat

text \<open>\<open>(a - b) / b if b > 0 else 0.0\<close>.\<close>

definition return_of :: "pyfloat \<Rightarrow> pyfloat \<Rightarrow> pyfloat" where
  "return_of close op = (if flt (Fin 0) op then fdiv (fsub close op) op else Fin 0)"

definition previous_return_of :: "feature_row option \<Rightarrow> pyfloat" where
  "previous_return_of previous = (case previous of None \<Rightarrow> Fin 0
     | Some p \<Rightarrow> (let c = safe_float p ''close'' (Fin 0) in return_of c (safe_float p ''open'' c)))"

definition read_regime_inputs :: "feature_row \<Rightarrow> feature_row option \<Rightarrow> regime_inputs" where
  "read_regime_inputs row previous =
     (let close = safe_float row ''close'' (Fin 0); op = safe_float row ''open'' close;
          high = safe_float row ''high'' close; low = safe_float row ''low'' close;
          atr = safe_float row ''atr14'' (Fin 0);
          volatility = safe_float row ''volatility'' (if flt (Fin 0) close then fdiv atr close else Fin 0);
          rvol = safe_float row ''rvol30'' (Fin 1); delta = safe_float row ''delta_ratio'' (Fin 0);
          ema20 = safe_float row ''ema20'' close; ema50 = safe_float row ''ema50'' ema20;
          ema200 = safe_float row ''ema200'' ema50; spread = safe_float row ''spread_bps'' (Fin 0);
          bar_return = return_of close op; previous_return = previous_return_of previous;
          atr_frac = (if flt (Fin 0) close then fdiv atr close else volatility)
      in \<lparr>ri_close = close, ri_open = op, ri_atr = atr, ri_volatility = volatility, ri_rvol = rvol, ri_delta = delta,
          ri_ema20 = ema20, ri_ema50 = ema50, ri_ema200 = ema200, ri_spread_bps = spread,
          ri_orderflow = safe_float row ''orderflow_score'' (aapif_orderflow_score rvol delta volatility),
          ri_candle_range = fmax (dec 1 1000000) (fsub high low),
          ri_bar_return = bar_return, ri_previous_return = previous_return, ri_atr_frac = atr_frac,
          ri_trend_score = clamp (if flt (Fin 0) ema200 then fmul (fsub (fdiv ema20 ema200) (Fin 1)) (Fin 20) else Fin 0)
                             (Fin (- 1)) (Fin 1),
          ri_liquidity_score = (if flt (Fin 0) spread then clamp (fsub (Fin 1) (fdiv spread (Fin 40))) (Fin 0) (Fin 1)
                                else clamp (fdiv rvol (Fin 2)) (Fin 0) (Fin 1)),
          ri_shock_score = clamp (fmul (fmax (fmax (fabs bar_return) (fabs previous_return)) atr_frac) (Fin 30))
                             (Fin 0) (Fin 1)\<rparr>)"

text \<open>The last rules, from the compressed range on: only they divide by the close.\<close>

definition quiet_regime :: "regime_inputs \<Rightarrow> (aapif_regime \<times> pyfloat \<times> string) res" where
  "quiet_regime i =
     bind_res (if fle (ri_volatility i) (dec 4 1000) then Inr True
               else bind_res (py_div (ri_candle_range i) (ri_close i)) (\<lambda>x. Inr (fle x (dec 4 1000))))
       (\<lambda>compressed. Inr
         (if compressed then (VOLATILITY_COMPRESSION, dec 66 100, ''compressed range and volatility'')
          else if flt (ri_ema200 i) (ri_close i) \<and> flt (ri_ema20 i) (ri_ema50 i) \<and> fle (Fin 0) (ri_delta i)
          then (TREND_EXHAUSTION, dec 62 100, ''trend above long average but short structure weakening'')
          else if flt (ri_close i) (ri_ema200 i) \<and> flt (ri_delta i) (Fin 0)
          then (RISK_OFF, dec 68 100, ''below long trend with negative flow'')
          else if flt (ri_ema200 i) (ri_close i) \<and> fle (Fin 0) (ri_delta i)
          then (RISK_ON, dec 64 100, ''above long trend with supportive flow'')
          else (LOW_VOLATILITY_CHOP, dec 55 100, ''no durable directional or reversion edge'')))"

definition regime_of_inputs :: "regime_inputs \<Rightarrow> (aapif_regime \<times> pyfloat \<times> string) res" where
  "regime_of_inputs i =
     (if fle (Fin 35) (ri_spread_bps i) \<or> fle (ri_liquidity_score i) (dec 15 100)
      then Inr (LIQUIDITY_CRISIS, dec 86 100, ''spread/liquidity crisis detected'')
      else if fle (dec 82 100) (ri_shock_score i) \<and> flt (ri_close i) (ri_open i) \<and> flt (ri_delta i) (dec (- 8) 100)
      then Inr (LIQUIDATION_CASCADE, dec 84 100, ''bearish shock with adverse orderflow'')
      else if fle (dec 55 1000) (ri_volatility i) \<or> fle (dec 45 1000) (ri_atr_frac i) \<and> fle (dec 18 10) (ri_rvol i)
      then Inr (PANIC, dec 82 100, ''volatility spike exceeds survivability threshold'')
      else if flt (ri_ema20 i) (ri_close i) \<and> flt (ri_ema50 i) (ri_ema20 i) \<and> flt (ri_ema200 i) (ri_ema50 i) \<and>
              fle (dec 11 10) (ri_rvol i) \<and> fle (Fin 0) (ri_delta i)
      then Inr (TREND_EXPANSION, dec 78 100, ''trend stack and flow expansion aligned'')
      else if fle (fmul (dec 14 10) (ri_atr i)) (fabs (fsub (ri_close i) (ri_open i))) \<and> flt (ri_open i) (ri_close i) \<and>
              fle (Fin 1) (ri_rvol i)
      then Inr (VOLATILITY_BREAKOUT, dec 74 100, ''ATR expansion breakout candle'')
      else if flt (ri_ema200 i) (ri_close i) \<and> flt (ri_close i) (ri_ema20 i) \<and> flt (Fin 50) (ri_orderflow i)
      then Inr (MEAN_REVERSION, dec 68 100, ''pullback inside bullish structure'')
      else quiet_regime i)"

definition classify_row :: "feature_row \<Rightarrow> feature_row option \<Rightarrow> market_regime_snapshot res" where
  "classify_row row previous =
     (let i = read_regime_inputs row previous in
      bind_res (regime_of_inputs i) (\<lambda>(regime, confidence, reason).
        Inr \<lparr>mr_regime = regime, mr_confidence = confidence, mr_reason = reason, mr_volatility = ri_volatility i,
            mr_liquidity_score = ri_liquidity_score i, mr_trend_score = ri_trend_score i,
            mr_shock_score = ri_shock_score i\<rparr>))"

section \<open>Execution realism\<close>

definition realism_estimate ::
    "(pyfloat \<Rightarrow> pyfloat) \<Rightarrow> feature_row \<Rightarrow> pyfloat \<Rightarrow> pyfloat \<Rightarrow> execution_estimate" where
  "realism_estimate sqrt_of row notional latency_ms =
     (let close = safe_float row ''close'' (Fin 0); volume = fmax (Fin 0) (safe_float row ''volume'' (Fin 0));
          quote_volume = fmax (fmul close volume) (Fin 1);
          volatility = safe_float row ''volatility''
            (if flt (Fin 0) close then fdiv (safe_float row ''atr14'' (Fin 0)) close else Fin 0);
          rvol = safe_float row ''rvol30'' (Fin 1);
          spread = safe_float row ''spread_bps'' (fadd (Fin 4) (fmin (Fin 20) (fmul volatility (Fin 500))));
          participation = clamp (fdiv notional quote_volume) (Fin 0) (Fin 1);
          slippage = fadd (fmul spread (dec 5 10))
            (fmul (fmul volatility (Fin 2000)) (fdiv (Fin 1) (fmax (dec 35 100) (fmin rvol (Fin 3)))));
          latency = fmul (fdiv (fmul volatility (fmax (Fin 0) latency_ms)) (Fin 1000)) (Fin 100);
          impact = fmul (fmul (Fin 10000) (sqrt_of participation)) (fmax (dec 2 10) volatility);
          outage = (if fle (dec 5 100) volatility then Fin 8 else if fle (dec 25 1000) volatility then Fin 2 else dec 5 10);
          partial = clamp (fadd (fmul participation (Fin 5)) (fdiv (fmax (Fin 0) (fsub spread (Fin 15))) (Fin 50)))
            (Fin 0) (dec 95 100);
          rejection = clamp (fadd (fdiv (fmax (Fin 0) (fsub spread (Fin 25))) (Fin 100))
            (fmul (fmax (Fin 0) (fsub volatility (dec 4 100))) (Fin 4))) (Fin 0) (dec 8 10);
          degradation = fadd (fadd (fadd (fadd spread slippage) latency) impact) outage
      in \<lparr>ee_spread_bps = spread, ee_slippage_bps = slippage, ee_latency_bps = latency, ee_impact_bps = impact,
          ee_outage_penalty_bps = outage, ee_partial_fill_probability = partial, ee_rejection_probability = rejection,
          ee_live_backtest_degradation_bps = degradation,
          ee_execution_fragility_score =
            clamp (fadd (fadd (fdiv degradation (Fin 160)) (fmul partial (dec 3 10))) (fmul rejection (dec 4 10)))
              (Fin 0) (Fin 1),
          ee_liquidity_sensitivity = clamp (fadd (fmul participation (Fin 20)) (fdiv spread (Fin 40))) (Fin 0) (Fin 1),
          ee_scalability_limit_notional = fmul quote_volume (dec 2 1000)\<rparr>)"

section \<open>Sizing, survivability and the shadow decision\<close>

definition regime_throttle :: "aapif_regime \<Rightarrow> pyfloat" where
  "regime_throttle regime = (if regime \<in> set crisis_regimes then Fin 0
     else if regime \<in> set caution_regimes then dec 45 100 else Fin 1)"

definition position_size ::
    "string \<Rightarrow> string \<Rightarrow> pyfloat \<Rightarrow> pyfloat \<Rightarrow> aapif_regime \<Rightarrow> pyfloat \<Rightarrow> pyfloat \<Rightarrow> sizing_decision" where
  "position_size strategy_name name base_weight volatility regime drawdown_pct correlation =
     (let scaled = fmul base_weight (clamp (fdiv (dec 15 1000) (fmax volatility (dec 1 1000))) (dec 25 100) (dec 15 10));
          drawdown = clamp (fsub (Fin 1) (fdiv (fmax (Fin 0) drawdown_pct) (Fin 12))) (dec 1 10) (Fin 1);
          corr = clamp (fsub (Fin 1) (fmax (Fin 0) (fsub correlation (dec 55 100)))) (dec 35 100) (Fin 1);
          throttle = regime_throttle regime
      in \<lparr>sz_strategy_name = strategy_name, sz_symbol = name, sz_target_weight = base_weight,
          sz_volatility_scaled_weight = scaled, sz_drawdown_throttle = drawdown, sz_correlation_throttle = corr,
          sz_regime_throttle = throttle,
          sz_final_weight = clamp (fmul (fmul (fmul scaled drawdown) corr) throttle) (Fin 0) (fmul base_weight (dec 15 10)),
          sz_reason = ''volatility/regime/correlation sizing for '' @ regime_value regime\<rparr>)"

definition assess_survivability ::
    "string \<Rightarrow> pyfloat \<Rightarrow> pyfloat \<Rightarrow> aapif_regime \<Rightarrow> pyfloat \<Rightarrow> survivability_assessment" where
  "assess_survivability strategy_name max_drawdown fragility regime correlation =
     (let penalty = (if regime \<in> set crisis_regimes then dec 25 100
                     else if regime \<in> set caution_regimes then dec 1 10 else Fin 0);
          drawdown_risk = clamp (fdiv max_drawdown (Fin 20)) (Fin 0) (Fin 1);
          cluster = clamp (fadd (fadd (fmul drawdown_risk (dec 55 100)) (fmul correlation (dec 3 10))) penalty) (Fin 0) (Fin 1);
          liquidity = clamp (fadd fragility penalty) (Fin 0) (Fin 1);
          survivability = fround_to (fmul (Fin 100)
            (fsub (Fin 1) (clamp (fdiv (fadd cluster liquidity) (Fin 2)) (Fin 0) (Fin 1)))) 2;
          anti = fround_to (fmul (Fin 100)
            (fsub (Fin 1) (clamp (fadd drawdown_risk (fmax (Fin 0) (fsub correlation (dec 4 10)))) (Fin 0) (Fin 1)))) 2
      in \<lparr>su_strategy_name = strategy_name, su_survivability_score = survivability, su_anti_fragility_score = anti,
          su_drawdown_cluster_risk = cluster, su_liquidity_crisis_risk = liquidity,
          su_recommendation = (if flt survivability (Fin 65) then ''shadow only''
             else if flt survivability (Fin 80) then ''stress validation required'' else ''eligible for certification gates'')\<rparr>)"

definition strategy_allowed :: "string \<Rightarrow> aapif_regime \<Rightarrow> bool" where
  "strategy_allowed name regime =
     (let allowed = dict_get_or strategy_regime_map name [] in allowed = [] \<or> regime \<in> set allowed)"

record shadow_decision_record =
  sh_strategy_name :: string
  sh_regime :: market_regime_snapshot
  sh_execution :: execution_estimate
  sh_sizing :: sizing_decision
  sh_survivability :: survivability_assessment
  sh_allowed :: bool
  sh_mode :: string

definition shadow_decision ::
    "(pyfloat \<Rightarrow> pyfloat) \<Rightarrow> string \<Rightarrow> feature_row \<Rightarrow> feature_row option \<Rightarrow> pyfloat \<Rightarrow> shadow_decision_record res" where
  "shadow_decision sqrt_of name row previous base_weight =
     bind_res (classify_row row previous) (\<lambda>regime.
       let execution = realism_estimate sqrt_of row (Fin 1000) (Fin 250);
           sizing = position_size name (text_or row ''symbol'' []) base_weight (mr_volatility regime) (mr_regime regime)
                      (Fin 0) (Fin 0)
       in Inr \<lparr>sh_strategy_name = name, sh_regime = regime, sh_execution = execution, sh_sizing = sizing,
               sh_survivability = assess_survivability name (Fin 0) (ee_execution_fragility_score execution)
                 (mr_regime regime) (Fin 0),
               sh_allowed = (strategy_allowed name (mr_regime regime) \<and>
                 fle (ee_execution_fragility_score execution) (dec 72 100) \<and> flt (Fin 0) (sz_final_weight sizing)),
               sh_mode = ''SHADOW_MODE''\<rparr>)"

section \<open>Metrics of a return series\<close>

record institutional_metrics =
  im_geometric_cagr :: pyfloat
  im_max_drawdown_pct :: pyfloat
  im_mar_ratio :: pyfloat
  im_sharpe_ratio :: pyfloat
  im_sortino_ratio :: pyfloat
  im_ulcer_index :: pyfloat
  im_recovery_factor :: pyfloat
  im_volatility_drag :: pyfloat
  im_live_backtest_parity :: pyfloat
  im_survivability_score :: pyfloat
  im_anti_fragility_score :: pyfloat
  im_portfolio_contribution_score :: pyfloat

definition compounded :: "pyfloat list \<Rightarrow> pyfloat" where
  "compounded returns = foldl (\<lambda>c v. fmul c (fmax (dec 1 1000000) (fadd (Fin 1) v))) (Fin 1) returns"

definition ratio_to :: "(pyfloat \<Rightarrow> pyfloat) \<Rightarrow> pyfloat \<Rightarrow> pyfloat \<Rightarrow> nat \<Rightarrow> pyfloat" where
  "ratio_to sqrt_of avg dev n =
     (if feq dev (Fin 0) then Fin 0 else fmul (fdiv avg dev) (sqrt_of (float_of_int (int n))))"

definition fmin_list :: "pyfloat list \<Rightarrow> pyfloat" where
  "fmin_list xs = foldl fmin (hd xs) (tl xs)"

definition institutional_metrics_from_returns ::
    "(pyfloat \<Rightarrow> pyfloat) \<Rightarrow> (pyfloat \<Rightarrow> nat \<Rightarrow> pyfloat res) \<Rightarrow> pyfloat list \<Rightarrow> pyfloat \<Rightarrow> pyfloat \<Rightarrow> institutional_metrics res" where
  "institutional_metrics_from_returns sqrt_of pow_of returns_pct max_drawdown degradation =
     (if returns_pct = []
      then Inr \<lparr>im_geometric_cagr = Fin 0, im_max_drawdown_pct = max_drawdown, im_mar_ratio = Fin 0,
          im_sharpe_ratio = Fin 0, im_sortino_ratio = Fin 0, im_ulcer_index = max_drawdown, im_recovery_factor = Fin 0,
          im_volatility_drag = Fin 0, im_live_backtest_parity = Fin 0, im_survivability_score = Fin 50,
          im_anti_fragility_score = Fin 50, im_portfolio_contribution_score = Fin 0\<rparr>
      else
       (let returns = map (\<lambda>v. fdiv v (Fin 100)) returns_pct; n = length returns; c = compounded returns;
            geometric = fmul (fsub c (Fin 1)) (Fin 100); avg = fdiv (fsum returns) (float_of_int (int n))
        in bind_res (map_res (\<lambda>v. pow_of (fsub v avg) 2) returns) (\<lambda>squares.
           bind_res (pow_of (fadd (Fin 1) avg) n) (\<lambda>growth.
           let stdev = sqrt_of (fdiv (fsum squares) (float_of_int (max 1 (int n - 1))));
               downside = map (fmin (Fin 0)) returns;
               downside_dev = sqrt_of (fdiv (fsum (map (\<lambda>v. fmul v v) downside)) (float_of_int (max 1 (int (length downside)))));
               sortino = ratio_to sqrt_of avg downside_dev n;
               mar = (if fle max_drawdown (Fin 0) then Fin 0 else fdiv geometric max_drawdown);
               survivability = clamp (fsub (fsub (Fin 100) (fmul max_drawdown (Fin 4))) (fdiv degradation (Fin 8))) (Fin 0) (Fin 100)
           in Inr \<lparr>im_geometric_cagr = geometric, im_max_drawdown_pct = max_drawdown, im_mar_ratio = mar,
                im_sharpe_ratio = ratio_to sqrt_of avg stdev n, im_sortino_ratio = sortino,
                im_ulcer_index = max_drawdown, im_recovery_factor = mar,
                im_volatility_drag = fmax (Fin 0) (fmul (fsub growth c) (Fin 100)),
                im_live_backtest_parity = fmul (clamp (fsub (Fin 1) (fdiv degradation (Fin 300))) (Fin 0) (Fin 1)) (Fin 100),
                im_survivability_score = survivability,
                im_anti_fragility_score = clamp (fsub (fadd (Fin 50) (fmul (fmax (Fin 0) (fneg (fmin_list returns))) (Fin 300)))
                  (fmul max_drawdown (Fin 2))) (Fin 0) (Fin 100),
                im_portfolio_contribution_score = clamp (fadd (fadd (fmul mar (Fin 20)) (fmul sortino (Fin 10)))
                  (fmul survivability (dec 4 10))) (Fin 0) (Fin 100)\<rparr>))))"

section \<open>Bounds\<close>

lemma dec_Fin: "\<bar>n\<bar> \<le> d \<Longrightarrow> 0 < d \<Longrightarrow> \<exists>q. dec n d = Fin q \<and> \<bar>q\<bar> \<le> 1"
proof -
  assume a: "\<bar>n\<bar> \<le> d" "0 < d"
  then have "\<bar>of_int n / of_int d :: rat\<bar> \<le> 1" by (simp add: divide_le_eq_1)
  then have "of_int n / of_int d \<le> (1::rat)" "- 1 \<le> (of_int n / of_int d :: rat)" by linarith+
  then have "fle (dec n d) (Fin (of_int 1))" "fle (Fin (of_int (- 1))) (dec n d)"
    unfolding dec_def by (intro fround_le_int fround_ge_int; simp)+
  then show ?thesis by (cases "dec n d") auto
qed

lemma unit_product:
  assumes "x = Fin p" "y = Fin q" "0 \<le> p" "p \<le> 2" "0 \<le> q" "q \<le> 1"
  shows "\<exists>r. fmul x y = Fin r \<and> 0 \<le> r \<and> r \<le> 2"
proof -
  have "0 \<le> p * q" "p * q \<le> 2" using assms mult_mono[of p 2 q 1] by simp_all
  then have "fle (Fin (of_int 0)) (fround (p * q))" "fle (fround (p * q)) (Fin (of_int 2))"
    by (intro fround_ge_int fround_le_int; simp)+
  then show ?thesis using assms by (cases "fround (p * q)") auto
qed

lemma throttle_unit: "\<exists>q. regime_throttle r = Fin q \<and> 0 \<le> q \<and> q \<le> 1"
proof -
  consider "regime_throttle r = Fin 0" | "regime_throttle r = dec 45 100" | "regime_throttle r = Fin 1"
    by (cases "r \<in> set crisis_regimes"; cases "r \<in> set caution_regimes") (auto simp: regime_throttle_def)
  then show ?thesis
  proof cases
    case 2
    then show ?thesis by (intro exI[of _ "8106479329266893 / 18014398509481984"]) (simp add: dec_lits)
  qed auto
qed

lemma crisis_throttle: "r \<in> set crisis_regimes \<Longrightarrow> regime_throttle r = Fin 0"
  by (simp add: regime_throttle_def)

text \<open>The weight of a position of at most the whole portfolio.\<close>

lemma final_weight:
  assumes "0 \<le> b" and "b \<le> 1"
    and wd: "w = sz_final_weight (position_size name sy (Fin b) volatility regime drawdown correlation)"
  shows "fle (Fin 0) w \<and> fle w (fmul (Fin b) (dec 15 10)) \<and> (regime \<in> set crisis_regimes \<longrightarrow> w = Fin 0)"
proof -
  obtain c1 where c1: "clamp (fdiv (dec 15 1000) (fmax volatility (dec 1 1000))) (dec 25 100) (dec 15 10) = Fin c1"
      "0 \<le> c1" "c1 \<le> 3 / 2"
    using clamp_finite[of "1 / 4" "3 / 2"] by (force simp: dec_lits)
  obtain c2 where c2: "clamp (fsub (Fin 1) (fdiv (fmax (Fin 0) drawdown) (Fin 12))) (dec 1 10) (Fin 1) = Fin c2"
      "0 \<le> c2" "c2 \<le> 1"
    using clamp_finite[of "3602879701896397 / 36028797018963968" 1] by (force simp: dec_lits)
  obtain c3 where c3: "clamp (fsub (Fin 1) (fmax (Fin 0) (fsub correlation (dec 55 100)))) (dec 35 100) (Fin 1) = Fin c3"
      "0 \<le> c3" "c3 \<le> 1"
    using clamp_finite[of "3152519739159347 / 9007199254740992" 1] by (force simp: dec_lits)
  obtain c4 where c4: "regime_throttle regime = Fin c4" "0 \<le> c4" "c4 \<le> 1" using throttle_unit by blast
  have "b * c1 \<le> 2" "0 \<le> b * c1" using assms(1,2) c1 mult_mono[of b 1 c1 2] by simp_all
  then have "fle (Fin (of_int 0)) (fround (b * c1))" "fle (fround (b * c1)) (Fin (of_int 2))"
    by (intro fround_ge_int fround_le_int; simp)+
  then obtain s where s: "fround (b * c1) = Fin s" "0 \<le> s" "s \<le> 2" by (cases "fround (b * c1)") auto
  obtain s2 where s2: "fmul (Fin s) (Fin c2) = Fin s2" "0 \<le> s2" "s2 \<le> 2" using unit_product[OF refl refl s(2,3) c2(2,3)] by blast
  obtain s3 where s3: "fmul (Fin s2) (Fin c3) = Fin s3" "0 \<le> s3" "s3 \<le> 2" using unit_product[OF refl refl s2(2,3) c3(2,3)] by blast
  have cap: "fle (Fin 0) (fmul (Fin b) (dec 15 10))" using assms(1) by (simp add: dec_lits fround_nonneg)
  have w: "w = clamp (fmul (Fin s3) (Fin c4)) (Fin 0) (fmul (Fin b) (dec 15 10))"
    using s(1) s2(1) s3(1) by (simp add: wd position_size_def Let_def c1(1) c2(1) c3(1) c4(1))
  have "w = Fin 0" if "regime \<in> set crisis_regimes"
  proof -
    have "c4 = 0" using crisis_throttle[OF that] c4(1) by simp
    then have "w = clamp (Fin 0) (Fin 0) (fmul (Fin b) (dec 15 10))" by (simp add: w)
    then show ?thesis using cap by (cases "fmul (Fin b) (dec 15 10)") (auto simp: clamp_def fmax_def fmin_def)
  qed
  then show ?thesis using clamp_ge[of "Fin 0"] clamp_le[OF cap] by (simp add: w)
qed

lemma high_volatility_regime:
  assumes "regime_of_inputs i = Inr (r, c, m)" and "fle (dec 55 1000) (ri_volatility i)"
  shows "r \<in> {LIQUIDITY_CRISIS, LIQUIDATION_CASCADE, PANIC}"
  using assms by (auto simp: regime_of_inputs_def split: if_splits)

lemma classify_row_cases:
  assumes "classify_row row previous = Inr m"
  shows "\<exists>c t. regime_of_inputs (read_regime_inputs row previous) = Inr (mr_regime m, c, t) \<and>
    mr_volatility m = ri_volatility (read_regime_inputs row previous)"
  using assms by (auto simp: classify_row_def Let_def bind_res_eq_Inr)

text \<open>Whatever the row, a shadow decision that allows a trade was made outside the crisis regimes and
  below the panic volatility, in a regime mapped to the strategy, with an execution fragility of at most
  0.72 and a positive weight of at most one and a half times the base weight.\<close>

theorem shadow_allows_only_safe_regimes:
  assumes "shadow_decision sqrt_of name row previous (Fin b) = Inr d" and "sh_allowed d" and "0 \<le> b" and "b \<le> 1"
  shows "mr_regime (sh_regime d) \<notin> set crisis_regimes \<and> strategy_allowed name (mr_regime (sh_regime d)) \<and>
    \<not> fle (dec 55 1000) (mr_volatility (sh_regime d)) \<and>
    fle (ee_execution_fragility_score (sh_execution d)) (dec 72 100) \<and>
    flt (Fin 0) (sz_final_weight (sh_sizing d)) \<and> fle (sz_final_weight (sh_sizing d)) (fmul (Fin b) (dec 15 10))"
proof -
  obtain m where m: "classify_row row previous = Inr m" "sh_regime d = m"
      "sh_sizing d = position_size name (text_or row ''symbol'' []) (Fin b) (mr_volatility m) (mr_regime m) (Fin 0) (Fin 0)"
      "strategy_allowed name (mr_regime m)" "fle (ee_execution_fragility_score (sh_execution d)) (dec 72 100)"
      "flt (Fin 0) (sz_final_weight (sh_sizing d))"
    using assms(1,2) by (auto simp: shadow_decision_def bind_res_eq_Inr Let_def)
  have w: "fle (Fin 0) (sz_final_weight (sh_sizing d)) \<and> fle (sz_final_weight (sh_sizing d)) (fmul (Fin b) (dec 15 10)) \<and>
      (mr_regime m \<in> set crisis_regimes \<longrightarrow> sz_final_weight (sh_sizing d) = Fin 0)"
    using final_weight[OF assms(3,4)] by (metis m(3))
  have safe: "mr_regime m \<notin> set crisis_regimes" using w m(6) by auto
  obtain c t where c: "regime_of_inputs (read_regime_inputs row previous) = Inr (mr_regime m, c, t)"
      "mr_volatility m = ri_volatility (read_regime_inputs row previous)" using classify_row_cases[OF m(1)] by blast
  have "\<not> fle (dec 55 1000) (mr_volatility m)"
    using high_volatility_regime[OF c(1)] safe by (auto simp: c(2) crisis_regimes_def)
  then show ?thesis using m w safe by simp
qed

text \<open>A quiet, liquid row in an uptrend.\<close>

definition calm_row :: feature_row where
  "calm_row = \<lparr>pr_values = [(''close'', Fin 1000), (''volume'', Fin 1048576), (''volatility'', Fin 0),
     (''spread_bps'', Fin 0), (''ema20'', Fin 999), (''ema50'', Fin 998), (''ema200'', Fin 997), (''rvol30'', Fin 2)],
     pr_is_complete = None, fr_flags = [], fr_texts = []\<rparr>"

definition calm_sqrt :: "pyfloat \<Rightarrow> pyfloat" where
  "calm_sqrt x = (if x = Fin (1 / 1048576) then Fin (1 / 1024) else x)"

lemma calm_classified: "\<exists>m. classify_row calm_row None = Inr m \<and> mr_regime m = TREND_EXPANSION \<and> mr_volatility m = Fin 0"
proof -
  have "clamp (Fin 0) (Fin 0) (Fin 1) = Fin 0" "clamp (Fin 1) (Fin 0) (Fin 1) = Fin 1"
    by (simp_all add: clamp_def fmax_def fmin_def)
  then show ?thesis
    by (simp add: classify_row_def read_regime_inputs_def regime_of_inputs_def calm_row_def safe_float_def finite_or_def
        previous_return_of_def return_of_def fmax_def dec_lits Let_def)
qed

text \<open>Its execution estimate, rounding by rounding.\<close>

lemma calm_impact: "fround (2251799813685248125 / 1152921504606846976) = Fin (125 / 64)"
  using fround_eval[of "1 / 2 ^ 52" "- 52" "2251799813685248125 / 1152921504606846976" "8796093022208000"]
  by (simp add: power_int_def power_one_over)

lemma calm_degradation: "fround (157 / 64) = Fin (157 / 64)"
  using fround_eval[of "1 / 2 ^ 51" "- 51" "157 / 64" "5523946417946624"]
  by (simp add: power_int_def power_one_over)

lemma calm_degraded: "fround (157 / 10240) = Fin (4419157134357299 / 288230376151711744)"
  using fround_eval[of "1 / 2 ^ 59" "- 59" "157 / 10240" "8838314268714598"]
  by (simp add: power_int_def power_one_over)

lemma calm_partial: "fround (27021597764222975 / 18889465931478580854784) = Fin (3 / 2097152)"
  using fround_eval[of "1 / 2 ^ 72" "- 72" "27021597764222975 / 18889465931478580854784" "6755399441055744"]
  by (simp add: power_int_def power_one_over)

lemma calm_fragility: "fround (4419569451217715 / 288230376151711744) = Fin (4419569451217715 / 288230376151711744)"
  using fround_eval[of "1 / 2 ^ 59" "- 59" "4419569451217715 / 288230376151711744" "8839138902435430"]
  by (simp add: power_int_def power_one_over)

lemma calm_part: "fround (5 / 1048576) = Fin (5 / 1048576)"
  using fround_eval[of "1 / 2 ^ 70" "- 70" "5 / 1048576" "5629499534213120"]
  by (simp add: power_int_def power_one_over)

lemma calm_participation: "fround (1 / 1048576) = Fin (1 / 1048576)"
  using fround_eval[of "1 / 2 ^ 72" "- 72" "1 / 1048576" "4503599627370496"]
  by (simp add: power_int_def power_one_over)

lemma calm_625: "fround (625 / 64) = Fin (625 / 64)"
  using fround_eval[of "1 / 2 ^ 49" "- 49" "625 / 64" "5497558138880000"]
  by (simp add: power_int_def power_one_over)

lemma calm_half: "fround (1 / 2) = Fin (1 / 2)"
  using fround_eval[of "1 / 2 ^ 53" "- 53" "1 / 2" "4503599627370496"]
  by (simp add: power_int_def power_one_over)

lemma calm_004: "fround (5764607523034235 / 144115188075855872) = Fin (5764607523034235 / 144115188075855872)"
  using fround_eval[of "1 / 2 ^ 57" "- 57" "5764607523034235 / 144115188075855872" "5764607523034235"]
  by (simp add: power_int_def power_one_over)

lemma calm_minus: "fround (- (5764607523034235 / 144115188075855872)) = Fin (- (5764607523034235 / 144115188075855872))"
  using calm_004 by (auto simp: fround_def Let_def rnd_uminus split: if_splits)

lemma calm_carry: "fround (125 / 64) = Fin (125 / 64)"
  using fround_eval[of "1 / 2 ^ 52" "- 52" "125 / 64" "8796093022208000"]
  by (simp add: power_int_def power_one_over)

lemmas calm_rounding = calm_impact calm_degradation calm_degraded calm_partial calm_fragility calm_part calm_participation calm_625 calm_half calm_minus calm_carry

lemma calm_estimate: "ee_execution_fragility_score (realism_estimate calm_sqrt calm_row (Fin 1000) (Fin 250)) =
    Fin (4419569451217715 / 288230376151711744)"
  by (simp add: realism_estimate_def calm_row_def safe_float_def finite_or_def calm_sqrt_def clamp_def fmax_def fmin_def
      dec_lits calm_rounding Let_def)

lemma trend_map_allowed: "strategy_allowed ''Trend'' TREND_EXPANSION"
  by (simp add: strategy_allowed_def strategy_regime_map_def dict_get_or_def)

lemma calm_weight: "fround (3 / 2) = Fin (3 / 2)"
  using fround_eval[of "1 / 2 ^ 52" "- 52" "3 / 2" "6755399441055744"] by (simp add: power_int_def power_one_over)

text \<open>In a calm trend every throttle is one, and the volatility scale is at its cap.\<close>

lemma calm_clamps:
  "clamp (fdiv (dec 15 1000) (dec 1 1000)) (dec 25 100) (dec 15 10) = Fin (3 / 2)"
  "clamp (Fin 1) (dec 1 10) (Fin 1) = Fin 1" "clamp (Fin 1) (dec 35 100) (Fin 1) = Fin 1"
  "fmax (Fin 0) (Fin 0) = Fin 0" "fmax (Fin 0) (dec 1 1000) = dec 1 1000" "fmax (Fin 0) (fsub (Fin 0) (dec 55 100)) = Fin 0"
proof -
  have "fle (Fin (of_int 2)) (fdiv (dec 15 1000) (dec 1 1000))"
    by (simp add: dec_lits del: of_int_numeral) (rule fround_ge_int; simp)
  moreover have "fle (fdiv (dec 15 1000) (dec 1 1000)) (Fin (of_int 20))"
    by (simp add: dec_lits del: of_int_numeral) (rule fround_le_int; simp)
  ultimately obtain q where "fdiv (dec 15 1000) (dec 1 1000) = Fin q" "2 \<le> q"
    by (cases "fdiv (dec 15 1000) (dec 1 1000)") auto
  then show "clamp (fdiv (dec 15 1000) (dec 1 1000)) (dec 25 100) (dec 15 10) = Fin (3 / 2)"
    by (simp add: clamp_def fmin_def fmax_def dec_lits)
  have "fle (fsub (Fin 0) (dec 55 100)) (Fin (of_int 0))"
    by (simp add: dec_lits del: of_int_0) (rule fround_le_int; simp)
  then show "fmax (Fin 0) (fsub (Fin 0) (dec 55 100)) = Fin 0"
    using flt_le_trans[of "Fin 0" "fsub (Fin 0) (dec 55 100)" "Fin 0"] by (auto simp: fmax_def)
qed (simp_all add: clamp_def fmax_def fmin_def dec_lits)

lemma calm_size:
  "sz_final_weight (position_size a c b (Fin 0) TREND_EXPANSION (Fin 0) (Fin 0)) =
   clamp (fmul (fmul (fmul (fmul b (Fin (3 / 2))) (Fin 1)) (Fin 1)) (Fin 1)) (Fin 0) (fmul b (dec 15 10))"
proof -
  have "regime_throttle TREND_EXPANSION = Fin 1"
    by (simp add: regime_throttle_def crisis_regimes_def caution_regimes_def)
  then show ?thesis
    by (simp add: position_size_def Let_def calm_clamps)
qed

theorem shadow_allows_only_safe_regimes_witness:
  "\<exists>d. shadow_decision calm_sqrt ''Trend'' calm_row None (Fin 1) = Inr d \<and> sh_allowed d \<and>
     mr_regime (sh_regime d) \<notin> set crisis_regimes"
proof -
  obtain m where m: "classify_row calm_row None = Inr m" "mr_regime m = TREND_EXPANSION" "mr_volatility m = Fin 0"
    using calm_classified by blast
  have w: "flt (Fin 0) (sz_final_weight (position_size a c (Fin 1) (Fin 0) TREND_EXPANSION (Fin 0) (Fin 0)))" for a c
    by (simp add: calm_size) (simp add: calm_weight clamp_def fmax_def fmin_def dec_lits)
  have "\<exists>d. shadow_decision calm_sqrt ''Trend'' calm_row None (Fin 1) = Inr d \<and> sh_allowed d"
    using m w trend_map_allowed by (simp add: shadow_decision_def Let_def calm_estimate dec_lits)
  then obtain d where d: "shadow_decision calm_sqrt ''Trend'' calm_row None (Fin 1) = Inr d" "sh_allowed d"
    by (elim exE conjE)
  from shadow_allows_only_safe_regimes[OF d] d show ?thesis by auto
qed

text \<open>The execution estimate of any row keeps its probabilities and scores within their ranges,
  whatever is missing, infinite or NaN in the row, and so do the scores of the regime snapshot.\<close>

theorem realism_scores_bounded:
  "fle (Fin 0) (ee_execution_fragility_score (realism_estimate sqrt_of row notional latency)) \<and>
   fle (ee_execution_fragility_score (realism_estimate sqrt_of row notional latency)) (Fin 1) \<and>
   fle (Fin 0) (ee_partial_fill_probability (realism_estimate sqrt_of row notional latency)) \<and>
   fle (ee_partial_fill_probability (realism_estimate sqrt_of row notional latency)) (dec 95 100) \<and>
   fle (Fin 0) (ee_rejection_probability (realism_estimate sqrt_of row notional latency)) \<and>
   fle (ee_rejection_probability (realism_estimate sqrt_of row notional latency)) (dec 8 10) \<and>
   fle (Fin 0) (ee_liquidity_sensitivity (realism_estimate sqrt_of row notional latency)) \<and>
   fle (ee_liquidity_sensitivity (realism_estimate sqrt_of row notional latency)) (Fin 1) \<and>
   fle (Fin (- 1)) (ri_trend_score (read_regime_inputs row previous)) \<and>
   fle (ri_trend_score (read_regime_inputs row previous)) (Fin 1) \<and>
   fle (Fin 0) (ri_liquidity_score (read_regime_inputs row previous)) \<and>
   fle (ri_liquidity_score (read_regime_inputs row previous)) (Fin 1) \<and>
   fle (Fin 0) (ri_shock_score (read_regime_inputs row previous)) \<and>
   fle (ri_shock_score (read_regime_inputs row previous)) (Fin 1)"
proof -
  have "fle (Fin 0) (dec 95 100)" "fle (Fin 0) (dec 8 10)" by (simp_all add: dec_lits)
  then show ?thesis
    by (simp add: realism_estimate_def read_regime_inputs_def Let_def clamp_ge clamp_le)
qed

lemma quiet_regime_total: "ri_close i \<noteq> Fin 0 \<Longrightarrow> is_ok (quiet_regime i)"
  by (simp add: quiet_regime_def py_div_def)

text \<open>A row with a volatility but no prices.\<close>

definition unpriced_row :: feature_row where
  "unpriced_row = \<lparr>pr_values = [(''volatility'', dec 1 100)], pr_is_complete = None, fr_flags = [], fr_texts = []\<rparr>"

lemma unpriced_inputs:
  "ri_close (read_regime_inputs unpriced_row None) = Fin 0 \<and> ri_open (read_regime_inputs unpriced_row None) = Fin 0 \<and>
   ri_volatility (read_regime_inputs unpriced_row None) = dec 1 100 \<and>
   ri_atr_frac (read_regime_inputs unpriced_row None) = dec 1 100 \<and>
   ri_spread_bps (read_regime_inputs unpriced_row None) = Fin 0 \<and>
   ri_ema20 (read_regime_inputs unpriced_row None) = Fin 0 \<and> ri_ema200 (read_regime_inputs unpriced_row None) = Fin 0 \<and>
   ri_liquidity_score (read_regime_inputs unpriced_row None) = Fin (1 / 2)"
  by (simp add: read_regime_inputs_def unpriced_row_def safe_float_def finite_or_def clamp_def fmax_def fmin_def
      dec_lits calm_half Let_def)

text \<open>Every guarded read has a default, yet a row without a usable close is classified only by luck:
  with a close the classifier always returns, without one a volatility between the compression and the
  panic threshold makes it divide by zero.\<close>

theorem classification_needs_a_close:
  "(safe_float row ''close'' (Fin 0) \<noteq> Fin 0 \<longrightarrow> is_ok (classify_row row previous)) \<and>
   classify_row unpriced_row None = Inl ZeroDivisionError"
proof -
  have "is_ok (classify_row row previous)" if "safe_float row ''close'' (Fin 0) \<noteq> Fin 0"
  proof -
    have "ri_close (read_regime_inputs row previous) \<noteq> Fin 0" using that by (simp add: read_regime_inputs_def Let_def)
    then have "is_ok (regime_of_inputs (read_regime_inputs row previous))"
      using quiet_regime_total by (simp add: regime_of_inputs_def)
    then show ?thesis by (auto simp: classify_row_def Let_def is_ok_iff)
  qed
  moreover have "classify_row unpriced_row None = Inl ZeroDivisionError"
    using unpriced_inputs
    by (simp add: classify_row_def Let_def regime_of_inputs_def quiet_regime_def py_div_def dec_lits)
  ultimately show ?thesis by blast
qed

theorem classification_needs_a_close_witness:
  "is_ok (classify_row calm_row None) \<and> safe_float calm_row ''close'' (Fin 0) \<noteq> Fin 0"
proof -
  have c: "safe_float calm_row ''close'' (Fin 0) \<noteq> Fin 0" by (simp add: safe_float_def calm_row_def finite_or_def)
  with classification_needs_a_close[of calm_row None] show ?thesis by blast
qed

end
