(* ===== verification/Backtest_Composite.thy ===== *)
theory Backtest_Composite
  imports Backtest_Loops Aapif Py_Time "HOL-Library.List_Lexorder" "HOL-Library.Char_ord"
begin

text \<open>
  The strategies of \<open>strategies/backtest_plugins.py\<close> made of other strategies: the certified composite with its
  module drawdown lock and the removal of overlapping trades, the institutional clones that gate a baseline
  by regime and execution fragility, the orchestrator over them, and the registry. How a module replays is
  the parameter \<open>replay_module\<close>; \<open>pd.Timestamp\<close> of a stored time is the parameter \<open>timestamp\<close>.
  Times are sorted as strings, as the code sorts them.
\<close>

type_synonym modules = "(string, backtest_strategy list) dict"

section \<open>Trade lists\<close>

definition by_entry_time :: "trade list \<Rightarrow> trade list" where
  "by_entry_time trades = sort_key tr_entry_time trades"

text \<open>The prefix of the trades up to the one that reaches the drawdown limit.\<close>

fun until_drawdown :: "pyfloat \<Rightarrow> pyfloat \<Rightarrow> pyfloat \<Rightarrow> pyfloat \<Rightarrow> trade list \<Rightarrow> trade list" where
  "until_drawdown limit notional equity peak [] = []"
| "until_drawdown limit notional equity peak (t # ts) =
     (let equity' = fadd equity (tr_pnl t); account = fadd notional equity'; peak' = fmax peak account
      in t # (if drawdown_reached (Some limit) peak' account then [] else until_drawdown limit notional equity' peak' ts))"

definition apply_module_drawdown_lock :: "pyfloat \<Rightarrow> pyfloat \<Rightarrow> trade list \<Rightarrow> trade list" where
  "apply_module_drawdown_lock limit notional trades = until_drawdown limit notional (Fin 0) notional (by_entry_time trades)"

definition timestamp_min :: instant where
  "timestamp_min = - 9223372036854775"

fun keep_disjoint :: "(string \<Rightarrow> instant) \<Rightarrow> instant \<Rightarrow> trade list \<Rightarrow> trade list" where
  "keep_disjoint timestamp last_exit [] = []"
| "keep_disjoint timestamp last_exit (t # ts) =
     (if timestamp (tr_entry_time t) < last_exit then keep_disjoint timestamp last_exit ts
      else t # keep_disjoint timestamp (timestamp (tr_exit_time t)) ts)"

definition remove_overlapping_trades :: "(string \<Rightarrow> instant) \<Rightarrow> trade list \<Rightarrow> trade list" where
  "remove_overlapping_trades timestamp trades = keep_disjoint timestamp timestamp_min (by_entry_time trades)"

section \<open>Certified composite\<close>

definition certified_lock :: pyfloat where "certified_lock = Fin 8"

definition certified_module :: "backtest_strategy \<Rightarrow> backtest_strategy" where
  "certified_module k = k\<lparr>bk_drawdown_lock_pct := Some certified_lock\<rparr>"

definition certified_modules :: modules where
  "certified_modules =
     [(''BTC/USDT'', [certified_module atr_trend_burst]), (''ETH/USDT'', [certified_module atr_trend_burst]),
      (''BNB/USDT'', [certified_module existing_momentum]), (''DOGE/USDT'', [certified_module existing_momentum]),
      (''TRX/USDT'', [certified_module atr_trend_burst]), (''AVAX/USDT'', [certified_module vwap_reclaim]),
      (''SOL/USDT'', [certified_module vwap_reclaim]), (''XRP/USDT'', [certified_module vwap_reclaim])]"

fun first_signal ::
    "backtest_strategy list \<Rightarrow> feature_row \<Rightarrow> feature_row option \<Rightarrow> backtest_signal option res" where
  "first_signal [] row previous = Inr None"
| "first_signal (k # ks) row previous =
     bind_res (bk_entry_signal k row previous) (\<lambda>sig.
       case sig of
         Some g \<Rightarrow> Inr (Some \<lparr>bs_entry = True, bs_stop_price = bs_stop_price g, bs_take_profit_price = bs_take_profit_price g,
                    bs_reason = ''certified module '' @ bk_name k @ '': '' @ bs_reason g\<rparr>)
       | None \<Rightarrow> first_signal ks row previous)"

definition composite_entry :: "modules \<Rightarrow> feature_row \<Rightarrow> feature_row option \<Rightarrow> backtest_signal option res" where
  "composite_entry ms row previous = first_signal (dict_get_or ms (text_or row ''symbol'' []) []) row previous"

definition certified_composite :: backtest_strategy where
  "certified_composite = (base_strategy ''Certified Risk Managed Composite'' ''1h'' 24 (composite_entry certified_modules))
     \<lparr>bk_drawdown_lock_pct := Some certified_lock\<rparr>"

text \<open>The running equity, one value per trade.\<close>

fun equity_steps :: "pyfloat \<Rightarrow> pyfloat list \<Rightarrow> pyfloat list" where
  "equity_steps equity [] = []"
| "equity_steps equity (x # xs) = fadd equity x # equity_steps (fadd equity x) xs"

definition metrics_from_trades ::
    "(pyfloat list \<Rightarrow> pyfloat) \<Rightarrow> feature_row list \<Rightarrow> trade list \<Rightarrow> pyfloat \<Rightarrow> string \<Rightarrow> string
      \<Rightarrow> (symbol_metrics \<times> trade list) res" where
  "metrics_from_trades sharpe rows trades notional bucket reason =
     (let curve = equity_steps (Fin 0) (map tr_pnl (sort_key tr_exit_time trades));
          equity = (if curve = [] then Fin 0 else last curve)
      in bind_res (backtest_metrics sharpe rows notional trades equity (if curve = [] then [Fin 0] else curve) False
                     (bucket, reason, None, None, None)) (\<lambda>m. Inr (m, by_entry_time trades)))"

type_synonym module_replay = "backtest_strategy \<Rightarrow> feature_row list \<Rightarrow> pyfloat \<Rightarrow> (symbol_metrics \<times> trade list) res"

definition composite_replay ::
    "(pyfloat list \<Rightarrow> pyfloat) \<Rightarrow> module_replay \<Rightarrow> (string \<Rightarrow> instant) \<Rightarrow> modules \<Rightarrow> backtest_strategy \<Rightarrow> feature_row list \<Rightarrow> pyfloat
      \<Rightarrow> (symbol_metrics \<times> trade list) res" where
  "composite_replay sharpe replay_module timestamp ms k df notional =
     (if df = [] then Inl (ValueError ''cannot replay empty feature set'')
      else (let members = dict_get_or ms (text_or (last df) ''symbol'' []) [] in
        if members = []
        then metrics_from_trades sharpe df [] notional ''NO SIGNAL'' ''symbol is not certified for this risk-managed composite''
        else bind_res (map_res (\<lambda>m. bind_res (replay_module m df notional) (\<lambda>r.
               Inr (apply_module_drawdown_lock certified_lock notional (snd r)))) members) (\<lambda>tss.
             bind_res (classify_rows k df None notional) (\<lambda>(bucket, reason, entry, pnl, pct).
             bind_res (metrics_from_trades sharpe df (remove_overlapping_trades timestamp (concat tss)) notional bucket reason)
               (\<lambda>(m, trades). Inr (m\<lparr>sm_active_entry := entry, sm_active_pnl := pnl, sm_active_pnl_pct := pct\<rparr>, trades))))))"

section \<open>Institutional clones\<close>

record institutional_gate =
  ig_name :: string
  ig_regimes :: "aapif_regime list"
  ig_fragility_limit :: pyfloat

definition default_fragility_limit :: pyfloat where "default_fragility_limit = dec 72 100"

definition institutional_shadow_allows ::
    "(pyfloat \<Rightarrow> pyfloat) \<Rightarrow> institutional_gate \<Rightarrow> feature_row \<Rightarrow> feature_row option \<Rightarrow> (bool \<times> string) res" where
  "institutional_shadow_allows sqrt_of gate row previous =
     bind_res (classify_row row previous) (\<lambda>regime.
       let execution = realism_estimate sqrt_of row (Fin 1000) (Fin 250) in Inr
         (if mr_regime regime \<notin> set (ig_regimes gate)
          then (False, ''AAPIF shadow block: regime '' @ regime_value (mr_regime regime) @ '' not mapped to '' @ ig_name gate)
          else if flt (ig_fragility_limit gate) (ee_execution_fragility_score execution)
          then (False, ''AAPIF shadow block: execution fragility '' @ fmt_fixed 2 (ee_execution_fragility_score execution))
          else (True, ''AAPIF shadow approved: '' @ regime_value (mr_regime regime) @ ''; degradation '' @
                  fmt_fixed 1 (ee_live_backtest_degradation_bps execution) @ '' bps'')))"

definition institutional_entry ::
    "(pyfloat \<Rightarrow> pyfloat) \<Rightarrow> institutional_gate \<Rightarrow> (feature_row \<Rightarrow> feature_row option \<Rightarrow> backtest_signal option res)
      \<Rightarrow> feature_row \<Rightarrow> feature_row option \<Rightarrow> backtest_signal option res" where
  "institutional_entry sqrt_of gate base row previous =
     bind_res (base row previous) (\<lambda>sig.
       case sig of None \<Rightarrow> Inr None
       | Some g \<Rightarrow> bind_res (institutional_shadow_allows sqrt_of gate row previous) (\<lambda>(allowed, reason).
           Inr (if allowed then Some (g\<lparr>bs_reason := reason @ ''; '' @ bs_reason g\<rparr>) else None)))"

definition institutional_clone ::
    "(pyfloat \<Rightarrow> pyfloat) \<Rightarrow> string \<Rightarrow> aapif_regime list \<Rightarrow> backtest_strategy \<Rightarrow> backtest_strategy" where
  "institutional_clone sqrt_of name regimes base = base\<lparr>bk_name := name, bk_entry_signal := institutional_entry sqrt_of
     \<lparr>ig_name = name, ig_regimes = regimes, ig_fragility_limit = default_fragility_limit\<rparr> (bk_entry_signal base)\<rparr>"

definition aamx5 :: "(pyfloat \<Rightarrow> pyfloat) \<Rightarrow> backtest_strategy" where
  "aamx5 q = institutional_clone q ''Aegis Adaptive Momentum Expansion Engine (AAMX-5)''
     [TREND_EXPANSION, VOLATILITY_BREAKOUT, RISK_ON] kcj_burst"

definition asvr1h :: "(pyfloat \<Rightarrow> pyfloat) \<Rightarrow> backtest_strategy" where
  "asvr1h q = institutional_clone q ''Aegis Statistical Volatility Reversion Engine (ASVR-1H)''
     [MEAN_REVERSION, TREND_EXHAUSTION, RISK_ON] mean_reversion_1h"

definition atrc10 :: "(pyfloat \<Rightarrow> pyfloat) \<Rightarrow> backtest_strategy" where
  "atrc10 q = institutional_clone q ''Aegis Tactical Reversion Confirmation Engine (ATRC-10)''
     [MEAN_REVERSION, TREND_EXHAUSTION, FALSE_BREAKOUT] mean_reversion_10m"

definition adve :: "(pyfloat \<Rightarrow> pyfloat) \<Rightarrow> backtest_strategy" where
  "adve q = institutional_clone q ''Aegis Directional Volatility Expansion Engine (ADVE)''
     [TREND_EXPANSION, VOLATILITY_BREAKOUT] atr_trend_burst"

definition alrc :: "(pyfloat \<Rightarrow> pyfloat) \<Rightarrow> backtest_strategy" where
  "alrc q = institutional_clone q ''Aegis Liquidity Reclaim Continuation Engine (ALRC)'' [TREND_EXPANSION, RISK_ON] vwap_reclaim"

definition afma :: "(pyfloat \<Rightarrow> pyfloat) \<Rightarrow> backtest_strategy" where
  "afma q = institutional_clone q ''Aegis Flow Momentum Alignment Engine (AFMA)'' [TREND_EXPANSION, RISK_ON] existing_momentum"

definition aqmr :: "(pyfloat \<Rightarrow> pyfloat) \<Rightarrow> backtest_strategy" where
  "aqmr q = institutional_clone q ''Aegis Quantitative Momentum Regime Engine (AQMR)''
     [TREND_EXPANSION, RISK_ON, VOLATILITY_BREAKOUT] research_momentum"

definition astp :: "(pyfloat \<Rightarrow> pyfloat) \<Rightarrow> backtest_strategy" where
  "astp q = institutional_clone q ''Aegis Systematic Trend Persistence Engine (ASTP)''
     [TREND_EXPANSION, RISK_ON] time_series_momentum"

definition atmr :: "(pyfloat \<Rightarrow> pyfloat) \<Rightarrow> backtest_strategy" where
  "atmr q = institutional_clone q ''Aegis Tactical Mean Reversion Engine (ATMR)''
     [MEAN_REVERSION, TREND_EXHAUSTION] short_term_reversal"

section \<open>Orchestrator\<close>

definition aapo_modules :: "(pyfloat \<Rightarrow> pyfloat) \<Rightarrow> modules" where
  "aapo_modules q =
     [(''BTC/USDT'', [adve q, afma q, astp q]), (''ETH/USDT'', [aamx5 q, adve q, aqmr q]), (''BNB/USDT'', [afma q, aqmr q]),
      (''DOGE/USDT'', [afma q, atmr q]), (''ADA/USDT'', [aqmr q, atmr q]), (''TRX/USDT'', [asvr1h q, adve q]),
      (''AVAX/USDT'', [alrc q, aqmr q]), (''SOL/USDT'', [alrc q, aamx5 q]), (''XRP/USDT'', [alrc q, atmr q]),
      (''LINK/USDT'', [aqmr q, alrc q])]"

definition aapo_blocked_regimes :: "aapif_regime list" where
  "aapo_blocked_regimes = [aapif_regime.PANIC, LIQUIDITY_CRISIS, LIQUIDATION_CASCADE]"

definition aapo_fragility_limit :: pyfloat where "aapo_fragility_limit = dec 82 100"

text \<open>Every allowed module is asked; the first one with a signal is taken.\<close>

definition aapo_candidates ::
    "aapif_regime \<Rightarrow> feature_row \<Rightarrow> feature_row option \<Rightarrow> backtest_strategy list \<Rightarrow> (backtest_strategy \<times> backtest_signal) list res" where
  "aapo_candidates regime row previous ks =
     bind_res (map_res (\<lambda>k. bind_res (bk_entry_signal k row previous) (\<lambda>sig. Inr (map_option (Pair k) sig)))
       (filter (\<lambda>k. strategy_allowed (bk_name k) regime) ks)) (\<lambda>cs. Inr (List.map_filter id cs))"

definition aapo_entry ::
    "(pyfloat \<Rightarrow> pyfloat) \<Rightarrow> modules \<Rightarrow> feature_row \<Rightarrow> feature_row option \<Rightarrow> backtest_signal option res" where
  "aapo_entry sqrt_of ms row previous =
     (let name = text_or row ''symbol'' [] in
      bind_res (classify_row row previous) (\<lambda>regime.
      if mr_regime regime \<in> set aapo_blocked_regimes then Inr None
      else if flt aapo_fragility_limit (ee_execution_fragility_score (realism_estimate sqrt_of row (Fin 1000) (Fin 250))) then Inr None
      else bind_res (aapo_candidates (mr_regime regime) row previous (dict_get_or ms name [])) (\<lambda>cs.
        case cs of [] \<Rightarrow> Inr None
        | (k, g) # _ \<Rightarrow>
            (let weight = sz_final_weight (position_size (bk_name k) name (dec 1 10) (mr_volatility regime) (mr_regime regime) (Fin 0) (Fin 0))
             in Inr (if fle weight (Fin 0) then None
                else Some \<lparr>bs_entry = True, bs_stop_price = bs_stop_price g, bs_take_profit_price = bs_take_profit_price g,
                  bs_reason = ''AAPO shadow orchestration selected '' @ bk_name k @ ''; '' @ regime_value (mr_regime regime) @
                    ''; weight '' @ fmt_fixed 3 weight @ ''; '' @ bs_reason g\<rparr>)))))"

definition aapo :: "(pyfloat \<Rightarrow> pyfloat) \<Rightarrow> backtest_strategy" where
  "aapo q = certified_composite\<lparr>bk_name := ''Aegis Adaptive Portfolio Orchestration Engine (AAPO)'',
     bk_entry_signal := aapo_entry q (aapo_modules q)\<rparr>"

section \<open>Registry\<close>

definition registered :: "(pyfloat \<Rightarrow> pyfloat) \<Rightarrow> (backtest_strategy \<times> string) list" where
  "registered q =
     [(existing_momentum, ''DORMANT''), (atr_trend_burst, ''DORMANT''), (vwap_reclaim, ''DORMANT''), (kcj_burst, ''ACTIVE''),
      (research_momentum, ''DORMANT''), (time_series_momentum, ''DORMANT''), (short_term_reversal, ''DORMANT''),
      (mean_reversion, ''DORMANT''), (mean_reversion_10m, ''DORMANT''), (mean_reversion_1h, ''ACTIVE''),
      (certified_composite, ''ACTIVE''), (aamx5 q, ''DORMANT''), (asvr1h q, ''DORMANT''), (atrc10 q, ''DORMANT''),
      (adve q, ''DORMANT''), (alrc q, ''DORMANT''), (afma q, ''DORMANT''), (aqmr q, ''DORMANT''), (astp q, ''DORMANT''),
      (atmr q, ''DORMANT''), (aapo q, ''DORMANT'')]"

definition strategy_registry :: "(pyfloat \<Rightarrow> pyfloat) \<Rightarrow> (string, backtest_strategy \<times> string) dict" where
  "strategy_registry q = dict_update [] (map (\<lambda>k. (bk_name (fst k), k)) (registered q))"

definition get_strategy :: "(pyfloat \<Rightarrow> pyfloat) \<Rightarrow> string \<Rightarrow> backtest_strategy res" where
  "get_strategy q name = (case dict_get (strategy_registry q) name of None \<Rightarrow> Inl (KeyError name) | Some k \<Rightarrow> Inr (fst k))"

definition active_strategy_names :: "(pyfloat \<Rightarrow> pyfloat) \<Rightarrow> string list" where
  "active_strategy_names q = map fst (filter (\<lambda>e. str_upper (snd (snd e)) = ''ACTIVE'') (strategy_registry q))"

definition dormant_strategy_names :: "(pyfloat \<Rightarrow> pyfloat) \<Rightarrow> string list" where
  "dormant_strategy_names q = map fst (filter (\<lambda>e. str_upper (snd (snd e)) \<noteq> ''ACTIVE'') (strategy_registry q))"

section \<open>The drawdown lock of a module and of its replay\<close>

fun account_after :: "pyfloat \<Rightarrow> pyfloat \<Rightarrow> pyfloat \<Rightarrow> trade list \<Rightarrow> pyfloat \<times> pyfloat" where
  "account_after notional equity peak [] = (equity, peak)"
| "account_after notional equity peak (t # ts) =
     account_after notional (fadd equity (tr_pnl t)) (fmax peak (fadd notional (fadd equity (tr_pnl t)))) ts"

fun reached_within :: "pyfloat \<Rightarrow> pyfloat \<Rightarrow> pyfloat \<Rightarrow> pyfloat \<Rightarrow> trade list \<Rightarrow> bool" where
  "reached_within limit notional equity peak [] = False"
| "reached_within limit notional equity peak (t # ts) =
     (let equity' = fadd equity (tr_pnl t); account = fadd notional equity'; peak' = fmax peak account
      in drawdown_reached (Some limit) peak' account \<or> reached_within limit notional equity' peak' ts)"

lemma until_drawdown_append:
  "\<not> reached_within l n e p ts \<Longrightarrow> until_drawdown l n e p (ts @ us) =
     ts @ until_drawdown l n (fst (account_after n e p ts)) (snd (account_after n e p ts)) us"
  by (induction ts arbitrary: e p) (simp_all add: Let_def)

lemma account_after_append:
  "account_after n e p (ts @ us) = account_after n (fst (account_after n e p ts)) (snd (account_after n e p ts)) us"
  by (induction ts arbitrary: e p) simp_all

lemma reached_within_append:
  "reached_within l n e p (ts @ us) \<longleftrightarrow> reached_within l n e p ts \<or>
     reached_within l n (fst (account_after n e p ts)) (snd (account_after n e p ts)) us"
  by (induction ts arbitrary: e p) (auto simp: Let_def)

definition lock_inv :: "pyfloat \<Rightarrow> pyfloat \<Rightarrow> backtest_state \<Rightarrow> bool" where
  "lock_inv l n s =
     ((bt_equity s, bt_peak s) = account_after n (Fin 0) n (bt_trades s) \<and>
      (bt_locked s \<longleftrightarrow> reached_within l n (Fin 0) n (bt_trades s)) \<and>
      until_drawdown l n (Fin 0) n (bt_trades s) = bt_trades s)"

lemma book_trade_lock:
  assumes "lock_inv l n s" and "\<not> bt_locked s"
  shows "lock_inv l n (book_trade (Some l) n tr s)"
proof -
  have "fst (account_after n (Fin 0) n (bt_trades s)) = bt_equity s" "snd (account_after n (Fin 0) n (bt_trades s)) = bt_peak s"
    "\<not> reached_within l n (Fin 0) n (bt_trades s)"
    using assms unfolding lock_inv_def by (metis fst_conv, metis snd_conv, blast)
  then show ?thesis using assms
    by (simp add: lock_inv_def book_trade_def Let_def until_drawdown_append account_after_append reached_within_append)
qed

lemma backtest_bar_lock:
  assumes "backtest_inv k m s" and "lock_inv l n s" and "bk_drawdown_lock_pct k = Some l"
    and "backtest_bar k name n rows i s = Inr s'"
  shows "lock_inv l n s'"
proof -
  obtain close s1 s2 where b: "manage_trade k name n (rows ! i) close s = Inr s1"
      "open_position k name n (rows ! i) (if 0 < i then Some (rows ! (i - 1)) else None) close s1 = Inr s2"
      "s' = record_equity s2"
    using assms(4) by (auto simp: backtest_bar_def Let_def bind_res_eq_Inr)
  have "lock_inv l n s1"
  proof (cases "bt_position s")
    case None
    then show ?thesis using b(1) assms(2) by (simp add: manage_trade_def)
  next
    case (Some t)
    then obtain c where "ot_bars t = Some c" using assms(1) by (auto simp: backtest_inv_def)
    from manage_trade_cases[OF b(1) Some this]
    show ?thesis using book_trade_lock[OF assms(2)] assms Some by (auto simp: backtest_inv_def lock_inv_def)
  qed
  then show ?thesis using open_position_cases[OF b(2)] by (auto simp: b(3) record_equity_def lock_inv_def)
qed

lemma backtest_fold_lock:
  assumes "fold_res (backtest_bar k name n rows) is s = Inr s'" and "backtest_inv k m s" and "lock_inv l n s"
    and "bk_drawdown_lock_pct k = Some l"
  shows "lock_inv l n s'"
  using assms(1-3)
proof (induction "is" arbitrary: s m)
  case (Cons i "is")
  then obtain s1 where s1: "backtest_bar k name n rows i s = Inr s1"
      "fold_res (backtest_bar k name n rows) is s1 = Inr s'" by (auto simp: bind_res_eq_Inr)
  show ?case
    using Cons.IH[OF s1(2) backtest_bar_inv[OF Cons.prems(2) s1(1)]] backtest_bar_lock[OF Cons.prems(2,3) assms(4) s1(1)] by blast
qed simp

text \<open>\<open>C14\<close>: The drawdown lock the composite applies to the trades of a module is the one the module's own
  replay enforces: with the same limit it removes none of the trades a replay produced in order of entry.\<close>

theorem module_lock_agrees_with_replay:
  assumes "backtest_rows k name notional rows = Inr s" and "bk_drawdown_lock_pct k = Some l"
    and "sorted (map tr_entry_time (bt_trades s))"
  shows "apply_module_drawdown_lock l notional (bt_trades s) = bt_trades s"
proof -
  have "lock_inv l notional (new_backtest notional w)" for w by (simp add: lock_inv_def new_backtest_def)
  from backtest_fold_lock[OF assms(1)[unfolded backtest_rows_def] new_backtest_inv this assms(2)]
  show ?thesis
    using assms(3) by (simp add: lock_inv_def apply_module_drawdown_lock_def by_entry_time_def sort_key_id_if_sorted)
qed

theorem module_lock_agrees_with_replay_witness:
  "\<exists>s. backtest_rows eager_strategy ''X'' (Fin 1000) eager_rows = Inr s \<and> bt_trades s = [eager_loss] \<and>
     apply_module_drawdown_lock (Fin 6) (Fin 1000) [eager_loss] = [eager_loss]"
proof -
  obtain s where s: "backtest_rows eager_strategy ''X'' (Fin 1000) eager_rows = Inr s" "bt_trades s = [eager_loss]"
    using eager_backtest by (elim exE conjE) (rule that)
  have "sorted (map tr_entry_time (bt_trades s))" by (simp add: s(2))
  from module_lock_agrees_with_replay[OF s(1) eager_plain(4) this] s show ?thesis by simp
qed

section \<open>Disjoint trades\<close>

lemma keep_disjoint_set: "set (keep_disjoint ts x trades) \<subseteq> set trades"
  by (induction ts x trades rule: keep_disjoint.induct) auto

lemma keep_disjoint_sorted: "sorted (map f trades) \<Longrightarrow> sorted (map f (keep_disjoint ts x trades))"
proof (induction ts x trades rule: keep_disjoint.induct)
  case (2 timestamp last_exit t trades)
  then show ?case using keep_disjoint_set[of timestamp _ trades] by (auto dest: subsetD)
qed simp

lemma keep_disjoint_spec:
  "successively (\<lambda>a b. ts (tr_exit_time a) \<le> ts (tr_entry_time b)) (keep_disjoint ts x trades) \<and>
   (keep_disjoint ts x trades \<noteq> [] \<longrightarrow> x \<le> ts (tr_entry_time (hd (keep_disjoint ts x trades))))"
  by (induction ts x trades rule: keep_disjoint.induct) (auto simp: successively_Cons)

lemma overlap_free_sorted: "sorted (map tr_entry_time (remove_overlapping_trades ts trades))"
  by (simp add: remove_overlapping_trades_def keep_disjoint_sorted by_entry_time_def)

lemma metrics_from_trades_Inr:
  assumes "metrics_from_trades sharpe rows trades notional bucket reason = Inr (m, out)"
  shows "out = by_entry_time trades \<and> sm_trades m = length trades"
  using assms by (auto simp: metrics_from_trades_def Let_def bind_res_eq_Inr backtest_metrics_def)

text \<open>\<open>C32\<close>: The trades the composite reports come in order of entry and never overlap: each is closed before
  the next one is opened, whichever modules they come from.\<close>

theorem composite_trades_disjoint:
  assumes "composite_replay sharpe replay_module timestamp ms k df notional = Inr (m, trades)"
  shows "successively (\<lambda>a b. timestamp (tr_exit_time a) \<le> timestamp (tr_entry_time b)) trades \<and>
    sorted (map tr_entry_time trades) \<and> sm_trades m = length trades"
proof (cases "dict_get_or ms (text_or (last df) ''symbol'' []) [] = []")
  case True
  then have "metrics_from_trades sharpe df [] notional ''NO SIGNAL'' ''symbol is not certified for this risk-managed composite'' =
      Inr (m, trades)" using assms by (simp add: composite_replay_def split: if_splits)
  from metrics_from_trades_Inr[OF this] show ?thesis by (simp add: by_entry_time_def)
next
  case False
  then obtain all m' bucket reason where
      "metrics_from_trades sharpe df (remove_overlapping_trades timestamp all) notional bucket reason = Inr (m', trades)"
      "sm_trades m = sm_trades m'"
    using assms by (auto simp: composite_replay_def bind_res_eq_Inr Let_def split: if_splits)
  from metrics_from_trades_Inr[OF this(1)] this(2)
  have "trades = remove_overlapping_trades timestamp all" "sm_trades m = length trades"
    using overlap_free_sorted by (simp_all add: by_entry_time_def sort_key_id_if_sorted)
  then show ?thesis using overlap_free_sorted keep_disjoint_spec by (auto simp: remove_overlapping_trades_def)
qed

definition eager_modules :: modules where
  "eager_modules = [(''X'', [eager_strategy])]"

theorem composite_trades_disjoint_witness:
  "\<exists>m. composite_replay (\<lambda>_. Fin 0) (backtest_replay (\<lambda>_. Fin 0) (\<lambda>_ xs. xs)) (\<lambda>_. 0) eager_modules eager_strategy eager_rows (Fin 1000) =
     Inr (m, [eager_loss]) \<and> sm_trades m = 1"
proof -
  obtain r where r: "backtest_replay (\<lambda>_. Fin 0) (\<lambda>_ xs. xs) eager_strategy eager_rows (Fin 1000) = Inr (r, [eager_loss])"
    using eager_replay by (rule exE)
  have one: "by_entry_time [eager_loss] = [eager_loss]" "sort_key tr_exit_time [eager_loss] = [eager_loss]"
    "apply_module_drawdown_lock certified_lock (Fin 1000) [eager_loss] = [eager_loss]"
    "remove_overlapping_trades (\<lambda>_. 0) [eager_loss] = [eager_loss]"
    by (simp_all add: by_entry_time_def apply_module_drawdown_lock_def remove_overlapping_trades_def Let_def timestamp_min_def)
  have members: "dict_get_or eager_modules (text_or (last eager_rows) ''symbol'' []) [] = [eager_strategy]"
    by (simp add: eager_modules_def eager_rows_facts(3) text_or_def dict_get_or_def eager_row_def)
  obtain scan where scan: "classify_rows eager_strategy eager_rows None (Fin 1000) = Inr scan"
    by (simp add: classify_rows_def eager_rows_facts(3) eager_close) (simp add: eager_strategy_def)
  have steps: "equity_steps (Fin 0) (map tr_pnl [eager_loss]) = [Fin (- 500)]" by (simp add: eager_loss_def)
  have "\<exists>m. metrics_from_trades (\<lambda>_. Fin 0) eager_rows [eager_loss] (Fin 1000) b c = Inr (m, [eager_loss])" for b c
  proof -
    obtain m where "backtest_metrics (\<lambda>_. Fin 0) eager_rows (Fin 1000) [eager_loss] (Fin (- 500)) [Fin (- 500)] False
        (b, c, None, None, None) = Inr m" using eager_metrics by (rule exE)
    then show ?thesis using one(1,2) steps by (simp add: metrics_from_trades_def Let_def)
  qed
  then have "\<exists>m. composite_replay (\<lambda>_. Fin 0) (backtest_replay (\<lambda>_. Fin 0) (\<lambda>_ xs. xs)) (\<lambda>_. 0) eager_modules eager_strategy eager_rows
      (Fin 1000) = Inr (m, [eager_loss])"
    using r scan one eager_rows_facts(2)
    by (cases scan) (simp add: composite_replay_def members, metis bind_res_Inr case_prod_conv)
  then obtain m where m: "composite_replay (\<lambda>_. Fin 0) (backtest_replay (\<lambda>_. Fin 0) (\<lambda>_ xs. xs)) (\<lambda>_. 0) eager_modules eager_strategy
      eager_rows (Fin 1000) = Inr (m, [eager_loss])" by (rule exE)
  from composite_trades_disjoint[OF m] m show ?thesis by auto
qed

section \<open>The institutional gate\<close>

text \<open>A clone only filters the entries of its baseline.\<close>

lemma institutional_entry_Some:
  assumes "institutional_entry sqrt_of gate base row previous = Inr (Some g)"
  shows "\<exists>g0 m. base row previous = Inr (Some g0) \<and> classify_row row previous = Inr m \<and> mr_regime m \<in> set (ig_regimes gate) \<and>
    \<not> flt (ig_fragility_limit gate) (ee_execution_fragility_score (realism_estimate sqrt_of row (Fin 1000) (Fin 250))) \<and>
    bs_stop_price g = bs_stop_price g0 \<and> bs_take_profit_price g = bs_take_profit_price g0"
  using assms by (auto simp: institutional_entry_def institutional_shadow_allows_def bind_res_eq_Inr Let_def
      split: option.splits if_splits)

lemma candidate_from_module:
  assumes "aapo_candidates regime row previous ks = Inr cs" and "(k, g) \<in> set cs"
  shows "k \<in> set ks \<and> strategy_allowed (bk_name k) regime \<and> bk_entry_signal k row previous = Inr (Some g)"
proof -
  obtain ys where ys: "map_res (\<lambda>k. bind_res (bk_entry_signal k row previous) (\<lambda>sig. Inr (map_option (Pair k) sig)))
      (filter (\<lambda>k. strategy_allowed (bk_name k) regime) ks) = Inr ys" "cs = List.map_filter id ys"
    using assms(1) by (auto simp: aapo_candidates_def bind_res_eq_Inr)
  have "Some (k, g) \<in> set ys" using assms(2) ys(2) by (auto simp: List.map_filter_def)
  from map_res_element[OF ys(1) this] show ?thesis by (auto simp: bind_res_eq_Inr)
qed

text \<open>Every module of the orchestrator is a clone, and a clone keeps the default fragility limit.\<close>

definition within_fragility :: "(pyfloat \<Rightarrow> pyfloat) \<Rightarrow> backtest_strategy \<Rightarrow> bool" where
  "within_fragility q k \<longleftrightarrow> (\<forall>row previous g. bk_entry_signal k row previous = Inr (Some g) \<longrightarrow>
     \<not> flt default_fragility_limit (ee_execution_fragility_score (realism_estimate q row (Fin 1000) (Fin 250))))"

lemma clone_within_fragility [simp]: "within_fragility q (institutional_clone q n rs base)"
  using institutional_entry_Some by (fastforce simp: within_fragility_def institutional_clone_def)

lemma modules_within_fragility:
  assumes "k \<in> set (dict_get_or (aapo_modules q) name [])"
  shows "within_fragility q k"
proof -
  have "\<forall>e \<in> set (aapo_modules q). \<forall>k \<in> set (snd e). within_fragility q k"
    by (simp add: aapo_modules_def adve_def afma_def astp_def aamx5_def aqmr_def atmr_def asvr1h_def alrc_def)
  then show ?thesis using assms
    by (cases "dict_get (aapo_modules q) name") (auto simp: dict_get_or_def dest: map_of_SomeD)
qed

lemma aapo_entry_Some:
  assumes "aapo_entry q ms row previous = Inr (Some g)"
  obtains m cs k g0 where "classify_row row previous = Inr m"
    "aapo_candidates (mr_regime m) row previous (dict_get_or ms (text_or row ''symbol'' []) []) = Inr ((k, g0) # cs)"
    "bs_stop_price g = bs_stop_price g0" "bs_take_profit_price g = bs_take_profit_price g0"
    "\<not> fle (sz_final_weight (position_size (bk_name k) (text_or row ''symbol'' []) (dec 1 10) (mr_volatility m)
       (mr_regime m) (Fin 0) (Fin 0))) (Fin 0)"
proof -
  obtain m where m: "classify_row row previous = Inr m"
    using assms by (cases "classify_row row previous") (simp_all add: aapo_entry_def Let_def)
  obtain cs where cs: "aapo_candidates (mr_regime m) row previous (dict_get_or ms (text_or row ''symbol'' []) []) = Inr cs"
    using assms by (cases "aapo_candidates (mr_regime m) row previous (dict_get_or ms (text_or row ''symbol'' []) [])")
      (simp_all add: aapo_entry_def Let_def m split: if_splits)
  obtain k g0 rest where h: "cs = (k, g0) # rest"
  proof (cases cs)
    case Nil
    then show ?thesis using assms by (simp add: aapo_entry_def Let_def m cs split: if_splits)
  qed (use that in \<open>metis surj_pair\<close>)
  show ?thesis
    using assms by (intro that[OF m, of k g0 rest]) (auto simp: aapo_entry_def Let_def m cs h split: if_splits)
qed

text \<open>The portfolio orchestrator enters only outside every crisis regime, on the signal of one of its
  own modules for the symbol that the regime map allows, with that signal's prices, and with an execution
  fragility of at most 0.72: its own looser limit of 0.82 never decides, since each module is a clone that
  already keeps 0.72.\<close>

theorem orchestrator_trades_only_in_safe_regimes:
  assumes "bk_entry_signal (aapo q) row previous = Inr (Some g)"
  shows "\<exists>m k g0. classify_row row previous = Inr m \<and> mr_regime m \<notin> set crisis_regimes \<and>
    k \<in> set (dict_get_or (aapo_modules q) (text_or row ''symbol'' []) []) \<and> strategy_allowed (bk_name k) (mr_regime m) \<and>
    bk_entry_signal k row previous = Inr (Some g0) \<and>
    bs_stop_price g = bs_stop_price g0 \<and> bs_take_profit_price g = bs_take_profit_price g0 \<and>
    \<not> flt (dec 72 100) (ee_execution_fragility_score (realism_estimate q row (Fin 1000) (Fin 250)))"
proof -
  let ?ks = "dict_get_or (aapo_modules q) (text_or row ''symbol'' []) []"
  have "aapo_entry q (aapo_modules q) row previous = Inr (Some g)" using assms by (simp add: aapo_def)
  then obtain m cs k g0 where m: "classify_row row previous = Inr m"
      "aapo_candidates (mr_regime m) row previous ?ks = Inr ((k, g0) # cs)"
      "bs_stop_price g = bs_stop_price g0" "bs_take_profit_price g = bs_take_profit_price g0"
      "\<not> fle (sz_final_weight (position_size (bk_name k) (text_or row ''symbol'' []) (dec 1 10) (mr_volatility m)
         (mr_regime m) (Fin 0) (Fin 0))) (Fin 0)"
    by (rule aapo_entry_Some)
  have k: "k \<in> set ?ks" "strategy_allowed (bk_name k) (mr_regime m)" "bk_entry_signal k row previous = Inr (Some g0)"
    using candidate_from_module[OF m(2), of k g0] by simp_all
  have w: "(mr_regime m \<in> set crisis_regimes \<longrightarrow> sz_final_weight (position_size (bk_name k) (text_or row ''symbol'' []) (dec 1 10)
      (mr_volatility m) (mr_regime m) (Fin 0) (Fin 0)) = Fin 0)"
    using final_weight[OF _ _ refl, of "3602879701896397 / 36028797018963968"] by (simp add: dec_lits)
  then have "mr_regime m \<notin> set crisis_regimes" using m(5) by auto
  then show ?thesis using m k modules_within_fragility[OF k(1)]
    by (intro exI[of _ m] exI[of _ k] exI[of _ g0]) (auto simp: default_fragility_limit_def within_fragility_def)
qed

text \<open>A liquid uptrend of the traded symbol, its estimate rounding by rounding.\<close>

definition uptrend_row :: feature_row where
  "uptrend_row = \<lparr>pr_values = [(''close'', Fin 1000), (''volume'', Fin 1048576), (''volatility'', Fin (1 / 128)), (''atr14'', Fin 0),
     (''spread_bps'', Fin 0), (''ema20'', Fin 999), (''ema50'', Fin 998), (''ema200'', Fin 997), (''vwap'', Fin 990),
     (''rvol30'', Fin 2), (''delta_ratio'', Fin 1)], pr_is_complete = None, fr_flags = [], fr_texts = [(''symbol'', ''BNB/USDT'')]\<rparr>"

lemma uptrend_classified: "\<exists>m. classify_row uptrend_row None = Inr m \<and> mr_regime m = TREND_EXPANSION \<and> mr_volatility m = Fin (1 / 128)"
proof -
  have "clamp (Fin 0) (Fin 0) (Fin 1) = Fin 0" "clamp (Fin 1) (Fin 0) (Fin 1) = Fin 1"
    by (simp_all add: clamp_def fmax_def fmin_def)
  then show ?thesis
    by (simp add: classify_row_def read_regime_inputs_def regime_of_inputs_def uptrend_row_def safe_float_def finite_or_def
        previous_return_of_def return_of_def fmax_def dec_lits Let_def)
qed

lemma up_slip: "fround (125 / 8) = Fin (125 / 8)"
  using fround_eval[of "1 / 2 ^ 49" "- 49" "125 / 8" "8796093022208000"]
  by (simp add: power_int_def power_one_over)

lemma up_half: "fround (125 / 16) = Fin (125 / 16)"
  using fround_eval[of "1 / 2 ^ 50" "- 50" "125 / 16" "8796093022208000"]
  by (simp add: power_int_def power_one_over)

lemma up_lat: "fround (125 / 64) = Fin (125 / 64)"
  using fround_eval[of "1 / 2 ^ 52" "- 52" "125 / 64" "8796093022208000"]
  by (simp add: power_int_def power_one_over)

lemma up_lat2: "fround (1 / 512) = Fin (1 / 512)"
  using fround_eval[of "1 / 2 ^ 61" "- 61" "1 / 512" "4503599627370496"]
  by (simp add: power_int_def power_one_over)

lemma up_lat3: "fround (25 / 128) = Fin (25 / 128)"
  using fround_eval[of "1 / 2 ^ 55" "- 55" "25 / 128" "7036874417766400"]
  by (simp add: power_int_def power_one_over)

lemma up_deg1: "fround (1025 / 128) = Fin (1025 / 128)"
  using fround_eval[of "1 / 2 ^ 49" "- 49" "1025 / 128" "4507997673881600"]
  by (simp add: power_int_def power_one_over)

lemma up_deg2: "fround (1089 / 128) = Fin (1089 / 128)"
  using fround_eval[of "1 / 2 ^ 49" "- 49" "1089 / 128" "4789472650592256"]
  by (simp add: power_int_def power_one_over)

lemma up_div: "fround (1089 / 20480) = Fin (3831578120473805 / 72057594037927936)"
  using fround_eval[of "1 / 2 ^ 57" "- 57" "1089 / 20480" "7663156240947610"]
  by (simp add: power_int_def power_one_over)

lemma up_part: "fround (27021597764222975 / 18889465931478580854784) = Fin (3 / 2097152)"
  using fround_eval[of "1 / 2 ^ 72" "- 72" "27021597764222975 / 18889465931478580854784" "6755399441055744"]
  by (simp add: power_int_def power_one_over)

lemma up_frag: "fround (3831681199688909 / 72057594037927936) = Fin (3831681199688909 / 72057594037927936)"
  using fround_eval[of "1 / 2 ^ 57" "- 57" "3831681199688909 / 72057594037927936" "7663362399377818"]
  by (simp add: power_int_def power_one_over)

lemma up_vol: "fround (4638707616191611 / 144115188075855872) = Fin (4638707616191611 / 144115188075855872)"
  using fround_eval[of "1 / 2 ^ 57" "- 57" "4638707616191611 / 144115188075855872" "4638707616191611"]
  by (simp add: power_int_def power_one_over)

lemma up_vol_minus: "fround (- (4638707616191611 / 144115188075855872)) = Fin (- (4638707616191611 / 144115188075855872))"
  using up_vol by (auto simp: fround_def Let_def rnd_uminus split: if_splits)

lemma uptrend_estimate: "ee_execution_fragility_score (realism_estimate (\<lambda>_. Fin 0) uptrend_row (Fin 1000) (Fin 250)) = Fin (3831681199688909 / 72057594037927936)"
  by (simp add: realism_estimate_def uptrend_row_def safe_float_def finite_or_def clamp_def fmax_def fmin_def
      dec_lits calm_rounding up_slip up_half up_lat up_lat2 up_lat3 up_deg1 up_deg2 up_div up_part up_frag up_vol_minus Let_def)


lemma uptrend_afma: "\<exists>g. bk_entry_signal existing_momentum uptrend_row None = Inr (Some g)"
  by (simp add: existing_momentum_def base_strategy_def existing_momentum_entry_def uptrend_row_def num_at_def value_at_def when_holds_def col_def in_band_def dec_lits)
lemma up_weight: "fround (10808639105689191 / 72057594037927936) = Fin (1351079888211149 / 9007199254740992)"
  using fround_eval[of "1 / 2 ^ 55" "- 55" "10808639105689191 / 72057594037927936" "5404319552844596"]
  by (simp add: power_int_def power_one_over)

lemma up_weight_one: "fround (1351079888211149 / 9007199254740992) = Fin (1351079888211149 / 9007199254740992)"
  using fround_eval[of "1 / 2 ^ 55" "- 55" "1351079888211149 / 9007199254740992" "5404319552844596"]
  by (simp add: power_int_def power_one_over)

lemma up_scale: "fround (1080863910568919 / 562949953421312) = Fin (1080863910568919 / 562949953421312)"
  using fround_eval[of "1 / 2 ^ 52" "- 52" "1080863910568919 / 562949953421312" "8646911284551352"]
  by (simp add: power_int_def power_one_over)

lemma uptrend_size:
  "flt (Fin 0) (sz_final_weight (position_size a c (dec 1 10) (Fin (1 / 128)) TREND_EXPANSION (Fin 0) (Fin 0)))"
proof -
  have "clamp (fdiv (dec 15 1000) (fmax (Fin (1 / 128)) (dec 1 1000))) (dec 25 100) (dec 15 10) = Fin (3 / 2)"
    by (simp add: dec_lits up_scale clamp_def fmax_def fmin_def)
  moreover have "regime_throttle TREND_EXPANSION = Fin 1"
    by (simp add: regime_throttle_def crisis_regimes_def caution_regimes_def)
  ultimately have "sz_final_weight (position_size a c (dec 1 10) (Fin (1 / 128)) TREND_EXPANSION (Fin 0) (Fin 0)) =
      clamp (fmul (fmul (fmul (fmul (dec 1 10) (Fin (3 / 2))) (Fin 1)) (Fin 1)) (Fin 1)) (Fin 0) (fmul (dec 1 10) (dec 15 10))"
    by (simp add: position_size_def Let_def calm_clamps)
  then show ?thesis by (simp add: dec_lits up_weight up_weight_one clamp_def fmax_def fmin_def)
qed

lemma uptrend_candidates:
  "\<exists>g. aapo_candidates TREND_EXPANSION uptrend_row None (dict_get_or (aapo_modules (\<lambda>_. Fin 0)) (text_or uptrend_row ''symbol'' []) []) =
     Inr [(afma (\<lambda>_. Fin 0), g)]"
proof -
  obtain m where m: "classify_row uptrend_row None = Inr m" "mr_regime m = TREND_EXPANSION" using uptrend_classified by blast
  obtain g where g: "bk_entry_signal existing_momentum uptrend_row None = Inr (Some g)" using uptrend_afma by (rule exE)
  have "dict_get_or (aapo_modules (\<lambda>_. Fin 0)) (text_or uptrend_row ''symbol'' []) [] = [afma (\<lambda>_. Fin 0), aqmr (\<lambda>_. Fin 0)]"
    by (simp add: text_or_def uptrend_row_def dict_get_or_def aapo_modules_def)
  moreover have "strategy_allowed (bk_name (afma q)) TREND_EXPANSION" "strategy_allowed (bk_name (aqmr q)) TREND_EXPANSION" for q
    by (simp_all add: strategy_allowed_def strategy_regime_map_def dict_get_or_def afma_def aqmr_def institutional_clone_def)
  moreover have "\<exists>h. bk_entry_signal (afma (\<lambda>_. Fin 0)) uptrend_row None = Inr (Some h)"
    using m g by (simp add: afma_def institutional_clone_def institutional_entry_def institutional_shadow_allows_def
        default_fragility_limit_def uptrend_estimate dec_lits Let_def)
  moreover have "bk_entry_signal (aqmr (\<lambda>_. Fin 0)) uptrend_row None = Inr None"
    by (simp add: aqmr_def institutional_clone_def institutional_entry_def research_momentum_def base_strategy_def
        research_momentum_entry_def)
  ultimately show ?thesis by (auto simp: aapo_candidates_def List.map_filter_def)
qed

theorem orchestrator_trades_only_in_safe_regimes_witness:
  "\<exists>g. bk_entry_signal (aapo (\<lambda>_. Fin 0)) uptrend_row None = Inr (Some g) \<and>
     (\<exists>m. classify_row uptrend_row None = Inr m \<and> mr_regime m \<notin> set crisis_regimes)"
proof -
  obtain m where m: "classify_row uptrend_row None = Inr m" "mr_regime m = TREND_EXPANSION" "mr_volatility m = Fin (1 / 128)"
    using uptrend_classified by blast
  obtain h where h: "aapo_candidates TREND_EXPANSION uptrend_row None (dict_get_or (aapo_modules (\<lambda>_. Fin 0))
      (text_or uptrend_row ''symbol'' []) []) = Inr [(afma (\<lambda>_. Fin 0), h)]"
    using uptrend_candidates by (rule exE)
  have free: "TREND_EXPANSION \<notin> set aapo_blocked_regimes" by (simp add: aapo_blocked_regimes_def)
  have w: "\<not> fle (sz_final_weight (position_size a c (dec 1 10) (Fin (1 / 128)) TREND_EXPANSION (Fin 0) (Fin 0))) (Fin 0)" for a c
    using uptrend_size[of a c] flt_le_trans by fastforce
  have "\<exists>g. bk_entry_signal (aapo (\<lambda>_. Fin 0)) uptrend_row None = Inr (Some g)"
    by (simp add: aapo_def aapo_entry_def Let_def m h free w aapo_fragility_limit_def uptrend_estimate dec_82_100)
  then obtain g where g: "bk_entry_signal (aapo (\<lambda>_. Fin 0)) uptrend_row None = Inr (Some g)" by (rule exE)
  from orchestrator_trades_only_in_safe_regimes[OF g] g show ?thesis by blast
qed

end
