(* ===== verification/Py_Json.thy ===== *)
theory Py_Json
  imports Py_Time
begin

text \<open>
  JSON documents as the report files hold them, and what the code does to the parsed values:
  \<open>str\<close>, \<open>float\<close>, truth, \<open>dict.get\<close>. A report file is missing, unreadable or parsed; a list in a report holds
  objects only. Parts of the standard library the code calls on arbitrary text are fields of \<open>py_env\<close>:
  the clock, \<open>str\<close> of a float or container, \<open>repr\<close> of a text, \<open>float\<close> of a text, \<open>datetime.fromisoformat\<close> and \<open>json.loads\<close>
  (None where they raise), with the settings the runtime reads.
\<close>

section \<open>Values\<close>

datatype json =
    JNull
  | JBool bool
  | JInt int
  | JNum pyfloat
  | JText string
  | JList "json list"
  | JObj "(string \<times> json) list"

type_synonym json_row = "(string, json) dict"

record py_env =
  pe_clock :: "nat \<Rightarrow> instant"
  pe_show :: "json \<Rightarrow> string"
  pe_repr :: "string \<Rightarrow> string"
  pe_parse_float :: "string \<Rightarrow> pyfloat option"
  pe_fromiso :: "string \<Rightarrow> instant option"
  pe_loads :: "string \<Rightarrow> json option"
  pe_llm_mode :: string
  pe_llm_enabled :: bool
  pe_openai_key :: bool

definition py_str :: "py_env \<Rightarrow> json \<Rightarrow> string" where
  "py_str env j = (case j of JNull \<Rightarrow> ''None'' | JBool b \<Rightarrow> (if b then ''True'' else ''False'')
     | JInt i \<Rightarrow> str_of_int i | JText s \<Rightarrow> s | _ \<Rightarrow> pe_show env j)"

definition py_float :: "py_env \<Rightarrow> json \<Rightarrow> pyfloat res" where
  "py_float env j = (case j of
       JNum x \<Rightarrow> Inr x
     | JInt i \<Rightarrow> int_to_float i
     | JBool b \<Rightarrow> Inr (if b then Fin 1 else Fin 0)
     | JText s \<Rightarrow> (case pe_parse_float env s of Some x \<Rightarrow> Inr x
                   | None \<Rightarrow> Inl (ValueError (''could not convert string to float: '' @ s)))
     | _ \<Rightarrow> Inl (TypeError ''float() argument must be a string or a real number''))"

definition truthy :: "json \<Rightarrow> bool" where
  "truthy j = (case j of JNull \<Rightarrow> False | JBool b \<Rightarrow> b | JInt i \<Rightarrow> i \<noteq> 0 | JNum x \<Rightarrow> x \<noteq> Fin 0
     | JText s \<Rightarrow> s \<noteq> [] | JList xs \<Rightarrow> xs \<noteq> [] | JObj kvs \<Rightarrow> kvs \<noteq> [])"

text \<open>\<open>a or b\<close>, \<open>row.get(k, d)\<close>, \<open>row[k]\<close>.\<close>

definition j_or :: "json \<Rightarrow> json \<Rightarrow> json" where
  "j_or a b = (if truthy a then a else b)"

abbreviation j_get :: "json_row \<Rightarrow> string \<Rightarrow> json \<Rightarrow> json" where
  "j_get r k d \<equiv> dict_get_or r k d"

definition j_at :: "json_row \<Rightarrow> string \<Rightarrow> json res" where
  "j_at r k = (case dict_get r k of None \<Rightarrow> Inl (KeyError k) | Some v \<Rightarrow> Inr v)"

definition str_get :: "py_env \<Rightarrow> json_row \<Rightarrow> string \<Rightarrow> string \<Rightarrow> string" where
  "str_get env r k d = py_str env (j_get r k (JText d))"

definition py_int :: "json \<Rightarrow> int res" where
  "py_int j = (case j of
       JInt i \<Rightarrow> Inr i
     | JBool b \<Rightarrow> Inr (if b then 1 else 0)
     | JNum x \<Rightarrow> trunc_int x
     | JText s \<Rightarrow> (case parse_int s of Some i \<Rightarrow> Inr i
                   | None \<Rightarrow> Inl (ValueError (''invalid literal for int() with base 10: '' @ s)))
     | _ \<Rightarrow> Inl (TypeError ''int() argument must be a string, a bytes-like object or a real number''))"

text \<open>\<open>float(row.get(k, 0.0) or 0.0)\<close>.\<close>

definition float_get :: "py_env \<Rightarrow> json_row \<Rightarrow> string \<Rightarrow> pyfloat res" where
  "float_get env r k = py_float env (j_or (j_get r k (JNum (Fin 0))) (JNum (Fin 0)))"

lemma py_str_simps [simp]:
  "py_str env (JText s) = s" "py_str env JNull = ''None''" "py_str env (JInt i) = str_of_int i"
  by (simp_all add: py_str_def)

lemma py_float_num [simp]: "py_float env (JNum x) = Inr x" "py_int (JInt i) = Inr i"
  by (simp_all add: py_float_def py_int_def)

section \<open>Report files\<close>

datatype report = Missing | Unreadable | Rows "json_row list" | Object json_row | Scalar

definition report_rows :: "report \<Rightarrow> json_row list" where
  "report_rows f = (case f of Rows rs \<Rightarrow> rs | _ \<Rightarrow> [])"

definition report_object :: "report \<Rightarrow> json_row" where
  "report_object f = (case f of Object r \<Rightarrow> r | _ \<Rightarrow> [])"

text \<open>\<open>_append_json_row\<close>: whatever was not a list of rows is started afresh; only the newest rows are kept.\<close>

definition append_json_row :: "nat \<Rightarrow> json_row \<Rightarrow> report \<Rightarrow> report" where
  "append_json_row limit row f = Rows (last_n limit (report_rows f @ [row]))"

lemma report_simps [simp]:
  "report_rows (Rows rs) = rs" "report_object (Object r) = r"
  "report_rows (append_json_row n row f) = last_n n (report_rows f @ [row])"
  by (simp_all add: report_rows_def report_object_def append_json_row_def)

end
