(* ===== verification/Bot_Registry.thy ===== *)
theory Bot_Registry
  imports Py_Json "HOL-Library.List_Lexorder" "HOL-Library.Char_ord" "HOL-Library.Product_Lexorder"
begin

text \<open>
  The bot registry (\<open>runtime/bot_registry.py\<close>): the file of bot definitions, read through a data frame.
  A frame is a list of rows over the same columns; a column that a row of the file lacks holds NaN there.
  \<open>_normalize\<close> adds the missing columns (assigning the empty dictionary as a default leaves NaN, which is
  what pandas does with a dictionary) and turns every identifier into its normal form.
\<close>

section \<open>Identifiers\<close>

definition normal_char :: "char \<Rightarrow> char" where
  "normal_char c = (if is_alnum c then c else CHR ''_'')"

definition strip_underscores :: "string \<Rightarrow> string" where
  "strip_underscores s = strip_by (\<lambda>c. c = CHR ''_'') s"

definition normalize_bot_id :: "string \<Rightarrow> string" where
  "normalize_bot_id v = (let s = strip_underscores (map normal_char (str_strip v)) in if s = [] then ''bot'' else s)"

section \<open>Frames\<close>

fun columns_of :: "json_row list \<Rightarrow> string list" where
  "columns_of [] = []"
| "columns_of (r # rs) = map fst r @ filter (\<lambda>c. c \<notin> fst ` set r) (columns_of rs)"

definition missing_cell :: json where "missing_cell = JNum NaN"

definition frame_of :: "json_row list \<Rightarrow> json_row list" where
  "frame_of rs = map (\<lambda>r. map (\<lambda>c. (c, j_get r c missing_cell)) (columns_of rs)) rs"

definition frame_empty :: "json_row list \<Rightarrow> bool" where
  "frame_empty f = (f = [] \<or> columns_of f = [])"

definition is_na :: "json \<Rightarrow> bool" where
  "is_na j = (j = JNull \<or> j = JNum NaN)"

definition registry_defaults :: json_row where
  "registry_defaults =
     [(''name'', JText []), (''strategy'', JText ''Existing Momentum''), (''symbol'', JText []),
      (''timeframe'', JText ''1h''), (''capital'', JNum (Fin 250)), (''parameters'', missing_cell),
      (''state'', JText ''DRAFT''), (''status_reason'', JText []), (''deployed_at'', JText []),
      (''heartbeat_at'', JText []), (''created_at'', JText []), (''updated_at'', JText [])]"

definition with_default :: "string \<times> json \<Rightarrow> json_row \<Rightarrow> json_row" where
  "with_default kv r = (if dict_get r (fst kv) = None then dict_set (fst kv) (snd kv) r else r)"

definition normalize_row :: "py_env \<Rightarrow> json_row \<Rightarrow> json_row" where
  "normalize_row env r =
     (let r1 = fold with_default registry_defaults r;
          name = j_get r1 ''name'' (JText []);
          r2 = fold with_default [(''bot_id'', name), (''description'', JText []), (''mode'', JText ''PAPER'')] r1;
          filled = (\<lambda>k d. (let v = j_get r2 k d in JText (py_str env (if is_na v then d else v))));
          the_id = j_get r2 ''bot_id'' name
      in dict_update r2
           [(''bot_id'', JText (normalize_bot_id (py_str env (if is_na the_id then name else the_id)))),
            (''description'', filled ''description'' (JText [])),
            (''mode'', filled ''mode'' (JText ''PAPER''))])"

definition normalize :: "py_env \<Rightarrow> json_row list \<Rightarrow> json_row list" where
  "normalize env f = map (normalize_row env) f"

section \<open>Operations\<close>

definition registry_load :: "py_env \<Rightarrow> report \<Rightarrow> json_row list" where
  "registry_load env f = (let frame = frame_of (report_rows f) in if frame_empty frame then frame else normalize env frame)"

definition registry_save :: "py_env \<Rightarrow> json_row list \<Rightarrow> report" where
  "registry_save env frame = Rows (normalize env frame)"

definition matches_bot :: "py_env \<Rightarrow> string \<Rightarrow> json_row \<Rightarrow> bool" where
  "matches_bot env bot_id r = (str_get env r ''bot_id'' [] = bot_id \<or> str_get env r ''name'' [] = bot_id)"

definition registry_get :: "py_env \<Rightarrow> string \<Rightarrow> report \<Rightarrow> json_row option" where
  "registry_get env bot_id f =
     (let frame = registry_load env f in if frame_empty frame then None else find_first (matches_bot env bot_id) frame)"

definition write_state :: "string \<Rightarrow> string \<Rightarrow> string \<Rightarrow> json_row \<Rightarrow> json_row" where
  "write_state now state reason r = dict_update r
     [(''state'', JText state), (''status_reason'', JText reason), (''heartbeat_at'', JText now), (''updated_at'', JText now)]"

definition update_state :: "py_env \<Rightarrow> string \<Rightarrow> string \<Rightarrow> string \<Rightarrow> string \<Rightarrow> report \<Rightarrow> (report, json_row) outcome" where
  "update_state env now bot_id state reason f =
     (let frame = registry_load env f in
      if frame_empty frame then (f, Inl (KeyError (''Unknown bot: '' @ bot_id)))
      else (let rows = normalize env frame in
        case find_first (matches_bot env bot_id) rows of
          None \<Rightarrow> (f, Inl (KeyError (''Unknown bot: '' @ bot_id)))
        | Some _ \<Rightarrow>
            (let rows' = map (\<lambda>r. if matches_bot env bot_id r then write_state now state reason r else r) rows
             in (registry_save env rows',
                 case find_first (matches_bot env bot_id) rows' of
                   None \<Rightarrow> Inl (KeyError bot_id) | Some r \<Rightarrow> Inr r))))"

section \<open>Merging database and file rows\<close>

text \<open>The freshest of the four timestamps of a row; \<open>to_time\<close> is \<open>pd.to_datetime\<close> with unreadable cells empty.\<close>

definition newer :: "instant option \<Rightarrow> instant option \<Rightarrow> instant option" where
  "newer f t = (case f of None \<Rightarrow> t | Some a \<Rightarrow> (case t of None \<Rightarrow> f | Some b \<Rightarrow> if b \<le> a then f else t))"

definition row_freshness :: "(json \<Rightarrow> instant option) \<Rightarrow> json_row \<Rightarrow> instant" where
  "row_freshness to_time r =
     (case fold (\<lambda>c f. newer f (to_time (j_get r c JNull))) [''heartbeat_at'', ''deployed_at'', ''created_at'']
             (to_time (j_get r ''updated_at'' JNull)) of None \<Rightarrow> 0 | Some t \<Rightarrow> t)"

definition row_id :: "py_env \<Rightarrow> json_row \<Rightarrow> string" where
  "row_id env r = str_get env r ''bot_id'' []"

fun first_per_id :: "(json_row \<Rightarrow> string) \<Rightarrow> json_row list \<Rightarrow> json_row list" where
  "first_per_id key [] = []"
| "first_per_id key (r # rs) = r # first_per_id key (filter (\<lambda>x. key x \<noteq> key r) rs)"

definition merge :: "py_env \<Rightarrow> (json \<Rightarrow> instant option) \<Rightarrow> json_row list \<Rightarrow> json_row list \<Rightarrow> json_row list" where
  "merge env to_time primary secondary =
     (let frames = filter (\<lambda>f. \<not> frame_empty f) [primary, secondary] in
      if frames = [] then []
      else first_per_id (row_id env)
             (sort_key (\<lambda>r. (row_id env r, - row_freshness to_time r)) (normalize env (frame_of (concat frames)))))"

section \<open>Identifiers are in normal form\<close>

lemma strip_by_set: "set (strip_by p s) \<subseteq> set s"
  by (auto simp: strip_by_def dest!: set_dropWhileD)

lemma dropWhile_none: "\<forall>c\<in>set t. \<not> p c \<Longrightarrow> dropWhile p t = t"
  by (cases t) simp_all

lemma strip_by_none: "\<forall>c\<in>set s. \<not> p c \<Longrightarrow> strip_by p s = s"
  by (simp add: strip_by_def dropWhile_none)

lemma normal_char_normal [simp]: "normal_char (normal_char c) = normal_char c" "\<not> is_space (normal_char c)"
proof -
  have "\<not> is_space c" if "is_alnum c" for c
    using that by (simp add: is_alnum_def is_space_def is_digit_def is_upper_def is_lower_def Let_def) linarith
  moreover have "\<not> is_space CHR ''_''" by (simp add: is_space_def ord_of_def)
  ultimately show "normal_char (normal_char c) = normal_char c" "\<not> is_space (normal_char c)"
    by (simp_all add: normal_char_def)
qed

lemma bot_normal [simp]: "normalize_bot_id ''bot'' = ''bot''"
  by (simp add: normalize_bot_id_def strip_underscores_def strip_by_def str_strip_def normal_char_def is_alnum_def
      is_space_def is_digit_def is_upper_def is_lower_def ord_of_def)

lemma normalize_bot_id_fixed:
  assumes "\<forall>c\<in>set s. normal_char c = c \<and> \<not> is_space c" and "strip_underscores s = s" and "s \<noteq> []"
  shows "normalize_bot_id s = s"
proof -
  have "str_strip s = s" using assms(1) by (simp add: str_strip_def strip_by_none)
  moreover have "map normal_char s = s" using assms(1) by (simp add: map_idI)
  ultimately show ?thesis using assms(2,3) by (simp add: normalize_bot_id_def)
qed

lemma normalize_bot_id_idem [simp]: "normalize_bot_id (normalize_bot_id v) = normalize_bot_id v"
proof -
  define s where "s = strip_underscores (map normal_char (str_strip v))"
  have v: "normalize_bot_id v = (if s = [] then ''bot'' else s)" by (simp add: normalize_bot_id_def s_def)
  have "set s \<subseteq> normal_char ` set (str_strip v)"
    using strip_by_set[of _ "map normal_char (str_strip v)"] by (simp add: strip_underscores_def s_def)
  then have "\<forall>c\<in>set s. normal_char c = c \<and> \<not> is_space c" by (auto dest!: subsetD)
  moreover have "strip_underscores s = s" by (simp add: strip_underscores_def strip_by_idem s_def)
  ultimately have "s \<noteq> [] \<Longrightarrow> normalize_bot_id s = s" by (rule normalize_bot_id_fixed)
  then show ?thesis by (simp add: v)
qed

section \<open>Saving and loading\<close>

definition uniform :: "string list \<Rightarrow> json_row list \<Rightarrow> bool" where
  "uniform cs f \<longleftrightarrow> distinct cs \<and> (\<forall>r\<in>set f. map fst r = cs)"

lemma columns_of_distinct: "\<forall>r\<in>set rs. distinct (map fst r) \<Longrightarrow> distinct (columns_of rs)"
  by (induction rs) auto

lemma columns_of_set: "set (columns_of rs) = (\<Union>r\<in>set rs. fst ` set r)"
  by (induction rs) auto

lemma columns_of_uniform: "uniform cs (r # rs) \<Longrightarrow> columns_of (r # rs) = cs"
proof -
  assume u: "uniform cs (r # rs)"
  have "fst ` set x = fst ` set r" if "x \<in> set rs" for x
  proof -
    have "map fst x = map fst r" using u that by (simp add: uniform_def)
    then have "set (map fst x) = set (map fst r)" by (rule arg_cong)
    then show ?thesis by simp
  qed
  then have "filter (\<lambda>c. c \<notin> fst ` set r) (columns_of rs) = []"
    unfolding filter_empty_conv columns_of_set by blast
  then show ?thesis using u by (simp add: uniform_def)
qed

lemma row_of_columns: "distinct (map fst r) \<Longrightarrow> map (\<lambda>c. (c, j_get r c d)) (map fst r) = r"
  by (auto simp: dict_get_or_def comp_def intro!: map_idI)

lemma frame_of_uniform: "uniform cs f \<Longrightarrow> frame_of f = f"
proof (cases f)
  case (Cons r rs)
  assume u: "uniform cs f"
  have "map (\<lambda>c. (c, j_get x c missing_cell)) cs = x" if "x \<in> set f" for x
    using u that row_of_columns[of x] by (metis uniform_def)
  then show ?thesis using columns_of_uniform u Cons by (simp add: frame_of_def map_idI)
qed (simp add: frame_of_def)

lemma frame_of_is_uniform:
  "\<forall>r\<in>set rs. distinct (map fst r) \<Longrightarrow> uniform (columns_of rs) (frame_of rs)"
  by (simp add: uniform_def frame_of_def columns_of_distinct comp_def)

definition add_key :: "string \<Rightarrow> string list \<Rightarrow> string list" where
  "add_key k ks = (if k \<in> set ks then ks else ks @ [k])"

lemma add_key_facts [simp]: "distinct ks \<Longrightarrow> distinct (add_key k ks)" "set (add_key k ks) = insert k (set ks)"
  by (auto simp: add_key_def)

lemma fold_add_key [simp]:
  "distinct ks \<Longrightarrow> distinct (fold add_key ns ks)" "set (fold add_key ns ks) = set ns \<union> set ks"
  by (induction ns arbitrary: ks) auto

lemma with_default_keys: "map fst (with_default kv r) = add_key (fst kv) (map fst r)"
  by (auto simp: with_default_def add_key_def update_keys map_of_eq_None_iff)

lemma dict_set_add_key: "map fst (dict_set k v r) = add_key k (map fst r)"
  by (simp add: update_keys add_key_def)

lemma fold_with_default_keys: "map fst (fold with_default kvs r) = fold add_key (map fst kvs) (map fst r)"
  by (induction kvs arbitrary: r) (simp_all add: with_default_keys)

lemma dict_update_keys: "map fst (dict_update r kvs) = fold add_key (map fst kvs) (map fst r)"
  by (induction r kvs rule: dict_update.induct) (simp_all add: update_keys add_key_def)

definition registry_columns :: "string list" where
  "registry_columns = map fst registry_defaults @ [''bot_id'', ''description'', ''mode'']"

definition normal_keys :: "string list \<Rightarrow> string list" where
  "normal_keys ks = fold add_key [''bot_id'', ''description'', ''mode''] (fold add_key registry_columns ks)"

lemma normalize_row_keys: "map fst (normalize_row env r) = normal_keys (map fst r)"
  by (simp add: normalize_row_def Let_def dict_set_add_key with_default_keys fold_with_default_keys normal_keys_def registry_columns_def)

lemma normalize_uniform: "uniform cs f \<Longrightarrow> uniform (normal_keys cs) (normalize env f)"
  by (auto simp: uniform_def normalize_def normalize_row_keys normal_keys_def)

text \<open>A row in normal form: every column is there and the three rewritten ones hold text.\<close>

definition normal_row :: "json_row \<Rightarrow> bool" where
  "normal_row r \<longleftrightarrow> set registry_columns \<subseteq> fst ` set r \<and>
     (\<exists>t. dict_get r ''bot_id'' = Some (JText t) \<and> normalize_bot_id t = t) \<and>
     (\<exists>t. dict_get r ''description'' = Some (JText t)) \<and> (\<exists>t. dict_get r ''mode'' = Some (JText t))"

lemma normalize_row_normal: "normal_row (normalize_row env r)"
proof -
  have "fst ` set (normalize_row env r) = set (normal_keys (map fst r))" by (metis list.set_map normalize_row_keys)
  then have "set registry_columns \<subseteq> fst ` set (normalize_row env r)" by (auto simp: normal_keys_def)
  then show ?thesis by (simp add: normal_row_def normalize_row_def Let_def)
qed

lemma fold_with_default_present: "fst ` set kvs \<subseteq> fst ` set r \<Longrightarrow> fold with_default kvs r = r"
  by (induction kvs) (auto simp: with_default_def dest: weak_map_of_SomeI split: if_splits)

lemma normal_row_fixed:
  assumes "normal_row r"
  shows "normalize_row env r = r"
proof -
  obtain t d m where v: "dict_get r ''bot_id'' = Some (JText t)" "normalize_bot_id t = t"
      "dict_get r ''description'' = Some (JText d)" "dict_get r ''mode'' = Some (JText m)"
    using assms by (auto simp: normal_row_def)
  have cols: "set (map fst registry_defaults @ [''bot_id'', ''description'', ''mode'']) \<subseteq> fst ` set r"
    using assms by (simp only: normal_row_def registry_columns_def)
  then have k1: "fold with_default registry_defaults r = r"
    by (intro fold_with_default_present) simp
  have k2: "fold with_default [(''bot_id'', n), (''description'', JText []), (''mode'', JText ''PAPER'')] r = r" for n
    using cols by (intro fold_with_default_present) simp
  have w: "dict_update r [(''bot_id'', JText t), (''description'', JText d), (''mode'', JText m)] = r"
    using v by (simp add: update_triv)
  have g: "j_get r ''bot_id'' n = JText t" "j_get r ''description'' n = JText d" "j_get r ''mode'' n = JText m" for n
    using v by (simp_all add: dict_get_or_def)
  have na: "is_na (JText x) = False" for x by (simp add: is_na_def)
  show ?thesis
    by (simp only: normalize_row_def Let_def k1 k2 g na if_False py_str_simps v(2) w)
qed

lemma normalize_fixed: "\<forall>r\<in>set f. normal_row r \<Longrightarrow> normalize env f = f"
  by (simp add: normalize_def normal_row_fixed map_idI)

definition dict_rows :: "json_row list \<Rightarrow> bool" where
  "dict_rows rs \<longleftrightarrow> (\<forall>r\<in>set rs. distinct (map fst r))"

lemma frame_empty_uniform: "uniform cs f \<Longrightarrow> f \<noteq> [] \<Longrightarrow> cs \<noteq> [] \<Longrightarrow> \<not> frame_empty f"
  using columns_of_uniform by (cases f) (auto simp: frame_empty_def)

lemma normal_keys_nonempty [simp]: "normal_keys ks \<noteq> []"
proof -
  have "''mode'' \<in> set (normal_keys ks)" by (simp add: normal_keys_def)
  then show ?thesis by auto
qed

text \<open>What \<open>registry_save\<close> writes of rows in normal form is what \<open>registry_load\<close> gives back.\<close>

lemma load_save:
  assumes "uniform (normal_keys cs) f" and "\<forall>r\<in>set f. normal_row r"
  shows "registry_load env (registry_save env f) = f"
proof (cases "f = []")
  case False
  then have "\<not> frame_empty f" using assms(1) frame_empty_uniform by simp
  then show ?thesis
    using assms by (simp add: registry_load_def registry_save_def normalize_fixed frame_of_uniform)
qed (simp add: registry_load_def registry_save_def normalize_def frame_of_def frame_empty_def)

lemma load_normal:
  assumes "dict_rows (report_rows f)" and "\<not> frame_empty (registry_load env f)"
  shows "\<exists>cs. uniform (normal_keys cs) (registry_load env f) \<and> (\<forall>r\<in>set (registry_load env f). normal_row r)"
proof -
  let ?fr = "frame_of (report_rows f)"
  have l: "registry_load env f = normalize env ?fr" using assms(2) by (auto simp: registry_load_def Let_def split: if_splits)
  have "uniform (columns_of (report_rows f)) ?fr" using assms(1) frame_of_is_uniform by (simp add: dict_rows_def)
  then show ?thesis using normalize_uniform normalize_row_normal l by (force simp: normalize_def)
qed

lemma write_state_frame [simp]:
  "dict_get (write_state now state reason r) k =
     (if k = ''state'' then Some (JText state) else if k = ''status_reason'' then Some (JText reason)
      else if k \<in> {''heartbeat_at'', ''updated_at''} then Some (JText now) else dict_get r k)"
  by (simp add: write_state_def)

lemma write_state_matches [simp]: "matches_bot env b (write_state now state reason r) = matches_bot env b r"
  by (simp add: matches_bot_def str_get_def dict_get_or_def)

lemma write_state_keys:
  assumes "normal_row r"
  shows "map fst (write_state now state reason r) = map fst r"
proof -
  have "set (map fst registry_defaults @ [''bot_id'', ''description'', ''mode'']) \<subseteq> fst ` set r"
    using assms by (simp only: normal_row_def registry_columns_def)
  then show ?thesis by (simp add: write_state_def dict_set_add_key add_key_def registry_defaults_def)
qed

lemma write_state_normal: "normal_row r \<Longrightarrow> normal_row (write_state now state reason r)"
proof -
  assume n: "normal_row r"
  then have "set (map fst (write_state now state reason r)) = set (map fst r)" by (simp add: write_state_keys)
  then have "fst ` set (write_state now state reason r) = fst ` set r" by simp
  then show ?thesis using n by (simp add: normal_row_def)
qed

lemma find_first_map:
  "(\<And>x. p (g x) = p x) \<Longrightarrow> find_first p (map g xs) = map_option g (find_first p xs)"
  by (induction xs) auto

text \<open>An update that returns is what the next load sees: the rows that match the bot carry the new state,
  reason and time, every other row and column is as it was, and the row returned is one of the updated ones.\<close>

lemma registry_update_reloads:
  assumes "dict_rows (report_rows f)" and "update_state env now b state reason f = (f', Inr row)"
  shows "registry_load env f' =
      map (\<lambda>r. if matches_bot env b r then write_state now state reason r else r) (registry_load env f) \<and>
    row \<in> set (registry_load env f') \<and> matches_bot env b row \<and> j_get row ''state'' JNull = JText state"
proof -
  let ?rows = "registry_load env f"
  let ?w = "\<lambda>r. if matches_bot env b r then write_state now state reason r else r"
  have ne: "\<not> frame_empty ?rows"
    using assms(2) by (cases "frame_empty ?rows") (simp_all add: update_state_def Let_def)
  obtain cs where cs: "uniform (normal_keys cs) ?rows" "\<forall>r\<in>set ?rows. normal_row r"
    using load_normal[OF assms(1) ne] by (elim exE conjE)
  have n: "normalize env ?rows = ?rows" using cs(2) by (rule normalize_fixed)
  obtain r0 where r0: "find_first (matches_bot env b) ?rows = Some r0"
    using assms(2) ne by (cases "find_first (matches_bot env b) ?rows") (simp_all add: update_state_def Let_def n)
  have m: "find_first (matches_bot env b) (map ?w ?rows) = Some (?w r0)"
    using r0 find_first_map[of "matches_bot env b" ?w ?rows] by simp
  have f': "f' = registry_save env (map ?w ?rows)" "row = ?w r0"
    using assms(2) ne r0 m by (simp_all add: update_state_def Let_def n)
  have "uniform (normal_keys cs) (map ?w ?rows)" "\<forall>r\<in>set (map ?w ?rows). normal_row r"
    using cs by (auto simp: uniform_def write_state_keys intro: write_state_normal)
  then have l: "registry_load env f' = map ?w ?rows" using load_save f' by simp
  moreover have "matches_bot env b r0" "r0 \<in> set ?rows" using find_first_SomeD[OF r0] by simp_all
  moreover from this have "row = write_state now state reason r0" "row \<in> set (map ?w ?rows)" using f'(2) by auto
  ultimately show ?thesis by (simp add: dict_get_or_def)
qed

text \<open>\<open>C40\<close>: A registry whose rows are dictionaries loads as a frame: all rows have the same columns, each once, among
  them every registered column; the identifier is text in normal form, description and mode are text; and
  normalizing such a row again changes nothing.\<close>

theorem registry_rows_are_typed:
  assumes "dict_rows (report_rows f)" and "\<not> frame_empty (registry_load env f)"
  shows "\<exists>cs. distinct cs \<and> set registry_columns \<subseteq> set cs \<and>
    (\<forall>r\<in>set (registry_load env f). map fst r = cs \<and> normal_row r \<and> normalize_row env r = r)"
proof -
  obtain cs where "uniform (normal_keys cs) (registry_load env f)" "\<forall>r\<in>set (registry_load env f). normal_row r"
    using load_normal[OF assms] by (elim exE conjE) (rule that)
  moreover have "set registry_columns \<subseteq> set (normal_keys cs)" by (auto simp: normal_keys_def)
  ultimately show ?thesis by (intro exI[of _ "normal_keys cs"]) (simp add: uniform_def normal_row_fixed)
qed

text \<open>One registered bot, as the file holds it.\<close>

definition example_env :: py_env where
  "example_env = \<lparr>pe_clock = int, pe_show = (\<lambda>_. []), pe_repr = id, pe_parse_float = (\<lambda>_. None), pe_fromiso = (\<lambda>_. None),
     pe_loads = (\<lambda>_. None), pe_llm_mode = ''rules'', pe_llm_enabled = False, pe_openai_key = False\<rparr>"

definition example_registry :: report where
  "example_registry = Rows [[(''bot_id'', JText ''alpha''), (''name'', JText ''Alpha''), (''state'', JText ''STOPPED'')]]"

theorem registry_rows_are_typed_witness:
  "map (normalize_row example_env) (registry_load example_env example_registry) = registry_load example_env example_registry"
proof (rule map_idI)
  fix r
  assume "r \<in> set (registry_load example_env example_registry)"
  moreover have "dict_rows (report_rows example_registry)" by (simp add: dict_rows_def example_registry_def)
  moreover have "\<not> frame_empty (registry_load example_env example_registry)" by code_simp
  ultimately show "normalize_row example_env r = r" using registry_rows_are_typed[of example_registry example_env] by blast
qed

section \<open>Merging\<close>

lemma first_per_id_keys [simp]: "key ` set (first_per_id key rs) = key ` set rs"
  by (induction key rs rule: first_per_id.induct) auto

lemma first_per_id_subset: "set (first_per_id key rs) \<subseteq> set rs"
  by (induction key rs rule: first_per_id.induct) auto

lemma first_per_id_distinct: "distinct (map key (first_per_id key rs))"
proof (induction key rs rule: first_per_id.induct)
  case (2 key r rs)
  then show ?case using first_per_id_subset[where key = key and rs = "filter (\<lambda>x. key x \<noteq> key r) rs"] by auto
qed simp

lemma first_per_id_least:
  "sorted (map (\<lambda>r. (key r, m r)) rs) \<Longrightarrow> x \<in> set (first_per_id key rs) \<Longrightarrow> y \<in> set rs \<Longrightarrow> key y = key x \<Longrightarrow> m x \<le> m y"
proof (induction key rs rule: first_per_id.induct)
  case (2 key r rs)
  show ?case
  proof (cases "x = r")
    case True
    then show ?thesis using "2.prems" by (force simp: less_eq_prod_def)
  next
    case False
    then have x: "x \<in> set (first_per_id key (filter (\<lambda>x. key x \<noteq> key r) rs))" using "2.prems"(2) by simp
    moreover have "key x \<noteq> key r" using x first_per_id_subset by fastforce
    moreover have "sorted (map (\<lambda>r. (key r, m r)) (filter (\<lambda>x. key x \<noteq> key r) rs))"
      using "2.prems"(1) by (simp add: sorted_filter)
    ultimately show ?thesis using "2.IH" "2.prems"(3,4) by auto
  qed
qed simp

text \<open>Merging the database rows with the file rows keeps every bot of either, each once, with a row of it than which
  none is fresher.\<close>

theorem merge_keeps_freshest:
  assumes "\<not> (frame_empty p \<and> frame_empty s)"
    and "rows = normalize env (frame_of (concat (filter (\<lambda>f. \<not> frame_empty f) [p, s])))"
  shows "distinct (map (row_id env) (merge env to_time p s)) \<and>
    row_id env ` set (merge env to_time p s) = row_id env ` set rows \<and>
    (\<forall>r\<in>set (merge env to_time p s). r \<in> set rows \<and>
      (\<forall>r'\<in>set rows. row_id env r' = row_id env r \<longrightarrow> row_freshness to_time r' \<le> row_freshness to_time r))"
proof -
  let ?k = "\<lambda>r. (row_id env r, - row_freshness to_time r)"
  have m: "merge env to_time p s = first_per_id (row_id env) (sort_key ?k rows)"
    using assms by (auto simp: merge_def Let_def)
  have "- row_freshness to_time r \<le> - row_freshness to_time r'"
    if "r \<in> set (merge env to_time p s)" "r' \<in> set rows" "row_id env r' = row_id env r" for r r'
    using that sorted_sort_key[of ?k rows] first_per_id_least[where key = "row_id env" and rs = "sort_key ?k rows"
        and m = "\<lambda>r. - row_freshness to_time r" and x = r and y = r'] by (simp add: m)
  then show ?thesis
    using first_per_id_subset[where key = "row_id env" and rs = "sort_key ?k rows"] first_per_id_distinct by (auto simp: m)
qed

theorem merge_keeps_freshest_witness:
  "distinct (map (row_id example_env) (merge example_env (\<lambda>_. None) [[(''name'', JText ''a'')], [(''name'', JText ''a'')]] []))"
proof -
  have "\<not> (frame_empty [[(''name'', JText ''a'')], [(''name'', JText ''a'')]] \<and> frame_empty [])"
    by (simp add: frame_empty_def)
  from merge_keeps_freshest[OF this refl] show ?thesis by blast
qed

end
