(* ===== verification/Runtime_Manager.thy ===== *)
theory Runtime_Manager
  imports Bot_Registry Stability
begin

text \<open>
  The headless runtime manager (\<open>runtime/runtime_manager.py\<close>, \<open>runtime/runtime_state.py\<close>): bot states
  merged from the registry, a fresh stability framework per bot and the persisted rows; lifecycle
  transitions, reconciliation, supervision heartbeats; the bounded audit, order, trade-event, alert and
  snapshot logs; the control file. The world is the content of the report files and a counter of clock
  readings. A row is the dictionary the code builds. The background copy of trade events into the database
  is not modelled.
\<close>

section \<open>World\<close>

record runtime_world =
  rw_clock :: nat
  rw_bots :: report
  rw_state :: report
  rw_control :: report
  rw_audit :: report
  rw_alerts :: report
  rw_orders :: report
  rw_trade_events :: report
  rw_snapshots :: report

definition audit_limit :: nat where "audit_limit = 500"
definition alerts_limit :: nat where "alerts_limit = 1000"
definition orders_limit :: nat where "orders_limit = 5000"
definition trade_events_limit :: nat where "trade_events_limit = 10000"

text \<open>One reading of the clock, and the time of the next one.\<close>

definition tick :: "runtime_world \<Rightarrow> runtime_world" where
  "tick w = w\<lparr>rw_clock := Suc (rw_clock w)\<rparr>"

definition clock_now :: "py_env \<Rightarrow> runtime_world \<Rightarrow> instant" where
  "clock_now env w = pe_clock env (rw_clock w)"

definition utc_now_iso :: "py_env \<Rightarrow> runtime_world \<Rightarrow> string" where
  "utc_now_iso env w = iso (clock_now env w)"

definition llm_state :: "py_env \<Rightarrow> string" where
  "llm_state env =
     (if str_lower (pe_llm_mode env) = ''rules'' \<or> \<not> pe_llm_enabled env then ''RULE_BASED''
      else if pe_openai_key env then ''OPENAI_READY'' else ''RULE_BASED'')"

section \<open>Vocabulary\<close>

definition status_from_bot_state :: "string \<Rightarrow> string" where
  "status_from_bot_state s = dict_get_or
     [(''RUNNING'', ''RUNNING''), (''DEPLOYED'', ''RUNNING''), (''PAUSED'', ''PAUSED''), (''FAILED'', ''ERROR''),
      (''STOPPED'', ''STOPPED'')] s ''STOPPED''"

definition make_trade_id :: "string \<Rightarrow> string \<Rightarrow> string \<Rightarrow> string" where
  "make_trade_id bot_id symbol client_order_id =
     bot_id @ '':'' @ remove_char CHR '':'' (remove_char CHR ''/'' symbol) @ '':'' @ client_order_id"

definition trade_event_type :: "string \<Rightarrow> string" where
  "trade_event_type status =
     (let n = str_upper status in
      if n \<in> {''STARTED'', ''CREATED'', ''VALIDATED''} then ''TradeCreated''
      else if n \<in> {''ACKNOWLEDGED'', ''SUBMITTED'', ''FILLED''} then ''TradeEntered''
      else if n \<in> {''PARTIALLY_FILLED'', ''PARTIAL''} then ''TradeUpdated''
      else if n \<in> {''STOP_TRIGGERED'', ''STOPPED''} then ''StopTriggered''
      else if n \<in> {''RISK_TRIGGERED'', ''RISK_BLOCKED''} then ''RiskTriggered''
      else if n \<in> {''CLOSED'', ''EXITED'', ''CANCELLED'', ''CANCELED''} then ''TradeExited''
      else if n \<in> {''REJECTED'', ''FAILED'', ''ERROR''} then ''RuntimeAlertGenerated''
      else ''TradeUpdated'')"

definition trade_lifecycle_state :: "string \<Rightarrow> string" where
  "trade_lifecycle_state status =
     (let n = str_upper status in
      if n \<in> {''STARTED'', ''CREATED'', ''VALIDATED''} then ''Pending''
      else if n \<in> {''ACKNOWLEDGED'', ''SUBMITTED''} then ''Submitted''
      else if n \<in> {''PARTIALLY_FILLED'', ''PARTIAL''} then ''Partially Filled''
      else if n = ''FILLED'' then ''Filled''
      else if n \<in> {''PARTIALLY_EXITED'', ''PARTIAL_EXIT''} then ''Partially Exited''
      else if n \<in> {''CLOSED'', ''EXITED'', ''STOP_TRIGGERED'', ''STOPPED''} then ''Closed''
      else if n \<in> {''CANCELLED'', ''CANCELED''} then ''Cancelled''
      else if n \<in> {''REJECTED'', ''FAILED'', ''ERROR''} then ''Failed''
      else ''Active'')"

definition parse_datetime :: "py_env \<Rightarrow> string \<Rightarrow> instant option" where
  "parse_datetime env s = (if s = [] then None else pe_fromiso env s)"

section \<open>Listing the bots\<close>

definition runtime_entry_price :: "py_env \<Rightarrow> json_row \<Rightarrow> json_row \<Rightarrow> pyfloat res" where
  "runtime_entry_price env bt persisted =
     (if truthy (j_get persisted ''runtime_entry_price'' JNull) then float_get env persisted ''runtime_entry_price''
      else (let parameters = j_get bt ''parameters'' (JObj []);
                decoded = (case parameters of JText s \<Rightarrow> (case pe_loads env s of Some j \<Rightarrow> j | None \<Rightarrow> JObj []) | j \<Rightarrow> j)
            in float_get env (case decoded of JObj kvs \<Rightarrow> kvs | _ \<Rightarrow> []) ''runtime_entry_price''))"

text \<open>The defaults of \<open>BotRuntimeState\<close>, in the order of its fields.\<close>

definition bot_runtime_state :: "string \<Rightarrow> json_row" where
  "bot_runtime_state now =
     [(''bot_id'', JText []), (''name'', JText []), (''description'', JText []), (''strategy'', JText []),
      (''symbol'', JText []), (''timeframe'', JText ''1h''), (''status'', JText ''STOPPED''), (''mode'', JText ''PAPER''),
      (''runtime_mode'', JText ''HEADLESS''), (''uptime_seconds'', JInt 0), (''started_at'', JText []),
      (''pnl_started_at'', JText []), (''runtime_entry_price'', JNum (Fin 0)), (''pnl_since_start'', JNum (Fin 0)),
      (''pnl_since_start_pct'', JNum (Fin 0)), (''last_heartbeat'', JText []), (''last_error'', JText []),
      (''risk_state'', JText ''OK''), (''framework'', JText ''PRODUCTION_STABILITY_V2''), (''framework_status'', JText ''READY''),
      (''protection_state'', JText ''UNKNOWN''), (''restart_required'', JBool False), (''last_framework_reason'', JText []),
      (''supervisor_action'', JText ''NONE''), (''alert_level'', JText ''INFO''), (''alert_code'', JText []),
      (''data_state'', JText ''UNKNOWN''), (''reconciliation_state'', JText ''NOT_RUN''), (''portfolio_state'', JText ''UNKNOWN''),
      (''validation_status'', JText ''UNKNOWN''), (''llm_state'', JText ''RULE_BASED''), (''exchange_mode'', JText ''BINANCE_TESTNET''),
      (''updated_at'', JText now)]"

text \<open>The fields of a framework snapshot that enter a bot row.\<close>

definition framework_fields :: "stability_state \<Rightarrow> json_row" where
  "framework_fields s =
     [(''framework'', JText (ss_framework_name s)), (''framework_status'', JText (ss_status s)),
      (''protection_state'', JText (ss_protection_state s)), (''restart_required'', JBool (ss_restart_required s)),
      (''last_framework_reason'', JText (ss_last_reason s)), (''supervisor_action'', JText (ss_supervisor_action s)),
      (''alert_level'', JText (ss_alert_level s)), (''alert_code'', JText (ss_alert_code s)),
      (''data_state'', JText (ss_data_state s)), (''reconciliation_state'', JText (ss_reconciliation_state s)),
      (''portfolio_state'', JText (ss_portfolio_state s)), (''risk_state'', JText (ss_risk_state s))]"

abbreviation framework_config :: stability_config where
  "framework_config \<equiv> default_stability_config"

definition new_framework :: "instant \<Rightarrow> stability_state" where
  "new_framework now = new_stability_state (sc_framework_name framework_config) now"

definition supervision_of :: "instant option \<Rightarrow> bool \<Rightarrow> supervision_input" where
  "supervision_of last_seen has_position =
     \<lparr>si_last_seen = last_seen, si_last_market_data_seen = None, si_exchange_time = None, si_signal_queue_depth = 0,
      si_db_queue_depth = 0, si_has_position = has_position, si_protection_verified = True, si_now = None\<rparr>"

text \<open>\<open>n\<close> is the first clock reading of this bt: construction, supervision, alert, row.\<close>

definition listed_framework :: "py_env \<Rightarrow> nat \<Rightarrow> json_row \<Rightarrow> stability_state res" where
  "listed_framework env n bt =
     (let has_position = str_get env bt ''state'' [] \<in> {''RUNNING'', ''DEPLOYED''};
          s = fst (startup_check framework_config has_position True (new_framework (pe_clock env n)))
      in if has_position
         then (let r = evaluate_supervision framework_config
                 (supervision_of (parse_datetime env (py_str env (j_or (j_get bt ''heartbeat_at'' (JText [])) (JText [])))) True)
                 \<lparr>ck_heartbeat = pe_clock env (n + 1), ck_feed = pe_clock env (n + 1), ck_alert = pe_clock env (n + 2)\<rparr> s
               in bind_res (snd r) (\<lambda>_. Inr (fst r)))
         else Inr s)"

definition listed_row :: "py_env \<Rightarrow> (json, json_row) dict \<Rightarrow> nat \<Rightarrow> json_row \<Rightarrow> json_row res" where
  "listed_row env persisted n bt =
     bind_res (j_at bt ''bot_id'') (\<lambda>id_cell.
     bind_res (listed_framework env n bt) (\<lambda>framework.
     (let bot_id = py_str env id_cell;
          kept = dict_get_or persisted (JText bot_id) [];
          started_at = py_str env (j_or (j_get kept ''started_at'' (j_get bt ''deployed_at'' (JText []))) (JText []))
      in bind_res (runtime_entry_price env bt kept) (\<lambda>entry_price.
         bind_res (j_at bt ''name'') (\<lambda>name.
         bind_res (j_at bt ''strategy'') (\<lambda>strategy.
         bind_res (j_at bt ''symbol'') (\<lambda>symbol.
         bind_res (j_at bt ''state'') (\<lambda>state.
         bind_res (float_get env kept ''pnl_since_start'') (\<lambda>pnl.
         bind_res (float_get env kept ''pnl_since_start_pct'') (\<lambda>pnl_pct.
         Inr (dict_update
           (dict_update (bot_runtime_state (iso (pe_clock env (n + 3))))
             ([(''bot_id'', JText bot_id), (''name'', JText (py_str env name)),
               (''description'', JText (str_get env bt ''description'' [])), (''strategy'', JText (py_str env strategy)),
               (''symbol'', JText (py_str env symbol)),
               (''timeframe'', JText (py_str env (j_or (j_get bt ''timeframe'' (JText ''1h'')) (JText ''1h'')))),
               (''status'', JText (status_from_bot_state (py_str env state))), (''mode'', JText (str_get env bt ''mode'' ''PAPER'')),
               (''started_at'', JText started_at), (''pnl_started_at'', JText started_at),
               (''runtime_entry_price'', JNum entry_price), (''pnl_since_start'', JNum pnl), (''pnl_since_start_pct'', JNum pnl_pct),
               (''last_heartbeat'', JText (py_str env (j_or (j_get bt ''heartbeat_at'' (JText [])) (JText []))))]
              @ framework_fields framework
              @ [(''validation_status'', JText (if py_str env state \<in> {''BACKTESTED'', ''DEPLOYED'', ''RUNNING'', ''PAUSED''}
                    then ''BACKTESTED'' else ''PENDING'')),
                 (''llm_state'', JText (llm_state env))])) kept)))))))))))"

definition persisted_rows :: "runtime_world \<Rightarrow> (json, json_row) dict" where
  "persisted_rows w =
     dict_update [] (map (\<lambda>r. (j_get r ''bot_id'' (j_get r ''name'' (JText [])), r)) (report_rows (rw_state w)))"

definition list_bot_states :: "py_env \<Rightarrow> runtime_world \<Rightarrow> (runtime_world, json_row list) outcome" where
  "list_bot_states env w =
     (let bots = registry_load env (rw_bots w); n = rw_clock w
      in (w\<lparr>rw_clock := n + 4 * length bots\<rparr>,
          map_res (\<lambda>(i, bt). listed_row env (persisted_rows w) (n + 4 * i) bt) (enumerate 0 bots)))"

section \<open>Logs and trade events\<close>

definition audit_event :: "string \<Rightarrow> string \<Rightarrow> string \<Rightarrow> string \<Rightarrow> string \<Rightarrow> string \<Rightarrow> string \<Rightarrow> string \<Rightarrow> json_row" where
  "audit_event timestamp source bot_id action previous new_state result reason =
     [(''timestamp'', JText timestamp), (''source'', JText source), (''bot_id'', JText bot_id), (''action'', JText action),
      (''previous_state'', JText previous), (''new_state'', JText new_state), (''result'', JText result), (''reason'', JText reason)]"

definition write_audit :: "json_row \<Rightarrow> runtime_world \<Rightarrow> runtime_world" where
  "write_audit e w = w\<lparr>rw_audit := append_json_row audit_limit e (rw_audit w)\<rparr>"

definition write_alert :: "string \<Rightarrow> stability_alert \<Rightarrow> runtime_world \<Rightarrow> runtime_world" where
  "write_alert bot_id a w = w\<lparr>rw_alerts := append_json_row alerts_limit
     [(''bot_id'', JText bot_id), (''timestamp'', JText (sa_timestamp a)), (''level'', JText (sa_level a)),
      (''code'', JText (sa_code a)), (''message'', JText (sa_message a)), (''action'', JText (sa_action a))] (rw_alerts w)\<rparr>"

definition upsert_state :: "json_row \<Rightarrow> runtime_world \<Rightarrow> runtime_world" where
  "upsert_state state w = w\<lparr>rw_state := Rows
     (filter (\<lambda>r. dict_get r ''bot_id'' \<noteq> dict_get state ''bot_id'') (report_rows (rw_state w)) @ [state])\<rparr>"

text \<open>The part of \<open>_patch_runtime_trade_position\<close> before the file is touched: the fields to set, if any.\<close>

definition position_patch :: "py_env \<Rightarrow> json_row \<Rightarrow> json_row option" where
  "position_patch env event =
     (let event_type = str_get env event ''event_type'' []; lifecycle = str_get env event ''lifecycle_state'' [];
          position = str_get env event ''position_state'' []; time = str_get env event ''event_time'' [];
          common = [(''last_trade_event_type'', JText event_type), (''last_trade_event_at'', JText time),
            (''last_trade_event_reason'', JText (str_get env event ''reason'' []))]
      in if event_type = ''PNL_SNAPSHOT'' then None
         else if event_type = ''TradeEntered'' \<and> position = ''OPEN''
         then Some ([(''runtime_position_state'', JText ''IN_TRADE''), (''last_entry_at'', JText time)] @ common)
         else if event_type \<in> {''TradeExited'', ''StopTriggered'', ''RiskTriggered''} \<or> lifecycle \<in> {''Closed'', ''Cancelled'', ''Failed''}
         then Some ([(''runtime_position_state'', JText ''OUT_OF_TRADE''), (''last_exit_at'', JText time)] @ common)
         else None)"

definition of_bot :: "py_env \<Rightarrow> json_row \<Rightarrow> json_row \<Rightarrow> bool" where
  "of_bot env event r \<longleftrightarrow>
     py_str env (j_get r ''bot_id'' (j_get r ''name'' (JText []))) = str_get env event ''bot_id'' []"

definition patch_runtime_trade_position :: "py_env \<Rightarrow> json_row \<Rightarrow> runtime_world \<Rightarrow> runtime_world" where
  "patch_runtime_trade_position env event w =
     (case position_patch env event of
        None \<Rightarrow> w
      | Some patch \<Rightarrow>
          (let rows = report_rows (rw_state w) in
           if \<exists>r\<in>set rows. of_bot env event r
           then w\<lparr>rw_state := Rows (map (\<lambda>r. if of_bot env event r then dict_update r patch else r) rows)\<rparr>
           else w))"

record trade_event =
  te_bot_id :: string
  te_trade_id :: string
  te_event_type :: string
  te_symbol :: string
  te_order_state :: string
  te_position_state :: string
  te_lifecycle_state :: string
  te_price :: pyfloat
  te_quantity :: pyfloat
  te_reason :: string
  te_source_order_id :: string
  te_metrics :: json_row

definition trade_event_row :: "string \<Rightarrow> string \<Rightarrow> trade_event \<Rightarrow> json_row" where
  "trade_event_row id_time event_time e =
     [(''event_id'', JText (te_trade_id e @ '':'' @ te_event_type e @ '':'' @ id_time)), (''event_time'', JText event_time),
      (''trade_id'', JText (te_trade_id e)), (''bot_id'', JText (te_bot_id e)), (''symbol'', JText (te_symbol e)),
      (''event_type'', JText (te_event_type e)), (''order_state'', JText (te_order_state e)),
      (''position_state'', JText (te_position_state e)), (''lifecycle_state'', JText (te_lifecycle_state e)),
      (''price'', JNum (te_price e)), (''quantity'', JNum (te_quantity e)), (''reason'', JText (te_reason e)),
      (''source_order_id'', JText (te_source_order_id e)), (''metrics'', JObj (te_metrics e))]"

definition record_trade_event :: "py_env \<Rightarrow> trade_event \<Rightarrow> runtime_world \<Rightarrow> runtime_world" where
  "record_trade_event env e w =
     (let w1 = tick w; w2 = tick w1; event = trade_event_row (utc_now_iso env w) (utc_now_iso env w1) e;
          w3 = patch_runtime_trade_position env event w2
      in w3\<lparr>rw_trade_events := append_json_row trade_events_limit event (rw_trade_events w3)\<rparr>)"

definition order_event_row :: "order_lifecycle_event \<Rightarrow> json_row" where
  "order_event_row e =
     [(''timestamp'', JText (ol_timestamp e)), (''bot_id'', JText (ol_bot_id e)),
      (''client_order_id'', JText (ol_client_order_id e)), (''symbol'', JText (ol_symbol e)), (''side'', JText (ol_side e)),
      (''status'', JText (ol_status e)), (''quantity'', JNum (ol_quantity e)), (''price'', JNum (ol_price e)),
      (''reason'', JText (ol_reason e))]"

definition closed_order_states :: "string list" where
  "closed_order_states = [''CANCELLED'', ''CANCELED'', ''REJECTED'', ''FAILED'', ''CLOSED'']"

definition order_trade_event ::
    "string \<Rightarrow> string \<Rightarrow> string \<Rightarrow> string \<Rightarrow> pyfloat \<Rightarrow> pyfloat \<Rightarrow> string \<Rightarrow> trade_event" where
  "order_trade_event bot_id client_order_id symbol status quantity price reason =
     \<lparr>te_bot_id = bot_id, te_trade_id = make_trade_id bot_id symbol client_order_id, te_event_type = trade_event_type status,
      te_symbol = symbol, te_order_state = status,
      te_position_state = (if flt (Fin 0) quantity \<and> str_upper status \<notin> set closed_order_states then ''OPEN'' else ''FLAT''),
      te_lifecycle_state = trade_lifecycle_state status, te_price = price, te_quantity = quantity, te_reason = reason,
      te_source_order_id = client_order_id, te_metrics = []\<rparr>"

definition record_order ::
    "py_env \<Rightarrow> string \<Rightarrow> string \<Rightarrow> string \<Rightarrow> string \<Rightarrow> string \<Rightarrow> pyfloat \<Rightarrow> pyfloat \<Rightarrow> string \<Rightarrow>
     runtime_world \<Rightarrow> runtime_world \<times> json_row" where
  "record_order env bot_id client_order_id symbol side status quantity price reason w =
     (let w1 = tick w; w2 = tick w1;
          event = order_event_row (snd (record_order_lifecycle bot_id client_order_id symbol side status quantity price reason
                    (clock_now env w1) (new_framework (clock_now env w))));
          w3 = w2\<lparr>rw_orders := append_json_row orders_limit event (rw_orders w2)\<rparr>
      in (record_trade_event env (order_trade_event bot_id client_order_id symbol status quantity price reason) w3, event))"

definition record_trade_pnl_snapshot ::
    "py_env \<Rightarrow> string \<Rightarrow> string \<Rightarrow> string \<Rightarrow> pyfloat list \<Rightarrow> string \<Rightarrow> runtime_world \<Rightarrow> runtime_world \<times> json_row" where
  "record_trade_pnl_snapshot env bot_id trade_id symbol values lifecycle w =
     (let w1 = tick w;
          row = [(''snapshot_id'', JText (trade_id @ '':'' @ utc_now_iso env w)), (''snapshot_time'', JText (utc_now_iso env w1)),
                 (''trade_id'', JText trade_id), (''bot_id'', JText bot_id), (''symbol'', JText symbol)]
             @ zip [''current_price'', ''unrealized_pnl'', ''realized_pnl'', ''roi_pct'', ''exposure'', ''drawdown_pct''] (map JNum values)
             @ [(''lifecycle_state'', JText lifecycle)]
      in ((tick w1)\<lparr>rw_snapshots := append_json_row trade_events_limit row (rw_snapshots w)\<rparr>, row))"

section \<open>Lifecycle transitions\<close>

definition ready_fields :: "py_env \<Rightarrow> runtime_world \<Rightarrow> string \<Rightarrow> json_row" where
  "ready_fields env w now =
     framework_fields (heartbeat (clock_now env (tick w))
       (fst (startup_check framework_config False False (new_framework (clock_now env w)))))
     @ [(''last_heartbeat'', JText now)]"

text \<open>The states by identifier, a later row replacing an earlier one; a bot is found by identifier, else by name.\<close>

definition states_by_id :: "json_row list \<Rightarrow> (json, json_row) dict" where
  "states_by_id rows = dict_update [] (map (\<lambda>r. (j_get r ''bot_id'' JNull, r)) rows)"

definition find_bot :: "string \<Rightarrow> json_row list \<Rightarrow> json_row option" where
  "find_bot bot_id rows =
     (let states = states_by_id rows in
      case dict_get states (JText bot_id) of
        Some r \<Rightarrow> Some r
      | None \<Rightarrow> find_first (\<lambda>r. dict_get r ''name'' = Some (JText bot_id)) (map snd states))"

definition row_bot_id :: "py_env \<Rightarrow> json_row \<Rightarrow> string" where
  "row_bot_id env r = py_str env (j_get r ''bot_id'' JNull)"

definition enter_running ::
    "py_env \<Rightarrow> string \<Rightarrow> string \<Rightarrow> string \<Rightarrow> json_row \<Rightarrow> runtime_world \<Rightarrow> (runtime_world, json_row) outcome" where
  "enter_running env now action source current w =
     (let kept = j_or (j_or (j_get current ''cumulative_started_at'' JNull) (j_get current ''started_at'' JNull)) (JText now);
          started = dict_update current
            ([(''cumulative_started_at'', kept), (''started_at'', JText now), (''pnl_started_at'', JText now),
              (''pnl_since_start'', JNum (Fin 0)), (''pnl_since_start_pct'', JNum (Fin 0))] @ ready_fields env w now);
          bot_id = row_bot_id env started; w1 = tick (tick w)
      in case float_get env started ''runtime_entry_price'' of
           Inl e \<Rightarrow> (w1, Inl e)
         | Inr price \<Rightarrow>
             (fst (record_order env bot_id (bot_id @ '':'' @ now @ '':START'') (str_get env started ''symbol'' []) ''BOT'' ''STARTED''
                (Fin 0) price (action @ '' via '' @ source) w1), Inr started))"

definition leave_running ::
    "py_env \<Rightarrow> string \<Rightarrow> string \<Rightarrow> string \<Rightarrow> string \<Rightarrow> json_row \<Rightarrow> runtime_world \<Rightarrow> (runtime_world, json_row) outcome" where
  "leave_running env now new_status action source current w =
     (case float_get env current ''runtime_entry_price'' of
        Inl e \<Rightarrow> (w, Inl e)
      | Inr price \<Rightarrow>
          (case float_get env current ''capital'' of
             Inl e \<Rightarrow> (w, Inl e)
           | Inr capital \<Rightarrow>
               (let bot_id = row_bot_id env current in
                (record_trade_event env
                   \<lparr>te_bot_id = bot_id, te_trade_id = bot_id @ '':runtime:'' @ now, te_event_type = ''BOT_'' @ new_status,
                    te_symbol = str_get env current ''symbol'' [], te_order_state = new_status, te_position_state = ''FLAT'',
                    te_lifecycle_state = trade_lifecycle_state new_status, te_price = price, te_quantity = Fin 0,
                    te_reason = action @ '' via '' @ source, te_source_order_id = [],
                    te_metrics = [(''strategy'', JText (str_get env current ''strategy'' [])),
                      (''timeframe'', JText (str_get env current ''timeframe'' [])), (''capital'', JNum capital)]\<rparr> w,
                 Inr current))))"

definition registry_state_of :: "string \<Rightarrow> string" where
  "registry_state_of status = (if status = ''RUNNING'' then ''RUNNING'' else if status = ''PAUSED'' then ''PAUSED'' else ''STOPPED'')"

definition touched :: "py_env \<Rightarrow> string \<Rightarrow> string \<Rightarrow> json_row \<Rightarrow> json_row" where
  "touched env now new_status current = dict_update current
     [(''status'', JText new_status), (''last_heartbeat'', JText now), (''updated_at'', JText now),
      (''runtime_mode'', JText ''HEADLESS''), (''llm_state'', JText (llm_state env))]"

definition change_mode ::
    "py_env \<Rightarrow> string \<Rightarrow> string \<Rightarrow> string \<Rightarrow> string \<Rightarrow> json_row \<Rightarrow> runtime_world \<Rightarrow> (runtime_world, json_row) outcome" where
  "change_mode env now new_status action source current w =
     (if new_status = ''RUNNING'' then enter_running env now action source current w
      else leave_running env now new_status action source current w)"

definition update_registry :: "py_env \<Rightarrow> string \<Rightarrow> string \<Rightarrow> string \<Rightarrow> runtime_world \<Rightarrow> (runtime_world, unit) outcome" where
  "update_registry env bot_id state reason w =
     (let r = update_state env (utc_now_iso env w) bot_id state reason (rw_bots w)
      in ((tick w)\<lparr>rw_bots := fst r\<rparr>, bind_res (snd r) (\<lambda>_. Inr ())))"

definition transition ::
    "py_env \<Rightarrow> string \<Rightarrow> string \<Rightarrow> string \<Rightarrow> string \<Rightarrow> runtime_world \<Rightarrow> (runtime_world, json_row) outcome" where
  "transition env bot_id new_status action source w0 =
     bind_act (list_bot_states env w0) (\<lambda>w rows.
       case find_bot bot_id rows of
         None \<Rightarrow> (w, Inl (KeyError (''Unknown bot: '' @ bot_id)))
       | Some row \<Rightarrow>
           (let previous = str_get env row ''status'' ''STOPPED'';
                result = (if previous = new_status then ''NOOP'' else ''OK'');
                now = utc_now_iso env w;
                current = touched env now new_status row
            in bind_act (change_mode env now new_status action source current (tick w)) (\<lambda>w1 done_row.
               bind_act (update_registry env (row_bot_id env done_row) (registry_state_of new_status)
                           (action @ '' via runtime_manager'') (upsert_state done_row w1)) (\<lambda>w2 _.
               (write_audit (audit_event now source (row_bot_id env done_row) action previous new_status result []) w2,
                Inr done_row)))))"

definition start_bot :: "py_env \<Rightarrow> string \<Rightarrow> string \<Rightarrow> runtime_world \<Rightarrow> (runtime_world, json_row) outcome" where
  "start_bot env bot_id source = transition env bot_id ''RUNNING'' ''START_BOT'' source"

definition stop_bot :: "py_env \<Rightarrow> string \<Rightarrow> string \<Rightarrow> runtime_world \<Rightarrow> (runtime_world, json_row) outcome" where
  "stop_bot env bot_id source = transition env bot_id ''STOPPED'' ''STOP_BOT'' source"

definition pause_bot :: "py_env \<Rightarrow> string \<Rightarrow> string \<Rightarrow> runtime_world \<Rightarrow> (runtime_world, json_row) outcome" where
  "pause_bot env bot_id source = transition env bot_id ''PAUSED'' ''PAUSE_BOT'' source"

definition resume_bot :: "py_env \<Rightarrow> string \<Rightarrow> string \<Rightarrow> runtime_world \<Rightarrow> (runtime_world, json_row) outcome" where
  "resume_bot env bot_id source = transition env bot_id ''RUNNING'' ''RESUME_BOT'' source"

definition restart_bot :: "py_env \<Rightarrow> string \<Rightarrow> string \<Rightarrow> runtime_world \<Rightarrow> (runtime_world, json_row) outcome" where
  "restart_bot env bot_id source w =
     bind_act (transition env bot_id ''STOPPED'' ''RESTART_BOT'' source w)
       (\<lambda>w1 _. transition env bot_id ''RUNNING'' ''RESTART_BOT'' source w1)"

section \<open>Reconciliation and supervision\<close>

definition reconciled_fields :: "py_env \<Rightarrow> reconciliation_plan \<Rightarrow> stability_state \<Rightarrow> string \<Rightarrow> json_row" where
  "reconciled_fields env p s now =
     [(''reconciliation_state'', JText (ss_reconciliation_state s)), (''framework_status'', JText (ss_status s)),
      (''restart_required'', JBool (ss_restart_required s)), (''supervisor_action'', JText (ss_supervisor_action s)),
      (''alert_level'', JText (ss_alert_level s)), (''alert_code'', JText (ss_alert_code s)),
      (''last_framework_reason'', JText (rp_reason p)), (''updated_at'', JText now)]"

definition reconcile_bot ::
    "py_env \<Rightarrow> string \<Rightarrow> pyfloat \<Rightarrow> pyfloat \<Rightarrow> bool \<Rightarrow> bool \<Rightarrow> string \<Rightarrow> runtime_world \<Rightarrow>
     (runtime_world, json_row \<times> reconciliation_plan) outcome" where
  "reconcile_bot env bot_id exchange_qty local_qty protected orders_verified source w0 =
     bind_act (list_bot_states env w0) (\<lambda>w rows.
       case dict_get (states_by_id rows) (JText bot_id) of
         None \<Rightarrow> (w, Inl (KeyError (''Unknown bot: '' @ bot_id)))
       | Some row \<Rightarrow>
           (let (s, p) = restart_reconciliation_plan framework_config exchange_qty local_qty protected orders_verified
                           (new_framework (clock_now env w));
                w1 = tick w; current = dict_update row (reconciled_fields env p s (utc_now_iso env w1));
                w2 = upsert_state current (tick w1); status = str_get env current ''status'' []
            in (write_audit (audit_event (utc_now_iso env w2) source bot_id ''RECONCILE_BOT'' status status (rp_action p) (rp_reason p))
                  (tick w2), Inr (current, p))))"

definition framework_heartbeat ::
    "py_env \<Rightarrow> json_row \<Rightarrow> runtime_world \<Rightarrow> (runtime_world, json_row) outcome" where
  "framework_heartbeat env row w =
     (let last_seen = parse_datetime env (py_str env (j_or (j_get row ''last_heartbeat'' (JText [])) (JText [])));
          now = (\<lambda>i. pe_clock env (rw_clock w + i));
          r = evaluate_supervision framework_config (supervision_of last_seen False)
                \<lparr>ck_heartbeat = now 1, ck_feed = now 1, ck_alert = now 2\<rparr> (new_framework (now 0))
      in case snd r of
           Inl e \<Rightarrow> (w, Inl e)
         | Inr alert \<Rightarrow>
             (let s = heartbeat (now 3) (fst r);
                  row' = dict_update row (framework_fields s @
                    [(''last_heartbeat'', JText (ss_last_heartbeat s)), (''updated_at'', JText (iso (now 4)))]);
                  w1 = upsert_state row' (w\<lparr>rw_clock := rw_clock w + 5\<rparr>)
              in (if sa_level alert \<in> {''WARNING'', ''CRITICAL''} then write_alert (str_get env row' ''bot_id'' []) alert w1 else w1,
                  Inr row')))"

section \<open>The control file\<close>

definition start_runtime :: "py_env \<Rightarrow> string \<Rightarrow> runtime_world \<Rightarrow> runtime_world \<times> json_row" where
  "start_runtime env mode w =
     (let now = JText (utc_now_iso env w);
          state = [(''runtime'', JText ''RUNNING''), (''runtime_mode'', JText (str_upper mode)), (''started_at'', now),
            (''heartbeat_at'', now), (''updated_at'', now)]
      in ((tick w)\<lparr>rw_control := Object state\<rparr>, state))"

definition stop_runtime :: "py_env \<Rightarrow> runtime_world \<Rightarrow> runtime_world \<times> json_row" where
  "stop_runtime env w =
     (let now = JText (utc_now_iso env w);
          state = dict_update (report_object (rw_control w)) [(''runtime'', JText ''STOPPED''), (''heartbeat_at'', now), (''updated_at'', now)]
      in ((tick w)\<lparr>rw_control := Object state\<rparr>, state))"

definition supervise_bot :: "py_env \<Rightarrow> json_row \<Rightarrow> runtime_world \<Rightarrow> (runtime_world, unit) outcome" where
  "supervise_bot env row w =
     (if str_get env row ''status'' [] = ''RUNNING''
      then bind_act (framework_heartbeat env row w) (\<lambda>w1 row'.
             if str_get env row' ''supervisor_action'' [] \<in> {''RESTART'', ''HALT_AND_RESTART''}
             then bind_act (restart_bot env (row_bot_id env row') ''SUPERVISOR'' w1) (\<lambda>w2 _. (w2, Inr ()))
             else (w1, Inr ()))
      else (w, Inr ()))"

definition runtime_heartbeat :: "py_env \<Rightarrow> string \<Rightarrow> runtime_world \<Rightarrow> (runtime_world, json_row) outcome" where
  "runtime_heartbeat env mode w =
     (let (w1, control) = (if str_get env (report_object (rw_control w)) ''runtime'' ''STOPPED'' \<noteq> ''RUNNING''
                           then start_runtime env mode w else (w, report_object (rw_control w)));
          now = JText (utc_now_iso env w1);
          state = dict_update control [(''runtime'', JText ''RUNNING''), (''runtime_mode'', JText (str_upper mode)),
            (''heartbeat_at'', now), (''updated_at'', now)];
          w2 = (tick w1)\<lparr>rw_control := Object state\<rparr>
      in bind_act (list_bot_states env w2) (\<lambda>w3 rows.
         bind_act (for_act (supervise_bot env) rows w3) (\<lambda>w4 _. (w4, Inr state))))"

definition count_rows :: "(json_row \<Rightarrow> bool) \<Rightarrow> json_row list \<Rightarrow> json" where
  "count_rows p rows = JInt (int (length (filter p rows)))"

definition runtime_status :: "py_env \<Rightarrow> runtime_world \<Rightarrow> (runtime_world, json_row) outcome" where
  "runtime_status env w0 =
     bind_act (list_bot_states env w0) (\<lambda>w rows.
       (let control = report_object (rw_control w);
            runtime = str_get env control ''runtime'' ''STOPPED'';
            configured = length (filter (\<lambda>r. dict_get r ''status'' = Some (JText ''RUNNING'')) rows);
            level = (\<lambda>r. str_get env r ''alert_level'' ''INFO'')
        in (tick w, Inr
          [(''runtime'', JText runtime), (''runtime_mode'', JText (str_get env control ''runtime_mode'' ''HEADLESS'')),
           (''running_bots'', JInt (if runtime = ''RUNNING'' then int configured else 0)),
           (''configured_running_bots'', JInt (int configured)),
           (''runtime_state_consistency'', JText (if runtime = ''RUNNING'' \<or> configured = 0 then ''OK''
              else ''STOPPED_WITH_RUNNING_BOT_DEFINITIONS'')),
           (''failed_bots'', count_rows (\<lambda>r. dict_get r ''status'' = Some (JText ''ERROR'')) rows),
           (''alerts'', count_rows (\<lambda>r. level r \<in> {''WARNING'', ''CRITICAL''}) rows),
           (''critical_alerts'', count_rows (\<lambda>r. level r = ''CRITICAL'') rows),
           (''restart_required'', count_rows (\<lambda>r. truthy (j_get r ''restart_required'' (JBool False))) rows),
           (''data_faults'', count_rows (\<lambda>r. str_get env r ''data_state'' ''OK'' \<notin> {''OK'', ''UNKNOWN''}) rows),
           (''reconciliation_faults'', count_rows (\<lambda>r. str_get env r ''reconciliation_state'' ''OK'' \<notin> {''OK'', ''NOT_RUN''}) rows),
           (''llm_state'', JText (llm_state env)), (''runtime_heartbeat'', JText (str_get env control ''heartbeat_at'' [])),
           (''updated_at'', JText (utc_now_iso env w))])))"

end
