(* ===== verification/Runtime_Safety.thy ===== *)
theory Runtime_Safety
  imports Runtime_Manager
begin

text \<open>
  Properties of the runtime manager: what a transition writes, what stays bounded and unique in the report
  files over any sequence of calls, and two places where a transition does not keep what it should.
\<close>

section \<open>Frames\<close>

lemma tick_frame [simp]:
  "rw_bots (tick w) = rw_bots w" "rw_state (tick w) = rw_state w" "rw_control (tick w) = rw_control w"
  "rw_audit (tick w) = rw_audit w" "rw_alerts (tick w) = rw_alerts w" "rw_orders (tick w) = rw_orders w"
  "rw_trade_events (tick w) = rw_trade_events w" "rw_snapshots (tick w) = rw_snapshots w"
  by (simp_all add: tick_def)

lemma list_bot_states_world: "fst (list_bot_states env w) = w\<lparr>rw_clock := rw_clock w + 4 * length (registry_load env (rw_bots w))\<rparr>"
  by (simp add: list_bot_states_def Let_def)

lemma write_audit_frame [simp]:
  "rw_bots (write_audit e w) = rw_bots w" "rw_state (write_audit e w) = rw_state w" "rw_control (write_audit e w) = rw_control w"
  "rw_audit (write_audit e w) = append_json_row audit_limit e (rw_audit w)" "rw_alerts (write_audit e w) = rw_alerts w"
  "rw_orders (write_audit e w) = rw_orders w" "rw_trade_events (write_audit e w) = rw_trade_events w"
  "rw_snapshots (write_audit e w) = rw_snapshots w"
  by (simp_all add: write_audit_def)

lemma upsert_state_frame [simp]:
  "rw_bots (upsert_state r w) = rw_bots w" "rw_control (upsert_state r w) = rw_control w"
  "rw_audit (upsert_state r w) = rw_audit w" "rw_alerts (upsert_state r w) = rw_alerts w" "rw_orders (upsert_state r w) = rw_orders w"
  "rw_trade_events (upsert_state r w) = rw_trade_events w" "rw_snapshots (upsert_state r w) = rw_snapshots w"
  by (simp_all add: upsert_state_def)

lemma patch_frame [simp]:
  "rw_bots (patch_runtime_trade_position env e w) = rw_bots w" "rw_control (patch_runtime_trade_position env e w) = rw_control w"
  "rw_audit (patch_runtime_trade_position env e w) = rw_audit w" "rw_alerts (patch_runtime_trade_position env e w) = rw_alerts w"
  "rw_orders (patch_runtime_trade_position env e w) = rw_orders w"
  "rw_trade_events (patch_runtime_trade_position env e w) = rw_trade_events w"
  "rw_snapshots (patch_runtime_trade_position env e w) = rw_snapshots w"
  by (simp_all add: patch_runtime_trade_position_def Let_def split: option.split)

lemma record_trade_event_frame [simp]:
  "rw_bots (record_trade_event env e w) = rw_bots w" "rw_control (record_trade_event env e w) = rw_control w"
  "rw_audit (record_trade_event env e w) = rw_audit w" "rw_alerts (record_trade_event env e w) = rw_alerts w"
  "rw_orders (record_trade_event env e w) = rw_orders w" "rw_snapshots (record_trade_event env e w) = rw_snapshots w"
  by (simp_all add: record_trade_event_def Let_def)

lemma record_order_frame [simp]:
  "rw_bots (fst (record_order env b c sy side st q p r w)) = rw_bots w"
  "rw_control (fst (record_order env b c sy side st q p r w)) = rw_control w"
  "rw_audit (fst (record_order env b c sy side st q p r w)) = rw_audit w"
  "rw_alerts (fst (record_order env b c sy side st q p r w)) = rw_alerts w"
  by (simp_all add: record_order_def Let_def)

lemma enter_running_frame [simp]:
  "rw_bots (fst (enter_running env now action source c w)) = rw_bots w"
  "rw_control (fst (enter_running env now action source c w)) = rw_control w"
  "rw_audit (fst (enter_running env now action source c w)) = rw_audit w"
  "rw_alerts (fst (enter_running env now action source c w)) = rw_alerts w"
  by (simp_all add: enter_running_def Let_def split: sum.split)

lemma leave_running_frame [simp]:
  "rw_bots (fst (leave_running env now st action source c w)) = rw_bots w"
  "rw_control (fst (leave_running env now st action source c w)) = rw_control w"
  "rw_audit (fst (leave_running env now st action source c w)) = rw_audit w"
  "rw_alerts (fst (leave_running env now st action source c w)) = rw_alerts w"
  "rw_orders (fst (leave_running env now st action source c w)) = rw_orders w"
  by (simp_all add: leave_running_def Let_def split: sum.split)

lemma change_mode_frame [simp]:
  "rw_bots (fst (change_mode env now st action source c w)) = rw_bots w"
  "rw_control (fst (change_mode env now st action source c w)) = rw_control w"
  "rw_audit (fst (change_mode env now st action source c w)) = rw_audit w"
  "rw_alerts (fst (change_mode env now st action source c w)) = rw_alerts w"
  by (simp_all add: change_mode_def)

text \<open>The row either branch returns: status and identifier are those it was given.\<close>

lemma framework_fields_keys [simp]:
  "dict_get (dict_update r (framework_fields s @ kvs)) k =
     dict_get (dict_update (dict_update r (framework_fields s)) kvs) k"
  by (simp add: framework_fields_def)

lemma framework_fields_get:
  "k \<notin> fst ` set (framework_fields s) \<Longrightarrow> dict_get (dict_update r (framework_fields s)) k = dict_get r k"
  by (simp add: framework_fields_def)

lemma enter_running_row:
  assumes "enter_running env now action source c w = (w1, Inr r)"
  shows "dict_get r ''status'' = dict_get c ''status''" "dict_get r ''bot_id'' = dict_get c ''bot_id''"
    "dict_get r ''pnl_since_start'' = Some (JNum (Fin 0))" "dict_get r ''started_at'' = Some (JText now)"
  using assms by (auto simp: enter_running_def Let_def ready_fields_def framework_fields_def split: sum.splits)

lemma leave_running_row:
  "leave_running env now st action source c w = (w1, Inr r) \<Longrightarrow> r = c"
  by (auto simp: leave_running_def Let_def split: sum.splits)

lemma change_mode_row:
  assumes "change_mode env now st action source c w = (w1, Inr r)"
  shows "dict_get r ''status'' = dict_get c ''status''" "dict_get r ''bot_id'' = dict_get c ''bot_id''"
  using assms by (auto dest!: leave_running_row simp: change_mode_def enter_running_row(1,2) split: if_splits)

lemma touched_get [simp]:
  "dict_get (touched env now st c) ''status'' = Some (JText st)" "dict_get (touched env now st c) ''bot_id'' = dict_get c ''bot_id''"
  "dict_get (touched env now st c) ''runtime_position_state'' = dict_get c ''runtime_position_state''"
  by (simp_all add: touched_def)

section \<open>What a transition writes\<close>

lemma update_registry_Inr:
  assumes "update_registry env b state reason w = (w', Inr ())"
  shows "\<exists>f row. update_state env (utc_now_iso env w) b state reason (rw_bots w) = (f, Inr row) \<and> w' = (tick w)\<lparr>rw_bots := f\<rparr>"
  using assms by (cases "update_state env (utc_now_iso env w) b state reason (rw_bots w)")
    (auto simp: update_registry_def Let_def bind_res_eq_Inr)

text \<open>The steps of a transition that returns.\<close>

lemma transition_Inr:
  assumes "transition env b new action source w0 = (w', Inr row)"
  obtains w rows old w1 w2 where "list_bot_states env w0 = (w, Inr rows)" "find_bot b rows = Some old"
    "change_mode env (utc_now_iso env w) new action source (touched env (utc_now_iso env w) new old) (tick w) = (w1, Inr row)"
    "update_registry env (row_bot_id env row) (registry_state_of new) (action @ '' via runtime_manager'') (upsert_state row w1) = (w2, Inr ())"
    "w' = write_audit (audit_event (utc_now_iso env w) source (row_bot_id env row) action (str_get env old ''status'' ''STOPPED'') new
       (if str_get env old ''status'' ''STOPPED'' = new then ''NOOP'' else ''OK'') []) w2"
proof -
  obtain w rows where l: "list_bot_states env w0 = (w, Inr rows)"
    using assms by (cases "list_bot_states env w0"; cases "snd (list_bot_states env w0)") (auto simp: transition_def)
  obtain old where o: "find_bot b rows = Some old"
    using assms by (cases "find_bot b rows") (simp_all add: transition_def l)
  let ?now = "utc_now_iso env w"
  let ?branch = "change_mode env ?now new action source (touched env ?now new old) (tick w)"
  obtain w1 r where b: "?branch = (w1, Inr r)"
    using assms by (cases "?branch"; cases "snd ?branch") (simp_all add: transition_def l o Let_def)
  let ?up = "update_registry env (row_bot_id env r) (registry_state_of new) (action @ '' via runtime_manager'') (upsert_state r w1)"
  obtain w2 u where c: "?up = (w2, Inr u)"
    using assms by (cases ?up; cases "snd ?up") (simp_all add: transition_def l o Let_def b)
  have "row = r" "w' = write_audit (audit_event ?now source (row_bot_id env r) action (str_get env old ''status'' ''STOPPED'') new
       (if str_get env old ''status'' ''STOPPED'' = new then ''NOOP'' else ''OK'') []) w2"
    using assms by (auto simp: transition_def l o Let_def b c)
  then show ?thesis using that[OF l o] b c by simp
qed

lemma last_after_append: "0 < n \<Longrightarrow> last (last_n n (xs @ [x])) = x"
  by (simp add: last_n_snoc)

text \<open>A lifecycle transition that returns was asked of a listed bot. It stores exactly one row for that bot, the
  one it returns, with the new status; it audits the step from the status before, as a no-operation exactly if
  nothing changes; it writes the new state into the registry rows of the bot and into no other row; and it leaves
  the control file and the alerts alone.\<close>

theorem transition_outcome:
  assumes "dict_rows (report_rows (rw_bots w0))" and "transition env b new action source w0 = (w', Inr row)"
  shows "\<exists>rows old. snd (list_bot_states env w0) = Inr rows \<and> find_bot b rows = Some old \<and>
    dict_get row ''status'' = Some (JText new) \<and> dict_get row ''bot_id'' = dict_get old ''bot_id'' \<and>
    last (report_rows (rw_state w')) = row \<and>
    (\<forall>r\<in>set (butlast (report_rows (rw_state w'))). dict_get r ''bot_id'' \<noteq> dict_get row ''bot_id'') \<and>
    (\<exists>now. last (report_rows (rw_audit w')) = audit_event now source (row_bot_id env row) action (str_get env old ''status'' ''STOPPED'')
       new (if str_get env old ''status'' ''STOPPED'' = new then ''NOOP'' else ''OK'') []) \<and>
    (\<exists>now. registry_load env (rw_bots w') = map (\<lambda>r. if matches_bot env (row_bot_id env row) r
       then write_state now (registry_state_of new) (action @ '' via runtime_manager'') r else r) (registry_load env (rw_bots w0))) \<and>
    rw_control w' = rw_control w0 \<and> rw_alerts w' = rw_alerts w0"
proof -
  obtain w rows old w1 w2 where s: "list_bot_states env w0 = (w, Inr rows)" "find_bot b rows = Some old"
    and branch: "change_mode env (utc_now_iso env w) new action source (touched env (utc_now_iso env w) new old) (tick w) = (w1, Inr row)"
    and up: "update_registry env (row_bot_id env row) (registry_state_of new) (action @ '' via runtime_manager'') (upsert_state row w1) = (w2, Inr ())"
    and w': "w' = write_audit (audit_event (utc_now_iso env w) source (row_bot_id env row) action (str_get env old ''status'' ''STOPPED'') new
       (if str_get env old ''status'' ''STOPPED'' = new then ''NOOP'' else ''OK'') []) w2"
    by (rule transition_Inr[OF assms(2)])
  have w: "rw_bots w = rw_bots w0" "rw_control w = rw_control w0" "rw_alerts w = rw_alerts w0"
    using list_bot_states_world[of env w0] s(1) by auto
  let ?c = "touched env (utc_now_iso env w) new old"
  have row: "dict_get row ''status'' = Some (JText new)" "dict_get row ''bot_id'' = dict_get old ''bot_id''"
    using change_mode_row[OF branch] by simp_all
  have w1: "rw_bots w1 = rw_bots w" "rw_control w1 = rw_control w" "rw_alerts w1 = rw_alerts w"
    using arg_cong[OF branch, of "\<lambda>r. rw_bots (fst r)"] arg_cong[OF branch, of "\<lambda>r. rw_control (fst r)"]
      arg_cong[OF branch, of "\<lambda>r. rw_alerts (fst r)"] by (auto split: if_splits)
  obtain f r2 where f: "update_state env (utc_now_iso env (upsert_state row w1)) (row_bot_id env row) (registry_state_of new)
      (action @ '' via runtime_manager'') (rw_bots w0) = (f, Inr r2)" "w2 = (tick (upsert_state row w1))\<lparr>rw_bots := f\<rparr>"
    using update_registry_Inr[OF up] w(1) w1(1) by auto
  have reload: "registry_load env f = map (\<lambda>r. if matches_bot env (row_bot_id env row) r
       then write_state (utc_now_iso env (upsert_state row w1)) (registry_state_of new) (action @ '' via runtime_manager'') r else r)
       (registry_load env (rw_bots w0))"
    using registry_update_reloads[OF assms(1) f(1)] by blast
  have state: "report_rows (rw_state w') =
      filter (\<lambda>r. dict_get r ''bot_id'' \<noteq> dict_get row ''bot_id'') (report_rows (rw_state w1)) @ [row]"
    by (simp add: w' f(2) upsert_state_def)
  have audit: "last (report_rows (rw_audit w')) = audit_event (utc_now_iso env w) source (row_bot_id env row) action
      (str_get env old ''status'' ''STOPPED'') new (if str_get env old ''status'' ''STOPPED'' = new then ''NOOP'' else ''OK'') []"
    by (simp add: w' last_after_append audit_limit_def)
  have rest: "rw_control w' = rw_control w0" "rw_alerts w' = rw_alerts w0" "rw_bots w' = f"
    by (simp_all add: w' f(2) w1 w)
  have a: "\<exists>now. last (report_rows (rw_audit w')) = audit_event now source (row_bot_id env row) action
      (str_get env old ''status'' ''STOPPED'') new (if str_get env old ''status'' ''STOPPED'' = new then ''NOOP'' else ''OK'') []"
    by (rule exI[of _ "utc_now_iso env w"]) (rule audit)
  have l: "\<exists>now. registry_load env (rw_bots w') = map (\<lambda>r. if matches_bot env (row_bot_id env row) r
       then write_state now (registry_state_of new) (action @ '' via runtime_manager'') r else r) (registry_load env (rw_bots w0))"
    unfolding rest(3) by (rule exI[of _ "utc_now_iso env (upsert_state row w1)"]) (rule reload)
  have u: "last (report_rows (rw_state w')) = row"
      "\<forall>r\<in>set (butlast (report_rows (rw_state w'))). dict_get r ''bot_id'' \<noteq> dict_get row ''bot_id''"
    by (simp_all add: state)
  show ?thesis
    by (intro exI[of _ rows] exI[of _ old] conjI) (rule s(2) row a l u rest(1,2) | simp only: s(1) snd_conv)+
qed

section \<open>Bounded logs, one row per bot\<close>

definition runtime_wf :: "runtime_world \<Rightarrow> bool" where
  "runtime_wf w \<longleftrightarrow> length (report_rows (rw_audit w)) \<le> audit_limit \<and> length (report_rows (rw_alerts w)) \<le> alerts_limit \<and>
     length (report_rows (rw_orders w)) \<le> orders_limit \<and> length (report_rows (rw_trade_events w)) \<le> trade_events_limit \<and>
     length (report_rows (rw_snapshots w)) \<le> trade_events_limit \<and>
     distinct (map (\<lambda>r. dict_get r ''bot_id'') (report_rows (rw_state w)))"

lemma runtime_wf_frame [simp]:
  "runtime_wf (tick w) = runtime_wf w" "runtime_wf (w\<lparr>rw_clock := n\<rparr>) = runtime_wf w" "runtime_wf (w\<lparr>rw_bots := f\<rparr>) = runtime_wf w"
  "runtime_wf (w\<lparr>rw_control := f\<rparr>) = runtime_wf w"
  "runtime_wf w \<Longrightarrow> runtime_wf (w\<lparr>rw_orders := append_json_row orders_limit e f\<rparr>)"
  "runtime_wf w \<Longrightarrow> runtime_wf (w\<lparr>rw_trade_events := append_json_row trade_events_limit e f\<rparr>)"
  "runtime_wf w \<Longrightarrow> runtime_wf (w\<lparr>rw_snapshots := append_json_row trade_events_limit e f\<rparr>)"
  "runtime_wf w \<Longrightarrow> runtime_wf (write_audit e w)" "runtime_wf w \<Longrightarrow> runtime_wf (write_alert b a w)"
  by (simp_all add: runtime_wf_def tick_def write_alert_def)

lemma upsert_state_wf [simp]:
  assumes "runtime_wf w"
  shows "runtime_wf (upsert_state r w)"
  using assms by (auto simp: runtime_wf_def upsert_state_def distinct_map inj_on_def)

lemma patch_keeps_ids: "position_patch env e = Some p \<Longrightarrow> dict_get (dict_update r p) ''bot_id'' = dict_get r ''bot_id''"
  by (auto simp: position_patch_def Let_def split: if_splits)

lemma patch_wf [simp]:
  assumes "runtime_wf w"
  shows "runtime_wf (patch_runtime_trade_position env e w)"
proof (cases "position_patch env e")
  case (Some p)
  have "map (\<lambda>r. dict_get (if of_bot env e r then dict_update r p else r) ''bot_id'') rows = map (\<lambda>r. dict_get r ''bot_id'') rows" for rows
    using patch_keeps_ids[OF Some] by simp
  from this[of "report_rows (rw_state w)"] show ?thesis using assms Some
    by (simp add: runtime_wf_def patch_runtime_trade_position_def Let_def comp_def del: map_eq_conv)
qed (use assms in \<open>simp add: patch_runtime_trade_position_def\<close>)

lemma record_trade_event_wf [simp]: "runtime_wf w \<Longrightarrow> runtime_wf (record_trade_event env e w)"
  by (simp add: record_trade_event_def Let_def)

lemma record_order_wf [simp]: "runtime_wf w \<Longrightarrow> runtime_wf (fst (record_order env b c sy side st q p r w))"
  by (simp add: record_order_def Let_def)

lemma snapshot_wf [simp]: "runtime_wf w \<Longrightarrow> runtime_wf (fst (record_trade_pnl_snapshot env b t sy vs st w))"
  by (simp add: record_trade_pnl_snapshot_def Let_def)

lemma list_bot_states_wf [simp]: "runtime_wf (fst (list_bot_states env w)) = runtime_wf w"
  by (simp add: list_bot_states_world)

lemma branch_wf [simp]:
  "runtime_wf w \<Longrightarrow> runtime_wf (fst (enter_running env now action source c w))"
  "runtime_wf w \<Longrightarrow> runtime_wf (fst (leave_running env now st action source c w))"
  "runtime_wf w \<Longrightarrow> runtime_wf (fst (change_mode env now st action source c w))"
  by (simp_all add: change_mode_def enter_running_def leave_running_def Let_def split: sum.split)

lemma update_registry_wf [simp]: "runtime_wf w \<Longrightarrow> runtime_wf (fst (update_registry env b st r w))"
  by (simp add: update_registry_def Let_def)

text \<open>A sequence keeps what its first part and every continuation keep.\<close>

lemma bind_act_keeps:
  "runtime_wf (fst m) \<Longrightarrow> (\<And>s x. runtime_wf s \<Longrightarrow> runtime_wf (fst (f s x))) \<Longrightarrow> runtime_wf (fst (bind_act m f))"
  by (cases m; cases "snd m") auto

lemma transition_wf [simp]:
  assumes "runtime_wf w"
  shows "runtime_wf (fst (transition env b new action source w))"
  unfolding transition_def Let_def
proof (rule bind_act_keeps)
  fix s :: runtime_world and rows :: "json_row list" assume s: "runtime_wf s"
  show "runtime_wf (fst (case find_bot b rows of None \<Rightarrow> (s, Inl (KeyError (''Unknown bot: '' @ b)))
      | Some row \<Rightarrow> bind_act (change_mode env (utc_now_iso env s) new action source (touched env (utc_now_iso env s) new row) (tick s))
         (\<lambda>w1 done_row. bind_act (update_registry env (row_bot_id env done_row) (registry_state_of new) (action @ '' via runtime_manager'')
               (upsert_state done_row w1))
            (\<lambda>w2 _. (write_audit (audit_event (utc_now_iso env s) source (row_bot_id env done_row) action (str_get env row ''status'' ''STOPPED'')
               new (if str_get env row ''status'' ''STOPPED'' = new then ''NOOP'' else ''OK'') []) w2, Inr done_row)))))"
    by (cases "find_bot b rows") (use s in \<open>simp_all add: bind_act_keeps\<close>)
qed (use assms in simp)

lemma restart_wf [simp]: "runtime_wf w \<Longrightarrow> runtime_wf (fst (restart_bot env b source w))"
  unfolding restart_bot_def by (intro bind_act_keeps) simp_all

lemma framework_heartbeat_wf [simp]: "runtime_wf w \<Longrightarrow> runtime_wf (fst (framework_heartbeat env r w))"
  by (simp add: framework_heartbeat_def Let_def split: sum.split)

lemma supervise_bot_wf [simp]: "runtime_wf w \<Longrightarrow> runtime_wf (fst (supervise_bot env r w))"
  unfolding supervise_bot_def by (simp add: bind_act_keeps)

lemma reconcile_wf [simp]: "runtime_wf w \<Longrightarrow> runtime_wf (fst (reconcile_bot env b eq lq p oo source w))"
  unfolding reconcile_bot_def by (intro bind_act_keeps) (auto simp: Let_def split: option.split prod.split)

lemma start_stop_wf [simp]:
  "runtime_wf (fst (start_runtime env mode w)) = runtime_wf w" "runtime_wf (fst (stop_runtime env w)) = runtime_wf w"
  by (simp_all add: start_runtime_def stop_runtime_def Let_def)

lemma supervise_all_wf [simp]: "runtime_wf w \<Longrightarrow> runtime_wf (fst (for_act (supervise_bot env) rows w))"
  by (rule for_act_invariant[where P = runtime_wf]) simp_all

lemma runtime_heartbeat_wf [simp]:
  assumes "runtime_wf w"
  shows "runtime_wf (fst (runtime_heartbeat env mode w))"
proof -
  obtain v c where vc: "(if str_get env (report_object (rw_control w)) ''runtime'' ''STOPPED'' \<noteq> ''RUNNING''
      then start_runtime env mode w else (w, report_object (rw_control w))) = (v, c)" by (rule prod.exhaust)
  have v: "runtime_wf v"
    using assms arg_cong[OF vc, of "\<lambda>r. runtime_wf (fst r)"] by (simp split: if_splits)
  show ?thesis
    unfolding runtime_heartbeat_def Let_def vc prod.case by (intro bind_act_keeps) (simp_all add: v)
qed

text \<open>Any call of the manager, by any caller.\<close>

inductive runtime_step :: "py_env \<Rightarrow> runtime_world \<Rightarrow> runtime_world \<Rightarrow> bool" for env where
  "runtime_step env w (fst (start_runtime env mode w))"
| "runtime_step env w (fst (stop_runtime env w))"
| "runtime_step env w (fst (runtime_heartbeat env mode w))"
| "runtime_step env w (fst (runtime_status env w))"
| "runtime_step env w (fst (start_bot env b source w))"
| "runtime_step env w (fst (stop_bot env b source w))"
| "runtime_step env w (fst (pause_bot env b source w))"
| "runtime_step env w (fst (resume_bot env b source w))"
| "runtime_step env w (fst (restart_bot env b source w))"
| "runtime_step env w (fst (reconcile_bot env b eq lq p oo source w))"
| "runtime_step env w (fst (record_order env b c sy side st q pr reason w))"
| "runtime_step env w (record_trade_event env e w)"
| "runtime_step env w (fst (record_trade_pnl_snapshot env b t sy vs lc w))"

lemma runtime_status_wf [simp]: "runtime_wf w \<Longrightarrow> runtime_wf (fst (runtime_status env w))"
  unfolding runtime_status_def by (intro bind_act_keeps) (simp_all add: Let_def)

lemma runtime_step_wf: "runtime_step env w w' \<Longrightarrow> runtime_wf w \<Longrightarrow> runtime_wf w'"
  by (induction rule: runtime_step.induct) (simp_all add: start_bot_def stop_bot_def pause_bot_def resume_bot_def)

definition fresh_world :: "report \<Rightarrow> runtime_world" where
  "fresh_world bots = \<lparr>rw_clock = 0, rw_bots = bots, rw_state = Missing, rw_control = Missing, rw_audit = Missing,
     rw_alerts = Missing, rw_orders = Missing, rw_trade_events = Missing, rw_snapshots = Missing\<rparr>"

text \<open>\<open>C19\<close>: Whatever calls are made of the manager from empty reports, no log grows past its limit and the state file
  holds at most one row per bot identifier.\<close>

theorem runtime_reports_bounded:
  assumes "(runtime_step env)\<^sup>*\<^sup>* (fresh_world bots) w"
  shows "length (report_rows (rw_audit w)) \<le> 500 \<and> length (report_rows (rw_alerts w)) \<le> 1000 \<and>
    length (report_rows (rw_orders w)) \<le> 5000 \<and> length (report_rows (rw_trade_events w)) \<le> 10000 \<and>
    length (report_rows (rw_snapshots w)) \<le> 10000 \<and>
    distinct (map (\<lambda>r. dict_get r ''bot_id'') (report_rows (rw_state w)))"
proof -
  have "runtime_wf (fresh_world bots)" by (simp add: runtime_wf_def fresh_world_def report_rows_def)
  with assms have "runtime_wf w" by (induction rule: rtranclp_induct) (simp_all add: runtime_step_wf)
  then show ?thesis
    by (simp add: runtime_wf_def audit_limit_def alerts_limit_def orders_limit_def trade_events_limit_def)
qed

section \<open>Two things a transition loses\<close>

lemma record_trade_event_log [simp]:
  "report_rows (rw_trade_events (record_trade_event env e w)) =
     last_n trade_events_limit (report_rows (rw_trade_events w) @ [trade_event_row (utc_now_iso env w) (utc_now_iso env (tick w)) e])"
  by (simp add: record_trade_event_def Let_def)

lemma enter_running_audit:
  assumes "enter_running env now action source c w = (w1, Inr r)"
  shows "dict_get (last (report_rows (rw_orders w1))) ''status'' = Some (JText ''STARTED'')"
  using assms by (auto simp: enter_running_def Let_def record_order_def order_event_row_def record_order_lifecycle_def
      last_after_append orders_limit_def split: sum.splits)

lemma update_registry_frame [simp]:
  "rw_orders (fst (update_registry env b st r w)) = rw_orders w"
  "rw_trade_events (fst (update_registry env b st r w)) = rw_trade_events w"
  "rw_state (fst (update_registry env b st r w)) = rw_state w" "rw_audit (fst (update_registry env b st r w)) = rw_audit w"
  by (simp_all add: update_registry_def Let_def)

text \<open>Starting a bot that already runs is audited as a no-operation, yet it zeroes the profit since start, moves
  the start time and records another STARTED order.\<close>

theorem noop_start_resets_the_bot:
  assumes "transition env b ''RUNNING'' action source w0 = (w', Inr row)" and "snd (list_bot_states env w0) = Inr rows"
    and "find_bot b rows = Some old" and "str_get env old ''status'' ''STOPPED'' = ''RUNNING''"
  shows "dict_get (last (report_rows (rw_audit w'))) ''result'' = Some (JText ''NOOP'') \<and>
    dict_get (last (report_rows (rw_state w'))) ''pnl_since_start'' = Some (JNum (Fin 0)) \<and>
    dict_get (last (report_rows (rw_state w'))) ''started_at'' = Some (JText (utc_now_iso env (fst (list_bot_states env w0)))) \<and>
    dict_get (last (report_rows (rw_orders w'))) ''status'' = Some (JText ''STARTED'')"
proof -
  obtain w rows' old' w1 w2 where s: "list_bot_states env w0 = (w, Inr rows')" "find_bot b rows' = Some old'"
    and mode: "change_mode env (utc_now_iso env w) ''RUNNING'' action source (touched env (utc_now_iso env w) ''RUNNING'' old') (tick w) = (w1, Inr row)"
    and up: "update_registry env (row_bot_id env row) (registry_state_of ''RUNNING'') (action @ '' via runtime_manager'') (upsert_state row w1) = (w2, Inr ())"
    and w': "w' = write_audit (audit_event (utc_now_iso env w) source (row_bot_id env row) action (str_get env old' ''status'' ''STOPPED'') ''RUNNING''
       (if str_get env old' ''status'' ''STOPPED'' = ''RUNNING'' then ''NOOP'' else ''OK'') []) w2"
    by (rule transition_Inr[OF assms(1)])
  have branch: "enter_running env (utc_now_iso env w) action source (touched env (utc_now_iso env w) ''RUNNING'' old') (tick w) = (w1, Inr row)"
    using mode by (simp add: change_mode_def)
  have old: "old' = old" using s assms(2,3) by simp
  have st: "rw_state w2 = rw_state (upsert_state row w1)" "rw_orders w2 = rw_orders w1"
    using arg_cong[OF up, of "\<lambda>r. rw_state (fst r)"] arg_cong[OF up, of "\<lambda>r. rw_orders (fst r)"] by simp_all
  have "last (report_rows (rw_state w')) = row" by (simp add: w' st upsert_state_def)
  then show ?thesis
    using enter_running_row(3,4)[OF branch] enter_running_audit[OF branch] s(1) assms(4)
    by (simp add: w' st last_after_append audit_limit_def audit_event_def old)
qed

text \<open>Stopping a bot records a trade event that asks for the position to be marked as out of trade, but the mark is
  lost: the row the transition read before is written over the patched one, so the stored position is the old one.\<close>

theorem stop_keeps_a_stale_position:
  assumes "transition env b ''STOPPED'' action source w0 = (w', Inr row)" and "snd (list_bot_states env w0) = Inr rows"
    and "find_bot b rows = Some old"
  shows "dict_get (last (report_rows (rw_state w'))) ''runtime_position_state'' = dict_get old ''runtime_position_state'' \<and>
    (\<exists>event patch. last (report_rows (rw_trade_events w')) = event \<and> position_patch env event = Some patch \<and>
       dict_get patch ''runtime_position_state'' = Some (JText ''OUT_OF_TRADE''))"
proof -
  obtain w rows' old' w1 w2 where s: "list_bot_states env w0 = (w, Inr rows')" "find_bot b rows' = Some old'"
    and mode: "change_mode env (utc_now_iso env w) ''STOPPED'' action source (touched env (utc_now_iso env w) ''STOPPED'' old') (tick w) = (w1, Inr row)"
    and up: "update_registry env (row_bot_id env row) (registry_state_of ''STOPPED'') (action @ '' via runtime_manager'') (upsert_state row w1) = (w2, Inr ())"
    and w': "w' = write_audit (audit_event (utc_now_iso env w) source (row_bot_id env row) action (str_get env old' ''status'' ''STOPPED'') ''STOPPED''
       (if str_get env old' ''status'' ''STOPPED'' = ''STOPPED'' then ''NOOP'' else ''OK'') []) w2"
    by (rule transition_Inr[OF assms(1)])
  have branch: "leave_running env (utc_now_iso env w) ''STOPPED'' action source (touched env (utc_now_iso env w) ''STOPPED'' old') (tick w) = (w1, Inr row)"
    using mode by (simp add: change_mode_def)
  have old: "old' = old" using s assms(2,3) by simp
  have st: "rw_state w2 = rw_state (upsert_state row w1)" "rw_trade_events w2 = rw_trade_events w1"
    using arg_cong[OF up, of "\<lambda>r. rw_state (fst r)"] arg_cong[OF up, of "\<lambda>r. rw_trade_events (fst r)"] by simp_all
  have row: "row = touched env (utc_now_iso env w) ''STOPPED'' old" using leave_running_row[OF branch] old by simp
  have "last (report_rows (rw_state w')) = row" by (simp add: w' st upsert_state_def)
  moreover have "\<exists>event patch. last (report_rows (rw_trade_events w1)) = event \<and> position_patch env event = Some patch \<and>
       dict_get patch ''runtime_position_state'' = Some (JText ''OUT_OF_TRADE'')"
    using branch by (auto simp: leave_running_def Let_def last_after_append trade_events_limit_def position_patch_def
        trade_event_row_def str_get_def dict_get_or_def trade_lifecycle_state_def str_upper_def upper_char_def is_lower_def ord_of_def
        split: sum.splits)
  ultimately show ?thesis by (simp add: w' st row)
qed

section \<open>A world with one bot in a trade\<close>

definition trading_world :: runtime_world where
  "trading_world = (fresh_world example_registry)\<lparr>rw_state := Rows [[(''bot_id'', JText ''alpha''), (''status'', JText ''RUNNING''),
     (''pnl_since_start'', JNum (Fin 5)), (''runtime_position_state'', JText ''IN_TRADE'')]]\<rparr>"

definition example_bot :: json_row where
  "example_bot = [(''bot_id'', JText ''alpha''), (''name'', JText ''Alpha''), (''state'', JText ''STOPPED''),
     (''strategy'', JText ''Existing Momentum''), (''symbol'', JText []), (''timeframe'', JText ''1h''), (''capital'', JNum (Fin 250)),
     (''parameters'', JNum NaN), (''status_reason'', JText []), (''deployed_at'', JText []), (''heartbeat_at'', JText []),
     (''created_at'', JText []), (''updated_at'', JText []), (''description'', JText []), (''mode'', JText ''PAPER'')]"

lemma example_loaded: "registry_load example_env example_registry = [example_bot]"
  by code_simp

lemma bot_runtime_state_absent: "dict_get (bot_runtime_state now) ''capital'' = None" "dict_get (bot_runtime_state now) ''runtime_position_state'' = None"
  by (simp_all add: bot_runtime_state_def)

lemma example_listed:
  "\<exists>w row. list_bot_states example_env trading_world = (w, Inr [row]) \<and> rw_bots w = example_registry \<and>
     dict_get row ''bot_id'' = Some (JText ''alpha'') \<and> dict_get row ''status'' = Some (JText ''RUNNING'') \<and>
     dict_get row ''runtime_position_state'' = Some (JText ''IN_TRADE'') \<and> dict_get row ''pnl_since_start'' = Some (JNum (Fin 5)) \<and>
     dict_get row ''runtime_entry_price'' = Some (JNum (Fin 0)) \<and> dict_get row ''capital'' = None"
proof -
  have p: "persisted_rows trading_world = [(JText ''alpha'', [(''bot_id'', JText ''alpha''), (''status'', JText ''RUNNING''),
     (''pnl_since_start'', JNum (Fin 5)), (''runtime_position_state'', JText ''IN_TRADE'')])]"
    by (simp add: persisted_rows_def trading_world_def dict_get_or_def)
  have e: "runtime_entry_price example_env example_bot kept = Inr (Fin 0)" if "dict_get kept ''runtime_entry_price'' = None" for kept
    using that by (simp add: runtime_entry_price_def float_get_def dict_get_or_def truthy_def example_bot_def j_or_def)
  have cells: "dict_get example_bot ''bot_id'' = Some (JText ''alpha'')" "dict_get example_bot ''name'' = Some (JText ''Alpha'')"
    "dict_get example_bot ''state'' = Some (JText ''STOPPED'')" "dict_get example_bot ''strategy'' = Some (JText ''Existing Momentum'')"
    "dict_get example_bot ''symbol'' = Some (JText [])" "dict_get example_bot ''timeframe'' = Some (JText ''1h'')"
    "dict_get example_bot ''heartbeat_at'' = Some (JText [])" "dict_get example_bot ''deployed_at'' = Some (JText [])"
    by (simp_all add: example_bot_def)
  have f: "\<exists>s. listed_framework example_env n example_bot = Inr s" for n
    by (simp add: listed_framework_def example_bot_def str_get_def dict_get_or_def Let_def)
  obtain s where s: "listed_framework example_env 0 example_bot = Inr s" using f by (rule exE)
  have "\<exists>row. listed_row example_env (persisted_rows trading_world) 0 example_bot = Inr row \<and>
     dict_get row ''bot_id'' = Some (JText ''alpha'') \<and> dict_get row ''status'' = Some (JText ''RUNNING'') \<and>
     dict_get row ''runtime_position_state'' = Some (JText ''IN_TRADE'') \<and> dict_get row ''pnl_since_start'' = Some (JNum (Fin 5)) \<and>
     dict_get row ''runtime_entry_price'' = Some (JNum (Fin 0)) \<and> dict_get row ''capital'' = None"
    by (simp add: listed_row_def s p e float_get_def j_or_def truthy_def dict_get_or_def j_at_def cells framework_fields_def Let_def
        bot_runtime_state_absent)
  then show ?thesis
    using list_bot_states_world[of example_env trading_world]
    by (auto simp: list_bot_states_def Let_def trading_world_def fresh_world_def example_loaded enumerate_eq_zip)
qed

lemma find_single: "dict_get row ''bot_id'' = Some (JText b) \<Longrightarrow> find_bot b [row] = Some row"
  by (simp add: find_bot_def states_by_id_def dict_get_or_def)

text \<open>A transition of a listed, registered bot with readable prices returns.\<close>

lemma transition_returns:
  assumes "list_bot_states env w0 = (w, Inr rows)" and "find_bot b rows = Some old"
    and "float_get env old ''runtime_entry_price'' = Inr p" and "float_get env old ''capital'' = Inr c"
    and "dict_get old ''bot_id'' = Some (JText i)"
    and "\<And>now st reason. is_ok (snd (update_state env now i st reason (rw_bots w)))"
  shows "\<exists>w' row. transition env b new action source w0 = (w', Inr row)"
proof -
  let ?now = "utc_now_iso env w" let ?c = "touched env ?now new old"
  have f: "float_get env ?c k = float_get env old k" if "k \<in> {''runtime_entry_price'', ''capital''}" for k
    using that by (auto simp: float_get_def dict_get_or_def touched_def)
  have "\<exists>w1 r. change_mode env ?now new action source ?c (tick w) = (w1, Inr r)"
    using f assms(3,4) by (auto simp: change_mode_def leave_running_def enter_running_def Let_def float_get_def dict_get_or_def
        ready_fields_def framework_fields_def split: sum.split)
  then obtain w1 r where m: "change_mode env ?now new action source ?c (tick w) = (w1, Inr r)" by (elim exE)
  have i: "row_bot_id env r = i" using change_mode_row(2)[OF m] assms(5) by (simp add: row_bot_id_def dict_get_or_def)
  have "rw_bots w1 = rw_bots w" using arg_cong[OF m, of "\<lambda>r. rw_bots (fst r)"] by simp
  moreover have "bind_res (snd (update_state env n i st reason (rw_bots w))) (\<lambda>_. Inr ()) = Inr ()" for n st reason
    using assms(6)[of n st reason] by (cases "snd (update_state env n i st reason (rw_bots w))") simp_all
  ultimately have "\<exists>w2. update_registry env i st reason (upsert_state r w1) = (w2, Inr ())" for st reason
    by (simp add: update_registry_def Let_def)
  then show ?thesis by (simp add: transition_def assms(1,2) Let_def m i) (metis bind_act_simps(2))
qed

lemma example_updates: "is_ok (snd (update_state example_env now ''alpha'' st reason example_registry))"
proof -
  have n: "normalize example_env [example_bot] = [example_bot]" "\<not> frame_empty [example_bot]" by code_simp+
  have m: "matches_bot example_env ''alpha'' example_bot" by code_simp
  show ?thesis by (simp add: update_state_def example_loaded n m)
qed

lemma example_transition: "\<exists>w' row. transition example_env ''alpha'' new action source trading_world = (w', Inr row)"
proof -
  obtain w row where l: "list_bot_states example_env trading_world = (w, Inr [row])" "rw_bots w = example_registry"
      "dict_get row ''bot_id'' = Some (JText ''alpha'')" "dict_get row ''runtime_entry_price'' = Some (JNum (Fin 0))"
      "dict_get row ''capital'' = None"
    using example_listed by (elim exE conjE) (rule that)
  show ?thesis
    using l example_updates by (intro transition_returns[OF l(1) find_single[OF l(3)], of "Fin 0" "Fin 0" "''alpha''"])
      (simp_all add: float_get_def dict_get_or_def j_or_def truthy_def)
qed

theorem noop_start_resets_the_bot_witness:
  "\<exists>w' row. transition example_env ''alpha'' ''RUNNING'' ''START_BOT'' ''CLI'' trading_world = (w', Inr row) \<and>
     dict_get (last (report_rows (rw_audit w'))) ''result'' = Some (JText ''NOOP'') \<and>
     dict_get (last (report_rows (rw_state w'))) ''pnl_since_start'' = Some (JNum (Fin 0))"
proof -
  obtain w row where l: "list_bot_states example_env trading_world = (w, Inr [row])"
      "dict_get row ''bot_id'' = Some (JText ''alpha'')" "dict_get row ''status'' = Some (JText ''RUNNING'')"
    using example_listed by (elim exE conjE) (rule that)
  obtain w' r where t: "transition example_env ''alpha'' ''RUNNING'' ''START_BOT'' ''CLI'' trading_world = (w', Inr r)"
    by (rule exE[OF example_transition]) (erule exE)
  have "snd (list_bot_states example_env trading_world) = Inr [row]" "str_get example_env row ''status'' ''STOPPED'' = ''RUNNING''"
    using l by (simp_all add: str_get_def dict_get_or_def)
  from noop_start_resets_the_bot[OF t this(1) find_single[OF l(2)] this(2)] t show ?thesis by auto
qed

theorem stop_keeps_a_stale_position_witness:
  "\<exists>w' row. transition example_env ''alpha'' ''STOPPED'' ''STOP_BOT'' ''CLI'' trading_world = (w', Inr row) \<and>
     dict_get (last (report_rows (rw_state w'))) ''runtime_position_state'' = Some (JText ''IN_TRADE'')"
proof -
  obtain w row where l: "list_bot_states example_env trading_world = (w, Inr [row])"
      "dict_get row ''bot_id'' = Some (JText ''alpha'')" "dict_get row ''runtime_position_state'' = Some (JText ''IN_TRADE'')"
    using example_listed by (elim exE conjE) (rule that)
  obtain w' r where t: "transition example_env ''alpha'' ''STOPPED'' ''STOP_BOT'' ''CLI'' trading_world = (w', Inr r)"
    by (rule exE[OF example_transition]) (erule exE)
  have "snd (list_bot_states example_env trading_world) = Inr [row]" using l by simp
  from stop_keeps_a_stale_position[OF t this find_single[OF l(2)]] t l(3) show ?thesis by auto
qed

theorem transition_outcome_witness:
  "\<exists>w' row. transition example_env ''alpha'' ''PAUSED'' ''PAUSE_BOT'' ''CLI'' trading_world = (w', Inr row) \<and>
     dict_get row ''status'' = Some (JText ''PAUSED'') \<and> last (report_rows (rw_state w')) = row"
proof -
  obtain w' r where t: "transition example_env ''alpha'' ''PAUSED'' ''PAUSE_BOT'' ''CLI'' trading_world = (w', Inr r)"
    by (rule exE[OF example_transition]) (erule exE)
  have "dict_rows (report_rows (rw_bots trading_world))"
    by (simp add: dict_rows_def trading_world_def fresh_world_def example_registry_def)
  from transition_outcome[OF this t] t show ?thesis by auto
qed

theorem runtime_reports_bounded_witness:
  "\<exists>w. (runtime_step example_env)\<^sup>*\<^sup>* (fresh_world example_registry) w \<and> rw_trade_events w \<noteq> Missing \<and>
     length (report_rows (rw_trade_events w)) \<le> 10000"
proof -
  fix e
  let ?w = "record_trade_event example_env e (fresh_world example_registry)"
  have r: "(runtime_step example_env)\<^sup>*\<^sup>* (fresh_world example_registry) ?w" by (auto intro: runtime_step.intros)
  have "rw_trade_events ?w \<noteq> Missing" by (simp add: record_trade_event_def Let_def append_json_row_def)
  with runtime_reports_bounded[OF r] r show ?thesis by blast
qed

end
