(* ===== verification/Message_Log.thy ===== *)
theory Message_Log
  imports Prelude
begin

text \<open>
  The contract of a receiver that recognises messages by name: a message it knows changes nothing, and nothing it
  knows is forgotten. The command bus and the event table of the bot repository provide it; what follows for any
  sequence of messages is proved here once.
\<close>

fun first_by :: "('m \<Rightarrow> 'k) \<Rightarrow> 'k set \<Rightarrow> 'm list \<Rightarrow> 'm list" where
  "first_by name seen [] = []"
| "first_by name seen (m # ms) =
     (if name m \<in> seen then first_by name seen ms else m # first_by name (insert (name m) seen) ms)"

lemma first_by_names: "name ` set (first_by name seen ms) = name ` set ms - seen"
  by (induction ms arbitrary: seen) auto

lemma first_by_distinct: "distinct (map name (first_by name seen ms))"
proof (induction ms arbitrary: seen)
  case (Cons m ms)
  have "name m \<notin> name ` set (first_by name (insert (name m) seen) ms)" by (simp add: first_by_names)
  with Cons show ?case by auto
qed simp

locale message_log =
  fixes name :: "'m \<Rightarrow> 'k" and known :: "'s \<Rightarrow> 'k set" and receive :: "'m \<Rightarrow> 's \<Rightarrow> 's"
  assumes repeated: "name m \<in> known s \<Longrightarrow> receive m s = s"
    and kept: "known s \<subseteq> known (receive m s)"
begin

lemma kept_over: "known s \<subseteq> known (fold receive ms s)"
  by (induction ms arbitrary: s) (use kept in fastforce)+

lemma repeated_later: "name m \<in> known s \<Longrightarrow> receive m (fold receive ms s) = fold receive ms s"
  using kept_over repeated by blast

end

text \<open>A receiver that also remembers every message it was given.\<close>

locale remembering_log = message_log +
  assumes remembers: "known (receive m s) = insert (name m) (known s)"
begin

lemma only_first_messages_count: "fold receive ms s = fold receive (first_by name (known s) ms) s"
proof (induction ms arbitrary: s)
  case (Cons m ms)
  then show ?case by (cases "name m \<in> known s") (simp_all add: repeated remembers)
qed simp

lemma received_once: "m \<in> set ms \<Longrightarrow> receive m (fold receive ms s) = fold receive ms s"
proof (rule repeated)
  have "known (fold receive ms s) = name ` set ms \<union> known s" by (induction ms arbitrary: s) (auto simp: remembers)
  then show "m \<in> set ms \<Longrightarrow> name m \<in> known (fold receive ms s)" by simp
qed

end

end
