(* ===== verification/Runtime_Control.thy ===== *)
theory Runtime_Control
  imports Runtime_Safety Message_Log
begin

text \<open>
  The command bus shared by the admin screens and the command line (\<open>runtime/command_bus.py\<close>), the process
  supervisor, the headless service loop (\<open>runtime/headless_service.py\<close>) and the exit code of the command line
  (\<open>runtime/__main__.py\<close>, after argument parsing). A command id already seen is answered without being run.
  The service loop is a \<open>partial_function\<close>: it may run for ever, so that it ends is a theorem. What other
  processes do to the files during a wait, and the signals, are parameters.
\<close>

section \<open>Command bus\<close>

record runtime_command =
  cm_action :: string
  cm_bot_id :: string
  cm_source :: string
  cm_payload :: json_row
  cm_command_id :: string

record command_result =
  cr_command_id :: string
  cr_action :: string
  cr_ok :: bool
  cr_message :: string
  cr_state :: json_row

record command_bus =
  cb_world :: runtime_world
  cb_seen :: "string list"

definition valid_actions :: "string list" where
  "valid_actions = [''START_RUNTIME'', ''STOP_RUNTIME'', ''START_BOT'', ''STOP_BOT'', ''RESTART_BOT'', ''PAUSE_BOT'', ''RESUME_BOT'',
     ''RUN_VALIDATION'', ''SWITCH_MODE'', ''FLATTEN_POSITION'', ''STATUS'']"

definition checked_actions :: "string list" where
  "checked_actions = [''RUN_VALIDATION'', ''SWITCH_MODE'', ''FLATTEN_POSITION'']"

text \<open>\<open>str(exc)\<close>.\<close>

definition exc_text :: "py_env \<Rightarrow> py_exc \<Rightarrow> string" where
  "exc_text env e = (case e of KeyError s \<Rightarrow> pe_repr env s | ValueError s \<Rightarrow> s | PermissionError s \<Rightarrow> s | RuntimeError s \<Rightarrow> s
     | TypeError s \<Rightarrow> s | IntegrityError s \<Rightarrow> s | ZeroDivisionError \<Rightarrow> ''division by zero''
     | OverflowError \<Rightarrow> ''int too large to convert to float'' | IndexError \<Rightarrow> ''list index out of range'' | QueueFull \<Rightarrow> [])"

definition bot_exists :: "py_env \<Rightarrow> string \<Rightarrow> runtime_world \<Rightarrow> (runtime_world, bool) outcome" where
  "bot_exists env bot_id w = bind_act (list_bot_states env w) (\<lambda>w1 rows. (w1, Inr (\<exists>r\<in>set rows.
     dict_get r ''bot_id'' = Some (JText bot_id) \<or> dict_get r ''name'' = Some (JText bot_id))))"

definition execute :: "py_env \<Rightarrow> string \<Rightarrow> runtime_command \<Rightarrow> runtime_world \<Rightarrow> (runtime_world, json_row) outcome" where
  "execute env action c w =
     (let b = cm_bot_id c; source = cm_source c in
      if action = ''STATUS'' then runtime_status env w
      else if action = ''START_RUNTIME''
      then (let r = start_runtime env (str_get env (cm_payload c) ''mode'' ''HEADLESS'') w in (fst r, Inr (snd r)))
      else if action = ''STOP_RUNTIME'' then (let r = stop_runtime env w in (fst r, Inr (snd r)))
      else if action = ''START_BOT'' then start_bot env b source w
      else if action = ''STOP_BOT'' then stop_bot env b source w
      else if action = ''RESTART_BOT'' then restart_bot env b source w
      else if action = ''PAUSE_BOT'' then pause_bot env b source w
      else if action = ''RESUME_BOT'' then resume_bot env b source w
      else if action \<in> set checked_actions
      then bind_act (bot_exists env b w) (\<lambda>w1 found.
             (w1, if found then Inr [(''accepted'', JBool True), (''action'', JText action), (''bot_id'', JText b)]
                  else Inl (KeyError (''Unknown bot: '' @ b))))
      else (w, Inl (ValueError (''unsupported action: '' @ action))))"

definition dispatch :: "py_env \<Rightarrow> runtime_command \<Rightarrow> command_bus \<Rightarrow> command_bus \<times> command_result" where
  "dispatch env c bus =
     (let answer = (\<lambda>action ok message state. \<lparr>cr_command_id = cm_command_id c, cr_action = action, cr_ok = ok,
            cr_message = message, cr_state = state\<rparr>) in
      if cm_command_id c \<in> set (cb_seen bus) then (bus, answer (cm_action c) True ''duplicate command ignored'' [])
      else
        (let bus1 = bus\<lparr>cb_seen := cm_command_id c # cb_seen bus\<rparr>; action = str_upper (cm_action c) in
         if action \<notin> set valid_actions then (bus1, answer action False (''unsupported action: '' @ action) [])
         else if (endswith action ''_BOT'' \<or> action \<in> set checked_actions) \<and> cm_bot_id c = []
         then (bus1, answer action False ''bot_id is required'' [])
         else (case execute env action c (cb_world bus1) of
             (w, Inr state) \<Rightarrow> (bus1\<lparr>cb_world := w\<rparr>, answer action True ''ok'' state)
           | (w, Inl e) \<Rightarrow> (bus1\<lparr>cb_world := w\<rparr>, answer action False (exc_text env e) []))))"

fun dispatch_all :: "py_env \<Rightarrow> runtime_command list \<Rightarrow> command_bus \<Rightarrow> command_bus" where
  "dispatch_all env [] bus = bus"
| "dispatch_all env (c # cs) bus = dispatch_all env cs (fst (dispatch env c bus))"

section \<open>Process supervisor and command line\<close>

definition plain_command :: "string \<Rightarrow> json_row \<Rightarrow> string \<Rightarrow> runtime_command" where
  "plain_command action payload command_id = \<lparr>cm_action = action, cm_bot_id = [], cm_source = ''SUPERVISOR'',
     cm_payload = payload, cm_command_id = command_id\<rparr>"

definition supervisor_start :: "py_env \<Rightarrow> string \<Rightarrow> string \<Rightarrow> command_bus \<Rightarrow> command_bus \<times> bool" where
  "supervisor_start env mode command_id bus =
     (let r = dispatch env (plain_command ''START_RUNTIME'' [(''mode'', JText mode)] command_id) bus in (fst r, cr_ok (snd r)))"

definition supervisor_stop :: "py_env \<Rightarrow> string \<Rightarrow> command_bus \<Rightarrow> command_bus \<times> bool" where
  "supervisor_stop env command_id bus =
     (let r = dispatch env (plain_command ''STOP_RUNTIME'' [] command_id) bus in (fst r, cr_ok (snd r)))"

definition cli_actions :: "(string, string) dict" where
  "cli_actions = [(''stop'', ''STOP_RUNTIME''), (''status'', ''STATUS''), (''restart'', ''START_RUNTIME''), (''start-bot'', ''START_BOT''),
     (''stop-bot'', ''STOP_BOT''), (''pause-bot'', ''PAUSE_BOT''), (''resume-bot'', ''RESUME_BOT'')]"

text \<open>A parsed command other than \<open>start\<close>; only \<open>start\<close> has a mode, so the payload carries the default.\<close>

definition cli_dispatch :: "py_env \<Rightarrow> string \<Rightarrow> string \<Rightarrow> string \<Rightarrow> runtime_world \<Rightarrow> (runtime_world, int) outcome" where
  "cli_dispatch env command bot_id command_id w =
     (case dict_get cli_actions command of
        None \<Rightarrow> (w, Inl (KeyError command))
      | Some action \<Rightarrow>
          (let r = dispatch env \<lparr>cm_action = action, cm_bot_id = bot_id, cm_source = ''CLI'',
                     cm_payload = [(''mode'', JText (str_upper ''headless''))], cm_command_id = command_id\<rparr>
                     \<lparr>cb_world = w, cb_seen = []\<rparr>
           in (cb_world (fst r), Inr (if cr_ok (snd r) then 0 else 1))))"

section \<open>The service loop\<close>

text \<open>\<open>halted i\<close>: the stop signal has arrived by check \<open>i\<close>; \<open>outside i\<close>: what other processes did during wait \<open>i\<close>.
  The result tells whether the loop saw the stop signal.\<close>

partial_function (option) service_loop ::
    "py_env \<Rightarrow> string \<Rightarrow> bool \<Rightarrow> (nat \<Rightarrow> bool) \<Rightarrow> (nat \<Rightarrow> runtime_world \<Rightarrow> runtime_world) \<Rightarrow> nat \<Rightarrow> runtime_world
      \<Rightarrow> (runtime_world, bool) outcome option" where
  "service_loop env mode once halted outside i w =
     (if halted i then Some (w, Inr True)
      else (let s = runtime_status env w in
        case snd s of
          Inl e \<Rightarrow> Some (fst s, Inl e)
        | Inr row \<Rightarrow>
            if str_get env row ''runtime'' ''STOPPED'' = ''STOPPED'' then Some (fst s, Inr False)
            else (let h = runtime_heartbeat env mode (fst s) in
              case snd h of
                Inl e \<Rightarrow> Some (fst h, Inl e)
              | Inr _ \<Rightarrow>
                  if once then Some (fst h, Inr False)
                  else service_loop env mode once halted outside (Suc i) (outside i (fst h)))))"

definition run_runtime ::
    "py_env \<Rightarrow> string \<Rightarrow> bool \<Rightarrow> (nat \<Rightarrow> bool) \<Rightarrow> (nat \<Rightarrow> runtime_world \<Rightarrow> runtime_world) \<Rightarrow> runtime_world
      \<Rightarrow> (runtime_world, unit) outcome option" where
  "run_runtime env mode once halted outside w =
     Option.bind (service_loop env mode once halted outside 0 (fst (start_runtime env mode w))) (\<lambda>r.
       Some (bind_act r (\<lambda>w1 stopped. (if stopped \<or> once then fst (stop_runtime env w1) else w1, Inr ()))))"

section \<open>Command identifiers\<close>

lemma dispatch_seen: "cb_seen (fst (dispatch env c bus)) =
    (if cm_command_id c \<in> set (cb_seen bus) then cb_seen bus else cm_command_id c # cb_seen bus)"
  by (simp add: dispatch_def Let_def split: prod.split sum.split)

lemma dispatch_duplicate: "cm_command_id c \<in> set (cb_seen bus) \<Longrightarrow> fst (dispatch env c bus) = bus"
  by (simp add: dispatch_def Let_def)

interpretation command_log: remembering_log cm_command_id "\<lambda>bus. set (cb_seen bus)" "\<lambda>c bus. fst (dispatch env c bus)" for env
  by unfold_locales (simp_all add: dispatch_seen dispatch_duplicate insert_absorb subset_insertI)

lemma dispatch_all_fold: "dispatch_all env cs bus = fold (\<lambda>c bus. fst (dispatch env c bus)) cs bus"
  by (induction cs arbitrary: bus) simp_all

abbreviation first_commands :: "string list \<Rightarrow> runtime_command list \<Rightarrow> runtime_command list" where
  "first_commands seen \<equiv> first_by cm_command_id (set seen)"

text \<open>\<open>C21\<close>: A sequence of commands has the effect of its first command per identifier, and of none whose identifier the
  bus has seen before: repetitions change nothing.\<close>

theorem duplicates_are_never_executed:
  "dispatch_all env cs bus = dispatch_all env (first_commands (cb_seen bus) cs) bus \<and>
   distinct (map cm_command_id (first_commands (cb_seen bus) cs)) \<and>
   cm_command_id ` set (first_commands (cb_seen bus) cs) = cm_command_id ` set cs - set (cb_seen bus)"
  unfolding dispatch_all_fold by (simp add: first_by_names first_by_distinct) (rule command_log.only_first_messages_count)

text \<open>Whatever the first answer was, failed included, the second dispatch of a command is answered as a success and
  changes nothing: a failed command can not be retried under its identifier, and its retry looks executed.\<close>

theorem retry_of_a_failed_command_is_acknowledged:
  "cr_ok (snd (dispatch env c (fst (dispatch env c bus)))) \<and>
   cr_message (snd (dispatch env c (fst (dispatch env c bus)))) = ''duplicate command ignored'' \<and>
   fst (dispatch env c (fst (dispatch env c bus))) = fst (dispatch env c bus)"
proof -
  have "cm_command_id c \<in> set (cb_seen (fst (dispatch env c bus)))" by (simp add: dispatch_seen)
  then show ?thesis by (simp add: dispatch_def[of env c "fst (dispatch env c bus)"] Let_def)
qed

section \<open>The service ends when it is told to\<close>

definition control_state :: "py_env \<Rightarrow> runtime_world \<Rightarrow> string" where
  "control_state env w = str_get env (report_object (rw_control w)) ''runtime'' ''STOPPED''"

lemma runtime_status_control:
  assumes "snd (runtime_status env w) = Inr row"
  shows "str_get env row ''runtime'' d = control_state env w"
proof -
  obtain rows where "list_bot_states env w = (fst (list_bot_states env w), Inr rows)"
    using assms by (cases "snd (list_bot_states env w)") (auto simp: runtime_status_def bind_act_def prod_eq_iff)
  moreover have "rw_control (fst (list_bot_states env w)) = rw_control w" by (simp add: list_bot_states_world)
  ultimately show ?thesis using assms
    by (cases "list_bot_states env w") (auto simp: runtime_status_def Let_def str_get_def[of env row] dict_get_or_def control_state_def)
qed

lemma runtime_status_keeps_control [simp]: "rw_control (fst (runtime_status env w)) = rw_control w"
proof -
  have "rw_control (fst (list_bot_states env w)) = rw_control w" by (simp add: list_bot_states_world)
  then show ?thesis
    by (cases "list_bot_states env w"; cases "snd (list_bot_states env w)") (auto simp: runtime_status_def Let_def)
qed

lemma control_after_stop [simp]: "control_state env (fst (stop_runtime env w)) = ''STOPPED''"
  by (simp add: control_state_def stop_runtime_def Let_def str_get_def dict_get_or_def)

text \<open>A loop that ends without a stop signal was a single pass or has seen the control file stopped.\<close>

definition settled :: "py_env \<Rightarrow> bool \<Rightarrow> (runtime_world, bool) outcome option \<Rightarrow> bool" where
  "settled env once r \<longleftrightarrow> (\<exists>w x. r = Some (w, x) \<and> (x = Inr False \<longrightarrow> once \<or> control_state env w = ''STOPPED''))"

lemma service_loop_stopped:
  assumes "halted i \<or> control_state env w = ''STOPPED''"
  shows "settled env once (service_loop env mode once halted outside i w)"
proof -
  have "control_state env (fst (runtime_status env w)) = control_state env w" by (simp add: control_state_def)
  then show ?thesis
    using assms runtime_status_control[of env w]
    by (subst service_loop.simps) (auto simp: settled_def Let_def split: sum.split)
qed

lemma service_loop_step:
  assumes "\<And>v. settled env once (service_loop env mode once halted outside (Suc i) (outside i v))"
  shows "settled env once (service_loop env mode once halted outside i w)"
proof (cases "halted i \<or> control_state env w = ''STOPPED''")
  case False
  then show ?thesis
    using assms runtime_status_control[of env w]
    by (subst service_loop.simps) (auto simp: settled_def Let_def split: sum.split)
qed (rule service_loop_stopped)

lemma service_loop_settles:
  assumes "halted (Suc n) \<or> (\<forall>v. control_state env (outside n v) = ''STOPPED'')"
  shows "i \<le> n \<Longrightarrow> settled env once (service_loop env mode once halted outside i w)"
proof (induction i arbitrary: w rule: inc_induct)
  case base
  show ?case by (rule service_loop_step, rule service_loop_stopped) (use assms in blast)
next
  case (step i)
  show ?case by (rule service_loop_step) (rule step.IH)
qed

text \<open>\<open>C20\<close>: If the stop signal has arrived by some check, or what other processes do in some wait leaves the control file
  stopped, the service returns; and if it returns normally the control file says it is stopped.\<close>

theorem service_ends_when_told:
  assumes "halted (Suc n) \<or> (\<forall>v. control_state env (outside n v) = ''STOPPED'')"
  shows "\<exists>w' r. run_runtime env mode once halted outside w = Some (w', r) \<and> (is_ok r \<longrightarrow> control_state env w' = ''STOPPED'')"
proof -
  have "settled env once (service_loop env mode once halted outside 0 (fst (start_runtime env mode w)))"
    by (rule service_loop_settles[where n = n]) (use assms in simp_all)
  then obtain w1 x where "service_loop env mode once halted outside 0 (fst (start_runtime env mode w)) = Some (w1, x)"
      "x = Inr False \<longrightarrow> once \<or> control_state env w1 = ''STOPPED''"
    unfolding settled_def by (elim exE conjE) (rule that)
  then show ?thesis by (cases x) (auto simp: run_runtime_def)
qed

text \<open>Another process stops the runtime through its own command bus during the third wait.\<close>

theorem service_ends_when_told_witness:
  "\<exists>w' r. run_runtime example_env ''HEADLESS'' False (\<lambda>_. False)
     (\<lambda>i v. if i = 2 then cb_world (fst (supervisor_stop example_env ''c1'' \<lparr>cb_world = v, cb_seen = []\<rparr>)) else v)
     (fresh_world Missing) = Some (w', r)"
proof -
  let ?outside = "\<lambda>(i::nat) v. if i = 2 then cb_world (fst (supervisor_stop example_env ''c1'' \<lparr>cb_world = v, cb_seen = []\<rparr>)) else v"
  have "str_upper ''STOP_RUNTIME'' = ''STOP_RUNTIME''" "\<not> endswith ''STOP_RUNTIME'' ''_BOT''" by code_simp+
  then have "control_state example_env (?outside 2 v) = ''STOPPED''" for v
    by (simp add: supervisor_stop_def plain_command_def dispatch_def execute_def valid_actions_def checked_actions_def Let_def)
  then have "(\<lambda>_. False) (Suc 2) \<or> (\<forall>v. control_state example_env (?outside 2 v) = ''STOPPED'')" by blast
  from service_ends_when_told[where halted = "\<lambda>_. False" and n = 2 and outside = ?outside, OF this] show ?thesis by blast
qed

end
