(* ===== verification/Db_Table.thy ===== *)
theory Db_Table
  imports Py_Json
begin

text \<open>
  Values and tables of the relational store (\<open>storage/models.py\<close>, the statements of
  \<open>storage/bot_repository.py\<close>). A cell is a JSON value, a time or pandas' \<open>NaT\<close>; None is the JSON null. A table
  is its rows in insertion order, a row the list of its columns. What the database server decides is a
  parameter: which texts it reads as a time, how its collation compares texts, which values its driver accepts;
  so is the text \<open>json.dumps\<close> gives a value.
\<close>

section \<open>Cells\<close>

datatype cell = Json json | Time instant | NaT

type_synonym db_row = "(string, cell) dict"

abbreviation c_null :: cell where "c_null \<equiv> Json JNull"
abbreviation c_text :: "string \<Rightarrow> cell" where "c_text s \<equiv> Json (JText s)"

text \<open>\<open>str\<close> of a \<open>datetime\<close> is its ISO text with a blank for the letter T.\<close>

definition time_text :: "instant \<Rightarrow> string" where
  "time_text t = take 10 (iso t) @ '' '' @ drop 11 (iso t)"

definition c_str :: "py_env \<Rightarrow> cell \<Rightarrow> string" where
  "c_str env c = (case c of Json j \<Rightarrow> py_str env j | Time t \<Rightarrow> time_text t | NaT \<Rightarrow> ''NaT'')"

definition c_float :: "py_env \<Rightarrow> cell \<Rightarrow> pyfloat res" where
  "c_float env c = (case c of Json j \<Rightarrow> py_float env j
     | _ \<Rightarrow> Inl (TypeError ''float() argument must be a string or a real number''))"

definition c_truthy :: "cell \<Rightarrow> bool" where
  "c_truthy c = (case c of Json j \<Rightarrow> truthy j | _ \<Rightarrow> True)"

definition c_or :: "cell \<Rightarrow> cell \<Rightarrow> cell" where
  "c_or a b = (if c_truthy a then a else b)"

abbreviation c_get :: "db_row \<Rightarrow> string \<Rightarrow> cell" where
  "c_get r k \<equiv> dict_get_or r k c_null"

lemma c_simps [simp]:
  "c_str env (c_text s) = s" "c_truthy (c_text s) = (s \<noteq> [])" "\<not> c_truthy c_null" "c_truthy (Time t)"
  "c_or c_null b = b" "c_or (Time t) b = Time t" "s \<noteq> [] \<Longrightarrow> c_or (c_text s) b = c_text s" "c_or (c_text []) b = b"
  by (simp_all add: c_str_def c_truthy_def truthy_def c_or_def)

section \<open>Tables\<close>

record db_server =
  ds_datetime :: "string \<Rightarrow> instant option"
  ds_collate :: "string \<Rightarrow> string"
  ds_dumps :: "json \<Rightarrow> string"
  ds_binds :: "json \<Rightarrow> bool"

record column =
  co_name :: string
  co_nullable :: bool
  co_time :: bool
  co_default :: "instant \<Rightarrow> cell"

text \<open>A column is required, defaulted, an optional value, an optional time, a required time, or the time of insertion.\<close>

definition required :: "string \<Rightarrow> column" where
  "required n = \<lparr>co_name = n, co_nullable = False, co_time = False, co_default = (\<lambda>_. c_null)\<rparr>"

definition defaulted :: "string \<Rightarrow> json \<Rightarrow> column" where
  "defaulted n d = \<lparr>co_name = n, co_nullable = False, co_time = False, co_default = (\<lambda>_. Json d)\<rparr>"

definition optional :: "string \<Rightarrow> column" where
  "optional n = \<lparr>co_name = n, co_nullable = True, co_time = False, co_default = (\<lambda>_. c_null)\<rparr>"

definition optional_time :: "string \<Rightarrow> column" where
  "optional_time n = \<lparr>co_name = n, co_nullable = True, co_time = True, co_default = (\<lambda>_. c_null)\<rparr>"

definition required_time :: "string \<Rightarrow> column" where
  "required_time n = \<lparr>co_name = n, co_nullable = False, co_time = True, co_default = (\<lambda>_. c_null)\<rparr>"

definition stamped :: "string \<Rightarrow> column" where
  "stamped n = \<lparr>co_name = n, co_nullable = False, co_time = True, co_default = Time\<rparr>"

lemmas column_defs = required_def defaulted_def optional_def optional_time_def required_time_def stamped_def

text \<open>The value a column takes, or the refusal of the server.\<close>

definition stored_cell :: "db_server \<Rightarrow> column \<Rightarrow> cell \<Rightarrow> cell res" where
  "stored_cell ds c v =
     (if v = c_null then (if co_nullable c then Inr v else Inl (IntegrityError (co_name c)))
      else if co_time c then
        (case v of Time t \<Rightarrow> Inr v
         | Json (JText s) \<Rightarrow> (case ds_datetime ds s of Some t \<Rightarrow> Inr (Time t) | None \<Rightarrow> Inl (ValueError (co_name c)))
         | _ \<Rightarrow> Inl (ValueError (co_name c)))
      else (case v of Json j \<Rightarrow> if ds_binds ds j then Inr v else Inl (ValueError (co_name c)) | _ \<Rightarrow> Inr v))"

definition stored_write :: "db_server \<Rightarrow> column list \<Rightarrow> string \<times> cell \<Rightarrow> (string \<times> cell) res" where
  "stored_write ds cols kv = (case find_first (\<lambda>c. co_name c = fst kv) cols of
       None \<Rightarrow> Inr kv | Some c \<Rightarrow> bind_res (stored_cell ds c (snd kv)) (\<lambda>v. Inr (fst kv, v)))"

text \<open>The row an insert would add; a key of the payload that is no column raises before the statement runs.\<close>

definition new_row :: "db_server \<Rightarrow> column list \<Rightarrow> instant \<Rightarrow> db_row \<Rightarrow> db_row res" where
  "new_row ds cols now payload =
     (if list_ex (\<lambda>k. k \<notin> set (map co_name cols)) (map fst payload) then Inl (ValueError ''unconsumed column names'')
      else map_res (\<lambda>c. bind_res (stored_cell ds c (dict_get_or payload (co_name c) (co_default c now)))
                          (\<lambda>v. Inr (co_name c, v))) cols)"

definition same_key :: "db_server \<Rightarrow> cell \<Rightarrow> cell \<Rightarrow> bool" where
  "same_key ds a b = (case (a, b) of
       (Json (JText s), Json (JText t)) \<Rightarrow> ds_collate ds s = ds_collate ds t
     | _ \<Rightarrow> a = b \<and> a \<noteq> c_null)"

definition clashes :: "db_server \<Rightarrow> string list \<Rightarrow> db_row \<Rightarrow> db_row \<Rightarrow> bool" where
  "clashes ds uniques r q = list_ex (\<lambda>u. same_key ds (c_get r u) (c_get q u)) uniques"

fun keys_unique :: "db_server \<Rightarrow> string list \<Rightarrow> db_row list \<Rightarrow> bool" where
  "keys_unique ds uniques [] = True"
| "keys_unique ds uniques (r # rs) = (list_all (\<lambda>q. \<not> clashes ds uniques r q) rs \<and> keys_unique ds uniques rs)"

fun update_first :: "('a \<Rightarrow> bool) \<Rightarrow> ('a \<Rightarrow> 'a) \<Rightarrow> 'a list \<Rightarrow> 'a list" where
  "update_first p f [] = []"
| "update_first p f (x # xs) = (if p x then f x # xs else x # update_first p f xs)"

text \<open>\<open>INSERT ... ON DUPLICATE KEY UPDATE\<close> of every payload column but \<open>kept\<close>: the first row that shares a
  unique key is updated; an update that would break a unique key is refused.\<close>

definition overwrite :: "string \<Rightarrow> db_row \<Rightarrow> db_row \<Rightarrow> db_row \<Rightarrow> db_row" where
  "overwrite kept payload row old =
     dict_update old (map (\<lambda>k. (k, c_get row k)) (filter (\<lambda>k. k \<noteq> kept) (map fst payload)))"

definition upsert_row ::
    "db_server \<Rightarrow> column list \<Rightarrow> string list \<Rightarrow> string \<Rightarrow> instant \<Rightarrow> db_row \<Rightarrow> db_row list \<Rightarrow> db_row list res" where
  "upsert_row ds cols uniques kept now payload table =
     bind_res (new_row ds cols now payload) (\<lambda>row.
       if list_ex (clashes ds uniques row) table
       then (let table' = update_first (clashes ds uniques row) (overwrite kept payload row) table
             in if keys_unique ds uniques table' then Inr table' else Inl (IntegrityError ''duplicate entry''))
       else Inr (table @ [row]))"

section \<open>Laws of tables\<close>

lemma same_key_sym: "same_key ds a b = same_key ds b a"
  by (auto simp: same_key_def split: cell.splits json.splits)

lemma clashes_sym: "clashes ds us r q = clashes ds us q r"
  by (simp add: clashes_def same_key_sym)

lemma keys_unique_append:
  "keys_unique ds us (xs @ ys) \<longleftrightarrow> keys_unique ds us xs \<and> keys_unique ds us ys \<and>
     (\<forall>x\<in>set xs. \<forall>y\<in>set ys. \<not> clashes ds us x y)"
  by (induction xs) (auto simp: list_all_iff)

lemma upsert_keeps_keys:
  assumes "keys_unique ds us table" and "upsert_row ds cols us kept now payload table = Inr table'"
  shows "keys_unique ds us table'"
  using assms by (auto simp: upsert_row_def bind_res_eq_Inr Let_def keys_unique_append list_ex_iff clashes_sym
      split: if_splits)

lemma new_row_cells:
  assumes "new_row ds cols now payload = Inr row" and "c \<in> set cols" and "distinct (map co_name cols)"
  shows "\<exists>v. stored_cell ds c (dict_get_or payload (co_name c) (co_default c now)) = Inr v \<and> dict_get row (co_name c) = Some v"
proof -
  define f where "f c = stored_cell ds c (dict_get_or payload (co_name c) (co_default c now))" for c
  have "map_res (\<lambda>c. bind_res (f c) (\<lambda>v. Inr (co_name c, v))) cs = Inr row \<Longrightarrow> c \<in> set cs \<Longrightarrow> distinct (map co_name cs) \<Longrightarrow>
    \<exists>v. f c = Inr v \<and> dict_get row (co_name c) = Some v" for cs
  proof (induction cs arbitrary: row)
    case (Cons a cs)
    then obtain v q where q: "f a = Inr v" "row = (co_name a, v) # q" "map_res (\<lambda>c. bind_res (f c) (\<lambda>v. Inr (co_name c, v))) cs = Inr q"
      by (auto simp: bind_res_eq_Inr)
    show ?case
    proof (cases "c = a")
      case False
      with Cons.prems have "c \<in> set cs" "co_name c \<noteq> co_name a" by (auto simp: image_iff)
      with Cons.IH[OF q(3)] Cons.prems(3) q(2) show ?thesis by simp
    qed (use q in simp)
  qed simp
  then show ?thesis using assms by (auto simp: new_row_def f_def split: if_splits)
qed

lemma new_row_ok_iff:
  "is_ok (new_row ds cols now payload) \<longleftrightarrow> fst ` set payload \<subseteq> co_name ` set cols \<and>
     (\<forall>c\<in>set cols. is_ok (stored_cell ds c (dict_get_or payload (co_name c) (co_default c now))))"
proof -
  have "is_ok (map_res (\<lambda>c. bind_res (f c) (\<lambda>v. Inr (co_name c, v))) cs) \<longleftrightarrow> (\<forall>c\<in>set cs. is_ok (f c))"
    for cs and f :: "column \<Rightarrow> cell res"
    by (induction cs) (auto simp: is_ok_iff bind_res_eq_Inr)
  then show ?thesis by (auto simp: new_row_def list_ex_iff)
qed

lemma update_first_split:
  "list_ex p xs \<Longrightarrow> \<exists>ys x zs. xs = ys @ x # zs \<and> p x \<and> (\<forall>y\<in>set ys. \<not> p y) \<and> update_first p f xs = ys @ f x # zs"
proof (induction xs)
  case (Cons a xs)
  show ?case
  proof (cases "p a")
    case True
    then have "a # xs = [] @ a # xs \<and> p a \<and> (\<forall>y\<in>set []. \<not> p y) \<and> update_first p f (a # xs) = [] @ f a # xs" by simp
    then show ?thesis by (intro exI)
  next
    case False
    with Cons.prems have "list_ex p xs" by simp
    then obtain ys x zs where e: "xs = ys @ x # zs" "p x" "\<forall>y\<in>set ys. \<not> p y" "update_first p f xs = ys @ f x # zs"
      using Cons.IH[OF \<open>list_ex p xs\<close>] by (elim exE conjE) (rule that)
    with False have "a # xs = (a # ys) @ x # zs \<and> p x \<and> (\<forall>y\<in>set (a # ys). \<not> p y) \<and>
        update_first p f (a # xs) = (a # ys) @ f x # zs" by simp
    then show ?thesis by (intro exI)
  qed
qed simp

lemma overwrite_get:
  "dict_get_or (overwrite kept payload row old) k d =
     (if k \<in> fst ` set payload \<and> k \<noteq> kept then c_get row k else dict_get_or old k d)"
proof -
  define ks where "ks = filter (\<lambda>k. k \<noteq> kept) (map fst payload)"
  have "dict_get (map (\<lambda>k. (k, c_get row k)) (rev ks)) k = (if k \<in> set ks then Some (c_get row k) else None)" for k
    by (induction ks rule: rev_induct) (auto simp: map_of_map_restrict)
  moreover have "k \<in> set ks \<longleftrightarrow> k \<in> fst ` set payload \<and> k \<noteq> kept" by (auto simp: ks_def)
  ultimately show ?thesis
    by (simp add: overwrite_def dict_get_or_def dict_get_update rev_map ks_def [symmetric])
qed

lemma stored_cell_simps [simp]:
  "stored_cell ds c (Time t) = Inr (Time t)"
  "stored_cell ds (optional_time n) c_null = Inr c_null" "stored_cell ds (optional n) c_null = Inr c_null"
  "stored_cell ds (required n) c_null = Inl (IntegrityError n)" "stored_cell ds (defaulted n d) c_null = Inl (IntegrityError n)"
  "stored_cell ds (required_time n) c_null = Inl (IntegrityError n)" "stored_cell ds (stamped n) c_null = Inl (IntegrityError n)"
  by (simp_all add: stored_cell_def column_defs)

lemma stored_text [simp]:
  "ds_binds ds (JText s) \<Longrightarrow> \<not> co_time c \<Longrightarrow> stored_cell ds c (c_text s) = Inr (c_text s)"
  "ds_binds ds (JNum x) \<Longrightarrow> \<not> co_time c \<Longrightarrow> stored_cell ds c (Json (JNum x)) = Inr (Json (JNum x))"
  "ds_binds ds (JInt i) \<Longrightarrow> \<not> co_time c \<Longrightarrow> stored_cell ds c (Json (JInt i)) = Inr (Json (JInt i))"
  by (simp_all add: stored_cell_def)

lemma column_fields [simp]:
  "co_name (required n) = n" "co_name (defaulted n d) = n" "co_name (optional n) = n" "co_name (optional_time n) = n"
  "co_name (required_time n) = n" "co_name (stamped n) = n" "co_default (required n) now = c_null"
  "co_default (defaulted n d) now = Json d" "co_default (optional n) now = c_null" "co_default (optional_time n) now = c_null"
  "co_default (required_time n) now = c_null" "co_default (stamped n) now = Time now"
  "\<not> co_time (required n)" "\<not> co_time (defaulted n d)" "\<not> co_time (optional n)"
  by (simp_all add: column_defs)

end
