(* ===== verification/Bot_Repository.thy ===== *)
theory Bot_Repository
  imports Db_Table Runtime_Manager
begin

text \<open>
  The bot repository (\<open>storage/bot_repository.py\<close>): risk settings, bot instances, runtime events, journal and
  validation runs in the database. Each operation is one transaction: it returns the database after its
  commit, or an exception and the database as it was. A query's \<open>ORDER BY\<close> is the parameter \<open>newest\<close>.
\<close>

section \<open>Schema\<close>

definition risk_settings_columns :: "column list" where
  "risk_settings_columns =
     [defaulted ''profile'' (JText ''default''), defaulted ''capital'' (JNum (Fin 10000)),
      defaulted ''max_cash_per_trade'' (JNum (Fin 250)), defaulted ''max_risk_per_trade_pct'' (JNum (dec 1 100)),
      defaulted ''max_trades_per_window'' (JInt 6), defaulted ''trade_window_minutes'' (JInt 240),
      defaulted ''max_portfolio_exposure'' (JNum (Fin 1000)), defaulted ''kill_switch'' (JInt 0), stamped ''updated_at'']"

definition bot_instance_columns :: "column list" where
  "bot_instance_columns =
     [optional ''bot_id'', required ''name'', required ''strategy'', required ''symbol'', defaulted ''timeframe'' (JText ''1h''),
      defaulted ''capital'' (JNum (Fin 1000)), defaulted ''parameters_json'' (JText ''{}''), defaulted ''state'' (JText ''DRAFT''),
      defaulted ''status_reason'' (JText []), optional_time ''deployed_at'', optional_time ''heartbeat_at'',
      optional_time ''cumulative_started_at'', defaulted ''cumulative_realized_pnl'' (JNum (Fin 0)),
      defaulted ''cumulative_fees'' (JNum (Fin 0)), defaulted ''cumulative_slippage'' (JNum (Fin 0)),
      defaulted ''cumulative_trade_count'' (JInt 0), optional_time ''last_entry_at'', optional_time ''last_exit_at'',
      defaulted ''runtime_position_state'' (JText ''OUT_OF_TRADE''), defaulted ''last_trade_event_type'' (JText []),
      optional_time ''last_trade_event_at'', defaulted ''last_trade_event_reason'' (JText []),
      stamped ''created_at'', stamped ''updated_at'']"

definition runtime_event_columns :: "column list" where
  "runtime_event_columns =
     [required ''event_id'', required ''bot_id''] @
     map (\<lambda>n. defaulted n (JText [])) [''bot_name'', ''runtime_instance_id'', ''trade_id'', ''strategy'', ''symbol'', ''timeframe''] @
     [required ''event_type'', required_time ''event_time''] @
     map (\<lambda>n. defaulted n (JText [])) [''position_state'', ''order_state'', ''lifecycle_state''] @
     map (\<lambda>n. defaulted n (JNum (Fin 0)))
       [''quantity'', ''price'', ''realized_pnl'', ''unrealized_pnl'', ''roi_pct'', ''exposure'', ''drawdown_pct'', ''fees'', ''slippage'', ''capital''] @
     [defaulted ''reason'' (JText []), defaulted ''details_json'' (JText ''{}''), stamped ''created_at'']"

definition journal_event_columns :: "column list" where
  "journal_event_columns =
     [required_time ''event_time'', required ''bot_name'', required ''symbol'', required ''event_type'',
      defaulted ''severity'' (JText ''INFO''), defaulted ''decision'' (JText []), defaulted ''reason'' (JText []),
      defaulted ''metrics_json'' (JText ''{}'')]"

definition validation_run_columns :: "column list" where
  "validation_run_columns =
     [required ''run_id'', required ''bot_name'', required ''symbol'', defaulted ''timeframe'' (JText ''1h''),
      defaulted ''start_date'' (JText []), defaulted ''end_date'' (JText []), defaulted ''capital'' (JNum (Fin 1000)),
      defaulted ''fees_bps'' (JNum (Fin 10)), defaulted ''slippage_bps'' (JNum (Fin 5)), defaulted ''state'' (JText ''COMPLETED''),
      defaulted ''metrics_json'' (JText ''{}''), stamped ''created_at'']"

record bot_db =
  bd_risk :: "db_row list"
  bd_bots :: "db_row list"
  bd_events :: "db_row list"
  bd_journal :: "db_row list"
  bd_runs :: "db_row list"

definition empty_bot_db :: bot_db where
  "empty_bot_db = \<lparr>bd_risk = [], bd_bots = [], bd_events = [], bd_journal = [], bd_runs = []\<rparr>"

section \<open>Cleaning\<close>

definition blank_texts :: "string list" where
  "blank_texts = [[], ''nat'', ''nan'', ''none'', ''null'']"

text \<open>\<open>pd.isna\<close> of a list is an array: only that of a single element has a truth value.\<close>

fun single_na :: "json \<Rightarrow> bool" where
  "single_na (JList [x]) = (case x of JList _ \<Rightarrow> single_na x | _ \<Rightarrow> is_na x)"
| "single_na _ = False"

definition blank :: "cell \<Rightarrow> bool" where
  "blank v = (case v of NaT \<Rightarrow> True | Time _ \<Rightarrow> False
     | Json (JText s) \<Rightarrow> str_lower (str_strip s) \<in> set blank_texts
     | Json j \<Rightarrow> is_na j \<or> single_na j)"

definition clean_value :: "cell \<Rightarrow> cell" where
  "clean_value v = (if blank v then c_null else v)"

definition clean_dict :: "db_row \<Rightarrow> db_row" where
  "clean_dict r = map (\<lambda>(k, v). (k, clean_value v)) r"

definition parse_datetime_string :: "py_env \<Rightarrow> string \<Rightarrow> cell" where
  "parse_datetime_string env s =
     (if str_lower (str_strip s) \<in> set blank_texts then c_null
      else (case pe_fromiso env (concat (map (\<lambda>c. if c = CHR ''Z'' then ''+00:00'' else [c]) s)) of
              Some t \<Rightarrow> Time t | None \<Rightarrow> c_text s))"

text \<open>\<open>re.sub(r"[^A-Za-z0-9]+", "_", name).strip("_") or "bot"\<close>.\<close>

fun collapse :: "bool \<Rightarrow> string \<Rightarrow> string" where
  "collapse gap [] = []"
| "collapse gap (c # cs) =
     (if is_alnum c then c # collapse False cs else if gap then collapse True cs else CHR ''_'' # collapse True cs)"

definition bot_id_from_name :: "string \<Rightarrow> string" where
  "bot_id_from_name name = (let s = strip_underscores (collapse False name) in if s = [] then ''bot'' else s)"

section \<open>Risk settings\<close>

definition default_risk_settings :: db_row where
  "default_risk_settings =
     [(''profile'', c_text ''default''), (''capital'', Json (JNum (Fin 10000))), (''max_cash_per_trade'', Json (JNum (Fin 250))),
      (''max_risk_per_trade_pct'', Json (JNum (dec 1 100))), (''max_trades_per_window'', Json (JInt 6)),
      (''trade_window_minutes'', Json (JInt 240)), (''max_portfolio_exposure'', Json (JNum (Fin 1000))),
      (''kill_switch'', Json (JBool False))]"

definition risk_payload :: "db_row \<Rightarrow> db_row" where
  "risk_payload values =
     (let payload = dict_update default_risk_settings (clean_dict values)
      in dict_set ''kill_switch'' (Json (JInt (if c_truthy (c_get payload ''kill_switch'') then 1 else 0))) payload)"

definition upsert_risk_settings :: "db_server \<Rightarrow> instant \<Rightarrow> db_row \<Rightarrow> bot_db \<Rightarrow> (bot_db, unit) outcome" where
  "upsert_risk_settings ds now values db =
     (case upsert_row ds risk_settings_columns [''profile''] ''profile'' now (risk_payload values) (bd_risk db) of
        Inl e \<Rightarrow> (db, Inl e)
      | Inr t \<Rightarrow> (db\<lparr>bd_risk := t\<rparr>, Inr ()))"

definition read_risk_settings :: "db_server \<Rightarrow> bot_db \<Rightarrow> db_row" where
  "read_risk_settings ds db =
     (case find_first (\<lambda>r. same_key ds (c_get r ''profile'') (c_text ''default'')) (bd_risk db) of
        None \<Rightarrow> default_risk_settings
      | Some row \<Rightarrow> map (\<lambda>k. (k, c_get row k))
          [''profile'', ''capital'', ''max_cash_per_trade'', ''max_risk_per_trade_pct'', ''max_trades_per_window'',
           ''trade_window_minutes'', ''max_portfolio_exposure'']
          @ [(''kill_switch'', Json (JBool (c_truthy (c_get row ''kill_switch''))))])"

section \<open>Bot instances\<close>

definition bot_instance_keys :: "string list" where
  "bot_instance_keys =
     [''bot_id'', ''name'', ''strategy'', ''symbol'', ''timeframe'', ''capital'', ''parameters'', ''state'', ''status_reason'',
      ''deployed_at'', ''heartbeat_at'', ''cumulative_started_at'', ''cumulative_realized_pnl'', ''cumulative_fees'',
      ''cumulative_slippage'', ''cumulative_trade_count'', ''last_entry_at'', ''last_exit_at'', ''runtime_position_state'',
      ''last_trade_event_type'', ''last_trade_event_at'', ''last_trade_event_reason'', ''created_at'', ''updated_at'']"

definition timestamp_keys :: "string list" where
  "timestamp_keys = [''deployed_at'', ''heartbeat_at'', ''cumulative_started_at'', ''last_entry_at'', ''last_exit_at'',
     ''last_trade_event_at'', ''created_at'', ''updated_at'']"

definition parse_times :: "py_env \<Rightarrow> db_row \<Rightarrow> db_row" where
  "parse_times env r = map (\<lambda>(k, v). (k, if k \<in> set timestamp_keys
     then (case v of Json (JText s) \<Rightarrow> parse_datetime_string env s | _ \<Rightarrow> v) else v)) r"

text \<open>\<open>json.dumps(v or {})\<close>; a time is no JSON.\<close>

definition dumped :: "db_server \<Rightarrow> cell \<Rightarrow> cell res" where
  "dumped ds v = (case c_or v (Json (JObj [])) of
     Json j \<Rightarrow> Inr (c_text (ds_dumps ds j)) | _ \<Rightarrow> Inl (TypeError ''not JSON serializable''))"

definition deployed :: "cell \<Rightarrow> bool" where
  "deployed v = (v = c_text ''DEPLOYED'' \<or> v = c_text ''RUNNING'')"

definition unhashable :: "cell \<Rightarrow> bool" where
  "unhashable v = (case v of Json (JList _) \<Rightarrow> True | Json (JObj _) \<Rightarrow> True | _ \<Rightarrow> False)"

definition not_none :: "cell \<Rightarrow> cell \<Rightarrow> cell" where
  "not_none v d = (if v = c_null then d else v)"

text \<open>The instance payload after the identifier and the parameters are settled: times and figures.\<close>

definition stamp_times :: "instant \<Rightarrow> db_row \<Rightarrow> db_row" where
  "stamp_times now p0 =
     (let cell_at = (\<lambda>p k. c_get p k);
          p1 = (if deployed (cell_at p0 ''state'') \<and> cell_at p0 ''deployed_at'' = c_null then dict_set ''deployed_at'' (Time now) p0 else p0);
          p2 = (if deployed (cell_at p1 ''state'') \<and> cell_at p1 ''cumulative_started_at'' = c_null
                then dict_set ''cumulative_started_at'' (c_or (c_or (cell_at p1 ''created_at'') (cell_at p1 ''deployed_at'')) (Time now)) p1 else p1)
      in dict_update p2 (map (\<lambda>k. (k, c_or (cell_at p2 k) (Time now))) [''heartbeat_at'', ''created_at'', ''updated_at''] @
           [(''cumulative_realized_pnl'', not_none (cell_at p2 ''cumulative_realized_pnl'') (Json (JNum (Fin 0)))),
            (''cumulative_fees'', not_none (cell_at p2 ''cumulative_fees'') (Json (JNum (Fin 0)))),
            (''cumulative_slippage'', not_none (cell_at p2 ''cumulative_slippage'') (Json (JNum (Fin 0)))),
            (''cumulative_trade_count'', not_none (cell_at p2 ''cumulative_trade_count'') (Json (JInt 0)))]))"

definition bot_payload :: "py_env \<Rightarrow> db_server \<Rightarrow> instant \<Rightarrow> db_row \<Rightarrow> db_row res" where
  "bot_payload env ds now values =
     (let p = parse_times env (filter (\<lambda>kv. fst kv \<in> set bot_instance_keys) (clean_dict values));
          bot_id = c_or (c_get p ''bot_id'') (c_text (bot_id_from_name (c_str env (dict_get_or p ''name'' (c_text [])))));
          p1 = dict_set ''bot_id'' bot_id p
      in bind_res (dumped ds (dict_get_or p1 ''parameters'' (Json (JObj [])))) (\<lambda>parameters.
         let p2 = dict_set ''parameters_json'' parameters (filter (\<lambda>kv. fst kv \<noteq> ''parameters'') p1)
         in if unhashable (c_get p2 ''state'') then Inl (TypeError ''unhashable type'') else Inr (stamp_times now p2)))"

definition upsert_bot_instance ::
    "py_env \<Rightarrow> db_server \<Rightarrow> instant \<Rightarrow> db_row \<Rightarrow> bot_db \<Rightarrow> (bot_db, unit) outcome" where
  "upsert_bot_instance env ds now values db =
     (case bind_res (bot_payload env ds now values)
             (\<lambda>payload. upsert_row ds bot_instance_columns [''name'', ''bot_id''] ''name'' now payload (bd_bots db)) of
        Inl e \<Rightarrow> (db, Inl e)
      | Inr t \<Rightarrow> (db\<lparr>bd_bots := t\<rparr>, Inr ()))"

definition delete_bot_instance :: "db_server \<Rightarrow> string \<Rightarrow> bot_db \<Rightarrow> bot_db \<times> int" where
  "delete_bot_instance ds name db =
     (let hit = (\<lambda>r. same_key ds (c_get r ''name'') (c_text name))
      in (db\<lparr>bd_bots := filter (\<lambda>r. \<not> hit r) (bd_bots db)\<rparr>, int (length (filter hit (bd_bots db)))))"

definition loads_or_empty :: "py_env \<Rightarrow> cell \<Rightarrow> json res" where
  "loads_or_empty env v = (case c_or v (c_text ''{}'') of
       Json (JText s) \<Rightarrow> (case pe_loads env s of Some j \<Rightarrow> Inr j | None \<Rightarrow> Inl (ValueError ''json''))
     | _ \<Rightarrow> Inl (TypeError ''json''))"

text \<open>A row of the frame the dashboard reads.\<close>

definition bot_row :: "py_env \<Rightarrow> db_row \<Rightarrow> db_row res" where
  "bot_row env r =
     bind_res (loads_or_empty env (c_get r ''parameters_json'')) (\<lambda>parameters.
       Inr (map (\<lambda>k. (k, if k = ''bot_id'' then c_or (c_get r ''bot_id'') (c_text (bot_id_from_name (c_str env (c_get r ''name''))))
                         else if k = ''parameters'' then Json parameters else c_get r k)) bot_instance_keys))"

definition read_bot_instances :: "py_env \<Rightarrow> (db_row list \<Rightarrow> db_row list) \<Rightarrow> bot_db \<Rightarrow> db_row list res" where
  "read_bot_instances env newest db = map_res (bot_row env) (newest (bd_bots db))"

section \<open>Runtime events\<close>

definition metrics_of :: "db_row \<Rightarrow> json_row" where
  "metrics_of event = (case c_get event ''metrics'' of Json (JObj m) \<Rightarrow> m | _ \<Rightarrow> [])"

text \<open>\<open>str(event.get(k) or d)\<close>, \<open>float(event.get(k) or metrics.get(k, 0.0) or 0.0)\<close>.\<close>

definition text_field :: "py_env \<Rightarrow> db_row \<Rightarrow> string \<Rightarrow> cell \<Rightarrow> string" where
  "text_field env event k d = c_str env (c_or (c_get event k) d)"

definition figure :: "py_env \<Rightarrow> db_row \<Rightarrow> string \<Rightarrow> string list \<Rightarrow> pyfloat res" where
  "figure env event k others =
     c_float env (c_or (fold (\<lambda>k v. c_or v (c_get event k)) others (c_get event k))
       (c_or (Json (j_get (metrics_of event) k (JNum (Fin 0)))) (Json (JNum (Fin 0)))))"

definition pnl_field :: "py_env \<Rightarrow> db_row \<Rightarrow> string \<Rightarrow> pyfloat res" where
  "pnl_field env event k =
     c_float env (c_or (dict_get_or event k (Json (j_get (metrics_of event) k (JNum (Fin 0))))) (Json (JNum (Fin 0))))"

definition event_time_of :: "py_env \<Rightarrow> instant \<Rightarrow> db_row \<Rightarrow> cell" where
  "event_time_of env now event =
     (let t = c_or (c_or (c_get event ''event_time'') (c_get event ''snapshot_time'')) (Time now)
      in case t of Json (JText s) \<Rightarrow> c_or (parse_datetime_string env s) (Time now) | _ \<Rightarrow> t)"

definition json_of :: "py_env \<Rightarrow> cell \<Rightarrow> json" where
  "json_of env c = (case c of Json j \<Rightarrow> j | _ \<Rightarrow> JText (c_str env c))"

definition event_details :: "py_env \<Rightarrow> db_row \<Rightarrow> json" where
  "event_details env event =
     JObj (map (\<lambda>(k, v). (k, json_of env v)) (filter (\<lambda>kv. fst kv \<noteq> ''metrics'') event) @ [(''metrics'', JObj (metrics_of event))])"

definition named_number :: "string \<Rightarrow> pyfloat res \<Rightarrow> (string \<times> cell) res" where
  "named_number k r = bind_res r (\<lambda>x. Inr (k, Json (JNum x)))"

definition event_numbers :: "py_env \<Rightarrow> db_row \<Rightarrow> db_row res" where
  "event_numbers env event = map_res (\<lambda>(k, r). named_number k r)
     [(''quantity'', figure env event ''quantity'' []), (''price'', figure env event ''price'' [''current_price'']),
      (''realized_pnl'', pnl_field env event ''realized_pnl''), (''unrealized_pnl'', pnl_field env event ''unrealized_pnl''),
      (''roi_pct'', figure env event ''roi_pct'' []), (''exposure'', figure env event ''exposure'' []),
      (''drawdown_pct'', figure env event ''drawdown_pct'' []), (''fees'', figure env event ''fees'' []),
      (''slippage'', figure env event ''slippage'' []), (''capital'', figure env event ''capital'' [])]"

definition event_bot_id :: "py_env \<Rightarrow> db_row \<Rightarrow> string" where
  "event_bot_id env event = c_str env (c_or (c_or (c_get event ''bot_id'') (c_get event ''bot_name'')) (c_text ''unknown''))"

definition event_texts :: "py_env \<Rightarrow> instant \<Rightarrow> db_row \<Rightarrow> db_row" where
  "event_texts env now event =
     (let bot_id = event_bot_id env event; text = text_field env event; m = metrics_of event;
          generated = bot_id @ '':'' @ c_str env (dict_get_or event ''event_type'' (c_text ''RuntimeEvent'')) @ '':'' @ iso now
      in [(''event_id'', c_text (text ''event_id'' (c_or (c_get event ''snapshot_id'') (c_text generated)))),
          (''bot_id'', c_text bot_id),
          (''bot_name'', c_text (text ''bot_name'' (c_or (c_get event ''name'') (c_text [])))),
          (''runtime_instance_id'', c_text (text ''runtime_instance_id'' (c_text bot_id))),
          (''trade_id'', c_text (text ''trade_id'' (c_text []))),
          (''strategy'', c_text (text ''strategy'' (Json (j_get m ''strategy'' (JText []))))),
          (''symbol'', c_text (text ''symbol'' (c_text []))),
          (''timeframe'', c_text (text ''timeframe'' (Json (j_get m ''timeframe'' (JText []))))),
          (''event_type'', c_text (text ''event_type'' (c_text ''RuntimeEvent''))),
          (''event_time'', event_time_of env now event),
          (''position_state'', c_text (text ''position_state'' (c_text []))),
          (''order_state'', c_text (text ''order_state'' (c_text []))),
          (''lifecycle_state'', c_text (text ''lifecycle_state'' (c_text []))),
          (''reason'', c_text (text ''reason'' (c_text [])))])"

definition runtime_event_payload :: "py_env \<Rightarrow> db_server \<Rightarrow> instant \<Rightarrow> db_row \<Rightarrow> db_row res" where
  "runtime_event_payload env ds now event =
     bind_res (event_numbers env event) (\<lambda>numbers.
       Inr (event_texts env now event @ numbers @ [(''details_json'', c_text (ds_dumps ds (event_details env event)))]))"

definition trade_event_types :: "string list" where
  "trade_event_types = [''TradeEntered'', ''TradeExited'', ''StopTriggered'', ''RiskTriggered'', ''BOT_STOPPED'']"

text \<open>The trade count a snapshot carries in its metrics, if any.\<close>

definition snapshot_trades :: "py_env \<Rightarrow> db_row \<Rightarrow> json" where
  "snapshot_trades env payload =
     (case c_or (c_get payload ''details_json'') (c_text ''{}'') of
        Json (JText s) \<Rightarrow>
          (case (case pe_loads env s of Some j \<Rightarrow> j | None \<Rightarrow> JObj []) of
             JObj details \<Rightarrow> (case j_get details ''metrics'' (JObj []) of
                 JObj m \<Rightarrow> j_get m ''trades'' (j_get m ''total_trades'' JNull) | _ \<Rightarrow> JNull)
           | _ \<Rightarrow> JNull)
      | _ \<Rightarrow> JNull)"

definition trade_count :: "py_env \<Rightarrow> json \<Rightarrow> (string \<times> cell) list res" where
  "trade_count env j =
     (if j = JNull then Inr []
      else bind_res (py_float env (j_or j (JInt 0))) (\<lambda>x. bind_res (trunc_int x) (\<lambda>n. Inr [(''cumulative_trade_count'', Json (JInt n))])))"

text \<open>What an event writes into the row of its bot.\<close>

definition event_writes :: "py_env \<Rightarrow> db_row \<Rightarrow> db_row \<Rightarrow> db_row res" where
  "event_writes env payload row =
     (let kind = c_str env (c_get payload ''event_type''); time = c_get payload ''event_time'';
          identity = (if c_get row ''bot_id'' = c_null then [(''bot_id'', c_get payload ''bot_id'')] else []);
          started = (if c_get row ''cumulative_started_at'' = c_null
                     then [(''cumulative_started_at'', c_or (c_get row ''created_at'') time)] else []);
          trade = (if kind \<in> set trade_event_types
                   then [(''last_trade_event_type'', c_text kind), (''last_trade_event_at'', time),
                         (''last_trade_event_reason'', c_text (c_str env (c_or (c_get payload ''reason'') (c_text []))))] else []);
          entry = (if kind = ''TradeEntered'' then [(''runtime_position_state'', c_text ''IN_TRADE''), (''last_entry_at'', time)] else []);
          exit = (if kind \<in> set (tl trade_event_types)
                  then [(''runtime_position_state'', c_text ''OUT_OF_TRADE''), (''last_exit_at'', time)] else [])
      in bind_res (if kind = ''PNL_SNAPSHOT''
              then bind_res (trade_count env (snapshot_trades env payload)) (\<lambda>count.
                Inr (map (\<lambda>(k, p). (k, c_get payload p))
                  [(''cumulative_realized_pnl'', ''realized_pnl''), (''cumulative_fees'', ''fees''), (''cumulative_slippage'', ''slippage'')]
                  @ count))
              else Inr []) (\<lambda>figures.
         Inr (identity @ started @ [(''heartbeat_at'', time)] @ trade @ entry @ exit @ figures)))"

definition bot_of_event :: "db_server \<Rightarrow> db_row \<Rightarrow> db_row list \<Rightarrow> (db_row \<Rightarrow> bool) option" where
  "bot_of_event ds payload rows =
     (let by_id = (\<lambda>r. same_key ds (c_get r ''bot_id'') (c_get payload ''bot_id''));
          by_name = (\<lambda>r. same_key ds (c_get r ''name'') (c_get payload ''bot_name''))
      in if list_ex by_id rows then Some by_id
         else if c_truthy (c_get payload ''bot_name'') \<and> list_ex by_name rows then Some by_name else None)"

text \<open>The flush of a changed row also stamps \<open>updated_at\<close>.\<close>

definition flushed :: "instant \<Rightarrow> db_row \<Rightarrow> db_row \<Rightarrow> db_row" where
  "flushed now writes r = (let r' = dict_update r writes in if r' = r then r else dict_set ''updated_at'' (Time now) r')"

definition apply_runtime_event_to_bot ::
    "py_env \<Rightarrow> db_server \<Rightarrow> instant \<Rightarrow> db_row \<Rightarrow> db_row list \<Rightarrow> db_row list res" where
  "apply_runtime_event_to_bot env ds now payload rows =
     (case bot_of_event ds payload rows of
        None \<Rightarrow> Inr rows
      | Some p \<Rightarrow>
          (case find_first p rows of
             None \<Rightarrow> Inr rows
           | Some row \<Rightarrow> bind_res (event_writes env payload row) (\<lambda>writes.
               bind_res (map_res (stored_write ds bot_instance_columns) writes) (\<lambda>stored.
                 Inr (update_first p (flushed now stored) rows)))))"

definition append_runtime_event ::
    "py_env \<Rightarrow> db_server \<Rightarrow> instant \<Rightarrow> db_row \<Rightarrow> bot_db \<Rightarrow> (bot_db, unit) outcome" where
  "append_runtime_event env ds now event0 db =
     (let event = clean_dict event0 in
      case runtime_event_payload env ds now event of
        Inl e \<Rightarrow> (db, Inl e)
      | Inr payload \<Rightarrow>
          if list_ex (\<lambda>r. same_key ds (c_get r ''event_id'') (c_get payload ''event_id'')) (bd_events db) then (db, Inr ())
          else (case bind_res (upsert_row ds runtime_event_columns [''event_id''] ''event_id'' now payload (bd_events db)) (\<lambda>events.
                      bind_res (apply_runtime_event_to_bot env ds now payload (bd_bots db)) (\<lambda>rows. Inr (events, rows))) of
                  Inl e \<Rightarrow> (db, Inl e)
                | Inr (events, rows) \<Rightarrow> (db\<lparr>bd_events := events, bd_bots := rows\<rparr>, Inr ())))"

text \<open>A runtime event as the dashboard reads it.\<close>

definition runtime_event_keys :: "string list" where
  "runtime_event_keys =
     [''event_id'', ''event_time'', ''trade_id'', ''bot_id'', ''bot_name'', ''runtime_instance_id'', ''strategy'', ''symbol'', ''timeframe'',
      ''event_type'', ''order_state'', ''position_state'', ''lifecycle_state'', ''price'', ''current_price'', ''quantity'', ''realized_pnl'',
      ''unrealized_pnl'', ''roi_pct'', ''exposure'', ''drawdown_pct'', ''fees'', ''slippage'', ''capital'', ''reason'']"

definition runtime_event_row :: "py_env \<Rightarrow> db_row \<Rightarrow> db_row res" where
  "runtime_event_row env r =
     bind_res (loads_or_empty env (c_get r ''details_json'')) (\<lambda>details.
       Inr (map (\<lambda>k. (k, c_get r (if k = ''current_price'' then ''price'' else k))) runtime_event_keys @ [(''metrics'', Json details)]))"

definition read_runtime_events ::
    "py_env \<Rightarrow> (db_row list \<Rightarrow> db_row list) \<Rightarrow> nat \<Rightarrow> bot_db \<Rightarrow> db_row list res" where
  "read_runtime_events env newest limit db = map_res (runtime_event_row env) (take limit (newest (bd_events db)))"

section \<open>Journal and validation runs\<close>

definition journal_payload :: "db_server \<Rightarrow> instant \<Rightarrow> db_row \<Rightarrow> db_row res" where
  "journal_payload ds now event =
     (let text = (\<lambda>k d. (k, dict_get_or event k (c_text d)));
          metrics = dict_get_or event ''metrics'' (Json (JObj []))
      in bind_res (case metrics of Json j \<Rightarrow> Inr (c_text (ds_dumps ds j)) | _ \<Rightarrow> Inl (TypeError ''not JSON serializable'')) (\<lambda>m.
         Inr [(''event_time'', c_or (c_get event ''event_time'') (Time now)), text ''bot_name'' ''SYSTEM'', text ''symbol'' [],
              text ''event_type'' ''INFO'', text ''severity'' ''INFO'', text ''decision'' [], text ''reason'' [], (''metrics_json'', m)]))"

definition append_journal_event ::
    "db_server \<Rightarrow> instant \<Rightarrow> db_row \<Rightarrow> bot_db \<Rightarrow> (bot_db, unit) outcome" where
  "append_journal_event ds now event db =
     (case bind_res (journal_payload ds now (clean_dict event)) (new_row ds journal_event_columns now) of
        Inl e \<Rightarrow> (db, Inl e)
      | Inr r \<Rightarrow> (db\<lparr>bd_journal := bd_journal db @ [r]\<rparr>, Inr ()))"

definition journal_row :: "py_env \<Rightarrow> db_row \<Rightarrow> db_row res" where
  "journal_row env r =
     bind_res (loads_or_empty env (c_get r ''metrics_json'')) (\<lambda>metrics.
       Inr (map (\<lambda>k. (k, c_get r k)) [''event_time'', ''bot_name'', ''symbol'', ''event_type'', ''severity'', ''decision'', ''reason'']
            @ [(''metrics'', Json metrics)]))"

definition read_journal_events ::
    "py_env \<Rightarrow> (db_row list \<Rightarrow> db_row list) \<Rightarrow> nat \<Rightarrow> bot_db \<Rightarrow> db_row list res" where
  "read_journal_events env newest limit db = map_res (journal_row env) (take limit (newest (bd_journal db)))"

definition validation_keys :: "string list" where
  "validation_keys = [''run_id'', ''bot_name'', ''symbol'', ''timeframe'', ''start_date'', ''end_date'', ''capital'', ''fees_bps'',
     ''slippage_bps'', ''state'', ''metrics'']"

definition validation_payload :: "db_server \<Rightarrow> db_row \<Rightarrow> db_row res" where
  "validation_payload ds values =
     (let p = filter (\<lambda>kv. fst kv \<in> set validation_keys) (clean_dict values)
      in bind_res (dumped ds (dict_get_or p ''metrics'' (Json (JObj [])))) (\<lambda>m.
         Inr (dict_set ''metrics_json'' m (filter (\<lambda>kv. fst kv \<noteq> ''metrics'') p))))"

definition upsert_validation_run :: "db_server \<Rightarrow> instant \<Rightarrow> db_row \<Rightarrow> bot_db \<Rightarrow> (bot_db, unit) outcome" where
  "upsert_validation_run ds now values db =
     (case bind_res (validation_payload ds values)
             (\<lambda>payload. upsert_row ds validation_run_columns [''run_id''] ''run_id'' now payload (bd_runs db)) of
        Inl e \<Rightarrow> (db, Inl e)
      | Inr t \<Rightarrow> (db\<lparr>bd_runs := t\<rparr>, Inr ()))"

text \<open>The metrics are spread over the row; \<open>**\<close> of anything but an object raises.\<close>

definition validation_row :: "py_env \<Rightarrow> db_row \<Rightarrow> db_row res" where
  "validation_row env r =
     bind_res (loads_or_empty env (c_get r ''metrics_json'')) (\<lambda>metrics. case metrics of
         JObj m \<Rightarrow> Inr (dict_set ''created_at'' (c_get r ''created_at'')
           (dict_update (map (\<lambda>k. (k, c_get r k)) (butlast validation_keys)) (map (\<lambda>(k, v). (k, Json v)) m)))
       | _ \<Rightarrow> Inl (TypeError ''argument after ** must be a mapping''))"

definition read_validation_runs ::
    "py_env \<Rightarrow> (db_row list \<Rightarrow> db_row list) \<Rightarrow> nat \<Rightarrow> bot_db \<Rightarrow> db_row list res" where
  "read_validation_runs env newest limit db = map_res (validation_row env) (take limit (newest (bd_runs db)))"

lemma clean_get: "dict_get (clean_dict r) k = map_option clean_value (dict_get r k)"
  by (simp add: clean_dict_def map_of_map)

text \<open>A server that accepts every value.\<close>

definition example_server :: db_server where
  "example_server = \<lparr>ds_datetime = (\<lambda>_. Some 0), ds_collate = id, ds_dumps = (\<lambda>_. []), ds_binds = (\<lambda>_. True)\<rparr>"

end
