(* ===== verification/Bot_Repository_Safety.thy ===== *)
theory Bot_Repository_Safety
  imports Bot_Repository Message_Log
begin

text \<open>
  What the bot repository promises: unique keys survive every operation, a runtime event is applied once,
  a blank text never reaches a required column (and the journal refuses it), and when the database's
  trade position follows the file's.
\<close>

section \<open>Unique keys and persisted events\<close>

inductive repo_step :: "py_env \<Rightarrow> db_server \<Rightarrow> bot_db \<Rightarrow> bot_db \<Rightarrow> bool" for env ds where
  step_event: "repo_step env ds db (fst (append_runtime_event env ds now event db))"
| step_bot: "repo_step env ds db (fst (upsert_bot_instance env ds now values db))"
| step_delete: "repo_step env ds db (fst (delete_bot_instance ds name db))"
| step_risk: "repo_step env ds db (fst (upsert_risk_settings ds now values db))"
| step_journal: "repo_step env ds db (fst (append_journal_event ds now event db))"
| step_run: "repo_step env ds db (fst (upsert_validation_run ds now values db))"

definition event_known :: "db_server \<Rightarrow> cell \<Rightarrow> bot_db \<Rightarrow> bool" where
  "event_known ds i db = list_ex (\<lambda>r. same_key ds (c_get r ''event_id'') i) (bd_events db)"

lemma upsert_row_fresh:
  "upsert_row ds cols us kept now payload table = Inr table' \<Longrightarrow> new_row ds cols now payload = Inr row \<Longrightarrow>
     \<not> list_ex (clashes ds us row) table \<Longrightarrow> table' = table @ [row]"
  by (simp add: upsert_row_def)

lemma required_text_stored:
  assumes "new_row ds cols now payload = Inr row" and "required n \<in> set cols" and "distinct (map co_name cols)"
    and "dict_get payload n = Some (c_text s)"
  shows "dict_get row n = Some (c_text s)"
  using new_row_cells[OF assms(1-3)] assms(4)
  by (auto simp: dict_get_or_def stored_cell_def required_def split: if_splits)

lemma runtime_event_columns_distinct: "distinct (map co_name runtime_event_columns)"
  by (simp add: runtime_event_columns_def)

lemma payload_event_id:
  "runtime_event_payload env ds now event = Inr payload \<Longrightarrow>
     dict_get payload ''event_id'' = dict_get (event_texts env now event) ''event_id''"
  by (auto simp: runtime_event_payload_def bind_res_eq_Inr event_texts_def Let_def)

lemma event_id_text: "\<exists>s. dict_get (event_texts env now event) ''event_id'' = Some (c_text s)"
  by (simp add: event_texts_def Let_def)

lemma same_key_text [simp]: "same_key ds (c_text s) (c_text s)"
  by (simp add: same_key_def)

text \<open>The outcome of appending: refused or already known, or one more event and at most one changed bot row.\<close>

lemma append_event_cases:
  assumes "append_runtime_event env ds now event db = (db', r)"
  obtains (refused) e where "r = Inl e" "db' = db"
  | (known) payload where "r = Inr ()" "db' = db" "runtime_event_payload env ds now (clean_dict event) = Inr payload"
      "event_known ds (c_get payload ''event_id'') db"
  | (stored) payload row rows where "r = Inr ()" "runtime_event_payload env ds now (clean_dict event) = Inr payload"
      "\<not> event_known ds (c_get payload ''event_id'') db" "new_row ds runtime_event_columns now payload = Inr row"
      "c_get row ''event_id'' = c_get payload ''event_id''"
      "apply_runtime_event_to_bot env ds now payload (bd_bots db) = Inr rows"
      "db' = db\<lparr>bd_events := bd_events db @ [row], bd_bots := rows\<rparr>"
proof (cases "runtime_event_payload env ds now (clean_dict event)")
  case (Inl e)
  with assms show thesis by (intro refused[of e]) (simp_all add: append_runtime_event_def)
next
  case (Inr payload)
  show thesis
  proof (cases "event_known ds (c_get payload ''event_id'') db")
    case True
    with assms Inr show thesis by (intro known[of payload]) (simp_all add: append_runtime_event_def event_known_def)
  next
    case fresh: False
    show thesis
    proof (cases "bind_res (upsert_row ds runtime_event_columns [''event_id''] ''event_id'' now payload (bd_events db)) (\<lambda>events.
                      bind_res (apply_runtime_event_to_bot env ds now payload (bd_bots db)) (\<lambda>rows. Inr (events, rows)))")
      case (Inl e)
      with assms Inr fresh show thesis by (intro refused[of e]) (simp_all add: append_runtime_event_def event_known_def)
    next
      case ok: (Inr p)
      then obtain events rows where p: "p = (events, rows)" by (cases p)
      from ok p have u: "upsert_row ds runtime_event_columns [''event_id''] ''event_id'' now payload (bd_events db) = Inr events"
        and a: "apply_runtime_event_to_bot env ds now payload (bd_bots db) = Inr rows" by (auto simp: bind_res_eq_Inr)
      from u obtain row where row: "new_row ds runtime_event_columns now payload = Inr row"
        by (auto simp: upsert_row_def bind_res_eq_Inr)
      obtain s where "dict_get payload ''event_id'' = Some (c_text s)"
        using payload_event_id[OF Inr] event_id_text[of env now "clean_dict event"] by (elim exE) (rule that, simp)
      moreover from this have "dict_get row ''event_id'' = Some (c_text s)"
        by (intro required_text_stored[OF row _ runtime_event_columns_distinct]) (simp_all add: runtime_event_columns_def)
      ultimately have same: "c_get row ''event_id'' = c_get payload ''event_id''" by (simp add: dict_get_or_def)
      with fresh have "\<not> list_ex (clashes ds [''event_id''] row) (bd_events db)"
        by (auto simp: event_known_def clashes_def list_ex_iff same_key_sym)
      from upsert_row_fresh[OF u row this] have "events = bd_events db @ [row]" .
      with assms Inr fresh ok p show thesis
        by (intro stored[of payload row rows] row same a) (simp_all add: append_runtime_event_def event_known_def)
    qed
  qed
qed

lemma repo_step_keeps_events: "repo_step env ds db db' \<Longrightarrow> event_known ds i db \<Longrightarrow> event_known ds i db'"
proof (induction rule: repo_step.induct)
  case (step_event db now event)
  show ?case
  proof (cases "append_runtime_event env ds now event db")
    case (Pair db' r)
    then show ?thesis using step_event Pair by (cases rule: append_event_cases) (simp_all add: event_known_def)
  qed
qed (auto simp: event_known_def upsert_bot_instance_def delete_bot_instance_def upsert_risk_settings_def
     append_journal_event_def upsert_validation_run_def Let_def split: sum.splits)

lemma repo_steps_keep_events: "(repo_step env ds)\<^sup>*\<^sup>* db db' \<Longrightarrow> event_known ds i db \<Longrightarrow> event_known ds i db'"
  by (induction rule: rtranclp_induct) (auto intro: repo_step_keeps_events)

text \<open>An event is named by its identifier: the cleaned \<open>event_id\<close>, when it has one.\<close>

definition event_name :: "db_row \<Rightarrow> string" where
  "event_name event = (case dict_get (clean_dict event) ''event_id'' of Some (Json (JText s)) \<Rightarrow> s | _ \<Rightarrow> [])"

lemma event_name_payload:
  assumes "runtime_event_payload env ds now (clean_dict event) = Inr payload" and "event_name event \<noteq> []"
  shows "c_get payload ''event_id'' = c_text (event_name event)"
proof -
  have "dict_get (clean_dict event) ''event_id'' = Some (c_text (event_name event))"
    using assms(2) by (auto simp: event_name_def split: option.splits cell.splits json.splits)
  then show ?thesis using assms by (simp add: dict_get_or_def payload_event_id event_texts_def Let_def text_field_def)
qed

lemma known_event_is_ignored:
  assumes "event_name event \<noteq> []" and "event_known ds (c_text (event_name event)) db"
  shows "fst (append_runtime_event env ds now event db) = db"
proof (cases "append_runtime_event env ds now event db")
  case (Pair db' r)
  then show ?thesis
  proof (cases rule: append_event_cases)
    case (stored payload row rows)
    with event_name_payload[OF stored(2) assms(1)] assms(2) show ?thesis by simp
  qed (use Pair in simp_all)
qed

text \<open>The event table is a message log over its named events, each offered at some time.\<close>

interpretation event_log: message_log "\<lambda>m. event_name (snd m)"
    "\<lambda>db. {k. k \<noteq> [] \<and> event_known ds (c_text k) db}" "\<lambda>(now, event) db. fst (append_runtime_event env ds now event db)"
  for env ds
  by unfold_locales (auto simp: known_event_is_ignored intro: repo_step_keeps_events[OF step_event])

text \<open>\<open>C11\<close>: A runtime event that was accepted once changes the database no more: whatever other operations the
  repository performed in between, an event with the same identifier is either a no-op or refused, so its
  trade position and its figures are written into the bot's row at most once.
\<close>

theorem runtime_event_is_applied_once:
  assumes "append_runtime_event env ds now event db = (db1, Inr ())" and "event_name event \<noteq> []"
    and "(repo_step env ds)\<^sup>*\<^sup>* db1 db2" and "event_name again = event_name event"
  shows "fst (append_runtime_event env ds now2 again db2) = db2"
proof -
  have "event_known ds (c_text (event_name event)) db1"
    using assms(1)
  proof (cases rule: append_event_cases)
    case (known payload)
    with event_name_payload[OF known(3) assms(2)] show ?thesis by simp
  next
    case (stored payload row rows)
    with event_name_payload[OF stored(2) assms(2)] show ?thesis by (simp add: event_known_def)
  qed simp
  with assms(3) have "event_known ds (c_text (event_name event)) db2" by (rule repo_steps_keep_events)
  then show ?thesis using event_log.repeated[of "(now2, again)" ds db2 env] assms(2,4) by simp
qed

text \<open>One registered bot with an entry event.\<close>

definition example_bot_db :: bot_db where
  "example_bot_db = fst (upsert_bot_instance example_env example_server 0
     [(''bot_id'', c_text ''alpha''), (''name'', c_text ''Alpha''), (''strategy'', c_text ''s''), (''symbol'', c_text ''BTC'')] empty_bot_db)"

definition entry_event :: db_row where
  "entry_event = [(''event_id'', c_text ''e1''), (''bot_id'', c_text ''alpha''), (''event_type'', c_text ''TradeEntered'')]"

lemma entry_event_accepted:
  "is_ok (snd (append_runtime_event example_env example_server 5 entry_event example_bot_db))"
  by code_simp

theorem runtime_event_is_applied_once_witness:
  "fst (append_runtime_event example_env example_server 9 entry_event
     (fst (append_runtime_event example_env example_server 5 entry_event example_bot_db))) =
   fst (append_runtime_event example_env example_server 5 entry_event example_bot_db)"
proof -
  obtain db1 where "append_runtime_event example_env example_server 5 entry_event example_bot_db = (db1, Inr ())"
    using entry_event_accepted by (cases "append_runtime_event example_env example_server 5 entry_event example_bot_db")
      (auto simp: is_ok_iff)
  moreover have "event_name entry_event \<noteq> []" by code_simp
  ultimately show ?thesis
    using runtime_event_is_applied_once[where again = entry_event and event = entry_event and ?db2.0 = db1] by simp
qed

section \<open>The trade position in the file and in the database\<close>

text \<open>What both sides say of a bot; the database receives the event the manager has just logged.\<close>

definition file_position :: "py_env \<Rightarrow> string \<Rightarrow> runtime_world \<Rightarrow> json option" where
  "file_position env b w = map_option (\<lambda>r. j_get r ''runtime_position_state'' JNull)
     (find_first (\<lambda>r. py_str env (j_get r ''bot_id'' (j_get r ''name'' (JText []))) = b) (report_rows (rw_state w)))"

definition db_position :: "db_server \<Rightarrow> string \<Rightarrow> bot_db \<Rightarrow> cell option" where
  "db_position ds b db = map_option (\<lambda>r. c_get r ''runtime_position_state'')
     (find_first (\<lambda>r. same_key ds (c_get r ''bot_id'') (c_text b)) (bd_bots db))"

definition logged_event :: "runtime_world \<Rightarrow> db_row" where
  "logged_event w = map (\<lambda>(k, v). (k, Json v)) (last (report_rows (rw_trade_events w)))"

text \<open>\<open>_persist_runtime_event_db\<close>: the outcome of one worker; an exception is logged and dropped.\<close>

definition persist_runtime_event_db ::
    "bool \<Rightarrow> py_env \<Rightarrow> db_server \<Rightarrow> instant \<Rightarrow> db_row \<Rightarrow> bot_db \<Rightarrow> bot_db" where
  "persist_runtime_event_db enabled env ds now event db =
     (if enabled then fst (append_runtime_event env ds now event db) else db)"

lemma find_first_map_if:
  "(\<And>r. p r \<Longrightarrow> p (f r)) \<Longrightarrow> find_first p (map (\<lambda>r. if p r then f r else r) rs) = map_option f (find_first p rs)"
  by (induction rs) auto

lemma find_first_update_first:
  "(\<And>r. p r \<Longrightarrow> p (f r)) \<Longrightarrow> find_first p (update_first p f rs) = map_option f (find_first p rs)"
  by (induction rs) auto

lemma last_last_n_snoc [simp]: "0 < n \<Longrightarrow> last (last_n n (xs @ [x])) = x"
  by (simp add: last_n_snoc)

lemma dict_get_stored:
  assumes "map_res (stored_write ds cols) ws = Inr ss"
  shows "dict_get (rev ws) k = None \<Longrightarrow> dict_get (rev ss) k = None"
    and "dict_get (rev ws) k = Some v \<Longrightarrow> stored_write ds cols (k, v) = Inr (k, v) \<Longrightarrow> dict_get (rev ss) k = Some v"
proof -
  have key: "stored_write ds cols w = Inr s \<Longrightarrow> fst s = fst w" for w s
    by (auto simp: stored_write_def bind_res_eq_Inr split: option.splits)
  show "dict_get (rev ws) k = None \<Longrightarrow> dict_get (rev ss) k = None"
    using assms by (induction ws arbitrary: ss) (auto simp: bind_res_eq_Inr map_add_def dest!: key split: option.splits if_splits)
  show "dict_get (rev ws) k = Some v \<Longrightarrow> stored_write ds cols (k, v) = Inr (k, v) \<Longrightarrow> dict_get (rev ss) k = Some v"
    using assms
  proof (induction ws arbitrary: ss)
    case (Cons w ws)
    then obtain s q where q: "stored_write ds cols w = Inr s" "map_res (stored_write ds cols) ws = Inr q" "ss = s # q"
      by (auto simp: bind_res_eq_Inr)
    have none: "dict_get (rev ws) k = None \<Longrightarrow> dict_get (rev q) k = None"
      using q(2) by (induction ws arbitrary: q) (auto simp: bind_res_eq_Inr map_add_def dest!: key split: option.splits if_splits)
    show ?case
    proof (cases "dict_get (rev ws) k")
      case None
      with Cons.prems(1) have "w = (k, v)" by (cases w) (simp add: map_add_def split: if_splits)
      with q(1) Cons.prems(2) have "s = (k, v)" by simp
      with q(3) none[OF None] show ?thesis by (simp add: map_add_def)
    next
      case (Some a)
      with Cons.prems(1) have "dict_get (rev ws) k = Some v" by (simp add: map_add_def)
      from Cons.IH[OF this Cons.prems(2) q(2)] q(3) show ?thesis by (simp add: map_add_def)
    qed
  qed simp
qed

lemma event_kind_cases:
  "trade_event_type s \<in> {''TradeCreated'', ''TradeEntered'', ''TradeUpdated'', ''StopTriggered'', ''RiskTriggered'', ''TradeExited'', ''RuntimeAlertGenerated''}"
  by (simp add: trade_event_type_def Let_def)

lemma entered_lifecycle:
  assumes "trade_event_type s = ''TradeEntered''"
  shows "str_upper s \<in> {''ACKNOWLEDGED'', ''SUBMITTED'', ''FILLED''}"
  using assms by (simp add: trade_event_type_def Let_def split: if_splits)

lemma closed_is_exit:
  "trade_lifecycle_state s \<in> {''Closed'', ''Cancelled''} \<Longrightarrow> trade_event_type s \<in> {''StopTriggered'', ''TradeExited''}"
  by (simp add: trade_event_type_def trade_lifecycle_state_def Let_def split: if_splits) (elim disjE; simp)+

lemma failed_is_alert: "trade_lifecycle_state s = ''Failed'' \<Longrightarrow> trade_event_type s = ''RuntimeAlertGenerated''"
  by (simp add: trade_event_type_def trade_lifecycle_state_def Let_def split: if_splits) (elim disjE; simp)

lemma flushed_get:
  "k \<noteq> ''updated_at'' \<Longrightarrow> dict_get (flushed now ws r) k = (case dict_get (rev ws) k of None \<Rightarrow> dict_get r k | Some v \<Rightarrow> Some v)"
  using dict_get_update[of r ws k] by (cases "dict_update r ws = r") (simp_all add: flushed_def Let_def)

definition position_after :: "string \<Rightarrow> cell \<Rightarrow> cell" where
  "position_after kind p = (if kind = ''TradeEntered'' then c_text ''IN_TRADE''
     else if kind \<in> set (tl trade_event_types) then c_text ''OUT_OF_TRADE'' else p)"

lemma event_writes_position:
  assumes "event_writes env payload row = Inr ws" and "c_get payload ''event_type'' = c_text kind" and "kind \<noteq> ''PNL_SNAPSHOT''"
    and "c_get row ''bot_id'' \<noteq> c_null"
  shows "dict_get (rev ws) ''bot_id'' = None" and "dict_get (rev ws) ''runtime_position_state'' =
    (if kind = ''TradeEntered'' \<or> kind \<in> set (tl trade_event_types) then Some (position_after kind c_null) else None)"
proof -
  have entered: "''TradeEntered'' \<notin> set (tl trade_event_types)" by (simp add: trade_event_types_def)
  show "dict_get (rev ws) ''bot_id'' = None" using assms by (auto simp: event_writes_def Let_def)
  show "dict_get (rev ws) ''runtime_position_state'' =
    (if kind = ''TradeEntered'' \<or> kind \<in> set (tl trade_event_types) then Some (position_after kind c_null) else None)"
    using assms entered by (auto simp: event_writes_def Let_def position_after_def)
qed

lemma same_key_not_null: "same_key ds v (c_text b) \<Longrightarrow> v \<noteq> c_null"
  by (auto simp: same_key_def)

lemma stored_position_write:
  "ds_binds ds (JText p) \<Longrightarrow>
     stored_write ds bot_instance_columns (''runtime_position_state'', c_text p) = Inr (''runtime_position_state'', c_text p)"
  by (simp add: stored_write_def bot_instance_columns_def)

lemma applied_position:
  assumes run: "apply_runtime_event_to_bot env ds now payload rows = Inr rows'"
    and payload: "c_get payload ''bot_id'' = c_text b" "c_get payload ''event_type'' = c_text kind" "kind \<noteq> ''PNL_SNAPSHOT''"
    and binds: "\<And>s. ds_binds ds (JText s)"
    and r: "find_first (\<lambda>r. same_key ds (c_get r ''bot_id'') (c_text b)) rows = Some r"
  shows "map_option (\<lambda>r. c_get r ''runtime_position_state'') (find_first (\<lambda>r. same_key ds (c_get r ''bot_id'') (c_text b)) rows') =
    Some (position_after kind (c_get r ''runtime_position_state''))"
proof -
  let ?p = "\<lambda>r. same_key ds (c_get r ''bot_id'') (c_text b)"
  have hit: "?p r" and "r \<in> set rows" using find_first_SomeD[OF r] by simp_all
  then have "list_ex ?p rows" by (auto simp: list_ex_iff)
  then have "bot_of_event ds payload rows = Some ?p" using payload(1) by (simp add: bot_of_event_def Let_def)
  with run r obtain ws ss where ws: "event_writes env payload r = Inr ws"
    and ss: "map_res (stored_write ds bot_instance_columns) ws = Inr ss" and rows': "rows' = update_first ?p (flushed now ss) rows"
    by (auto simp: apply_runtime_event_to_bot_def bind_res_eq_Inr)
  note w = event_writes_position[OF ws payload(2,3) same_key_not_null[OF hit]]
  have "dict_get (rev ss) ''bot_id'' = None" by (rule dict_get_stored(1)[OF ss w(1)])
  then have "?p (flushed now ss x)" if "?p x" for x using that by (simp add: dict_get_or_def flushed_get)
  then have found: "find_first ?p rows' = Some (flushed now ss r)" using r by (simp add: rows' find_first_update_first)
  have "c_get (flushed now ss r) ''runtime_position_state'' = position_after kind (c_get r ''runtime_position_state'')"
  proof (cases "kind = ''TradeEntered'' \<or> kind \<in> set (tl trade_event_types)")
    case True
    have "stored_write ds bot_instance_columns (''runtime_position_state'', position_after kind c_null) =
        Inr (''runtime_position_state'', position_after kind c_null)"
      using True by (auto simp: position_after_def intro: stored_position_write binds)
    with w(2) True have "dict_get (rev ss) ''runtime_position_state'' = Some (position_after kind c_null)"
      by (intro dict_get_stored(2)[OF ss]) simp_all
    with True show ?thesis by (auto simp: dict_get_or_def flushed_get position_after_def)
  next
    case False
    with w(2) have "dict_get (rev ss) ''runtime_position_state'' = None" by (intro dict_get_stored(1)[OF ss]) simp
    with False show ?thesis by (simp add: dict_get_or_def flushed_get position_after_def)
  qed
  with found show ?thesis by simp
qed

text \<open>The file's side.\<close>

lemma patched_position:
  assumes "file_position env b w = Some p" and "str_get env event ''bot_id'' [] = b" and "str_get env event ''event_type'' [] \<noteq> ''PNL_SNAPSHOT''"
  shows "file_position env b (patch_runtime_trade_position env event w) = Some
    (if str_get env event ''event_type'' [] = ''TradeEntered'' \<and> str_get env event ''position_state'' [] = ''OPEN'' then JText ''IN_TRADE''
     else if str_get env event ''event_type'' [] \<in> {''TradeExited'', ''StopTriggered'', ''RiskTriggered''} \<or>
        str_get env event ''lifecycle_state'' [] \<in> {''Closed'', ''Cancelled'', ''Failed''} then JText ''OUT_OF_TRADE'' else p)"
proof -
  let ?p = "\<lambda>r. py_str env (j_get r ''bot_id'' (j_get r ''name'' (JText []))) = b"
  obtain r where r: "find_first ?p (report_rows (rw_state w)) = Some r" "j_get r ''runtime_position_state'' JNull = p"
    using assms(1) by (auto simp: file_position_def)
  then have ex: "\<exists>r\<in>set (report_rows (rw_state w)). of_bot env event r"
    using find_first_SomeD[OF r(1)] assms(2) by (auto simp: of_bot_def)
  show ?thesis
  proof (cases "position_patch env event")
    case None
    with assms show ?thesis by (auto simp: patch_runtime_trade_position_def position_patch_def Let_def split: if_splits)
  next
    case (Some patch)
    have keys: "dict_get (rev patch) ''bot_id'' = None" "dict_get (rev patch) ''name'' = None"
      and pos: "dict_get (rev patch) ''runtime_position_state'' = Some
        (if str_get env event ''event_type'' [] = ''TradeEntered'' \<and> str_get env event ''position_state'' [] = ''OPEN''
         then JText ''IN_TRADE'' else JText ''OUT_OF_TRADE'')"
      and out: "\<not> (str_get env event ''event_type'' [] = ''TradeEntered'' \<and> str_get env event ''position_state'' [] = ''OPEN'') \<Longrightarrow>
         str_get env event ''event_type'' [] \<in> {''TradeExited'', ''StopTriggered'', ''RiskTriggered''} \<or>
         str_get env event ''lifecycle_state'' [] \<in> {''Closed'', ''Cancelled'', ''Failed''}"
      using Some by (auto simp: position_patch_def Let_def split: if_splits)
    have "?p (dict_update x patch)" if "?p x" for x using that keys by (simp add: dict_get_or_def dict_get_update)
    then have "find_first ?p (map (\<lambda>r. if ?p r then dict_update r patch else r) (report_rows (rw_state w))) = Some (dict_update r patch)"
      using r(1) by (simp add: find_first_map_if)
    then have "file_position env b (patch_runtime_trade_position env event w) = Some (j_get (dict_update r patch) ''runtime_position_state'' JNull)"
      using Some ex assms(2) by (simp add: file_position_def patch_runtime_trade_position_def of_bot_def Let_def)
    with pos out show ?thesis by (auto simp: dict_get_or_def dict_get_update)
  qed
qed

text \<open>The event an order leaves in the log, and what the database makes of it.\<close>

lemma record_order_event:
  assumes "record_order env b cid symbol side status q price reason w = (w', row)"
  shows "\<exists>w2. rw_state w2 = rw_state w \<and>
     (let event = trade_event_row (iso (pe_clock env (rw_clock w + 2))) (iso (pe_clock env (rw_clock w + 3)))
        (order_trade_event b cid symbol status q price reason)
      in rw_state w' = rw_state (patch_runtime_trade_position env event w2) \<and>
         logged_event w' = map (\<lambda>(k, v). (k, Json v)) event)"
proof -
  define w2 where "w2 = tick (tick ((tick (tick w))\<lparr>rw_orders := append_json_row orders_limit row (rw_orders w)\<rparr>))"
  have "rw_state w2 = rw_state w" by (simp add: w2_def tick_def)
  moreover have "w' = (let event = trade_event_row (iso (pe_clock env (rw_clock w + 2))) (iso (pe_clock env (rw_clock w + 3)))
          (order_trade_event b cid symbol status q price reason);
      w3 = patch_runtime_trade_position env event w2
    in w3\<lparr>rw_trade_events := append_json_row trade_events_limit event (rw_trade_events w3)\<rparr>)"
    using assms by (auto simp: record_order_def record_trade_event_def Let_def w2_def tick_def utc_now_iso_def clock_now_def eval_nat_numeral)
  ultimately show ?thesis by (intro exI[of _ w2]) (simp add: Let_def logged_event_def trade_events_limit_def)
qed

lemma order_event_fields [simp]:
  "str_get env (trade_event_row t1 t2 e) ''bot_id'' d = te_bot_id e"
  "str_get env (trade_event_row t1 t2 e) ''event_type'' d = te_event_type e"
  "str_get env (trade_event_row t1 t2 e) ''position_state'' d = te_position_state e"
  "str_get env (trade_event_row t1 t2 e) ''lifecycle_state'' d = te_lifecycle_state e"
  by (simp_all add: str_get_def trade_event_row_def dict_get_or_def)

lemma event_kind_kept: "clean_value (c_text (trade_event_type s)) = c_text (trade_event_type s)"
proof -
  have "list_all (\<lambda>k. \<not> blank (c_text k))
    [''TradeCreated'', ''TradeEntered'', ''TradeUpdated'', ''StopTriggered'', ''RiskTriggered'', ''TradeExited'', ''RuntimeAlertGenerated'']"
    by code_simp
  then show ?thesis using event_kind_cases[of s] by (auto simp: clean_value_def)
qed

lemma order_payload:
  assumes "logged_event w' = map (\<lambda>(k, v). (k, Json v)) (trade_event_row t1 t2 (order_trade_event b cid symbol status q price reason))"
    and "runtime_event_payload env ds now (clean_dict (logged_event w')) = Inr payload" and "\<not> blank (c_text b)"
  shows "c_get payload ''bot_id'' = c_text b" and "c_get payload ''event_type'' = c_text (trade_event_type status)"
proof -
  let ?e = "clean_dict (logged_event w')"
  have b: "clean_value (c_text b) = c_text b" "b \<noteq> []"
    using assms(3) by (auto simp: clean_value_def blank_def blank_texts_def str_strip_def strip_by_def str_lower_def)
  have e: "dict_get ?e ''bot_id'' = Some (c_text b)" "dict_get ?e ''event_type'' = Some (c_text (trade_event_type status))"
    using b(1) event_kind_kept[of status]
    by (simp_all add: clean_get assms(1) trade_event_row_def order_trade_event_def)
  have kind: "trade_event_type status \<noteq> []" using event_kind_cases[of status] by auto
  obtain numbers details where "payload = event_texts env now ?e @ numbers @ [(''details_json'', details)]"
    using assms(2) by (auto simp: runtime_event_payload_def bind_res_eq_Inr)
  then show "c_get payload ''bot_id'' = c_text b" "c_get payload ''event_type'' = c_text (trade_event_type status)"
    using e b(2) kind by (simp_all add: event_texts_def event_bot_id_def text_field_def Let_def dict_get_or_def)
qed

text \<open>The two rules agree: every exit by lifecycle is an exit by event type, but a failure is none.\<close>

lemma event_kind_rules:
  "''TradeEntered'' \<notin> {''TradeExited'', ''StopTriggered'', ''RiskTriggered''}" "''TradeEntered'' \<notin> set (tl trade_event_types)"
  "trade_event_type s \<in> set (tl trade_event_types) \<longleftrightarrow> trade_event_type s \<in> {''TradeExited'', ''StopTriggered'', ''RiskTriggered''}"
  "trade_event_type s = ''TradeEntered'' \<Longrightarrow> trade_lifecycle_state s \<notin> {''Closed'', ''Cancelled'', ''Failed''}"
  "trade_lifecycle_state s \<in> {''Closed'', ''Cancelled''} \<Longrightarrow> trade_event_type s \<in> {''TradeExited'', ''StopTriggered'', ''RiskTriggered''}"
  "trade_lifecycle_state s = ''Failed'' \<Longrightarrow> trade_event_type s \<notin> {''TradeExited'', ''StopTriggered'', ''RiskTriggered''}"
proof -
  show "''TradeEntered'' \<notin> {''TradeExited'', ''StopTriggered'', ''RiskTriggered''}" "''TradeEntered'' \<notin> set (tl trade_event_types)"
    by (simp_all add: trade_event_types_def)
  show "trade_event_type s \<in> set (tl trade_event_types) \<longleftrightarrow> trade_event_type s \<in> {''TradeExited'', ''StopTriggered'', ''RiskTriggered''}"
    using event_kind_cases[of s] by (simp add: trade_event_types_def) (elim disjE; simp)
  show "trade_event_type s = ''TradeEntered'' \<Longrightarrow> trade_lifecycle_state s \<notin> {''Closed'', ''Cancelled'', ''Failed''}"
    using closed_is_exit[of s] failed_is_alert[of s] by (intro notI) (simp, elim disjE; simp)
  show "trade_lifecycle_state s \<in> {''Closed'', ''Cancelled''} \<Longrightarrow> trade_event_type s \<in> {''TradeExited'', ''StopTriggered'', ''RiskTriggered''}"
    using closed_is_exit[of s] by (simp, elim disjE; simp)
  show "trade_lifecycle_state s = ''Failed'' \<Longrightarrow> trade_event_type s \<notin> {''TradeExited'', ''StopTriggered'', ''RiskTriggered''}"
    using failed_is_alert[of s] by simp
qed

lemma outcomes_agree_iff:
  assumes "p \<in> {''IN_TRADE'', ''OUT_OF_TRADE''}"
  shows "(if trade_event_type s = ''TradeEntered'' \<and> pos then ''IN_TRADE''
      else if trade_event_type s \<in> {''TradeExited'', ''StopTriggered'', ''RiskTriggered''} \<or> trade_lifecycle_state s \<in> {''Closed'', ''Cancelled'', ''Failed''}
      then ''OUT_OF_TRADE'' else p) =
    (if trade_event_type s = ''TradeEntered'' then ''IN_TRADE'' else if trade_event_type s \<in> set (tl trade_event_types) then ''OUT_OF_TRADE'' else p) \<longleftrightarrow>
    \<not> (trade_event_type s = ''TradeEntered'' \<and> \<not> pos \<and> p = ''OUT_OF_TRADE'') \<and> \<not> (trade_lifecycle_state s = ''Failed'' \<and> p = ''IN_TRADE'')"
proof -
  note rules = event_kind_rules(1,2) event_kind_rules(3-6)[of s]
  consider "trade_event_type s = ''TradeEntered''" | "trade_event_type s \<in> {''TradeExited'', ''StopTriggered'', ''RiskTriggered''}"
    | "trade_event_type s \<noteq> ''TradeEntered''" "trade_event_type s \<notin> {''TradeExited'', ''StopTriggered'', ''RiskTriggered''}"
    by fast
  then show ?thesis
  proof cases
    case 1
    have "trade_event_type s \<notin> {''TradeExited'', ''StopTriggered'', ''RiskTriggered''}" using rules(1) 1 by metis
    with 1 rules(4) assms show ?thesis by auto
  next
    case 2
    then have "trade_event_type s \<noteq> ''TradeEntered''" "trade_lifecycle_state s \<noteq> ''Failed''" using rules(1,6) by metis+
    with 2 rules(3) show ?thesis by simp
  next
    case 3
    then have "trade_lifecycle_state s \<notin> {''Closed'', ''Cancelled''}" using rules(5) by metis
    with 3 rules(3) assms show ?thesis by auto
  qed
qed

text \<open>The words of an order status that enter a trade, that leave it, and that tell of a failure.\<close>

definition entry_words :: "string list" where
  "entry_words = [''ACKNOWLEDGED'', ''SUBMITTED'', ''FILLED'']"

definition exit_words :: "string list" where
  "exit_words = [''STOP_TRIGGERED'', ''STOPPED'', ''RISK_TRIGGERED'', ''RISK_BLOCKED'', ''CLOSED'', ''EXITED'', ''CANCELLED'', ''CANCELED'']"

definition failure_words :: "string list" where
  "failure_words = [''REJECTED'', ''FAILED'', ''ERROR'']"

lemma status_words:
  "trade_event_type s = ''TradeEntered'' \<longleftrightarrow> str_upper s \<in> set entry_words"
  "trade_event_type s \<in> {''TradeExited'', ''StopTriggered'', ''RiskTriggered''} \<longleftrightarrow> str_upper s \<in> set exit_words"
  "trade_lifecycle_state s = ''Failed'' \<longleftrightarrow> str_upper s \<in> set failure_words"
  by (simp_all add: trade_event_type_def trade_lifecycle_state_def entry_words_def exit_words_def failure_words_def Let_def)

lemma file_exit_words:
  "trade_event_type s \<in> {''TradeExited'', ''StopTriggered'', ''RiskTriggered''} \<or> trade_lifecycle_state s \<in> {''Closed'', ''Cancelled'', ''Failed''} \<longleftrightarrow>
     str_upper s \<in> set exit_words \<union> set failure_words"
  using event_kind_rules(5)[of s] status_words(2,3)[of s] by (simp only: insert_iff empty_iff Un_iff) metis

text \<open>The database takes an event if it is switched on, does not refuse the event and does not know its identifier yet.\<close>

lemma event_taken_iff:
  "persist_runtime_event_db enabled env ds now event db \<noteq> db \<longleftrightarrow>
     enabled \<and> is_ok (snd (append_runtime_event env ds now event db)) \<and>
     (\<forall>payload. runtime_event_payload env ds now (clean_dict event) = Inr payload \<longrightarrow> \<not> event_known ds (c_get payload ''event_id'') db)"
proof (cases "append_runtime_event env ds now event db")
  case (Pair db' r)
  then show ?thesis
  proof (cases rule: append_event_cases)
    case (stored payload row rows)
    then have "db' \<noteq> db" by (auto dest: arg_cong[of _ _ bd_events])
    with stored(1-3) Pair show ?thesis by (simp add: persist_runtime_event_db_def is_ok_def)
  qed (use Pair in \<open>auto simp: persist_runtime_event_db_def is_ok_def\<close>)
qed

text \<open>\<open>C17\<close>: Where the file and the database agree whether a bot is in a trade, an order of the bot is recorded in the files
  and its event handed to the database. The file is in the trade after an entry of positive quantity, out of it after an exit
  or a failure, and keeps its position otherwise. The database, if it took the event, is in the trade after an entry of any quantity and
  out of it after an exit only; if it is switched off, refused the event or knew it, it keeps its position. So the two
  still agree exactly if the database took the event, the order is not an entry without quantity of a bot out of trade and
  not a failure of a bot in a trade, or if it did not and the file kept its position as well. It takes the event exactly if it is
  switched on, accepts the event and holds none of its identifier.
\<close>

theorem positions_agree_after_order_iff:
  assumes "file_position env b w = Some (JText p)" and "db_position ds b db = Some (c_text p)" and "p \<in> {''IN_TRADE'', ''OUT_OF_TRADE''}"
    and "record_order env b cid symbol side status q price reason w = (w', row)"
    and "persist_runtime_event_db enabled env ds now (logged_event w') db = db'"
    and "\<not> blank (c_text b)" and binds: "\<And>s. ds_binds ds (JText s)"
  shows "\<exists>pf pd. file_position env b w' = Some (JText pf) \<and> db_position ds b db' = Some (c_text pd) \<and>
    pf = (if str_upper status \<in> set entry_words \<and> flt (Fin 0) q then ''IN_TRADE''
          else if str_upper status \<in> set exit_words \<union> set failure_words then ''OUT_OF_TRADE'' else p) \<and>
    pd = (if db' = db then p else if str_upper status \<in> set entry_words then ''IN_TRADE''
          else if str_upper status \<in> set exit_words then ''OUT_OF_TRADE'' else p) \<and>
    (pf = pd \<longleftrightarrow>
      (if db' = db then pf = p
       else \<not> (str_upper status \<in> set entry_words \<and> \<not> flt (Fin 0) q \<and> p = ''OUT_OF_TRADE'') \<and>
            \<not> (str_upper status \<in> set failure_words \<and> p = ''IN_TRADE''))) \<and>
    (db' \<noteq> db \<longleftrightarrow> enabled \<and> is_ok (snd (append_runtime_event env ds now (logged_event w') db)) \<and>
      (\<forall>payload. runtime_event_payload env ds now (clean_dict (logged_event w')) = Inr payload \<longrightarrow> \<not> event_known ds (c_get payload ''event_id'') db))"
proof -
  let ?kind = "trade_event_type status" and ?life = "trade_lifecycle_state status"
  define t1 where "t1 = iso (pe_clock env (rw_clock w + 2))"
  define t2 where "t2 = iso (pe_clock env (rw_clock w + 3))"
  obtain w2 where w2: "rw_state w2 = rw_state w"
    and w': "rw_state w' = rw_state (patch_runtime_trade_position env (trade_event_row t1 t2 (order_trade_event b cid symbol status q price reason)) w2)"
    and log: "logged_event w' = map (\<lambda>(k, v). (k, Json v)) (trade_event_row t1 t2 (order_trade_event b cid symbol status q price reason))"
    using record_order_event[OF assms(4)] by (auto simp: Let_def t1_def t2_def)
  have open_iff: "te_position_state (order_trade_event b cid symbol status q price reason) = ''OPEN'' \<longleftrightarrow>
      flt (Fin 0) q \<and> str_upper status \<notin> set closed_order_states" by (simp add: order_trade_event_def)
  have te: "te_event_type (order_trade_event b cid symbol status q price reason) = ?kind"
    "te_lifecycle_state (order_trade_event b cid symbol status q price reason) = ?life"
    "te_bot_id (order_trade_event b cid symbol status q price reason) = b" by (simp_all add: order_trade_event_def)
  have kind: "?kind \<noteq> ''PNL_SNAPSHOT''" using event_kind_cases[of status] by auto
  have entered: "?kind = ''TradeEntered'' \<Longrightarrow> str_upper status \<notin> set closed_order_states"
    using entered_lifecycle[of status] by (auto simp: closed_order_states_def)
  define pf where "pf = (if ?kind = ''TradeEntered'' \<and> flt (Fin 0) q then ''IN_TRADE''
     else if ?kind \<in> {''TradeExited'', ''StopTriggered'', ''RiskTriggered''} \<or> ?life \<in> {''Closed'', ''Cancelled'', ''Failed''}
     then ''OUT_OF_TRADE'' else p)"
  have "file_position env b w2 = Some (JText p)" using assms(1) w2 by (simp add: file_position_def)
  from patched_position[OF this, of "trade_event_row t1 t2 (order_trade_event b cid symbol status q price reason)"]
  have on_file: "file_position env b w' = Some (JText pf)"
    using w' kind entered by (auto simp: file_position_def te open_iff pf_def)
  define pd where "pd = (if ?kind = ''TradeEntered'' then ''IN_TRADE'' else if ?kind \<in> set (tl trade_event_types) then ''OUT_OF_TRADE'' else p)"
  have db: "db_position ds b db' = Some (c_text (if db' = db then p else pd))"
  proof (cases "db' = db")
    case False
    then obtain r where "append_runtime_event env ds now (logged_event w') db = (db', r)"
      using assms(5) by (cases "append_runtime_event env ds now (logged_event w') db") (auto simp: persist_runtime_event_db_def split: if_splits)
    then show ?thesis
    proof (cases rule: append_event_cases)
      case (stored payload new_event rows)
      note pay = order_payload[OF log stored(2) assms(6)]
      obtain r where r: "find_first (\<lambda>r. same_key ds (c_get r ''bot_id'') (c_text b)) (bd_bots db) = Some r"
        "c_get r ''runtime_position_state'' = c_text p" using assms(2) by (auto simp: db_position_def)
      have "position_after ?kind (c_text p) = c_text pd" by (simp add: position_after_def pd_def)
      with applied_position[OF stored(6) pay kind binds r(1)] r(2) stored(7) False show ?thesis by (simp add: db_position_def)
    qed (use False in simp_all)
  qed (use assms(2) in simp)
  have agree: "pf = pd \<longleftrightarrow> \<not> (?kind = ''TradeEntered'' \<and> \<not> flt (Fin 0) q \<and> p = ''OUT_OF_TRADE'') \<and> \<not> (?life = ''Failed'' \<and> p = ''IN_TRADE'')"
    unfolding pf_def pd_def using assms(3) by (rule outcomes_agree_iff)
  have words: "pf = (if str_upper status \<in> set entry_words \<and> flt (Fin 0) q then ''IN_TRADE''
          else if str_upper status \<in> set exit_words \<union> set failure_words then ''OUT_OF_TRADE'' else p)"
    "pd = (if str_upper status \<in> set entry_words then ''IN_TRADE'' else if str_upper status \<in> set exit_words then ''OUT_OF_TRADE'' else p)"
    by (simp_all only: pf_def file_exit_words status_words(1)) (simp only: pd_def event_kind_rules(3) status_words(1,2))
  show ?thesis
    by (intro exI[of _ pf] exI[of _ "if db' = db then p else pd"] conjI on_file db words(1) event_taken_iff[of enabled env ds now "logged_event w'" db, unfolded assms(5)])
      (simp_all only: words(2) if_True if_False agree[unfolded status_words words(2)] split: if_split, simp_all)
qed

text \<open>An acknowledged order without a quantity: the bot enters a trade in the database, not in the file.\<close>

definition example_bot_world :: runtime_world where
  "example_bot_world = \<lparr>rw_clock = 0, rw_bots = Missing,
     rw_state = Rows [[(''bot_id'', JText ''alpha''), (''runtime_position_state'', JText ''OUT_OF_TRADE'')]], rw_control = Missing,
     rw_audit = Missing, rw_alerts = Missing, rw_orders = Missing, rw_trade_events = Missing, rw_snapshots = Missing\<rparr>"

definition example_order :: "runtime_world \<times> json_row" where
  "example_order = record_order example_env ''alpha'' ''c1'' ''BTC'' ''BUY'' ''ACKNOWLEDGED'' (Fin 0) (Fin 1) [] example_bot_world"

lemma example_order_accepted:
  "is_ok (snd (append_runtime_event example_env example_server 5 (logged_event (fst example_order)) example_bot_db))"
proof -
  have "record_order example_env ''alpha'' ''c1'' ''BTC'' ''BUY'' ''ACKNOWLEDGED'' (Fin 0) (Fin 1) [] example_bot_world =
      (fst example_order, snd example_order)" by (simp add: example_order_def)
  from record_order_event[OF this]
  have "logged_event (fst example_order) = map (\<lambda>(k, v). (k, Json v))
    (trade_event_row (iso 2) (iso 3) (order_trade_event ''alpha'' ''c1'' ''BTC'' ''ACKNOWLEDGED'' (Fin 0) (Fin 1) []))"
    by (elim exE) (simp add: Let_def example_env_def example_bot_world_def)
  moreover have "is_ok (snd (append_runtime_event example_env example_server 5 (map (\<lambda>(k, v). (k, Json v))
    (trade_event_row (iso 2) (iso 3) (order_trade_event ''alpha'' ''c1'' ''BTC'' ''ACKNOWLEDGED'' (Fin 0) (Fin 1) []))) example_bot_db))"
    by code_simp
  ultimately show ?thesis by simp
qed

lemma first_event_changes:
  assumes "append_runtime_event env ds now event db = (db', Inr ())" and "bd_events db = []"
  shows "db' \<noteq> db"
  using assms(1) by (cases rule: append_event_cases) (use assms(2) in \<open>auto simp: event_known_def dest: arg_cong[of _ _ bd_events]\<close>)

theorem positions_agree_after_order_iff_witness:
  "\<exists>pf pd. file_position example_env ''alpha'' (fst example_order) = Some (JText pf) \<and>
     db_position example_server ''alpha''
       (persist_runtime_event_db True example_env example_server 5 (logged_event (fst example_order)) example_bot_db) = Some (c_text pd) \<and>
     pf = ''OUT_OF_TRADE'' \<and> pd = ''IN_TRADE''"
proof -
  let ?a = "append_runtime_event example_env example_server 5 (logged_event (fst example_order)) example_bot_db"
  have a: "?a = (fst ?a, Inr ())" using example_order_accepted by (cases ?a) (auto simp: is_ok_iff)
  have file_side: "file_position example_env ''alpha'' example_bot_world = Some (JText ''OUT_OF_TRADE'')"
    and db_side: "db_position example_server ''alpha'' example_bot_db = Some (c_text ''OUT_OF_TRADE'')"
    and name: "\<not> blank (c_text ''alpha'')" and word: "str_upper ''ACKNOWLEDGED'' = ''ACKNOWLEDGED''"
    and empty: "bd_events example_bot_db = []" by code_simp+
  have binds: "ds_binds example_server (JText s)" for s by (simp add: example_server_def)
  have order: "record_order example_env ''alpha'' ''c1'' ''BTC'' ''BUY'' ''ACKNOWLEDGED'' (Fin 0) (Fin 1) [] example_bot_world =
      (fst example_order, snd example_order)" by (simp add: example_order_def)
  have out: "''OUT_OF_TRADE'' \<in> {''IN_TRADE'', ''OUT_OF_TRADE''}" by simp
  have taken: "persist_runtime_event_db True example_env example_server 5 (logged_event (fst example_order)) example_bot_db \<noteq> example_bot_db"
    using first_event_changes[OF a empty] by (simp add: persist_runtime_event_db_def)
  show ?thesis
    using positions_agree_after_order_iff[OF file_side db_side out order refl name binds, of True 5] taken
    by (elim exE conjE) (intro exI conjI, assumption+, simp_all add: word entry_words_def exit_words_def failure_words_def)
qed

end
