(* ===== verification/Dashboard_Store.thy ===== *)
theory Dashboard_Store
  imports Bot_Repository
begin

text \<open>
  The data access of the dashboard (\<open>dashboards/app.py\<close>): risk settings, bot definitions, journal and
  validation runs live in the database when it is enabled, and in report files when it is not or when an
  access to it raises. The state is the files, the database, whether it answers, and a counter of clock readings.
  The caches of a few seconds in front of the loaders are not modelled: every load reads.
\<close>

section \<open>State\<close>

record dash =
  da_clock :: nat
  da_bots :: report
  da_journal :: report
  da_risk :: report
  da_runs :: report
  da_actions :: report
  da_sizes :: report
  da_db :: bot_db
  da_reachable :: bool

text \<open>Settings and library calls: the order a query asks for by a time column, \<open>pd.to_datetime\<close>, \<open>str\<close> of an exception.\<close>

record dash_env =
  de_env :: py_env
  de_server :: db_server
  de_enabled :: bool
  de_newest :: "string \<Rightarrow> db_row list \<Rightarrow> db_row list"
  de_to_time :: "cell \<Rightarrow> instant option"
  de_exc_text :: "py_exc \<Rightarrow> string"

definition da_now :: "dash_env \<Rightarrow> dash \<Rightarrow> instant" where
  "da_now de d = pe_clock (de_env de) (da_clock d)"

definition da_tick :: "dash \<Rightarrow> dash" where
  "da_tick d = d\<lparr>da_clock := Suc (da_clock d)\<rparr>"

definition cells :: "json_row \<Rightarrow> db_row" where
  "cells r = map (\<lambda>(k, v). (k, Json v)) r"

definition json_cells :: "py_env \<Rightarrow> db_row \<Rightarrow> json_row" where
  "json_cells env r = map (\<lambda>(k, v). (k, json_of env v)) r"

text \<open>\<open>rows.insert(0, row)\<close> and the first \<open>n\<close> rows written back.\<close>

definition push_row :: "nat \<Rightarrow> json_row \<Rightarrow> report \<Rightarrow> report" where
  "push_row n row f = Rows (take n (row # report_rows f))"

text \<open>One session on the database.\<close>

definition try_db :: "(bot_db \<Rightarrow> (bot_db, 'a) outcome) \<Rightarrow> dash \<Rightarrow> (dash, 'a) outcome" where
  "try_db op d =
     (if da_reachable d then (let (db, r) = op (da_db d) in (d\<lparr>da_db := db\<rparr>, r))
      else (d, Inl (RuntimeError ''database unreachable'')))"

section \<open>Journal\<close>

record journal_entry =
  je_bot_name :: string
  je_symbol :: string
  je_event_type :: string
  je_severity :: string
  je_decision :: string
  je_reason :: string
  je_metrics :: json_row

definition entry_row :: "cell \<Rightarrow> journal_entry \<Rightarrow> db_row" where
  "entry_row time e =
     [(''event_time'', time), (''bot_name'', c_text (je_bot_name e)), (''symbol'', c_text (je_symbol e)),
      (''event_type'', c_text (je_event_type e)), (''severity'', c_text (je_severity e)), (''decision'', c_text (je_decision e)),
      (''reason'', c_text (je_reason e)), (''metrics'', Json (JObj (je_metrics e)))]"

definition append_file_journal :: "dash_env \<Rightarrow> journal_entry \<Rightarrow> dash \<Rightarrow> dash" where
  "append_file_journal de e d =
     (da_tick d)\<lparr>da_journal := push_row 500 (json_cells (de_env de) (entry_row (c_text (iso (da_now de d))) e)) (da_journal d)\<rparr>"

definition fallback_entry :: "string \<Rightarrow> string \<Rightarrow> journal_entry" where
  "fallback_entry what reason =
     \<lparr>je_bot_name = ''SYSTEM'', je_symbol = [], je_event_type = ''DATABASE_FALLBACK'', je_severity = ''WARN'',
      je_decision = what, je_reason = reason, je_metrics = []\<rparr>"

definition fall_back :: "dash_env \<Rightarrow> string \<Rightarrow> py_exc \<Rightarrow> dash \<Rightarrow> dash" where
  "fall_back de what e d = append_file_journal de (fallback_entry what (de_exc_text de e)) d"

definition append_journal :: "dash_env \<Rightarrow> journal_entry \<Rightarrow> dash \<Rightarrow> dash" where
  "append_journal de e d =
     (if de_enabled de
      then (case try_db (append_journal_event (de_server de) (da_now de d) (entry_row (Time (da_now de d)) e)) (da_tick d) of
              (d', Inr _) \<Rightarrow> d'
            | (d', Inl x) \<Rightarrow> append_file_journal de e (fall_back de ''JOURNAL'' x d'))
      else append_file_journal de e d)"

text \<open>What the dashboard shows of the journal, newest first.\<close>

definition load_journal_events :: "dash_env \<Rightarrow> dash \<Rightarrow> dash \<times> db_row list" where
  "load_journal_events de d =
     (let of_file = (\<lambda>d. map cells (report_rows (da_journal d))) in
      if de_enabled de
      then (case try_db (\<lambda>db. (db, read_journal_events (de_env de) (de_newest de ''event_time'') 250 db)) d of
              (d', Inr rows) \<Rightarrow> (d', rows)
            | (d', Inl x) \<Rightarrow> (let d'' = fall_back de ''JOURNAL_READ'' x d' in (d'', of_file d'')))
      else (d, of_file d))"

section \<open>Risk settings\<close>

definition load_risk_settings :: "dash_env \<Rightarrow> dash \<Rightarrow> (dash, db_row) outcome" where
  "load_risk_settings de d =
     (let of_file = (\<lambda>d. (d, case da_risk d of
            Missing \<Rightarrow> Inr default_risk_settings | Unreadable \<Rightarrow> Inr default_risk_settings
          | Object r \<Rightarrow> Inr (dict_update default_risk_settings (cells r))
          | _ \<Rightarrow> Inl (TypeError ''argument after ** must be a mapping'')))
      in if de_enabled de
         then (case try_db (\<lambda>db. (db, Inr (read_risk_settings (de_server de) db))) d of
                 (d', Inr r) \<Rightarrow> (d', Inr r)
               | (d', Inl x) \<Rightarrow> of_file (fall_back de ''RISK_SETTINGS'' x d'))
         else of_file d)"

definition settings_entry :: "json_row \<Rightarrow> journal_entry" where
  "settings_entry values =
     \<lparr>je_bot_name = ''SYSTEM'', je_symbol = [], je_event_type = ''RISK_SETTINGS'', je_severity = ''INFO'',
      je_decision = ''UPDATED'', je_reason = ''portfolio risk gates updated'', je_metrics = values\<rparr>"

definition save_risk_settings :: "dash_env \<Rightarrow> json_row \<Rightarrow> dash \<Rightarrow> dash" where
  "save_risk_settings de values d =
     (let to_file = (\<lambda>d. append_journal de (settings_entry values) (d\<lparr>da_risk := Object values\<rparr>)) in
      if de_enabled de
      then (case try_db (upsert_risk_settings (de_server de) (da_now de d) (cells values)) (da_tick d) of
              (d', Inr _) \<Rightarrow> append_journal de (settings_entry values) d'
            | (d', Inl x) \<Rightarrow> to_file (fall_back de ''RISK_SETTINGS'' x d'))
      else to_file d)"

section \<open>Validation runs\<close>

definition load_validation_runs_frame :: "dash_env \<Rightarrow> dash \<Rightarrow> dash \<times> db_row list" where
  "load_validation_runs_frame de d =
     (let of_file = (\<lambda>d. map cells (report_rows (da_runs d))) in
      if de_enabled de
      then (case try_db (\<lambda>db. (db, read_validation_runs (de_env de) (de_newest de ''created_at'') 100 db)) d of
              (d', Inr rows) \<Rightarrow> (d', rows)
            | (d', Inl x) \<Rightarrow> (let d'' = fall_back de ''VALIDATION_READ'' x d' in (d'', of_file d'')))
      else (d, of_file d))"

definition save_validation_run :: "dash_env \<Rightarrow> json_row \<Rightarrow> dash \<Rightarrow> dash" where
  "save_validation_run de row d =
     (let to_file = (\<lambda>d. d\<lparr>da_runs := push_row 100 row (da_runs d)\<rparr>) in
      if de_enabled de
      then (case try_db (upsert_validation_run (de_server de) (da_now de d) (cells row)) (da_tick d) of
              (d', Inr _) \<Rightarrow> d'
            | (d', Inl x) \<Rightarrow> to_file (fall_back de ''VALIDATION_WRITE'' x d'))
      else to_file d)"

text \<open>The newest run of a bot; the frame of the runs may lack the column.\<close>

definition last_validation_for_bot :: "dash_env \<Rightarrow> string \<Rightarrow> dash \<Rightarrow> dash \<times> db_row option" where
  "last_validation_for_bot de name d =
     (let (d', runs) = load_validation_runs_frame de d
      in (d', find_first (\<lambda>r. case dict_get r ''bot_name'' of None \<Rightarrow> False | Some v \<Rightarrow> c_str (de_env de) v = name) runs))"

section \<open>Action and sizing audit\<close>

definition append_action_audit ::
    "dash_env \<Rightarrow> (instant \<Rightarrow> string) \<Rightarrow> string \<Rightarrow> string \<Rightarrow> string \<Rightarrow> json_row \<Rightarrow> json_row \<Rightarrow> string \<Rightarrow> dash \<Rightarrow> dash" where
  "append_action_audit de stamp action bot_id instance_id previous new reason d =
     (let d1 = da_tick d in
      (da_tick d1)\<lparr>da_actions := push_row 500
        [(''audit_id'', JText (''audit-'' @ stamp (da_now de d))), (''action_type'', JText action), (''bot_id'', JText bot_id),
         (''runtime_instance_id'', JText instance_id), (''user_id_or_process_id'', JText ''streamlit_ui''),
         (''previous_value_json'', JObj previous), (''new_value_json'', JObj new), (''reason'', JText reason),
         (''created_at'', JText (iso (da_now de d1)))] (da_actions d)\<rparr>)"

definition persist_position_size_decision :: "json_row \<Rightarrow> dash \<Rightarrow> dash" where
  "persist_position_size_decision decision d = d\<lparr>da_sizes := push_row 500 decision (da_sizes d)\<rparr>"

section \<open>Bot definitions\<close>

text \<open>A frame: rows over the same columns; a cell a row lacks is NaN. Assigning the empty dictionary to a column leaves NaN.\<close>

fun cell_columns :: "db_row list \<Rightarrow> string list" where
  "cell_columns [] = []"
| "cell_columns (r # rs) = map fst r @ filter (\<lambda>c. c \<notin> fst ` set r) (cell_columns rs)"

definition cell_frame :: "db_row list \<Rightarrow> db_row list" where
  "cell_frame rs = map (\<lambda>r. map (\<lambda>c. (c, dict_get_or r c (Json missing_cell))) (cell_columns rs)) rs"

definition no_rows :: "db_row list \<Rightarrow> bool" where
  "no_rows f = (f = [] \<or> cell_columns f = [])"

definition bot_frame_defaults :: db_row where
  "bot_frame_defaults =
     [(''timeframe'', c_text ''1h''), (''capital'', Json (JNum (Fin 0))), (''parameters'', Json missing_cell), (''state'', c_text ''DRAFT''),
      (''status_reason'', c_text []), (''created_at'', c_text []), (''updated_at'', c_text []), (''deployed_at'', c_text []),
      (''heartbeat_at'', c_text []), (''cumulative_started_at'', c_text []), (''cumulative_realized_pnl'', Json (JNum (Fin 0))),
      (''cumulative_fees'', Json (JNum (Fin 0))), (''cumulative_slippage'', Json (JNum (Fin 0))), (''cumulative_trade_count'', Json (JInt 0)),
      (''last_entry_at'', c_text []), (''last_exit_at'', c_text []), (''runtime_position_state'', c_text ''OUT_OF_TRADE''),
      (''last_trade_event_type'', c_text []), (''last_trade_event_at'', c_text []), (''last_trade_event_reason'', c_text [])]"

definition default_cell :: "string \<times> cell \<Rightarrow> db_row \<Rightarrow> db_row" where
  "default_cell kv r = (if dict_get r (fst kv) = None then dict_set (fst kv) (snd kv) r else r)"

definition normalize_bot_row :: "py_env \<Rightarrow> db_row \<Rightarrow> db_row" where
  "normalize_bot_row env r0 =
     (let r = fold default_cell bot_frame_defaults r0 in
      if dict_get r ''bot_id'' = None \<and> dict_get r ''name'' \<noteq> None
      then dict_set ''bot_id'' (c_text (strip_underscores (collapse False (c_str env (c_get r ''name''))))) r else r)"

definition normalize_bot_frame :: "py_env \<Rightarrow> db_row list \<Rightarrow> db_row list" where
  "normalize_bot_frame env f = (if no_rows f then f else map (normalize_bot_row env) f)"

definition cell_freshness :: "dash_env \<Rightarrow> db_row \<Rightarrow> instant" where
  "cell_freshness de r =
     (case fold (\<lambda>c f. newer f (de_to_time de (c_get r c))) [''heartbeat_at'', ''deployed_at'', ''created_at'']
             (de_to_time de (c_get r ''updated_at'')) of None \<Rightarrow> 0 | Some t \<Rightarrow> t)"

fun first_per_name :: "(db_row \<Rightarrow> string) \<Rightarrow> db_row list \<Rightarrow> db_row list" where
  "first_per_name key [] = []"
| "first_per_name key (r # rs) = r # first_per_name key (filter (\<lambda>x. key x \<noteq> key r) rs)"

definition bot_name_of :: "py_env \<Rightarrow> db_row \<Rightarrow> string" where
  "bot_name_of env r = c_str env (c_get r ''name'')"

definition merge_bot_frames :: "dash_env \<Rightarrow> db_row list \<Rightarrow> db_row list \<Rightarrow> db_row list" where
  "merge_bot_frames de primary secondary =
     (let frames = filter (\<lambda>f. \<not> no_rows f) [primary, secondary]; env = de_env de in
      if frames = [] then []
      else (let merged = normalize_bot_frame env (cell_frame (concat frames)) in
        if ''name'' \<notin> set (cell_columns merged) then merged
        else first_per_name (bot_name_of env) (sort_key (\<lambda>r. (bot_name_of env r, - cell_freshness de r)) merged)))"

definition save_rows_to_db :: "dash_env \<Rightarrow> instant \<Rightarrow> db_row list \<Rightarrow> bot_db \<Rightarrow> (bot_db, unit) outcome" where
  "save_rows_to_db de now rows db = for_act (upsert_bot_instance (de_env de) (de_server de) now) rows db"

definition file_bots :: "dash_env \<Rightarrow> dash \<Rightarrow> db_row list" where
  "file_bots de d = normalize_bot_frame (de_env de) (cell_frame (map cells (report_rows (da_bots d))))"

definition load_bot_instances :: "dash_env \<Rightarrow> dash \<Rightarrow> dash \<times> db_row list" where
  "load_bot_instances de d =
     (let from_file = file_bots de d;
          of_file = (\<lambda>d. if no_rows from_file then (d\<lparr>da_bots := Rows []\<rparr>, []) else (d, from_file))
      in if de_enabled de
         then (case try_db (\<lambda>db. bind_act (db, read_bot_instances (de_env de) (de_newest de ''created_at'') db) (\<lambda>db rows.
                 if rows = [] then (db, Inr (merge_bot_frames de [] from_file))
                 else (let db_frame = normalize_bot_frame (de_env de) rows; merged = merge_bot_frames de db_frame from_file
                       in if length db_frame < length merged
                          then bind_act (save_rows_to_db de (da_now de d) merged db) (\<lambda>db' _. (db', Inr merged))
                          else (db, Inr merged)))) (da_tick d) of
                 (d', Inr rows) \<Rightarrow> (d', rows)
               | (d', Inl x) \<Rightarrow> of_file (fall_back de ''BOT_INSTANCES'' x d'))
         else of_file d)"

definition save_bot_instances :: "dash_env \<Rightarrow> db_row list \<Rightarrow> dash \<Rightarrow> dash" where
  "save_bot_instances de frame d0 =
     (let d = d0\<lparr>da_bots := Rows (map (json_cells (de_env de)) frame)\<rparr> in
      if de_enabled de
      then (case try_db (save_rows_to_db de (da_now de d) frame) (da_tick d) of
              (d', Inr _) \<Rightarrow> d'
            | (d', Inl x) \<Rightarrow> fall_back de ''BOT_INSTANCES'' x d')
      else d)"

definition removed_entry :: "string \<Rightarrow> string \<Rightarrow> string \<Rightarrow> journal_entry" where
  "removed_entry name symbol state =
     \<lparr>je_bot_name = name, je_symbol = symbol, je_event_type = ''BOT_DELETED'', je_severity = ''WARN'', je_decision = ''REMOVED'',
      je_reason = ''bot definition removed from Bot Admin'', je_metrics = [(''state'', JText state)]\<rparr>"

definition remove_bot_definition :: "dash_env \<Rightarrow> string \<Rightarrow> dash \<Rightarrow> dash \<times> bool" where
  "remove_bot_definition de name d0 =
     (let (d, bots) = load_bot_instances de d0; env = de_env de in
      case find_first (\<lambda>r. bot_name_of env r = name) bots of
        None \<Rightarrow> (d, False)
      | Some r \<Rightarrow>
          (let state = c_str env (dict_get_or r ''state'' (c_text ''DRAFT'')) in
           if state \<in> {''RUNNING'', ''DEPLOYED''} then (d, False)
           else (let d1 = d\<lparr>da_bots := Rows (map (json_cells env) (filter (\<lambda>r. bot_name_of env r \<noteq> name) bots))\<rparr>;
                     entry = removed_entry name (c_str env (dict_get_or r ''symbol'' (c_text []))) state
                 in if de_enabled de
                    then (case try_db (\<lambda>db. let (db', n) = delete_bot_instance (de_server de) name db in (db', Inr n)) d1 of
                            (d2, Inr _) \<Rightarrow> (append_journal de entry d2, True)
                          | (d2, Inl x) \<Rightarrow> (fall_back de ''BOT_DELETE'' x d2, False))
                    else (append_journal de entry d1, True))))"

section \<open>Lifecycle transitions\<close>

definition transition_entry :: "py_env \<Rightarrow> string \<Rightarrow> string \<Rightarrow> db_row \<Rightarrow> journal_entry" where
  "transition_entry env state reason r =
     \<lparr>je_bot_name = bot_name_of env r, je_symbol = c_str env (c_get r ''symbol''), je_event_type = ''BOT_'' @ state, je_severity = ''INFO'',
      je_decision = state, je_reason = reason, je_metrics = [(''strategy'', json_of env (c_get r ''strategy''))]\<rparr>"

definition moved_row :: "string \<Rightarrow> string \<Rightarrow> string \<Rightarrow> json_row option \<Rightarrow> db_row \<Rightarrow> db_row" where
  "moved_row now state reason parameters r =
     dict_update r ([(''state'', c_text state), (''status_reason'', c_text reason), (''heartbeat_at'', c_text now)]
       @ (if state \<in> {''DEPLOYED'', ''RUNNING''} then [(''deployed_at'', c_text now)] else [])
       @ (case parameters of None \<Rightarrow> [] | Some p \<Rightarrow> [(''parameters'', Json (JObj p))]))"

text \<open>The parameters after a transition, if it updates any; the updates of a start also record its time.\<close>

definition moved_parameters :: "string \<Rightarrow> string \<Rightarrow> json_row \<Rightarrow> db_row \<Rightarrow> json_row option" where
  "moved_parameters now state updates r =
     (let us = (if state \<in> {''DEPLOYED'', ''RUNNING''}
                then dict_update updates [(''runtime_started_at'', JText now), (''runtime_pnl_started_at'', JText now)] else updates)
      in if us = [] then None
         else Some (dict_update (case c_get r ''parameters'' of Json (JObj p) \<Rightarrow> p | _ \<Rightarrow> []) us))"

definition transition_bot :: "dash_env \<Rightarrow> string \<Rightarrow> string \<Rightarrow> string \<Rightarrow> json_row \<Rightarrow> dash \<Rightarrow> (dash, unit) outcome" where
  "transition_bot de name state reason updates d0 =
     (let (d, bots) = load_bot_instances de d0; env = de_env de; hit = (\<lambda>r. bot_name_of env r = name) in
      case filter hit bots of
        [] \<Rightarrow> (d, Inr ())
      | r # others \<Rightarrow>
          (let now = iso (da_now de d); parameters = moved_parameters now state updates r in
           if parameters \<noteq> None \<and> others \<noteq> [] then (d, Inl (ValueError ''length of values''))
           else (let moved = moved_row now state reason parameters;
                     d1 = save_bot_instances de (map (\<lambda>r. if hit r then moved r else r) bots) (da_tick d)
                 in if dict_get r ''symbol'' = None \<or> dict_get r ''strategy'' = None then (d1, Inl (KeyError ''symbol''))
                    else (append_journal de (transition_entry env state reason (moved r)) d1, Inr ()))))"


section \<open>Where a journal entry goes\<close>

definition entry_texts :: "journal_entry \<Rightarrow> string list" where
  "entry_texts e = [je_bot_name e, je_symbol e, je_event_type e, je_severity e, je_decision e, je_reason e]"

definition all_written :: "journal_entry \<Rightarrow> bool" where
  "all_written e = list_all (\<lambda>s. \<not> blank (c_text s)) (entry_texts e)"

lemma clean_metrics [simp]: "clean_value (Json (JObj m)) = Json (JObj m)" "clean_value (Time t) = Time t"
  by (simp_all add: clean_value_def blank_def is_na_def)

lemma entry_payload:
  "journal_payload ds now (clean_dict (entry_row (Time t) e)) = Inr
     [(''event_time'', Time t), (''bot_name'', clean_value (c_text (je_bot_name e))), (''symbol'', clean_value (c_text (je_symbol e))),
      (''event_type'', clean_value (c_text (je_event_type e))), (''severity'', clean_value (c_text (je_severity e))),
      (''decision'', clean_value (c_text (je_decision e))), (''reason'', clean_value (c_text (je_reason e))),
      (''metrics_json'', c_text (ds_dumps ds (JObj (je_metrics e))))]"
  by (simp add: journal_payload_def Let_def dict_get_or_def clean_get entry_row_def)

lemma clean_text_stored:
  "(\<And>j. ds_binds ds j) \<Longrightarrow> \<not> co_time c \<Longrightarrow> \<not> co_nullable c \<Longrightarrow> is_ok (stored_cell ds c (clean_value (c_text s))) = (\<not> blank (c_text s))"
  by (simp add: clean_value_def stored_cell_def)

lemma journal_row_ok:
  assumes "\<And>j. ds_binds ds j" and "journal_payload ds now (clean_dict (entry_row (Time t) e)) = Inr p"
  shows "is_ok (new_row ds journal_event_columns now p) = all_written e"
  using assms(2) clean_text_stored[OF assms(1)]
  by (auto simp: new_row_ok_iff entry_payload journal_event_columns_def dict_get_or_def all_written_def entry_texts_def column_defs assms(1))


lemma append_journal_event_written:
  assumes "\<And>j. ds_binds ds j" and "all_written e"
  shows "\<exists>r. append_journal_event ds now (entry_row (Time t) e) db = (db\<lparr>bd_journal := bd_journal db @ [r]\<rparr>, Inr ()) \<and>
    dict_get r ''symbol'' = Some (c_text (je_symbol e)) \<and> dict_get r ''reason'' = Some (c_text (je_reason e))"
proof -
  obtain p where p: "journal_payload ds now (clean_dict (entry_row (Time t) e)) = Inr p" using entry_payload by blast
  then obtain r where r: "new_row ds journal_event_columns now p = Inr r"
    using journal_row_ok[OF assms(1) p] assms(2) by (auto simp: is_ok_iff)
  have "distinct (map co_name journal_event_columns)" by (simp add: journal_event_columns_def)
  note cell = new_row_cells[OF r _ this]
  have "dict_get r ''symbol'' = Some (c_text (je_symbol e))"
    using cell[of "required ''symbol''"] p assms
    by (auto simp: entry_payload journal_event_columns_def dict_get_or_def all_written_def entry_texts_def clean_value_def)
  moreover have "dict_get r ''reason'' = Some (c_text (je_reason e))"
    using cell[of "defaulted ''reason'' (JText [])"] p assms
    by (auto simp: entry_payload journal_event_columns_def dict_get_or_def all_written_def entry_texts_def clean_value_def)
  ultimately show ?thesis using p r by (intro exI[of _ r]) (simp add: append_journal_event_def)
qed

lemma append_journal_event_blank:
  assumes "\<And>j. ds_binds ds j" and "\<not> all_written e"
  shows "\<exists>x. append_journal_event ds now (entry_row (Time t) e) db = (db, Inl x)"
proof -
  obtain p where p: "journal_payload ds now (clean_dict (entry_row (Time t) e)) = Inr p" using entry_payload by blast
  then obtain x where "new_row ds journal_event_columns now p = Inl x"
    using journal_row_ok[OF assms(1) p] assms(2) by (cases "new_row ds journal_event_columns now p") auto
  with p show ?thesis by (simp add: append_journal_event_def)
qed

lemma file_journal_head:
  "report_rows (da_journal (append_file_journal de e d)) = take 500
     (json_cells (de_env de) (entry_row (c_text (iso (da_now de d))) e) # report_rows (da_journal d))"
  "da_db (append_file_journal de e d) = da_db d"
  by (simp_all add: append_file_journal_def push_row_def da_tick_def)

text \<open>With the database enabled and every value acceptable to its driver, a journal entry goes to the database exactly when
  the database answers and none of the entry's six texts is blank, and then the file is left alone. Otherwise the
  database journal does not change and the entry heads the file journal, above the record of the fallback.
  The entries the dashboard writes about itself have a blank symbol, so they are never in the database journal, which
  is the one it shows.
\<close>

theorem journal_entry_store:
  assumes "de_enabled de" and binds: "\<And>j. ds_binds (de_server de) j"
  shows "if da_reachable d \<and> all_written e
    then da_journal (append_journal de e d) = da_journal d \<and>
      (\<exists>r. bd_journal (da_db (append_journal de e d)) = bd_journal (da_db d) @ [r] \<and> dict_get r ''symbol'' = Some (c_text (je_symbol e)) \<and>
         dict_get r ''reason'' = Some (c_text (je_reason e)))
    else da_db (append_journal de e d) = da_db d \<and>
      (\<exists>x r fallback. report_rows (da_journal (append_journal de e d)) = take 500 (r # fallback # take 499 (report_rows (da_journal d))) \<and>
         dict_get r ''symbol'' = Some (JText (je_symbol e)) \<and> dict_get r ''reason'' = Some (JText (je_reason e)) \<and>
         dict_get fallback ''event_type'' = Some (JText ''DATABASE_FALLBACK'') \<and> dict_get fallback ''reason'' = Some (JText (de_exc_text de x)))"
proof (cases "da_reachable d \<and> all_written e")
  case True
  with append_journal_event_written[OF binds, of e] obtain r where
    "append_journal_event (de_server de) (da_now de d) (entry_row (Time (da_now de d)) e) (da_db d) =
        ((da_db d)\<lparr>bd_journal := bd_journal (da_db d) @ [r]\<rparr>, Inr ())"
    and "dict_get r ''symbol'' = Some (c_text (je_symbol e))" "dict_get r ''reason'' = Some (c_text (je_reason e))" by metis
  with True assms(1) show ?thesis by (simp add: append_journal_def try_db_def da_tick_def)
next
  case False
  obtain x where "try_db (append_journal_event (de_server de) (da_now de d) (entry_row (Time (da_now de d)) e)) (da_tick d) = (da_tick d, Inl x)"
  proof (cases "da_reachable d")
    case True
    with False append_journal_event_blank[OF binds, of e] obtain x where
      "append_journal_event (de_server de) (da_now de d) (entry_row (Time (da_now de d)) e) (da_db d) = (da_db d, Inl x)" by metis
    with True show thesis by (intro that[of x]) (simp add: try_db_def da_tick_def)
  qed (simp add: try_db_def da_tick_def that)
  then have j: "append_journal de e d = append_file_journal de e (fall_back de ''JOURNAL'' x (da_tick d))"
    using assms(1) by (simp add: append_journal_def)
  have cell_at: "dict_get (json_cells env r) k = map_option (json_of env) (dict_get r k)" for env r k
    by (simp add: json_cells_def map_of_map)
  show ?thesis
    using False
    by (auto simp: j fall_back_def file_journal_head da_tick_def cell_at entry_row_def fallback_entry_def json_of_def intro!: exI[of _ x])
qed

text \<open>The entry the dashboard writes when the risk settings were saved: its symbol is blank.\<close>

definition example_dash_env :: dash_env where
  "example_dash_env = \<lparr>de_env = example_env, de_server = example_server, de_enabled = True, de_newest = (\<lambda>_. rev),
     de_to_time = (\<lambda>_. None), de_exc_text = (\<lambda>_. ''error'')\<rparr>"

definition example_dash :: dash where
  "example_dash = \<lparr>da_clock = 0, da_bots = Missing, da_journal = Missing, da_risk = Missing, da_runs = Missing, da_actions = Missing,
     da_sizes = Missing, da_db = empty_bot_db, da_reachable = True\<rparr>"

theorem journal_entry_store_witness:
  "da_db (append_journal example_dash_env (settings_entry []) example_dash) = empty_bot_db \<and>
   report_rows (da_journal (append_journal example_dash_env (settings_entry []) example_dash)) \<noteq> []"
proof -
  have "\<not> all_written (settings_entry [])" by code_simp
  then show ?thesis
    using journal_entry_store[of example_dash_env example_dash "settings_entry []"]
    by (auto simp: example_dash_env_def example_server_def example_dash_def)
qed

end
