(* ===== verification/Dashboard_Gates.thy ===== *)
theory Dashboard_Gates
  imports Dashboard_Store Backtest_Composite
begin

text \<open>
  The decisions of the dashboard about bots (\<open>dashboards/app.py\<close>): which strategies and symbols may be deployed,
  the defaults a strategy is deployed with, position sizing, the portfolio risk gate, the certification gate of the
  marketplace, and what a bot's position is said to be. The argument \<open>q\<close> is the square root the strategy registry
  is built over.
\<close>

section \<open>Strategies\<close>

definition certified_symbols_for_strategy :: "string \<Rightarrow> string list" where
  "certified_symbols_for_strategy name = dict_get_or
     [(''KCJ ATR Trend Burst 5m'', [''ETH/USDT'', ''XRP/USDT'']), (''TradingView Mean Reversion ATR 1h'', [''TRX/USDT'']),
      (''Certified Risk Managed Composite'', [''BTC/USDT'', ''SOL/USDT'', ''TRX/USDT''])] name []"

definition strategy_symbol_is_certified :: "string \<Rightarrow> string \<Rightarrow> bool" where
  "strategy_symbol_is_certified name symbol =
     (let certified = certified_symbols_for_strategy name in certified = [] \<or> symbol \<in> set certified)"

lemma dict_update_fresh:
  "distinct (map fst kvs) \<Longrightarrow> fst ` set kvs \<inter> fst ` set d = {} \<Longrightarrow> dict_update d kvs = d @ kvs"
proof (induction kvs arbitrary: d)
  case (Cons kv kvs)
  have "dict_set (fst kv) (snd kv) d = d @ [kv]" if "fst kv \<notin> fst ` set d"
    using that by (induction d) auto
  with Cons show ?case by (cases kv) (auto simp: Cons.IH)
qed simp

lemmas strategy_defs = existing_momentum_def atr_trend_burst_def vwap_reclaim_def kcj_burst_def research_momentum_def
  time_series_momentum_def short_term_reversal_def mean_reversion_def mean_reversion_10m_def mean_reversion_1h_def
  certified_composite_def aamx5_def asvr1h_def atrc10_def adve_def alrc_def afma_def aqmr_def astp_def atmr_def aapo_def
  institutional_clone_def base_strategy_def

lemma registered_names: "map (bk_name \<circ> fst) (registered q) =
  [''Existing Momentum'', ''ATR Trend Burst'', ''VWAP Reclaim'', ''KCJ ATR Trend Burst 5m'', ''Research Momentum Volatility'',
   ''Academic Time-Series Momentum'', ''Academic Short-Term Reversal'', ''TradingView Mean Reversion ATR'',
   ''TradingView Mean Reversion ATR 10m'', ''TradingView Mean Reversion ATR 1h'', ''Certified Risk Managed Composite'',
   ''Aegis Adaptive Momentum Expansion Engine (AAMX-5)'', ''Aegis Statistical Volatility Reversion Engine (ASVR-1H)'',
   ''Aegis Tactical Reversion Confirmation Engine (ATRC-10)'', ''Aegis Directional Volatility Expansion Engine (ADVE)'',
   ''Aegis Liquidity Reclaim Continuation Engine (ALRC)'', ''Aegis Flow Momentum Alignment Engine (AFMA)'',
   ''Aegis Quantitative Momentum Regime Engine (AQMR)'', ''Aegis Systematic Trend Persistence Engine (ASTP)'',
   ''Aegis Tactical Mean Reversion Engine (ATMR)'', ''Aegis Adaptive Portfolio Orchestration Engine (AAPO)'']"
  by (simp add: registered_def strategy_defs)

lemma strategy_registry_eq: "strategy_registry q = map (\<lambda>k. (bk_name (fst k), k)) (registered q)"
proof -
  have "distinct (map (bk_name \<circ> fst) (registered q))" unfolding registered_names by simp
  then show ?thesis by (simp add: strategy_registry_def dict_update_fresh comp_def)
qed

lemma activation_upper: "str_upper ''DORMANT'' = ''DORMANT''" "str_upper ''ACTIVE'' = ''ACTIVE''"
  by code_simp+

lemma active_names: "active_strategy_names q =
  [''KCJ ATR Trend Burst 5m'', ''TradingView Mean Reversion ATR 1h'', ''Certified Risk Managed Composite'']"
  by (simp add: active_strategy_names_def strategy_registry_eq registered_def strategy_defs activation_upper)

fun contains :: "string \<Rightarrow> string \<Rightarrow> bool" where
  "contains sub [] = (sub = [])"
| "contains sub (c # cs) = (startswith (c # cs) sub \<or> contains sub cs)"

definition strategy_type_label :: "string \<Rightarrow> string \<Rightarrow> string" where
  "strategy_type_label name timeframe =
     (let n = str_lower name in
      if contains ''mean reversion'' n \<or> contains ''reversal'' n then ''Mean reversion''
      else if contains ''trend'' n \<or> contains ''momentum'' n \<or> contains ''burst'' n then ''Trend / momentum''
      else if str_lower timeframe \<in> {''1d'', ''d'', ''daily''} then ''Daily swing'' else ''Multi-factor'')"

record deployment_defaults =
  dd_strategy :: string
  dd_strategy_type :: string
  dd_strategy_version :: string
  dd_recommended_timeframe :: string
  dd_stop_type :: string
  dd_stop_value :: string
  dd_tp_type :: string
  dd_tp_value :: string
  dd_trailing_enabled :: bool
  dd_emergency_stop_enabled :: bool
  dd_risk_policy_stop_status :: string
  dd_minimum_capital :: pyfloat
  dd_allocation_model :: string
  dd_risk_classification :: string
  dd_runtime_profile :: string
  dd_regimes :: string

text \<open>The stop, target and risk profile by kind of strategy: type and value of the stop and the target, trailing, risk class,
  minimum capital, runtime profile.\<close>

definition stop_profile ::
    "bool \<Rightarrow> string \<Rightarrow> string \<Rightarrow> bool \<Rightarrow> string \<times> string \<times> string \<times> string \<times> bool \<times> string \<times> pyfloat \<times> string" where
  "stop_profile is_daily n timeframe dormant =
     (if is_daily
      then (''ATR-based stop + ATR trail'', ''2.0 ATR hard stop; 2.0 ATR trail'', ''Strategy default TP / trend capture'',
        ''No forced fixed TP; exit priority HARD_STOP -> ATR_TRAIL -> TREND_BREAK -> TIME_STOP'', True, ''Swing trend risk'', Fin 500,
        ''Daily swing; monitor once per completed daily candle'')
      else if contains ''mean reversion'' n
      then (''ATR trailing stop'', ''ATR(14) * 2.0 for 1h; ATR(14) * 1.5-2.0 for 10m'', ''Staged partial TP'', ''TP1 1R, TP2 2R, TP3 3R'', True,
        ''Volatility mean-reversion risk'', Fin 250, ''Intraday mean-reversion; completed candles only'')
      else if contains ''5m'' (str_lower timeframe) \<or> contains ''burst'' n
      then (''ATR stop + EMA trailing stop'', ''Symbol ATR multiplier with EMA stop trail'', ''Partial TP + strategy default TP'',
        ''50% partial at RR/USD trigger, remaining protected at breakeven'', True, ''Fast intraday momentum risk'', Fin 250,
        ''5m tactical runtime; near-real-time PnL and protection checks'')
      else (''ATR / strategy stop'', ''Strategy-generated stop from replay signal'', ''Strategy default TP'',
        ''Strategy-generated take-profit from replay signal'', False,
        if dormant then ''Experimental strategy risk'' else ''Certified multi-factor risk'', Fin 250, ''Strategy default runtime profile''))"

definition strategy_deployment_defaults :: "(pyfloat \<Rightarrow> pyfloat) \<Rightarrow> string \<Rightarrow> deployment_defaults" where
  "strategy_deployment_defaults q name =
     (let strategy = dict_get (strategy_registry q) name;
          timeframe = (case strategy of None \<Rightarrow> ''1h'' | Some k \<Rightarrow> bk_default_timeframe (fst k));
          is_daily = str_lower timeframe \<in> {''1d'', ''d'', ''daily''}; n = str_lower name
      in case stop_profile is_daily n timeframe (name \<in> set (dormant_strategy_names q)) of
           (stop_type, stop_value, tp_type, tp_value, trailing, risk_class, min_capital, runtime_profile) \<Rightarrow>
         \<lparr>dd_strategy = name, dd_strategy_type = strategy_type_label name timeframe,
          dd_strategy_version = (if strategy = None then ''v1'' else ''1.0.0''), dd_recommended_timeframe = timeframe,
          dd_stop_type = stop_type, dd_stop_value = stop_value, dd_tp_type = tp_type, dd_tp_value = tp_value,
          dd_trailing_enabled = trailing, dd_emergency_stop_enabled = (\<not> is_daily),
          dd_risk_policy_stop_status = ''Enforced by runtime framework'', dd_minimum_capital = min_capital,
          dd_allocation_model = ''Fixed notional per bot with portfolio exposure gate'', dd_risk_classification = risk_class,
          dd_runtime_profile = runtime_profile,
          dd_regimes = (if contains ''trend'' n \<or> contains ''burst'' n then ''Trending / breakout'' else ''Volatility expansion / reversion'')\<rparr>)"

section \<open>Numbers\<close>

text \<open>\<open>safe_number\<close>: what \<open>float\<close> refuses with a type or value error, and what is not finite, is the default.\<close>

definition safe_number :: "py_env \<Rightarrow> cell \<Rightarrow> pyfloat \<Rightarrow> pyfloat res" where
  "safe_number env v d =
     (case c_float env v of Inr x \<Rightarrow> Inr (if is_finite x then x else d)
      | Inl OverflowError \<Rightarrow> Inl OverflowError | Inl _ \<Rightarrow> Inr d)"

definition safe_float :: "pyfloat \<Rightarrow> pyfloat \<Rightarrow> pyfloat" where
  "safe_float x d = (if is_finite x then x else d)"

text \<open>\<open>float(r.get(k, 0.0) or 0.0)\<close>, \<open>int(r.get(k, 0) or 0)\<close>.\<close>

definition cell_float :: "py_env \<Rightarrow> db_row \<Rightarrow> string \<Rightarrow> pyfloat res" where
  "cell_float env r k = c_float env (c_or (dict_get_or r k (Json (JNum (Fin 0)))) (Json (JNum (Fin 0))))"

definition c_int :: "cell \<Rightarrow> int res" where
  "c_int c = (case c of Json j \<Rightarrow> py_int j
     | _ \<Rightarrow> Inl (TypeError ''int() argument must be a string, a bytes-like object or a real number''))"

definition cell_int :: "db_row \<Rightarrow> string \<Rightarrow> int res" where
  "cell_int r k = c_int (c_or (dict_get_or r k (Json (JInt 0))) (Json (JInt 0)))"

definition text_of :: "py_env \<Rightarrow> db_row \<Rightarrow> string \<Rightarrow> string \<Rightarrow> string" where
  "text_of env r k d = c_str env (dict_get_or r k (c_text d))"

section \<open>Position sizing\<close>

record size_request =
  sq_sizing_method :: string
  sq_capital :: pyfloat
  sq_risk_per_trade :: pyfloat
  sq_max_allocation :: pyfloat
  sq_stop_loss_distance :: pyfloat
  sq_price :: pyfloat
  sq_volatility_value :: pyfloat
  sq_regime :: string
  sq_max_portfolio_exposure :: "pyfloat option"
  sq_max_symbol_exposure :: "pyfloat option"
  sq_maximum_concurrent_trades :: int
  sq_exchange_min_qty :: pyfloat
  sq_exchange_max_qty :: "pyfloat option"
  sq_lot_size :: pyfloat
  sq_override_quantity :: "pyfloat option"

record size_decision =
  sd_calculated_quantity :: pyfloat
  sd_final_quantity :: pyfloat
  sd_capital_used :: pyfloat
  sd_risk_amount :: pyfloat
  sd_allocation_percentage :: pyfloat
  sd_cap_applied :: "string list"
  sd_override_flag :: bool

text \<open>Python's \<open>a // b\<close> for positive \<open>b\<close> and \<open>a\<close>: the quotient of \<open>a - fmod(a, b)\<close>, brought to an integer.\<close>

definition pos_floordiv :: "pyfloat \<Rightarrow> pyfloat \<Rightarrow> pyfloat" where
  "pos_floordiv a b = (case (a, b) of
       (Fin x, Fin y) \<Rightarrow>
         (case fdiv (fsub (Fin x) (Fin (x - y * of_int \<lfloor>x / y\<rfloor>))) (Fin y) of
            Fin d \<Rightarrow> (if of_int \<lfloor>d\<rfloor> + 1 / 2 < d then Fin (of_int \<lfloor>d\<rfloor> + 1) else Fin (of_int \<lfloor>d\<rfloor>))
          | r \<Rightarrow> r)
     | (Fin x, PosInf) \<Rightarrow> Fin 0
     | _ \<Rightarrow> NaN)"

definition allocation_cap_of :: "size_request \<Rightarrow> (pyfloat \<times> string list) res" where
  "allocation_cap_of s =
     (let capital = fmax (safe_float (sq_capital s) (Fin 0)) (Fin 0);
          max_allocation = fmax (safe_float (sq_max_allocation s) (Fin 0)) (Fin 0);
          cap0 = fmin capital (if flt (Fin 0) max_allocation then max_allocation else capital);
          exposure = (\<lambda>limit name (cap, names). case limit of None \<Rightarrow> (cap, names)
            | Some x \<Rightarrow> (fmin cap (fmax (Fin 0) (safe_float x cap)), names @ [name]));
          (cap, names) = exposure (sq_max_symbol_exposure s) ''max_symbol_exposure''
            (exposure (sq_max_portfolio_exposure s) ''max_portfolio_exposure'' (cap0, []))
      in if 1 < sq_maximum_concurrent_trades s
         then bind_res (int_to_float (sq_maximum_concurrent_trades s)) (\<lambda>n.
           Inr (fmin cap (fdiv capital n), names @ [''max_concurrent_bot_exposure'']))
         else Inr (cap, names))"

definition throttled :: "size_request \<Rightarrow> pyfloat \<times> string list \<Rightarrow> pyfloat \<times> string list" where
  "throttled s = (\<lambda>(qty, names).
     let method = str_lower (sq_sizing_method s);
         (qty, names) = (if contains ''volatility'' method \<and> flt (Fin 0) (sq_volatility_value s)
            then (fmul qty (fmax (dec 25 100) (fmin (Fin 1) (fdiv (dec 2 100) (fmax (sq_volatility_value s) (dec 1 10000))))),
                  names @ [''volatility_throttle'']) else (qty, names))
     in if contains ''regime'' method \<and> str_lower (sq_regime s) \<in> {''high risk'', ''panic'', ''volatile'', ''avoid''}
        then (fmul qty (dec 5 10), names @ [''regime_throttle'']) else (qty, names))"

definition exchange_limits :: "size_request \<Rightarrow> pyfloat \<times> string list \<Rightarrow> pyfloat \<times> string list" where
  "exchange_limits s = (\<lambda>(q0, names0).
     let (q1, names1) = (case sq_override_quantity s of None \<Rightarrow> (q0, names0)
           | Some x \<Rightarrow> (fmax (Fin 0) (safe_float x (Fin 0)), names0 @ [''user_override'']));
         (q2, names2) = (case sq_exchange_max_qty s of None \<Rightarrow> (q1, names1)
           | Some x \<Rightarrow> (let q = fmin q1 (fmax (Fin 0) (safe_float x q1))
                         in (q, if feq q q1 then names1 else names1 @ [''exchange_max_quantity''])));
         (q3, names3) = (if flt (Fin 0) (sq_exchange_min_qty s) \<and> flt (Fin 0) q2 \<and> flt q2 (sq_exchange_min_qty s)
           then (Fin 0, names2 @ [''exchange_min_quantity'']) else (q2, names2))
     in if flt (Fin 0) (sq_lot_size s) \<and> flt (Fin 0) q3
        then (fmul (pos_floordiv q3 (sq_lot_size s)) (sq_lot_size s), names3 @ [''lot_size'']) else (q3, names3))"

definition calculate_position_size_decision :: "size_request \<Rightarrow> size_decision res" where
  "calculate_position_size_decision s =
     (let price = fmax (safe_float (sq_price s) (Fin 0)) (Fin 0);
          capital = fmax (safe_float (sq_capital s) (Fin 0)) (Fin 0);
          risk_per_trade = fmax (safe_float (sq_risk_per_trade s) (Fin 0)) (Fin 0);
          distance = fmax (safe_float (sq_stop_loss_distance s) (Fin 0)) (Fin 0);
          risk_amount = fmul capital risk_per_trade
      in bind_res (allocation_cap_of s) (\<lambda>(cap, names).
         let allocation_qty = (if fle price (Fin 0) then Fin 0 else fdiv cap price);
             risk_qty = (if fle distance (Fin 0) then allocation_qty else fdiv risk_amount distance);
             (calculated, names1) = throttled s (fmin allocation_qty risk_qty, names);
             (final, names2) = exchange_limits s (calculated, names1);
             used = fmul final price
         in Inr \<lparr>sd_calculated_quantity = calculated, sd_final_quantity = final, sd_capital_used = used,
              sd_risk_amount = risk_amount,
              sd_allocation_percentage = (if fle capital (Fin 0) then Fin 0 else fmul (fdiv used capital) (Fin 100)),
              sd_cap_applied = rev (remdups (rev names2)), sd_override_flag = (sq_override_quantity s \<noteq> None)\<rparr>))"

section \<open>Parameters and validation metrics of a bot\<close>

definition bot_parameters :: "py_env \<Rightarrow> db_row \<Rightarrow> json_row" where
  "bot_parameters env r =
     (case dict_get_or r ''parameters'' (Json (JObj [])) of
        Json (JObj p) \<Rightarrow> p
      | Json (JText s) \<Rightarrow> (case pe_loads env s of Some (JObj p) \<Rightarrow> p | _ \<Rightarrow> [])
      | _ \<Rightarrow> [])"

definition validation_metrics_of :: "py_env \<Rightarrow> db_row \<Rightarrow> db_row" where
  "validation_metrics_of env row =
     (let values = filter (\<lambda>kv. snd kv \<noteq> Json (JNum NaN)) row;
          metrics = (case dict_get_or row ''metrics'' (Json (JObj [])) of
              Json (JObj m) \<Rightarrow> m
            | Json (JText s) \<Rightarrow> (case pe_loads env s of Some (JObj m) \<Rightarrow> m | _ \<Rightarrow> [])
            | _ \<Rightarrow> [])
      in dict_update (dict_update values (cells metrics))
           (concat (map (\<lambda>k. case dict_get row k of None \<Rightarrow> [] | Some v \<Rightarrow> [(k, v)])
             [''run_id'', ''timeframe'', ''start_date'', ''end_date'', ''capital'', ''state'', ''created_at'', ''updated_at''])))"

definition validation_metrics_for_bot :: "dash_env \<Rightarrow> string \<Rightarrow> dash \<Rightarrow> dash \<times> db_row" where
  "validation_metrics_for_bot de name d =
     (let (d', row) = last_validation_for_bot de name d
      in (d', case row of None \<Rightarrow> [] | Some r \<Rightarrow> validation_metrics_of (de_env de) r))"

definition validation_deployment_status :: "py_env \<Rightarrow> db_row \<Rightarrow> pyfloat \<Rightarrow> deployment_defaults \<Rightarrow> string res" where
  "validation_deployment_status env metrics capital dd =
     (if dict_get metrics ''error'' \<noteq> None then Inr ''Runtime unsupported''
      else if flt capital (dd_minimum_capital dd) then Inr ''Capital insufficient''
      else bind_res (cell_float env metrics ''max_drawdown_pct'') (\<lambda>drawdown.
        if fle (Fin 15) drawdown then Inr ''Risk threshold exceeded''
        else if dd_stop_type dd = [] \<or> dd_tp_type dd = [] then Inr ''Stop logic invalid''
        else bind_res (cell_int metrics ''total_trades'') (\<lambda>trades.
          Inr (if trades < 3 then ''Requires more backtesting'' else ''Ready for deployment''))))"

section \<open>The certification gate\<close>

record gate_result =
  gr_status :: string
  gr_human_approval :: string
  gr_visible :: bool
  gr_missing :: "string list"

text \<open>The eight gates with the name each is reported missing by; a bot is visible when all pass.\<close>

definition gates_of :: "bool \<Rightarrow> bool \<Rightarrow> bool \<Rightarrow> deployment_defaults \<Rightarrow> bool \<Rightarrow> bool \<Rightarrow> (bool \<times> string) list" where
  "gates_of backtest_passed walk_forward drawdown_ok dd active approved =
     [(backtest_passed, ''backtest threshold''), (walk_forward, ''walk-forward/OOS validation''),
      (drawdown_ok, ''drawdown limit''), (dd_risk_classification dd \<noteq> [], ''risk model''),
      (dd_allocation_model dd \<noteq> [], ''position sizing''), (dd_stop_type dd \<noteq> [], ''stop-loss model''),
      (dd_runtime_profile dd \<noteq> [] \<and> active, ''runtime compatibility''), (approved, ''human approval'')]"

definition gate_status :: "bool \<Rightarrow> bool \<Rightarrow> bool \<Rightarrow> bool \<Rightarrow> string" where
  "gate_status visible approved backtest_passed drawdown_ok =
     (if visible then ''CERTIFIED'' else if \<not> approved \<and> backtest_passed \<and> drawdown_ok then ''NEEDS APPROVAL'' else ''BLOCKED'')"

definition human_approval_of :: "py_env \<Rightarrow> db_row \<Rightarrow> string" where
  "human_approval_of env r = str_upper (c_str env (c_or
     (case dict_get (bot_parameters env r) ''human_approval_status'' of Some j \<Rightarrow> Json j
      | None \<Rightarrow> dict_get_or r ''human_approval_status'' (c_text ''PENDING'')) (c_text ''PENDING'')))"

definition validation_state_of :: "py_env \<Rightarrow> db_row \<Rightarrow> db_row \<Rightarrow> string" where
  "validation_state_of env r metrics = str_upper (c_str env (c_or
     (case dict_get metrics ''state'' of Some v \<Rightarrow> v | None \<Rightarrow> dict_get_or r ''validation_status'' (c_text [])) (c_text [])))"

definition certification_gate :: "(pyfloat \<Rightarrow> pyfloat) \<Rightarrow> py_env \<Rightarrow> db_row \<Rightarrow> db_row \<Rightarrow> gate_result res" where
  "certification_gate q env r metrics =
     (let strategy = text_of env r ''strategy'' []; dd = strategy_deployment_defaults q strategy;
          approved = (human_approval_of env r = ''APPROVED'')
      in bind_res (if metrics = [] then Inr False
             else bind_res (cell_int metrics ''total_trades'') (\<lambda>n. if n < 3 then Inr False
               else bind_res (cell_float env metrics ''profit_factor'') (\<lambda>x. Inr (fle (dec 11 10) x)))) (\<lambda>backtest_passed.
         bind_res (c_float env (c_or (dict_get_or metrics ''max_drawdown_pct'' (Json (JNum (if metrics = [] then Fin 999 else Fin 0))))
             (Json (JNum (Fin 0))))) (\<lambda>drawdown.
         let walk_forward = (validation_state_of env r metrics \<in> {''COMPLETED'', ''PASSED'', ''BACKTESTED''} \<or> backtest_passed);
             gates = gates_of backtest_passed walk_forward (fle drawdown (Fin 15)) dd (strategy \<in> set (active_strategy_names q)) approved;
             visible = list_all fst gates
         in Inr \<lparr>gr_status = gate_status visible approved backtest_passed (fle drawdown (Fin 15)),
               gr_human_approval = human_approval_of env r, gr_visible = visible,
               gr_missing = map snd (filter (\<lambda>g. \<not> fst g) gates)\<rparr>)))"

definition certification_gate_result :: "(pyfloat \<Rightarrow> pyfloat) \<Rightarrow> dash_env \<Rightarrow> db_row \<Rightarrow> dash \<Rightarrow> (dash, gate_result) outcome" where
  "certification_gate_result q de r d =
     (let (d', metrics) = validation_metrics_for_bot de (text_of (de_env de) r ''name'' []) d
      in (d', certification_gate q (de_env de) r metrics))"

section \<open>The portfolio risk gate\<close>

definition live_states :: "string list" where "live_states = [''DEPLOYED'', ''RUNNING'']"

definition is_live :: "db_row \<Rightarrow> bool" where
  "is_live r = (case c_get r ''state'' of Json (JText s) \<Rightarrow> s \<in> set live_states | _ \<Rightarrow> False)"

definition setting :: "db_row \<Rightarrow> string \<Rightarrow> cell res" where
  "setting risk k = (case dict_get risk k of None \<Rightarrow> Inl (KeyError k) | Some v \<Rightarrow> Inr v)"

text \<open>The part of the gate that needs no other bot: the bot's capital, and the reason to refuse, if any.\<close>

definition capital_gate :: "py_env \<Rightarrow> db_row \<Rightarrow> db_row \<Rightarrow> (pyfloat \<times> string option) res" where
  "capital_gate env bt risk =
     (if c_truthy (dict_get_or risk ''kill_switch'' (Json (JBool False))) then Inr (Fin 0, Some ''kill switch active'')
      else bind_res (cell_float env bt ''capital'') (\<lambda>capital.
           bind_res (bind_res (setting risk ''max_cash_per_trade'') (c_float env)) (\<lambda>max_cash.
           Inr (capital, if flt max_cash capital then Some ''bot capital exceeds max cash allocation per trade'' else None))))"

text \<open>The part over the live bots; \<open>total_of\<close> is the sum pandas makes of their capital cells, NaN skipped.\<close>

definition portfolio_gate ::
    "py_env \<Rightarrow> (cell list \<Rightarrow> pyfloat res) \<Rightarrow> pyfloat \<Rightarrow> db_row \<Rightarrow> db_row list \<Rightarrow> (bool \<times> string) res" where
  "portfolio_gate env total_of capital risk bots =
     (let has = (\<lambda>k. \<not> no_rows bots \<and> k \<in> set (cell_columns bots)); live = filter is_live bots
      in bind_res (bind_res (setting risk ''max_trades_per_window'') c_int) (\<lambda>max_trades.
         if max_trades \<le> (if has ''state'' then int (length live) else 0)
         then Inr (False, ''max trades per configured window reached'')
         else bind_res (if \<not> has ''capital'' then Inr (Fin 0) else if \<not> has ''state'' then Inl (KeyError ''state'')
                        else total_of (map (\<lambda>r. c_get r ''capital'') live)) (\<lambda>exposure.
         bind_res (bind_res (setting risk ''max_portfolio_exposure'') (c_float env)) (\<lambda>limit.
         if flt limit (fadd exposure capital) then Inr (False, ''portfolio exposure limit would be breached'')
         else Inr (True, ''risk approved'')))))"

definition risk_gate_for_bot ::
    "dash_env \<Rightarrow> (cell list \<Rightarrow> pyfloat res) \<Rightarrow> db_row \<Rightarrow> db_row \<Rightarrow> dash \<Rightarrow> (dash, bool \<times> string) outcome" where
  "risk_gate_for_bot de total_of bt risk d =
     (case capital_gate (de_env de) bt risk of
        Inl e \<Rightarrow> (d, Inl e)
      | Inr (_, Some reason) \<Rightarrow> (d, Inr (False, reason))
      | Inr (capital, None) \<Rightarrow>
          (let (d', bots) = load_bot_instances de d in (d', portfolio_gate (de_env de) total_of capital risk bots)))"

end
