(* ===== verification/Dashboard_Deploy.thy ===== *)
theory Dashboard_Deploy
  imports Dashboard_Gates
begin

text \<open>
  Deploying a bot from the dashboard (\<open>dashboards/app.py\<close>): the position a running bot is said to have, its live
  mark, and \<open>deploy_bot_from_tile\<close> with its gates. The runtime profile stored along with a deployment is the parameter
  \<open>profile_of\<close>, the sum of a column \<open>total_of\<close>, \<open>pd.to_datetime\<close> is \<open>de_to_time\<close>.
\<close>

section \<open>The position of a bot\<close>

record trade_position =
  tp_state :: string
  tp_in_trade :: bool
  tp_reason :: string
  tp_last_entry_at :: string
  tp_last_exit_at :: string
  tp_last_event_type :: string

definition exit_kinds :: "string list" where
  "exit_kinds = [''TradeExited'', ''StopTriggered'', ''RiskTriggered'']"

definition is_entry_event :: "string \<Rightarrow> string \<Rightarrow> string \<Rightarrow> bool" where
  "is_entry_event kind life position =
     (kind = ''TradeEntered'' \<or> life \<in> {''Filled'', ''Active'', ''Partially Filled'', ''Partially Exited''} \<or> position = ''OPEN'')"

definition is_exit_event :: "string \<Rightarrow> string \<Rightarrow> string \<Rightarrow> bool" where
  "is_exit_event kind life position =
     (kind \<in> set exit_kinds \<or> life \<in> {''Closed'', ''Cancelled'', ''Failed''} \<or> (position = ''FLAT'' \<and> kind \<noteq> ''TradeCreated''))"

definition newest_of :: "instant list \<Rightarrow> instant option" where
  "newest_of ts = (if ts = [] then None else Some (Max (set ts)))"

definition iso_or_blank :: "instant option \<Rightarrow> string" where
  "iso_or_blank t = (case t of None \<Rightarrow> [] | Some t \<Rightarrow> iso t)"

text \<open>\<open>a or b or c\<close> of texts.\<close>

definition first_text :: "string list \<Rightarrow> string" where
  "first_text xs = (case find_first (\<lambda>x. x \<noteq> []) xs of None \<Rightarrow> [] | Some x \<Rightarrow> x)"

text \<open>The dated events of a bot in the order of time, as (time, event type, lifecycle, position); a frame lacking a column reads blank.\<close>

definition dated_events :: "dash_env \<Rightarrow> string \<Rightarrow> string \<Rightarrow> db_row list \<Rightarrow> (instant \<times> string \<times> string \<times> string) list" where
  "dated_events de bot_id name rows =
     (let env = de_env de; columns = cell_columns rows; frame = cell_frame rows;
          text_at = (\<lambda>r k. if k \<in> set columns then c_str env (c_get r k) else []);
          mine = filter (\<lambda>r. (''bot_id'' \<in> set columns \<and> text_at r ''bot_id'' \<in> {bot_id, name}) \<or>
                             (''bot_name'' \<in> set columns \<and> text_at r ''bot_name'' \<in> {bot_id, name})) frame
      in case find_first (\<lambda>k. k \<in> set columns) [''event_time'', ''timestamp'', ''created_at'', ''snapshot_time''] of
           None \<Rightarrow> []
         | Some k \<Rightarrow> sort_key fst (concat (map (\<lambda>r. case de_to_time de (c_get r k) of None \<Rightarrow> []
               | Some t \<Rightarrow> [(t, text_at r ''event_type'', text_at r ''lifecycle_state'', text_at r ''position_state'')]) mine)))"

text \<open>What the dated events say, if there are any and they decide.\<close>

definition position_of_events :: "(instant \<times> string \<times> string \<times> string) list \<Rightarrow> trade_position option" where
  "position_of_events es =
     (if es = [] then None
      else (let entry = newest_of (map fst (filter (\<lambda>(t, k, l, p). is_entry_event k l p) es));
                exit = newest_of (map fst (filter (\<lambda>(t, k, l, p). is_exit_event k l p) es));
                (_, kind, life, position) = last es;
                exited = (case exit of None \<Rightarrow> False | Some x \<Rightarrow> (case entry of None \<Rightarrow> True | Some n \<Rightarrow> n \<le> x))
            in if exited \<or> kind \<in> set exit_kinds \<or> (position = ''FLAT'' \<and> kind \<noteq> ''TradeCreated'') \<or> life \<in> {''Closed'', ''Cancelled'', ''Failed''}
               then Some \<lparr>tp_state = ''OUT_OF_TRADE'', tp_in_trade = False,
                 tp_reason = ''exit signal recorded: '' @ first_text [kind, life, position], tp_last_entry_at = iso_or_blank entry,
                 tp_last_exit_at = iso_or_blank exit, tp_last_event_type = kind\<rparr>
               else if entry \<noteq> None \<or> position = ''OPEN''
               then Some \<lparr>tp_state = ''IN_TRADE'', tp_in_trade = True,
                 tp_reason = ''open trade event recorded: '' @ first_text [kind, life, position], tp_last_entry_at = iso_or_blank entry,
                 tp_last_exit_at = iso_or_blank exit, tp_last_event_type = kind\<rparr>
               else None))"

text \<open>What the bot's own fields say when no event decides.\<close>

definition position_of_fields :: "py_env \<Rightarrow> db_row \<Rightarrow> trade_position res" where
  "position_of_fields env r =
     (let params = bot_parameters env r; param = (\<lambda>k. Json (j_get params k (JText []))); field = (\<lambda>k. dict_get_or r k (c_text []));
          explicit = str_upper (c_str env (case dict_get params ''runtime_position_state'' of Some j \<Rightarrow> Json j | None \<Rightarrow> field ''runtime_position_state''));
          last_exit = c_str env (c_or (field ''last_exit_at'') (param ''last_exit_at''));
          entry_text = c_or (field ''last_entry_at'') (param ''last_entry_at'')
      in bind_res (c_float env (c_or (c_or (dict_get_or r ''runtime_entry_price'' (Json (JNum (Fin 0))))
             (Json (j_get params ''runtime_entry_price'' (JNum (Fin 0))))) (Json (JNum (Fin 0))))) (\<lambda>price.
         let started = c_or (c_or (field ''started_at'') (param ''runtime_started_at'')) (field ''deployed_at'')
         in Inr (if explicit \<in> {''OUT_OF_TRADE'', ''FLAT''} \<or> last_exit \<noteq> []
            then \<lparr>tp_state = ''OUT_OF_TRADE'', tp_in_trade = False, tp_reason = ''exit signal recorded in runtime metadata'',
              tp_last_entry_at = c_str env entry_text, tp_last_exit_at = last_exit, tp_last_event_type = []\<rparr>
            else if explicit \<in> {''IN_TRADE'', ''OPEN''} \<or> flt (Fin 0) price
            then \<lparr>tp_state = ''IN_TRADE'', tp_in_trade = True, tp_reason = ''runtime metadata shows active entry price'',
              tp_last_entry_at = c_str env (c_or entry_text (c_text (c_str env started))), tp_last_exit_at = [], tp_last_event_type = []\<rparr>
            else \<lparr>tp_state = ''IN_TRADE'', tp_in_trade = True, tp_reason = ''runtime running with no exit signal recorded'',
              tp_last_entry_at = c_str env (c_or entry_text (field ''deployed_at'')), tp_last_exit_at = [], tp_last_event_type = []\<rparr>)))"

definition runtime_trade_position_status :: "dash_env \<Rightarrow> db_row \<Rightarrow> db_row list \<Rightarrow> trade_position res" where
  "runtime_trade_position_status de r events =
     (let env = de_env de; name = text_of env r ''name'' [];
          bot_id = c_str env (dict_get_or r ''bot_id'' (dict_get_or r ''name'' (c_text [])))
      in if str_upper (text_of env r ''state'' ''DRAFT'') \<notin> set live_states \<and> str_upper (text_of env r ''status'' []) \<notin> set live_states
         then Inr \<lparr>tp_state = ''RUNTIME_STOPPED'', tp_in_trade = False, tp_reason = ''runtime is not running'',
           tp_last_entry_at = text_of env r ''last_entry_at'' [], tp_last_exit_at = text_of env r ''last_exit_at'' [], tp_last_event_type = []\<rparr>
         else (case position_of_events (dated_events de bot_id name events) of
             Some p \<Rightarrow> Inr p
           | None \<Rightarrow> position_of_fields env r))"

section \<open>The live mark\<close>

record live_mark =
  lm_symbol :: string
  lm_last_price :: pyfloat
  lm_entry_price :: pyfloat
  lm_capital :: pyfloat
  lm_pnl :: pyfloat
  lm_pnl_pct :: pyfloat
  lm_started_at :: string
  lm_cumulative_started_at :: string
  lm_in_market :: bool
  lm_position :: trade_position

definition scan_row_of :: "py_env \<Rightarrow> string \<Rightarrow> db_row list \<Rightarrow> db_row" where
  "scan_row_of env symbol scan =
     (case find_first (\<lambda>r. c_str env (c_get r ''symbol'') = symbol) scan of None \<Rightarrow> [] | Some r \<Rightarrow> r)"

definition bot_live_mark :: "dash_env \<Rightarrow> db_row \<Rightarrow> db_row list \<Rightarrow> db_row list \<Rightarrow> live_mark res" where
  "bot_live_mark de r scan events =
     (let env = de_env de; symbol = text_of env r ''symbol'' []; scan_row = scan_row_of env symbol scan;
          params = (case c_get r ''parameters'' of Json (JObj p) \<Rightarrow> p | _ \<Rightarrow> []);
          param = (\<lambda>k. Json (j_get params k (JText []))); field = (\<lambda>k. dict_get_or r k (c_text []));
          started = c_str env (c_or (c_or (c_or (field ''started_at'') (param ''runtime_started_at'')) (field ''deployed_at'')) (c_text []));
          cumulative = c_str env (c_or (c_or (c_or (c_or (field ''cumulative_started_at'') (param ''cumulative_started_at''))
            (param ''runtime_cumulative_started_at'')) (field ''created_at'')) (c_text started))
      in bind_res (cell_float env scan_row ''last_close'') (\<lambda>last_price.
         bind_res (c_float env (c_or (c_or (c_or (dict_get_or r ''runtime_entry_price'' (Json (JNum (Fin 0)))) (Json (j_get params ''runtime_entry_price'' JNull)))
             (dict_get_or scan_row ''active_entry'' (Json (JNum (Fin 0))))) (Json (JNum (Fin 0))))) (\<lambda>entry_price.
         bind_res (cell_float env r ''capital'') (\<lambda>capital.
         bind_res (runtime_trade_position_status de r events) (\<lambda>position.
         let in_market = tp_in_trade position;
             pnl_pct = (if \<not> in_market \<or> fle entry_price (Fin 0) \<or> fle last_price (Fin 0) then Fin 0
                        else fmul (fdiv (fsub last_price entry_price) entry_price) (Fin 100))
         in Inr \<lparr>lm_symbol = symbol, lm_last_price = last_price, lm_entry_price = entry_price, lm_capital = capital,
              lm_pnl = fdiv (fmul capital pnl_pct) (Fin 100), lm_pnl_pct = pnl_pct, lm_started_at = started,
              lm_cumulative_started_at = cumulative, lm_in_market = in_market, lm_position = position\<rparr>)))))"

definition stream_timeframe_bar_for_bot :: "py_env \<Rightarrow> db_row \<Rightarrow> json_row \<Rightarrow> json_row" where
  "stream_timeframe_bar_for_bot env r stream =
     (case j_get stream ''symbols'' JNull of JObj symbols \<Rightarrow>
        (case j_get symbols (text_of env r ''symbol'' []) JNull of JObj payload \<Rightarrow>
           (case j_get payload ''timeframes'' JNull of JObj timeframes \<Rightarrow>
              (case j_get timeframes (c_str env (c_or (dict_get_or r ''timeframe'' (c_text ''1h'')) (c_text ''1h''))) JNull of
                 JObj bar \<Rightarrow> bar | _ \<Rightarrow> [])
            | _ \<Rightarrow> [])
         | _ \<Rightarrow> [])
      | _ \<Rightarrow> [])"

section \<open>Deployment\<close>

definition rejection_entry :: "db_row \<Rightarrow> py_env \<Rightarrow> string \<Rightarrow> journal_entry" where
  "rejection_entry r env reason =
     \<lparr>je_bot_name = bot_name_of env r, je_symbol = c_str env (c_get r ''symbol''), je_event_type = ''RISK_REJECTION'', je_severity = ''WARN'',
      je_decision = ''BLOCKED'', je_reason = reason, je_metrics = []\<rparr>"

text \<open>What is stored with a deployment besides the runtime profile, the validation metrics and the risk policy.\<close>

definition deployment_updates :: "dash_env \<Rightarrow> instant \<Rightarrow> db_row \<Rightarrow> live_mark \<Rightarrow> json_row \<Rightarrow> json_row" where
  "deployment_updates de now r mark stream =
     (let env = de_env de; timeframe = JText (c_str env (c_or (dict_get_or r ''timeframe'' (c_text ''1h'')) (c_text ''1h'')));
          bar = stream_timeframe_bar_for_bot env r stream
      in [(''runtime_entry_price'', JNum (lm_last_price mark)), (''runtime_entry_symbol'', JText (lm_symbol mark)),
          (''runtime_entry_source'', JText ''binance_socket''), (''runtime_entry_timeframe'', timeframe),
          (''runtime_entry_bar'', JObj (if bar \<noteq> [] then bar
             else [(''source'', JText ''latest_scan_fallback''), (''timeframe'', timeframe), (''close'', JNum (lm_last_price mark)),
                   (''generated_at'', JText (iso now))]))])"

text \<open>\<open>profile_of\<close>: the runtime profile, validation metadata, strategy defaults and risk policy of the bot as stored.\<close>

definition deploy_bot_from_tile ::
    "(pyfloat \<Rightarrow> pyfloat) \<Rightarrow> dash_env \<Rightarrow> (cell list \<Rightarrow> pyfloat res) \<Rightarrow> (db_row \<Rightarrow> dash \<Rightarrow> (dash, json_row) outcome) \<Rightarrow>
     db_row list \<Rightarrow> db_row \<Rightarrow> db_row list \<Rightarrow> json_row \<Rightarrow> dash \<Rightarrow> (dash, bool \<times> string) outcome" where
  "deploy_bot_from_tile q de total_of profile_of events r scan stream d =
     (let env = de_env de; strategy = text_of env r ''strategy'' []; name = bot_name_of env r; refuse = (\<lambda>d reason. (d, Inr (False, reason))) in
      if strategy \<notin> set (active_strategy_names q)
      then refuse d ''This bot uses a dormant strategy. Create or switch to an active certified strategy before deployment.''
      else if \<not> strategy_symbol_is_certified strategy (text_of env r ''symbol'' [])
      then refuse d (''This strategy/coin pair has not passed deployment guidance. Passed coins: '' @
             join_with '', '' (certified_symbols_for_strategy strategy))
      else (let (d1, validation) = last_validation_for_bot de name d in
        if validation = None then refuse d1 ''Backtest this bot in Validation Lab before deployment.''
        else bind_act (load_risk_settings de d1) (\<lambda>d2 risk.
             bind_act (risk_gate_for_bot de total_of r risk d2) (\<lambda>d3 (ok, reason).
             if \<not> ok
             then bind_act (transition_bot de name ''FAILED'' (''risk rejection: '' @ reason) [] d3) (\<lambda>d4 _.
                    refuse (append_journal de (rejection_entry r env reason) d4) reason)
             else bind_act (d3, bot_live_mark de r scan events) (\<lambda>d4 mark.
                  if fle (lm_last_price mark) (Fin 0)
                  then refuse d4 ''Cannot deploy: Binance socket/latest price is not available for this bot symbol.''
                  else bind_act (profile_of r d4) (\<lambda>d5 profile.
                       bind_act (transition_bot de name ''RUNNING''
                         (''deployed and running 24x7 from '' @ text_of env r ''timeframe'' ''1h'' @ '' socket bar and mark $'' @
                            fmt_fixed 6 (lm_last_price mark))
                         (deployment_updates de (da_now de d5) r mark stream @ profile) d5) (\<lambda>d6 _. (d6, Inr (True, reason)))))))))"

section \<open>What a deployment passed\<close>

lemma capital_gate_passed:
  assumes "capital_gate env r risk = Inr (capital, None)"
  shows "\<not> c_truthy (dict_get_or risk ''kill_switch'' (Json (JBool False))) \<and> cell_float env r ''capital'' = Inr capital \<and>
    (\<exists>v limit. dict_get risk ''max_cash_per_trade'' = Some v \<and> c_float env v = Inr limit \<and> \<not> flt limit capital)"
  using assms by (auto simp: capital_gate_def bind_res_eq_Inr setting_def split: if_splits option.splits)

lemma risk_gate_passed:
  assumes "risk_gate_for_bot de total_of r risk d = (d', Inr (True, reason))"
  shows "\<exists>capital bots. capital_gate (de_env de) r risk = Inr (capital, None) \<and> load_bot_instances de d = (d', bots) \<and>
    portfolio_gate (de_env de) total_of capital risk bots = Inr (True, reason)"
  using assms by (auto simp: risk_gate_for_bot_def split: sum.splits option.splits prod.splits)

lemma deploy_stages:
  assumes "deploy_bot_from_tile q de total_of profile_of events r scan stream d = (d', Inr (True, reason))"
  shows "text_of (de_env de) r ''strategy'' [] \<in> set (active_strategy_names q) \<and>
    strategy_symbol_is_certified (text_of (de_env de) r ''strategy'' []) (text_of (de_env de) r ''symbol'' []) \<and>
    (\<exists>d1 run d2 risk d3 mark. last_validation_for_bot de (bot_name_of (de_env de) r) d = (d1, Some run) \<and>
       load_risk_settings de d1 = (d2, Inr risk) \<and> risk_gate_for_bot de total_of r risk d2 = (d3, Inr (True, reason)) \<and>
       bot_live_mark de r scan events = Inr mark \<and> \<not> fle (lm_last_price mark) (Fin 0))"
proof -
  obtain d1 run where v: "last_validation_for_bot de (bot_name_of (de_env de) r) d = (d1, run)" by (cases "last_validation_for_bot de (bot_name_of (de_env de) r) d")
  from assms have s: "text_of (de_env de) r ''strategy'' [] \<in> set (active_strategy_names q)"
    "strategy_symbol_is_certified (text_of (de_env de) r ''strategy'' []) (text_of (de_env de) r ''symbol'' [])" "run \<noteq> None"
    by (auto simp: deploy_bot_from_tile_def Let_def v split: if_splits)
  then show ?thesis
    using assms by (auto simp: deploy_bot_from_tile_def Let_def v bind_act_eq_Inr split: if_splits prod.splits)
qed

lemma cell_columns_set: "set (cell_columns rs) = (\<Union>r\<in>set rs. fst ` set r)"
  by (induction rs) auto

lemma live_has_state: "is_live r \<Longrightarrow> ''state'' \<in> fst ` set r"
  by (auto simp: is_live_def dict_get_or_def rev_image_eqI split: option.splits cell.splits json.splits dest!: map_of_SomeD)

lemma live_needs_state:
  assumes "\<not> (\<not> no_rows bots \<and> ''state'' \<in> set (cell_columns bots))"
  shows "filter is_live bots = []"
proof -
  have "''state'' \<notin> set (cell_columns bots)" using assms by (auto simp: no_rows_def)
  then show ?thesis using live_has_state by (auto simp: filter_empty_conv cell_columns_set)
qed

lemma portfolio_gate_bounds:
  assumes "portfolio_gate env total_of capital risk bots = Inr (True, reason)"
  shows "(\<exists>v n. dict_get risk ''max_trades_per_window'' = Some v \<and> c_int v = Inr n \<and> int (length (filter is_live bots)) < n) \<and>
    (\<exists>exposure v limit. (''capital'' \<in> set (cell_columns bots) \<longrightarrow> total_of (map (\<lambda>r. c_get r ''capital'') (filter is_live bots)) = Inr exposure) \<and>
       dict_get risk ''max_portfolio_exposure'' = Some v \<and> c_float env v = Inr limit \<and> \<not> flt limit (fadd exposure capital))"
proof -
  have empty: "no_rows bots \<Longrightarrow> ''capital'' \<notin> set (cell_columns bots)" by (auto simp: no_rows_def)
  have live: "(if \<not> no_rows bots \<and> ''state'' \<in> set (cell_columns bots) then int (length (filter is_live bots)) else 0) =
      int (length (filter is_live bots))" using live_needs_state[of bots] by auto
  then show ?thesis
    using assms empty by (auto simp: portfolio_gate_def Let_def bind_res_eq_Inr setting_def live split: if_splits option.splits)
qed

text \<open>\<open>C12\<close>: A bot that was deployed runs an active strategy on a symbol certified for it, has a validation run, and passed the risk
  gate over the settings in force: no kill switch, its capital within the cash limit, fewer live bots than the window
  allows, and the exposure of the live bots plus its capital within the portfolio limit, with a live price that is not zero or less.
\<close>

theorem deployed_bot_passed_the_gates:
  assumes "deploy_bot_from_tile q de total_of profile_of events r scan stream d = (d', Inr (True, reason))"
  shows "text_of (de_env de) r ''strategy'' [] \<in> set (active_strategy_names q) \<and>
    strategy_symbol_is_certified (text_of (de_env de) r ''strategy'' []) (text_of (de_env de) r ''symbol'' []) \<and>
    (\<exists>d1 run d2 risk d3 bots capital mark. last_validation_for_bot de (bot_name_of (de_env de) r) d = (d1, Some run) \<and>
       load_risk_settings de d1 = (d2, Inr risk) \<and> load_bot_instances de d2 = (d3, bots) \<and>
       \<not> c_truthy (dict_get_or risk ''kill_switch'' (Json (JBool False))) \<and> cell_float (de_env de) r ''capital'' = Inr capital \<and>
       (\<exists>v limit. dict_get risk ''max_cash_per_trade'' = Some v \<and> c_float (de_env de) v = Inr limit \<and> \<not> flt limit capital) \<and>
       (\<exists>v n. dict_get risk ''max_trades_per_window'' = Some v \<and> c_int v = Inr n \<and> int (length (filter is_live bots)) < n) \<and>
       (\<exists>exposure v limit. (''capital'' \<in> set (cell_columns bots) \<longrightarrow> total_of (map (\<lambda>r. c_get r ''capital'') (filter is_live bots)) = Inr exposure) \<and>
          dict_get risk ''max_portfolio_exposure'' = Some v \<and> c_float (de_env de) v = Inr limit \<and> \<not> flt limit (fadd exposure capital)) \<and>
       bot_live_mark de r scan events = Inr mark \<and> \<not> fle (lm_last_price mark) (Fin 0))"
proof -
  note stages = deploy_stages[OF assms]
  from stages obtain d1 run d2 risk d3 mark where s: "last_validation_for_bot de (bot_name_of (de_env de) r) d = (d1, Some run)"
    "load_risk_settings de d1 = (d2, Inr risk)" "risk_gate_for_bot de total_of r risk d2 = (d3, Inr (True, reason))"
    "bot_live_mark de r scan events = Inr mark" "\<not> fle (lm_last_price mark) (Fin 0)" by (elim exE conjE) (rule that)
  obtain capital bots where g: "capital_gate (de_env de) r risk = Inr (capital, None)" "load_bot_instances de d2 = (d3, bots)"
    "portfolio_gate (de_env de) total_of capital risk bots = Inr (True, reason)"
    using risk_gate_passed[OF s(3)] by (elim exE conjE) (rule that)
  have first: "text_of (de_env de) r ''strategy'' [] \<in> set (active_strategy_names q)"
    "strategy_symbol_is_certified (text_of (de_env de) r ''strategy'' []) (text_of (de_env de) r ''symbol'' [])"
    using conjunct1[OF stages] conjunct1[OF conjunct2[OF stages]] .
  note c = capital_gate_passed[OF g(1)] and p = portfolio_gate_bounds[OF g(3)]
  show ?thesis
    by (intro conjI first exI[of _ d1] exI[of _ run] exI[of _ d2] exI[of _ risk] exI[of _ d3] exI[of _ bots] exI[of _ capital]
        exI[of _ mark] s g(2) conjunct1[OF c] conjunct1[OF conjunct2[OF c]] conjunct2[OF conjunct2[OF c]] conjunct1[OF p] conjunct2[OF p])
qed

text \<open>
  A deployment on a failed validation run: any run of the bot opens the gate, its state is not looked at, and the
  certification gate of the marketplace is not consulted.
\<close>

definition file_dash_env :: dash_env where
  "file_dash_env = example_dash_env\<lparr>de_enabled := False\<rparr>"

definition failed_run_dash :: dash where
  "failed_run_dash = example_dash\<lparr>da_runs := Rows [[(''run_id'', JText ''v1''), (''bot_name'', JText ''a''), (''state'', JText ''FAILED''),
     (''metrics'', JObj [(''error'', JText ''no feature file'')])]]\<rparr>"

definition unproven_bot :: db_row where
  "unproven_bot = [(''name'', c_text ''a''), (''strategy'', c_text ''KCJ ATR Trend Burst 5m''), (''symbol'', c_text ''ETH/USDT''),
     (''capital'', Json (JNum (Fin 100))), (''state'', c_text ''DRAFT'')]"

definition unproven_deployment :: "(dash, bool \<times> string) outcome" where
  "unproven_deployment = deploy_bot_from_tile id file_dash_env (\<lambda>_. Inr (Fin 0)) (\<lambda>_ d. (d, Inr [])) [] unproven_bot
     [[(''symbol'', c_text ''ETH/USDT''), (''last_close'', Json (JNum (Fin 10)))]] [] failed_run_dash"

lemma file_dash_env_simps [simp]:
  "de_enabled file_dash_env = False" "de_env file_dash_env = example_env" "de_server file_dash_env = example_server"
  by (simp_all add: file_dash_env_def example_dash_env_def)

lemma unproven_bot_texts [simp]:
  "text_of env unproven_bot ''strategy'' d = ''KCJ ATR Trend Burst 5m''" "text_of env unproven_bot ''symbol'' d = ''ETH/USDT''"
  "text_of env unproven_bot ''state'' d = ''DRAFT''" "text_of env unproven_bot ''status'' d = d" "bot_name_of env unproven_bot = ''a''"
  "text_of env unproven_bot ''last_entry_at'' d = d" "text_of env unproven_bot ''last_exit_at'' d = d"
  "text_of env unproven_bot ''timeframe'' d = d" "cell_float env unproven_bot ''capital'' = Inr (Fin 100)"
  by (simp_all add: text_of_def unproven_bot_def dict_get_or_def bot_name_of_def cell_float_def c_or_def c_truthy_def truthy_def c_float_def)

lemma unproven_run: "\<exists>run. last_validation_for_bot file_dash_env ''a'' failed_run_dash = (failed_run_dash, Some run) \<and>
    dict_get run ''state'' = Some (c_text ''FAILED'')"
  by (simp add: last_validation_for_bot_def load_validation_runs_frame_def failed_run_dash_def example_dash_def Let_def cells_def)

lemma file_risk: "da_risk d = Missing \<Longrightarrow> load_risk_settings file_dash_env d = (d, Inr default_risk_settings)"
  by (simp add: load_risk_settings_def Let_def)

lemma no_file_bots: "report_rows (da_bots d) = [] \<Longrightarrow> load_bot_instances file_dash_env d = (d\<lparr>da_bots := Rows []\<rparr>, [])"
  by (simp add: load_bot_instances_def file_bots_def Let_def no_rows_def normalize_bot_frame_def cell_frame_def)

lemma default_settings:
  "dict_get default_risk_settings ''max_cash_per_trade'' = Some (Json (JNum (Fin 250)))"
  "dict_get default_risk_settings ''kill_switch'' = Some (Json (JBool False))"
  "dict_get default_risk_settings ''max_trades_per_window'' = Some (Json (JInt 6))"
  "dict_get default_risk_settings ''max_portfolio_exposure'' = Some (Json (JNum (Fin 1000)))"
  by (simp_all add: default_risk_settings_def)

lemma unproven_gate:
  assumes "report_rows (da_bots d) = []"
  shows "risk_gate_for_bot file_dash_env total_of unproven_bot default_risk_settings d = (d\<lparr>da_bots := Rows []\<rparr>, Inr (True, ''risk approved''))"
  by (simp add: risk_gate_for_bot_def capital_gate_def setting_def default_settings dict_get_or_def c_truthy_def truthy_def c_float_def
      no_file_bots[OF assms] portfolio_gate_def no_rows_def c_int_def)

lemma unproven_bot_gets:
  "dict_get unproven_bot ''started_at'' = None" "dict_get unproven_bot ''cumulative_started_at'' = None"
  "dict_get unproven_bot ''runtime_entry_price'' = None" "dict_get unproven_bot ''parameters'' = None"
  "dict_get unproven_bot ''created_at'' = None" "dict_get unproven_bot ''deployed_at'' = None"
  "dict_get unproven_bot ''capital'' = Some (Json (JNum (Fin 100)))"
  by (simp_all add: unproven_bot_def)

lemma unproven_mark:
  "\<exists>mark. bot_live_mark file_dash_env unproven_bot [[(''symbol'', c_text ''ETH/USDT''), (''last_close'', Json (JNum (Fin 10)))]] events = Inr mark \<and>
     lm_last_price mark = Fin 10"
proof -
  have "str_upper ''DRAFT'' \<notin> set live_states" "str_upper [] \<notin> set live_states" by code_simp+
  then show ?thesis
    by (simp add: bot_live_mark_def runtime_trade_position_status_def Let_def scan_row_of_def cell_float_def dict_get_or_def c_or_def c_truthy_def
        truthy_def c_float_def unproven_bot_gets)
qed

text \<open>The deployment succeeds, and the marketplace gate blocks the same bot.\<close>

lemma unproven_deployment_ok: "\<exists>d. unproven_deployment = (d, Inr (True, ''risk approved''))"
proof -
  obtain run where run: "last_validation_for_bot file_dash_env ''a'' failed_run_dash = (failed_run_dash, Some run)" using unproven_run by auto
  obtain mark where mark: "bot_live_mark file_dash_env unproven_bot [[(''symbol'', c_text ''ETH/USDT''), (''last_close'', Json (JNum (Fin 10)))]] []
      = Inr mark" "lm_last_price mark = Fin 10" using unproven_mark by auto
  have files: "da_risk failed_run_dash = Missing" "report_rows (da_bots failed_run_dash) = []"
    by (simp_all add: failed_run_dash_def example_dash_def report_rows_def)
  have pair: "strategy_symbol_is_certified ''KCJ ATR Trend Burst 5m'' ''ETH/USDT''"
    by (simp add: strategy_symbol_is_certified_def certified_symbols_for_strategy_def dict_get_or_def)
  have moved: "transition_bot file_dash_env name state reason updates (failed_run_dash\<lparr>da_bots := Rows []\<rparr>) =
      (failed_run_dash\<lparr>da_bots := Rows []\<rparr>, Inr ())" for name state reason updates
    by (simp add: transition_bot_def Let_def no_file_bots)
  show ?thesis
    by (simp add: unproven_deployment_def deploy_bot_from_tile_def Let_def active_names pair run file_risk[OF files(1)]
        unproven_gate[OF files(2)] mark moved)
qed

theorem deployed_bot_passed_the_gates_witness:
  "\<exists>d run d3 bots. unproven_deployment = (d, Inr (True, ''risk approved'')) \<and>
     last_validation_for_bot file_dash_env ''a'' failed_run_dash = (failed_run_dash, Some run) \<and>
     dict_get run ''state'' = Some (c_text ''FAILED'') \<and> load_bot_instances file_dash_env failed_run_dash = (d3, bots) \<and>
     length (filter is_live bots) < 6"
proof -
  obtain d where d: "unproven_deployment = (d, Inr (True, ''risk approved''))" using unproven_deployment_ok by auto
  obtain run where run: "last_validation_for_bot file_dash_env ''a'' failed_run_dash = (failed_run_dash, Some run)"
    "dict_get run ''state'' = Some (c_text ''FAILED'')" using unproven_run by auto
  have risk: "load_risk_settings file_dash_env failed_run_dash = (failed_run_dash, Inr default_risk_settings)"
    by (rule file_risk) (simp add: failed_run_dash_def example_dash_def)
  from deployed_bot_passed_the_gates[OF d[unfolded unproven_deployment_def]]
  obtain d3 bots v n where "load_bot_instances file_dash_env failed_run_dash = (d3, bots)"
    "dict_get default_risk_settings ''max_trades_per_window'' = Some v" "c_int v = Inr n" "int (length (filter is_live bots)) < n"
    by (auto simp: run(1) risk)
  with d run show ?thesis by (auto simp: default_settings c_int_def)
qed

end
