(* ===== verification/Dashboard_Laws.thy ===== *)
theory Dashboard_Laws
  imports Dashboard_Gates
begin

text \<open>
  Laws of the dashboard's decisions: which gates the marketplace really has, and the bounds of a position size.
\<close>

section \<open>The marketplace\<close>

lemma defaults_never_blank:
  "dd_stop_type (strategy_deployment_defaults q name) \<noteq> []" "dd_tp_type (strategy_deployment_defaults q name) \<noteq> []"
  "dd_allocation_model (strategy_deployment_defaults q name) \<noteq> []" "dd_risk_classification (strategy_deployment_defaults q name) \<noteq> []"
  "dd_runtime_profile (strategy_deployment_defaults q name) \<noteq> []"
  by (simp_all add: strategy_deployment_defaults_def stop_profile_def Let_def)

lemma walk_gate:
  "x \<in> set (gates_of passed walk dd_ok dd active approved) \<Longrightarrow> snd x = ''walk-forward/OOS validation'' \<Longrightarrow> fst x = walk"
  unfolding gates_of_def by (simp, elim disjE; simp)

lemma backtest_gate: "(passed, ''backtest threshold'') \<in> set (gates_of passed walk dd_ok dd active approved)"
  by (simp add: gates_of_def)

lemma gates_pass_iff:
  "list_all fst (gates_of passed walk dd_ok (strategy_deployment_defaults q name) active approved) \<longleftrightarrow>
     passed \<and> walk \<and> dd_ok \<and> active \<and> approved"
  by (simp add: gates_of_def defaults_never_blank)

definition metrics_pass :: "py_env \<Rightarrow> db_row \<Rightarrow> bool" where
  "metrics_pass env metrics = (metrics \<noteq> [] \<and> (case cell_int metrics ''total_trades'' of Inl _ \<Rightarrow> False | Inr n \<Rightarrow> 3 \<le> n) \<and>
     (case cell_float env metrics ''profit_factor'' of Inl _ \<Rightarrow> False | Inr x \<Rightarrow> fle (dec 11 10) x) \<and>
     (case cell_float env metrics ''max_drawdown_pct'' of Inl _ \<Rightarrow> False | Inr x \<Rightarrow> fle x (Fin 15)))"

text \<open>\<open>C22\<close>: A bot is shown in the marketplace exactly when its validation metrics show three trades, a profit factor of 1.1 and
  a drawdown of at most 15 percent, its strategy is active and a human approved it. The other conditions never decide: the
  defaults of every strategy name a risk class, a sizing and a stop, and the walk-forward condition holds whenever the backtest one does, so it
  is never the only one missing.
\<close>

theorem marketplace_gate_iff:
  assumes "certification_gate q env r metrics = Inr g"
  shows "(gr_visible g \<longleftrightarrow> metrics_pass env metrics \<and> text_of env r ''strategy'' [] \<in> set (active_strategy_names q) \<and>
      gr_human_approval g = ''APPROVED'') \<and>
    (''walk-forward/OOS validation'' \<in> set (gr_missing g) \<longrightarrow> ''backtest threshold'' \<in> set (gr_missing g)) \<and>
    (gr_status g = ''CERTIFIED'' \<longleftrightarrow> gr_visible g)"
proof -
  obtain passed drawdown where p: "(if metrics = [] then Inr False
             else bind_res (cell_int metrics ''total_trades'') (\<lambda>n. if n < 3 then Inr False
               else bind_res (cell_float env metrics ''profit_factor'') (\<lambda>x. Inr (fle (dec 11 10) x)))) = Inr passed"
    and dd: "c_float env (c_or (dict_get_or metrics ''max_drawdown_pct'' (Json (JNum (if metrics = [] then Fin 999 else Fin 0))))
             (Json (JNum (Fin 0)))) = Inr drawdown"
    using assms by (auto simp: certification_gate_def Let_def bind_res_eq_Inr)
  have m: "metrics_pass env metrics \<longleftrightarrow> passed \<and> fle drawdown (Fin 15)"
    using p dd by (cases "metrics = []") (auto simp: metrics_pass_def cell_float_def bind_res_eq_Inr not_less split: if_splits)
  define walk where "walk = (validation_state_of env r metrics \<in> {''COMPLETED'', ''PASSED'', ''BACKTESTED''} \<or> passed)"
  define gates where "gates = gates_of passed walk (fle drawdown (Fin 15)) (strategy_deployment_defaults q (text_of env r ''strategy'' []))
    (text_of env r ''strategy'' [] \<in> set (active_strategy_names q)) (human_approval_of env r = ''APPROVED'')"
  have g: "gr_status g = gate_status (list_all fst gates) (human_approval_of env r = ''APPROVED'') passed (fle drawdown (Fin 15))"
    "gr_human_approval g = human_approval_of env r" "gr_visible g = list_all fst gates" "gr_missing g = map snd (filter (\<lambda>g. \<not> fst g) gates)"
    using assms unfolding certification_gate_def Let_def p dd bind_res_Inr gates_def walk_def by (auto simp del: insert_iff)
  have visible: "gr_visible g \<longleftrightarrow> passed \<and> fle drawdown (Fin 15) \<and> text_of env r ''strategy'' [] \<in> set (active_strategy_names q) \<and>
      gr_human_approval g = ''APPROVED''"
    unfolding g gates_def gates_pass_iff walk_def by blast
  have missing: "''walk-forward/OOS validation'' \<in> set (gr_missing g) \<longrightarrow> ''backtest threshold'' \<in> set (gr_missing g)"
  proof
    assume "''walk-forward/OOS validation'' \<in> set (gr_missing g)"
    then obtain x where "x \<in> set gates" "\<not> fst x" "snd x = ''walk-forward/OOS validation''" unfolding g by force
    then have "\<not> walk" using walk_gate unfolding gates_def by blast
    then have "\<not> passed" unfolding walk_def by blast
    moreover have "(passed, ''backtest threshold'') \<in> set gates" unfolding gates_def by (rule backtest_gate)
    ultimately show "''backtest threshold'' \<in> set (gr_missing g)" unfolding g set_map set_filter by (intro image_eqI[of _ snd "(passed, ''backtest threshold'')"]) simp_all
  qed
  have "gr_status g = ''CERTIFIED'' \<longleftrightarrow> gr_visible g" unfolding g gate_status_def by simp
  with visible missing m show ?thesis by blast
qed

definition approved_bot :: db_row where
  "approved_bot = [(''name'', c_text ''a''), (''strategy'', c_text ''KCJ ATR Trend Burst 5m''),
     (''parameters'', Json (JObj [(''human_approval_status'', JText ''APPROVED'')]))]"

definition passing_metrics :: db_row where
  "passing_metrics = [(''total_trades'', Json (JInt 5)), (''profit_factor'', Json (JNum (Fin 2))), (''max_drawdown_pct'', Json (JNum (Fin 5)))]"

lemma passing_fields:
  "cell_int passing_metrics ''total_trades'' = Inr 5" "cell_float env passing_metrics ''profit_factor'' = Inr (Fin 2)"
  "cell_float env passing_metrics ''max_drawdown_pct'' = Inr (Fin 5)"
  "c_float env (c_or (dict_get_or passing_metrics ''max_drawdown_pct'' d) z) = Inr (Fin 5)" "passing_metrics \<noteq> []"
  by (simp_all add: passing_metrics_def cell_int_def cell_float_def dict_get_or_def c_or_def c_truthy_def truthy_def c_int_def c_float_def)

theorem marketplace_gate_iff_witness:
  "\<exists>g. certification_gate id example_env approved_bot passing_metrics = Inr g \<and> gr_visible g"
proof -
  obtain g where g: "certification_gate id example_env approved_bot passing_metrics = Inr g"
    by (simp add: certification_gate_def Let_def passing_fields)
  have "fle (dec 11 10) (Fin 2)" using fround_le_int[of "11 / 10" 2] by (simp add: dec_def)
  then have "metrics_pass example_env passing_metrics" by (simp add: metrics_pass_def passing_fields)
  moreover have "text_of example_env approved_bot ''strategy'' [] = ''KCJ ATR Trend Burst 5m''"
    by (simp add: text_of_def approved_bot_def dict_get_or_def)
  moreover have "human_approval_of example_env approved_bot = ''APPROVED''" by code_simp
  moreover have "gr_human_approval g = human_approval_of example_env approved_bot"
    using g by (auto simp: certification_gate_def Let_def bind_res_eq_Inr)
  ultimately have "gr_visible g" using marketplace_gate_iff[OF g] by (simp add: active_names)
  with g show ?thesis by blast
qed

section \<open>Position sizes\<close>

text \<open>Nonnegative results of float operations: a rounded number, or infinity.\<close>

definition amount :: "pyfloat \<Rightarrow> bool" where
  "amount x = (x = PosInf \<or> (\<exists>a. x = Fin a \<and> 0 \<le> a \<and> fround a = Fin a))"

lemma amount_fround: "0 \<le> a \<Longrightarrow> amount (fround a)"
  using fround_nonneg[of a] fround_idem[of a] by (cases "fround a") (auto simp: amount_def)

lemma amount_simps [simp]: "amount (Fin 0)" "amount PosInf"
  by (simp_all add: amount_def)

lemma amount_not_NaN: "amount x \<Longrightarrow> x \<noteq> NaN" and amount_nonneg: "amount x \<Longrightarrow> fle (Fin 0) x"
  by (auto simp: amount_def)

lemma amount_fdiv: "amount x \<or> (\<exists>a. x = Fin a \<and> 0 \<le> a) \<Longrightarrow> 0 < d \<Longrightarrow> amount (fdiv x (Fin d))"
  by (cases x) (auto simp: inf_times_def intro!: amount_fround simp: amount_def[of "Fin _"] amount_def[of NaN] amount_def[of NegInf])

lemma amount_fmin: "amount x \<Longrightarrow> amount y \<Longrightarrow> amount (fmin x y)"
  using fmin_cases[of x y] by metis

lemma amount_scaled:
  assumes "amount x" and "0 < t" and "t \<le> 1"
  shows "amount (fmul x (Fin t)) \<and> fle (fmul x (Fin t)) x"
proof (cases "x = PosInf")
  case False
  with assms(1) obtain a where a: "x = Fin a" "0 \<le> a" "fround a = Fin a" by (auto simp: amount_def)
  have "fle (fround (a * t)) (fround a)" using assms(2,3) a(2) by (intro fround_mono) (simp add: mult_left_le)
  then show ?thesis using a assms(2) by (simp add: amount_fround)
qed (use assms(2) in \<open>simp add: inf_times_def\<close>)

lemma safe_float_Fin: "\<exists>a. fmax (safe_float x (Fin 0)) (Fin 0) = Fin a \<and> 0 \<le> a"
  by (cases x) (auto simp: safe_float_def fmax_def)

lemma capped: "0 \<le> a \<Longrightarrow> \<exists>b. fmin (Fin a) (fmax (Fin 0) (safe_float x (Fin a))) = Fin b \<and> 0 \<le> b \<and> b \<le> a"
  by (cases x) (auto simp: safe_float_def fmax_def fmin_def)

lemma fmin_nonneg: "0 \<le> a \<Longrightarrow> fnonneg y \<Longrightarrow> \<exists>b. fmin (Fin a) y = Fin b \<and> 0 \<le> b \<and> b \<le> a"
  by (cases y) (auto simp: fmin_def)

lemma allocation_cap_bounds:
  assumes "allocation_cap_of s = Inr (cap, names)" and "fmax (safe_float (sq_capital s) (Fin 0)) (Fin 0) = Fin c" and "0 \<le> c"
  shows "\<exists>a. cap = Fin a \<and> 0 \<le> a \<and> a \<le> c"
proof -
  obtain m where m: "fmax (safe_float (sq_max_allocation s) (Fin 0)) (Fin 0) = Fin m" "0 \<le> m" using safe_float_Fin by blast
  obtain a0 where a0: "fmin (Fin c) (if flt (Fin 0) (Fin m) then Fin m else Fin c) = Fin a0" "0 \<le> a0" "a0 \<le> c"
    using assms(3) m(2) by (cases "0 < m"; cases "m < c") (auto simp: fmin_def)
  define a1 where "a1 = (case sq_max_portfolio_exposure s of None \<Rightarrow> Fin a0 | Some x \<Rightarrow> fmin (Fin a0) (fmax (Fin 0) (safe_float x (Fin a0))))"
  obtain b1 where b1: "a1 = Fin b1" "0 \<le> b1" "b1 \<le> a0"
    using capped[OF a0(2)] a0(2) by (cases "sq_max_portfolio_exposure s") (auto simp: a1_def)
  define a2 where "a2 = (case sq_max_symbol_exposure s of None \<Rightarrow> Fin b1 | Some x \<Rightarrow> fmin (Fin b1) (fmax (Fin 0) (safe_float x (Fin b1))))"
  obtain b2 where b2: "a2 = Fin b2" "0 \<le> b2" "b2 \<le> b1"
    using capped[OF b1(2)] b1(2) by (cases "sq_max_symbol_exposure s") (auto simp: a2_def)
  have run: "allocation_cap_of s = (let names = (case sq_max_portfolio_exposure s of None \<Rightarrow> [] | Some _ \<Rightarrow> [''max_portfolio_exposure'']) @
        (case sq_max_symbol_exposure s of None \<Rightarrow> [] | Some _ \<Rightarrow> [''max_symbol_exposure''])
      in if 1 < sq_maximum_concurrent_trades s
         then bind_res (int_to_float (sq_maximum_concurrent_trades s)) (\<lambda>n.
           Inr (fmin (Fin b2) (fdiv (Fin c) n), names @ [''max_concurrent_bot_exposure'']))
         else Inr (Fin b2, names))"
    using b1(1) b2(1) by (cases "sq_max_portfolio_exposure s"; cases "sq_max_symbol_exposure s")
      (simp_all add: allocation_cap_of_def Let_def assms(2) m(1) a0(1)[simplified] a1_def a2_def)
  show ?thesis
  proof (cases "1 < sq_maximum_concurrent_trades s")
    case True
    with assms(1) run obtain n where n: "int_to_float (sq_maximum_concurrent_trades s) = Inr n" "cap = fmin (Fin b2) (fdiv (Fin c) n)"
      by (auto simp: Let_def bind_res_eq_Inr)
    then have "fround (of_int (sq_maximum_concurrent_trades s)) = n" by (auto simp: int_to_float_def split: pyfloat.splits)
    moreover have "0 \<le> (of_int (sq_maximum_concurrent_trades s) :: rat)" using True by simp
    ultimately have "fnonneg (fdiv (Fin c) n)" using assms(3) fnonneg_fround by (auto intro: fnonneg_fdiv)
    from fmin_nonneg[OF b2(2) this] n(2) b2(3) b1(3) a0(3) show ?thesis by auto
  next
    case False
    with assms(1) run b2 b1(3) a0(3) show ?thesis by (auto simp: Let_def)
  qed
qed

text \<open>The throttles multiply by a factor between a quarter and one.\<close>

lemma throttle_factor:
  "\<exists>t. fmax (dec 25 100) (fmin (Fin 1) y) = Fin t \<and> 0 < t \<and> t \<le> 1"
  by (cases y) (auto simp: dec_25_100 fmax_def fmin_def intro: exI[of _ "1 / 4"])

lemma throttled_bounds:
  assumes "amount x" and "throttled s (x, names) = (x', names')"
  shows "amount x' \<and> fle x' x"
proof -
  obtain t where t: "fmax (dec 25 100) (fmin (Fin 1) (fdiv (dec 2 100) (fmax (sq_volatility_value s) (dec 1 10000)))) = Fin t"
    "0 < t" "t \<le> 1" using throttle_factor by blast
  define y where "y = (if contains ''volatility'' (str_lower (sq_sizing_method s)) \<and> flt (Fin 0) (sq_volatility_value s)
    then fmul x (Fin t) else x)"
  have y: "amount y" "fle y x"
    using amount_scaled[OF assms(1) t(2,3)] assms(1) amount_not_NaN by (auto simp: y_def fle_refl)
  have "x' = y \<or> x' = fmul y (Fin (1 / 2))"
    using assms(2) unfolding throttled_def by (auto simp: y_def t(1) dec_5_10 Let_def split: if_splits)
  then show ?thesis using y amount_scaled[OF y(1), of "1 / 2"] fle_trans[of x' y x] by auto
qed

lemma exchange_limits_bounds:
  assumes "fnonneg x" and "x \<noteq> NaN" and "exchange_limits s (x, names) = (final, names')"
    and "sq_override_quantity s = None" and "\<not> flt (Fin 0) (sq_lot_size s)"
  shows "fle (Fin 0) final \<and> fle final x \<and> \<not> (flt (Fin 0) final \<and> flt final (sq_exchange_min_qty s))
    \<and> (final = Fin 0 \<or> (\<forall>y. sq_exchange_max_qty s = Some y \<longrightarrow> fle final (fmax (Fin 0) (safe_float y x))))"
proof -
  define z where "z = (case sq_exchange_max_qty s of None \<Rightarrow> x | Some y \<Rightarrow> fmin x (fmax (Fin 0) (safe_float y x)))"
  have cap: "fmax (Fin 0) (safe_float y x) \<noteq> NaN \<and> fnonneg (fmax (Fin 0) (safe_float y x))" for y
    using assms(1,2) by (cases y; cases x) (auto simp: safe_float_def fmax_def)
  have z: "fle (Fin 0) z" "fle z x" "sq_exchange_max_qty s = Some y \<Longrightarrow> fle z (fmax (Fin 0) (safe_float y x))" for y
    using cap assms(1,2) fnonneg_fle fmin_le1 fmin_le2 fmin_cases[of x "fmax (Fin 0) (safe_float (the (sq_exchange_max_qty s)) x)"]
    by (auto simp: z_def fle_refl split: option.splits)
  have "final = (if flt (Fin 0) (sq_exchange_min_qty s) \<and> flt (Fin 0) z \<and> flt z (sq_exchange_min_qty s) then Fin 0 else z)"
    using assms(3-5) unfolding exchange_limits_def
    by (cases "sq_exchange_max_qty s") (auto simp: z_def Let_def split: if_splits)
  moreover have "flt (Fin 0) z \<Longrightarrow> flt z m \<Longrightarrow> flt (Fin 0) m" for m using flt_trans by blast
  ultimately show ?thesis using z assms(1,2) fnonneg_fle by auto
qed

text \<open>The quantity before the throttles: the smaller of the allocation's and the risk's.\<close>

lemma raw_quantity:
  assumes "0 \<le> a" "0 \<le> c" "a \<le> c" and "amount r"
    and "p = Fin p'" "0 \<le> p'" and "e = Fin e'" "0 \<le> e'"
    and "alloc = (if fle p (Fin 0) then Fin 0 else fdiv (Fin a) p)"
    and "risk = (if fle e (Fin 0) then alloc else fdiv r e)"
  shows "amount (fmin alloc risk)"
    and "0 < p' \<Longrightarrow> fle (fmin alloc risk) (fdiv (Fin c) p)"
    and "0 < e' \<Longrightarrow> fle (fmin alloc risk) (fdiv r e)"
proof -
  have "p' \<noteq> 0 \<Longrightarrow> amount (fdiv (Fin a) (Fin p'))" using assms(1,6) by (intro amount_fdiv) auto
  then have alloc: "amount alloc" using assms(5,6,9) by auto
  have risk: "amount risk" using assms alloc by (auto intro: amount_fdiv)
  show "amount (fmin alloc risk)" using alloc risk by (rule amount_fmin)
  have le: "fle (fmin alloc risk) alloc" "fle (fmin alloc risk) risk"
    using alloc risk amount_not_NaN fmin_le1 fmin_le2 by auto
  show "fle (fmin alloc risk) (fdiv (Fin c) p)" if "0 < p'"
  proof -
    have "fle alloc (fdiv (Fin c) p)"
      using that assms(1,3,5,9) by (auto intro!: fround_mono divide_right_mono)
    with le(1) show ?thesis by (rule fle_trans)
  qed
  show "fle (fmin alloc risk) (fdiv r e)" if "0 < e'"
    using le(2) that assms(7,10) by simp
qed

text \<open>\<open>C18\<close>: C: the size the dashboard hands to a bot, when there is no user override and no lot size, is not negative
  and not above the calculated quantity; it is zero or at least the exchange's minimum, and zero or at most the
  exchange's maximum; and the calculated quantity is worth at most the capital at the given price and risks at most the
  risk amount at the given stop distance.\<close>

theorem position_size_bounds:
  assumes "calculate_position_size_decision s = Inr d"
    and "sq_override_quantity s = None" and "\<not> flt (Fin 0) (sq_lot_size s)"
  shows "fle (Fin 0) (sd_final_quantity d) \<and> fle (sd_final_quantity d) (sd_calculated_quantity d) \<and>
    \<not> (flt (Fin 0) (sd_final_quantity d) \<and> flt (sd_final_quantity d) (sq_exchange_min_qty s)) \<and>
    (\<forall>x. sq_exchange_max_qty s = Some (Fin x) \<longrightarrow> 0 \<le> x \<longrightarrow> fle (sd_final_quantity d) (Fin x)) \<and>
    (\<forall>p. sq_price s = Fin p \<longrightarrow> 0 < p \<longrightarrow>
       fle (sd_calculated_quantity d) (fdiv (fmax (safe_float (sq_capital s) (Fin 0)) (Fin 0)) (Fin p))) \<and>
    (\<forall>e. sq_stop_loss_distance s = Fin e \<longrightarrow> 0 < e \<longrightarrow> fle (sd_calculated_quantity d) (fdiv (sd_risk_amount d) (Fin e)))"
proof -
  obtain c where c: "fmax (safe_float (sq_capital s) (Fin 0)) (Fin 0) = Fin c" "0 \<le> c" using safe_float_Fin by blast
  obtain r where r: "fmax (safe_float (sq_risk_per_trade s) (Fin 0)) (Fin 0) = Fin r" "0 \<le> r" using safe_float_Fin by blast
  obtain p where p: "fmax (safe_float (sq_price s) (Fin 0)) (Fin 0) = Fin p" "0 \<le> p" using safe_float_Fin by blast
  obtain e where e: "fmax (safe_float (sq_stop_loss_distance s) (Fin 0)) (Fin 0) = Fin e" "0 \<le> e" using safe_float_Fin by blast
  obtain cap names where cap: "allocation_cap_of s = Inr (cap, names)" using assms(1)
    by (auto simp: calculate_position_size_decision_def Let_def bind_res_eq_Inr)
  obtain a where a: "cap = Fin a" "0 \<le> a" "a \<le> c" using allocation_cap_bounds[OF cap c] by blast
  define alloc where "alloc = (if fle (Fin p) (Fin 0) then Fin 0 else fdiv (Fin a) (Fin p))"
  define risk where "risk = (if fle (Fin e) (Fin 0) then alloc else fdiv (fmul (Fin c) (Fin r)) (Fin e))"
  have "amount (fmul (Fin c) (Fin r))" using c(2) r(2) by (simp add: amount_fround)
  note raw = raw_quantity[OF a(2) c(2) a(3) this refl p(2) refl e(2) alloc_def risk_def]
  obtain x names1 where x: "throttled s (fmin alloc risk, names) = (x, names1)" by fastforce
  obtain y names2 where y: "exchange_limits s (x, names1) = (y, names2)" by fastforce
  have d: "sd_calculated_quantity d = x" "sd_final_quantity d = y" "sd_risk_amount d = fmul (Fin c) (Fin r)"
    using assms(1) unfolding calculate_position_size_decision_def Let_def c(1) r(1) p(1) e(1) cap a(1) bind_res_Inr prod.case
    unfolding alloc_def[symmetric] risk_def[symmetric] x y prod.case by auto
  from throttled_bounds[OF raw(1) x] have xb: "amount x" "fle x (fmin alloc risk)" by auto
  from xb(1) have "fnonneg x" "x \<noteq> NaN" by (auto simp: amount_def)
  note lim = exchange_limits_bounds[OF this y assms(2,3)]
  show ?thesis
  proof (intro conjI allI impI)
    show "fle (sd_final_quantity d) (Fin m)" if "sq_exchange_max_qty s = Some (Fin m)" "0 \<le> m" for m
      using lim that by (auto simp: d safe_float_def fmax_def split: if_splits)
    show "fle (sd_calculated_quantity d) (fdiv (fmax (safe_float (sq_capital s) (Fin 0)) (Fin 0)) (Fin p'))"
      if "sq_price s = Fin p'" "0 < p'" for p'
    proof -
      have "p = p'" using p(1) that by (simp add: safe_float_def fmax_def)
      then show ?thesis using raw(2) that(2) fle_trans[OF xb(2)] by (simp add: d c(1))
    qed
    show "fle (sd_calculated_quantity d) (fdiv (sd_risk_amount d) (Fin e'))" if "sq_stop_loss_distance s = Fin e'" "0 < e'" for e'
    proof -
      have "e = e'" using e(1) that by (simp add: safe_float_def fmax_def)
      then show ?thesis using raw(3) that(2) fle_trans[OF xb(2)] by (simp add: d)
    qed
  qed (use lim d in auto)
qed

definition sample_size :: size_request where
  "sample_size = \<lparr>sq_sizing_method = ''fixed'', sq_capital = Fin 3, sq_risk_per_trade = Fin 1, sq_max_allocation = Fin 0,
     sq_stop_loss_distance = Fin 0, sq_price = Fin 1, sq_volatility_value = Fin 0, sq_regime = ''trend'',
     sq_max_portfolio_exposure = None, sq_max_symbol_exposure = None, sq_maximum_concurrent_trades = 1,
     sq_exchange_min_qty = Fin 3, sq_exchange_max_qty = None, sq_lot_size = Fin 0, sq_override_quantity = None\<rparr>"

lemma sample_size_run:
  "calculate_position_size_decision sample_size = Inr d \<Longrightarrow> sd_final_quantity d = Fin 3 \<and> sd_calculated_quantity d = Fin 3"
  "\<exists>d. calculate_position_size_decision sample_size = Inr d"
  using fround_int[of 3]
  by (auto simp: sample_size_def calculate_position_size_decision_def allocation_cap_of_def throttled_def exchange_limits_def
    safe_float_def fmax_def fmin_def str_lower_def contains.simps startswith_def Let_def)

theorem position_size_bounds_witness:
  "\<exists>d. calculate_position_size_decision sample_size = Inr d \<and> \<not> flt (sd_final_quantity d) (Fin 3)"
proof -
  obtain d where d: "calculate_position_size_decision sample_size = Inr d" using sample_size_run(2) by blast
  have "sq_override_quantity sample_size = None" "\<not> flt (Fin 0) (sq_lot_size sample_size)" by (simp_all add: sample_size_def)
  from position_size_bounds[OF d this] have "\<not> (flt (Fin 0) (sd_final_quantity d) \<and> flt (sd_final_quantity d) (Fin 3))"
    by (simp add: sample_size_def)
  moreover have "flt (Fin 0) (sd_final_quantity d)" using sample_size_run(1)[OF d] by simp
  ultimately show ?thesis using d by blast
qed

text \<open>The lot size is applied after the minimum: with lots of 2 the order of 3, the exchange's minimum, becomes one of 2.\<close>

lemma lot_size_after_minimum:
  "\<exists>d. calculate_position_size_decision (sample_size\<lparr>sq_lot_size := Fin 2\<rparr>) = Inr d \<and>
     flt (Fin 0) (sd_final_quantity d) \<and> flt (sd_final_quantity d) (sq_exchange_min_qty sample_size)"
proof -
  have "\<lfloor>3 / 2 :: rat\<rfloor> = 1" by (simp add: floor_eq_iff)
  then show ?thesis using fround_int[of 3] fround_int[of 2] by (auto simp: sample_size_def calculate_position_size_decision_def allocation_cap_of_def throttled_def exchange_limits_def
    safe_float_def fmax_def fmin_def str_lower_def contains.simps startswith_def pos_floordiv_def fsub_def Let_def)
qed

end
