(* ===== verification/Market_Stream.thy ===== *)
theory Market_Stream
  imports Replay_Metrics Py_Json
begin

text \<open>
  The market stream (\<open>market_data/binance_stream.py\<close>): what a message of the exchange does to the state kept per
  symbol, the roll-up of closed candles into the larger timeframes and the orderflow score. A message is parsed
  JSON, \<open>now\<close> the reading of the clock. A handler that raises keeps what it wrote before; the stream reconnects and goes on
  with the state it has. The web socket, the reconnection delay and the file writer are not modelled.
\<close>

section \<open>Timestamps in milliseconds\<close>

text \<open>\<open>n / 1000\<close> of integers, and \<open>datetime.fromtimestamp(x, UTC)\<close>: whole seconds, and the microseconds of the
  fraction rounded half to even.\<close>

definition millis_to_seconds :: "int \<Rightarrow> pyfloat res" where
  "millis_to_seconds n = (case fround (of_int n / 1000) of Fin x \<Rightarrow> Inr (Fin x) | _ \<Rightarrow> Inl OverflowError)"

definition whole_part :: "rat \<Rightarrow> int" where
  "whole_part x = (if 0 \<le> x then \<lfloor>x\<rfloor> else \<lceil>x\<rceil>)"

definition calendar_seconds :: "int \<Rightarrow> bool" where
  "calendar_seconds s = (- 62135596800 \<le> s \<and> s < 253402300800)"

definition from_timestamp :: "pyfloat \<Rightarrow> instant res" where
  "from_timestamp x = (case x of
       NaN \<Rightarrow> Inl (ValueError ''cannot convert float NaN to integer'')
     | Fin q \<Rightarrow>
         (let us = (case fmul (Fin (q - of_int (whole_part q))) (Fin 1000000) of Fin f \<Rightarrow> rhe f | _ \<Rightarrow> 0);
              t = whole_part q * 1000000 + us
          in if 2 ^ 63 \<le> \<bar>q\<bar> then Inl OverflowError
             else if calendar_seconds (t div 1000000) then Inr t else Inl (ValueError ''year is out of range''))
     | _ \<Rightarrow> Inl OverflowError)"

definition from_millis :: "int \<Rightarrow> instant res" where
  "from_millis n = bind_res (millis_to_seconds n) from_timestamp"

section \<open>State\<close>

definition binance_interval_ms :: "(string, int) dict" where
  "binance_interval_ms =
     [(''1m'', 60000), (''3m'', 180000), (''5m'', 300000), (''15m'', 900000), (''30m'', 1800000), (''1h'', 3600000),
      (''2h'', 7200000), (''4h'', 14400000), (''6h'', 21600000), (''8h'', 28800000), (''12h'', 43200000), (''1d'', 86400000)]"

definition stream_timeframes :: "string list" where
  "stream_timeframes = [''1m'', ''5m'', ''15m'', ''1h'', ''4h'', ''1d'']"

record stream_bar =
  sb_symbol :: string
  sb_interval :: string
  sb_open_time :: instant
  sb_close_time :: instant
  sb_open :: pyfloat
  sb_high :: pyfloat
  sb_low :: pyfloat
  sb_close :: pyfloat
  sb_volume :: pyfloat
  sb_quote_volume :: pyfloat
  sb_trade_count :: int
  sb_taker_base :: pyfloat
  sb_taker_quote :: pyfloat
  sb_closed :: bool

text \<open>The bar shown for a timeframe is one of its own, or the very object still kept under construction for the bucket
  that opened at the given millisecond.\<close>

datatype shown_bar = Own stream_bar | Building int

record symbol_state =
  sy_symbol :: string
  sy_last_price :: pyfloat
  sy_best_bid :: pyfloat
  sy_best_ask :: pyfloat
  sy_spread_bps :: pyfloat
  sy_bid_depth :: pyfloat
  sy_ask_depth :: pyfloat
  sy_depth_imbalance :: pyfloat
  sy_taker_buy_ratio :: pyfloat
  sy_trade_count :: int
  sy_trade_notional :: pyfloat
  sy_closed_kline :: bool
  sy_kline_interval :: string
  sy_kline_close :: pyfloat
  sy_kline_volume :: pyfloat
  sy_orderflow_score :: pyfloat
  sy_event_time :: string
  sy_updated_at :: string
  sy_status :: string
  sy_timeframes :: "(string, shown_bar) dict"
  sy_trades :: "(pyfloat \<times> pyfloat \<times> bool) list"
  sy_building :: "(string \<times> int, stream_bar) dict"
  sy_history :: "(string, stream_bar list) dict"

type_synonym stream_state = "(string, symbol_state) dict"

definition new_symbol_state :: "string \<Rightarrow> symbol_state" where
  "new_symbol_state symbol =
     \<lparr>sy_symbol = symbol, sy_last_price = Fin 0, sy_best_bid = Fin 0, sy_best_ask = Fin 0, sy_spread_bps = Fin 0,
      sy_bid_depth = Fin 0, sy_ask_depth = Fin 0, sy_depth_imbalance = Fin 0, sy_taker_buy_ratio = dec 5 10,
      sy_trade_count = 0, sy_trade_notional = Fin 0, sy_closed_kline = False, sy_kline_interval = ''1m'', sy_kline_close = Fin 0,
      sy_kline_volume = Fin 0, sy_orderflow_score = Fin 0, sy_event_time = [], sy_updated_at = [], sy_status = ''WAITING'',
      sy_timeframes = [], sy_trades = [], sy_building = [], sy_history = []\<rparr>"

definition new_stream_state :: "string list \<Rightarrow> stream_state" where
  "new_stream_state symbols = dict_update [] (map (\<lambda>s. (s, new_symbol_state s)) symbols)"

section \<open>Derived figures\<close>

definition flow_score :: "pyfloat \<Rightarrow> pyfloat \<Rightarrow> pyfloat \<Rightarrow> int \<Rightarrow> pyfloat" where
  "flow_score bps imbalance taker_ratio trades =
     (let s = unit_clamp (fsub (Fin 1) (fdiv bps (Fin 20)));
          d = unit_clamp (fdiv (fadd imbalance (Fin 1)) (Fin 2));
          t = unit_clamp taker_ratio;
          a = unit_clamp (fround (of_int trades / 500))
      in fround_to (fmul (fadd (fadd (fadd (fmul s (dec 25 100)) (fmul d (dec 25 100))) (fmul t (dec 35 100))) (fmul a (dec 15 100)))
           (Fin 100)) 1)"

definition stream_orderflow_score :: "pyfloat \<Rightarrow> pyfloat \<Rightarrow> pyfloat \<Rightarrow> int \<Rightarrow> pyfloat" where
  "stream_orderflow_score bps = flow_score (if is_finite bps then bps else Fin 99)"

definition recompute :: "instant \<Rightarrow> symbol_state \<Rightarrow> symbol_state" where
  "recompute now s =
     (let mid = fdiv (fadd (sy_best_bid s) (sy_best_ask s)) (Fin 2);
          spread = (if fle mid (Fin 0) then Fin 0 else fmul (fdiv (fsub (sy_best_ask s) (sy_best_bid s)) mid) (Fin 10000));
          depth = fadd (sy_bid_depth s) (sy_ask_depth s);
          imbalance = (if fle depth (Fin 0) then Fin 0 else fdiv (fsub (sy_bid_depth s) (sy_ask_depth s)) depth);
          notional = fsum (map (\<lambda>(p, q, _). fmul p q) (sy_trades s));
          taker = fsum (map (\<lambda>(p, q, _). fmul p q) (filter (\<lambda>(_, _, maker). \<not> maker) (sy_trades s)));
          ratio = (if fle notional (Fin 0) then dec 5 10 else fdiv taker notional);
          n = int (length (sy_trades s))
      in s\<lparr>sy_spread_bps := spread, sy_depth_imbalance := imbalance, sy_trade_count := n, sy_trade_notional := notional,
           sy_taker_buy_ratio := ratio, sy_orderflow_score := stream_orderflow_score spread imbalance ratio n,
           sy_updated_at := iso now, sy_status := ''STREAMING''\<rparr>)"

section \<open>Rolling closed candles up\<close>

definition append_history :: "string \<Rightarrow> stream_bar \<Rightarrow> symbol_state \<Rightarrow> symbol_state" where
  "append_history interval bar s =
     (let h = dict_get_or (sy_history s) interval [];
          h' = (if h \<noteq> [] \<and> sb_open_time (last h) = sb_open_time bar then butlast h @ [bar] else last_n 300 (h @ [bar]))
      in s\<lparr>sy_history := dict_set interval h' (sy_history s)\<rparr>)"

text \<open>A bar under construction takes one more source bar.\<close>

definition extend_bar :: "stream_bar \<Rightarrow> stream_bar \<Rightarrow> stream_bar" where
  "extend_bar b x = b\<lparr>sb_high := fmax (sb_high b) (sb_high x), sb_low := fmin (sb_low b) (sb_low x), sb_close := sb_close x,
     sb_volume := fadd (sb_volume b) (sb_volume x), sb_quote_volume := fadd (sb_quote_volume b) (sb_quote_volume x),
     sb_trade_count := sb_trade_count b + sb_trade_count x, sb_taker_base := fadd (sb_taker_base b) (sb_taker_base x),
     sb_taker_quote := fadd (sb_taker_quote b) (sb_taker_quote x)\<rparr>"

text \<open>The bar of a bucket with one more source bar: the one under construction, or a new one.\<close>

definition bucket_bar :: "string \<Rightarrow> int \<Rightarrow> int \<Rightarrow> stream_bar \<Rightarrow> symbol_state \<Rightarrow> stream_bar res" where
  "bucket_bar interval open_ms close_ms x s =
     (case dict_get (sy_building s) (interval, open_ms) of
        Some b \<Rightarrow> Inr (extend_bar b x)
      | None \<Rightarrow> bind_res (from_millis open_ms) (\<lambda>open_time. bind_res (from_millis close_ms) (\<lambda>close_time.
          Inr (x\<lparr>sb_interval := interval, sb_open_time := open_time, sb_close_time := close_time, sb_closed := False\<rparr>))))"

definition close_bucket :: "string \<Rightarrow> int \<Rightarrow> stream_bar \<Rightarrow> symbol_state \<Rightarrow> symbol_state" where
  "close_bucket interval open_ms b s =
     (let s' = append_history interval b (s\<lparr>sy_timeframes := dict_set interval (Building open_ms) (sy_timeframes s)\<rparr>)
      in s'\<lparr>sy_building := filter (\<lambda>((i, ms), _). i = interval \<longrightarrow> ms = open_ms) (sy_building s')\<rparr>)"

definition roll_up ::
    "string \<Rightarrow> int \<Rightarrow> int \<Rightarrow> int \<Rightarrow> stream_bar \<Rightarrow> string \<Rightarrow> symbol_state \<Rightarrow> (symbol_state, unit) outcome" where
  "roll_up source source_ms open_ms close_ms x interval s =
     (let ms = dict_get_or binance_interval_ms interval 0 in
      if ms < source_ms then (s, Inr ())
      else if interval = source
      then (let b = x\<lparr>sb_interval := interval\<rparr>
            in (append_history interval b (s\<lparr>sy_timeframes := dict_set interval (Own b) (sy_timeframes s)\<rparr>), Inr ()))
      else (let bucket_open = open_ms div ms * ms; bucket_close = bucket_open + ms - 1 in
        case bucket_bar interval bucket_open bucket_close x s of
          Inl e \<Rightarrow> (s, Inl e)
        | Inr b0 \<Rightarrow>
            (let closes = (bucket_close \<le> close_ms);
                 b = (if closes then b0\<lparr>sb_closed := True\<rparr> else b0);
                 s' = (if closes then close_bucket interval bucket_open b s else s)
             in (s'\<lparr>sy_building := dict_set (interval, bucket_open) b (sy_building s')\<rparr>, Inr ()))))"

section \<open>Messages\<close>

definition no_attribute :: py_exc where
  "no_attribute = AttributeError ''object has no such method''"

definition as_object :: "json \<Rightarrow> json_row res" where
  "as_object j = (case j of JObj m \<Rightarrow> Inr m | _ \<Rightarrow> Inl no_attribute)"

definition display_symbol :: "string \<Rightarrow> string" where
  "display_symbol s = (if endswith s ''USDT'' then take (length s - 4) s @ ''/USDT'' else s)"

text \<open>\<open>_event_time\<close>: blank for None and for what raises a type, value or OS error.\<close>

definition event_time_text :: "json \<Rightarrow> string res" where
  "event_time_text j =
     (if j = JNull then Inr []
      else case bind_res (py_int j) from_millis of
          Inr t \<Rightarrow> Inr (iso t)
        | Inl OverflowError \<Rightarrow> Inl OverflowError
        | Inl _ \<Rightarrow> Inr [])"

definition number :: "py_env \<Rightarrow> json_row \<Rightarrow> string \<Rightarrow> pyfloat res" where
  "number env m k = py_float env (j_get m k (JNum (Fin 0)))"

text \<open>\<open>for price, qty in levels[:20]\<close>: a list, a text or an object of two parts is unpacked.\<close>

definition unpack_pair :: "json \<Rightarrow> (json \<times> json) res" where
  "unpack_pair j = (case j of
       JList [a, b] \<Rightarrow> Inr (a, b)
     | JText [a, b] \<Rightarrow> Inr (JText [a], JText [b])
     | JObj [(a, _), (b, _)] \<Rightarrow> Inr (JText a, JText b)
     | JList _ \<Rightarrow> Inl (ValueError ''unpack'')
     | JText _ \<Rightarrow> Inl (ValueError ''unpack'')
     | JObj _ \<Rightarrow> Inl (ValueError ''unpack'')
     | _ \<Rightarrow> Inl (TypeError ''cannot unpack non-iterable object''))"

definition first_levels :: "json \<Rightarrow> json list res" where
  "first_levels j = (case j of
       JList xs \<Rightarrow> Inr (take 20 xs)
     | JText t \<Rightarrow> Inr (map (\<lambda>c. JText [c]) (take 20 t))
     | JObj _ \<Rightarrow> Inl (KeyError ''slice'')
     | _ \<Rightarrow> Inl (TypeError ''object is not subscriptable''))"

definition book_side :: "py_env \<Rightarrow> json \<Rightarrow> pyfloat res" where
  "book_side env j = bind_res (first_levels j) (\<lambda>levels. bind_res
     (map_res (\<lambda>l. bind_res (unpack_pair l) (\<lambda>(p, q). bind_res (py_float env p) (\<lambda>p. bind_res (py_float env q) (\<lambda>q. Inr (fmul p q))))) levels)
     (\<lambda>xs. Inr (fsum xs)))"

definition book_ticker :: "py_env \<Rightarrow> json_row \<Rightarrow> symbol_state \<Rightarrow> (symbol_state, unit) outcome" where
  "book_ticker env m s =
     bind_act (s, number env m ''b'') (\<lambda>s bid. let s = s\<lparr>sy_best_bid := bid\<rparr> in
     bind_act (s, number env m ''a'') (\<lambda>s ask. let s = s\<lparr>sy_best_ask := ask\<rparr> in
       (if ftruth (sy_last_price s) then s else s\<lparr>sy_last_price := fdiv (fadd bid ask) (Fin 2)\<rparr>, Inr ())))"

definition depth_update :: "py_env \<Rightarrow> json_row \<Rightarrow> symbol_state \<Rightarrow> (symbol_state, unit) outcome" where
  "depth_update env m s =
     bind_act (s, book_side env (j_get m ''b'' (JList []))) (\<lambda>s bids. let s = s\<lparr>sy_bid_depth := bids\<rparr> in
     bind_act (s, book_side env (j_get m ''a'' (JList []))) (\<lambda>s asks. (s\<lparr>sy_ask_depth := asks\<rparr>, Inr ())))"

definition agg_trade :: "py_env \<Rightarrow> json_row \<Rightarrow> symbol_state \<Rightarrow> (symbol_state, unit) outcome" where
  "agg_trade env m s =
     bind_act (s, number env m ''p'') (\<lambda>s price. bind_act (s, number env m ''q'') (\<lambda>s qty.
       (s\<lparr>sy_last_price := price,
          sy_trades := last_n 500 (sy_trades s @ [(price, qty, truthy (j_get m ''m'' (JBool False)))])\<rparr>, Inr ())))"

definition source_bar :: "py_env \<Rightarrow> json_row \<Rightarrow> int \<Rightarrow> int \<Rightarrow> string \<Rightarrow> string \<Rightarrow> stream_bar res" where
  "source_bar env k open_ms close_ms symbol interval =
     bind_res (from_millis open_ms) (\<lambda>open_time. bind_res (from_millis close_ms) (\<lambda>close_time.
     bind_res (number env k ''o'') (\<lambda>op. bind_res (number env k ''h'') (\<lambda>hi. bind_res (number env k ''l'') (\<lambda>lo.
     bind_res (number env k ''c'') (\<lambda>cl. bind_res (number env k ''v'') (\<lambda>vol. bind_res (number env k ''q'') (\<lambda>quote.
     bind_res (py_int (j_get k ''n'' (JInt 0))) (\<lambda>trades.
     bind_res (number env k ''V'') (\<lambda>tb. bind_res (number env k ''Q'') (\<lambda>tq.
       Inr \<lparr>sb_symbol = symbol, sb_interval = interval, sb_open_time = open_time, sb_close_time = close_time, sb_open = op, sb_high = hi,
            sb_low = lo, sb_close = cl, sb_volume = vol, sb_quote_volume = quote, sb_trade_count = trades, sb_taker_base = tb,
            sb_taker_quote = tq, sb_closed = True\<rparr>)))))))))))"

definition kline_fields :: "py_env \<Rightarrow> json_row \<Rightarrow> symbol_state \<Rightarrow> (symbol_state, unit) outcome" where
  "kline_fields env k s0 =
     (let s = s0\<lparr>sy_kline_interval := py_str env (j_get k ''i'' (JText (sy_kline_interval s0)))\<rparr> in
      bind_act (s, py_float env (j_get k ''c'' (JNum (sy_kline_close s)))) (\<lambda>s c. let s = s\<lparr>sy_kline_close := c\<rparr> in
      bind_act (s, number env k ''v'') (\<lambda>s v.
        let s = s\<lparr>sy_kline_volume := v, sy_closed_kline := truthy (j_get k ''x'' (JBool False))\<rparr>
        in (if ftruth c then s\<lparr>sy_last_price := c\<rparr> else s, Inr ()))))"

definition handle_kline :: "py_env \<Rightarrow> json_row \<Rightarrow> symbol_state \<Rightarrow> (symbol_state, unit) outcome" where
  "handle_kline env k s0 =
     bind_act (kline_fields env k s0) (\<lambda>s _.
       if \<not> sy_closed_kline s then (s, Inr ())
       else case dict_get binance_interval_ms (sy_kline_interval s) of
           None \<Rightarrow> (s, Inr ())
         | Some source_ms \<Rightarrow>
             bind_act (s, py_int (j_get k ''t'' (JInt 0))) (\<lambda>s open_ms.
             bind_act (s, py_int (j_get k ''T'' (JInt (open_ms + source_ms - 1)))) (\<lambda>s close_ms.
             bind_act (s, source_bar env k open_ms close_ms (sy_symbol s) (sy_kline_interval s)) (\<lambda>s x.
               for_act (roll_up (sy_kline_interval s) source_ms open_ms close_ms x) stream_timeframes s))))"

definition is_book_ticker :: "json_row \<Rightarrow> bool" where
  "is_book_ticker m = (j_get m ''e'' JNull = JText ''bookTicker'' \<or>
     (dict_get m ''b'' \<noteq> None \<and> dict_get m ''a'' \<noteq> None \<and> dict_get m ''u'' \<noteq> None))"

definition update_symbol :: "py_env \<Rightarrow> json_row \<Rightarrow> symbol_state \<Rightarrow> (symbol_state, unit) outcome" where
  "update_symbol env m s =
     (let kind = j_get m ''e'' JNull in
      if is_book_ticker m then book_ticker env m s
      else if kind = JText ''depthUpdate'' then depth_update env m s
      else if kind = JText ''aggTrade'' then agg_trade env m s
      else if kind = JText ''kline'' then bind_act (s, as_object (j_get m ''k'' (JObj []))) (\<lambda>s k. handle_kline env k s)
      else (s, Inr ()))"

definition handle_symbol :: "py_env \<Rightarrow> instant \<Rightarrow> json_row \<Rightarrow> symbol_state \<Rightarrow> (symbol_state, unit) outcome" where
  "handle_symbol env now m s =
     bind_act (s, event_time_text (j_get m ''E'' JNull)) (\<lambda>s t.
     bind_act (update_symbol env m (s\<lparr>sy_event_time := t\<rparr>)) (\<lambda>s _. (recompute now s, Inr ())))"

definition handle_message :: "py_env \<Rightarrow> instant \<Rightarrow> json \<Rightarrow> stream_state \<Rightarrow> (stream_state, unit) outcome" where
  "handle_message env now message st =
     (case bind_res (as_object message) (\<lambda>m. as_object (j_get m ''data'' message)) of
        Inl e \<Rightarrow> (st, Inl e)
      | Inr m \<Rightarrow>
          (case j_get m ''s'' (JText []) of
             JText name \<Rightarrow>
               (case dict_get st (display_symbol name) of
                  None \<Rightarrow> (st, Inr ())
                | Some s \<Rightarrow> (let (s', r) = handle_symbol env now m s in (dict_set (display_symbol name) s' st, r)))
           | _ \<Rightarrow> (st, Inl no_attribute)))"

text \<open>The life of a stream: the exception of a handler ends the connection, the next connection continues the state.\<close>

definition consume :: "py_env \<Rightarrow> (instant \<times> json) list \<Rightarrow> stream_state \<Rightarrow> stream_state" where
  "consume env ms st = fold (\<lambda>(now, m) st. fst (handle_message env now m st)) ms st"

definition stream_names :: "string list \<Rightarrow> string \<Rightarrow> string list" where
  "stream_names symbols interval = concat (map (\<lambda>s. let n = str_lower (remove_char CHR ''/'' s) in
     [n @ ''@bookTicker'', n @ ''@depth20@100ms'', n @ ''@aggTrade'', n @ ''@kline_'' @ interval]) symbols)"

end
