(* ===== verification/Stream_Laws.thy ===== *)
theory Stream_Laws
  imports Market_Stream
begin

text \<open>
  Laws of the market stream: the bar of a closed bucket is the aggregate of its candles, what stays bounded over any
  messages, and that order book updates as the exchange sends them never reach the state.
\<close>

section \<open>Timestamps are exact\<close>

lemma rnd_error:
  assumes "\<bar>q\<bar> < 2 powi (e + 1)" and "- 1022 \<le> e"
  shows "\<bar>rnd q - q\<bar> \<le> 2 powi (e - 53)"
proof (cases "q = 0")
  case False
  let ?u = "2 powi quantum q :: rat"
  have "2 powi ilog2 \<bar>q\<bar> \<le> \<bar>q\<bar>" using False ilog2_bounds[of "\<bar>q\<bar>"] by simp
  with assms(1) have "(2::rat) powi ilog2 \<bar>q\<bar> < 2 powi (e + 1)" by linarith
  then have "quantum q \<le> e - 52" using assms(2) unfolding powi_less_cancel by (simp add: quantum_def)
  then have u: "?u \<le> 2 powi (e - 52)" by (simp add: powi_le_cancel)
  have "\<bar>rnd q - q\<bar> = \<bar>of_int (rhe (q / ?u)) - q / ?u\<bar> * ?u"
    using False powi_pos[of "quantum q"] by (simp add: rnd_def grid_def field_simps flip: abs_mult_pos)
  also have "\<dots> \<le> 1 / 2 * ?u" using rhe_near[of "q / ?u"] by (intro mult_right_mono) simp_all
  also have "\<dots> \<le> 1 / 2 * 2 powi (e - 52)" using u by simp
  also have "\<dots> = 2 powi (e - 53)" using power_int_add[of "2::rat" "e - 53" 1] by simp
  finally show ?thesis .
qed simp

lemma fround_small: "\<bar>q\<bar> < 2 ^ 40 \<Longrightarrow> fround q = Fin (rnd q)"
  using binary64.upper[of q "2 ^ 40"] binary64.lower[of "- (2 ^ 40)" q] by (simp add: fround_def Let_def abs_less_iff)

text \<open>Milliseconds between 1970 and 2242 are converted to the microsecond exactly.\<close>

lemma from_millis_exact:
  assumes "0 \<le> n" and "n < 8589934592000"
  shows "from_millis n = Inr (1000 * n)"
proof -
  define k where "k = n div 1000"
  define m where "m = n mod 1000"
  have n: "n = 1000 * k + m" "0 \<le> m" "m < 1000" "0 \<le> k" "k < 8589934592" using assms by (auto simp: k_def m_def)
  let ?q = "of_int n / 1000 :: rat"
  define y where "y = rnd ?q"
  have q: "?q = of_int k + of_int m / 1000" by (simp add: n(1) field_simps)
  have q_range: "0 \<le> ?q" "?q < 8589934592" using assms by simp_all
  have err: "\<bar>y - ?q\<bar> \<le> 1 / 2097152" using rnd_error[of ?q 32] q_range by (simp add: y_def power_int_def power_divide)
  then have err2: "y - (of_int k + of_int m / 1000) \<le> 1 / 2097152" "of_int k + of_int m / 1000 - y \<le> 1 / 2097152"
    unfolding q by linarith+
  have y: "fround ?q = Fin y" using q_range by (simp add: fround_small y_def)
  have y0: "0 \<le> y" using rnd_nonneg q_range(1) by (simp add: y_def)
  have fl: "\<lfloor>y\<rfloor> = k"
  proof (cases "m = 0")
    case True
    then have "y = of_int k" using rnd_int[of k] n(4,5) by (simp add: y_def q)
    then show ?thesis by simp
  next
    case False
    then have "1 \<le> rat_of_int m" "rat_of_int m \<le> 999" using n(2,3) by simp_all
    then show ?thesis using err2 by (intro floor_unique; linarith)
  qed
  define r where "r = (y - of_int k) * 1000000"
  have "r = y * 1000000 - of_int k * 1000000" "rat_of_int (1000 * m) = 1000 * of_int m" by (simp_all add: r_def algebra_simps)
  then have r2: "r - 1000 * of_int m \<le> 1000000 / 2097152" "1000 * of_int m - r \<le> 1000000 / 2097152"
    using err2 by linarith+
  have m': "0 \<le> rat_of_int m" "rat_of_int m \<le> 999" using n(2,3) by simp_all
  with r2 have "\<bar>r\<bar> < 1048576" unfolding abs_less_iff by linarith
  then have e: "\<bar>rnd r - r\<bar> \<le> 1 / 17179869184" "fround r = Fin (rnd r)"
    using rnd_error[of r 19] by (simp_all add: power_int_def power_divide fround_small)
  have "rnd r - r \<le> 1 / 17179869184" "r - rnd r \<le> 1 / 17179869184" using e(1) by linarith+
  then have "\<bar>rnd r - of_int (1000 * m)\<bar> < 1 / 2" using r2 unfolding abs_less_iff of_int_mult of_int_numeral by linarith
  then have "rhe (rnd r) = 1000 * m" by (intro rhe_unique disjI1)
  then have us: "(case fmul (Fin (y - of_int (whole_part y))) (Fin 1000000) of Fin f \<Rightarrow> rhe f | _ \<Rightarrow> 0) = 1000 * m"
    using fl y0 e(2) by (simp add: whole_part_def r_def)
  have "rat_of_int k < 8589934592" using n(5) by simp
  then have "y < 9223372036854775808" using err2(1) m'(2) by linarith
  then have "\<bar>y\<bar> < 2 ^ 63" using y0 by simp
  moreover have "whole_part y = k" using fl y0 by (simp add: whole_part_def)
  moreover have "(k * 1000000 + 1000 * m) div 1000000 = k" using n(2,3) by simp
  ultimately have "from_timestamp (Fin y) = Inr (k * 1000000 + 1000 * m)"
    using n(4,5) us by (simp add: from_timestamp_def Let_def calendar_seconds_def not_le)
  moreover have "millis_to_seconds n = Inr (Fin y)" by (simp add: millis_to_seconds_def y)
  moreover have "1000 * n = k * 1000000 + 1000 * m" by (simp add: n(1))
  ultimately show ?thesis by (simp add: from_millis_def)
qed

section \<open>The bar of a bucket\<close>

definition aggregate_of :: "stream_bar list \<Rightarrow> stream_bar \<Rightarrow> bool" where
  "aggregate_of xs b \<longleftrightarrow>
     sb_open b = sb_open (hd xs) \<and> sb_close b = sb_close (last xs) \<and>
     sb_high b \<in> sb_high ` set xs \<and> (\<forall>x\<in>set xs. fle (sb_high x) (sb_high b)) \<and>
     sb_low b \<in> sb_low ` set xs \<and> (\<forall>x\<in>set xs. fle (sb_low b) (sb_low x)) \<and>
     sb_volume b = foldl fadd (sb_volume (hd xs)) (map sb_volume (tl xs)) \<and>
     sb_quote_volume b = foldl fadd (sb_quote_volume (hd xs)) (map sb_quote_volume (tl xs)) \<and>
     sb_taker_base b = foldl fadd (sb_taker_base (hd xs)) (map sb_taker_base (tl xs)) \<and>
     sb_taker_quote b = foldl fadd (sb_taker_quote (hd xs)) (map sb_taker_quote (tl xs)) \<and>
     sb_trade_count b = sum_list (map sb_trade_count xs)"

definition proper_bar :: "stream_bar \<Rightarrow> bool" where
  "proper_bar x = (sb_high x \<noteq> NaN \<and> sb_low x \<noteq> NaN)"

lemma aggregate_single:
  "proper_bar x \<Longrightarrow> aggregate_of [x] (x\<lparr>sb_interval := i, sb_open_time := t, sb_close_time := t', sb_closed := c\<rparr>)"
  by (simp add: aggregate_of_def proper_bar_def fle_refl)

lemma aggregate_extend:
  assumes "aggregate_of xs b" and "xs \<noteq> []" and "proper_bar x" and "\<forall>y\<in>set xs. proper_bar y"
  shows "aggregate_of (xs @ [x]) (extend_bar b x)"
proof -
  have nan: "sb_high b \<noteq> NaN" "sb_low b \<noteq> NaN" "sb_high x \<noteq> NaN" "sb_low x \<noteq> NaN"
    using assms by (auto simp: aggregate_of_def proper_bar_def)
  have "fle (sb_high b) (fmax (sb_high b) (sb_high x))" "fle (sb_high x) (fmax (sb_high b) (sb_high x))"
    "fle (fmin (sb_low b) (sb_low x)) (sb_low b)" "fle (fmin (sb_low b) (sb_low x)) (sb_low x)"
    using nan fmin_le1 fmin_le2 by (auto simp: fmax_def not_flt fle_refl flt_imp_fle)
  moreover have "fmax (sb_high b) (sb_high x) \<in> sb_high ` set (xs @ [x])" "fmin (sb_low b) (sb_low x) \<in> sb_low ` set (xs @ [x])"
    using assms(1) by (auto simp: fmax_def fmin_def aggregate_of_def)
  moreover have "hd (xs @ [x]) = hd xs" "tl (xs @ [x]) = tl xs @ [x]" using assms(2) by simp_all
  ultimately show ?thesis using assms(1)
    unfolding aggregate_of_def extend_bar_def by (auto intro: fle_trans)
qed

text \<open>Closing a bucket changes nothing of the aggregate.\<close>

lemma aggregate_closed: "aggregate_of xs (b\<lparr>sb_closed := c\<rparr>) = aggregate_of xs b"
  by (simp add: aggregate_of_def)

text \<open>A candle that does not close the bucket: the bucket's bar takes it in, the rest stays.\<close>

lemma roll_up_open:
  assumes "interval \<noteq> source" and "dict_get binance_interval_ms interval = Some ms" and "source_ms \<le> ms"
    and "open_ms div ms = n" and "close_ms < n * ms + ms - 1" and "bucket_bar interval (n * ms) (n * ms + ms - 1) x s = Inr b"
  shows "roll_up source source_ms open_ms close_ms x interval s =
    (s\<lparr>sy_building := dict_set (interval, n * ms) b (sy_building s)\<rparr>, Inr ())"
  using assms by (simp add: roll_up_def dict_get_or_def Let_def)

lemma roll_up_close:
  assumes "interval \<noteq> source" and "dict_get binance_interval_ms interval = Some ms" and "source_ms \<le> ms"
    and "open_ms div ms = n" and "n * ms + ms - 1 \<le> close_ms" and "bucket_bar interval (n * ms) (n * ms + ms - 1) x s = Inr b"
  shows "roll_up source source_ms open_ms close_ms x interval s =
    (let s' = close_bucket interval (n * ms) (b\<lparr>sb_closed := True\<rparr>) s
     in (s'\<lparr>sy_building := dict_set (interval, n * ms) (b\<lparr>sb_closed := True\<rparr>) (sy_building s')\<rparr>, Inr ()))"
  using assms by (simp add: roll_up_def dict_get_or_def Let_def)

text \<open>The labels of a bar: whose it is, of which timeframe, and its bounds.\<close>

definition labelled :: "string \<Rightarrow> string \<Rightarrow> int \<Rightarrow> int \<Rightarrow> stream_bar \<Rightarrow> bool" where
  "labelled symbol interval open_ms close_ms b \<longleftrightarrow>
     sb_symbol b = symbol \<and> sb_interval b = interval \<and> sb_open_time b = 1000 * open_ms \<and> sb_close_time b = 1000 * close_ms"

definition under_construction :: "string \<Rightarrow> string \<Rightarrow> int \<Rightarrow> int \<Rightarrow> stream_bar list \<Rightarrow> symbol_state \<Rightarrow> bool" where
  "under_construction symbol interval open_ms close_ms xs s =
     (case dict_get (sy_building s) (interval, open_ms) of
        None \<Rightarrow> xs = []
      | Some b \<Rightarrow> xs \<noteq> [] \<and> aggregate_of xs b \<and> labelled symbol interval open_ms close_ms b)"

lemma bucket_bar_aggregates:
  assumes "under_construction symbol interval open_ms close_ms xs s" and "from_millis open_ms = Inr (1000 * open_ms)"
    and "from_millis close_ms = Inr (1000 * close_ms)" and "proper_bar x" and "sb_symbol x = symbol" and "\<forall>y\<in>set xs. proper_bar y"
  shows "\<exists>b. bucket_bar interval open_ms close_ms x s = Inr b \<and> aggregate_of (xs @ [x]) b \<and> labelled symbol interval open_ms close_ms b"
proof -
  have "labelled symbol interval open_ms close_ms (extend_bar b x)" if "labelled symbol interval open_ms close_ms b" for b
    using that by (simp add: labelled_def extend_bar_def)
  then show ?thesis
    using assms aggregate_single aggregate_extend by (auto simp: under_construction_def bucket_bar_def labelled_def split: option.splits)
qed

text \<open>What the state holds of one timeframe; the roll-up into another one leaves it alone.\<close>

definition timeframe_view :: "string \<Rightarrow> symbol_state \<Rightarrow> (int \<Rightarrow> stream_bar option) \<times> stream_bar list option \<times> shown_bar option" where
  "timeframe_view i s = (\<lambda>ms. dict_get (sy_building s) (i, ms), dict_get (sy_history s) i, dict_get (sy_timeframes s) i)"

lemma map_of_filter_key: "map_of (filter (\<lambda>(k, v). P k) d) k = (if P k then map_of d k else None)"
  by (induction d) auto

lemma view_frame:
  assumes "i \<noteq> j"
  shows "timeframe_view j (s\<lparr>sy_timeframes := dict_set i v (sy_timeframes s)\<rparr>) = timeframe_view j s"
    "timeframe_view j (s\<lparr>sy_building := dict_set (i, ms) b (sy_building s)\<rparr>) = timeframe_view j s"
    "timeframe_view j (append_history i b s) = timeframe_view j s"
    "timeframe_view j (s\<lparr>sy_building := filter (\<lambda>((i', ms), _). i' = i \<longrightarrow> ms = ms') (sy_building s)\<rparr>) = timeframe_view j s"
  using assms map_of_filter_key[of "\<lambda>(i', ms). i' = i \<longrightarrow> ms = ms'" "sy_building s"]
  by (simp_all add: timeframe_view_def append_history_def Let_def case_prod_unfold)

lemma roll_up_other:
  assumes "i \<noteq> j"
  shows "timeframe_view j (fst (roll_up source source_ms o' c x i s)) = timeframe_view j s"
proof -
  have "timeframe_view j (close_bucket i ms b s) = timeframe_view j s" for ms b s
    unfolding close_bucket_def Let_def view_frame(4)[OF assms] view_frame(3)[OF assms] by (rule view_frame(1)[OF assms])
  then show ?thesis using assms by (auto simp: roll_up_def Let_def view_frame split: sum.split)
qed

lemma roll_up_symbol: "sy_symbol (fst (roll_up source source_ms o' c x i s)) = sy_symbol s"
  by (simp add: roll_up_def Let_def append_history_def close_bucket_def split: sum.split)

text \<open>Until the year 2242 no roll-up raises.\<close>

lemma roll_up_returns:
  assumes "i \<in> set stream_timeframes" and "0 \<le> o'" and "o' \<le> 8589848192000"
  shows "snd (roll_up source source_ms o' c x i s) = Inr ()"
proof -
  obtain ms where ms: "dict_get binance_interval_ms i = Some ms" "0 < ms" "ms \<le> 86400000"
    using assms(1) by (auto simp: stream_timeframes_def binance_interval_ms_def)
  have "o' div ms * ms = o' - o' mod ms" "0 \<le> o' mod ms" "o' mod ms \<le> o'" using ms assms(2) by (simp_all add: minus_mod_eq_div_mult pos_imp_zdiv_nonneg_iff zmod_le_nonneg_dividend)
  then have "0 \<le> o' div ms * ms" "o' div ms * ms \<le> o'" by linarith+
  then have "from_millis (o' div ms * ms) = Inr (1000 * (o' div ms * ms))" "from_millis (o' div ms * ms + ms - 1) = Inr (1000 * (o' div ms * ms + ms - 1))"
    using ms assms by (intro from_millis_exact; linarith)+
  then show ?thesis using ms(1) by (auto simp: roll_up_def dict_get_or_def Let_def bucket_bar_def split: option.split)
qed

lemma roll_ups_elsewhere:
  assumes "set is \<subseteq> set stream_timeframes" and "j \<notin> set is" and "0 \<le> o'" and "o' \<le> 8589848192000"
  shows "\<exists>s'. for_act (roll_up source source_ms o' c x) is s = (s', Inr ()) \<and> timeframe_view j s' = timeframe_view j s \<and> sy_symbol s' = sy_symbol s"
  using assms(1,2)
proof (induction "is" arbitrary: s)
  case (Cons i "is")
  obtain s1 where s1: "roll_up source source_ms o' c x i s = (s1, Inr ())"
    using roll_up_returns[of i o' source source_ms c x s] Cons.prems(1) assms(3,4) by (cases "roll_up source source_ms o' c x i s") simp
  have "timeframe_view j s1 = timeframe_view j s" "sy_symbol s1 = sy_symbol s"
    using roll_up_other[of i j source source_ms o' c x s] roll_up_symbol[of source source_ms o' c x i s] Cons.prems(2) by (auto simp: s1)
  with Cons.IH[of s1] Cons.prems s1 show ?case by auto
qed simp

text \<open>A message carries a closed candle: what its fields say, the open and close time in milliseconds.\<close>

definition carries :: "py_env \<Rightarrow> string \<Rightarrow> string \<Rightarrow> json_row \<Rightarrow> int \<Rightarrow> int \<Rightarrow> stream_bar \<Rightarrow> bool" where
  "carries env symbol source k open_ms close_ms x \<longleftrightarrow>
     dict_get k ''i'' = Some (JText source) \<and> dict_get k ''x'' = Some (JBool True) \<and>
     dict_get k ''t'' = Some (JInt open_ms) \<and> dict_get k ''T'' = Some (JInt close_ms) \<and>
     0 \<le> open_ms \<and> open_ms \<le> 8589848192000 \<and> 0 \<le> close_ms \<and> close_ms < 8589934592000 \<and>
     labelled symbol source open_ms close_ms x \<and> sb_closed x \<and>
     (\<exists>o' h l c v q V Q. dict_get k ''o'' = Some o' \<and> py_float env o' = Inr (sb_open x) \<and> dict_get k ''h'' = Some h \<and> py_float env h = Inr (sb_high x) \<and>
        dict_get k ''l'' = Some l \<and> py_float env l = Inr (sb_low x) \<and> dict_get k ''c'' = Some c \<and> py_float env c = Inr (sb_close x) \<and>
        dict_get k ''v'' = Some v \<and> py_float env v = Inr (sb_volume x) \<and> dict_get k ''q'' = Some q \<and> py_float env q = Inr (sb_quote_volume x) \<and>
        dict_get k ''V'' = Some V \<and> py_float env V = Inr (sb_taker_base x) \<and> dict_get k ''Q'' = Some Q \<and> py_float env Q = Inr (sb_taker_quote x)) \<and>
     dict_get k ''n'' = Some (JInt (sb_trade_count x))"

lemma carried_bar:
  assumes "carries env symbol source k open_ms close_ms x"
  shows "source_bar env k open_ms close_ms symbol source = Inr x"
proof -
  have t: "from_millis open_ms = Inr (1000 * open_ms)" "from_millis close_ms = Inr (1000 * close_ms)"
    using assms by (auto simp: carries_def intro!: from_millis_exact)
  have "x = \<lparr>sb_symbol = symbol, sb_interval = source, sb_open_time = 1000 * open_ms, sb_close_time = 1000 * close_ms, sb_open = sb_open x,
      sb_high = sb_high x, sb_low = sb_low x, sb_close = sb_close x, sb_volume = sb_volume x, sb_quote_volume = sb_quote_volume x,
      sb_trade_count = sb_trade_count x, sb_taker_base = sb_taker_base x, sb_taker_quote = sb_taker_quote x, sb_closed = True\<rparr>"
    using assms by (intro stream_bar.equality) (simp_all add: carries_def labelled_def)
  then show ?thesis using assms t by (auto simp: source_bar_def number_def dict_get_or_def carries_def py_int_def)
qed

lemma carried_fields:
  assumes "carries env (sy_symbol s) source k open_ms close_ms x"
  shows "\<exists>s'. kline_fields env k s = (s', Inr ()) \<and> sy_closed_kline s' \<and> sy_kline_interval s' = source \<and> sy_symbol s' = sy_symbol s \<and>
    timeframe_view j s' = timeframe_view j s"
  using assms by (auto simp: kline_fields_def carries_def dict_get_or_def number_def Let_def truthy_def py_str_def timeframe_view_def)

lemma timeframes_around:
  assumes "interval \<in> set stream_timeframes"
  obtains before after where "stream_timeframes = before @ interval # after" "interval \<notin> set before" "interval \<notin> set after"
proof -
  obtain before after where split: "stream_timeframes = before @ interval # after" using split_list[OF assms] by blast
  have "distinct stream_timeframes" by (simp add: stream_timeframes_def)
  then show thesis using that[OF split] unfolding split by simp
qed

lemma for_act_append: "for_act f (xs @ ys) u = bind_act (for_act f xs u) (\<lambda>u _. for_act f ys u)" for u :: symbol_state
  by (induction xs arbitrary: u) (simp_all add: bind_act_def split: sum.splits)

text \<open>For one timeframe a message does what the roll-up into this timeframe does.\<close>

lemma kline_rolls_up:
  assumes "carries env (sy_symbol s) source k open_ms close_ms x" and "dict_get binance_interval_ms source = Some source_ms"
    and "interval \<in> set stream_timeframes"
  shows "\<exists>s1 s'. handle_kline env k s = (s', Inr ()) \<and> sy_symbol s' = sy_symbol s \<and> timeframe_view interval s1 = timeframe_view interval s \<and>
    timeframe_view interval s' = timeframe_view interval (fst (roll_up source source_ms open_ms close_ms x interval s1))"
proof -
  obtain before after where split: "stream_timeframes = before @ interval # after" "interval \<notin> set before" "interval \<notin> set after"
    using timeframes_around[OF assms(3)] .
  have range: "0 \<le> open_ms" "open_ms \<le> 8589848192000" using assms(1) by (simp_all add: carries_def)
  obtain s0 where s0: "kline_fields env k s = (s0, Inr ())" "sy_closed_kline s0" "sy_kline_interval s0 = source" "sy_symbol s0 = sy_symbol s"
    "timeframe_view interval s0 = timeframe_view interval s" using carried_fields[OF assms(1)] by blast
  let ?roll = "roll_up source source_ms open_ms close_ms x"
  have "py_int (j_get k ''t'' (JInt 0)) = Inr open_ms" "py_int (j_get k ''T'' d) = Inr close_ms" for d
    using assms(1) by (simp_all add: carries_def dict_get_or_def py_int_def)
  then have run: "handle_kline env k s = for_act ?roll stream_timeframes s0"
    using assms(2) carried_bar[OF assms(1)] by (simp add: handle_kline_def s0)
  have sub: "set before \<subseteq> set stream_timeframes" "set after \<subseteq> set stream_timeframes" by (auto simp: split(1))
  obtain s1 where s1: "for_act ?roll before s0 = (s1, Inr ())" "timeframe_view interval s1 = timeframe_view interval s0" "sy_symbol s1 = sy_symbol s0"
    using roll_ups_elsewhere[OF sub(1) split(2) range] by blast
  obtain s2 where s2: "?roll interval s1 = (s2, Inr ())" using roll_up_returns[OF assms(3) range, of source source_ms close_ms x s1]
    by (cases "?roll interval s1") simp
  have "sy_symbol s2 = sy_symbol s1" using roll_up_symbol[of source source_ms open_ms close_ms x interval s1] by (simp add: s2)
  moreover obtain s' where "for_act ?roll after s2 = (s', Inr ())" "timeframe_view interval s' = timeframe_view interval s2" "sy_symbol s' = sy_symbol s2"
    using roll_ups_elsewhere[OF sub(2) split(3) range] by blast
  ultimately show ?thesis using s0(4,5) s1 s2 unfolding run split(1) for_act_append by auto
qed

lemma view_keeps_construction:
  "timeframe_view interval s = timeframe_view interval s' \<Longrightarrow>
     under_construction symbol interval o' c xs s = under_construction symbol interval o' c xs s'"
  by (simp add: timeframe_view_def under_construction_def fun_eq_iff)

lemma bucket_times:
  assumes "dict_get binance_interval_ms interval = Some ms" and "carries env symbol source k o' c x" and "o' div ms = n"
  shows "from_millis (n * ms) = Inr (1000 * (n * ms))" "from_millis (n * ms + ms - 1) = Inr (1000 * (n * ms + ms - 1))"
proof -
  have ms: "0 < ms" "ms \<le> 86400000" using assms(1) by (auto simp: binance_interval_ms_def split: if_splits)
  have o': "0 \<le> o'" "o' \<le> 8589848192000" using assms(2) by (simp_all add: carries_def)
  have "n * ms = o' - o' mod ms" "0 \<le> o' mod ms" "o' mod ms \<le> o'"
    using ms(1) o'(1) by (simp_all add: assms(3)[symmetric] minus_mod_eq_div_mult zmod_le_nonneg_dividend)
  then have "0 \<le> n * ms" "n * ms \<le> o'" by linarith+
  then show "from_millis (n * ms) = Inr (1000 * (n * ms))" "from_millis (n * ms + ms - 1) = Inr (1000 * (n * ms + ms - 1))"
    using ms o'(2) by (intro from_millis_exact; linarith)+
qed

lemma open_candles_accumulate:
  assumes "interval \<noteq> source" and "dict_get binance_interval_ms interval = Some ms" and "interval \<in> set stream_timeframes"
    and "dict_get binance_interval_ms source = Some source_ms" and "source_ms \<le> ms"
    and "\<forall>(k, o', c, x)\<in>set ks. carries env symbol source k o' c x \<and> o' div ms = n \<and> c < n * ms + ms - 1 \<and> proper_bar x"
    and "under_construction symbol interval (n * ms) (n * ms + ms - 1) xs s" and "\<forall>y\<in>set xs. proper_bar y" and "sy_symbol s = symbol"
  shows "\<exists>s'. for_act (handle_kline env) (map fst ks) s = (s', Inr ()) \<and> sy_symbol s' = symbol \<and>
    under_construction symbol interval (n * ms) (n * ms + ms - 1) (xs @ map (snd \<circ> snd \<circ> snd) ks) s'"
  using assms(6-9)
proof (induction ks arbitrary: xs s)
  case (Cons m ks)
  obtain k o' c x where m: "m = (k, o', c, x)" by (cases m)
  then have kx: "carries env symbol source k o' c x" "o' div ms = n" "c < n * ms + ms - 1" "proper_bar x" using Cons.prems(1) by auto
  note times = bucket_times[OF assms(2) kx(1,2)]
  have "sb_symbol x = symbol" using kx(1) by (simp add: carries_def labelled_def)
  obtain s1 s' where s': "handle_kline env k s = (s', Inr ())" "sy_symbol s' = sy_symbol s" "timeframe_view interval s1 = timeframe_view interval s"
    "timeframe_view interval s' = timeframe_view interval (fst (roll_up source source_ms o' c x interval s1))"
    using kline_rolls_up[OF _ assms(4,3), of env s k o' c x] kx(1) Cons.prems(4) by blast
  have "under_construction symbol interval (n * ms) (n * ms + ms - 1) xs s1" using Cons.prems(2) view_keeps_construction[OF s'(3)] by simp
  from bucket_bar_aggregates[OF this times kx(4) \<open>sb_symbol x = symbol\<close> Cons.prems(3)] obtain b where
    b: "bucket_bar interval (n * ms) (n * ms + ms - 1) x s1 = Inr b" "aggregate_of (xs @ [x]) b" "labelled symbol interval (n * ms) (n * ms + ms - 1) b"
    by blast
  have "under_construction symbol interval (n * ms) (n * ms + ms - 1) (xs @ [x]) s'"
    unfolding view_keeps_construction[OF s'(4)] roll_up_open[OF assms(1,2,5) kx(2,3) b(1)] using b(2,3) by (simp add: under_construction_def)
  moreover have "\<forall>y\<in>set (xs @ [x]). proper_bar y" using Cons.prems(3) kx(4) by simp
  moreover have "\<forall>(k, o', c, x)\<in>set ks. carries env symbol source k o' c x \<and> o' div ms = n \<and> c < n * ms + ms - 1 \<and> proper_bar x"
    using Cons.prems(1) by simp
  ultimately obtain s2 where "for_act (handle_kline env) (map fst ks) s' = (s2, Inr ())" "sy_symbol s2 = symbol"
    "under_construction symbol interval (n * ms) (n * ms + ms - 1) ((xs @ [x]) @ map (snd \<circ> snd \<circ> snd) ks) s2"
    using Cons.IH[of "xs @ [x]" s'] s'(2) Cons.prems(4) by (auto simp: comp_def)
  then show ?case using s'(1) m by (simp add: comp_def)
qed simp

text \<open>\<open>C34\<close>: The handler of closed candles, over all its timeframes: when the messages of one bucket of a larger timeframe have been handled, the last of which
  ends the bucket, none raised and the state holds one bar of the bucket. It opens with the first candle, closes with the last, carries the highest high, the lowest low, the sums of the
  volume, the quote volume, the taker volumes and the trades, belongs to the symbol and timeframe, has the bounds of the bucket and is marked closed; it is the newest of the
  history and the one shown.
\<close>

theorem closed_bucket_aggregates_its_candles:
  assumes "interval \<noteq> source" and "dict_get binance_interval_ms interval = Some ms" and "interval \<in> set stream_timeframes"
    and "dict_get binance_interval_ms source = Some source_ms" and "source_ms \<le> ms"
    and "\<forall>(k, o', c, x)\<in>set ks. carries env (sy_symbol s) source k o' c x \<and> o' div ms = n \<and> c < n * ms + ms - 1 \<and> proper_bar x"
    and "carries env (sy_symbol s) source k_last o_last c_last x_last" and "o_last div ms = n" and "n * ms + ms - 1 \<le> c_last" and "proper_bar x_last"
    and "dict_get (sy_building s) (interval, n * ms) = None"
  shows "\<exists>s' b. for_act (handle_kline env) (map fst ks @ [k_last]) s = (s', Inr ()) \<and>
    aggregate_of (map (snd \<circ> snd \<circ> snd) ks @ [x_last]) b \<and> labelled (sy_symbol s) interval (n * ms) (n * ms + ms - 1) b \<and> sb_closed b \<and>
    last (dict_get_or (sy_history s') interval []) = b \<and>
    dict_get (sy_timeframes s') interval = Some (Building (n * ms)) \<and> dict_get (sy_building s') (interval, n * ms) = Some b"
proof -
  let ?open = "n * ms" and ?close = "n * ms + ms - 1" and ?symbol = "sy_symbol s"
  have "under_construction ?symbol interval ?open ?close [] s" using assms(11) by (simp add: under_construction_def)
  from open_candles_accumulate[OF assms(1-6) this] obtain s1 where s1: "for_act (handle_kline env) (map fst ks) s = (s1, Inr ())" "sy_symbol s1 = ?symbol"
    "under_construction ?symbol interval ?open ?close (map (snd \<circ> snd \<circ> snd) ks) s1" by auto
  have proper: "\<forall>y\<in>set (map (snd \<circ> snd \<circ> snd) ks). proper_bar y" using assms(6) by auto
  obtain s2 s' where s': "handle_kline env k_last s1 = (s', Inr ())" "timeframe_view interval s2 = timeframe_view interval s1"
    "timeframe_view interval s' = timeframe_view interval (fst (roll_up source source_ms o_last c_last x_last interval s2))"
    using kline_rolls_up[OF _ assms(4,3), of env s1 k_last o_last c_last x_last] assms(7) s1(2) by auto
  have "under_construction ?symbol interval ?open ?close (map (snd \<circ> snd \<circ> snd) ks) s2" using s1(3) view_keeps_construction[OF s'(2)] by simp
  moreover have "sb_symbol x_last = ?symbol" using assms(7) by (simp add: carries_def labelled_def)
  ultimately obtain b where b: "bucket_bar interval ?open ?close x_last s2 = Inr b" "aggregate_of (map (snd \<circ> snd \<circ> snd) ks @ [x_last]) b"
      "labelled ?symbol interval ?open ?close b"
    using bucket_bar_aggregates[OF _ bucket_times[OF assms(2,7,8)] assms(10) _ proper] by blast
  let ?b = "b\<lparr>sb_closed := True\<rparr>"
  have "last (dict_get_or (sy_history s') interval []) = ?b \<and> dict_get (sy_timeframes s') interval = Some (Building ?open) \<and>
      dict_get (sy_building s') (interval, ?open) = Some ?b"
    using s'(3) unfolding roll_up_close[OF assms(1,2,5,8,9) b(1)]
    by (auto simp: timeframe_view_def fun_eq_iff Let_def close_bucket_def append_history_def dict_get_or_def last_n_snoc)
  moreover have "for_act (handle_kline env) (map fst ks @ [k_last]) s = (s', Inr ())" by (simp add: for_act_append s1(1) s'(1))
  moreover have "aggregate_of (map (snd \<circ> snd \<circ> snd) ks @ [x_last]) ?b" "labelled ?symbol interval ?open ?close ?b" "sb_closed ?b"
    using b(2,3) by (simp_all add: aggregate_closed labelled_def)
  ultimately show ?thesis by blast
qed

definition sample_bar :: "int \<Rightarrow> stream_bar" where
  "sample_bar k = \<lparr>sb_symbol = ''X/USDT'', sb_interval = ''1m'', sb_open_time = 60000000 * k, sb_close_time = 60000000 * k + 59999000,
     sb_open = Fin 1, sb_high = Fin (of_int k + 2), sb_low = Fin (1 / 2), sb_close = Fin (of_int k + 1), sb_volume = Fin 3,
     sb_quote_volume = Fin 4, sb_trade_count = 5, sb_taker_base = Fin 1, sb_taker_quote = Fin 1, sb_closed = True\<rparr>"

definition sample_kline :: "int \<Rightarrow> json_row" where
  "sample_kline k = [(''i'', JText ''1m''), (''x'', JBool True), (''t'', JInt (60000 * k)), (''T'', JInt (60000 * k + 59999)), (''o'', JNum (Fin 1)),
     (''h'', JNum (Fin (of_int k + 2))), (''l'', JNum (Fin (1 / 2))), (''c'', JNum (Fin (of_int k + 1))), (''v'', JNum (Fin 3)), (''q'', JNum (Fin 4)),
     (''n'', JInt 5), (''V'', JNum (Fin 1)), (''Q'', JNum (Fin 1))]"

definition stream_env :: py_env where
  "stream_env = \<lparr>pe_clock = int, pe_show = (\<lambda>_. []), pe_repr = id, pe_parse_float = (\<lambda>_. None), pe_fromiso = (\<lambda>_. None),
     pe_loads = (\<lambda>_. None), pe_llm_mode = ''rules'', pe_llm_enabled = False, pe_openai_key = False\<rparr>"

lemma sample_carried:
  assumes "0 \<le> k" and "k < 1000000"
  shows "carries stream_env ''X/USDT'' ''1m'' (sample_kline k) (60000 * k) (60000 * k + 59999) (sample_bar k)"
  using assms by (simp add: carries_def sample_kline_def sample_bar_def labelled_def py_float_def)

theorem closed_bucket_aggregates_its_candles_witness:
  "\<exists>s' b. for_act (handle_kline stream_env) (map sample_kline [0, 1, 4]) (new_symbol_state ''X/USDT'') = (s', Inr ()) \<and>
     aggregate_of [sample_bar 0, sample_bar 1, sample_bar 4] b \<and> dict_get (sy_building s') (''5m'', 0) = Some b \<and> sb_close_time b = 299999000"
proof -
  let ?message = "\<lambda>k. (sample_kline k, 60000 * k, 60000 * k + 59999, sample_bar k)" and ?s = "new_symbol_state ''X/USDT''"
  have symbol: "sy_symbol ?s = ''X/USDT''" "dict_get (sy_building ?s) (''5m'', 0 * 300000) = None" by (simp_all add: new_symbol_state_def)
  have open_ks: "\<forall>(k, o', c, x)\<in>set (map ?message [0, 1]). carries stream_env (sy_symbol ?s) ''1m'' k o' c x \<and> o' div 300000 = 0 \<and>
      c < 0 * 300000 + 300000 - 1 \<and> proper_bar x"
    using sample_carried[of 0] sample_carried[of 1] unfolding symbol by (simp add: proper_bar_def sample_bar_def)
  have last_k: "carries stream_env (sy_symbol ?s) ''1m'' (sample_kline 4) 240000 299999 (sample_bar 4)" "proper_bar (sample_bar 4)"
    using sample_carried[of 4] unfolding symbol by (simp_all add: proper_bar_def sample_bar_def)
  have i: "dict_get binance_interval_ms ''5m'' = Some 300000" "''5m'' \<in> set stream_timeframes" "dict_get binance_interval_ms ''1m'' = Some 60000"
    by (simp_all add: binance_interval_ms_def stream_timeframes_def)
  from closed_bucket_aggregates_its_candles[OF _ i _ open_ks last_k(1) _ _ last_k(2) symbol(2)] show ?thesis by (auto simp: labelled_def)
qed

section \<open>What every message keeps\<close>

lemma outcome_invariant:
  "P (fst m) \<Longrightarrow> (\<And>s x. P s \<Longrightarrow> P (fst (f s x))) \<Longrightarrow> P (fst (bind_act m f))"
  by (cases m; cases "snd m") auto

text \<open>The parts of a handler; a property of the symbol state all of them keep is kept by every message.\<close>

definition kept_by_parts :: "(symbol_state \<Rightarrow> bool) \<Rightarrow> py_env \<Rightarrow> json_row \<Rightarrow> bool" where
  "kept_by_parts P env m \<longleftrightarrow> (\<forall>s t now. P s \<longrightarrow>
     P (s\<lparr>sy_event_time := t\<rparr>) \<and> P (recompute now s) \<and> P (fst (update_symbol env m s)))"

lemma handle_symbol_keeps:
  assumes "kept_by_parts P env m" and "P s"
  shows "P (fst (handle_symbol env now m s))"
proof -
  have "P (fst (update_symbol env m (s\<lparr>sy_event_time := t\<rparr>)))" if "P s" for s t
    using assms(1) that by (simp add: kept_by_parts_def)
  moreover have "P (recompute now s)" if "P s" for s using assms(1) that by (simp add: kept_by_parts_def)
  ultimately show ?thesis
    unfolding handle_symbol_def using assms(2) by (intro outcome_invariant[of P]) simp_all
qed

definition message_data :: "json \<Rightarrow> json_row" where
  "message_data message = (case bind_res (as_object message) (\<lambda>m. as_object (j_get m ''data'' message)) of Inl _ \<Rightarrow> [] | Inr m \<Rightarrow> m)"

lemma handle_message_writes:
  "fst (handle_message env now message st) = st \<or> (\<exists>k s. dict_get st k = Some s \<and>
     fst (handle_message env now message st) = dict_set k (fst (handle_symbol env now (message_data message) s)) st)"
proof (cases "bind_res (as_object message) (\<lambda>m. as_object (j_get m ''data'' message))")
  case (Inr m)
  then have m: "message_data message = m" by (simp add: message_data_def)
  show ?thesis
  proof (cases "j_get m ''s'' (JText [])")
    case (JText name)
    show ?thesis
    proof (cases "dict_get st (display_symbol name)")
      case None
      then have "handle_message env now message st = (st, Inr ())" by (simp only: handle_message_def Inr sum.case JText json.case option.case)
      then show ?thesis by simp
    next
      case (Some s)
      obtain s' r where h: "handle_symbol env now m s = (s', r)" by fastforce
      then have "handle_message env now message st = (dict_set (display_symbol name) s' st, r)"
        by (simp only: handle_message_def Inr sum.case JText json.case Some option.case Let_def prod.case)
      then show ?thesis using Some h by (intro disjI2 exI[of _ "display_symbol name"] exI[of _ s]) (simp add: m)
    qed
  qed (use Inr in \<open>simp_all add: handle_message_def\<close>)
qed (simp add: handle_message_def)

lemma handle_message_keeps:
  assumes "kept_by_parts P env (message_data message)" and "\<forall>(n, s)\<in>set st. P s"
  shows "\<forall>(n, s)\<in>set (fst (handle_message env now message st)). P s"
  using handle_message_writes[of env now message st]
proof (elim disjE exE conjE)
  fix k s assume s: "dict_get st k = Some s"
    and w: "fst (handle_message env now message st) = dict_set k (fst (handle_symbol env now (message_data message) s)) st"
  have "P s" using assms(2) map_of_SomeD[OF s] by auto
  then have "P (fst (handle_symbol env now (message_data message) s))" by (rule handle_symbol_keeps[OF assms(1)])
  then show ?thesis unfolding w using assms(2) dict_set_entries by fastforce
qed (use assms(2) in simp)

lemma consume_keeps:
  assumes "\<forall>(now, message)\<in>set ms. kept_by_parts P env (message_data message)" and "\<forall>(n, s)\<in>set st. P s"
  shows "\<forall>(n, s)\<in>set (consume env ms st). P s"
  using assms
proof (induction ms arbitrary: st)
  case (Cons m ms)
  then show ?case using handle_message_keeps[of P env "snd m" st "fst m"] by (cases m) (simp add: consume_def)
qed (simp add: consume_def)

lemma new_stream_states:
  assumes "\<And>n. P (new_symbol_state n)"
  shows "\<forall>(n, s)\<in>set (new_stream_state symbols). P s"
proof -
  have "\<forall>(n, s)\<in>set (dict_update d (map (\<lambda>s. (s, new_symbol_state s)) symbols)). P s" if "\<forall>(n, s)\<in>set d. P s" for d
    using that
  proof (induction symbols arbitrary: d)
    case (Cons x xs)
    then show ?case using dict_set_entries[of x "new_symbol_state x" d] assms by (simp, intro Cons.IH) auto
  qed simp
  from this[of "[]"] show ?thesis by (simp add: new_stream_state_def)
qed

section \<open>The order book\<close>

text \<open>A depth update carries the bids, the asks and the identifier of its last event, as the exchange sends it.\<close>

definition exchange_depth :: "json_row \<Rightarrow> bool" where
  "exchange_depth m = (j_get m ''e'' JNull = JText ''depthUpdate'' \<longrightarrow>
     dict_get m ''b'' \<noteq> None \<and> dict_get m ''a'' \<noteq> None \<and> dict_get m ''u'' \<noteq> None)"

definition no_book :: "symbol_state \<Rightarrow> bool" where
  "no_book s = (sy_bid_depth s = Fin 0 \<and> sy_ask_depth s = Fin 0 \<and> sy_depth_imbalance s = Fin 0)"

lemma no_book_simps [simp]:
  "no_book (s\<lparr>sy_best_bid := x\<rparr>) = no_book s" "no_book (s\<lparr>sy_best_ask := x\<rparr>) = no_book s"
  "no_book (s\<lparr>sy_last_price := x\<rparr>) = no_book s" "no_book (s\<lparr>sy_trades := ts\<rparr>) = no_book s"
  "no_book (s\<lparr>sy_kline_interval := i\<rparr>) = no_book s" "no_book (s\<lparr>sy_kline_close := x\<rparr>) = no_book s"
  "no_book (s\<lparr>sy_kline_volume := x\<rparr>) = no_book s" "no_book (s\<lparr>sy_closed_kline := c\<rparr>) = no_book s"
  "no_book (s\<lparr>sy_timeframes := tf\<rparr>) = no_book s" "no_book (s\<lparr>sy_history := h\<rparr>) = no_book s"
  "no_book (s\<lparr>sy_building := bs\<rparr>) = no_book s" "no_book (s\<lparr>sy_event_time := e\<rparr>) = no_book s"
  by (simp_all add: no_book_def)

lemma roll_up_no_book: "no_book s \<Longrightarrow> no_book (fst (roll_up source source_ms o' c x interval s))"
  by (simp add: roll_up_def Let_def append_history_def close_bucket_def split: sum.split)

lemma kline_fields_no_book: "no_book s \<Longrightarrow> no_book (fst (kline_fields env k s))"
  unfolding kline_fields_def Let_def by (intro outcome_invariant[of no_book]) simp_all

lemma kline_no_book:
  assumes "no_book s"
  shows "no_book (fst (handle_kline env k s))"
proof -
  have "no_book (fst (for_act (roll_up source ms o' c x) intervals s))" if "no_book s" for s source ms o' c x intervals
    using that by (intro for_act_invariant[of _ no_book] roll_up_no_book)
  then have "no_book (fst (if \<not> sy_closed_kline s then (s, Inr ())
       else case dict_get binance_interval_ms (sy_kline_interval s) of
           None \<Rightarrow> (s, Inr ())
         | Some source_ms \<Rightarrow>
             bind_act (s, py_int (j_get k ''t'' (JInt 0))) (\<lambda>s open_ms.
             bind_act (s, py_int (j_get k ''T'' (JInt (open_ms + source_ms - 1)))) (\<lambda>s close_ms.
             bind_act (s, source_bar env k open_ms close_ms (sy_symbol s) (sy_kline_interval s)) (\<lambda>s x.
               for_act (roll_up (sy_kline_interval s) source_ms open_ms close_ms x) stream_timeframes s)))))"
    if "no_book s" for s
    using that by (cases "dict_get binance_interval_ms (sy_kline_interval s)") (auto intro!: outcome_invariant[of no_book])
  then show ?thesis unfolding handle_kline_def
    using kline_fields_no_book[OF assms] by (intro outcome_invariant[of no_book])
qed

lemma exchange_depth_keeps_no_book:
  assumes "exchange_depth m"
  shows "kept_by_parts no_book env m"
proof -
  have "no_book (fst (update_symbol env m s))" if "no_book s" for s
  proof -
    have "no_book (fst (book_ticker env m s))" "no_book (fst (agg_trade env m s))"
      using that unfolding book_ticker_def agg_trade_def Let_def by (intro outcome_invariant[of no_book]; simp)+
    moreover have "no_book (fst (bind_act (s, as_object j) (\<lambda>s k. handle_kline env k s)))" for j
      using that by (intro outcome_invariant[of no_book] kline_no_book) simp_all
    moreover have "is_book_ticker m" if "j_get m ''e'' JNull = JText ''depthUpdate''"
      using assms that by (simp add: exchange_depth_def is_book_ticker_def)
    ultimately show ?thesis using that by (simp add: update_symbol_def Let_def)
  qed
  moreover have "no_book (recompute now s)" if "no_book s" for now s
    using that by (simp add: no_book_def recompute_def Let_def)
  ultimately show ?thesis by (simp add: kept_by_parts_def no_book_def)
qed

text \<open>Over any stream whose depth updates look as the exchange sends them, no depth of the order book is ever stored, so the depth
  imbalance stays zero: such an update carries what the handler takes for a book ticker.
\<close>

theorem order_book_never_reaches_the_state:
  assumes "\<forall>(now, message)\<in>set ms. exchange_depth (message_data message)"
  shows "\<forall>(n, s)\<in>set (consume env ms (new_stream_state symbols)).
    sy_bid_depth s = Fin 0 \<and> sy_ask_depth s = Fin 0 \<and> sy_depth_imbalance s = Fin 0"
proof -
  have "\<forall>(n, s)\<in>set (new_stream_state symbols). no_book s" by (rule new_stream_states) (simp add: no_book_def new_symbol_state_def)
  then have "\<forall>(n, s)\<in>set (consume env ms (new_stream_state symbols)). no_book s"
    using assms exchange_depth_keeps_no_book by (intro consume_keeps) auto
  then show ?thesis by (simp add: no_book_def)
qed

definition depth_message :: json where
  "depth_message = JObj [(''data'', JObj [(''e'', JText ''depthUpdate''), (''E'', JInt 1000), (''s'', JText ''BTCUSDT''), (''u'', JInt 7),
     (''b'', JList [JList [JText ''1'', JText ''2'']]), (''a'', JList [])])]"

theorem order_book_never_reaches_the_state_witness:
  "map (\<lambda>(n, s). (n, sy_bid_depth s)) (consume stream_env [(5, depth_message)] (new_stream_state [''BTC/USDT''])) = [(''BTC/USDT'', Fin 0)]"
proof -
  have "message_data depth_message = [(''e'', JText ''depthUpdate''), (''E'', JInt 1000), (''s'', JText ''BTCUSDT''), (''u'', JInt 7),
     (''b'', JList [JList [JText ''1'', JText ''2'']]), (''a'', JList [])]"
    by (simp add: message_data_def depth_message_def as_object_def dict_get_or_def)
  then have "\<forall>(now, message)\<in>set [(5 :: instant, depth_message)]. exchange_depth (message_data message)" by (simp add: exchange_depth_def)
  from order_book_never_reaches_the_state[OF this, of stream_env "[''BTC/USDT'']"]
  have "\<forall>(n, s)\<in>set (consume stream_env [(5, depth_message)] (new_stream_state [''BTC/USDT''])). sy_bid_depth s = Fin 0" by auto
  moreover have "map fst (consume stream_env [(5, depth_message)] (new_stream_state [''BTC/USDT''])) = [''BTC/USDT'']"
    using handle_message_writes[of stream_env 5 depth_message "new_stream_state [''BTC/USDT'']"]
    by (auto simp: consume_def new_stream_state_def split: if_splits)
  ultimately show ?thesis by (cases "consume stream_env [(5, depth_message)] (new_stream_state [''BTC/USDT''])") auto
qed

text \<open>What happens instead: the handler raises, after it has written the time of the event and nothing else.\<close>

lemma depth_update_raises:
  assumes "exchange_depth m" and "j_get m ''e'' JNull = JText ''depthUpdate''" and "j_get m ''b'' (JNum (Fin 0)) = JList bids"
  shows "\<exists>t. update_symbol env m s = (s, Inl (TypeError t))"
proof -
  have "is_book_ticker m" using assms(1,2) by (simp add: exchange_depth_def is_book_ticker_def)
  then show ?thesis using assms(3) by (simp add: update_symbol_def Let_def book_ticker_def number_def py_float_def)
qed

section \<open>What stays bounded\<close>

lemma unit_clamp_range: "\<exists>u. unit_clamp x = Fin u \<and> 0 \<le> u \<and> u \<le> 1"
  by (cases x) (auto simp: unit_clamp_def fmax_def fmin_def)

lemma bounded_fround:
  "0 \<le> x \<Longrightarrow> x \<le> c \<Longrightarrow> fround c = Fin c \<Longrightarrow> \<exists>y. fround x = Fin y \<and> 0 \<le> y \<and> y \<le> c"
  using fround_mono[of x c] fround_nonneg[of x] by (cases "fround x") auto

lemma weighted:
  assumes "0 \<le> w" and "fround w = Fin w"
  shows "\<exists>y. fmul (unit_clamp x) (Fin w) = Fin y \<and> 0 \<le> y \<and> y \<le> w"
proof -
  obtain u where u: "unit_clamp x = Fin u" "0 \<le> u" "u \<le> 1" using unit_clamp_range by blast
  then have "0 \<le> u * w" "u * w \<le> w" using assms(1) by (simp_all add: mult_left_le_one_le)
  from bounded_fround[OF this assms(2)] show ?thesis by (simp add: u(1))
qed

lemma flow_score_bounds: "fle (Fin 0) (flow_score bps imbalance ratio trades) \<and> fle (flow_score bps imbalance ratio trades) (Fin 100)"
proof -
  define v35 v15 :: rat where "v35 = 3152519739159347 / 9007199254740992" and "v15 = 5404319552844595 / 36028797018963968"
  have d: "dec 35 100 = Fin v35" "dec 15 100 = Fin v15" "dec 25 100 = Fin (1 / 4)" by (simp_all add: dec_lits v35_def v15_def)
  have e: "fround v35 = Fin v35" "fround v15 = Fin v15" "fround (1 / 4) = Fin (1 / 4)"
    using d fround_idem unfolding dec_def by blast+
  have "fround (of_int 7656119366529843 / 2 ^ 53) = Fin (of_int 7656119366529843 / 2 ^ 53)"
    using rnd_exact[of 7656119366529843 "- 53"] by (subst fround_small) (simp_all add: power_int_def power_divide)
  then have c: "fround (1 / 2 + v35) = Fin (1 / 2 + v35)" by (simp add: v35_def)
  have half: "fround (1 / 2) = Fin (1 / 2)" using dec_5_10 fround_idem unfolding dec_def by simp
  obtain s where s: "fmul (unit_clamp (fsub (Fin 1) (fdiv bps (Fin 20)))) (Fin (1 / 4)) = Fin s" "0 \<le> s" "s \<le> 1 / 4"
    using weighted[of "1 / 4"] e(3) by auto
  obtain i where i: "fmul (unit_clamp (fdiv (fadd imbalance (Fin 1)) (Fin 2))) (Fin (1 / 4)) = Fin i" "0 \<le> i" "i \<le> 1 / 4"
    using weighted[of "1 / 4"] e(3) by auto
  obtain t where t: "fmul (unit_clamp ratio) (Fin v35) = Fin t" "0 \<le> t" "t \<le> v35" using weighted[OF _ e(1)] by (auto simp: v35_def)
  obtain a where a: "fmul (unit_clamp (fround (of_int trades / 500))) (Fin v15) = Fin a" "0 \<le> a" "a \<le> v15"
    using weighted[OF _ e(2)] by (auto simp: v15_def)
  obtain x1 where x1: "fadd (Fin s) (Fin i) = Fin x1" "0 \<le> x1" "x1 \<le> 1 / 2"
    using bounded_fround[of "s + i", OF _ _ half] s i by auto
  obtain x2 where x2: "fadd (Fin x1) (Fin t) = Fin x2" "0 \<le> x2" "x2 \<le> 1 / 2 + v35"
    using bounded_fround[of "x1 + t", OF _ _ c] x1 t by auto
  obtain x3 where x3: "fadd (Fin x2) (Fin a) = Fin x3" "0 \<le> x3" "x3 \<le> 1"
    using bounded_fround[of "x2 + a" 1] x2 a by (auto simp: v35_def v15_def)
  obtain x4 where x4: "fmul (Fin x3) (Fin 100) = Fin x4" "0 \<le> x4" "x4 \<le> 100"
    using bounded_fround[of "x3 * 100" 100] x3 by auto
  have "0 \<le> rhe (x4 * 10)" "rhe (x4 * 10) \<le> 1000"
    using rhe_mono[of "of_int 0" "x4 * 10"] rhe_mono[of "x4 * 10" "of_int 1000"] x4 unfolding rhe_of_int by simp_all
  then obtain x5 where x5: "fround_to (Fin x4) 1 = Fin x5" "0 \<le> x5" "x5 \<le> 100"
    using bounded_fround[of "of_int (rhe (x4 * 10)) / 10" 100] by auto
  have "flow_score bps imbalance ratio trades = Fin x5"
    unfolding flow_score_def Let_def d s(1) i(1) t(1) a(1) x1(1) x2(1) x3(1) x4(1) x5(1) ..
  then show ?thesis using x5 by simp
qed

text \<open>At most 500 trades and 300 bars of a timeframe are kept, no two neighbouring bars of a history open at the same time, a
  bar shown from the building ones exists, and the score is a percentage.\<close>

definition good_history :: "stream_bar list \<Rightarrow> bool" where
  "good_history h = (length h \<le> 300 \<and> successively (\<lambda>a b. sb_open_time a \<noteq> sb_open_time b) h)"

definition state_ok :: "symbol_state \<Rightarrow> bool" where
  "state_ok s \<longleftrightarrow> length (sy_trades s) \<le> 500 \<and> (\<forall>(i, h)\<in>set (sy_history s). good_history h) \<and>
     (\<forall>i ms. dict_get (sy_timeframes s) i = Some (Building ms) \<longrightarrow> dict_get (sy_building s) (i, ms) \<noteq> None) \<and>
     fle (Fin 0) (sy_orderflow_score s) \<and> fle (sy_orderflow_score s) (Fin 100)"

lemma good_history_snoc:
  assumes "good_history h" and "h \<noteq> [] \<longrightarrow> sb_open_time (last h) \<noteq> sb_open_time b"
  shows "good_history (last_n 300 (h @ [b]))"
proof -
  have "successively (\<lambda>a b. sb_open_time a \<noteq> sb_open_time b) (h @ [b])"
    using assms by (auto simp: good_history_def successively_append_iff)
  then have "successively (\<lambda>a b. sb_open_time a \<noteq> sb_open_time b) (drop k (h @ [b]))" for k
    by (metis append_take_drop_id successively_append_iff)
  from this[of "length (h @ [b]) - 300"] show ?thesis unfolding good_history_def last_n_def by (simp del: drop_append length_append)
qed

lemma good_history_replace:
  "good_history h \<Longrightarrow> h \<noteq> [] \<Longrightarrow> sb_open_time (last h) = sb_open_time b \<Longrightarrow> good_history (butlast h @ [b])"
  by (cases h rule: rev_cases) (auto simp: good_history_def successively_append_iff)

lemma append_history_ok: "state_ok s \<Longrightarrow> state_ok (append_history i b s)"
proof -
  assume s: "state_ok s"
  let ?h = "dict_get_or (sy_history s) i []"
  have "good_history ?h"
    using s by (auto simp: state_ok_def dict_get_or_def good_history_def split: option.split dest!: map_of_SomeD)
  then have "good_history (if ?h \<noteq> [] \<and> sb_open_time (last ?h) = sb_open_time b then butlast ?h @ [b] else last_n 300 (?h @ [b]))"
    using good_history_snoc[of ?h b] good_history_replace[of ?h b] by auto
  then show ?thesis using s dict_set_entries[of i _ "sy_history s"]
    unfolding state_ok_def append_history_def Let_def by fastforce
qed

lemma roll_up_ok:
  assumes "state_ok s"
  shows "state_ok (fst (roll_up source source_ms o' c x i s))"
proof (cases "i = source \<or> dict_get_or binance_interval_ms i 0 < source_ms")
  case True
  have "state_ok (s\<lparr>sy_timeframes := dict_set i (Own b) (sy_timeframes s)\<rparr>)" for b
    using assms by (simp add: state_ok_def)
  then show ?thesis using True assms by (auto simp: roll_up_def Let_def intro: append_history_ok)
next
  case False
  let ?ms = "dict_get_or binance_interval_ms i 0" let ?o = "o' div ?ms * ?ms"
  show ?thesis
  proof (cases "bucket_bar i ?o (?o + ?ms - 1) x s")
    case (Inr b)
    have built: "state_ok (s\<lparr>sy_building := dict_set (i, ?o) b (sy_building s)\<rparr>)" for b
      using assms by (simp add: state_ok_def)
    have "state_ok ((close_bucket i ?o b s)\<lparr>sy_building := dict_set (i, ?o) b (sy_building (close_bucket i ?o b s))\<rparr>)" for b
    proof -
      have "state_ok (append_history i b s)" using assms by (rule append_history_ok)
      then show ?thesis using assms
        by (auto simp: state_ok_def close_bucket_def Let_def append_history_def map_of_filter_key[of "\<lambda>(j, ms). j = i \<longrightarrow> ms = ?o", unfolded case_prod_unfold] case_prod_unfold)
    qed
    then show ?thesis using False Inr built by (auto simp: roll_up_def Let_def)
  qed (use False assms in \<open>simp add: roll_up_def Let_def\<close>)
qed

lemma state_ok_simps [simp]:
  "state_ok (s\<lparr>sy_best_bid := x\<rparr>) = state_ok s" "state_ok (s\<lparr>sy_best_ask := x\<rparr>) = state_ok s"
  "state_ok (s\<lparr>sy_last_price := x\<rparr>) = state_ok s" "state_ok (s\<lparr>sy_bid_depth := x\<rparr>) = state_ok s"
  "state_ok (s\<lparr>sy_ask_depth := x\<rparr>) = state_ok s" "state_ok (s\<lparr>sy_kline_interval := i\<rparr>) = state_ok s"
  "state_ok (s\<lparr>sy_kline_close := x\<rparr>) = state_ok s" "state_ok (s\<lparr>sy_kline_volume := x\<rparr>) = state_ok s"
  "state_ok (s\<lparr>sy_closed_kline := c\<rparr>) = state_ok s" "state_ok (s\<lparr>sy_event_time := e\<rparr>) = state_ok s"
  "state_ok (s\<lparr>sy_last_price := x, sy_trades := last_n 500 ts\<rparr>) =
     state_ok (s\<lparr>sy_trades := last_n 500 ts\<rparr>)"
  by (simp_all add: state_ok_def)

lemma trades_ok: "state_ok s \<Longrightarrow> state_ok (s\<lparr>sy_trades := last_n 500 ts\<rparr>)"
  by (simp add: state_ok_def)

lemma kline_fields_ok: "state_ok s \<Longrightarrow> state_ok (fst (kline_fields env k s))"
  unfolding kline_fields_def Let_def by (intro outcome_invariant[of state_ok]) simp_all

lemma kline_ok:
  assumes "state_ok s"
  shows "state_ok (fst (handle_kline env k s))"
proof -
  have roll: "state_ok (fst (for_act (roll_up source ms o' c x) intervals s))" if "state_ok s" for s source ms o' c x intervals
    using that by (intro for_act_invariant[of _ state_ok] roll_up_ok)
  have "state_ok (fst (kline_fields env k s))" using assms by (rule kline_fields_ok)
  then show ?thesis unfolding handle_kline_def
    by (intro outcome_invariant[of state_ok]) (auto intro!: outcome_invariant[of state_ok] roll split: option.split)
qed

lemma messages_keep_ok: "kept_by_parts state_ok env m"
proof -
  have "state_ok (fst (update_symbol env m s))" if "state_ok s" for s
  proof -
    have "state_ok (fst (book_ticker env m s))" "state_ok (fst (agg_trade env m s))" "state_ok (fst (depth_update env m s))"
      using that unfolding book_ticker_def agg_trade_def depth_update_def Let_def
      by (intro outcome_invariant[of state_ok]; simp add: trades_ok)+
    moreover have "state_ok (fst (bind_act (s, as_object j) (\<lambda>s k. handle_kline env k s)))" for j
      using that by (intro outcome_invariant[of state_ok] kline_ok) simp_all
    ultimately show ?thesis using that by (simp add: update_symbol_def Let_def)
  qed
  moreover have "state_ok (recompute now s)" if "state_ok s" for now s
    using that flow_score_bounds by (simp add: state_ok_def stream_orderflow_score_def recompute_def Let_def)
  ultimately show ?thesis by (simp add: kept_by_parts_def)
qed

text \<open>\<open>C35\<close>: Whatever messages arrive, every symbol keeps at most 500 trades and at most 300 bars of each timeframe, neighbouring bars of a history
  open at different times, every shown bar that is under construction exists, and the orderflow score lies between 0
  and 100.
\<close>

theorem stream_state_stays_bounded:
  "\<forall>(n, s)\<in>set (consume env ms (new_stream_state symbols)).
     length (sy_trades s) \<le> 500 \<and> (\<forall>(i, h)\<in>set (sy_history s). good_history h) \<and>
     (\<forall>i ms. dict_get (sy_timeframes s) i = Some (Building ms) \<longrightarrow> dict_get (sy_building s) (i, ms) \<noteq> None) \<and>
     fle (Fin 0) (sy_orderflow_score s) \<and> fle (sy_orderflow_score s) (Fin 100)"
proof -
  have "\<forall>(n, s)\<in>set (new_stream_state symbols). state_ok s" by (rule new_stream_states) (simp add: state_ok_def new_symbol_state_def)
  then have "\<forall>(n, s)\<in>set (consume env ms (new_stream_state symbols)). state_ok s"
    using messages_keep_ok by (intro consume_keeps) auto
  then show ?thesis by (simp add: state_ok_def)
qed

theorem stream_state_stays_bounded_witness:
  "\<exists>s. dict_get (consume stream_env [(5, depth_message)] (new_stream_state [''BTC/USDT''])) ''BTC/USDT'' = Some s \<and>
     fle (sy_orderflow_score s) (Fin 100)"
proof -
  obtain s where "consume stream_env [(5, depth_message)] (new_stream_state [''BTC/USDT'']) = [(''BTC/USDT'', s)]"
    using handle_message_writes[of stream_env 5 depth_message "new_stream_state [''BTC/USDT'']"]
    by (auto simp: consume_def new_stream_state_def split: if_splits)
  then show ?thesis using stream_state_stays_bounded[of stream_env "[(5, depth_message)]" "[''BTC/USDT'']"] by simp
qed

text \<open>The same closed candle delivered twice, as after a reconnection, counts twice in every larger timeframe.\<close>

lemma repeated_candle_counts_twice:
  "\<exists>s' b. for_act (\<lambda>(o', c, x). roll_up ''1m'' 60000 o' c x ''5m'') [(0, 59999, sample_bar 0), (0, 59999, sample_bar 0)]
       (new_symbol_state ''X/USDT'') = (s', Inr ()) \<and> dict_get (sy_building s') (''5m'', 0) = Some b \<and>
     sb_trade_count b = 2 * sb_trade_count (sample_bar 0)"
proof -
  have t: "from_millis 0 = Inr 0" "from_millis 299999 = Inr 299999000" using from_millis_exact[of 0] from_millis_exact[of 299999] by simp_all
  show ?thesis
    by (simp add: roll_up_def Let_def binance_interval_ms_def bucket_bar_def t new_symbol_state_def extend_bar_def dict_get_or_def sample_bar_def)
qed

end
