(* ===== verification/Market_History.thy ===== *)
theory Market_History
  imports Stream_Laws
begin

text \<open>
  The historical client (\<open>market_data/binance_history.py\<close>): paging through the candles of a window, the market
  snapshot, and the features computed along a list of candles. The HTTP request is the parameter \<open>serve\<close>: what the
  exchange answers to a symbol, interval, start, end and limit. CSV and parquet files and the TLS context are not modelled.
\<close>

section \<open>Candles\<close>

record kline =
  kl_open_time :: instant
  kl_open :: pyfloat
  kl_high :: pyfloat
  kl_low :: pyfloat
  kl_close :: pyfloat
  kl_volume :: pyfloat
  kl_close_time :: instant
  kl_quote_volume :: pyfloat
  kl_trade_count :: int
  kl_taker_base :: pyfloat
  kl_taker_quote :: pyfloat

definition row_cell :: "json list \<Rightarrow> nat \<Rightarrow> json res" where
  "row_cell row i = (if i < length row then Inr (row ! i) else Inl IndexError)"

definition kline_of_row :: "py_env \<Rightarrow> json list \<Rightarrow> kline res" where
  "kline_of_row env row =
     (let num = (\<lambda>i. bind_res (row_cell row i) (py_float env)); whole = (\<lambda>i. bind_res (row_cell row i) py_int) in
      bind_res (bind_res (whole 0) from_millis) (\<lambda>open_time. bind_res (num 1) (\<lambda>op. bind_res (num 2) (\<lambda>hi. bind_res (num 3) (\<lambda>lo.
      bind_res (num 4) (\<lambda>cl. bind_res (num 5) (\<lambda>vol. bind_res (bind_res (whole 6) from_millis) (\<lambda>close_time.
      bind_res (num 7) (\<lambda>qv. bind_res (whole 8) (\<lambda>n. bind_res (num 9) (\<lambda>tb. bind_res (num 10) (\<lambda>tq.
        Inr \<lparr>kl_open_time = open_time, kl_open = op, kl_high = hi, kl_low = lo, kl_close = cl, kl_volume = vol,
             kl_close_time = close_time, kl_quote_volume = qv, kl_trade_count = n, kl_taker_base = tb, kl_taker_quote = tq\<rparr>))))))))))))"

definition as_row :: "json \<Rightarrow> json list res" where
  "as_row j = (case j of JList xs \<Rightarrow> Inr xs | JText s \<Rightarrow> Inr (map (\<lambda>c. JText [c]) s) | JObj _ \<Rightarrow> Inl (KeyError ''0'')
     | _ \<Rightarrow> Inl (TypeError ''object is not subscriptable''))"

definition kline_from_api :: "py_env \<Rightarrow> json \<Rightarrow> kline res" where
  "kline_from_api env j = bind_res (as_row j) (kline_of_row env)"

text \<open>\<open>int(rows[-1][0])\<close>.\<close>

definition open_millis :: "json \<Rightarrow> int res" where
  "open_millis j = bind_res (bind_res (as_row j) (\<lambda>row. row_cell row 0)) py_int"

section \<open>Paging\<close>

lemma bind_res_cong [fundef_cong]:
  "m = m' \<Longrightarrow> (\<And>x. m' = Inr x \<Longrightarrow> f x = g x) \<Longrightarrow> bind_res m f = bind_res m' g"
  by (cases m') simp_all

function fetch_from :: "py_env \<Rightarrow> (int \<Rightarrow> int \<Rightarrow> json list res) \<Rightarrow> int \<Rightarrow> int \<Rightarrow> int \<Rightarrow> kline list res" where
  "fetch_from env serve interval_ms stop start =
     (if stop \<le> start then Inr []
      else bind_res (serve start stop) (\<lambda>rows.
        if rows = [] then Inr []
        else bind_res (map_res (kline_from_api env) rows) (\<lambda>chunk.
             bind_res (open_millis (last rows)) (\<lambda>ms.
             if ms + interval_ms \<le> start then Inr chunk
             else bind_res (fetch_from env serve interval_ms stop (ms + interval_ms)) (\<lambda>rest. Inr (chunk @ rest))))))"
  by pat_completeness auto

termination
  by (relation "measure (\<lambda>(_, _, _, stop, start). nat (stop - start))") auto

declare fetch_from.simps [simp del]

definition to_millis :: "instant \<Rightarrow> int res" where
  "to_millis t = trunc_int (fmul (total_seconds t) (Fin 1000))"

definition fetch_klines ::
    "py_env \<Rightarrow> (string \<Rightarrow> string \<Rightarrow> int \<Rightarrow> int \<Rightarrow> int \<Rightarrow> json list res) \<Rightarrow> string \<Rightarrow> string \<Rightarrow> instant \<Rightarrow> instant \<Rightarrow> int \<Rightarrow> kline list res" where
  "fetch_klines env serve symbol interval start stop limit =
     (case dict_get binance_interval_ms interval of
        None \<Rightarrow> Inl (ValueError (''unsupported Binance interval: '' @ interval))
      | Some interval_ms \<Rightarrow> bind_res (to_millis start) (\<lambda>start_ms. bind_res (to_millis stop) (\<lambda>stop_ms.
          fetch_from env (\<lambda>s e. serve (str_upper (remove_char CHR ''/'' symbol)) interval s e limit) interval_ms stop_ms start_ms)))"

section \<open>The market snapshot\<close>

record market_snapshot =
  ms_symbol :: string
  ms_best_bid :: pyfloat
  ms_best_ask :: pyfloat
  ms_spread_bps :: pyfloat
  ms_bid_depth :: pyfloat
  ms_ask_depth :: pyfloat
  ms_depth_imbalance :: pyfloat
  ms_trade_count :: int
  ms_trade_notional :: pyfloat
  ms_taker_buy_ratio :: pyfloat
  ms_orderflow_score :: pyfloat
  ms_captured_at :: instant

definition as_elements :: "json \<Rightarrow> json list res" where
  "as_elements j = (case j of JList xs \<Rightarrow> Inr xs | JText s \<Rightarrow> Inr (map (\<lambda>c. JText [c]) s) | JObj m \<Rightarrow> Inr (map (JText \<circ> fst) m)
     | _ \<Rightarrow> Inl (TypeError ''object is not iterable''))"

definition level_total :: "py_env \<Rightarrow> json \<Rightarrow> pyfloat res" where
  "level_total env j = bind_res (as_elements j) (\<lambda>levels. bind_res
     (map_res (\<lambda>l. bind_res (unpack_pair l) (\<lambda>(p, q). bind_res (py_float env p) (\<lambda>p. bind_res (py_float env q) (\<lambda>q. Inr (fmul p q))))) levels)
     (\<lambda>xs. Inr (fsum xs)))"

definition trade_value :: "py_env \<Rightarrow> json \<Rightarrow> pyfloat res" where
  "trade_value env j = (case j of
       JObj t \<Rightarrow> bind_res (bind_res (j_at t ''p'') (py_float env)) (\<lambda>p. bind_res (bind_res (j_at t ''q'') (py_float env)) (\<lambda>q. Inr (fmul p q)))
     | _ \<Rightarrow> Inl (TypeError ''indices must be integers''))"

definition is_taker_buy :: "json \<Rightarrow> bool" where
  "is_taker_buy j = (case j of JObj t \<Rightarrow> \<not> truthy (j_get t ''m'' JNull) | _ \<Rightarrow> False)"

definition market_snapshot_of ::
    "py_env \<Rightarrow> string \<Rightarrow> instant \<Rightarrow> json_row \<Rightarrow> json_row \<Rightarrow> json list \<Rightarrow> market_snapshot res" where
  "market_snapshot_of env symbol now book depth trades =
     bind_res (bind_res (j_at book ''bidPrice'') (py_float env)) (\<lambda>bid. bind_res (bind_res (j_at book ''askPrice'') (py_float env)) (\<lambda>ask.
     bind_res (level_total env (j_get depth ''bids'' (JList []))) (\<lambda>bids. bind_res (level_total env (j_get depth ''asks'' (JList []))) (\<lambda>asks.
     bind_res (map_res (trade_value env) trades) (\<lambda>values. bind_res (map_res (trade_value env) (filter is_taker_buy trades)) (\<lambda>buys.
       let mid = fdiv (fadd bid ask) (Fin 2);
           spread = (if fle mid (Fin 0) then Fin 0 else fmul (fdiv (fsub ask bid) mid) (Fin 10000));
           total_depth = fadd bids asks;
           imbalance = (if feq total_depth (Fin 0) then Fin 0 else fdiv (fsub bids asks) total_depth);
           notional = fsum values;
           ratio = (if feq notional (Fin 0) then dec 5 10 else fdiv (fsum buys) notional);
           n = int (length trades)
       in Inr \<lparr>ms_symbol = symbol, ms_best_bid = bid, ms_best_ask = ask, ms_spread_bps = spread, ms_bid_depth = bids, ms_ask_depth = asks,
            ms_depth_imbalance = imbalance, ms_trade_count = n, ms_trade_notional = notional, ms_taker_buy_ratio = ratio,
            ms_orderflow_score = flow_score spread imbalance ratio n, ms_captured_at = now\<rparr>))))))"

section \<open>Features along the candles\<close>

record candle_features =
  cf_atr14 :: pyfloat
  cf_ema20 :: pyfloat
  cf_ema50 :: pyfloat
  cf_ema200 :: pyfloat
  cf_vwap :: pyfloat
  cf_rvol30 :: pyfloat
  cf_volatility :: pyfloat
  cf_delta_ratio :: pyfloat

record feature_run =
  fr_ranges :: "pyfloat list"
  fr_volumes :: "pyfloat list"
  fr_quote :: pyfloat
  fr_volume :: pyfloat
  fr_ema20 :: "pyfloat option"
  fr_ema50 :: "pyfloat option"
  fr_ema200 :: "pyfloat option"

definition feature_start :: feature_run where
  "feature_start = \<lparr>fr_ranges = [], fr_volumes = [], fr_quote = Fin 0, fr_volume = Fin 0, fr_ema20 = None, fr_ema50 = None, fr_ema200 = None\<rparr>"

definition ema_next :: "pyfloat option \<Rightarrow> pyfloat \<Rightarrow> int \<Rightarrow> pyfloat" where
  "ema_next previous x period = (case previous of None \<Rightarrow> x
     | Some p \<Rightarrow> (let alpha = fround (2 / of_int (period + 1)) in fadd (fmul x alpha) (fmul p (fsub (Fin 1) alpha))))"

definition mean_of_last :: "nat \<Rightarrow> pyfloat list \<Rightarrow> pyfloat" where
  "mean_of_last n xs = fdiv (fsum (last_n n xs)) (Fin (of_nat (max 1 (min n (length xs)))))"

definition ratio_or_zero :: "pyfloat \<Rightarrow> pyfloat \<Rightarrow> pyfloat" where
  "ratio_or_zero x d = (if feq d (Fin 0) then Fin 0 else fdiv x d)"

definition feature_step :: "feature_run \<Rightarrow> kline \<Rightarrow> feature_run" where
  "feature_step r k =
     \<lparr>fr_ranges = fr_ranges r @ [fsub (kl_high k) (kl_low k)], fr_volumes = fr_volumes r @ [kl_volume k],
      fr_quote = fadd (fr_quote r) (kl_quote_volume k), fr_volume = fadd (fr_volume r) (kl_volume k),
      fr_ema20 = Some (ema_next (fr_ema20 r) (kl_close k) 20), fr_ema50 = Some (ema_next (fr_ema50 r) (kl_close k) 50),
      fr_ema200 = Some (ema_next (fr_ema200 r) (kl_close k) 200)\<rparr>"

definition features_of :: "feature_run \<Rightarrow> kline \<Rightarrow> candle_features" where
  "features_of r k =
     (let atr = mean_of_last 14 (fr_ranges r) in
      \<lparr>cf_atr14 = atr, cf_ema20 = the (fr_ema20 r), cf_ema50 = the (fr_ema50 r), cf_ema200 = the (fr_ema200 r),
       cf_vwap = ratio_or_zero (fr_quote r) (fr_volume r), cf_rvol30 = ratio_or_zero (kl_volume k) (mean_of_last 30 (fr_volumes r)),
       cf_volatility = ratio_or_zero atr (kl_close k),
       cf_delta_ratio = ratio_or_zero (fsub (fmul (kl_taker_base k) (Fin 2)) (kl_volume k)) (kl_volume k)\<rparr>)"

fun features_from :: "feature_run \<Rightarrow> kline list \<Rightarrow> candle_features list" where
  "features_from r [] = []"
| "features_from r (k # ks) = (let r' = feature_step r k in features_of r' k # features_from r' ks)"

definition calculate_features :: "kline list \<Rightarrow> candle_features list" where
  "calculate_features ks = features_from feature_start ks"

lemma features_from_length [simp]: "length (features_from r ks) = length ks"
  by (induction ks arbitrary: r) (simp_all add: Let_def)

lemma features_from_append: "features_from r (ks @ ls) = features_from r ks @ features_from (foldl feature_step r ks) ls"
  by (induction ks arbitrary: r) (simp_all add: Let_def)

lemma feature_run_lists:
  "fr_ranges (foldl feature_step r ks) = fr_ranges r @ map (\<lambda>k. fsub (kl_high k) (kl_low k)) ks"
  "fr_volumes (foldl feature_step r ks) = fr_volumes r @ map kl_volume ks"
  "fr_quote (foldl feature_step r ks) = foldl fadd (fr_quote r) (map kl_quote_volume ks)"
  "fr_volume (foldl feature_step r ks) = foldl fadd (fr_volume r) (map kl_volume ks)"
  by (induction ks arbitrary: r) (simp_all add: feature_step_def)

text \<open>\<open>C37\<close>: The features of a candle depend on the candles up to it only, and adding candles later changes none of them. The
  true range average, the volume ratio and the volume-weighted price are those of the candles so far: the mean of the
  last 14 ranges, the volume over the mean of the last 30 volumes, the quotient of the running sums.
\<close>

theorem features_have_no_lookahead:
  "take (length ks) (calculate_features (ks @ ls)) = calculate_features ks \<and>
   (ks \<noteq> [] \<longrightarrow> (let f = last (calculate_features ks) in
     cf_atr14 f = mean_of_last 14 (map (\<lambda>k. fsub (kl_high k) (kl_low k)) ks) \<and>
     cf_rvol30 f = ratio_or_zero (kl_volume (last ks)) (mean_of_last 30 (map kl_volume ks)) \<and>
     cf_vwap f = ratio_or_zero (foldl fadd (Fin 0) (map kl_quote_volume ks)) (foldl fadd (Fin 0) (map kl_volume ks))))"
proof -
  have "last (calculate_features ks) = features_of (foldl feature_step feature_start ks) (last ks)" if "ks \<noteq> []"
    using that by (cases ks rule: rev_cases) (simp_all add: calculate_features_def features_from_append Let_def)
  then show ?thesis
    by (simp add: calculate_features_def features_from_append Let_def features_of_def feature_run_lists)
      (simp add: feature_start_def)
qed

definition sample_kline :: kline where
  "sample_kline = \<lparr>kl_open_time = 0, kl_open = Fin 1, kl_high = Fin 3, kl_low = Fin 1, kl_close = Fin 2, kl_volume = Fin 1,
     kl_close_time = 59999000, kl_quote_volume = Fin 2, kl_trade_count = 1, kl_taker_base = Fin 1, kl_taker_quote = Fin 1\<rparr>"

theorem features_have_no_lookahead_witness:
  "cf_vwap (last (calculate_features [sample_kline])) = Fin 2"
  using features_have_no_lookahead[of "[sample_kline]" "[]"]
  by (simp add: Let_def sample_kline_def ratio_or_zero_def feq_def)

section \<open>Paging is complete\<close>

text \<open>
  The documented behaviour of the candle endpoint, for a market given as rows with their opening milliseconds: the
  first \<open>limit\<close> rows that open between start and end, both included.
\<close>

definition answers_from :: "(int \<times> json) list \<Rightarrow> nat \<Rightarrow> (int \<Rightarrow> int \<Rightarrow> json list res) \<Rightarrow> bool" where
  "answers_from market limit serve \<longleftrightarrow>
     (\<forall>s e. serve s e = Inr (map snd (take limit (filter (\<lambda>(ms, _). s \<le> ms \<and> ms \<le> e) market))))"

text \<open>Rows that parse, named by their opening time, at least one interval apart.\<close>

definition candle_market :: "py_env \<Rightarrow> int \<Rightarrow> (int \<times> json) list \<Rightarrow> bool" where
  "candle_market env interval_ms market \<longleftrightarrow> 0 < interval_ms \<and> sorted_wrt (\<lambda>a b. fst a + interval_ms \<le> fst b) market \<and>
     (\<forall>(ms, row)\<in>set market. open_millis row = Inr ms \<and> is_ok (kline_from_api env row))"

definition parsed :: "py_env \<Rightarrow> (int \<times> json) list \<Rightarrow> kline list" where
  "parsed env ms = map (\<lambda>(_, row). case kline_from_api env row of Inr k \<Rightarrow> k | Inl _ \<Rightarrow> undefined) ms"

lemma parsed_rows:
  assumes "candle_market env ms market" and "set rows \<subseteq> set market"
  shows "map_res (kline_from_api env) (map snd rows) = Inr (parsed env rows)"
  using assms(2)
proof (induction rows)
  case (Cons r rows)
  then have "is_ok (kline_from_api env (snd r))" using assms(1) by (auto simp: candle_market_def)
  then show ?case using Cons by (auto simp: parsed_def is_ok_iff split: prod.splits)
qed (simp add: parsed_def)

lemma filter_after_prefix:
  assumes "sorted_wrt (\<lambda>a b. fst a + d \<le> fst b) xs" and "take n xs = ys @ [y]" and "0 < (d :: int)"
  shows "drop n xs = filter (\<lambda>x. fst y + d \<le> fst x) xs"
proof -
  have xs: "xs = ys @ [y] @ drop n xs" by (metis append_take_drop_id append_assoc assms(2))
  then have s: "sorted_wrt (\<lambda>a b. fst a + d \<le> fst b) (ys @ [y] @ drop n xs)" using assms(1) by simp
  have "filter (\<lambda>x. fst y + d \<le> fst x) (ys @ [y]) = []"
    using s assms(3) by (auto simp: sorted_wrt_append filter_empty_conv)
  moreover have "filter (\<lambda>x. fst y + d \<le> fst x) (drop n xs) = drop n xs"
    using s by (auto simp: sorted_wrt_append intro!: filter_True)
  ultimately show ?thesis using arg_cong[OF xs, of "filter (\<lambda>x. fst y + d \<le> fst x)"] by (simp only: filter_append append_assoc[symmetric] append_Nil)
qed

abbreviation in_window :: "int \<Rightarrow> int \<Rightarrow> (int \<times> json) list \<Rightarrow> (int \<times> json) list" where
  "in_window start stop market \<equiv> filter (\<lambda>c. start \<le> fst c \<and> fst c < stop) market"

text \<open>One page: its rows, then whatever opens an interval after its last row.\<close>

lemma page_splits_window:
  assumes "candle_market env ms market" and "take limit (filter (\<lambda>c. start \<le> fst c \<and> fst c \<le> stop) market) = ys @ [y]"
  shows "in_window start stop market = (if fst y < stop then ys @ [y] else ys) @ in_window (fst y + ms) stop market"
    and "fst y < stop \<or> filter (\<lambda>c. fst c = stop) market = [y]" and "start \<le> fst y" and "set (ys @ [y]) \<subseteq> set market"
proof -
  let ?w = "filter (\<lambda>c. start \<le> fst c \<and> fst c \<le> stop) market"
  have ms: "0 < ms" and srt: "sorted_wrt (\<lambda>a b. fst a + ms \<le> fst b) ?w"
    using assms(1) by (auto simp: candle_market_def intro: sorted_wrt_filter)
  have w: "?w = ys @ [y] @ drop limit ?w" by (metis append_take_drop_id append_assoc assms(2))
  have y: "y \<in> set ?w" by (subst w) simp
  then show start: "start \<le> fst y" by simp
  have "set (ys @ [y]) \<subseteq> set ?w" unfolding assms(2)[symmetric] by (rule set_take_subset)
  then show "set (ys @ [y]) \<subseteq> set market" by auto
  have rest: "drop limit ?w = filter (\<lambda>c. fst y + ms \<le> fst c) ?w" using filter_after_prefix[OF srt assms(2) ms] .
  have w2: "?w = ys @ [y] @ filter (\<lambda>c. fst y + ms \<le> fst c) ?w" by (subst rest[symmetric]) (rule w)
  have ys: "fst c + ms \<le> fst y" if "c \<in> set ys" for c
  proof -
    have "sorted_wrt (\<lambda>a b. fst a + ms \<le> fst b) (ys @ [y] @ drop limit ?w)" using srt w by metis
    then show ?thesis using that by (auto simp: sorted_wrt_append)
  qed
  have "in_window start stop market = filter (\<lambda>c. fst c < stop) ?w" by (auto intro: filter_cong)
  also have "\<dots> = filter (\<lambda>c. fst c < stop) (ys @ [y] @ filter (\<lambda>c. fst y + ms \<le> fst c) ?w)" by (rule arg_cong[OF w2])
  also have "\<dots> = filter (\<lambda>c. fst c < stop) (ys @ [y]) @ in_window (fst y + ms) stop market"
  proof -
    have "filter (\<lambda>c. fst c < stop) (filter (\<lambda>c. fst y + ms \<le> fst c) ?w) = in_window (fst y + ms) stop market"
      using start ms by (auto intro!: filter_cong simp: filter_filter)
    then show ?thesis by (simp only: filter_append append_assoc)
  qed
  also have "filter (\<lambda>c. fst c < stop) (ys @ [y]) = (if fst y < stop then ys @ [y] else ys)"
    using ys ms y by (auto simp: filter_id_conv) force+
  finally show "in_window start stop market = (if fst y < stop then ys @ [y] else ys) @ in_window (fst y + ms) stop market" .
  show "fst y < stop \<or> filter (\<lambda>c. fst c = stop) market = [y]"
  proof (cases "fst y < stop")
    case False
    with y have e: "fst y = stop" by simp
    then have "filter (\<lambda>c. fst c = stop) market = filter (\<lambda>c. fst c = stop) ?w" using start by (auto intro: filter_cong)
    also have "\<dots> = filter (\<lambda>c. fst c = stop) (ys @ [y] @ filter (\<lambda>c. fst y + ms \<le> fst c) ?w)" by (rule arg_cong[OF w2])
    also have "\<dots> = [y]" using ys ms e by (auto simp: filter_empty_conv) force+
    finally show ?thesis by simp
  qed simp
qed

text \<open>\<open>C36\<close>: Paging returns, whatever the limit per page: exactly the candles that open from the start on and before the end, in order and each
  once, followed at most by the candle that opens at the very end. Whether that one is included depends on where the pages fall.
\<close>

theorem fetch_returns_the_window:
  assumes "candle_market env ms market" and "answers_from market limit serve" and "0 < limit"
  shows "\<exists>extra. fetch_from env serve ms stop start = Inr (parsed env (in_window start stop market @ extra)) \<and>
    (extra = [] \<or> extra = filter (\<lambda>c. fst c = stop) market)"
proof (induction start rule: measure_induct_rule[of "\<lambda>start. nat (stop - start)"])
  case (less start)
  show ?case
  proof (cases "stop \<le> start")
    case True
    then have "in_window start stop market = []" by (auto simp: filter_empty_conv)
    then show ?thesis using True by (subst fetch_from.simps) (auto simp: parsed_def)
  next
    case False
    let ?w = "filter (\<lambda>c. start \<le> fst c \<and> fst c \<le> stop) market"
    have serve: "serve start stop = Inr (map snd (take limit ?w))" using assms(2) by (simp add: answers_from_def case_prod_unfold)
    show ?thesis
    proof (cases "take limit ?w" rule: rev_cases)
      case Nil
      then have "?w = []" using assms(3) by simp
      then have "in_window start stop market = []" by (auto simp: filter_empty_conv)
      then show ?thesis using False Nil serve by (subst fetch_from.simps) (auto simp: parsed_def)
    next
      case (snoc ys y)
      note page = page_splits_window[OF assms(1) snoc]
      have ms: "0 < ms" "open_millis (snd y) = Inr (fst y)" using assms(1) page(4) by (auto simp: candle_market_def)
      have chunk: "map_res (kline_from_api env) (map snd (ys @ [y])) = Inr (parsed env (ys @ [y]))"
        using parsed_rows[OF assms(1) page(4)] .
      obtain extra where rest: "fetch_from env serve ms stop (fst y + ms) = Inr (parsed env (in_window (fst y + ms) stop market @ extra))"
        "extra = [] \<or> extra = filter (\<lambda>c. fst c = stop) market"
        using less.IH[of "fst y + ms"] False ms page(3) by auto
      have run: "fetch_from env serve ms stop start = Inr (parsed env ((ys @ [y]) @ in_window (fst y + ms) stop market @ extra))"
        using False serve snoc chunk ms page(3) rest(1) by (subst fetch_from.simps) (simp add: parsed_def)
      show ?thesis
      proof (cases "fst y < stop")
        case True
        then show ?thesis using run rest(2) page(1) by auto
      next
        case e: False
        with ms(1) have "stop \<le> fst y + ms" by simp
        then have "in_window (fst y + ms) stop market @ extra = []"
          using rest(1) by (subst (asm) fetch_from.simps) (simp add: parsed_def)
        with run page(1,2) e show ?thesis by (intro exI[of _ "[y]"]) simp
      qed
    qed
  qed
qed

definition sample_row :: "int \<Rightarrow> json" where
  "sample_row ms = JList [JInt ms, JNum (Fin 1), JNum (Fin 3), JNum (Fin 1), JNum (Fin 2), JNum (Fin 1), JInt (ms + 59999), JNum (Fin 2),
     JInt 1, JNum (Fin 1), JNum (Fin 1)]"

definition two_candles :: "(int \<times> json) list" where
  "two_candles = [(0, sample_row 0), (60000, sample_row 60000)]"

definition serve_two :: "nat \<Rightarrow> int \<Rightarrow> int \<Rightarrow> json list res" where
  "serve_two limit s e = Inr (map snd (take limit (filter (\<lambda>(ms, _). s \<le> ms \<and> ms \<le> e) two_candles)))"

lemma sample_row_parses: "0 \<le> ms \<Longrightarrow> ms < 8589934000000 \<Longrightarrow> open_millis (sample_row ms) = Inr ms \<and> is_ok (kline_from_api env (sample_row ms))"
  by (simp add: sample_row_def open_millis_def as_row_def row_cell_def kline_from_api_def kline_of_row_def Let_def from_millis_exact)

lemma two_candles_market: "candle_market env 60000 two_candles"
  using sample_row_parses[of 0 env] sample_row_parses[of 60000 env] by (simp add: candle_market_def two_candles_def)

theorem fetch_returns_the_window_witness:
  "\<exists>extra. fetch_from stream_env (serve_two 1) 60000 60000 0 = Inr (parsed stream_env ((0, sample_row 0) # extra)) \<and>
     (extra = [] \<or> extra = [(60000, sample_row 60000)])"
proof -
  have "answers_from two_candles 1 (serve_two 1)" by (simp add: answers_from_def serve_two_def)
  from fetch_returns_the_window[OF two_candles_market this, of stream_env 60000 0] show ?thesis by (simp add: two_candles_def)
qed

text \<open>The candle that opens at the end is fetched when it falls on the first page and lost when a page ends before it.\<close>

lemma last_candle_depends_on_pages:
  "\<exists>a b. fetch_from env (serve_two 1) 60000 60000 0 = Inr a \<and> length a = 1 \<and>
     fetch_from env (serve_two 2) 60000 60000 0 = Inr b \<and> length b = 2"
proof -
  have p: "open_millis (sample_row 0) = Inr 0" "open_millis (sample_row 60000) = Inr 60000"
    using sample_row_parses[of 0 env] sample_row_parses[of 60000 env] by auto
  obtain k l where k: "kline_from_api env (sample_row 0) = Inr k" "kline_from_api env (sample_row 60000) = Inr l"
    using sample_row_parses[of 0 env] sample_row_parses[of 60000 env] by (auto simp: is_ok_iff)
  have "fetch_from env (serve_two 1) 60000 60000 0 = Inr [k]" "fetch_from env (serve_two 2) 60000 60000 0 = Inr [k, l]"
    by ((subst fetch_from.simps, simp add: serve_two_def two_candles_def p k), (subst fetch_from.simps, simp)?)+
  then show ?thesis by simp
qed

end
