(* ===== verification/Screen_Access.thy ===== *)
theory Screen_Access
  imports Auth_Access Py_Json
begin

text \<open>
  What a signed-in user gets to see of the dashboard (\<open>dashboards/app.py\<close>): the screen a request resolves to, the
  navigation options of a session, the page of one run of the script with its checks, and the buttons that sign in
  and out, navigate and change the password, over the security tables. A run shows one page; a button ends the run.
  The widgets of the pages, and whether a feature file exists, are outside: the latter is an argument.
\<close>

section \<open>Routes\<close>

definition screen_options :: "string list" where
  "screen_options = [''DASHBOARD'', ''BOT MANAGEMENT'', ''JOURNAL'', ''ORDERFLOW'', ''RISK'', ''SYSTEM HEALTH'', ''TRADE MANAGEMENT'',
     ''USER ADMIN'', ''MY PROFILE'']"

definition bot_management_children :: "(string, string) dict" where
  "bot_management_children = [(''BOT FRAMEWORK'', ''Framework''), (''BOT RUNTIME'', ''Runtime''), (''BOT ADMIN'', ''Admin''),
     (''VALIDATION LAB'', ''Validation Lab'')]"

definition bot_management_routes :: "(string, string) dict" where
  "bot_management_routes = [(''Framework'', ''/bot-management/framework''), (''Runtime'', ''/bot-management/runtime''),
     (''Admin'', ''/bot-management/admin''), (''Validation Lab'', ''/bot-management/validation-lab'')]"

definition bot_management_route_to_child :: "(string, string) dict" where
  "bot_management_route_to_child = map (\<lambda>(child, route). (route, child)) bot_management_routes"

definition first_query_value :: "py_env \<Rightarrow> json \<Rightarrow> string" where
  "first_query_value env v = (case v of JList [] \<Rightarrow> [] | JList (x # _) \<Rightarrow> py_str env x | _ \<Rightarrow> py_str env (j_or v (JText [])))"

text \<open>
  \<open>urlparse(url).path\<close>: leading control characters and blanks go, tabs and line ends go anywhere, then the scheme, the network
  location, fragment, query and, for the schemes that have them, the parameters of the last segment are cut off. It
  raises ValueError (None) for a network location with one bracket, or with brackets around what is no address (\<open>is_address\<close>).
\<close>

definition until :: "string \<Rightarrow> string \<Rightarrow> string" where
  "until stops s = takeWhile (\<lambda>c. c \<notin> set stops) s"

definition url_scheme :: "string \<Rightarrow> string \<times> string" where
  "url_scheme u =
     (let s = until '':'' u in
      if s \<noteq> [] \<and> s \<noteq> u \<and> is_alnum (hd s) \<and> \<not> is_digit (hd s) \<and> list_all (\<lambda>c. is_alnum c \<or> c \<in> set ''+-.'') s
      then (str_lower s, drop (length s + 1) u) else ([], u))"

definition schemes_with_params :: "string list" where
  "schemes_with_params = [[], ''ftp'', ''hdl'', ''prospero'', ''http'', ''https'', ''shttp'', ''rtsp'', ''rtsps'', ''rtspu'', ''sip'', ''sips'',
     ''mms'', ''sftp'', ''tel'']"

definition cut_params :: "string \<Rightarrow> string" where
  "cut_params p = (let segment = rev (until ''/'' (rev p)) in take (length p - length segment) p @ until '';'' segment)"

definition url_path :: "(string \<Rightarrow> bool) \<Rightarrow> string \<Rightarrow> string option" where
  "url_path is_address url =
     (let (scheme, rest) = url_scheme (filter (\<lambda>c. ord_of c \<notin> {9, 10, 13}) (dropWhile (\<lambda>c. ord_of c \<le> 32) url));
          loc = (if startswith rest ''//'' then until ''/?#'' (drop 2 rest) else []);
          rest = (if startswith rest ''//'' then drop (2 + length loc) rest else rest);
          opened = (CHR ''['' \<in> set loc); closed = (CHR '']'' \<in> set loc);
          path = until ''?'' (until ''#'' rest)
      in if opened \<noteq> closed \<or> (opened \<and> \<not> is_address loc) then None
         else Some (if scheme \<in> set schemes_with_params then cut_params path else path))"

definition bot_management_path_from_url :: "(string \<Rightarrow> bool) \<Rightarrow> string \<Rightarrow> string" where
  "bot_management_path_from_url is_address url =
     (case url_path is_address url of None \<Rightarrow> [] | Some p \<Rightarrow> if startswith p ''/bot-management/'' then p else [])"

definition resolve_screen_request :: "py_env \<Rightarrow> (string \<Rightarrow> bool) \<Rightarrow> json \<Rightarrow> json \<Rightarrow> json \<Rightarrow> string \<Rightarrow> string \<times> string" where
  "resolve_screen_request env is_address requested_screen requested_route requested_child url =
     (let screen = first_query_value env requested_screen; given = first_query_value env requested_route;
          route = (if given \<noteq> [] then given else bot_management_path_from_url is_address url);
          child = first_query_value env requested_child
      in case dict_get bot_management_children screen of
          Some c \<Rightarrow> (''BOT MANAGEMENT'', c)
        | None \<Rightarrow>
            if screen \<in> {''LIVE TRADING'', ''SIGNAL FLOW''} then (''DASHBOARD'', [])
            else (case dict_get bot_management_route_to_child route of
                Some c \<Rightarrow> (''BOT MANAGEMENT'', c)
              | None \<Rightarrow>
                  if screen = ''BOT MANAGEMENT''
                  then (''BOT MANAGEMENT'', if dict_get bot_management_routes child \<noteq> None then child else [])
                  else (if screen \<in> set screen_options then screen else ''DASHBOARD'', [])))"

section \<open>Options of a session\<close>

definition role_fallback :: "string list \<Rightarrow> string list" where
  "role_fallback roles =
     (if ''ADMIN'' \<in> set roles then screen_options
      else if ''POWER_USER'' \<in> set roles then [''DASHBOARD'', ''BOT MANAGEMENT'', ''JOURNAL'', ''TRADE MANAGEMENT'', ''MY PROFILE'']
      else if ''BASIC_USER'' \<in> set roles then [''DASHBOARD'', ''MY PROFILE''] else [])"

definition add_option :: "string \<Rightarrow> string list \<Rightarrow> string list" where
  "add_option s allowed = (if s \<in> set screen_options \<and> s \<notin> set allowed then allowed @ [s] else allowed)"

definition allowed_screen_options_for_context :: "session_context option \<Rightarrow> string list" where
  "allowed_screen_options_for_context context =
     (case context of None \<Rightarrow> []
      | Some c \<Rightarrow>
          (let allowed = fold add_option (role_fallback (cx_roles c)) (filter (can_access_screen context) screen_options)
           in if ''MY PROFILE'' \<in> set allowed then allowed else allowed @ [''MY PROFILE'']))"

definition requires_password_change :: "session_context option \<Rightarrow> bool" where
  "requires_password_change context = (case context of None \<Rightarrow> False | Some c \<Rightarrow> cx_force_password_change c)"

section \<open>One run\<close>

text \<open>The session state and query parameters of a browser session.\<close>

record ui =
  ui_context :: "session_context option"
  ui_query :: "(string, json) dict"
  ui_expanded :: "bool option"
  ui_requested_child :: "string option"
  ui_password_changed :: bool

definition query :: "ui \<Rightarrow> string \<Rightarrow> json" where
  "query u k = dict_get_or (ui_query u) k (JText [])"

definition set_query :: "string \<Rightarrow> string \<Rightarrow> ui \<Rightarrow> ui" where
  "set_query k v u = u\<lparr>ui_query := dict_set k (JText v) (ui_query u)\<rparr>"

text \<open>The page and the bot management child the sidebar selects.\<close>

definition sidebar_page :: "py_env \<Rightarrow> (string \<Rightarrow> bool) \<Rightarrow> string \<Rightarrow> ui \<Rightarrow> string \<times> string" where
  "sidebar_page env is_address url u =
     (if ui_context u = None then (''DASHBOARD'', [])
      else (let (screen, child) = resolve_screen_request env is_address (query u ''screen'') (query u ''route'') (query u ''bot_child'') url;
                options = allowed_screen_options_for_context (ui_context u);
                forced = requires_password_change (ui_context u);
                options = (if forced then (let own = filter (\<lambda>s. s = ''MY PROFILE'') options in if own = [] then [''MY PROFILE''] else own) else options);
                (screen, child) = (if forced then (''MY PROFILE'', []) else (screen, child))
            in if screen \<notin> set options then (if options = [] then ''MY PROFILE'' else hd options, []) else (screen, child)))"

datatype view =
    Landing
  | Access_Denied
  | Password_Required
  | Missing_Data
  | Shown string string

text \<open>The child a bot management page shows is checked once more against the routes.\<close>

definition page_view :: "py_env \<Rightarrow> (string \<Rightarrow> bool) \<Rightarrow> string \<Rightarrow> bool \<Rightarrow> ui \<Rightarrow> view" where
  "page_view env is_address url have_data u =
     (let (page, child) = sidebar_page env is_address url u in
      if ui_context u = None then Landing
      else if \<not> can_access_screen (ui_context u) page then Access_Denied
      else if requires_password_change (ui_context u) \<and> page \<noteq> ''MY PROFILE'' then Password_Required
      else if \<not> have_data then Missing_Data
      else Shown page (if page = ''BOT MANAGEMENT'' \<and> dict_get bot_management_routes child \<noteq> None then child else []))"

section \<open>Buttons\<close>

definition clear_bot_management_query_params :: "ui \<Rightarrow> ui" where
  "clear_bot_management_query_params u = u\<lparr>ui_query := filter (\<lambda>(k, _). k \<notin> {''bot_child'', ''route''}) (ui_query u)\<rparr>"

definition open_bot_management_child :: "string \<Rightarrow> ui \<Rightarrow> ui" where
  "open_bot_management_child child u =
     (set_query ''route'' (dict_get_or bot_management_routes child [])
        (set_query ''bot_child'' child (set_query ''screen'' ''BOT MANAGEMENT'' u)))
       \<lparr>ui_requested_child := Some child, ui_expanded := Some True\<rparr>"

definition open_root_screen :: "string \<Rightarrow> ui \<Rightarrow> ui" where
  "open_root_screen screen u =
     (clear_bot_management_query_params (set_query ''screen'' screen u))\<lparr>ui_expanded := Some (screen = ''BOT MANAGEMENT'')\<rparr>"

definition toggle_bot_management_nav :: "bool \<Rightarrow> ui \<Rightarrow> ui" where
  "toggle_bot_management_nav active u =
     (let next = (\<not> (case ui_expanded u of None \<Rightarrow> active | Some b \<Rightarrow> b));
          u = set_query ''screen'' ''BOT MANAGEMENT'' (u\<lparr>ui_expanded := Some next\<rparr>)
      in if next then u else (clear_bot_management_query_params u)\<lparr>ui_requested_child := None\<rparr>)"

definition clear_bot_management_child :: "ui \<Rightarrow> ui" where
  "clear_bot_management_child u = (clear_bot_management_query_params (set_query ''screen'' ''BOT MANAGEMENT'' u))\<lparr>ui_requested_child := None\<rparr>"

definition change_user_password :: "crypto \<Rightarrow> int \<Rightarrow> string \<Rightarrow> string \<Rightarrow> byte_string \<Rightarrow> txn \<Rightarrow> (txn, unit) outcome" where
  "change_user_password cr uid current new salt t =
     (case user_by_id uid (tx_work t) of
        None \<Rightarrow> (t, Inl (PermissionError ''User session is no longer valid.''))
      | Some user \<Rightarrow> (case verify_password cr current (u_password_hash user) of
            Inl e \<Rightarrow> (t, Inl e)
          | Inr False \<Rightarrow> (commit (audit_event ''password_change_failed'' (Some uid) (Some uid) [] [(''reason'', ''bad_current_password'')] t),
                Inl (PermissionError ''Current password is incorrect.''))
          | Inr True \<Rightarrow> set_user_password cr uid new False salt t))"

record dashboard =
  dh_ui :: ui
  dh_db :: sec_db

text \<open>Signing in from the landing page; a failure leaves the session as it was.\<close>

definition sign_in ::
    "crypto \<Rightarrow> auth_settings \<Rightarrow> string \<Rightarrow> string \<Rightarrow> string \<Rightarrow> string \<Rightarrow> instant \<Rightarrow> instant \<Rightarrow> dashboard \<Rightarrow> dashboard" where
  "sign_in cr st email password captcha token now now2 d =
     (if ui_context (dh_ui d) \<noteq> None then d
      else (case run_call (login_user cr st email password captcha token now now2) (dh_db d) of
          (db, Inl _) \<Rightarrow> d\<lparr>dh_db := db\<rparr>
        | (db, Inr c) \<Rightarrow> \<lparr>dh_ui = set_query ''screen'' ''DASHBOARD'' (dh_ui d\<lparr>ui_context := Some c\<rparr>), dh_db = db\<rparr>))"

text \<open>Signing out locally; \<open>reached\<close>: whether the database was.\<close>

definition sign_out :: "crypto \<Rightarrow> bool \<Rightarrow> dashboard \<Rightarrow> dashboard" where
  "sign_out cr reached d =
     (case ui_context (dh_ui d) of None \<Rightarrow> d
      | Some c \<Rightarrow> \<lparr>dh_ui = (dh_ui d)\<lparr>ui_context := None\<rparr>,
          dh_db = (if reached then fst (run_call (\<lambda>t. (logout_session cr (cx_session_token c) t, Inr ())) (dh_db d)) else dh_db d)\<rparr>)"

text \<open>The profile form. Its button is disabled until the three fields are filled.\<close>

definition profile_change_password ::
    "crypto \<Rightarrow> string \<Rightarrow> string \<Rightarrow> string \<Rightarrow> byte_string \<Rightarrow> dashboard \<Rightarrow> dashboard" where
  "profile_change_password cr current new confirm salt d =
     (case ui_context (dh_ui d) of None \<Rightarrow> d
      | Some c \<Rightarrow>
          if current = [] \<or> new = [] \<or> confirm = [] \<or> length new < 12 \<or> new \<noteq> confirm then d
          else (case run_call (change_user_password cr (cx_user_id c) current new salt) (dh_db d) of
              (db, Inl _) \<Rightarrow> d\<lparr>dh_db := db\<rparr>
            | (db, Inr _) \<Rightarrow>
                (let c' = c\<lparr>cx_force_password_change := False\<rparr>
                 in \<lparr>dh_ui = set_query ''screen'' (if can_access_screen (Some c') ''DASHBOARD'' then ''DASHBOARD'' else ''MY PROFILE'')
                        (dh_ui d\<lparr>ui_context := Some c', ui_password_changed := True\<rparr>), dh_db = db\<rparr>)))"

section \<open>A run shows what the session may see\<close>

lemma fold_add_option_set: "set (fold add_option ss allowed) = set allowed \<union> (set ss \<inter> set screen_options)"
  by (induction ss arbitrary: allowed) (auto simp: add_option_def)

lemma role_fallback_options: "set (role_fallback roles) \<subseteq> set screen_options"
  by (auto simp: role_fallback_def screen_options_def)

lemma allowed_options_set:
  "set (allowed_screen_options_for_context (Some c)) =
     insert ''MY PROFILE'' ({s \<in> set screen_options. can_access_screen (Some c) s} \<union> set (role_fallback (cx_roles c)))"
  using role_fallback_options[of "cx_roles c"]
  by (auto simp: allowed_screen_options_for_context_def Let_def fold_add_option_set)



section \<open>A browser session\<close>

text \<open>
  The steps of one browser session, whatever is done to the tables meanwhile: by other sessions, by the scripts or by hand.
  The relation is the closure of the operations above, a specification of how they may follow each other, and no function of the program.
\<close>

inductive session_step :: "crypto \<Rightarrow> auth_settings \<Rightarrow> dashboard \<Rightarrow> dashboard \<Rightarrow> bool" for cr st where
  sign_in: "session_step cr st d (sign_in cr st email password captcha token now now2 d)"
| sign_out: "session_step cr st d (sign_out cr reached d)"
| new_password: "session_step cr st d (profile_change_password cr current new confirm salt d)"
| open_child: "session_step cr st d (d\<lparr>dh_ui := open_bot_management_child child (dh_ui d)\<rparr>)"
| open_root: "session_step cr st d (d\<lparr>dh_ui := open_root_screen screen (dh_ui d)\<rparr>)"
| toggle: "session_step cr st d (d\<lparr>dh_ui := toggle_bot_management_nav active (dh_ui d)\<rparr>)"
| clear_child: "session_step cr st d (d\<lparr>dh_ui := clear_bot_management_child (dh_ui d)\<rparr>)"
| address_bar: "session_step cr st d (d\<lparr>dh_ui := (dh_ui d)\<lparr>ui_query := parameters\<rparr>\<rparr>)"
| elsewhere: "session_step cr st d (d\<lparr>dh_db := db\<rparr>)"

abbreviation session_run :: "crypto \<Rightarrow> auth_settings \<Rightarrow> dashboard \<Rightarrow> dashboard \<Rightarrow> bool" where
  "session_run cr st \<equiv> (session_step cr st)\<^sup>*\<^sup>*"

text \<open>
  The user of the session chose a password of at least twelve characters, knowing the current one: between the two states the
  profile form stored its hash and lifted the demand for a new one.
\<close>

definition renewed :: "crypto \<Rightarrow> int \<Rightarrow> dashboard \<Rightarrow> dashboard \<Rightarrow> bool" where
  "renewed cr uid d d' \<longleftrightarrow>
     (\<exists>current new confirm salt h. d' = profile_change_password cr current new confirm salt d \<and>
        12 \<le> length new \<and> hash_password cr salt new = Inr h \<and>
        (\<exists>v\<in>set (db_users (dh_db d)). u_id v = uid \<and> verify_password cr current (u_password_hash v) = Inr True) \<and>
        (\<exists>v\<in>set (db_users (dh_db d')). u_id v = uid \<and> u_password_hash v = h \<and> \<not> u_force_password_change v))"

lemma navigation_context [simp]:
  "ui_context (set_query k v u) = ui_context u" "ui_context (clear_bot_management_query_params u) = ui_context u"
  "ui_context (open_bot_management_child child u) = ui_context u" "ui_context (open_root_screen screen u) = ui_context u"
  "ui_context (toggle_bot_management_nav active u) = ui_context u" "ui_context (clear_bot_management_child u) = ui_context u"
  by (simp_all add: set_query_def clear_bot_management_query_params_def open_bot_management_child_def open_root_screen_def
      toggle_bot_management_nav_def clear_bot_management_child_def Let_def)

text \<open>The context of a sign-in is that of an account which may log in, with the screens the tables grant it.\<close>

definition context_of :: "sec_db \<Rightarrow> user_row \<Rightarrow> string \<Rightarrow> session_context \<Rightarrow> bool" where
  "context_of db u token c \<longleftrightarrow>
     cx_user_id c = u_id u \<and> cx_session_token c = token \<and> set (cx_allowed_screens c) = {s. grants_screen db (u_id u) s}"



text \<open>
  The signed-in context comes from a sign-in of this session since which it has not signed out, and is free of a pending
  password change only if the account was, or chose a password since.
\<close>

definition opened :: "crypto \<Rightarrow> auth_settings \<Rightarrow> dashboard \<Rightarrow> dashboard \<Rightarrow> session_context \<Rightarrow> bool" where
  "opened cr st d0 d c \<longleftrightarrow>
     (\<exists>d1 email password captcha token now now2 u.
        session_run cr st d0 d1 \<and> ui_context (dh_ui d1) = None \<and>
        session_run cr st (sign_in cr st email password captcha token now now2 d1) d \<and>
        login_account cr (normalize_email email) password (dh_db d1) u \<and> context_of (dh_db d1) u token c \<and>
        (\<not> cx_force_password_change c \<longrightarrow> \<not> u_force_password_change u \<or>
           (\<exists>d2 d3. session_run cr st (sign_in cr st email password captcha token now now2 d1) d2 \<and>
              renewed cr (u_id u) d2 d3 \<and> session_run cr st d3 d)))"







definition browser_env :: py_env where
  "browser_env = \<lparr>pe_clock = int, pe_show = (\<lambda>_. []), pe_repr = id, pe_parse_float = (\<lambda>_. None), pe_fromiso = (\<lambda>_. None),
     pe_loads = (\<lambda>_. None), pe_llm_mode = ''rules'', pe_llm_enabled = False, pe_openai_key = False\<rparr>"

definition no_address :: "string \<Rightarrow> bool" where "no_address _ = False"




section \<open>The default roles\<close>

lemma fold_add_option_Cons: "\<exists>ys. fold add_option ss (x # xs) = x # ys"
proof (induction ss arbitrary: xs)
  case (Cons s ss)
  have "\<exists>ys. add_option s (x # xs) = x # ys" by (simp add: add_option_def)
  then show ?case using Cons.IH by auto
qed simp

lemma dashboard_comes_first:
  assumes "can_access_screen (Some c) ''DASHBOARD''"
  shows "hd (allowed_screen_options_for_context (Some c)) = ''DASHBOARD''"
proof -
  obtain xs where xs: "filter (can_access_screen (Some c)) screen_options = ''DASHBOARD'' # xs"
    using assms by (auto simp: screen_options_def)
  obtain ys where "fold add_option (role_fallback (cx_roles c)) (''DASHBOARD'' # xs) = ''DASHBOARD'' # ys"
    using fold_add_option_Cons[of "role_fallback (cx_roles c)"] by blast
  then show ?thesis unfolding allowed_screen_options_for_context_def option.case Let_def xs
    by (simp only:) simp
qed

lemma default_screens_closed:
  "list_all (\<lambda>(role, screens). set (role_fallback [role]) = set screens \<and> ''DASHBOARD'' \<in> set screens \<and> ''MY PROFILE'' \<in> set screens \<and>
     set screens \<subseteq> set screen_options \<and> ''USER PROFILE'' \<notin> set screens \<and> [] \<notin> set screens) role_screen_names"
  by code_simp

lemma default_screens_of_roles:
  assumes "(role, screens) \<in> set role_screen_names"
  shows "set (role_fallback [role]) = set screens" "''DASHBOARD'' \<in> set screens" "''MY PROFILE'' \<in> set screens"
    "set screens \<subseteq> set screen_options" "''USER PROFILE'' \<notin> set screens" "[] \<notin> set screens"
  using bspec[OF default_screens_closed[unfolded list_all_iff] assms] by simp_all

lemma created_context:
  assumes "(role, screens) \<in> set role_screen_names"
    and "create_session cr st user token now (open_session (with_role role (u_id user))) = (t, Inr c)"
  shows "cx_roles c = [role]" "set (cx_allowed_screens c) = set screens" "cx_force_password_change c = u_force_password_change user"
proof -
  obtain permissions where "(role, permissions) \<in> set role_permission_names"
    using assms(1) by (auto simp: role_screen_names_def role_permission_names_def)
  from default_roles_grant[OF this assms(1)]
  have "effective_access (with_role role (u_id user)) (u_id user) = ({role}, set permissions, set screens)" .
  with assms(2) show "cx_roles c = [role]" "set (cx_allowed_screens c) = set screens"
    "cx_force_password_change c = u_force_password_change user"
    by (auto simp: create_session_def Let_def split: if_splits)
qed

text \<open>
  On the default tables a user with one of the three roles and no pending password change gets the screen asked for if the
  role has it, and the dashboard otherwise; the navigation offers exactly the screens of the role, and none of them is denied.
\<close>

theorem default_role_sees_its_screens:
  assumes "(role, screens) \<in> set role_screen_names"
    and "create_session cr st user token now (open_session (with_role role (u_id user))) = (t, Inr c)"
    and "\<not> u_force_password_change user" and "ui_context u = Some c" and "ui_query u = [(''screen'', JText s)]"
    and "s \<in> set screen_options" and "dict_get bot_management_route_to_child (bot_management_path_from_url is_address url) = None"
  shows "set (allowed_screen_options_for_context (Some c)) = set screens \<and>
    page_view env is_address url True u = Shown (if s \<in> set screens then s else ''DASHBOARD'') []"
proof -
  note c = created_context[OF assms(1,2)] and r = default_screens_of_roles[OF assms(1)]
  have access: "can_access_screen (Some c) x \<longleftrightarrow> x \<in> set screens" if "x \<noteq> ''USER PROFILE''" for x
    using that r(3,5,6) c(2) by (auto simp: can_access_screen_def Let_def)
  have user: "''USER PROFILE'' \<notin> set screen_options" by (simp add: screen_options_def)
  then have options: "set (allowed_screen_options_for_context (Some c)) = set screens"
  proof -
    have "{x \<in> set screen_options. can_access_screen (Some c) x} = set screens"
    proof (intro equalityI subsetI)
      fix x assume x: "x \<in> {x \<in> set screen_options. can_access_screen (Some c) x}"
      then have "x \<noteq> ''USER PROFILE''" using user by blast
      then show "x \<in> set screens" using access x by blast
    next
      fix x assume x: "x \<in> set screens"
      then have "x \<noteq> ''USER PROFILE''" using r(5) by blast
      then show "x \<in> {x \<in> set screen_options. can_access_screen (Some c) x}" using access x r(4) by blast
    qed
    then show ?thesis using r(1,3) unfolding allowed_options_set c(1) by blast
  qed
  have "s \<noteq> []" "dict_get bot_management_children s = None" "s \<notin> {''LIVE TRADING'', ''SIGNAL FLOW''}"
    using assms(6) by (auto simp: screen_options_def bot_management_children_def)
  then have request: "resolve_screen_request env is_address (query u ''screen'') (query u ''route'') (query u ''bot_child'') url = (s, [])"
    using assms(5,6,7) by (simp add: resolve_screen_request_def query_def first_query_value_def j_or_def truthy_def dict_get_or_def Let_def
        bot_management_routes_def split: if_splits)
  have first: "hd (allowed_screen_options_for_context (Some c)) = ''DASHBOARD''"
    using dashboard_comes_first access[of "''DASHBOARD''"] r(2) by simp
  have ne: "allowed_screen_options_for_context (Some c) \<noteq> []" using options r(2) by auto
  have page: "sidebar_page env is_address url u = (if s \<in> set screens then s else ''DASHBOARD'', [])"
    using request assms(3,4) c(3) options first ne by (simp add: sidebar_page_def requires_password_change_def)
  have "s \<noteq> ''USER PROFILE''" using assms(6) user by auto
  then have "can_access_screen (Some c) (if s \<in> set screens then s else ''DASHBOARD'')"
    using access r(2) by simp
  then have "page_view env is_address url True u = Shown (if s \<in> set screens then s else ''DASHBOARD'') []"
    using assms(3,4) c(3) unfolding page_view_def page by (simp add: requires_password_change_def bot_management_routes_def)
  with options show ?thesis by blast
qed

theorem default_role_sees_its_screens_witness:
  "\<exists>c. page_view browser_env no_address [] True \<lparr>ui_context = Some c, ui_query = [(''screen'', JText ''RISK'')], ui_expanded = None,
     ui_requested_child = None, ui_password_changed = False\<rparr> = Shown ''DASHBOARD'' []"
proof -
  have access: "effective_access (with_role ''BASIC_USER'' 1) 1 = ({''BASIC_USER''}, {''profile:view''}, {''DASHBOARD'', ''MY PROFILE''})"
    using default_roles_grant[of "''BASIC_USER''" "[''profile:view'']" "[''DASHBOARD'', ''MY PROFILE'']" 1]
    by (simp add: role_permission_names_def role_screen_names_def)
  have none: "db_sessions (with_role ''BASIC_USER'' 1) = []" by (simp add: with_role_def install_defaults_def empty_db_def)
  obtain t c where c: "create_session toy_crypto default_auth_settings sample_user ''tok'' 0 (open_session (with_role ''BASIC_USER'' (u_id sample_user))) = (t, Inr c)"
    by (simp add: create_session_def sample_user_def access none Let_def)
  let ?u = "\<lparr>ui_context = Some c, ui_query = [(''screen'', JText ''RISK'')], ui_expanded = None, ui_requested_child = None, ui_password_changed = False\<rparr>"
  have path: "dict_get bot_management_route_to_child (bot_management_path_from_url no_address []) = None"
    by (simp add: bot_management_path_from_url_def url_path_def url_scheme_def until_def startswith_def schemes_with_params_def cut_params_def
        Let_def bot_management_route_to_child_def bot_management_routes_def)
  have "page_view browser_env no_address [] True ?u = Shown (if ''RISK'' \<in> set [''DASHBOARD'', ''MY PROFILE''] then ''RISK'' else ''DASHBOARD'') []"
    using default_role_sees_its_screens[OF _ c _ _ _ _ path, of "[''DASHBOARD'', ''MY PROFILE'']" ?u "''RISK''"]
    by (simp add: role_screen_names_def sample_user_def screen_options_def)
  then show ?thesis by (intro exI[of _ c]) simp
qed

section \<open>Navigation\<close>

text \<open>A session that was ended elsewhere, or expired, goes on here: no run of the script resolves its token again.\<close>

lemma ended_session_still_shown:
  assumes "page_view env is_address url have_data (dh_ui d) = Shown p child"
  shows "page_view env is_address url have_data (dh_ui (d\<lparr>dh_db := (dh_db d)\<lparr>db_sessions := []\<rparr>\<rparr>)) = Shown p child \<and>
    snd (resolve_session cr st token now (open_session ((dh_db d)\<lparr>db_sessions := []\<rparr>))) = None"
  using assms by (simp add: resolve_session_def Let_def active_session_def)

text \<open>A route in the address captures every menu entry: the parameters the buttons clear are not where the route comes from.\<close>

lemma deep_link_captures_navigation:
  assumes "ui_context u = Some c" and "\<not> cx_force_password_change c" and "can_access_screen (Some c) ''BOT MANAGEMENT''"
  shows "page_view env is_address ''http://host/bot-management/admin'' True (open_root_screen ''JOURNAL'' u) = Shown ''BOT MANAGEMENT'' ''Admin''"
proof -
  have path: "bot_management_path_from_url is_address ''http://host/bot-management/admin'' = ''/bot-management/admin''"
    by code_simp
  have "''BOT MANAGEMENT'' \<in> set (allowed_screen_options_for_context (Some c))"
    using assms(3) unfolding allowed_options_set by (simp add: screen_options_def)
  moreover have "map_of (filter (\<lambda>(k, _). k \<noteq> ''bot_child'' \<and> k \<noteq> ''route'') m) ''route'' = None" for m :: "(string, json) dict"
    by (induction m) auto
  moreover have "map_of (filter (\<lambda>(k, _). k \<noteq> ''bot_child'' \<and> k \<noteq> ''route'') m) ''screen'' = map_of m ''screen''" for m :: "(string, json) dict"
    by (induction m) auto
  moreover have "first_query_value env (JText v) = v" for v by (simp add: first_query_value_def j_or_def truthy_def)
  ultimately have "sidebar_page env is_address ''http://host/bot-management/admin'' (open_root_screen ''JOURNAL'' u) = (''BOT MANAGEMENT'', ''Admin'')"
    using assms(1,2)
    by (simp add: sidebar_page_def open_root_screen_def clear_bot_management_query_params_def set_query_def requires_password_change_def query_def
        dict_get_or_def resolve_screen_request_def Let_def path bot_management_children_def bot_management_route_to_child_def bot_management_routes_def)
  then show ?thesis
    using assms by (simp add: page_view_def requires_password_change_def bot_management_routes_def)
qed

end
