(* ===== verification/Bot_Validation.thy ===== *)
theory Bot_Validation
  imports Dashboard_Deploy Stability
begin

text \<open>
  Validating a bot (\<open>dashboards/app.py\<close>, \<open>bot/framework.py\<close>, \<open>testing/certification.py\<close>): the replay of its strategy over
  the feature file of a symbol, the metrics of the run, what is stored and how the bot moves, and the certification of
  the newest run. The replay of a strategy is the parameter \<open>replay\<close>, the loaded feature files are \<open>features\<close>, the mean
  pandas computes is \<open>mean\<close>, \<open>pd.to_datetime\<close> of a time text is \<open>timestamp\<close>.
\<close>

section \<open>The certification engine\<close>

record certification_metrics =
  cm_sharpe :: pyfloat
  cm_profit_factor :: pyfloat
  cm_max_drawdown_pct :: pyfloat
  cm_replay_determinism :: pyfloat
  cm_risk_violations :: int

record certification_report =
  cr_state :: certification_state
  cr_reasons :: "string list"

definition certification_reasons :: "certification_metrics \<Rightarrow> string list" where
  "certification_reasons m =
     (if fle (cm_sharpe m) (dec 12 10) then [''Sharpe <= 1.2''] else []) @
     (if fle (cm_profit_factor m) (dec 13 10) then [''profit factor <= 1.3''] else []) @
     (if fle (Fin 12) (cm_max_drawdown_pct m) then [''max drawdown >= 12%''] else []) @
     (if \<not> feq (cm_replay_determinism m) (Fin 100) then [''replay determinism below 100%''] else []) @
     (if cm_risk_violations m \<noteq> 0 then [''risk violations detected''] else [])"

definition certify :: "certification_metrics \<Rightarrow> certification_report" where
  "certify m =
     (let reasons = certification_reasons m in
      if reasons = [] then \<lparr>cr_state = CERTIFIED, cr_reasons = []\<rparr>
      else if cm_risk_violations m \<noteq> 0 \<or> \<not> feq (cm_replay_determinism m) (Fin 100)
      then \<lparr>cr_state = CERT_REJECTED, cr_reasons = reasons\<rparr>
      else \<lparr>cr_state = CONDITIONAL, cr_reasons = reasons\<rparr>)"

text \<open>The metrics of the newest stored run: row 0 of the frame of runs.\<close>

definition certification_metrics_of :: "py_env \<Rightarrow> db_row list \<Rightarrow> certification_metrics res" where
  "certification_metrics_of env runs =
     (let number = (\<lambda>r k d. c_float env (c_or (dict_get_or r k (Json (JNum d))) (Json (JNum d)))) in
      if no_rows runs
      then Inr \<lparr>cm_sharpe = Fin 0, cm_profit_factor = Fin 0, cm_max_drawdown_pct = Fin 99, cm_replay_determinism = Fin 100, cm_risk_violations = 0\<rparr>
      else (let best = hd (cell_frame runs) in
        bind_res (number best ''sharpe_proxy'' (Fin 0)) (\<lambda>sharpe. bind_res (number best ''profit_factor'' (Fin 0)) (\<lambda>pf.
        bind_res (number best ''max_drawdown_pct'' (Fin 99)) (\<lambda>drawdown. bind_res (cell_int best ''risk_rule_blocked_trades'') (\<lambda>blocked.
          Inr \<lparr>cm_sharpe = sharpe, cm_profit_factor = pf, cm_max_drawdown_pct = drawdown, cm_replay_determinism = Fin 100,
               cm_risk_violations = blocked\<rparr>))))))"

definition certification_report_of :: "dash_env \<Rightarrow> dash \<Rightarrow> (dash, certification_report) outcome" where
  "certification_report_of de d =
     (let (d', runs) = load_validation_runs_frame de d
      in (d', bind_res (certification_metrics_of (de_env de) runs) (\<lambda>m. Inr (certify m))))"

definition validation_remediation :: "certification_metrics \<Rightarrow> string" where
  "validation_remediation m =
     (let guidance =
        (if fle (Fin 12) (cm_max_drawdown_pct m) then [''Reduce volatility exposure and tighten sizing during expansion regimes.''] else []) @
        (if fle (cm_sharpe m) (dec 12 10) then [''Raise confidence/orderflow thresholds or limit trading to stronger regimes.''] else []) @
        (if fle (cm_profit_factor m) (dec 13 10) then [''Review exits, spread filters, and stop distance to improve profit factor.''] else []) @
        (if cm_risk_violations m \<noteq> 0 then [''Risk violations must be zero before deployment.''] else [])
      in join_with '' '' (if guidance = [] then [''Validation is acceptable for continued paper/testnet monitoring.''] else guidance))"

section \<open>The strategy-agnostic bot\<close>

type_synonym strategy_replay = "backtest_strategy \<Rightarrow> feature_row list \<Rightarrow> pyfloat \<Rightarrow> (symbol_metrics \<times> trade list) res"

record bot_deployment =
  bd_name :: string
  bd_strategy :: backtest_strategy
  bd_mode :: string
  bd_interval :: string
  bd_notional :: pyfloat
  bd_stability :: "stability_config option"

record strategy_agnostic_bot =
  sb_deployment :: bot_deployment
  sb_config :: stability_config
  sb_framework :: stability_state

definition new_strategy_agnostic_bot :: "instant \<Rightarrow> bot_deployment \<Rightarrow> strategy_agnostic_bot" where
  "new_strategy_agnostic_bot now d =
     (let c = (case bd_stability d of None \<Rightarrow> default_stability_config | Some c \<Rightarrow> c)
      in \<lparr>sb_deployment = d, sb_config = c, sb_framework = new_stability_state (sc_framework_name c) now\<rparr>)"

text \<open>The framework runs its startup check and, whatever it says, the strategy replays.\<close>

definition bot_replay ::
    "strategy_replay \<Rightarrow> feature_row list \<Rightarrow> strategy_agnostic_bot \<Rightarrow> (strategy_agnostic_bot, symbol_metrics \<times> trade list) outcome" where
  "bot_replay replay features b =
     (b\<lparr>sb_framework := fst (startup_check (sb_config b) False False (sb_framework b))\<rparr>,
      replay (bd_strategy (sb_deployment b)) features (bd_notional (sb_deployment b)))"

section \<open>A validation run\<close>

fun losing_streak :: "int \<Rightarrow> int \<Rightarrow> pyfloat list \<Rightarrow> int" where
  "losing_streak current worst [] = worst"
| "losing_streak current worst (x # xs) =
     (if fle x (Fin 0) then losing_streak (current + 1) (max worst (current + 1)) xs else losing_streak 0 worst xs)"

definition max_consecutive_losses :: "trade list \<Rightarrow> int" where
  "max_consecutive_losses trades = losing_streak 0 0 (map tr_pnl trades)"

definition finite_float :: "pyfloat \<Rightarrow> pyfloat" where
  "finite_float x = (if is_finite x then x else Fin 999)"

text \<open>The largest and smallest entry of a column, missing ones skipped.\<close>

definition column_max :: "pyfloat list \<Rightarrow> pyfloat" where
  "column_max xs = (case filter (\<lambda>x. x \<noteq> NaN) xs of [] \<Rightarrow> NaN | y # ys \<Rightarrow> foldl fmax y ys)"

definition column_min :: "pyfloat list \<Rightarrow> pyfloat" where
  "column_min xs = (case filter (\<lambda>x. x \<noteq> NaN) xs of [] \<Rightarrow> NaN | y # ys \<Rightarrow> foldl fmin y ys)"

text \<open>\<open>utc_day_window\<close>: from the start of the first day to the end of the last; rows without a time never fall into it.\<close>

definition utc_day_window :: "instant \<Rightarrow> instant \<Rightarrow> instant \<times> instant" where
  "utc_day_window start_date end_date = (start_date, end_date + us_per_day)"

definition rows_in_window :: "(string \<Rightarrow> instant option) \<Rightarrow> instant \<Rightarrow> instant \<Rightarrow> feature_row list \<Rightarrow> feature_row list" where
  "rows_in_window timestamp start_date end_date rows =
     (if rows \<noteq> [] \<and> dict_get (fr_texts (hd rows)) ''open_time'' \<noteq> None
      then (let (s, e) = utc_day_window start_date end_date in
            filter (\<lambda>r. case timestamp (text_or r ''open_time'' []) of None \<Rightarrow> False | Some t \<Rightarrow> s \<le> t \<and> t < e) rows)
      else rows)"

definition failed_run :: "string \<Rightarrow> json_row" where
  "failed_run reason = [(''error'', JText reason), (''total_trades'', JInt 0), (''risk_rule_blocked_trades'', JInt 1)]"

definition text_item :: "json \<Rightarrow> string res" where
  "text_item j = (case j of JText t \<Rightarrow> Inr t | _ \<Rightarrow> Inl (TypeError ''sequence item: expected str instance''))"

text \<open>\<open>", ".join(parameters.get("strategies", [strategy]))\<close> when the parameters are an object.\<close>

definition strategy_collection :: "string \<Rightarrow> db_row \<Rightarrow> string res" where
  "strategy_collection strategy r =
     (case c_get r ''parameters'' of
        Json (JObj p) \<Rightarrow>
          (case j_get p ''strategies'' (JList [JText strategy]) of
             JList xs \<Rightarrow> bind_res (map_res text_item xs) (\<lambda>ts. Inr (join_with '', '' ts))
           | JText t \<Rightarrow> Inr (join_with '', '' (map (\<lambda>c. [c]) t))
           | JObj m \<Rightarrow> Inr (join_with '', '' (map fst m))
           | _ \<Rightarrow> Inl (TypeError ''can only join an iterable''))
      | _ \<Rightarrow> Inr strategy)"

definition run_metrics ::
    "(pyfloat list \<Rightarrow> pyfloat) \<Rightarrow> string \<Rightarrow> string \<Rightarrow> pyfloat \<Rightarrow> pyfloat \<Rightarrow> pyfloat \<Rightarrow> symbol_metrics \<Rightarrow> trade list \<Rightarrow> json_row" where
  "run_metrics mean strategy collection capital fees_bps slippage_bps m trades =
     (let fee_drag = fmul (fsum (map (\<lambda>t. fabs (tr_pnl t)) trades)) (fdiv fees_bps (Fin 10000));
          slippage_drag = fmul (fmul (float_of_int (int (length trades))) capital) (fdiv slippage_bps (Fin 10000));
          net_pnl = fsub (fsub (sm_total_pnl m) fee_drag) slippage_drag;
          over = (\<lambda>f xs. JNum (if trades = [] then Fin 0 else f xs))
      in [(''strategy'', JText strategy), (''strategy_collection'', JText collection), (''total_trades'', JInt (int (sm_trades m))),
          (''win_rate'', JNum (sm_win_rate m)), (''profit_factor'', JNum (finite_float (sm_profit_factor m))),
          (''net_pnl'', JNum (fround_to net_pnl 2)), (''max_drawdown_pct'', JNum (sm_max_drawdown_pct m)),
          (''average_r'', JNum (sm_avg_trade_return_pct m)), (''expectancy'', over mean (map tr_return_pct trades)),
          (''sharpe_proxy'', JNum (sm_sharpe_proxy m)), (''consecutive_losses'', JInt (max_consecutive_losses trades)),
          (''average_holding_time'', over mean (map (\<lambda>t. float_of_int (tr_bars_held t)) trades)),
          (''best_trade'', over column_max (map tr_pnl trades)), (''worst_trade'', over column_min (map tr_pnl trades)),
          (''rejected_trades'', JInt 0), (''risk_rule_blocked_trades'', JInt 0), (''fees_bps'', JNum fees_bps),
          (''slippage_bps'', JNum slippage_bps)])"

text \<open>\<open>features symbol\<close> is the loaded one-hour feature file of a symbol, if there is one; the timeframe only names the deployment.\<close>

definition run_bot_validation ::
    "(pyfloat \<Rightarrow> pyfloat) \<Rightarrow> (pyfloat list \<Rightarrow> pyfloat) \<Rightarrow> strategy_replay \<Rightarrow> (string \<Rightarrow> instant option) \<Rightarrow>
     (string \<Rightarrow> feature_row list res option) \<Rightarrow> py_env \<Rightarrow> instant \<Rightarrow> db_row \<Rightarrow> string \<Rightarrow> string \<Rightarrow> instant \<Rightarrow> instant \<Rightarrow> pyfloat \<Rightarrow> pyfloat \<Rightarrow> pyfloat \<Rightarrow>
     (json_row \<times> trade list) res" where
  "run_bot_validation q mean replay timestamp features env now r symbol timeframe start_date end_date capital fees_bps slippage_bps =
     (let strategy_name = text_of env r ''strategy'' [] in
      case dict_get (strategy_registry q) strategy_name of
        None \<Rightarrow> Inr (failed_run (''strategy '' @ strategy_name @ '' is not registered''), [])
      | Some (strategy, _) \<Rightarrow>
          (case features symbol of
             None \<Rightarrow> Inr (failed_run (''no feature file found for '' @ symbol), [])
           | Some loaded \<Rightarrow> bind_res loaded (\<lambda>rows.
               let selected = rows_in_window timestamp start_date end_date rows in
               if length selected < 210
               then Inr (failed_run ''selected period has insufficient candles for indicator warmup'', [])
               else (let bot = new_strategy_agnostic_bot now \<lparr>bd_name = bot_name_of env r, bd_strategy = strategy,
                           bd_mode = ''PAPER_MODE'', bd_interval = timeframe, bd_notional = capital, bd_stability = None\<rparr>
                     in bind_res (snd (bot_replay replay selected bot)) (\<lambda>(m, trades).
                        bind_res (strategy_collection strategy_name r) (\<lambda>collection.
                          Inr (run_metrics mean strategy_name collection capital fees_bps slippage_bps m trades, trades)))))))"

section \<open>Validating from a runtime tile\<close>

text \<open>\<open>strftime('%Y%m%d%H%M%S')\<close>.\<close>

definition compact_stamp :: "instant \<Rightarrow> string" where
  "compact_stamp t = filter is_digit (take 19 (iso t))"

definition today :: "instant \<Rightarrow> instant" where
  "today t = t div us_per_day * us_per_day"

definition run_record :: "string \<Rightarrow> string \<Rightarrow> string \<Rightarrow> string \<Rightarrow> instant \<Rightarrow> instant \<Rightarrow> pyfloat \<Rightarrow> json_row \<Rightarrow> json_row" where
  "run_record name stamp symbol timeframe start_date end_date capital metrics =
     [(''run_id'', JText (''validation-'' @ name @ ''-'' @ stamp)), (''bot_name'', JText name), (''symbol'', JText symbol),
      (''timeframe'', JText timeframe), (''start_date'', JText (date_iso start_date)), (''end_date'', JText (date_iso end_date)),
      (''capital'', JNum capital), (''fees_bps'', JNum (Fin 10)), (''slippage_bps'', JNum (Fin 5)),
      (''state'', JText (if dict_get metrics ''error'' \<noteq> None then ''FAILED'' else ''COMPLETED'')), (''metrics'', JObj metrics)]"

definition completed_reason :: "py_env \<Rightarrow> json_row \<Rightarrow> string res" where
  "completed_reason env metrics =
     bind_res (py_int (j_get metrics ''total_trades'' (JInt 0))) (\<lambda>trades.
     bind_res (py_float env (j_get metrics ''profit_factor'' (JNum (Fin 0)))) (\<lambda>pf.
     bind_res (py_float env (j_get metrics ''max_drawdown_pct'' (JNum (Fin 0)))) (\<lambda>drawdown.
       Inr (''runtime tile validation completed: trades '' @ str_of_int trades @ '', PF '' @ fmt_fixed 2 pf @ '', DD '' @ fmt_fixed 1 drawdown @ ''%''))))"

definition validation_entry :: "string \<Rightarrow> string \<Rightarrow> json_row \<Rightarrow> journal_entry" where
  "validation_entry name symbol metrics =
     \<lparr>je_bot_name = name, je_symbol = symbol, je_event_type = ''VALIDATION_RUN'', je_severity = ''INFO'', je_decision = ''COMPLETED'',
      je_reason = ''runtime tile validation completed before deployment'', je_metrics = metrics\<rparr>"

text \<open>What follows a run: it is stored, the bot moves, a completed run is entered into the journal.\<close>

definition conclude_validation ::
    "dash_env \<Rightarrow> string \<Rightarrow> string \<Rightarrow> string \<Rightarrow> instant \<Rightarrow> instant \<Rightarrow> pyfloat \<Rightarrow> json_row \<Rightarrow> dash \<Rightarrow> (dash, bool \<times> string) outcome" where
  "conclude_validation de name symbol timeframe start_date end_date capital metrics d =
     (let env = de_env de; row = run_record name (compact_stamp (da_now de d)) symbol timeframe start_date end_date capital metrics;
          d1 = save_validation_run de row (da_tick d)
      in case dict_get metrics ''error'' of
          Some e \<Rightarrow> bind_act (transition_bot de name ''FAILED'' (py_str env e) [] d1) (\<lambda>d2 _. (d2, Inr (False, py_str env e)))
        | None \<Rightarrow> bind_act (d1, completed_reason env metrics) (\<lambda>d1 reason. bind_act (transition_bot de name ''BACKTESTED'' reason [] d1) (\<lambda>d2 _.
            (append_journal de (validation_entry name symbol metrics) d2, Inr (True, ''Validation completed.'')))))"

definition not_validated :: "string \<Rightarrow> string" where
  "not_validated strategy = ''This strategy/coin pair has not passed deployment guidance. Passed coins: '' @
     join_with '', '' (certified_symbols_for_strategy strategy)"

definition validate_bot_from_tile ::
    "(pyfloat \<Rightarrow> pyfloat) \<Rightarrow> (pyfloat list \<Rightarrow> pyfloat) \<Rightarrow> strategy_replay \<Rightarrow> (string \<Rightarrow> instant option) \<Rightarrow>
     (string \<Rightarrow> feature_row list res option) \<Rightarrow> dash_env \<Rightarrow> db_row \<Rightarrow> dash \<Rightarrow> (dash, bool \<times> string) outcome" where
  "validate_bot_from_tile q mean replay timestamp features de r d =
     (let env = de_env de; strategy = text_of env r ''strategy'' []; symbol = text_of env r ''symbol'' [] in
      if strategy \<notin> set (active_strategy_names q)
      then (d, Inr (False, ''Dormant strategy bots cannot be validated for deployment from runtime.''))
      else if \<not> strategy_symbol_is_certified strategy symbol
      then (d, Inr (False, not_validated strategy))
      else bind_act (d, cell_float env r ''capital'') (\<lambda>d capital.
        let timeframe = c_str env (c_or (dict_get_or r ''timeframe'' (c_text ''1h'')) (c_text ''1h''));
            end_date = today (da_now de d); start_date = end_date - 365 * us_per_day; d = da_tick d
        in bind_act (d, run_bot_validation q mean replay timestamp features env (da_now de d) r symbol timeframe start_date end_date
               capital (Fin 10) (Fin 5)) (\<lambda>d (metrics, trades).
             conclude_validation de (bot_name_of env r) symbol timeframe start_date end_date capital metrics (da_tick d))))"

section \<open>The longest losing streak\<close>

lemma losing_streak_mono: "worst \<le> losing_streak current worst xs"
  by (induction current worst xs rule: losing_streak.induct) (auto intro: order_trans)

definition has_streak :: "pyfloat list \<Rightarrow> int \<Rightarrow> bool" where
  "has_streak xs n \<longleftrightarrow> (\<exists>as ys bs. xs = as @ ys @ bs \<and> list_all (\<lambda>x. fle x (Fin 0)) ys \<and> n = int (length ys))"

lemma streak_after_win:
  assumes "has_streak (pre @ x # xs) n" and "\<not> fle x (Fin 0)"
  shows "n \<le> int (length pre) \<or> has_streak xs n"
proof -
  from assms(1) obtain as ys bs where w: "pre @ x # xs = as @ ys @ bs" "list_all (\<lambda>x. fle x (Fin 0)) ys" "n = int (length ys)"
    by (auto simp: has_streak_def)
  have "x \<notin> set ys" using w(2) assms(2) by (auto simp: list_all_iff)
  then consider us where "as = pre @ x # us" "xs = us @ ys @ bs" | us where "pre = as @ ys @ us"
    using w(1) by (auto simp: append_eq_append_conv2 append_eq_Cons_conv Cons_eq_append_conv)
  then show ?thesis
  proof cases
    case 1
    then have "has_streak xs n" unfolding has_streak_def using w(2,3) by (intro exI[of _ us] exI[of _ ys] exI[of _ bs]) simp
    then show ?thesis ..
  next
    case 2
    then show ?thesis using w(3) by simp
  qed
qed

lemma streak_weaken: "has_streak xs n \<Longrightarrow> has_streak (pre @ xs) n"
  unfolding has_streak_def by (metis append_assoc)

text \<open>\<open>pre\<close> is the losing streak that reaches into the rest of the list.\<close>

lemma losing_streak_spec:
  assumes "current = int (length pre)" and "list_all (\<lambda>x. fle x (Fin 0)) pre" and "current \<le> worst"
  shows "(losing_streak current worst xs = worst \<or> has_streak (pre @ xs) (losing_streak current worst xs)) \<and>
    (\<forall>n. has_streak (pre @ xs) n \<longrightarrow> n \<le> losing_streak current worst xs)"
  using assms
proof (induction xs arbitrary: pre current worst)
  case Nil
  then show ?case by (auto simp: has_streak_def)
next
  case (Cons x xs)
  show ?case
  proof (cases "fle x (Fin 0)")
    case True
    have IH: "current + 1 = int (length (pre @ [x]))" "list_all (\<lambda>x. fle x (Fin 0)) (pre @ [x])" "current + 1 \<le> max worst (current + 1)"
      using Cons.prems True by simp_all
    have eq: "losing_streak current worst (x # xs) = losing_streak (current + 1) (max worst (current + 1)) xs" using True by simp
    have "has_streak (pre @ x # xs) (current + 1)"
      unfolding has_streak_def using IH(1,2) by (intro exI[of _ "[]"] exI[of _ "pre @ [x]"] exI[of _ xs]) simp
    then show ?thesis unfolding eq using Cons.IH[OF IH] by (cases "worst \<le> current + 1") (auto simp: max_def)
  next
    case False
    have eq: "losing_streak current worst (x # xs) = losing_streak 0 worst xs" using False by simp
    have IH: "(losing_streak 0 worst xs = worst \<or> has_streak xs (losing_streak 0 worst xs)) \<and> (\<forall>n. has_streak xs n \<longrightarrow> n \<le> losing_streak 0 worst xs)"
      using Cons.IH[of 0 "[]" worst] Cons.prems by simp
    have "n \<le> losing_streak 0 worst xs" if "has_streak (pre @ x # xs) n" for n
      using streak_after_win[OF that False] IH Cons.prems(1,3) losing_streak_mono[of worst 0 xs] by auto
    then show ?thesis unfolding eq using IH streak_weaken[of xs _ "pre @ [x]"] by auto
  qed
qed

text \<open>The losing streak a run reports is the longest one: some stretch of consecutive losing trades has that length, and none is longer.\<close>

theorem consecutive_losses_are_the_longest_streak:
  "(\<exists>as ys bs. trades = as @ ys @ bs \<and> list_all (\<lambda>t. fle (tr_pnl t) (Fin 0)) ys \<and> max_consecutive_losses trades = int (length ys)) \<and>
   (\<forall>as ys bs. trades = as @ ys @ bs \<longrightarrow> list_all (\<lambda>t. fle (tr_pnl t) (Fin 0)) ys \<longrightarrow> int (length ys) \<le> max_consecutive_losses trades)"
proof -
  note spec = losing_streak_spec[of 0 "[]" 0 "map tr_pnl trades", simplified]
  have none: "has_streak (map tr_pnl trades) 0" by (auto simp: has_streak_def)
  then have "has_streak (map tr_pnl trades) (max_consecutive_losses trades)"
    using spec unfolding max_consecutive_losses_def by auto
  then obtain as ys bs where w: "map tr_pnl trades = as @ ys @ bs" "list_all (\<lambda>x. fle x (Fin 0)) ys"
    "max_consecutive_losses trades = int (length ys)" by (auto simp: has_streak_def)
  then obtain as' ys' bs' where "trades = as' @ ys' @ bs'" "map tr_pnl ys' = ys"
    by (metis map_eq_append_conv)
  with w have "\<exists>as ys bs. trades = as @ ys @ bs \<and> list_all (\<lambda>t. fle (tr_pnl t) (Fin 0)) ys \<and> max_consecutive_losses trades = int (length ys)"
    by (intro exI[of _ as'] exI[of _ ys'] exI[of _ bs']) (auto simp: list_all_iff)
  moreover have "int (length ys) \<le> max_consecutive_losses trades"
    if "trades = as @ ys @ bs" "list_all (\<lambda>t. fle (tr_pnl t) (Fin 0)) ys" for as ys bs
  proof -
    have "has_streak (map tr_pnl trades) (int (length ys))"
      unfolding has_streak_def using that
      by (intro exI[of _ "map tr_pnl as"] exI[of _ "map tr_pnl ys"] exI[of _ "map tr_pnl bs"]) (simp add: list_all_iff)
    then show ?thesis using spec unfolding max_consecutive_losses_def by blast
  qed
  ultimately show ?thesis by blast
qed

section \<open>What a validation leaves behind\<close>

lemma journal_keeps_runs [simp]: "da_runs (append_journal de e d) = da_runs d"
  by (auto simp: append_journal_def append_file_journal_def fall_back_def da_tick_def try_db_def Let_def split: prod.split sum.split)

lemma fall_back_keeps_runs [simp]: "da_runs (fall_back de what e d) = da_runs d" "da_runs (da_tick d) = da_runs d"
  by (simp_all add: fall_back_def append_file_journal_def da_tick_def)

lemma try_db_keeps_runs: "try_db op d = (d', r) \<Longrightarrow> da_runs d' = da_runs d"
  by (auto simp: try_db_def split: if_splits prod.splits)

lemma load_bots_keeps_runs: "load_bot_instances de d = (d', bots) \<Longrightarrow> da_runs d' = da_runs d"
  by (auto simp: load_bot_instances_def Let_def dest!: try_db_keeps_runs split: if_splits prod.splits sum.splits)

lemma save_bots_keeps_runs [simp]: "da_runs (save_bot_instances de frame d) = da_runs d"
  by (auto simp: save_bot_instances_def Let_def dest!: try_db_keeps_runs split: prod.split sum.split)

lemma transition_keeps_runs: "transition_bot de name state reason updates d = (d', r) \<Longrightarrow> da_runs d' = da_runs d"
  by (auto simp: transition_bot_def Let_def dest!: load_bots_keeps_runs split: prod.splits list.splits if_splits)

lemma conclusion_stores_run:
  assumes "\<not> de_enabled de"
    and "conclude_validation de name symbol timeframe s e capital metrics d = (d', r)"
  shows "da_runs d' = push_row 100 (run_record name (compact_stamp (da_now de d)) symbol timeframe s e capital metrics) (da_runs d)"
    and "r = Inr (ok, message) \<Longrightarrow> ok \<longleftrightarrow> dict_get metrics ''error'' = None"
  using assms
  by (auto simp: conclude_validation_def save_validation_run_def Let_def bind_act_cases dest!: transition_keeps_runs split: option.splits)

lemma newest_file_run:
  assumes "\<not> de_enabled de" and "da_runs d = push_row 100 row f" and "dict_get row ''bot_name'' = Some (JText name)"
  shows "last_validation_for_bot de name d = (d, Some (cells row))"
proof -
  have "dict_get (cells row) ''bot_name'' = Some (c_text name)"
    using assms(3) by (simp add: cells_def map_of_map)
  then show ?thesis
    using assms(1,2) by (simp add: last_validation_for_bot_def load_validation_runs_frame_def push_row_def Let_def)
qed

text \<open>\<open>C30\<close>: Without a database, validating a bot whose strategy is active and certified for its symbol, if it returns, stores the run
  of exactly these metrics as the bot's newest, COMPLETED if the run has no error and FAILED otherwise, and says which.
\<close>

theorem validation_is_recorded:
  assumes "\<not> de_enabled de" and "validate_bot_from_tile q mean replay timestamp features de r d = (d', Inr (ok, message))"
    and "text_of (de_env de) r ''strategy'' [] \<in> set (active_strategy_names q)"
    and "strategy_symbol_is_certified (text_of (de_env de) r ''strategy'' []) (text_of (de_env de) r ''symbol'' [])"
  shows "\<exists>run capital metrics trades timeframe. cell_float (de_env de) r ''capital'' = Inr capital \<and>
    run_bot_validation q mean replay timestamp features (de_env de) (da_now de (da_tick d)) r (text_of (de_env de) r ''symbol'' []) timeframe
      (today (da_now de d) - 365 * us_per_day) (today (da_now de d)) capital (Fin 10) (Fin 5) = Inr (metrics, trades) \<and>
    last_validation_for_bot de (bot_name_of (de_env de) r) d' = (d', Some run) \<and> dict_get run ''metrics'' = Some (Json (JObj metrics)) \<and>
    dict_get run ''state'' = Some (c_text (if ok then ''COMPLETED'' else ''FAILED'')) \<and> (ok \<longleftrightarrow> dict_get metrics ''error'' = None)"
proof -
  let ?env = "de_env de" and ?last = "today (da_now de d)"
  let ?tf = "c_str ?env (c_or (dict_get_or r ''timeframe'' (c_text ''1h'')) (c_text ''1h''))"
  obtain capital metrics trades where run: "cell_float ?env r ''capital'' = Inr capital"
    "run_bot_validation q mean replay timestamp features ?env (da_now de (da_tick d)) r (text_of ?env r ''symbol'' []) ?tf
       (?last - 365 * us_per_day) ?last capital (Fin 10) (Fin 5) = Inr (metrics, trades)"
    and c: "conclude_validation de (bot_name_of ?env r) (text_of ?env r ''symbol'' []) ?tf (?last - 365 * us_per_day) ?last capital metrics
       (da_tick (da_tick d)) = (d', Inr (ok, message))"
    using assms(2-4) by (auto simp: validate_bot_from_tile_def Let_def bind_act_eq_Inr)
  let ?row = "run_record (bot_name_of ?env r) (compact_stamp (da_now de (da_tick (da_tick d)))) (text_of ?env r ''symbol'' []) ?tf
     (?last - 365 * us_per_day) ?last capital metrics"
  have ok: "ok \<longleftrightarrow> dict_get metrics ''error'' = None" using conclusion_stores_run(2)[OF assms(1) c] by simp
  have "last_validation_for_bot de (bot_name_of ?env r) d' = (d', Some (cells ?row))"
    by (rule newest_file_run[OF assms(1) conclusion_stores_run(1)[OF assms(1) c]]) (simp add: run_record_def)
  moreover have "dict_get (cells ?row) ''metrics'' = Some (Json (JObj metrics))"
    "dict_get (cells ?row) ''state'' = Some (c_text (if ok then ''COMPLETED'' else ''FAILED''))"
    by (simp_all add: run_record_def cells_def ok)
  ultimately show ?thesis using run ok by blast
qed

definition no_mean :: "pyfloat list \<Rightarrow> pyfloat" where "no_mean _ = NaN"

definition no_replay :: strategy_replay where "no_replay _ _ _ = Inl (ValueError [])"

definition no_timestamp :: "string \<Rightarrow> instant option" where "no_timestamp _ = None"

definition untested_dash :: dash where
  "untested_dash = failed_run_dash\<lparr>da_runs := Missing\<rparr>"

lemma untested_validation:
  "\<exists>d reason. validate_bot_from_tile id mean replay timestamp (\<lambda>_. None) file_dash_env unproven_bot untested_dash = (d, Inr (False, reason))"
proof -
  have pair: "strategy_symbol_is_certified ''KCJ ATR Trend Burst 5m'' ''ETH/USDT''"
    by (simp add: strategy_symbol_is_certified_def certified_symbols_for_strategy_def dict_get_or_def)
  obtain reason where run: "run_bot_validation id mean replay timestamp (\<lambda>_. None) example_env now unproven_bot ''ETH/USDT'' timeframe s e capital f sl =
      Inr (failed_run reason, [])" for now timeframe s e capital f sl
    by (cases "dict_get (strategy_registry id) ''KCJ ATR Trend Burst 5m''") (auto simp: run_bot_validation_def Let_def)
  have files: "report_rows (da_bots untested_dash) = []" by (simp add: untested_dash_def failed_run_dash_def example_dash_def report_rows_def)
  have "transition_bot file_dash_env name state reason updates d = (d\<lparr>da_bots := Rows []\<rparr>, Inr ())" if "report_rows (da_bots d) = []"
    for name state reason updates d
    using that by (simp add: transition_bot_def Let_def no_file_bots)
  then show ?thesis
    by (simp add: validate_bot_from_tile_def Let_def active_names pair run conclude_validation_def failed_run_def save_validation_run_def
        da_tick_def files)
qed

theorem validation_is_recorded_witness:
  "\<exists>d' reason run. validate_bot_from_tile id no_mean no_replay no_timestamp (\<lambda>_. None) file_dash_env unproven_bot untested_dash = (d', Inr (False, reason)) \<and>
     last_validation_for_bot file_dash_env ''a'' d' = (d', Some run) \<and> dict_get run ''state'' = Some (c_text ''FAILED'')"
proof -
  obtain d' reason where v: "validate_bot_from_tile id no_mean no_replay no_timestamp (\<lambda>_. None) file_dash_env unproven_bot untested_dash = (d', Inr (False, reason))"
    using untested_validation by blast
  have "strategy_symbol_is_certified ''KCJ ATR Trend Burst 5m'' ''ETH/USDT''"
    by (simp add: strategy_symbol_is_certified_def certified_symbols_for_strategy_def dict_get_or_def)
  from validation_is_recorded[OF _ v] this active_names v show ?thesis by auto
qed

section \<open>The certification of stored runs\<close>

text \<open>A file run keeps its metrics in one object; the frame of the runs has none of the columns the certification reads.\<close>

definition nested_run :: "json_row \<Rightarrow> bool" where
  "nested_run row = list_all (\<lambda>k. dict_get row k = None) [''sharpe_proxy'', ''profit_factor'', ''max_drawdown_pct'', ''risk_rule_blocked_trades'']"

definition nested_runs :: "dash \<Rightarrow> bool" where
  "nested_runs d = list_all nested_run (report_rows (da_runs d))"

lemma run_record_nested [simp]: "nested_run (run_record name stamp symbol timeframe s e capital metrics)"
  by (simp add: nested_run_def run_record_def)

lemma frame_cell_absent: "\<forall>r\<in>set rows. dict_get r k = None \<Longrightarrow> f \<in> set (cell_frame rows) \<Longrightarrow> dict_get f k = None"
  by (auto simp: cell_frame_def cell_columns_set map_of_eq_None_iff image_iff)

lemma nested_report:
  assumes "\<not> de_enabled de" and "nested_runs d"
  shows "certification_report_of de d = (d, Inr \<lparr>cr_state = CONDITIONAL,
    cr_reasons = [''Sharpe <= 1.2'', ''profit factor <= 1.3'', ''max drawdown >= 12%'']\<rparr>)"
proof -
  let ?runs = "map cells (report_rows (da_runs d))"
  have absent: "dict_get f k = None" if "f \<in> set (cell_frame ?runs)" "k \<in> {''sharpe_proxy'', ''profit_factor'', ''max_drawdown_pct'', ''risk_rule_blocked_trades''}" for f k
    using that(2) assms(2)
    by (intro frame_cell_absent[OF _ that(1)]) (auto simp: nested_runs_def nested_run_def list_all_iff cells_def map_of_map)
  have pos: "fle (Fin 0) (dec 12 10)" "fle (Fin 0) (dec 13 10)" by (simp_all add: dec_def fround_nonneg)
  have "certification_metrics_of (de_env de) ?runs = Inr \<lparr>cm_sharpe = Fin 0, cm_profit_factor = Fin 0, cm_max_drawdown_pct = Fin 99,
      cm_replay_determinism = Fin 100, cm_risk_violations = 0\<rparr>"
  proof (cases "no_rows ?runs")
    case False
    then have "hd (cell_frame ?runs) \<in> set (cell_frame ?runs)" by (intro hd_in_set) (auto simp: no_rows_def cell_frame_def)
    note a = absent[OF this]
    show ?thesis using False a
      by (simp add: certification_metrics_of_def Let_def dict_get_or_def cell_int_def c_or_def c_truthy_def truthy_def c_float_def c_int_def)
  qed (simp add: certification_metrics_of_def)
  then show ?thesis
    using assms(1) pos by (simp add: certification_report_of_def load_validation_runs_frame_def certify_def certification_reasons_def Let_def feq_def)
qed

lemma validation_pushes_a_run:
  assumes "\<not> de_enabled de" and "validate_bot_from_tile q mean replay timestamp features de r d = (d', res)"
  shows "da_runs d' = da_runs d \<or> (\<exists>row. nested_run row \<and> da_runs d' = push_row 100 row (da_runs d))"
proof -
  let ?env = "de_env de"
  consider "d' = d" | "d' = da_tick d" | name symbol timeframe s e capital metrics where
      "conclude_validation de name symbol timeframe s e capital metrics (da_tick (da_tick d)) = (d', res)"
    using assms(2) unfolding validate_bot_from_tile_def Let_def
    by (cases "text_of ?env r ''strategy'' [] \<in> set (active_strategy_names q)";
        cases "strategy_symbol_is_certified (text_of ?env r ''strategy'' []) (text_of ?env r ''symbol'' [])")
      (auto simp: bind_act_cases split: prod.splits)
  then show ?thesis
  proof cases
    case (3 name symbol timeframe s e capital metrics)
    from conclusion_stores_run(1)[OF assms(1) 3] show ?thesis by (intro disjI2) (rule exI, rule conjI, rule run_record_nested, simp)
  qed simp_all
qed

text \<open>Without a database the certification of the validation screen says nothing: whatever runs bots are validated with, every
  later report is CONDITIONAL for a Sharpe ratio, profit factor and drawdown no run had.
\<close>

theorem file_runs_are_never_certified:
  assumes "\<not> de_enabled de" and "nested_runs d"
    and "validate_bot_from_tile q mean replay timestamp features de r d = (d', res)"
  shows "nested_runs d' \<and> certification_report_of de d' = (d', Inr \<lparr>cr_state = CONDITIONAL,
    cr_reasons = [''Sharpe <= 1.2'', ''profit factor <= 1.3'', ''max drawdown >= 12%'']\<rparr>)"
proof -
  have "nested_runs d'"
    using validation_pushes_a_run[OF assms(1,3)] assms(2)
    by (auto simp: nested_runs_def push_row_def list_all_iff dest!: in_set_takeD)
  then show ?thesis using nested_report[OF assms(1)] by blast
qed

theorem file_runs_are_never_certified_witness:
  "\<exists>d' res rep. validate_bot_from_tile id no_mean no_replay no_timestamp (\<lambda>_. None) file_dash_env unproven_bot untested_dash = (d', res) \<and>
     certification_report_of file_dash_env d' = (d', Inr rep) \<and> cr_state rep = CONDITIONAL"
proof -
  obtain d' reason where v: "validate_bot_from_tile id no_mean no_replay no_timestamp (\<lambda>_. None) file_dash_env unproven_bot untested_dash = (d', Inr (False, reason))"
    using untested_validation by blast
  have "nested_runs untested_dash" by (simp add: nested_runs_def untested_dash_def report_rows_def)
  from file_runs_are_never_certified[OF _ this v] v show ?thesis by simp
qed

text \<open>With the database the metrics of the newest run are columns; a run without any drawdown counts as one of 99 percent.\<close>

lemma zero_drawdown_is_not_certified:
  assumes "runs \<noteq> []" and "dict_get (hd (cell_frame runs)) ''max_drawdown_pct'' = Some (Json (JNum (Fin 0)))"
    and "certification_metrics_of env runs = Inr m"
  shows "cm_max_drawdown_pct m = Fin 99 \<and> cr_state (certify m) \<noteq> CERTIFIED"
proof -
  have "\<not> no_rows runs"
    using assms(1,2) by (cases runs) (auto simp: no_rows_def cell_frame_def)
  then have "cm_max_drawdown_pct m = Fin 99"
    using assms(2,3) by (auto simp: certification_metrics_of_def Let_def bind_res_eq_Inr dict_get_or_def c_or_def c_truthy_def truthy_def c_float_def)
  then show ?thesis by (simp add: certify_def certification_reasons_def Let_def)
qed

end
