(* ===== verification/Trade_Review.thy ===== *)
theory Trade_Review
  imports Risk_Engine Py_Json
begin

text \<open>
  The review of a proposed trade (\<open>llm/*.py\<close>): the rule-based review, the client that asks a model or falls back on the
  rules, the defaults filled into a verdict, and the agent that overrules a verdict of too much concern; the texts made of
  verdicts and journal events; and the failure drills (\<open>testing/failure_injection.py\<close>). What the model answers is the
  parameter \<open>ask\<close> (None: the call raised; \<open>Some None\<close>: no content), \<open>latency\<close> the measured milliseconds.
\<close>

section \<open>The rules\<close>

definition review_number :: "py_env \<Rightarrow> json_row \<Rightarrow> string \<Rightarrow> pyfloat \<Rightarrow> pyfloat res" where
  "review_number env context k d = py_float env (j_or (j_get context k (JNum d)) (JNum (Fin 0)))"

definition raise_concern :: "bool \<Rightarrow> pyfloat \<Rightarrow> string \<Rightarrow> pyfloat \<times> string list \<Rightarrow> pyfloat \<times> string list" where
  "raise_concern holds weight name = (\<lambda>(concern, names). if holds then (fadd concern weight, names @ [name]) else (concern, names))"

definition rule_concerns :: "pyfloat \<Rightarrow> pyfloat \<Rightarrow> pyfloat \<Rightarrow> pyfloat \<times> string list" where
  "rule_concerns spread liquidity orderflow =
     raise_concern (flt orderflow (Fin 35)) (dec 16 100) ''ORDERFLOW_WEAK''
      (raise_concern (flt liquidity (dec 35 100)) (dec 18 100) ''LIQUIDITY_THIN''
        (raise_concern (flt (Fin 12) spread) (dec 18 100) ''SPREAD_WIDE'' (dec 12 100, [])))"

definition rule_based_trade_review :: "py_env \<Rightarrow> json_row \<Rightarrow> json_row res" where
  "rule_based_trade_review env context =
     bind_res (review_number env context ''spread_bps'' (Fin 0)) (\<lambda>spread.
     bind_res (review_number env context ''liquidity_score'' (Fin 1)) (\<lambda>liquidity.
     bind_res (review_number env context ''orderflow_score'' (Fin 0)) (\<lambda>orderflow.
       let (concern, concerns) = rule_concerns spread liquidity orderflow; reject = flt (dec 35 100) concern
       in Inr [(''approved'', JBool (\<not> reject)), (''concern_score'', JNum (fround_to (fmin concern (Fin 1)) 3)),
            (''concerns'', JList (map JText (if concerns = [] then [''RULES_CLEAR''] else concerns))),
            (''summary'', JText (''Rule-based fallback review used. '' @
               (if reject then ''Setup is blocked by risk concerns.'' else ''Setup has no major rule-based blockers.''))),
            (''action'', JText (if reject then ''REJECT'' else ''ALLOW''))])))"

section \<open>The client\<close>

definition prompt_version :: string where "prompt_version = ''mytradingmind.llm.v1''"

definition set_default :: "string \<Rightarrow> json \<Rightarrow> json_row \<Rightarrow> json_row" where
  "set_default k v r = (if dict_get r k = None then dict_set k v r else r)"

definition audit_verdict :: "string \<Rightarrow> bool \<Rightarrow> pyfloat \<Rightarrow> json_row \<Rightarrow> json_row" where
  "audit_verdict model fallback_used latency r0 =
     (let r = set_default ''approved'' (JBool (j_get r0 ''action'' JNull \<noteq> JText ''REJECT'')) r0;
          r = set_default ''summary'' (JText []) (set_default ''concerns'' (JList []) (set_default ''concern_score'' (JNum (dec 25 100)) r));
          r = set_default ''action'' (JText (if truthy (j_get r ''approved'' JNull) then ''ALLOW'' else ''REJECT'')) r
      in dict_update r [(''model_used'', JText model), (''prompt_version'', JText prompt_version), (''fallback_used'', JBool fallback_used),
           (''latency_ms'', JNum (fround_to latency 2))])"

definition rules_verdict :: "py_env \<Rightarrow> pyfloat \<Rightarrow> json_row \<Rightarrow> json_row res" where
  "rules_verdict env latency context =
     bind_res (rule_based_trade_review env context) (\<lambda>r. Inr (audit_verdict ''rules'' True latency r))"

text \<open>Whatever goes wrong with the model or its answer falls back on the rules.\<close>

definition client_review_trade ::
    "py_env \<Rightarrow> string \<Rightarrow> (json_row \<Rightarrow> string option option) \<Rightarrow> pyfloat \<Rightarrow> json_row \<Rightarrow> json_row res" where
  "client_review_trade env model ask latency context =
     (if str_lower (pe_llm_mode env) = ''rules'' \<or> \<not> pe_llm_enabled env \<or> \<not> pe_openai_key env then rules_verdict env latency context
      else (case ask context of
          None \<Rightarrow> rules_verdict env latency context
        | Some answer \<Rightarrow>
            (case pe_loads env (case answer of Some t \<Rightarrow> if t = [] then ''{}'' else t | None \<Rightarrow> ''{}'') of
               Some (JObj r) \<Rightarrow> Inr (audit_verdict model False latency r)
             | _ \<Rightarrow> rules_verdict env latency context)))"

section \<open>The agent\<close>

definition overrule :: "json_row \<Rightarrow> json_row" where
  "overrule verdict = dict_update verdict [(''approved'', JBool False), (''action'', JText ''REJECT'')]"

definition verdict_concern :: "py_env \<Rightarrow> json_row \<Rightarrow> pyfloat res" where
  "verdict_concern env verdict = float_get env verdict ''concern_score''"

definition agent_review_trade ::
    "py_env \<Rightarrow> string \<Rightarrow> (json_row \<Rightarrow> string option option) \<Rightarrow> pyfloat \<Rightarrow> json_row \<Rightarrow> json_row res" where
  "agent_review_trade env model ask latency context =
     bind_res (client_review_trade env model ask latency context) (\<lambda>verdict.
     bind_res (verdict_concern env verdict) (\<lambda>concern. Inr (if flt (dec 35 100) concern then overrule verdict else verdict)))"

definition explain_status :: "py_env \<Rightarrow> string \<Rightarrow> (json_row \<Rightarrow> string option option) \<Rightarrow> pyfloat \<Rightarrow> json_row \<Rightarrow> string res" where
  "explain_status env model ask latency context =
     bind_res (agent_review_trade env model ask latency context) (\<lambda>verdict.
       Inr (py_str env (j_get verdict ''summary'' (JText ''Rule-based reasoning unavailable.''))))"

definition explain_trade :: "py_env \<Rightarrow> json_row \<Rightarrow> string" where
  "explain_trade env verdict =
     py_str env (j_or (j_get verdict ''summary'' JNull) (JText ''Trade explanation is available through deterministic fallback.''))"

definition journal_commentary :: "py_env \<Rightarrow> json_row \<Rightarrow> string" where
  "journal_commentary env event =
     str_strip (py_str env (j_get event ''decision'' (JText ''UNKNOWN'')) @ '': '' @ py_str env (j_get event ''reason'' (JText [])))"

section \<open>Failure drills\<close>

datatype failure = Stale_Feed | Oms_Desync | Queue_Overload

definition failure_reason :: "failure \<Rightarrow> string" where
  "failure_reason f = (case f of Stale_Feed \<Rightarrow> ''stale feeds'' | Oms_Desync \<Rightarrow> ''OMS desync'' | Queue_Overload \<Rightarrow> ''queue overload'')"

definition inject :: "failure \<Rightarrow> risk_engine \<Rightarrow> risk_engine" where
  "inject f e = fst (trigger_kill_switch e (failure_reason f))"

section \<open>What a review guarantees\<close>

lemma dec_16_100: "dec 16 100 = Fin (5764607523034235 / 36028797018963968)"
  using fround_eval[of "1 / 2 ^ 55" "- 55" "4 / 25" "5764607523034235"]
  by (simp add: dec_def power_int_def power_one_over)

lemma concern_1: "fround (5404319552844595 / 18014398509481984) = Fin (5404319552844595 / 18014398509481984)"
  using fround_eval[of "1 / 2 ^ 54" "- 54" "5404319552844595 / 18014398509481984" "5404319552844595"]
  by (simp add: power_int_def power_one_over)

lemma concern_2: "fround (1080863910568919 / 2251799813685248) = Fin (1080863910568919 / 2251799813685248)"
  using fround_eval[of "1 / 2 ^ 54" "- 54" "1080863910568919 / 2251799813685248" "8646911284551352"]
  by (simp add: power_int_def power_one_over)

lemma concern_3: "fround (16573246628723425 / 36028797018963968) = Fin (517913957147607 / 1125899906842624)"
  using fround_eval[of "1 / 2 ^ 54" "- 54" "16573246628723425 / 36028797018963968" "8286623314361712"]
  by (simp add: power_int_def power_one_over)

lemma concern_4: "fround (23058430092136939 / 36028797018963968) = Fin (5764607523034235 / 9007199254740992)"
  using fround_eval[of "1 / 2 ^ 53" "- 53" "23058430092136939 / 36028797018963968" "5764607523034235"]
  by (simp add: power_int_def power_one_over)

lemma concern_5: "fround (10088063165309911 / 36028797018963968) = Fin (1261007895663739 / 4503599627370496)"
  using fround_eval[of "1 / 2 ^ 54" "- 54" "10088063165309911 / 36028797018963968" "5044031582654956"]
  by (simp add: power_int_def power_one_over)

text \<open>The rules reject exactly when two of the three concerns hold.\<close>

lemma rule_concerns_reject:
  "flt (dec 35 100) (fst (rule_concerns spread liquidity orderflow)) \<longleftrightarrow> 2 \<le> length (snd (rule_concerns spread liquidity orderflow))"
  by (simp add: rule_concerns_def raise_concern_def dec_lits dec_16_100 concern_1 concern_2 concern_3 concern_4 concern_5)

lemma set_default_get: "dict_get (set_default k v r) k' = (if k' = k \<and> dict_get r k = None then Some v else dict_get r k')"
  by (simp add: set_default_def)

lemma overrule_gets:
  "dict_get (overrule r) ''approved'' = Some (JBool False)" "dict_get (overrule r) ''action'' = Some (JText ''REJECT'')"
  "dict_get (overrule r) ''concern_score'' = dict_get r ''concern_score''"
  by (simp_all add: overrule_def)

text \<open>Every verdict a client returns has the five fields a caller reads.\<close>

definition complete_verdict :: "json_row \<Rightarrow> bool" where
  "complete_verdict r = list_all (\<lambda>k. dict_get r k \<noteq> None) [''approved'', ''concern_score'', ''concerns'', ''summary'', ''action'']"

lemma audit_complete: "complete_verdict (audit_verdict model fb latency r)"
  by (simp add: complete_verdict_def audit_verdict_def Let_def set_default_get)

lemma client_audits:
  "client_review_trade env model ask latency context = Inr v \<Longrightarrow> \<exists>m fb r. v = audit_verdict m fb latency r"
  by (auto simp: client_review_trade_def rules_verdict_def bind_res_eq_Inr split: if_splits option.splits json.splits)

text \<open>Whoever answered, rules or model: a verdict the agent returns has the five fields, and one that is still approved has a
  concern of at most 0.35. Beyond that the agent hands on the answer of the client.
\<close>

theorem approved_review_has_little_concern:
  assumes "agent_review_trade env model ask latency context = Inr verdict"
  shows "complete_verdict verdict \<and> (\<exists>c. verdict_concern env verdict = Inr c \<and>
    (if flt (dec 35 100) c then dict_get verdict ''approved'' = Some (JBool False) \<and> dict_get verdict ''action'' = Some (JText ''REJECT'')
     else client_review_trade env model ask latency context = Inr verdict))"
proof -
  obtain v c where v: "client_review_trade env model ask latency context = Inr v" "verdict_concern env v = Inr c"
    "verdict = (if flt (dec 35 100) c then overrule v else v)"
    using assms by (auto simp: agent_review_trade_def bind_res_eq_Inr)
  have "complete_verdict v" using client_audits[OF v(1)] audit_complete by auto
  moreover have "complete_verdict (overrule v)" if "complete_verdict v"
    using that by (simp add: complete_verdict_def overrule_def)
  moreover have "verdict_concern env (overrule v) = verdict_concern env v"
    by (simp add: verdict_concern_def float_get_def dict_get_or_def overrule_gets(3))
  ultimately show ?thesis using v by (simp add: overrule_gets)
qed

text \<open>Whether an answer of the model is used.\<close>

definition answers_object :: "py_env \<Rightarrow> string option option \<Rightarrow> bool" where
  "answers_object env answer = (case answer of None \<Rightarrow> False
     | Some t \<Rightarrow> (case pe_loads env (case t of Some t \<Rightarrow> if t = [] then ''{}'' else t | None \<Rightarrow> ''{}'') of Some (JObj _) \<Rightarrow> True | _ \<Rightarrow> False))"

lemma rules_decide:
  assumes "str_lower (pe_llm_mode env) = ''rules'' \<or> \<not> pe_llm_enabled env \<or> \<not> pe_openai_key env \<or> \<not> answers_object env (ask context)"
  shows "client_review_trade env model ask latency context = rules_verdict env latency context"
  using assms by (auto simp: client_review_trade_def answers_object_def split: option.splits json.splits)

lemma audited_rules:
  assumes "dict_get r ''approved'' = Some a" and "dict_get r ''concern_score'' = Some c" and "dict_get r ''concerns'' = Some cs"
    and "dict_get r ''action'' = Some act"
  shows "dict_get (audit_verdict m fb l r) ''approved'' = Some a" "dict_get (audit_verdict m fb l r) ''concern_score'' = Some c"
    "dict_get (audit_verdict m fb l r) ''concerns'' = Some cs" "dict_get (audit_verdict m fb l r) ''action'' = Some act"
  using assms by (simp_all add: audit_verdict_def Let_def set_default_get)

lemma dec_48_100: "dec 48 100 = Fin (1080863910568919 / 2251799813685248)"
  using fround_eval[of "1 / 2 ^ 54" "- 54" "12 / 25" "8646911284551352"]
  by (simp add: dec_def power_int_def power_one_over)

lemma dec_46_100: "dec 46 100 = Fin (8286623314361713 / 18014398509481984)"
  using fround_eval[of "1 / 2 ^ 54" "- 54" "23 / 50" "8286623314361713"]
  by (simp add: dec_def power_int_def power_one_over)

lemma dec_64_100: "dec 64 100 = Fin (5764607523034235 / 9007199254740992)"
  using fround_eval[of "1 / 2 ^ 53" "- 53" "16 / 25" "5764607523034235"]
  by (simp add: dec_def power_int_def power_one_over)

lemma dec_28_100: "dec 28 100 = Fin (1261007895663739 / 4503599627370496)"
  using fround_eval[of "1 / 2 ^ 54" "- 54" "7 / 25" "5044031582654956"]
  by (simp add: dec_def power_int_def power_one_over)

lemma round_near:
  assumes "\<bar>q * 10 ^ n - of_int m\<bar> < 1 / 2"
  shows "fround_to (Fin q) n = fround (of_int m / 10 ^ n)"
proof -
  have "rhe (q * 10 ^ n) = m" using assms by (intro rhe_unique disjI1)
  then show ?thesis by simp
qed

lemma rounded_concerns:
  "fround_to (Fin (1080863910568919 / 9007199254740992)) 3 = dec 12 100"
  "fround_to (Fin (5404319552844595 / 18014398509481984)) 3 = dec 3 10"
  "fround_to (Fin (1080863910568919 / 2251799813685248)) 3 = dec 48 100"
  "fround_to (Fin (517913957147607 / 1125899906842624)) 3 = dec 46 100"
  "fround_to (Fin (5764607523034235 / 9007199254740992)) 3 = dec 64 100"
  "fround_to (Fin (1261007895663739 / 4503599627370496)) 3 = dec 28 100"
  using round_near[of "1080863910568919 / 9007199254740992" 3 120]
    round_near[of "5404319552844595 / 18014398509481984" 3 300]
    round_near[of "1080863910568919 / 2251799813685248" 3 480]
    round_near[of "517913957147607 / 1125899906842624" 3 460]
    round_near[of "5764607523034235 / 9007199254740992" 3 640]
    round_near[of "1261007895663739 / 4503599627370496" 3 280]
  by (simp_all add: dec_def del: fround_to.simps)

lemma rules_review_consistent:
  "flt (dec 35 100) (fround_to (fmin (fst (rule_concerns spread liquidity orderflow)) (Fin 1)) 3) \<longleftrightarrow>
   flt (dec 35 100) (fst (rule_concerns spread liquidity orderflow))"
  by (simp add: rule_concerns_def raise_concern_def dec_lits dec_16_100 concern_1 concern_2 concern_3 concern_4 concern_5 fmin_def
      rounded_concerns dec_48_100 dec_46_100 dec_64_100 dec_28_100 del: fround_to.simps)

text \<open>The concerns of a trade in the order the rules look for them.\<close>

definition concern_names :: "pyfloat \<Rightarrow> pyfloat \<Rightarrow> pyfloat \<Rightarrow> string list" where
  "concern_names spread liquidity orderflow = map snd (filter fst
     [(flt (Fin 12) spread, ''SPREAD_WIDE''), (flt liquidity (dec 35 100), ''LIQUIDITY_THIN''), (flt orderflow (Fin 35), ''ORDERFLOW_WEAK'')])"

lemma rule_concerns_names: "snd (rule_concerns spread liquidity orderflow) = concern_names spread liquidity orderflow"
  by (simp add: rule_concerns_def raise_concern_def concern_names_def)

text \<open>\<open>C31\<close>: Without a model, or when it fails or answers no object, the agent rejects exactly the trades of which at least two of spread,
  liquidity and order flow raise concern, and the verdict names them.
\<close>

theorem rules_reject_iff_two_concerns:
  assumes "str_lower (pe_llm_mode env) = ''rules'' \<or> \<not> pe_llm_enabled env \<or> \<not> pe_openai_key env \<or> \<not> answers_object env (ask context)"
    and "review_number env context ''spread_bps'' (Fin 0) = Inr spread"
    and "review_number env context ''liquidity_score'' (Fin 1) = Inr liquidity"
    and "review_number env context ''orderflow_score'' (Fin 0) = Inr orderflow"
  shows "\<exists>verdict. agent_review_trade env model ask latency context = Inr verdict \<and>
    (let names = concern_names spread liquidity orderflow; allowed = length names < 2
     in dict_get verdict ''approved'' = Some (JBool allowed) \<and> dict_get verdict ''action'' = Some (JText (if allowed then ''ALLOW'' else ''REJECT'')) \<and>
        dict_get verdict ''concerns'' = Some (JList (map JText (if names = [] then [''RULES_CLEAR''] else names))))"
proof -
  let ?names = "concern_names spread liquidity orderflow" and ?concern = "fst (rule_concerns spread liquidity orderflow)"
  have rej: "flt (dec 35 100) ?concern \<longleftrightarrow> \<not> length ?names < 2" by (simp add: rule_concerns_reject rule_concerns_names not_less)
  obtain r where r: "rule_based_trade_review env context = Inr r" "dict_get r ''approved'' = Some (JBool (length ?names < 2))"
    "dict_get r ''concern_score'' = Some (JNum (fround_to (fmin ?concern (Fin 1)) 3))"
    "dict_get r ''concerns'' = Some (JList (map JText (if ?names = [] then [''RULES_CLEAR''] else ?names)))"
    "dict_get r ''action'' = Some (JText (if length ?names < 2 then ''ALLOW'' else ''REJECT''))"
    using assms(2-4) rej by (auto simp: rule_based_trade_review_def rule_concerns_names[symmetric] case_prod_beta Let_def)
  let ?v = "audit_verdict ''rules'' True latency r"
  note v = audited_rules[OF r(2,3,4,5), of "''rules''" True latency]
  have client: "client_review_trade env model ask latency context = Inr ?v"
    using rules_decide[of env ask "context" model latency, OF assms(1)] r(1) by (simp add: rules_verdict_def)
  have "\<exists>c. verdict_concern env ?v = Inr c \<and> (flt (dec 35 100) c \<longleftrightarrow> \<not> length ?names < 2)"
  proof (cases "fround_to (fmin ?concern (Fin 1)) 3 = Fin 0")
    case True
    then show ?thesis using v(2) rej rules_review_consistent[of spread liquidity orderflow]
      by (simp add: verdict_concern_def float_get_def dict_get_or_def j_or_def truthy_def)
  next
    case False
    then show ?thesis using v(2) rej rules_review_consistent[of spread liquidity orderflow]
      by (simp add: verdict_concern_def float_get_def dict_get_or_def j_or_def truthy_def)
  qed
  then obtain c where c: "verdict_concern env ?v = Inr c" "flt (dec 35 100) c \<longleftrightarrow> \<not> length ?names < 2" by blast
  have agent: "agent_review_trade env model ask latency context = Inr (if flt (dec 35 100) c then overrule ?v else ?v)"
    using client c(1) by (simp add: agent_review_trade_def)
  show ?thesis unfolding agent using v c(2)
    by (cases "length ?names < 2") (simp_all add: Let_def overrule_gets, simp_all add: overrule_def)
qed

section \<open>A trade of two concerns\<close>

definition review_env :: py_env where
  "review_env = \<lparr>pe_clock = int, pe_show = (\<lambda>_. []), pe_repr = id, pe_parse_float = (\<lambda>_. None), pe_fromiso = (\<lambda>_. None),
     pe_loads = (\<lambda>_. Some (JObj [(''concern_score'', JNum (Fin (1 / 2))), (''approved'', JBool True)])),
     pe_llm_mode = ''rules'', pe_llm_enabled = True, pe_openai_key = True\<rparr>"

definition wide_and_weak :: json_row where
  "wide_and_weak = [(''spread_bps'', JNum (Fin 20)), (''orderflow_score'', JNum (Fin 10))]"

lemma wide_and_weak_numbers:
  "review_number review_env wide_and_weak ''spread_bps'' (Fin 0) = Inr (Fin 20)"
  "review_number review_env wide_and_weak ''liquidity_score'' (Fin 1) = Inr (Fin 1)"
  "review_number review_env wide_and_weak ''orderflow_score'' (Fin 0) = Inr (Fin 10)"
  by (simp_all add: review_number_def wide_and_weak_def dict_get_or_def j_or_def truthy_def py_float_def)

lemma wide_and_weak_names: "concern_names (Fin 20) (Fin 1) (Fin 10) = [''SPREAD_WIDE'', ''ORDERFLOW_WEAK'']"
  by (simp add: concern_names_def dec_lits)

theorem rules_reject_iff_two_concerns_witness:
  "\<exists>verdict. agent_review_trade review_env ''m'' (\<lambda>_. None) (Fin 0) wide_and_weak = Inr verdict \<and>
     dict_get verdict ''approved'' = Some (JBool False) \<and>
     dict_get verdict ''concerns'' = Some (JList [JText ''SPREAD_WIDE'', JText ''ORDERFLOW_WEAK''])"
  using rules_reject_iff_two_concerns[OF _ wide_and_weak_numbers, of "\<lambda>_. None" "''m''" "Fin 0"]
  by (auto simp: answers_object_def wide_and_weak_names Let_def)

text \<open>A model that approves a trade of concern 0.5 is overruled.\<close>

definition modelled_env :: py_env where
  "modelled_env = review_env\<lparr>pe_llm_mode := ''openai''\<rparr>"

lemma modelled_answer:
  "agent_review_trade modelled_env ''m'' (\<lambda>_. Some (Some ''answer'')) (Fin 0) wide_and_weak =
   Inr (overrule (audit_verdict ''m'' False (Fin 0) [(''concern_score'', JNum (Fin (1 / 2))), (''approved'', JBool True)]))"
proof -
  have mode: "str_lower ''openai'' \<noteq> ''rules''" by code_simp
  have "client_review_trade modelled_env ''m'' (\<lambda>_. Some (Some ''answer'')) (Fin 0) wide_and_weak =
      Inr (audit_verdict ''m'' False (Fin 0) [(''concern_score'', JNum (Fin (1 / 2))), (''approved'', JBool True)])"
    using mode by (simp add: client_review_trade_def modelled_env_def review_env_def)
  moreover have "verdict_concern modelled_env (audit_verdict ''m'' False (Fin 0) [(''concern_score'', JNum (Fin (1 / 2))), (''approved'', JBool True)]) =
      Inr (Fin (1 / 2))"
    by (simp add: verdict_concern_def float_get_def dict_get_or_def audit_verdict_def Let_def set_default_get j_or_def truthy_def)
  ultimately show ?thesis by (simp add: agent_review_trade_def dec_lits)
qed

theorem approved_review_has_little_concern_witness:
  "dict_get (overrule (audit_verdict ''m'' False (Fin 0) [(''concern_score'', JNum (Fin (1 / 2))), (''approved'', JBool True)])) ''approved'' =
     Some (JBool False) \<and>
   complete_verdict (overrule (audit_verdict ''m'' False (Fin 0) [(''concern_score'', JNum (Fin (1 / 2))), (''approved'', JBool True)]))"
  using approved_review_has_little_concern[OF modelled_answer] by (simp add: overrule_gets)

section \<open>What a drill does\<close>

text \<open>Whichever failure is drilled, no signal is approved afterwards, and nothing but the switch and its alert has changed.\<close>

lemma drill_stops_trading:
  "\<not> rd_approved (snd (approve (inject f e) s)) \<and> fst (approve (inject f e) s) = inject f e \<and>
   inject f e = e\<lparr>re_kill_switch_active := True, re_alerts := re_alerts e @ [failure_reason f]\<rparr>"
  by (simp add: inject_def trigger_kill_switch_def approve_def refuse_def)

end
