(* ===== verification/Scan_Repository.thy ===== *)
theory Scan_Repository
  imports Db_Table Replay_Metrics
begin

text \<open>
  The scan store (\<open>storage/scan_repository.py\<close>): the live scan of every symbol, the figures and trades of every
  replay run, and the heartbeats of the scanner, written in one transaction. \<open>fl\<close> is what the server keeps of a
  number (its FLOAT columns are single precision), \<open>stamp\<close> the text of a time read back, \<open>order\<close> and \<open>newest\<close> the
  ORDER BY of a query.
\<close>

section \<open>Schema\<close>

definition scanner_heartbeat_columns :: "column list" where
  "scanner_heartbeat_columns =
     [required_time ''generated_at'', required ''source'', required ''base_url'', required ''symbols_ok'', required ''symbols_error'',
      required ''refresh_seconds'', defaulted ''errors_json'' (JText ''{}''), stamped ''created_at'']"

definition live_scan_columns :: "column list" where
  "live_scan_columns =
     map required [''symbol'', ''scan_bucket'', ''scan_reason'', ''last_close''] @
     map optional [''active_entry'', ''active_pnl'', ''active_pnl_pct''] @
     map (\<lambda>n. defaulted n (JNum (Fin 0))) [''watch_score'', ''buy_score'', ''sell_score'', ''orderflow_score'', ''confidence_score''] @
     map (\<lambda>n. defaulted n (JText [])) [''watch_missing'', ''buy_missing'', ''sell_missing'', ''orderflow_reason'', ''confidence_reason''] @
     map required [''trades'', ''win_rate'', ''total_pnl'', ''profit_factor''] @ [required_time ''updated_at'']"

definition replay_metric_columns :: "column list" where
  "replay_metric_columns =
     map required [''run_id'', ''symbol'', ''candles'', ''trades'', ''wins'', ''losses'', ''win_rate'', ''total_pnl'', ''total_return_pct'',
       ''profit_factor'', ''max_drawdown_pct'', ''avg_trade_return_pct'', ''sharpe_proxy'', ''last_close'', ''scan_bucket'', ''scan_reason''] @
     map (\<lambda>n. defaulted n (JNum (Fin 0))) [''watch_score'', ''buy_score'', ''sell_score'', ''orderflow_score'', ''confidence_score''] @
     [defaulted ''confidence_reason'' (JText []), stamped ''created_at'']"

definition replay_trade_columns :: "column list" where
  "replay_trade_columns =
     map required [''run_id'', ''symbol''] @ map required_time [''entry_time'', ''exit_time''] @
     map required [''entry_price'', ''exit_price'', ''stop_price'', ''take_profit_price'', ''bars_held'', ''return_pct'', ''pnl'', ''exit_reason'']"

record scan_db =
  sc_heartbeats :: "db_row list"
  sc_live :: "db_row list"
  sc_metrics :: "db_row list"
  sc_trades :: "db_row list"

definition empty_scan_db :: scan_db where
  "empty_scan_db = \<lparr>sc_heartbeats = [], sc_live = [], sc_metrics = [], sc_trades = []\<rparr>"

section \<open>Values\<close>

definition finite_factor :: "pyfloat \<Rightarrow> pyfloat" where
  "finite_factor x = (if x = PosInf \<or> x = NegInf then Fin 999999 else if x = NaN then Fin 0 else x)"

definition parse_scan_datetime :: "py_env \<Rightarrow> string \<Rightarrow> instant res" where
  "parse_scan_datetime env s =
     (case pe_fromiso env (concat (map (\<lambda>c. if c = CHR ''Z'' then ''+00:00'' else [c]) s)) of
        Some t \<Rightarrow> Inr t | None \<Rightarrow> Inl (ValueError ''Invalid isoformat string''))"

definition heartbeat_payload :: "py_env \<Rightarrow> db_server \<Rightarrow> json_row \<Rightarrow> (instant \<times> db_row) res" where
  "heartbeat_payload env ds h =
     bind_res (j_at h ''generated_at'') (\<lambda>g. bind_res (parse_scan_datetime env (py_str env g)) (\<lambda>t.
     bind_res (j_at h ''source'') (\<lambda>source. bind_res (j_at h ''base_url'') (\<lambda>url.
     bind_res (bind_res (j_at h ''symbols_ok'') py_int) (\<lambda>good. bind_res (bind_res (j_at h ''symbols_error'') py_int) (\<lambda>bad.
     bind_res (bind_res (j_at h ''refresh_seconds'') py_int) (\<lambda>refresh.
       Inr (t, [(''generated_at'', Time t), (''source'', c_text (py_str env source)), (''base_url'', c_text (py_str env url)),
         (''symbols_ok'', Json (JInt good)), (''symbols_error'', Json (JInt bad)), (''refresh_seconds'', Json (JInt refresh)),
         (''errors_json'', c_text (ds_dumps ds (j_get h ''errors'' (JObj []))))]))))))))"

abbreviation c_num :: "(pyfloat \<Rightarrow> pyfloat) \<Rightarrow> pyfloat \<Rightarrow> cell" where "c_num fl x \<equiv> Json (JNum (fl x))"

definition c_opt :: "(pyfloat \<Rightarrow> pyfloat) \<Rightarrow> pyfloat option \<Rightarrow> cell" where
  "c_opt fl x = (case x of None \<Rightarrow> c_null | Some x \<Rightarrow> c_num fl x)"

definition live_scan_values :: "(pyfloat \<Rightarrow> pyfloat) \<Rightarrow> instant \<Rightarrow> symbol_metrics \<Rightarrow> db_row" where
  "live_scan_values fl generated_at m =
     (let p = sm_proximity m in
      [(''symbol'', c_text (sm_symbol m)), (''scan_bucket'', c_text (sm_scan_bucket m)), (''scan_reason'', c_text (sm_scan_reason m)),
       (''last_close'', c_num fl (sm_last_close m)), (''active_entry'', c_opt fl (sm_active_entry m)), (''active_pnl'', c_opt fl (sm_active_pnl m)),
       (''active_pnl_pct'', c_opt fl (sm_active_pnl_pct m)), (''watch_score'', c_num fl (px_watch_score p)),
       (''buy_score'', c_num fl (px_buy_score p)), (''sell_score'', c_num fl (px_sell_score p)),
       (''orderflow_score'', c_num fl (px_orderflow_score p)), (''confidence_score'', c_num fl (sm_confidence_score m)),
       (''watch_missing'', c_text (px_watch_missing p)), (''buy_missing'', c_text (px_buy_missing p)),
       (''sell_missing'', c_text (px_sell_missing p)), (''orderflow_reason'', c_text (px_orderflow_reason p)),
       (''confidence_reason'', c_text (sm_confidence_reason m)), (''trades'', Json (JInt (int (sm_trades m)))),
       (''win_rate'', c_num fl (sm_win_rate m)), (''total_pnl'', c_num fl (sm_total_pnl m)),
       (''profit_factor'', c_num fl (finite_factor (sm_profit_factor m))), (''updated_at'', Time generated_at)])"

definition replay_metric_values :: "(pyfloat \<Rightarrow> pyfloat) \<Rightarrow> string \<Rightarrow> symbol_metrics \<Rightarrow> db_row" where
  "replay_metric_values fl run_id m =
     (let p = sm_proximity m; n = (\<lambda>k x. (k, c_num fl x)); i = (\<lambda>k x. (k, Json (JInt (int x)))) in
      [(''run_id'', c_text run_id), (''symbol'', c_text (sm_symbol m)), i ''candles'' (sm_candles m), i ''trades'' (sm_trades m),
       i ''wins'' (sm_wins m), i ''losses'' (sm_losses m), n ''win_rate'' (sm_win_rate m), n ''total_pnl'' (sm_total_pnl m),
       n ''total_return_pct'' (sm_total_return_pct m), n ''profit_factor'' (finite_factor (sm_profit_factor m)),
       n ''max_drawdown_pct'' (sm_max_drawdown_pct m), n ''avg_trade_return_pct'' (sm_avg_trade_return_pct m),
       n ''sharpe_proxy'' (sm_sharpe_proxy m), n ''last_close'' (sm_last_close m), (''scan_bucket'', c_text (sm_scan_bucket m)),
       (''scan_reason'', c_text (sm_scan_reason m)), n ''watch_score'' (px_watch_score p), n ''buy_score'' (px_buy_score p),
       n ''sell_score'' (px_sell_score p), n ''orderflow_score'' (px_orderflow_score p), n ''confidence_score'' (sm_confidence_score m),
       (''confidence_reason'', c_text (sm_confidence_reason m))])"

definition replay_trade_values :: "py_env \<Rightarrow> (pyfloat \<Rightarrow> pyfloat) \<Rightarrow> string \<Rightarrow> trade \<Rightarrow> db_row res" where
  "replay_trade_values env fl run_id t =
     bind_res (parse_scan_datetime env (tr_entry_time t)) (\<lambda>entered. bind_res (parse_scan_datetime env (tr_exit_time t)) (\<lambda>exited.
       Inr [(''run_id'', c_text run_id), (''symbol'', c_text (tr_symbol t)), (''entry_time'', Time entered), (''exit_time'', Time exited),
         (''entry_price'', c_num fl (tr_entry_price t)), (''exit_price'', c_num fl (tr_exit_price t)),
         (''stop_price'', c_num fl (tr_stop_price t)), (''take_profit_price'', c_num fl (tr_take_profit_price t)),
         (''bars_held'', Json (JInt (tr_bars_held t))), (''return_pct'', c_num fl (tr_return_pct t)), (''pnl'', c_num fl (tr_pnl t)),
         (''exit_reason'', c_text (tr_exit_reason t))]))"

section \<open>The transaction\<close>

text \<open>
  \<open>INSERT ... ON DUPLICATE KEY UPDATE\<close> on a table whose only unique key is the columns \<open>key\<close> together; every other column
  of the payload is updated.
\<close>

definition same_keys :: "db_server \<Rightarrow> string list \<Rightarrow> db_row \<Rightarrow> db_row \<Rightarrow> bool" where
  "same_keys ds key r q = list_all (\<lambda>k. same_key ds (c_get r k) (c_get q k)) key"

definition replace_values :: "string list \<Rightarrow> db_row \<Rightarrow> db_row \<Rightarrow> db_row \<Rightarrow> db_row" where
  "replace_values key payload row old = dict_update old (map (\<lambda>k. (k, c_get row k)) (filter (\<lambda>k. k \<notin> set key) (map fst payload)))"

definition upsert_keyed :: "db_server \<Rightarrow> column list \<Rightarrow> string list \<Rightarrow> instant \<Rightarrow> db_row \<Rightarrow> db_row list \<Rightarrow> db_row list res" where
  "upsert_keyed ds cols key now payload table =
     bind_res (new_row ds cols now payload) (\<lambda>row.
       Inr (if list_ex (same_keys ds key row) table
            then update_first (same_keys ds key row) (replace_values key payload row) table else table @ [row]))"

definition live_key :: "string list" where "live_key = [''symbol'']"
definition run_key :: "string list" where "run_key = [''run_id'', ''symbol'']"

definition write_metric ::
    "db_server \<Rightarrow> (pyfloat \<Rightarrow> pyfloat) \<Rightarrow> instant \<Rightarrow> instant \<Rightarrow> string \<Rightarrow> symbol_metrics \<Rightarrow>
     db_row list \<times> db_row list \<Rightarrow> (db_row list \<times> db_row list) res" where
  "write_metric ds fl now generated_at run_id m = (\<lambda>(live, figures).
     bind_res (upsert_keyed ds live_scan_columns live_key now (live_scan_values fl generated_at m) live) (\<lambda>live'.
     bind_res (upsert_keyed ds replay_metric_columns run_key now (replay_metric_values fl run_id m) figures) (\<lambda>figures'.
       Inr (live', figures'))))"

definition of_run :: "db_server \<Rightarrow> string \<Rightarrow> db_row \<Rightarrow> bool" where
  "of_run ds run_id r = same_key ds (c_get r ''run_id'') (c_text run_id)"

definition scan_state_after ::
    "py_env \<Rightarrow> db_server \<Rightarrow> (pyfloat \<Rightarrow> pyfloat) \<Rightarrow> instant \<Rightarrow> symbol_metrics list \<Rightarrow> trade list \<Rightarrow> json_row \<Rightarrow> string \<Rightarrow> scan_db \<Rightarrow> scan_db res" where
  "scan_state_after env ds fl now metrics trades heartbeat run_id db =
     bind_res (heartbeat_payload env ds heartbeat) (\<lambda>(generated_at, beat).
     bind_res (new_row ds scanner_heartbeat_columns now beat) (\<lambda>beat_row.
     bind_res (fold_res (write_metric ds fl now generated_at run_id) metrics (sc_live db, sc_metrics db)) (\<lambda>(live, figures).
     bind_res (map_res (replay_trade_values env fl run_id) trades) (\<lambda>payloads.
     bind_res (map_res (new_row ds replay_trade_columns now) payloads) (\<lambda>rows.
       Inr \<lparr>sc_heartbeats = sc_heartbeats db @ [beat_row], sc_live = live, sc_metrics = figures,
            sc_trades = filter (\<lambda>r. \<not> of_run ds run_id r) (sc_trades db) @ rows\<rparr>)))))"

text \<open>Whatever raises before the commit leaves the database as it was.\<close>

definition write_scan_state ::
    "py_env \<Rightarrow> db_server \<Rightarrow> (pyfloat \<Rightarrow> pyfloat) \<Rightarrow> instant \<Rightarrow> symbol_metrics list \<Rightarrow> trade list \<Rightarrow> json_row \<Rightarrow> string \<Rightarrow> scan_db \<Rightarrow>
     (scan_db, unit) outcome" where
  "write_scan_state env ds fl now metrics trades heartbeat run_id db =
     (case scan_state_after env ds fl now metrics trades heartbeat run_id db of Inl e \<Rightarrow> (db, Inl e) | Inr db' \<Rightarrow> (db', Inr ()))"

section \<open>Reading\<close>

definition live_scan_fields :: "string list" where
  "live_scan_fields = [''symbol'', ''scan_bucket'', ''scan_reason'', ''last_close'', ''active_entry'', ''active_pnl'', ''active_pnl_pct'',
     ''watch_score'', ''buy_score'', ''sell_score'', ''orderflow_score'', ''confidence_score'', ''watch_missing'', ''buy_missing'',
     ''sell_missing'', ''orderflow_reason'', ''confidence_reason'', ''trades'', ''win_rate'', ''total_pnl'', ''profit_factor'']"

definition read_live_scan :: "(db_row list \<Rightarrow> db_row list) \<Rightarrow> scan_db \<Rightarrow> db_row list" where
  "read_live_scan order db = map (\<lambda>r. map (\<lambda>k. (k, c_get r k)) live_scan_fields) (order (sc_live db))"

definition read_latest_heartbeat :: "(instant \<Rightarrow> string) \<Rightarrow> (db_row list \<Rightarrow> db_row list) \<Rightarrow> scan_db \<Rightarrow> db_row" where
  "read_latest_heartbeat stamp newest db =
     (case newest (sc_heartbeats db) of
        [] \<Rightarrow> [(''generated_at'', c_null), (''source'', c_text ''database_empty''), (''symbols_ok'', Json (JInt 0)), (''symbols_error'', Json (JInt 0))]
      | r # _ \<Rightarrow> (''generated_at'', case c_get r ''generated_at'' of Time t \<Rightarrow> c_text (stamp t) | c \<Rightarrow> c) #
          map (\<lambda>k. (k, c_get r k)) [''source'', ''base_url'', ''symbols_ok'', ''symbols_error'', ''refresh_seconds''])"

text \<open>\<open>metrics_to_dataframe\<close>: the fields of the metrics in the order of the data class, the profit factor made finite.\<close>

definition metrics_to_dataframe :: "symbol_metrics list \<Rightarrow> symbol_metrics list" where
  "metrics_to_dataframe = map (\<lambda>m. m\<lparr>sm_profit_factor := finite_factor (sm_profit_factor m)\<rparr>)"

end
