(* ===== verification/Scan_Laws.thy ===== *)
theory Scan_Laws
  imports Scan_Repository
begin

text \<open>
  Laws of the scan store. A locale states what an upsert by key promises of a table (\<open>settled\<close>: every row carries
  the last item written under its key) and that writing the same items again changes nothing; it is interpreted on the two
  upserted tables. The properties: a written scan is read back, and writing it again adds a heartbeat only.
\<close>

section \<open>Upserts by key\<close>

definition upsert_step :: "('r \<Rightarrow> 'r \<Rightarrow> bool) \<Rightarrow> ('r \<Rightarrow> 'r \<Rightarrow> 'r) \<Rightarrow> 'r \<Rightarrow> 'r list \<Rightarrow> 'r list" where
  "upsert_step same put a T = (if list_ex (same a) T then update_first (same a) (put a) T else T @ [a])"

definition last_written :: "('r \<Rightarrow> 'r \<Rightarrow> bool) \<Rightarrow> 'r list \<Rightarrow> 'r \<Rightarrow> 'r option" where
  "last_written same ps r = find_first (\<lambda>p. same p r) (rev ps)"

definition settled :: "('r \<Rightarrow> 'r \<Rightarrow> bool) \<Rightarrow> ('r \<Rightarrow> 'r \<Rightarrow> 'r) \<Rightarrow> 'r list \<Rightarrow> 'r list \<Rightarrow> bool" where
  "settled same put ps T \<longleftrightarrow> (\<forall>p\<in>set ps. \<exists>r\<in>set T. same p r) \<and> (\<forall>r\<in>set T. \<forall>p. last_written same ps r = Some p \<longrightarrow> put p r = r)"

definition rewritten :: "('r \<Rightarrow> 'r \<Rightarrow> bool) \<Rightarrow> ('r \<Rightarrow> 'r \<Rightarrow> 'r) \<Rightarrow> 'r list \<Rightarrow> 'r \<Rightarrow> 'r" where
  "rewritten same put ps r = fold (\<lambda>p r. if same p r then put p r else r) ps r"

lemma last_written_simps [simp]:
  "last_written same [] r = None"
  "last_written same (ps @ [a]) r = (if same a r then Some a else last_written same ps r)"
  by (simp_all add: last_written_def)

lemma last_written_same: "last_written same ps r = Some p \<Longrightarrow> p \<in> set ps \<and> same p r"
  by (induction ps rule: rev_induct) (auto split: if_splits)

locale keyed_upserts =
  fixes same :: "'r \<Rightarrow> 'r \<Rightarrow> bool" and put :: "'r \<Rightarrow> 'r \<Rightarrow> 'r" and whole :: "'r \<Rightarrow> bool"
  assumes same_sym: "same a b \<Longrightarrow> same b a"
    and same_trans: "same a b \<Longrightarrow> same b c \<Longrightarrow> same a c"
    and put_same: "whole r \<Longrightarrow> same a (put b r) = same a r"
    and put_whole: "whole a \<Longrightarrow> whole r \<Longrightarrow> whole (put a r)"
    and put_put: "whole r \<Longrightarrow> put a (put b r) = put a r"
    and put_self: "whole a \<Longrightarrow> put a a = a"
begin

abbreviation good :: "'r list \<Rightarrow> bool" where
  "good T \<equiv> list_all whole T \<and> sorted_wrt (\<lambda>a b. \<not> same a b) T"

lemma matched_once:
  assumes "good (ys @ x # zs)" and "same a x"
  shows "\<forall>r\<in>set ys \<union> set zs. \<not> same a r"
proof -
  have "\<not> same r x" if "r \<in> set ys" for r using assms(1) that by (simp add: sorted_wrt_append)
  moreover have "\<not> same x r" if "r \<in> set zs" for r using assms(1) that by (simp add: sorted_wrt_append)
  moreover have "same r x \<and> same x r" if "same a r" for r
    using same_trans[OF same_sym[OF that] assms(2)] same_sym by blast
  ultimately show ?thesis by blast
qed

lemma step_hit:
  assumes "good T" and "list_ex (same a) T"
  obtains ys x zs where "T = ys @ x # zs" "same a x" "\<forall>r\<in>set ys \<union> set zs. \<not> same a r" "upsert_step same put a T = ys @ put a x # zs"
proof -
  obtain ys x zs where s: "T = ys @ x # zs" "same a x" "update_first (same a) (put a) T = ys @ put a x # zs"
    using update_first_split[OF assms(2), of "put a"] by (elim exE conjE) (rule that)
  have "\<forall>r\<in>set ys \<union> set zs. \<not> same a r" using matched_once assms(1) s(1,2) by blast
  then show ?thesis using that s assms(2) by (simp add: upsert_step_def)
qed

lemma step_good:
  assumes "good T" and "whole a"
  shows "good (upsert_step same put a T)"
proof (cases "list_ex (same a) T")
  case True
  obtain ys x zs where s: "T = ys @ x # zs" "same a x" "upsert_step same put a T = ys @ put a x # zs"
    using step_hit[OF assms(1) True] by metis
  have whole: "whole x" using assms(1) s(1) by simp
  have sym: "same (put a x) r = same x r" for r
    using put_same[OF whole, of r a] same_sym by blast
  show ?thesis unfolding s(3) using assms s(1) put_whole[OF assms(2) whole] put_same[OF whole]
    by (simp add: sorted_wrt_append sym)
next
  case False
  then show ?thesis using assms same_sym by (auto simp: upsert_step_def sorted_wrt_append list_ex_iff)
qed

lemma step_settled:
  assumes "good T" and "whole a" and "same a a" and "settled same put ps T"
  shows "settled same put (ps @ [a]) (upsert_step same put a T)"
proof (cases "list_ex (same a) T")
  case True
  obtain ys x zs where s: "T = ys @ x # zs" "same a x" "\<forall>r\<in>set ys \<union> set zs. \<not> same a r" "upsert_step same put a T = ys @ put a x # zs"
    using step_hit[OF assms(1) True] by metis
  have whole: "whole x" using assms(1) s(1) by simp
  have fixed: "put a (put a x) = put a x" "same p (put a x) = same p x" for p
    using put_put[OF whole] put_same[OF whole] by auto
  have "settled same put (ps @ [a]) (ys @ put a x # zs)"
    using assms(4)[unfolded s(1)] s(2,3) unfolding settled_def by (auto simp: fixed)
  then show ?thesis unfolding s(4) .
next
  case False
  then have T: "upsert_step same put a T = T @ [a]" "\<forall>r\<in>set T. \<not> same a r" by (auto simp: upsert_step_def list_ex_iff)
  show ?thesis using assms(4) T(2) put_self[OF assms(2)] assms(3) unfolding settled_def T(1) by auto
qed

lemma steps_settled:
  assumes "good T" and "\<forall>a\<in>set ps. whole a \<and> same a a"
  shows "good (fold (upsert_step same put) ps T) \<and> settled same put ps (fold (upsert_step same put) ps T)"
  using assms
proof (induction ps rule: rev_induct)
  case Nil
  then show ?case by (simp add: settled_def)
next
  case (snoc a ps)
  then show ?case using step_good step_settled by simp
qed

lemma step_map:
  assumes "good T" and "\<exists>r\<in>set T. same a r"
  shows "upsert_step same put a T = map (\<lambda>r. if same a r then put a r else r) T"
proof -
  have "list_ex (same a) T" using assms(2) by (auto simp: list_ex_iff)
  then obtain ys x zs where s: "T = ys @ x # zs" "same a x" "\<forall>r\<in>set ys \<union> set zs. \<not> same a r" "upsert_step same put a T = ys @ put a x # zs"
    using step_hit[OF assms(1)] by metis
  then show ?thesis by (auto intro!: map_idI[symmetric])
qed

text \<open>Over a table that holds a row for every item, the items only rewrite rows; writing again what the table settled on changes none.\<close>

lemma rewritten_last:
  assumes "whole r" and "\<forall>p\<in>set ps. whole p"
  shows "whole (rewritten same put ps r) \<and> (\<forall>b. same b (rewritten same put ps r) = same b r) \<and>
    rewritten same put ps r = (case last_written same ps r of None \<Rightarrow> r | Some p \<Rightarrow> put p r)"
  using assms(2)
proof (induction ps rule: rev_induct)
  case (snoc a ps)
  then have IH: "whole (rewritten same put ps r)" "same b (rewritten same put ps r) = same b r" 
    "rewritten same put ps r = (case last_written same ps r of None \<Rightarrow> r | Some p \<Rightarrow> put p r)" for b by auto
  have "rewritten same put (ps @ [a]) r = (if same a r then put a (rewritten same put ps r) else rewritten same put ps r)"
    by (simp add: rewritten_def IH(2)[unfolded rewritten_def])
  moreover have "put a (rewritten same put ps r) = put a r"
    unfolding IH(3) using put_put[OF assms(1)] by (simp split: option.split)
  ultimately show ?case using snoc.prems IH put_whole put_same[OF assms(1)] assms(1) by simp
qed (use assms in \<open>simp add: rewritten_def\<close>)

lemma steps_map:
  assumes "good T" and "\<forall>a\<in>set ps. whole a \<and> (\<exists>r\<in>set T. same a r)"
  shows "fold (upsert_step same put) ps T = map (rewritten same put ps) T \<and> good (map (rewritten same put ps) T)"
  using assms(2)
proof (induction ps rule: rev_induct)
  case Nil
  then show ?case using assms(1) by (simp add: rewritten_def)
next
  case (snoc a ps)
  then have IH: "fold (upsert_step same put) ps T = map (rewritten same put ps) T" "good (map (rewritten same put ps) T)" by auto
  have same_row: "same b (rewritten same put ps r) = same b r" if "r \<in> set T" for b r
  proof -
    have "whole r" "\<forall>p\<in>set ps. whole p" using assms(1) snoc.prems that by (simp_all add: list_all_iff)
    from rewritten_last[OF this] show ?thesis by blast
  qed
  have "\<exists>r\<in>set (map (rewritten same put ps) T). same a r" using snoc.prems same_row by auto
  from step_map[OF IH(2) this]
  have "fold (upsert_step same put) (ps @ [a]) T = map (rewritten same put (ps @ [a])) T"
    by (simp add: IH(1) rewritten_def)
  moreover have "good (fold (upsert_step same put) (ps @ [a]) T)"
    using step_good[OF IH(2), of a] snoc.prems by (simp add: IH(1))
  ultimately show ?case by simp
qed

lemma steps_again:
  assumes "good T" and "settled same put ps T" and "\<forall>a\<in>set ps \<union> set qs. whole a"
    and "list_all2 (\<lambda>q p. same q = same p \<and> put q = put p) qs ps"
  shows "fold (upsert_step same put) qs T = T"
proof -
  have "\<exists>r\<in>set T. same q r" if "q \<in> set qs" for q
  proof -
    have "\<exists>p\<in>set ps. same q = same p" using assms(4) that by (induction rule: list_all2_induct) auto
    then show ?thesis using assms(2) by (auto simp: settled_def)
  qed
  then have "fold (upsert_step same put) qs T = map (rewritten same put qs) T"
    using steps_map[OF assms(1)] assms(3) by auto
  also have "\<dots> = T"
  proof (rule map_idI)
    have eq: "rewritten same put qs r = rewritten same put ps r" for r
      using assms(4) unfolding rewritten_def by (induction arbitrary: r rule: list_all2_induct) auto
    fix r assume r: "r \<in> set T"
    then show "rewritten same put qs r = r"
      using rewritten_last[of r ps] assms unfolding eq by (auto simp: settled_def list_all_iff split: option.splits)
  qed
  finally show ?thesis .
qed

end

section \<open>The upserted tables\<close>

definition put_columns :: "string list \<Rightarrow> db_row \<Rightarrow> db_row \<Rightarrow> db_row" where
  "put_columns ks a r = dict_update r (map (\<lambda>k. (k, c_get a k)) ks)"

lemma put_columns_names:
  assumes "set ks \<subseteq> set (map fst r)"
  shows "map fst (put_columns ks a r) = map fst r"
proof -
  have "map fst (dict_update r kvs) = map fst r" if "fst ` set kvs \<subseteq> fst ` set r" for kvs r
    using that
  proof (induction r kvs rule: dict_update.induct)
    case (2 d k v kvs)
    have "map fst (dict_set k v d) = map fst d" using 2(2) by (simp add: update_keys)
    moreover have "fst ` set (dict_set k v d) = fst ` set d" using 2(2) by (auto simp: dict_set_keys)
    ultimately show ?case using 2 by simp
  qed simp
  moreover have "fst ` set (map (\<lambda>k. (k, c_get a k)) ks) \<subseteq> fst ` set r" using assms by auto
  ultimately show ?thesis unfolding put_columns_def by blast
qed

lemma put_columns_get: "dict_get (put_columns ks a r) k = (if k \<in> set ks then Some (c_get a k) else dict_get r k)"
proof -
  have "dict_get (map (\<lambda>k. (k, c_get a k)) xs) k = (if k \<in> set xs then Some (c_get a k) else None)" for xs
    by (induction xs) auto
  then show ?thesis by (simp add: put_columns_def dict_get_update rev_map)
qed

lemma rows_eq:
  "map fst r = map fst q \<Longrightarrow> distinct (map fst r) \<Longrightarrow> (\<And>k. dict_get r k = dict_get q k) \<Longrightarrow> r = q"
proof (induction r arbitrary: q)
  case (Cons kv r)
  obtain k v where kv: "kv = (k, v)" by (cases kv)
  with Cons.prems(1) obtain w q' where q: "q = (k, w) # q'" by (cases q) auto
  have vw: "v = w" using Cons.prems(3)[of k] by (simp add: kv q)
  have "dict_get r k' = dict_get q' k'" for k'
  proof (cases "k' = k")
    case True
    have "map fst r = map fst q'" using Cons.prems(1) by (simp add: kv q)
    then have "set (map fst r) = set (map fst q')" by (rule arg_cong)
    moreover have "k \<notin> set (map fst r)" using Cons.prems(2) by (simp add: kv)
    ultimately have "dict_get r k = None" "dict_get q' k = None" by (simp_all add: map_of_eq_None_iff)
    then show ?thesis using True by simp
  qed (use Cons.prems(3)[of k'] in \<open>simp add: kv q\<close>)
  then have "r = q'" using Cons.IH[of q'] Cons.prems(1,2) by (simp add: kv q)
  then show ?case by (simp add: kv q vw)
qed simp

lemma same_key_trans: "same_key ds a b \<Longrightarrow> same_key ds b c \<Longrightarrow> same_key ds a c"
  by (auto simp: same_key_def split: cell.splits json.splits)

lemma keyed_upserts_columns:
  assumes "distinct ns" and "set ks \<subseteq> set ns" and "set ks \<inter> set key = {}"
  shows "keyed_upserts (same_keys ds key) (put_columns ks) (\<lambda>r. map fst r = ns)"
proof
  fix a b c r
  show "same_keys ds key a b \<Longrightarrow> same_keys ds key b a" by (simp add: same_keys_def same_key_sym)
  show "same_keys ds key a b \<Longrightarrow> same_keys ds key b c \<Longrightarrow> same_keys ds key a c"
    by (auto simp: same_keys_def list_all_iff intro: same_key_trans)
  show "same_keys ds key a (put_columns ks b r) = same_keys ds key a r"
    using assms(3) by (auto simp: same_keys_def list_all_iff dict_get_or_def put_columns_get)
  have names: "map fst (put_columns ks a r) = ns" if "map fst r = ns" for a r
    using that put_columns_names[of ks r a] assms(2) by simp
  then show "map fst a = ns \<Longrightarrow> map fst r = ns \<Longrightarrow> map fst (put_columns ks a r) = ns" by blast
  show "put_columns ks a (put_columns ks b r) = put_columns ks a r" if "map fst r = ns"
    by (rule rows_eq) (use names[OF names[OF that, of b], of a] names[OF that, of a] assms(1) in \<open>simp_all add: put_columns_get\<close>)
  show "put_columns ks a a = a" if a: "map fst a = ns"
  proof (rule rows_eq)
    fix k
    show "dict_get (put_columns ks a a) k = dict_get a k"
    proof (cases "k \<in> set ks")
      case True
      then have "dict_get a k \<noteq> None" using assms(2) a by (auto simp: map_of_eq_None_iff simp flip: set_map)
      then show ?thesis using True by (auto simp: put_columns_get dict_get_or_def)
    qed (simp add: put_columns_get)
  qed (use names[OF a, of a] a assms(1) in simp_all)
qed

definition live_values :: "string list" where
  "live_values = filter (\<lambda>k. k \<notin> set live_key) (map co_name live_scan_columns)"

definition run_values :: "string list" where
  "run_values = filter (\<lambda>k. k \<notin> set run_key \<and> k \<noteq> ''created_at'') (map co_name replay_metric_columns)"

lemma scan_columns_distinct: "distinct (map co_name live_scan_columns)" "distinct (map co_name replay_metric_columns)"
  by (simp_all add: live_scan_columns_def replay_metric_columns_def)

interpretation live: keyed_upserts "same_keys ds live_key" "put_columns live_values" "\<lambda>r. map fst r = map co_name live_scan_columns" for ds
  by (rule keyed_upserts_columns) (use scan_columns_distinct in \<open>auto simp: live_values_def\<close>)

interpretation runs: keyed_upserts "same_keys ds run_key" "put_columns run_values" "\<lambda>r. map fst r = map co_name replay_metric_columns" for ds
  by (rule keyed_upserts_columns) (use scan_columns_distinct in \<open>auto simp: run_values_def\<close>)

lemma payload_values:
  "filter (\<lambda>k. k \<notin> set live_key) (map fst (live_scan_values fl t m)) = live_values"
  "filter (\<lambda>k. k \<notin> set run_key) (map fst (replay_metric_values fl run_id m)) = run_values"
  by (simp_all add: live_scan_values_def replay_metric_values_def live_values_def run_values_def Let_def live_key_def run_key_def
      live_scan_columns_def replay_metric_columns_def)

section \<open>What a write inserts\<close>

definition run_row :: "(pyfloat \<Rightarrow> pyfloat) \<Rightarrow> instant \<Rightarrow> string \<Rightarrow> symbol_metrics \<Rightarrow> db_row" where
  "run_row fl now run_id m = replay_metric_values fl run_id m @ [(''created_at'', Time now)]"

lemma new_row_exact:
  assumes "new_row ds cols now payload = Inr row"
    and "\<forall>c\<in>set cols. co_time c \<longrightarrow> (\<exists>t. dict_get_or payload (co_name c) (co_default c now) = Time t)"
  shows "row = map (\<lambda>c. (co_name c, dict_get_or payload (co_name c) (co_default c now))) cols"
proof -
  have same: "stored_cell ds c v = Inr w \<Longrightarrow> (co_time c \<longrightarrow> (\<exists>t. v = Time t)) \<Longrightarrow> w = v" for c v w
    by (auto simp: stored_cell_def split: if_splits cell.splits)
  have "map_res (\<lambda>c. bind_res (stored_cell ds c (f c)) (\<lambda>v. Inr (co_name c, v))) cs = Inr row \<Longrightarrow>
      \<forall>c\<in>set cs. co_time c \<longrightarrow> (\<exists>t. f c = Time t) \<Longrightarrow> row = map (\<lambda>c. (co_name c, f c)) cs" for cs f
    by (induction cs arbitrary: row) (auto simp: bind_res_eq_Inr dest: same)
  then show ?thesis using assms by (auto simp: new_row_def split: if_splits)
qed

lemma live_row: "new_row ds live_scan_columns now (live_scan_values fl t m) = Inr row \<Longrightarrow> row = live_scan_values fl t m"
  by (drule new_row_exact) (simp_all add: live_scan_columns_def live_scan_values_def Let_def dict_get_or_def column_defs)

lemma metric_row: "new_row ds replay_metric_columns now (replay_metric_values fl run_id m) = Inr row \<Longrightarrow> row = run_row fl now run_id m"
  by (drule new_row_exact) (simp_all add: replay_metric_columns_def replay_metric_values_def run_row_def Let_def dict_get_or_def column_defs)

lemma trade_row:
  assumes "replay_trade_values env fl run_id t = Inr payload" and "new_row ds replay_trade_columns now payload = Inr row"
  shows "row = payload \<and> dict_get row ''run_id'' = Some (c_text run_id)"
proof -
  have p: "dict_get payload ''run_id'' = Some (c_text run_id)"
    "row = map (\<lambda>c. (co_name c, dict_get_or payload (co_name c) (co_default c now))) replay_trade_columns \<Longrightarrow> row = payload"
    "\<exists>t. dict_get_or payload ''entry_time'' c_null = Time t" "\<exists>t. dict_get_or payload ''exit_time'' c_null = Time t"
    using assms(1) by (auto simp: replay_trade_values_def bind_res_eq_Inr replay_trade_columns_def dict_get_or_def)
  have "row = payload" using new_row_exact[OF assms(2)] p(2,3,4) by (auto simp: replay_trade_columns_def column_defs)
  then show ?thesis using p(1) by simp
qed

text \<open>Whether a row is accepted does not depend on when.\<close>

lemma accepted_any_time:
  assumes "\<forall>c\<in>set cols. co_default c now = co_default c now2 \<or> co_default c = Time"
  shows "is_ok (new_row ds cols now payload) = is_ok (new_row ds cols now2 payload)"
proof -
  have "is_ok (stored_cell ds c (dict_get_or payload (co_name c) (co_default c now))) =
      is_ok (stored_cell ds c (dict_get_or payload (co_name c) (co_default c now2)))" if "c \<in> set cols" for c
    using assms that by (cases "dict_get payload (co_name c)") (auto simp: dict_get_or_def is_ok_iff)
  then show ?thesis unfolding new_row_ok_iff by auto
qed

lemma scan_accepted_any_time:
  "is_ok (new_row ds live_scan_columns now payload) = is_ok (new_row ds live_scan_columns now2 payload)"
  "is_ok (new_row ds replay_metric_columns now payload) = is_ok (new_row ds replay_metric_columns now2 payload)"
  "is_ok (new_row ds replay_trade_columns now payload) = is_ok (new_row ds replay_trade_columns now2 payload)"
  "is_ok (new_row ds scanner_heartbeat_columns now payload) = is_ok (new_row ds scanner_heartbeat_columns now2 payload)"
  by (rule accepted_any_time; simp add: live_scan_columns_def replay_metric_columns_def replay_trade_columns_def
      scanner_heartbeat_columns_def column_defs)+

definition accepted :: "db_server \<Rightarrow> (pyfloat \<Rightarrow> pyfloat) \<Rightarrow> instant \<Rightarrow> instant \<Rightarrow> string \<Rightarrow> symbol_metrics \<Rightarrow> bool" where
  "accepted ds fl now t run_id m \<longleftrightarrow> is_ok (new_row ds live_scan_columns now (live_scan_values fl t m)) \<and>
     is_ok (new_row ds replay_metric_columns now (replay_metric_values fl run_id m))"

abbreviation live_step :: "db_server \<Rightarrow> db_row \<Rightarrow> db_row list \<Rightarrow> db_row list" where
  "live_step ds \<equiv> upsert_step (same_keys ds live_key) (put_columns live_values)"

abbreviation run_step :: "db_server \<Rightarrow> db_row \<Rightarrow> db_row list \<Rightarrow> db_row list" where
  "run_step ds \<equiv> upsert_step (same_keys ds run_key) (put_columns run_values)"

lemma write_metric_steps:
  "write_metric ds fl now t run_id m (l, f) = Inr s \<longleftrightarrow>
   accepted ds fl now t run_id m \<and> s = (live_step ds (live_scan_values fl t m) l, run_step ds (run_row fl now run_id m) f)"
proof -
  have put: "replace_values live_key (live_scan_values fl t m) = put_columns live_values"
    "replace_values run_key (replay_metric_values fl run_id m) = put_columns run_values"
    by (intro ext, simp add: replace_values_def put_columns_def payload_values)+
  have "upsert_keyed ds live_scan_columns live_key now (live_scan_values fl t m) l = Inr l' \<longleftrightarrow>
      is_ok (new_row ds live_scan_columns now (live_scan_values fl t m)) \<and> l' = live_step ds (live_scan_values fl t m) l" for l'
    using live_row[of ds now fl t m] by (auto simp: upsert_keyed_def upsert_step_def put bind_res_eq_Inr is_ok_iff)
  moreover have "upsert_keyed ds replay_metric_columns run_key now (replay_metric_values fl run_id m) f = Inr f' \<longleftrightarrow>
      is_ok (new_row ds replay_metric_columns now (replay_metric_values fl run_id m)) \<and> f' = run_step ds (run_row fl now run_id m) f" for f'
    using metric_row[of ds now fl run_id m] by (auto simp: upsert_keyed_def upsert_step_def put bind_res_eq_Inr is_ok_iff)
  ultimately show ?thesis by (auto simp: write_metric_def bind_res_eq_Inr accepted_def)
qed

lemma write_metrics_steps:
  "fold_res (write_metric ds fl now t run_id) ms (l, f) = Inr s \<longleftrightarrow>
   (\<forall>m\<in>set ms. accepted ds fl now t run_id m) \<and>
   s = (fold (live_step ds) (map (live_scan_values fl t) ms) l, fold (run_step ds) (map (run_row fl now run_id) ms) f)"
proof (induction ms arbitrary: l f)
  case (Cons m ms)
  then show ?case using write_metric_steps[of ds fl now t run_id m l f] by (auto simp: bind_res_eq_Inr)
qed auto

section \<open>A written scan\<close>

definition table_ok :: "db_server \<Rightarrow> string list \<Rightarrow> column list \<Rightarrow> db_row list \<Rightarrow> bool" where
  "table_ok ds key cols T \<longleftrightarrow> list_all (\<lambda>r. map fst r = map co_name cols) T \<and> sorted_wrt (\<lambda>a b. \<not> same_keys ds key a b) T"

definition scan_db_ok :: "db_server \<Rightarrow> scan_db \<Rightarrow> bool" where
  "scan_db_ok ds db \<longleftrightarrow> table_ok ds live_key live_scan_columns (sc_live db) \<and> table_ok ds run_key replay_metric_columns (sc_metrics db)"

lemma empty_scan_db_ok: "scan_db_ok ds empty_scan_db"
  by (simp add: scan_db_ok_def table_ok_def empty_scan_db_def)

lemma scan_items:
  "map fst (live_scan_values fl t m) = map co_name live_scan_columns" "map fst (run_row fl now run_id m) = map co_name replay_metric_columns"
  "same_keys ds live_key (live_scan_values fl t m) r \<longleftrightarrow> same_key ds (c_text (sm_symbol m)) (c_get r ''symbol'')"
  "same_keys ds run_key (run_row fl now run_id m) r \<longleftrightarrow>
     same_key ds (c_text run_id) (c_get r ''run_id'') \<and> same_key ds (c_text (sm_symbol m)) (c_get r ''symbol'')"
  by (simp_all add: live_scan_values_def live_scan_columns_def run_row_def replay_metric_values_def replay_metric_columns_def Let_def
      same_keys_def live_key_def run_key_def dict_get_or_def)

lemma same_text [simp]: "same_key ds (c_text s) (c_text s)"
  by (simp add: same_key_def)

lemma scan_item_gets:
  "c_get (live_scan_values fl t m) ''symbol'' = c_text (sm_symbol m)" "c_get (run_row fl now run_id m) ''symbol'' = c_text (sm_symbol m)"
  "c_get (run_row fl now run_id m) ''run_id'' = c_text run_id"
  by (simp_all add: live_scan_values_def run_row_def replay_metric_values_def Let_def dict_get_or_def)

lemma live_written:
  assumes "table_ok ds live_key live_scan_columns T"
  shows "table_ok ds live_key live_scan_columns (fold (live_step ds) (map (live_scan_values fl t) ms) T) \<and>
    settled (same_keys ds live_key) (put_columns live_values) (map (live_scan_values fl t) ms) (fold (live_step ds) (map (live_scan_values fl t) ms) T)"
  using live.steps_settled[where T = T and ps = "map (live_scan_values fl t) ms" and ds = ds] assms by (auto simp: table_ok_def scan_items scan_item_gets)

lemma runs_written:
  assumes "table_ok ds run_key replay_metric_columns T"
  shows "table_ok ds run_key replay_metric_columns (fold (run_step ds) (map (run_row fl now run_id) ms) T) \<and>
    settled (same_keys ds run_key) (put_columns run_values) (map (run_row fl now run_id) ms) (fold (run_step ds) (map (run_row fl now run_id) ms) T)"
  using runs.steps_settled[where T = T and ps = "map (run_row fl now run_id) ms" and ds = ds] assms by (auto simp: table_ok_def scan_items scan_item_gets)

lemma live_again:
  fixes fl t ms
  assumes "table_ok ds live_key live_scan_columns T"
  defines "T' \<equiv> fold (live_step ds) (map (live_scan_values fl t) ms) T"
  shows "fold (live_step ds) (map (live_scan_values fl t) ms) T' = T'"
  using live.steps_again[where T = T' and ps = "map (live_scan_values fl t) ms" and qs = "map (live_scan_values fl t) ms" and ds = ds] live_written[OF assms(1), of fl t ms]
  unfolding T'_def[symmetric] by (auto simp: table_ok_def scan_items list.rel_refl)

lemma run_rows_agree:
  "same_keys ds run_key (run_row fl now2 run_id m) = same_keys ds run_key (run_row fl now run_id m)"
  "put_columns run_values (run_row fl now2 run_id m) = put_columns run_values (run_row fl now run_id m)"
proof -
  have "c_get (run_row fl now2 run_id m) k = c_get (run_row fl now run_id m) k" if "k \<noteq> ''created_at''" for k
    using that by (simp add: run_row_def dict_get_or_def map_add_def split: option.split)
  then show "put_columns run_values (run_row fl now2 run_id m) = put_columns run_values (run_row fl now run_id m)"
    unfolding put_columns_def by (intro ext arg_cong2[of _ _ _ _ dict_update] refl map_cong) (auto simp: run_values_def)
qed (intro ext, simp add: scan_items)

lemma runs_again:
  fixes fl now run_id ms
  assumes "table_ok ds run_key replay_metric_columns T"
  defines "T' \<equiv> fold (run_step ds) (map (run_row fl now run_id) ms) T"
  shows "fold (run_step ds) (map (run_row fl now2 run_id) ms) T' = T'"
proof -
  have "list_all2 (\<lambda>q p. same_keys ds run_key q = same_keys ds run_key p \<and> put_columns run_values q = put_columns run_values p)
      (map (run_row fl now2 run_id) ms) (map (run_row fl now run_id) ms)"
    using run_rows_agree by (simp add: list_all2_map1 list_all2_map2 list.rel_refl)
  moreover have "\<forall>a\<in>set (map (run_row fl now run_id) ms) \<union> set (map (run_row fl now2 run_id) ms). map fst a = map co_name replay_metric_columns"
    by (auto simp: scan_items)
  moreover have "table_ok ds run_key replay_metric_columns T'"
    "settled (same_keys ds run_key) (put_columns run_values) (map (run_row fl now run_id) ms) T'"
    using runs_written[OF assms(1), of fl now run_id ms] unfolding T'_def by auto
  ultimately show ?thesis by (intro runs.steps_again[where ps = "map (run_row fl now run_id) ms"]) (auto simp: table_ok_def)
qed

lemma write_scan_state_cases:
  "write_scan_state env ds fl now ms ts h run_id db = (db', Inr ()) \<longleftrightarrow>
   (\<exists>t beat beat_row payloads. heartbeat_payload env ds h = Inr (t, beat) \<and> new_row ds scanner_heartbeat_columns now beat = Inr beat_row \<and>
      (\<forall>m\<in>set ms. accepted ds fl now t run_id m) \<and> map_res (replay_trade_values env fl run_id) ts = Inr payloads \<and>
      map_res (new_row ds replay_trade_columns now) payloads = Inr payloads \<and>
      db' = \<lparr>sc_heartbeats = sc_heartbeats db @ [beat_row],
             sc_live = fold (live_step ds) (map (live_scan_values fl t) ms) (sc_live db),
             sc_metrics = fold (run_step ds) (map (run_row fl now run_id) ms) (sc_metrics db),
             sc_trades = filter (\<lambda>r. \<not> of_run ds run_id r) (sc_trades db) @ payloads\<rparr>)"
proof -
  have rows: "rows = payloads" if "map_res (replay_trade_values env fl run_id) ts = Inr payloads"
    "map_res (new_row ds replay_trade_columns now) payloads = Inr rows" for payloads rows
    using that
  proof (induction ts arbitrary: payloads rows)
    case (Cons t ts)
    then show ?case using trade_row by (fastforce simp: bind_res_eq_Inr)
  qed simp
  have after: "write_scan_state env ds fl now ms ts h run_id db = (db', Inr ()) \<longleftrightarrow> scan_state_after env ds fl now ms ts h run_id db = Inr db'"
    by (auto simp: write_scan_state_def split: sum.split)
  show ?thesis unfolding after scan_state_after_def bind_res_eq_Inr split_paired_Ex prod.case write_metrics_steps
    by (intro iffI; elim exE conjE; (frule (1) rows)?; (intro exI conjI; (assumption | rule refl)?); simp)
qed

lemma write_keeps_ok:
  assumes "scan_db_ok ds db" and "write_scan_state env ds fl now ms ts h run_id db = (db', Inr ())"
  shows "scan_db_ok ds db'"
  using assms live_written runs_written by (fastforce simp: write_scan_state_cases scan_db_ok_def)

lemma accepted_again: "accepted ds fl now t run_id m \<Longrightarrow> accepted ds fl now2 t run_id m"
  using scan_accepted_any_time(1)[of ds now "live_scan_values fl t m" now2] scan_accepted_any_time(2)[of ds now "replay_metric_values fl run_id m" now2]
  by (simp add: accepted_def)

lemma map_res_id: "map_res f xs = Inr xs \<longleftrightarrow> (\<forall>x\<in>set xs. f x = Inr x)"
  by (induction xs) (auto simp: bind_res_eq_Inr)

lemma trades_of_run:
  assumes "map_res (replay_trade_values env fl run_id) ts = Inr payloads" and "r \<in> set payloads"
  shows "of_run ds run_id r"
proof -
  obtain t where "replay_trade_values env fl run_id t = Inr r" using map_res_element[OF assms] by blast
  then show ?thesis by (auto simp: replay_trade_values_def bind_res_eq_Inr of_run_def dict_get_or_def)
qed

lemma trades_again:
  assumes "map_res (replay_trade_values env fl run_id) ts = Inr payloads" and "map_res (new_row ds replay_trade_columns now) payloads = Inr payloads"
  shows "map_res (new_row ds replay_trade_columns now2) payloads = Inr payloads"
proof -
  have "new_row ds replay_trade_columns now2 r = Inr r" if r: "r \<in> set payloads" for r
  proof -
    obtain t where t: "replay_trade_values env fl run_id t = Inr r" using map_res_element[OF assms(1) r] by blast
    have "is_ok (new_row ds replay_trade_columns now r)" using assms(2) r by (simp add: map_res_id)
    then obtain q where "new_row ds replay_trade_columns now2 r = Inr q" using scan_accepted_any_time(3)[of ds now r now2] by (auto simp: is_ok_iff)
    then show ?thesis using trade_row[OF t] by simp
  qed
  then show ?thesis by (simp add: map_res_id)
qed

text \<open>\<open>C24\<close>: Writing a scan again, whenever that is, adds one heartbeat and changes nothing else: the live scan, the figures and the
  trades of the run are as after the first time.
\<close>

theorem scan_write_is_idempotent:
  assumes "scan_db_ok ds db" and "write_scan_state env ds fl now ms ts h run_id db = (db1, Inr ())"
  shows "\<exists>beat. write_scan_state env ds fl now2 ms ts h run_id db1 = (db1\<lparr>sc_heartbeats := sc_heartbeats db1 @ [beat]\<rparr>, Inr ())"
proof -
  obtain t beat row payloads where w: "heartbeat_payload env ds h = Inr (t, beat)" "is_ok (new_row ds scanner_heartbeat_columns now beat)"
    "\<forall>m\<in>set ms. accepted ds fl now t run_id m" "map_res (replay_trade_values env fl run_id) ts = Inr payloads"
    "map_res (new_row ds replay_trade_columns now) payloads = Inr payloads"
    and db1: "db1 = \<lparr>sc_heartbeats = sc_heartbeats db @ [row], sc_live = fold (live_step ds) (map (live_scan_values fl t) ms) (sc_live db),
       sc_metrics = fold (run_step ds) (map (run_row fl now run_id) ms) (sc_metrics db),
       sc_trades = filter (\<lambda>r. \<not> of_run ds run_id r) (sc_trades db) @ payloads\<rparr>"
    using assms(2) unfolding write_scan_state_cases by (auto simp: is_ok_iff)
  obtain row2 where row2: "new_row ds scanner_heartbeat_columns now2 beat = Inr row2"
    using w(2) scan_accepted_any_time(4)[of ds now beat now2] by (auto simp: is_ok_iff)
  have live: "fold (live_step ds) (map (live_scan_values fl t) ms) (sc_live db1) = sc_live db1"
    and figures: "fold (run_step ds) (map (run_row fl now2 run_id) ms) (sc_metrics db1) = sc_metrics db1"
    using live_again runs_again assms(1) by (simp_all add: db1 scan_db_ok_def)
  have "\<forall>r\<in>set payloads. of_run ds run_id r" using trades_of_run[OF w(4)] by blast
  then have trades: "filter (\<lambda>r. \<not> of_run ds run_id r) (sc_trades db1) @ payloads = sc_trades db1" by (simp add: db1)
  have "write_scan_state env ds fl now2 ms ts h run_id db1 = (db1\<lparr>sc_heartbeats := sc_heartbeats db1 @ [row2]\<rparr>, Inr ())"
    unfolding write_scan_state_cases using w(1,3,4) row2 accepted_again trades_again[OF w(4,5), of now2]
    by (intro exI[of _ t] exI[of _ beat] exI[of _ row2] exI[of _ payloads]) (auto simp: live figures trades)
  then show ?thesis ..
qed

lemma last_written_append:
  assumes "same p r" and "\<forall>q\<in>set qs. \<not> same q r"
  shows "last_written same (ps @ p # qs) r = Some p"
proof -
  have "find_first (\<lambda>p. same p r) (rev qs) = None" using assms(2) by (simp add: find_first_None)
  then show ?thesis using assms(1) by (simp add: last_written_def find_first_append)
qed

lemma scan_fields_are_values: "set live_scan_fields - {''symbol''} \<subseteq> set live_values - {''updated_at''}"
  by code_simp

lemma live_value_any_time:
  assumes "k \<noteq> ''updated_at''"
  shows "c_get (live_scan_values fl t m) k = c_get (live_scan_values fl t2 m) k"
proof -
  have "live_scan_values fl t m = butlast (live_scan_values fl 0 m) @ [(''updated_at'', Time t)]" for t
    by (simp add: live_scan_values_def Let_def)
  from this[of t] this[of t2] show ?thesis using assms by (simp add: dict_get_or_def map_add_def split: option.split)
qed

text \<open>
  What a row of the live scan and a row of a replayed trade are to say, column by column; \<open>fl\<close> is what the server keeps of a number.
  The profit factor is the one figure that may be infinite or no number.
\<close>

definition shows_figures :: "(pyfloat \<Rightarrow> pyfloat) \<Rightarrow> symbol_metrics \<Rightarrow> db_row \<Rightarrow> bool" where
  "shows_figures fl m r \<longleftrightarrow>
     (let num = (\<lambda>x. Json (JNum (fl x))); opt = (\<lambda>v. case v of Some x \<Rightarrow> Json (JNum (fl x)) | None \<Rightarrow> Json JNull); p = sm_proximity m in
      c_get r ''scan_bucket'' = Json (JText (sm_scan_bucket m)) \<and> c_get r ''scan_reason'' = Json (JText (sm_scan_reason m)) \<and>
      c_get r ''last_close'' = num (sm_last_close m) \<and>
      c_get r ''active_entry'' = opt (sm_active_entry m) \<and> c_get r ''active_pnl'' = opt (sm_active_pnl m) \<and>
      c_get r ''active_pnl_pct'' = opt (sm_active_pnl_pct m) \<and>
      c_get r ''watch_score'' = num (px_watch_score p) \<and> c_get r ''buy_score'' = num (px_buy_score p) \<and>
      c_get r ''sell_score'' = num (px_sell_score p) \<and> c_get r ''orderflow_score'' = num (px_orderflow_score p) \<and>
      c_get r ''confidence_score'' = num (sm_confidence_score m) \<and>
      c_get r ''watch_missing'' = Json (JText (px_watch_missing p)) \<and> c_get r ''buy_missing'' = Json (JText (px_buy_missing p)) \<and>
      c_get r ''sell_missing'' = Json (JText (px_sell_missing p)) \<and>
      c_get r ''orderflow_reason'' = Json (JText (px_orderflow_reason p)) \<and>
      c_get r ''confidence_reason'' = Json (JText (sm_confidence_reason m)) \<and>
      c_get r ''trades'' = Json (JInt (int (sm_trades m))) \<and> c_get r ''win_rate'' = num (sm_win_rate m) \<and>
      c_get r ''total_pnl'' = num (sm_total_pnl m) \<and>
      c_get r ''profit_factor'' = num (case sm_profit_factor m of Fin x \<Rightarrow> Fin x | NaN \<Rightarrow> Fin 0 | PosInf \<Rightarrow> Fin 999999 | NegInf \<Rightarrow> Fin 999999))"

definition shows_trade :: "py_env \<Rightarrow> (pyfloat \<Rightarrow> pyfloat) \<Rightarrow> string \<Rightarrow> trade \<Rightarrow> db_row \<Rightarrow> bool" where
  "shows_trade env fl run_id t r \<longleftrightarrow>
     (let num = (\<lambda>x. Json (JNum (fl x))) in
      c_get r ''run_id'' = Json (JText run_id) \<and> c_get r ''symbol'' = Json (JText (tr_symbol t)) \<and>
      (\<exists>entered. parse_scan_datetime env (tr_entry_time t) = Inr entered \<and> c_get r ''entry_time'' = Time entered) \<and>
      (\<exists>exited. parse_scan_datetime env (tr_exit_time t) = Inr exited \<and> c_get r ''exit_time'' = Time exited) \<and>
      c_get r ''entry_price'' = num (tr_entry_price t) \<and> c_get r ''exit_price'' = num (tr_exit_price t) \<and>
      c_get r ''stop_price'' = num (tr_stop_price t) \<and> c_get r ''take_profit_price'' = num (tr_take_profit_price t) \<and>
      c_get r ''bars_held'' = Json (JInt (tr_bars_held t)) \<and> c_get r ''return_pct'' = num (tr_return_pct t) \<and>
      c_get r ''pnl'' = num (tr_pnl t) \<and> c_get r ''exit_reason'' = Json (JText (tr_exit_reason t)))"

lemma trade_shown: "replay_trade_values env fl run_id t = Inr r \<Longrightarrow> shows_trade env fl run_id t r"
  by (auto simp: replay_trade_values_def bind_res_eq_Inr shows_trade_def Let_def dict_get_or_def)

lemma figures_shown:
  assumes "\<forall>k\<in>set live_scan_fields - {''symbol''}. c_get r k = c_get (live_scan_values fl t m) k"
  shows "shows_figures fl m r"
proof -
  have "list_all (\<lambda>k. c_get r k = c_get (live_scan_values fl t m) k) (tl live_scan_fields)"
    using assms by (simp add: live_scan_fields_def)
  then show ?thesis
    by (cases "sm_profit_factor m") (simp_all add: shows_figures_def live_scan_fields_def live_scan_values_def Let_def dict_get_or_def finite_factor_def c_opt_def)
qed

text \<open>\<open>C25\<close>: After a scan is written, a row read back for a symbol shows, column by column, the figures of the last metrics with this symbol:
  an infinite profit factor as 999999 and one that is no number as 0. The trades of the run are exactly those given, in order, each with its own
  figures, and the trades of other runs are untouched.
\<close>

theorem scan_is_read_back:
  assumes "scan_db_ok ds db" and "write_scan_state env ds fl now (as @ m # bs) ts h run_id db = (db', Inr ())"
    and "\<forall>b\<in>set bs. ds_collate ds (sm_symbol b) \<noteq> ds_collate ds (sm_symbol m)" and "\<forall>rows. set (order rows) = set rows"
  shows "(\<exists>r\<in>set (read_live_scan order db'). same_key ds (c_get r ''symbol'') (c_text (sm_symbol m)) \<and> shows_figures fl m r) \<and>
     list_all2 (shows_trade env fl run_id) ts (filter (of_run ds run_id) (sc_trades db')) \<and>
     filter (\<lambda>r. \<not> of_run ds run_id r) (sc_trades db') = filter (\<lambda>r. \<not> of_run ds run_id r) (sc_trades db)"
proof -
  obtain t payloads where w: "map_res (replay_trade_values env fl run_id) ts = Inr payloads"
    "sc_live db' = fold (live_step ds) (map (live_scan_values fl t) (as @ m # bs)) (sc_live db)"
    "sc_trades db' = filter (\<lambda>r. \<not> of_run ds run_id r) (sc_trades db) @ payloads"
    using assms(2) unfolding write_scan_state_cases by auto
  let ?v = "live_scan_values fl t" and ?same = "same_keys ds live_key"
  have s: "settled ?same (put_columns live_values) (map ?v (as @ m # bs)) (sc_live db')"
    using live_written assms(1) unfolding w(2) scan_db_ok_def by blast
  then obtain r where r: "r \<in> set (sc_live db')" "?same (?v m) r" unfolding settled_def by auto
  have "\<not> ?same (?v b) r" if "b \<in> set bs" for b
  proof
    assume "?same (?v b) r"
    then have "same_key ds (c_text (sm_symbol b)) (c_text (sm_symbol m))"
      using same_key_trans[of ds "c_text (sm_symbol b)" "c_get r ''symbol''" "c_text (sm_symbol m)"] r(2)
      by (simp add: scan_items same_key_sym[of ds "c_get r ''symbol''"])
    then show False using assms(3) that by (simp add: same_key_def)
  qed
  then have "last_written ?same (map ?v as @ ?v m # map ?v bs) r = Some (?v m)" using r(2) by (intro last_written_append) auto
  then have put: "put_columns live_values (?v m) r = r" using s r(1) by (auto simp: settled_def)
  have "c_get r k = c_get (live_scan_values fl 0 m) k" if k: "k \<in> set live_scan_fields - {''symbol''}" for k
  proof -
    have "k \<in> set live_values" "k \<noteq> ''updated_at''" using k scan_fields_are_values by auto
    then have "c_get r k = c_get (?v m) k" using put_columns_get[of live_values "?v m" r k] by (simp add: put dict_get_or_def)
    also have "\<dots> = c_get (live_scan_values fl 0 m) k" using \<open>k \<noteq> ''updated_at''\<close> by (rule live_value_any_time)
    finally show ?thesis .
  qed
  moreover have "c_get (map (\<lambda>k. (k, c_get r k)) live_scan_fields) k = c_get r k" if "k \<in> set live_scan_fields" for k
    using that by (simp add: dict_get_or_def map_of_map_restrict)
  moreover have "''symbol'' \<in> set live_scan_fields" by (simp add: live_scan_fields_def)
  moreover have "map (\<lambda>k. (k, c_get r k)) live_scan_fields \<in> set (read_live_scan order db')" using r(1) assms(4) by (auto simp: read_live_scan_def)
  ultimately have read: "\<exists>r\<in>set (read_live_scan order db'). same_key ds (c_get r ''symbol'') (c_text (sm_symbol m)) \<and>
       (\<forall>k\<in>set live_scan_fields - {''symbol''}. c_get r k = c_get (live_scan_values fl 0 m) k)"
    using r(2) same_key_sym by (intro bexI[of _ "map (\<lambda>k. (k, c_get r k)) live_scan_fields"]) (auto simp: scan_items)
  have "\<forall>r\<in>set payloads. of_run ds run_id r" using trades_of_run[OF w(1)] by blast
  then have "filter (of_run ds run_id) (sc_trades db') = payloads" by (simp add: w(3) filter_empty_conv)
  moreover from this have "filter (\<lambda>r. \<not> of_run ds run_id r) (sc_trades db') = filter (\<lambda>r. \<not> of_run ds run_id r) (sc_trades db)"
    using \<open>\<forall>r\<in>set payloads. of_run ds run_id r\<close> by (simp add: w(3))
  moreover have "list_all2 (shows_trade env fl run_id) ts payloads"
    using w(1)[unfolded map_res_Inr_iff] by (rule list_all2_mono) (rule trade_shown)
  ultimately show ?thesis using read figures_shown by blast
qed

text \<open>A symbol that no longer is scanned keeps its row, signal included.\<close>

lemma unscanned_symbols_stay:
  assumes "scan_db_ok ds db" and "write_scan_state env ds fl now ms ts h run_id db = (db', Inr ())"
    and "r \<in> set (sc_live db)" and "\<forall>m\<in>set ms. \<not> same_key ds (c_text (sm_symbol m)) (c_get r ''symbol'')"
  shows "r \<in> set (sc_live db')"
proof -
  have "r \<in> set (fold (live_step ds) ps T)" if "r \<in> set T" "\<forall>p\<in>set ps. \<not> same_keys ds live_key p r" for ps T
    using that
  proof (induction ps arbitrary: T)
    case (Cons p ps)
    have "r \<in> set (update_first (same_keys ds live_key p) f T)" if "r \<in> set T" "\<not> same_keys ds live_key p r" for f T
      using that by (induction T) auto
    then have "r \<in> set (live_step ds p T)" using Cons.prems by (simp add: upsert_step_def)
    then show ?case using Cons by simp
  qed simp
  moreover obtain t where "sc_live db' = fold (live_step ds) (map (live_scan_values fl t) ms) (sc_live db)"
    using assms(2) unfolding write_scan_state_cases by auto
  ultimately show ?thesis using assms(3,4) by (simp add: scan_items)
qed

section \<open>A scan of one symbol\<close>

definition scan_server :: db_server where
  "scan_server = \<lparr>ds_datetime = (\<lambda>_. None), ds_collate = str_lower, ds_dumps = (\<lambda>_. ''{}''), ds_binds = (\<lambda>_. True)\<rparr>"

definition scan_env :: py_env where
  "scan_env = \<lparr>pe_clock = int, pe_show = (\<lambda>_. []), pe_repr = id, pe_parse_float = (\<lambda>_. None), pe_fromiso = (\<lambda>_. Some 0),
     pe_loads = (\<lambda>_. None), pe_llm_mode = ''rules'', pe_llm_enabled = False, pe_openai_key = False\<rparr>"

definition btc_figures :: symbol_metrics where
  "btc_figures = \<lparr>sm_symbol = ''BTC/USDT'', sm_candles = 100, sm_trades = 1, sm_wins = 1, sm_losses = 0, sm_win_rate = Fin 100, sm_total_pnl = Fin 5,
     sm_total_return_pct = Fin 5, sm_profit_factor = PosInf, sm_max_drawdown_pct = Fin 0, sm_avg_trade_return_pct = Fin 5, sm_sharpe_proxy = Fin 1,
     sm_last_close = Fin 105, sm_scan_bucket = ''BUY'', sm_scan_reason = ''breakout'', sm_active_entry = None, sm_active_pnl = None,
     sm_active_pnl_pct = None, sm_proximity = \<lparr>px_watch_score = Fin 80, px_buy_score = Fin 90, px_sell_score = Fin 10, px_orderflow_score = Fin 60,
       px_watch_missing = [], px_buy_missing = [], px_sell_missing = [], px_orderflow_reason = []\<rparr>,
     sm_confidence_score = Fin 70, sm_confidence_reason = []\<rparr>"

definition btc_trade :: trade where
  "btc_trade = \<lparr>tr_symbol = ''BTC/USDT'', tr_entry_time = ''a'', tr_exit_time = ''b'', tr_entry_price = Fin 100, tr_exit_price = Fin 105,
     tr_stop_price = Fin 98, tr_take_profit_price = Fin 105, tr_bars_held = 3, tr_return_pct = Fin 5, tr_pnl = Fin 5, tr_exit_reason = ''tp''\<rparr>"

definition scan_beat :: json_row where
  "scan_beat = [(''generated_at'', JText ''now''), (''source'', JText ''scan''), (''base_url'', JText ''url''), (''symbols_ok'', JInt 1),
     (''symbols_error'', JInt 0), (''refresh_seconds'', JInt 60)]"

lemma scan_server_stores [simp]: "\<not> co_time c \<Longrightarrow> j \<noteq> JNull \<Longrightarrow> stored_cell scan_server c (Json j) = Inr (Json j)"
  "co_nullable c \<Longrightarrow> stored_cell scan_server c c_null = Inr c_null"
  by (simp_all add: stored_cell_def scan_server_def)

lemma btc_written: "\<exists>db. write_scan_state scan_env scan_server id 0 [btc_figures] [btc_trade] scan_beat ''live'' empty_scan_db = (db, Inr ())"
proof -
  have "accepted scan_server id 0 0 ''live'' btc_figures"
    by (simp add: accepted_def new_row_ok_iff live_scan_columns_def replay_metric_columns_def live_scan_values_def replay_metric_values_def
        btc_figures_def Let_def dict_get_or_def column_defs c_opt_def)
  moreover obtain p where p: "replay_trade_values scan_env id ''live'' btc_trade = Inr p"
    "p = [(''run_id'', c_text ''live''), (''symbol'', c_text ''BTC/USDT''), (''entry_time'', Time 0), (''exit_time'', Time 0),
         (''entry_price'', Json (JNum (Fin 100))), (''exit_price'', Json (JNum (Fin 105))),
         (''stop_price'', Json (JNum (Fin 98))), (''take_profit_price'', Json (JNum (Fin 105))),
         (''bars_held'', Json (JInt 3)), (''return_pct'', Json (JNum (Fin 5))), (''pnl'', Json (JNum (Fin 5))), (''exit_reason'', c_text ''tp'')]"
    by (simp add: replay_trade_values_def parse_scan_datetime_def scan_env_def btc_trade_def)
  moreover have "is_ok (new_row scan_server replay_trade_columns 0 p)"
    by (simp add: p(2) new_row_ok_iff replay_trade_columns_def dict_get_or_def column_defs)
  moreover obtain beat where b: "heartbeat_payload scan_env scan_server scan_beat = Inr (0, beat)"
    "is_ok (new_row scan_server scanner_heartbeat_columns 0 beat)"
    by (simp add: heartbeat_payload_def scan_beat_def j_at_def parse_scan_datetime_def scan_env_def new_row_ok_iff scanner_heartbeat_columns_def
        dict_get_or_def column_defs)
  ultimately show ?thesis using trade_row[OF p(1)]
    unfolding write_scan_state_cases by (auto simp: is_ok_iff)
qed

theorem scan_write_is_idempotent_witness:
  "\<exists>db1 beat. write_scan_state scan_env scan_server id 0 [btc_figures] [btc_trade] scan_beat ''live'' empty_scan_db = (db1, Inr ()) \<and>
     write_scan_state scan_env scan_server id 7 [btc_figures] [btc_trade] scan_beat ''live'' db1 = (db1\<lparr>sc_heartbeats := sc_heartbeats db1 @ [beat]\<rparr>, Inr ())"
proof -
  obtain db where db: "write_scan_state scan_env scan_server id 0 [btc_figures] [btc_trade] scan_beat ''live'' empty_scan_db = (db, Inr ())"
    using btc_written by blast
  from scan_write_is_idempotent[OF empty_scan_db_ok this, of 7] db show ?thesis by blast
qed

theorem scan_is_read_back_witness:
  "\<exists>db r. write_scan_state scan_env scan_server id 0 [btc_figures] [btc_trade] scan_beat ''live'' empty_scan_db = (db, Inr ()) \<and>
     r \<in> set (read_live_scan id db) \<and> c_get r ''profit_factor'' = Json (JNum (Fin 999999)) \<and> c_get r ''scan_bucket'' = c_text ''BUY''"
proof -
  obtain db where db: "write_scan_state scan_env scan_server id 0 ([] @ btc_figures # []) [btc_trade] scan_beat ''live'' empty_scan_db = (db, Inr ())"
    using btc_written by auto
  have btc: "shows_figures id btc_figures r \<Longrightarrow> c_get r ''profit_factor'' = Json (JNum (Fin 999999)) \<and> c_get r ''scan_bucket'' = c_text ''BUY''" for r
    by (simp add: shows_figures_def btc_figures_def Let_def)
  from scan_is_read_back[OF empty_scan_db_ok db, of id] obtain r where
    "r \<in> set (read_live_scan id db)" "shows_figures id btc_figures r" by auto
  then show ?thesis using db btc by auto
qed

end
