(* ===== verification/Signal_Flow.thy ===== *)
theory Signal_Flow
  imports Dashboard_Deploy
begin

text \<open>
  The signal flow of the dashboard (\<open>dashboards/app.py\<close>): the live scan merged with the market stream, the stage every
  symbol has reached between socket and journal, the market lanes, the traffic lights of a strategy, and the symbols that
  develop best. Frames are lists of rows; the symbols configured (or else found) are the parameter \<open>defaults\<close>.
\<close>

section \<open>The scan\<close>

text \<open>A row for a symbol the scanner says nothing about, with the texts of the place that adds it and its priority.\<close>

definition unscanned_row :: "string \<Rightarrow> string \<Rightarrow> string \<Rightarrow> int \<Rightarrow> db_row" where
  "unscanned_row symbol reason flow_reason priority =
     [(''symbol'', c_text symbol), (''scan_bucket'', c_text ''NO SIGNAL''), (''scan_reason'', c_text reason), (''last_close'', Json (JNum (Fin 0))),
      (''active_entry'', c_null), (''active_pnl'', c_null), (''active_pnl_pct'', c_null)] @
     map (\<lambda>k. (k, Json (JNum (Fin 0)))) [''watch_score'', ''buy_score'', ''sell_score'', ''orderflow_score'', ''confidence_score''] @
     map (\<lambda>k. (k, c_text ''awaiting scanner data'')) [''watch_missing'', ''buy_missing'', ''sell_missing''] @
     [(''orderflow_reason'', c_text flow_reason), (''confidence_reason'', c_text ''awaiting scanner data''), (''trades'', Json (JInt 0)),
      (''win_rate'', Json (JNum (Fin 0))), (''total_pnl'', Json (JNum (Fin 0))), (''profit_factor'', Json (JNum (Fin 0))),
      (''priority'', Json (JInt priority))]"

definition default_live_scan_frame :: "string list \<Rightarrow> db_row list" where
  "default_live_scan_frame defaults =
     map (\<lambda>(i, s). unscanned_row s ''default live tracking enabled; scanner has not produced a fresh signal yet'' ''awaiting scanner data'' (int i))
       (enumerate 0 defaults)"

definition scan_defaults :: db_row where
  "scan_defaults =
     [(''symbol'', c_text []), (''scan_bucket'', c_text ''NO SIGNAL''), (''scan_reason'', c_text ''scanner data unavailable''),
      (''last_close'', Json (JNum (Fin 0))), (''active_entry'', c_null), (''active_pnl'', c_null), (''active_pnl_pct'', c_null),
      (''watch_score'', Json (JNum (Fin 0))), (''buy_score'', Json (JNum (Fin 0))), (''sell_score'', Json (JNum (Fin 0))),
      (''orderflow_score'', Json (JNum (Fin 0))), (''confidence_score'', Json (JNum (Fin 0))), (''watch_missing'', c_text ''not calculated''),
      (''buy_missing'', c_text ''not calculated''), (''sell_missing'', c_text ''not calculated''), (''orderflow_reason'', c_text ''not calculated''),
      (''confidence_reason'', c_text ''not calculated''), (''stream_spread_bps'', Json (JNum (Fin 0))),
      (''stream_depth_imbalance'', Json (JNum (Fin 0))), (''stream_taker_buy_ratio'', Json (JNum (Fin 0))), (''stream_trade_count'', Json (JInt 0)),
      (''stream_updated_at'', c_text []), (''stream_status'', c_text ''not_started''), (''priority'', Json (JInt 100))]"

definition normalize_scan_columns :: "db_row list \<Rightarrow> db_row list" where
  "normalize_scan_columns scan = map (fold default_cell scan_defaults) scan"

text \<open>\<open>scan.loc[hit, k] = v\<close>: a new column is missing where the hit is false.\<close>

definition assign_where :: "(db_row \<Rightarrow> bool) \<Rightarrow> string \<Rightarrow> cell \<Rightarrow> db_row list \<Rightarrow> db_row list" where
  "assign_where hit k v = map (\<lambda>r. if hit r then dict_set k v r else if dict_get r k = None then dict_set k (Json missing_cell) r else r)"

definition add_row :: "db_row \<Rightarrow> db_row list \<Rightarrow> db_row list" where
  "add_row r scan = cell_frame (scan @ [r])"

definition is_symbol :: "py_env \<Rightarrow> string \<Rightarrow> db_row \<Rightarrow> bool" where
  "is_symbol env s r = (c_str env (c_get r ''symbol'') = s)"

text \<open>\<open>fillna("").astype(str)\<close>: a missing symbol is blank.\<close>

definition filled_symbol :: "py_env \<Rightarrow> db_row \<Rightarrow> string" where
  "filled_symbol env r =
     (let c = c_get r ''symbol'' in if c \<in> {c_null, NaT, Json missing_cell} then [] else c_str env c)"

definition ensure_default_live_symbols :: "py_env \<Rightarrow> string list \<Rightarrow> db_row list \<Rightarrow> db_row list" where
  "ensure_default_live_symbols env defaults scan0 =
     (if no_rows scan0 \<or> ''symbol'' \<notin> set (cell_columns scan0) then default_live_scan_frame defaults
      else (let scan = (if ''priority'' \<in> set (cell_columns scan0) then scan0 else map (dict_set ''priority'' (Json (JInt 100))) scan0);
                known = map (filled_symbol env) scan
            in normalize_scan_columns (fold (\<lambda>(i, s) f.
                 if s \<in> set known then assign_where (\<lambda>r. c_get r ''symbol'' = c_text s) ''priority'' (Json (JInt (int i))) f
                 else add_row (unscanned_row s ''default live tracking enabled; awaiting scanner data'' ''awaiting scanner data'' (int i)) f)
               (enumerate 0 defaults) scan)))"

definition payload_float :: "py_env \<Rightarrow> json_row \<Rightarrow> string \<Rightarrow> pyfloat res" where
  "payload_float env p k = py_float env (j_or (j_get p k JNull) (JNum (Fin 0)))"

definition signed_text :: "string \<Rightarrow> string" where
  "signed_text s = (if startswith s ''-'' then s else ''+'' @ s)"

definition flow_text :: "pyfloat \<Rightarrow> pyfloat \<Rightarrow> pyfloat \<Rightarrow> pyfloat \<Rightarrow> string" where
  "flow_text flow spread imbalance taker =
     ''socket flow '' @ fmt_fixed 0 flow @ ''% | spread '' @ fmt_fixed 2 spread @ '' bps | depth '' @ signed_text (fmt_fixed 2 imbalance) @
     '' | taker buy '' @ fmt_fixed 0 (fmul taker (Fin 100)) @ ''%''"

definition stream_cells :: "py_env \<Rightarrow> json_row \<Rightarrow> json_row \<Rightarrow> pyfloat \<Rightarrow> pyfloat \<Rightarrow> pyfloat \<Rightarrow> pyfloat \<Rightarrow> int \<Rightarrow> db_row" where
  "stream_cells env stream p flow spread imbalance taker count =
     (if flt (Fin 0) flow then [(''orderflow_score'', Json (JNum flow))] else []) @
     [(''stream_spread_bps'', Json (JNum spread)), (''stream_depth_imbalance'', Json (JNum imbalance)),
      (''stream_taker_buy_ratio'', Json (JNum taker)), (''stream_trade_count'', Json (JInt count)),
      (''stream_updated_at'', c_text (py_str env (j_or (j_get p ''updated_at'' JNull) (JText [])))),
      (''stream_status'', c_text (py_str env (j_or (j_or (j_get p ''status'' JNull) (j_get stream ''status'' JNull)) (JText ''stream'')))),
      (''orderflow_reason'', c_text (flow_text flow spread imbalance taker))]"

text \<open>What the stream knows of one symbol goes into its rows; a price or flow that is not positive leaves the scanner's.\<close>

definition merge_symbol :: "py_env \<Rightarrow> json_row \<Rightarrow> string \<times> json \<Rightarrow> db_row list \<Rightarrow> db_row list res" where
  "merge_symbol env stream = (\<lambda>(symbol, value) scan0.
     case value of
       JObj p \<Rightarrow>
        (let scan = (if list_ex (is_symbol env symbol) scan0 then scan0
               else add_row (unscanned_row symbol ''websocket live market tracking; scanner score pending'' ''websocket stream active'' 100) scan0)
         in bind_res (payload_float env p ''last_price'') (\<lambda>price. bind_res (payload_float env p ''orderflow_score'') (\<lambda>flow.
            bind_res (payload_float env p ''spread_bps'') (\<lambda>spread. bind_res (payload_float env p ''depth_imbalance'') (\<lambda>imbalance.
            bind_res (payload_float env p ''taker_buy_ratio'') (\<lambda>taker. bind_res (py_int (j_or (j_get p ''trade_count'' JNull) (JInt 0))) (\<lambda>count.
              Inr (fold (\<lambda>(k, v). assign_where (is_symbol env symbol) k v)
                ((if flt (Fin 0) price then [(''last_close'', Json (JNum price))] else []) @
                 stream_cells env stream p flow spread imbalance taker count) scan))))))))
     | _ \<Rightarrow> Inr scan0)"

definition merge_stream_state :: "py_env \<Rightarrow> string list \<Rightarrow> db_row list \<Rightarrow> json_row \<Rightarrow> db_row list res" where
  "merge_stream_state env defaults scan0 stream =
     (let scan = ensure_default_live_symbols env defaults scan0 in
      case j_get stream ''symbols'' JNull of
        JObj symbols \<Rightarrow> if symbols = [] then Inr scan
          else bind_res (fold_res (merge_symbol env stream) symbols scan) (\<lambda>scan. Inr (normalize_scan_columns scan))
      | _ \<Rightarrow> Inr scan)"

section \<open>Ages\<close>

definition utc_datetime :: "py_env \<Rightarrow> string \<Rightarrow> instant option" where
  "utc_datetime env s = pe_fromiso env (concat (map (\<lambda>c. if c = CHR ''Z'' then ''+00:00'' else [c]) s))"

definition stream_age_seconds :: "py_env \<Rightarrow> instant \<Rightarrow> string \<Rightarrow> int option" where
  "stream_age_seconds env now s =
     (if s = [] then None else (case utc_datetime env s of None \<Rightarrow> None | Some t \<Rightarrow> Some (max 0 ((now - t) div us_per_second))))"

definition live_stream_age :: "py_env \<Rightarrow> instant \<Rightarrow> json_row \<Rightarrow> string" where
  "live_stream_age env now stream =
     (let updated = j_get stream ''updated_at'' JNull in
      if \<not> truthy updated then ''not started''
      else (case utc_datetime env (py_str env updated) of
          None \<Rightarrow> py_str env updated
        | Some t \<Rightarrow> (let age = max 0 ((now - t) div us_per_second) in
            if age < 60 then str_of_int age @ ''s ago'' else str_of_int (age div 60) @ ''m '' @ str_of_int (age mod 60) @ ''s ago'')))"

section \<open>Stages\<close>

definition signal_flow_stages :: "string list" where
  "signal_flow_stages = [''SOCKET'', ''CANDLE'', ''FEATURES'', ''ORDERFLOW'', ''STRATEGY'', ''RISK'', ''DECISION'', ''JOURNAL'']"

record signal_states =
  ss_socket :: string
  ss_candle :: string
  ss_features :: string
  ss_orderflow :: string
  ss_strategy :: string
  ss_risk :: string
  ss_decision :: string

text \<open>The stage reached, its index and the gate that is next.\<close>

definition crossed_signal_stage :: "signal_states \<Rightarrow> string \<times> nat \<times> string" where
  "crossed_signal_stage s =
     (if ss_socket s \<noteq> ''LIVE'' then (''SOCKET'', 0, ''waiting for fresh socket data'')
      else if ss_candle s \<noteq> ''CLOSED'' then (''SOCKET'', 0, ''waiting for selected timeframe candle'')
      else if ss_features s \<noteq> ''READY'' then (''CANDLE'', 1, ''waiting for feature readiness'')
      else if ss_orderflow s \<notin> {''SUPPORTIVE'', ''DEVELOPING''} then (''FEATURES'', 2, ''orderflow not supportive yet'')
      else if ss_strategy s \<notin> {''WATCH'', ''SIGNAL'', ''TRACKING''} then (''ORDERFLOW'', 3, ''strategy conditions not aligned'')
      else if ss_risk s \<noteq> ''OK'' then (''STRATEGY'', 4, ''risk gate blocked'')
      else if ss_decision s \<notin> {''WATCH'', ''BUY SIGNAL'', ''IN TRADE''} then (''RISK'', 5, ''decision remains wait'')
      else if ss_decision s \<in> {''BUY SIGNAL'', ''IN TRADE''} then (''JOURNAL'', 7, ''actionable decision journaled'')
      else (''DECISION'', 6, ''watch state reached; awaiting buy confirmation''))"

record signal_row =
  sr_symbol :: string
  sr_timeframe :: string
  sr_states :: signal_states
  sr_stage :: string
  sr_stage_index :: nat
  sr_next_gate :: string
  sr_bucket :: string
  sr_bot_state :: string
  sr_last_price :: pyfloat
  sr_spread_bps :: pyfloat
  sr_depth_imbalance :: pyfloat
  sr_trade_count :: int
  sr_orderflow_score :: pyfloat
  sr_buy_score :: pyfloat
  sr_watch_score :: pyfloat
  sr_confidence_score :: pyfloat
  sr_reason :: string

definition socket_state_of :: "int option \<Rightarrow> string" where
  "socket_state_of age = (case age of None \<Rightarrow> ''PENDING'' | Some a \<Rightarrow> if a \<le> 15 then ''LIVE'' else ''STALE'')"

definition signal_states_of :: "int option \<Rightarrow> bool \<Rightarrow> pyfloat \<Rightarrow> pyfloat \<Rightarrow> pyfloat \<Rightarrow> pyfloat \<Rightarrow> string \<Rightarrow> bool \<Rightarrow> signal_states" where
  "signal_states_of age has_candle confidence watch buy flow bucket kill_switch =
     \<lparr>ss_socket = socket_state_of age, ss_candle = (if has_candle then ''CLOSED'' else ''WAITING''),
      ss_features = (if flt (Fin 0) (fmax (fmax confidence watch) buy) then ''READY'' else ''WARMING''),
      ss_orderflow = (if fle (Fin 65) flow then ''SUPPORTIVE'' else if fle (Fin 45) flow then ''DEVELOPING'' else ''WEAK''),
      ss_strategy = (if bucket = ''BUY'' then ''SIGNAL'' else if bucket = ''WATCH'' then ''WATCH''
        else if bucket = ''IN TRADE'' then ''TRACKING'' else ''QUIET''),
      ss_risk = (if kill_switch then ''BLOCKED'' else ''OK''),
      ss_decision = (if bucket = ''BUY'' \<and> \<not> kill_switch then ''BUY SIGNAL'' else if bucket = ''IN TRADE'' then ''IN TRADE''
        else if bucket = ''WATCH'' then ''WATCH'' else ''WAIT'')\<rparr>"

text \<open>The bot whose timeframe a symbol is followed on: a running one if there is one, else the first.\<close>

definition flow_bot :: "py_env \<Rightarrow> string \<Rightarrow> db_row list \<Rightarrow> db_row" where
  "flow_bot env symbol bots =
     (let mine = (if ''symbol'' \<in> set (cell_columns bots) then filter (is_symbol env symbol) bots else []);
          live = (if ''state'' \<in> set (cell_columns mine) then filter (\<lambda>r. c_str env (c_get r ''state'') \<in> set live_states) mine else [])
      in case live @ mine of [] \<Rightarrow> [] | r # _ \<Rightarrow> r)"

definition text_or_default :: "py_env \<Rightarrow> db_row \<Rightarrow> string \<Rightarrow> string \<Rightarrow> string" where
  "text_or_default env r k d = c_str env (c_or (dict_get_or r k (c_text d)) (c_text d))"

definition row_or_payload :: "py_env \<Rightarrow> db_row \<Rightarrow> json_row \<Rightarrow> string \<Rightarrow> string \<Rightarrow> pyfloat res" where
  "row_or_payload env r p k k' =
     c_float env (c_or (c_or (dict_get_or r k (Json (JNum (Fin 0)))) (Json (j_get p k' (JNum (Fin 0))))) (Json (JNum (Fin 0))))"

definition as_row :: "json \<Rightarrow> json_row" where
  "as_row j = (case j of JObj r \<Rightarrow> r | _ \<Rightarrow> [])"

definition build_signal_row ::
    "py_env \<Rightarrow> db_row \<Rightarrow> db_row list \<Rightarrow> json_row \<Rightarrow> db_row list \<Rightarrow> string \<Rightarrow> instant \<Rightarrow> string \<Rightarrow> signal_row res" where
  "build_signal_row env risk scan stream bots selected now symbol =
     (let row = scan_row_of env symbol scan; bot_row = flow_bot env symbol bots;
          timeframe = (if selected = ''strategy default'' then text_or_default env bot_row ''timeframe'' ''5m'' else selected);
          p = as_row (j_get (as_row (j_get stream ''symbols'' JNull)) symbol JNull);
          candle = as_row (j_get (as_row (j_get p ''timeframes'' JNull)) timeframe JNull);
          age = stream_age_seconds env now (c_str env (c_or (dict_get_or row ''stream_updated_at'' (c_text [])) (Json (j_get p ''updated_at'' (JText [])))))
      in bind_res (cell_float env row ''confidence_score'') (\<lambda>confidence. bind_res (cell_float env row ''watch_score'') (\<lambda>watch.
         bind_res (cell_float env row ''buy_score'') (\<lambda>buy. bind_res (cell_float env row ''orderflow_score'') (\<lambda>flow.
         let bucket = text_or_default env row ''scan_bucket'' ''NO SIGNAL'';
             states = signal_states_of age (candle \<noteq> []) confidence watch buy flow bucket (c_truthy (dict_get_or risk ''kill_switch'' (Json (JBool False))));
             (stage, index, gate) = crossed_signal_stage states
         in bind_res (row_or_payload env row p ''last_close'' ''last_price'') (\<lambda>price.
            bind_res (row_or_payload env row p ''stream_spread_bps'' ''spread_bps'') (\<lambda>spread.
            bind_res (row_or_payload env row p ''stream_depth_imbalance'' ''depth_imbalance'') (\<lambda>imbalance.
            bind_res (c_int (c_or (c_or (dict_get_or row ''stream_trade_count'' (Json (JInt 0))) (Json (j_get p ''trade_count'' (JInt 0)))) (Json (JInt 0)))) (\<lambda>count.
              Inr \<lparr>sr_symbol = symbol, sr_timeframe = timeframe, sr_states = states, sr_stage = stage, sr_stage_index = index, sr_next_gate = gate,
                sr_bucket = bucket, sr_bot_state = text_or_default env bot_row ''state'' ''NO BOT'', sr_last_price = price, sr_spread_bps = spread,
                sr_depth_imbalance = imbalance, sr_trade_count = count, sr_orderflow_score = flow, sr_buy_score = buy, sr_watch_score = watch,
                sr_confidence_score = confidence,
                sr_reason = c_str env (c_or (c_or (dict_get_or row ''scan_reason'' (c_text [])) (dict_get_or row ''orderflow_reason'' (c_text [])))
                  (c_text ''awaiting scanner reason''))\<rparr>)))))))))"

text \<open>The clock is read once for every symbol.\<close>

definition build_signal_flow_rows ::
    "dash_env \<Rightarrow> db_row list \<Rightarrow> json_row \<Rightarrow> db_row list \<Rightarrow> string list \<Rightarrow> string \<Rightarrow> dash \<Rightarrow> (dash, signal_row list) outcome" where
  "build_signal_flow_rows de scan stream bots symbols selected d0 =
     bind_act (load_risk_settings de d0) (\<lambda>d risk.
       (d, map_res (\<lambda>(i, symbol). build_signal_row (de_env de) risk scan stream bots selected (pe_clock (de_env de) (da_clock d + i)) symbol)
         (enumerate 0 symbols)))"

section \<open>Lanes, lights and ranking\<close>

definition market_bucket_lane :: "py_env \<Rightarrow> db_row \<Rightarrow> string res" where
  "market_bucket_lane env r =
     (let bucket = text_or_default env r ''scan_bucket'' ''NO SIGNAL'' in
      bind_res (cell_float env r ''buy_score'') (\<lambda>buy. bind_res (cell_float env r ''watch_score'') (\<lambda>watch.
      bind_res (cell_float env r ''sell_score'') (\<lambda>sell. bind_res (cell_float env r ''stream_spread_bps'') (\<lambda>spread.
      bind_res (cell_float env r ''volatility'') (\<lambda>volatility.
        Inr (if flt (Fin 15) spread \<or> flt (dec 8 100) volatility \<or> fle (Fin 75) sell then ''High Risk / Avoid''
          else if bucket = ''IN TRADE'' then ''Strong Momentum''
          else if bucket = ''BUY'' then (if flt buy (Fin 80) then ''Early Breakout'' else ''Strong Momentum'')
          else if bucket = ''WATCH'' then (if fle buy watch then ''Pullback Setup'' else ''Early Breakout'')
          else if flt (fmax buy watch) (Fin 35) then ''Weak / No Trade'' else ''Range / Neutral'')))))))"

definition traffic_light_for_strategy :: "py_env \<Rightarrow> string \<Rightarrow> db_row \<Rightarrow> string \<Rightarrow> (string \<times> string) res" where
  "traffic_light_for_strategy env strategy r milestone =
     (let bucket = text_or_default env r ''scan_bucket'' ''NO SIGNAL'' in
      bind_res (cell_float env r ''buy_score'') (\<lambda>buy. bind_res (cell_float env r ''watch_score'') (\<lambda>watch.
      bind_res (cell_float env r ''orderflow_score'') (\<lambda>flow. bind_res (cell_float env r ''stream_spread_bps'') (\<lambda>spread.
        if \<not> strategy_symbol_is_certified strategy (text_of env r ''symbol'' []) then Inr (''Red'', ''Blocked: pair has not passed deployment test'')
        else if milestone = ''Market Data''
          then bind_res (cell_float env r ''last_close'') (\<lambda>close.
            Inr (if flt (Fin 0) close then (''Green'', ''Market data is live enough'') else (''Red'', ''Waiting for market data'')))
        else Inr (if milestone = ''Regime Detection''
          then (if bucket \<in> {''BUY'', ''IN TRADE''} then (''Green'', ''Momentum regime is supportive'')
                else if bucket = ''WATCH'' then (''Amber'', ''Regime is still forming'') else (''Red'', ''No supportive regime''))
        else if milestone = ''Strategy Setup''
          then (if fle (Fin 65) buy then (''Green'', ''Setup is aligned'')
                else if fle (Fin 45) watch then (''Amber'', ''Setup developing'') else (''Red'', ''No setup currently''))
        else if milestone = ''Signal Confirmation''
          then (if bucket = ''BUY'' then (''Green'', ''Signal clear'')
                else if bucket = ''WATCH'' then (''Amber'', ''Waiting for confirmation'') else (''Red'', ''No signal currently''))
        else if milestone = ''Risk Check''
          then (if flt (Fin 15) spread then (''Red'', ''Avoid: spread/liquidity risk'') else (''Green'', ''Risk gate acceptable''))
        else if bucket = ''BUY'' \<and> fle (Fin 55) flow then (''Green'', ''Ready for trade review'')
        else if bucket \<in> {''WATCH'', ''IN TRADE''} \<or> fle (Fin 45) (fmax buy watch)
          then (''Amber'', ''Signal developing; wait for confirmation'')
        else (''Red'', ''No signal currently'')))))))"

text \<open>Numbers of a column, None read as missing; clipped to 0..100.\<close>

definition column_float :: "py_env \<Rightarrow> db_row \<Rightarrow> string \<Rightarrow> pyfloat res" where
  "column_float env r k = (if c_get r k = c_null then Inr NaN else c_float env (c_get r k))"

definition clip_percent :: "pyfloat \<Rightarrow> pyfloat" where
  "clip_percent x = (if flt x (Fin 0) then Fin 0 else if flt (Fin 100) x then Fin 100 else x)"

definition bucket_bonus :: "string \<Rightarrow> pyfloat" where
  "bucket_bonus bucket = Fin (if bucket = ''BUY'' then 35 else if bucket = ''WATCH'' then 22 else if bucket = ''IN TRADE'' then 14 else 0)"

definition developing_score :: "py_env \<Rightarrow> db_row \<Rightarrow> pyfloat res" where
  "developing_score env r =
     bind_res (column_float env r ''orderflow_score'') (\<lambda>flow. bind_res (column_float env r ''watch_score'') (\<lambda>watch.
     bind_res (column_float env r ''buy_score'') (\<lambda>buy. bind_res (column_float env r ''confidence_score'') (\<lambda>confidence.
       Inr (fadd (fadd (fadd (fadd (fmul (clip_percent flow) (dec 34 100)) (fmul (clip_percent watch) (dec 26 100)))
              (fmul (clip_percent buy) (dec 24 100))) (fmul (clip_percent confidence) (dec 16 100)))
              (bucket_bonus (c_str env (c_get r ''scan_bucket''))))))))"

text \<open>The order \<open>sort_values\<close> gives numbers: missing ones last whatever the direction.\<close>

definition ascending :: "pyfloat \<Rightarrow> nat \<times> rat" where
  "ascending x = (case x of NegInf \<Rightarrow> (0, 0) | Fin q \<Rightarrow> (1, q) | PosInf \<Rightarrow> (2, 0) | NaN \<Rightarrow> (3, 0))"

definition descending :: "pyfloat \<Rightarrow> nat \<times> rat" where
  "descending x = (case x of PosInf \<Rightarrow> (0, 0) | Fin q \<Rightarrow> (1, - q) | NegInf \<Rightarrow> (2, 0) | NaN \<Rightarrow> (3, 0))"

definition developing_entry :: "py_env \<Rightarrow> db_row \<Rightarrow> (string \<times> pyfloat \<times> pyfloat) res" where
  "developing_entry env r =
     bind_res (developing_score env r) (\<lambda>score. bind_res (column_float env r ''priority'') (\<lambda>priority.
       Inr (c_str env (c_get r ''symbol''), score, priority)))"

definition top_developing_signal_flow_symbols :: "py_env \<Rightarrow> nat \<Rightarrow> db_row list \<Rightarrow> string list res" where
  "top_developing_signal_flow_symbols env limit scan =
     (if no_rows scan then Inr []
      else bind_res (map_res (developing_entry env) (normalize_scan_columns scan)) (\<lambda>entries.
        Inr (map fst (take limit (sort_key (\<lambda>(s, score, priority). (descending score, ascending priority)) entries)))))"

definition deployment_readiness :: "symbol_metrics \<Rightarrow> string" where
  "deployment_readiness m =
     (if sm_trades m = 0 then ''Needs Validation''
      else if flt (Fin 0) (sm_total_pnl m) \<and> fle (dec 12 10) (sm_profit_factor m) \<and> flt (sm_max_drawdown_pct m) (Fin 12) then ''Ready''
      else if flt (Fin 0) (sm_total_pnl m) \<and> flt (sm_max_drawdown_pct m) (Fin 15) then ''Watch'' else ''Avoid'')"

end
