(* ===== verification/Signal_Laws.thy ===== *)
theory Signal_Laws
  imports Signal_Flow
begin

text \<open>
  Laws of the signal flow: the stage of a symbol counts the gates its inputs pass in a row, and what the stream changes in the
  scan. A row keeps its place and its symbol through a merge; its price is the last positive price streamed for its symbol.
\<close>

section \<open>Stages\<close>

definition stage_gates :: "signal_states \<Rightarrow> bool list" where
  "stage_gates s =
     [ss_socket s = ''LIVE'' \<and> ss_candle s = ''CLOSED'', ss_features s = ''READY'', ss_orderflow s \<in> {''SUPPORTIVE'', ''DEVELOPING''},
      ss_strategy s \<in> {''WATCH'', ''SIGNAL'', ''TRACKING''}, ss_risk s = ''OK'', ss_decision s \<in> {''WATCH'', ''BUY SIGNAL'', ''IN TRADE''},
      ss_decision s \<in> {''BUY SIGNAL'', ''IN TRADE''}]"

lemma crossed_stage_counts_gates:
  "fst (snd (crossed_signal_stage s)) = length (takeWhile id (stage_gates s)) \<and>
   fst (crossed_signal_stage s) = signal_flow_stages ! fst (snd (crossed_signal_stage s))"
  by (simp add: crossed_signal_stage_def stage_gates_def signal_flow_stages_def)

lemma journal_stage:
  "fst (crossed_signal_stage s) = ''JOURNAL'' \<longleftrightarrow> list_all id (stage_gates s)"
  by (simp add: crossed_signal_stage_def stage_gates_def)

text \<open>
  The gates read off what a row is built from: the socket is fresh while its last update is less than sixteen seconds old, a candle is
  there if the stream holds a non-empty one for the symbol and timeframe.
\<close>

definition fresh_socket :: "py_env \<Rightarrow> instant \<Rightarrow> string \<Rightarrow> bool" where
  "fresh_socket env now updated \<longleftrightarrow> updated \<noteq> [] \<and> (\<exists>t. utc_datetime env updated = Some t \<and> now - t < 16 * us_per_second)"

definition candle_streamed :: "json_row \<Rightarrow> string \<Rightarrow> string \<Rightarrow> bool" where
  "candle_streamed stream symbol timeframe \<longleftrightarrow>
     (\<exists>symbols payload frames candle. dict_get stream ''symbols'' = Some (JObj symbols) \<and> dict_get symbols symbol = Some (JObj payload) \<and>
        dict_get payload ''timeframes'' = Some (JObj frames) \<and> dict_get frames timeframe = Some (JObj candle) \<and> candle \<noteq> [])"

text \<open>Read at \<open>now\<close> by the caller; the decision repeats the gate of the strategy, so the stage RISK is never the last one.\<close>

definition input_gates :: "py_env \<Rightarrow> bool \<Rightarrow> db_row list \<Rightarrow> json_row \<Rightarrow> instant \<Rightarrow> signal_row \<Rightarrow> bool list" where
  "input_gates env kill_switch scan stream now r =
     (let row = scan_row_of env (sr_symbol r) scan;
          payload = as_row (j_get (as_row (j_get stream ''symbols'' JNull)) (sr_symbol r) JNull);
          updated = c_str env (c_or (dict_get_or row ''stream_updated_at'' (c_text [])) (Json (j_get payload ''updated_at'' (JText []))));
          setup = (sr_bucket r = ''WATCH'' \<or> sr_bucket r = ''BUY'' \<or> sr_bucket r = ''IN TRADE'')
      in [fresh_socket env now updated \<and> candle_streamed stream (sr_symbol r) (sr_timeframe r),
          flt (Fin 0) (fmax (fmax (sr_confidence_score r) (sr_watch_score r)) (sr_buy_score r)),
          fle (Fin 45) (sr_orderflow_score r), setup, \<not> kill_switch, setup, sr_bucket r = ''BUY'' \<or> sr_bucket r = ''IN TRADE''])"

text \<open>The figures of the row are those of the first scan row of its symbol.\<close>

definition row_inputs :: "py_env \<Rightarrow> db_row list \<Rightarrow> db_row list \<Rightarrow> string \<Rightarrow> signal_row \<Rightarrow> bool" where
  "row_inputs env scan bots selected r \<longleftrightarrow>
     (let row = scan_row_of env (sr_symbol r) scan in
      cell_float env row ''confidence_score'' = Inr (sr_confidence_score r) \<and> cell_float env row ''watch_score'' = Inr (sr_watch_score r) \<and>
      cell_float env row ''buy_score'' = Inr (sr_buy_score r) \<and> cell_float env row ''orderflow_score'' = Inr (sr_orderflow_score r) \<and>
      sr_bucket r = text_or_default env row ''scan_bucket'' ''NO SIGNAL'' \<and>
      sr_timeframe r = (if selected = ''strategy default'' then text_or_default env (flow_bot env (sr_symbol r) bots) ''timeframe'' ''5m'' else selected))"

lemma socket_fresh: "socket_state_of (stream_age_seconds env now s) = ''LIVE'' \<longleftrightarrow> fresh_socket env now s"
proof (cases "s = [] \<or> utc_datetime env s = None")
  case True
  then show ?thesis by (auto simp: socket_state_of_def stream_age_seconds_def fresh_socket_def)
next
  case False
  then obtain t where t: "s \<noteq> []" "utc_datetime env s = Some t" by auto
  have "max 0 ((now - t) div us_per_second) \<le> 15 \<longleftrightarrow> now - t < 16 * us_per_second" by (simp add: us_per_second_def) linarith
  then show ?thesis using t by (simp add: socket_state_of_def stream_age_seconds_def fresh_socket_def)
qed

lemma as_row_nonempty: "as_row (j_get d k JNull) \<noteq> [] \<longleftrightarrow> (\<exists>r. dict_get d k = Some (JObj r) \<and> r \<noteq> [])"
  by (auto simp: as_row_def dict_get_or_def split: option.splits json.splits)

lemma candle_streamed_iff:
  "as_row (j_get (as_row (j_get (as_row (j_get (as_row (j_get stream ''symbols'' JNull)) symbol JNull)) ''timeframes'' JNull)) timeframe JNull) \<noteq> [] \<longleftrightarrow>
     candle_streamed stream symbol timeframe"
proof -
  have some: "dict_get (as_row (j_get d k JNull)) k' = Some v \<longleftrightarrow> (\<exists>r. dict_get d k = Some (JObj r) \<and> dict_get r k' = Some v)" for d k k' v
    by (auto simp: as_row_def dict_get_or_def split: option.splits json.splits)
  show ?thesis unfolding as_row_nonempty candle_streamed_def some by blast
qed

lemma gates_of_inputs:
  "stage_gates (signal_states_of age candle confidence watch buy flow bucket kill) =
     [socket_state_of age = ''LIVE'' \<and> candle, flt (Fin 0) (fmax (fmax confidence watch) buy), fle (Fin 45) flow,
      bucket = ''WATCH'' \<or> bucket = ''BUY'' \<or> bucket = ''IN TRADE'', \<not> kill,
      bucket = ''WATCH'' \<or> bucket = ''IN TRADE'' \<or> bucket = ''BUY'' \<and> \<not> kill, bucket = ''IN TRADE'' \<or> bucket = ''BUY'' \<and> \<not> kill]"
proof -
  have "fle (Fin 65) flow \<Longrightarrow> fle (Fin 45) flow" by (cases flow) auto
  then show ?thesis by (auto simp: stage_gates_def signal_states_of_def)
qed

lemma same_gates:
  "length (takeWhile id [a, b, c, w \<or> y \<or> t, \<not> k, w \<or> t \<or> y \<and> \<not> k, t \<or> y \<and> \<not> k]) =
     length (takeWhile id [a, b, c, w \<or> y \<or> t, \<not> k, w \<or> y \<or> t, y \<or> t])"
  "list_all id [a, b, c, w \<or> y \<or> t, \<not> k, w \<or> t \<or> y \<and> \<not> k, t \<or> y \<and> \<not> k] = list_all id [a, b, c, w \<or> y \<or> t, \<not> k, w \<or> y \<or> t, y \<or> t]"
  by (cases k; cases y; cases t; simp)+

definition stage_earned :: "bool list \<Rightarrow> signal_row \<Rightarrow> bool" where
  "stage_earned gates r \<longleftrightarrow>
     sr_stage_index r = length (takeWhile id gates) \<and> sr_stage r = signal_flow_stages ! sr_stage_index r \<and>
     (sr_stage r = ''JOURNAL'' \<longleftrightarrow> list_all id gates)"

lemma signal_row_earned:
  assumes "build_signal_row env risk scan stream bots selected now symbol = Inr r"
  shows "sr_symbol r = symbol \<and> row_inputs env scan bots selected r \<and>
    stage_earned (input_gates env (c_truthy (dict_get_or risk ''kill_switch'' (Json (JBool False)))) scan stream now r) r"
proof -
  let ?kill = "c_truthy (dict_get_or risk ''kill_switch'' (Json (JBool False)))" and ?row = "scan_row_of env symbol scan"
  let ?p = "as_row (j_get (as_row (j_get stream ''symbols'' JNull)) symbol JNull)"
  let ?age = "stream_age_seconds env now (c_str env (c_or (dict_get_or ?row ''stream_updated_at'' (c_text [])) (Json (j_get ?p ''updated_at'' (JText [])))))"
  have r: "sr_symbol r = symbol" "row_inputs env scan bots selected r"
    "sr_states r = signal_states_of ?age (as_row (j_get (as_row (j_get ?p ''timeframes'' JNull)) (sr_timeframe r) JNull) \<noteq> [])
        (sr_confidence_score r) (sr_watch_score r) (sr_buy_score r) (sr_orderflow_score r) (sr_bucket r) ?kill"
    "sr_stage r = fst (crossed_signal_stage (sr_states r))" "sr_stage_index r = fst (snd (crossed_signal_stage (sr_states r)))"
    using assms by (auto simp: build_signal_row_def row_inputs_def Let_def bind_res_eq_Inr case_prod_unfold)
  let ?gates = "input_gates env ?kill scan stream now r"
  have same: "length (takeWhile id (stage_gates (sr_states r))) = length (takeWhile id ?gates)"
    "list_all id (stage_gates (sr_states r)) = list_all id ?gates"
    unfolding r(3) gates_of_inputs socket_fresh candle_streamed_iff same_gates input_gates_def Let_def r(1) by (rule refl)+
  have "sr_stage r = signal_flow_stages ! sr_stage_index r" "sr_stage_index r = length (takeWhile id ?gates)"
    "sr_stage r = ''JOURNAL'' \<longleftrightarrow> list_all id ?gates"
    unfolding r(4,5) journal_stage same[symmetric] using crossed_stage_counts_gates[of "sr_states r"] by (simp_all only:)
  then show ?thesis using r(1,2) by (simp only: stage_earned_def simp_thms)
qed

text \<open>\<open>C26\<close>: The signal flow has one row for every symbol asked for, in order, with the scores and bucket of the first scan row of the symbol.
  The stage shown is the number of consecutive gates the inputs pass: an update less than sixteen seconds old and a candle of the timeframe in the stream, some positive
  score, an order flow of at least 45, a bucket of WATCH, BUY or IN TRADE, the kill switch of the risk settings off, and for JOURNAL a bucket of BUY or IN TRADE. The
  row is journaled exactly if all of them hold.
\<close>

theorem signal_flow_stages_are_earned:
  assumes "load_risk_settings de d0 = (d, Inr risk)" and "build_signal_flow_rows de scan stream bots symbols selected d0 = (d', Inr rows)"
  shows "d' = d \<and> map sr_symbol rows = symbols \<and>
    (\<forall>i<length rows. row_inputs (de_env de) scan bots selected (rows ! i) \<and>
       stage_earned (input_gates (de_env de) (c_truthy (dict_get_or risk ''kill_switch'' (Json (JBool False)))) scan stream
         (pe_clock (de_env de) (da_clock d + i)) (rows ! i)) (rows ! i))"
proof -
  let ?row = "\<lambda>(i, symbol). build_signal_row (de_env de) risk scan stream bots selected (pe_clock (de_env de) (da_clock d + i)) symbol"
  have d: "d' = d" and "map_res ?row (enumerate 0 symbols) = Inr rows"
    using assms by (auto simp: build_signal_flow_rows_def)
  then have rows: "list_all2 (\<lambda>x r. ?row x = Inr r) (enumerate 0 symbols) rows" by (simp add: map_res_Inr_iff)
  then have l: "length rows = length symbols" by (auto dest: list_all2_lengthD)
  have row: "build_signal_row (de_env de) risk scan stream bots selected (pe_clock (de_env de) (da_clock d + i)) (symbols ! i) = Inr (rows ! i)"
    if "i < length rows" for i
    using list_all2_nthD2[OF rows that] that by (simp add: nth_enumerate_eq l)
  have "map sr_symbol rows = symbols" using signal_row_earned[OF row] l by (intro nth_equalityI) simp_all
  then show ?thesis using d signal_row_earned[OF row] by blast
qed

section \<open>The merged scan\<close>

text \<open>The symbol and the price of every row, in order; the price a row has after the stream's payloads.\<close>

definition closes :: "py_env \<Rightarrow> db_row list \<Rightarrow> (string \<times> cell) list" where
  "closes env scan = map (\<lambda>r. (c_str env (c_get r ''symbol''), c_get r ''last_close'')) scan"

definition streamed_close :: "py_env \<Rightarrow> string \<Rightarrow> string \<times> json \<Rightarrow> cell \<Rightarrow> cell" where
  "streamed_close env symbol = (\<lambda>(s, v) c. if s \<noteq> symbol then c else (case v of
     JObj p \<Rightarrow> (case payload_float env p ''last_price'' of Inr x \<Rightarrow> if flt (Fin 0) x then Json (JNum x) else c | Inl _ \<Rightarrow> c)
   | _ \<Rightarrow> c))"

definition close_after :: "py_env \<Rightarrow> json_row \<Rightarrow> string \<Rightarrow> cell \<Rightarrow> cell" where
  "close_after env symbols symbol = fold (streamed_close env symbol) symbols"

definition priced :: "db_row \<Rightarrow> bool" where
  "priced r \<longleftrightarrow> dict_get r ''symbol'' \<noteq> None \<and> dict_get r ''last_close'' \<noteq> None"

lemma assign_where_keeps:
  assumes "list_all priced scan" and "k \<noteq> ''symbol''"
  shows "list_all priced (assign_where hit k v scan) \<and>
    closes env (assign_where hit k v scan) =
      map (\<lambda>r. (c_str env (c_get r ''symbol''), if k = ''last_close'' \<and> hit r then v else c_get r ''last_close'')) scan"
  using assms by (auto simp: assign_where_def closes_def list_all_iff priced_def dict_get_or_def)

lemma priced_columns:
  assumes "list_all priced scan" and "scan \<noteq> []"
  shows "''symbol'' \<in> set (cell_columns scan) \<and> ''last_close'' \<in> set (cell_columns scan)"
  using assms by (cases scan) (auto simp: priced_def dest!: dict_get_in intro: rev_image_eqI)

lemma frame_cell: "k \<in> set cols \<Longrightarrow> dict_get (map (\<lambda>c. (c, f c)) cols) k = Some (f k)"
  by (simp add: map_of_map_restrict)

lemma add_row_keeps:
  assumes "list_all priced scan" and "priced x"
  shows "list_all priced (add_row x scan) \<and> closes env (add_row x scan) = closes env (scan @ [x])"
proof -
  have c: "''symbol'' \<in> set (cell_columns (scan @ [x]))" "''last_close'' \<in> set (cell_columns (scan @ [x]))"
    using priced_columns[of "scan @ [x]"] assms by simp_all
  have "dict_get_or r k (Json missing_cell) = c_get r k" if "priced r" "k \<in> {''symbol'', ''last_close''}" for r k
    using that by (auto simp: priced_def dict_get_or_def)
  then show ?thesis using assms c
    by (auto simp: add_row_def cell_frame_def closes_def priced_def list_all_iff frame_cell dict_get_or_def)
qed

lemma unscanned_priced: "priced (unscanned_row s a b n)" "c_get (unscanned_row s a b n) ''symbol'' = c_text s"
  by (simp_all add: priced_def unscanned_row_def dict_get_or_def)

lemma normalize_keeps:
  "list_all priced (normalize_scan_columns scan)"
  "list_all priced scan \<Longrightarrow> closes env (normalize_scan_columns scan) = closes env scan"
proof -
  have keep: "dict_get (fold default_cell ds r) k = (case dict_get r k of Some v \<Rightarrow> Some v | None \<Rightarrow> dict_get ds k)" for ds r k
    by (induction ds arbitrary: r) (auto simp: default_cell_def split: option.split)
  have have_both: "dict_get scan_defaults ''symbol'' = Some (c_text [])" "dict_get scan_defaults ''last_close'' = Some (Json (JNum (Fin 0)))"
    by (simp_all add: scan_defaults_def)
  show "list_all priced (normalize_scan_columns scan)"
    by (auto simp: normalize_scan_columns_def list_all_iff priced_def keep have_both split: option.split)
  show "closes env (normalize_scan_columns scan) = closes env scan" if "list_all priced scan"
    using that by (auto simp: normalize_scan_columns_def closes_def list_all_iff priced_def dict_get_or_def keep)
qed

text \<open>The rows the merge starts from: those of the scan, then one without a price for every default symbol the scan does not have.\<close>

definition tracked_closes :: "py_env \<Rightarrow> string list \<Rightarrow> db_row list \<Rightarrow> (string \<times> cell) list" where
  "tracked_closes env defaults scan =
     closes env scan @ map (\<lambda>s. (s, Json (JNum (Fin 0)))) (filter (\<lambda>s. s \<notin> filled_symbol env ` set scan) defaults)"

lemma unscanned_close: "closes env [unscanned_row s a b n] = [(s, Json (JNum (Fin 0)))]"
  by (simp add: closes_def unscanned_row_def dict_get_or_def c_str_def py_str_def)

lemma closes_append: "closes env (xs @ ys) = closes env xs @ closes env ys"
  by (simp add: closes_def)

lemma ensured_fold:
  assumes "list_all priced scan"
  shows "list_all priced (fold (\<lambda>(i, s) f. if s \<in> K then assign_where (\<lambda>r. c_get r ''symbol'' = c_text s) ''priority'' (Json (JInt (int i))) f
        else add_row (unscanned_row s a b (int i)) f) (enumerate n defaults) scan) \<and>
    closes env (fold (\<lambda>(i, s) f. if s \<in> K then assign_where (\<lambda>r. c_get r ''symbol'' = c_text s) ''priority'' (Json (JInt (int i))) f
        else add_row (unscanned_row s a b (int i)) f) (enumerate n defaults) scan) =
      closes env scan @ map (\<lambda>s. (s, Json (JNum (Fin 0)))) (filter (\<lambda>s. s \<notin> K) defaults)"
  using assms
proof (induction defaults arbitrary: n scan)
  case (Cons s defaults)
  show ?case
  proof (cases "s \<in> K")
    case True
    have "list_all priced (assign_where hit ''priority'' v scan)" "closes env (assign_where hit ''priority'' v scan) = closes env scan" for hit v
      using assign_where_keeps[OF Cons.prems, of "''priority''" hit v env] by (simp_all add: closes_def)
    with Cons.IH True show ?thesis by simp
  next
    case False
    have "list_all priced (add_row (unscanned_row s a b (int n)) scan)"
      "closes env (add_row (unscanned_row s a b (int n)) scan) = closes env scan @ [(s, Json (JNum (Fin 0)))]"
      using add_row_keeps[OF Cons.prems unscanned_priced(1)] by (simp_all add: closes_append unscanned_close)
    with Cons.IH False show ?thesis by simp
  qed
qed simp

lemma ensured_closes:
  assumes "list_all priced scan"
  shows "list_all priced (ensure_default_live_symbols env defaults scan) \<and>
    closes env (ensure_default_live_symbols env defaults scan) = tracked_closes env defaults scan"
proof (cases "scan = []")
  case True
  have "closes env (default_live_scan_frame defaults) = map (\<lambda>s. (s, Json (JNum (Fin 0)))) defaults"
    using unscanned_close[of env] by (auto simp: default_live_scan_frame_def closes_def enumerate_eq_zip case_prod_unfold comp_def
        map_zip_map2[symmetric] intro!: nth_equalityI)
  then show ?thesis using True
    by (auto simp: ensure_default_live_symbols_def no_rows_def tracked_closes_def closes_def default_live_scan_frame_def list_all_iff unscanned_priced)
next
  case False
  let ?scan = "if ''priority'' \<in> set (cell_columns scan) then scan else map (dict_set ''priority'' (Json (JInt 100))) scan"
  have symbol: "''symbol'' \<in> set (cell_columns scan)" using priced_columns[OF assms False] by blast
  have same: "list_all priced ?scan" "closes env ?scan = closes env scan" "filled_symbol env ` set ?scan = filled_symbol env ` set scan"
    using assms by (auto simp: list_all_iff priced_def closes_def filled_symbol_def dict_get_or_def image_image)
  have "ensure_default_live_symbols env defaults scan =
      normalize_scan_columns (fold (\<lambda>(i, s) f. if s \<in> filled_symbol env ` set ?scan
        then assign_where (\<lambda>r. c_get r ''symbol'' = c_text s) ''priority'' (Json (JInt (int i))) f
        else add_row (unscanned_row s ''default live tracking enabled; awaiting scanner data'' ''awaiting scanner data'' (int i)) f) (enumerate 0 defaults) ?scan)"
    using symbol False unfolding ensure_default_live_symbols_def no_rows_def Let_def set_map by (simp only: split: if_splits) auto
  with ensured_fold[OF same(1), of "filled_symbol env ` set ?scan" _ _ 0 defaults env] normalize_keeps
  show ?thesis unfolding tracked_closes_def same(2,3) by simp
qed

lemma puts_keep:
  assumes "list_all priced scan" and "list_all (\<lambda>(k, v). k \<noteq> ''symbol'' \<and> k \<noteq> ''last_close'') kvs"
  shows "list_all priced (fold (\<lambda>(k, v). assign_where hit k v) kvs scan) \<and>
    closes env (fold (\<lambda>(k, v). assign_where hit k v) kvs scan) = closes env scan"
  using assms
proof (induction kvs arbitrary: scan)
  case (Cons kv kvs)
  obtain k v where kv: "kv = (k, v)" by (cases kv)
  have "list_all priced (assign_where hit k v scan)" "closes env (assign_where hit k v scan) = closes env scan"
    using assign_where_keeps[OF Cons.prems(1), of k hit v env] Cons.prems(2) by (simp_all add: kv closes_def)
  with Cons.IH[of "assign_where hit k v scan"] Cons.prems(2) show ?case by (simp add: kv)
qed simp

lemma merge_symbol_closes:
  assumes "merge_symbol env stream (s, v) scan0 = Inr scan'" and "list_all priced scan0"
  shows "list_all priced scan' \<and> closes env scan' = map (\<lambda>(t, c). (t, streamed_close env t (s, v) c)) (closes env scan0 @
     (if (\<exists>p. v = JObj p) \<and> s \<notin> fst ` set (closes env scan0) then [(s, Json (JNum (Fin 0)))] else []))"
proof (cases "\<exists>p. v = JObj p")
  case False
  then have "scan' = scan0" "streamed_close env t (s, v) c = c" for t c
    using assms(1) by (auto simp: merge_symbol_def streamed_close_def split: json.splits)
  then show ?thesis using assms(2) False by simp
next
  case True
  then obtain p where v: "v = JObj p" by blast
  define scan where "scan = (if list_ex (is_symbol env s) scan0 then scan0
     else add_row (unscanned_row s ''websocket live market tracking; scanner score pending'' ''websocket stream active'' 100) scan0)"
  obtain price flow spread imbalance taker count where price: "payload_float env p ''last_price'' = Inr price"
    and scan': "scan' = fold (\<lambda>(k, v). assign_where (is_symbol env s) k v)
      ((if flt (Fin 0) price then [(''last_close'', Json (JNum price))] else []) @ stream_cells env stream p flow spread imbalance taker count) scan"
    using assms(1) unfolding merge_symbol_def v scan_def[symmetric]
    by (simp only: prod.case json.case Let_def bind_res_eq_Inr scan_def[symmetric] sum.inject) (elim exE conjE, rule that, assumption, erule sym)
  have others: "list_all (\<lambda>(k, v). k \<noteq> ''symbol'' \<and> k \<noteq> ''last_close'') (stream_cells env stream p flow spread imbalance taker count)"
    by (simp add: stream_cells_def)
  have known: "list_ex (is_symbol env s) scan0 \<longleftrightarrow> s \<in> fst ` set (closes env scan0)"
    by (auto simp: closes_def list_ex_iff is_symbol_def image_iff)
  have frame: "list_all priced scan" "closes env scan = closes env scan0 @ (if s \<notin> fst ` set (closes env scan0) then [(s, Json (JNum (Fin 0)))] else [])"
    using add_row_keeps[OF assms(2) unscanned_priced(1)] assms(2) by (simp_all add: scan_def known closes_append unscanned_close)
  have "list_all priced scan' \<and> closes env scan' = map (\<lambda>(t, c). (t, streamed_close env t (s, v) c)) (closes env scan)"
  proof (cases "flt (Fin 0) price")
    case True
    let ?put = "assign_where (is_symbol env s) ''last_close'' (Json (JNum price)) scan"
    have "list_all priced ?put" "closes env ?put = map (\<lambda>(t, c). (t, streamed_close env t (s, v) c)) (closes env scan)"
      using assign_where_keeps[OF frame(1), of "''last_close''" "is_symbol env s" "Json (JNum price)" env] True
      by (auto simp: closes_def streamed_close_def v price is_symbol_def)
    then show ?thesis using puts_keep[OF _ others, of ?put "is_symbol env s" env] True by (simp add: scan')
  next
    case False
    then have "streamed_close env t (s, v) c = c" for t c by (simp add: streamed_close_def v price)
    then show ?thesis using puts_keep[OF frame(1) others, of "is_symbol env s" env] False by (simp add: scan')
  qed
  then show ?thesis unfolding frame(2) by (simp add: v)
qed

lemma merge_symbols_closes:
  assumes "fold_res (merge_symbol env stream) symbols scan0 = Inr scan'" and "list_all priced scan0"
  shows "list_all priced scan' \<and> (\<exists>added. distinct added \<and> set added = {s. (\<exists>p. (s, JObj p) \<in> set symbols) \<and> s \<notin> fst ` set (closes env scan0)} \<and>
    closes env scan' = map (\<lambda>(t, c). (t, close_after env symbols t c)) (closes env scan0 @ map (\<lambda>s. (s, Json (JNum (Fin 0)))) added))"
  using assms
proof (induction symbols arbitrary: scan0)
  case Nil
  then show ?case by (auto simp: close_after_def case_prod_unfold intro!: exI[of _ "[]"])
next
  case (Cons sv symbols)
  obtain s v where sv: "sv = (s, v)" by (cases sv)
  let ?new = "(\<exists>p. v = JObj p) \<and> s \<notin> fst ` set (closes env scan0)" and ?row = "\<lambda>s. (s, Json (JNum (Fin 0)))"
  obtain scan1 where s1: "merge_symbol env stream (s, v) scan0 = Inr scan1" "fold_res (merge_symbol env stream) symbols scan1 = Inr scan'"
    using Cons.prems(1) by (auto simp: sv bind_res_eq_Inr)
  have one: "list_all priced scan1"
    "closes env scan1 = map (\<lambda>(t, c). (t, streamed_close env t (s, v) c)) (closes env scan0 @ (if ?new then [?row s] else []))"
    using merge_symbol_closes[OF s1(1) Cons.prems(2)] by blast+
  have fst1: "fst ` set (closes env scan1) = fst ` set (closes env scan0) \<union> (if ?new then {s} else {})"
    unfolding one(2) by (force simp: image_iff)
  obtain added where rest: "list_all priced scan'" "distinct added"
    "set added = {s. (\<exists>p. (s, JObj p) \<in> set symbols) \<and> s \<notin> fst ` set (closes env scan1)}"
    "closes env scan' = map (\<lambda>(t, c). (t, close_after env symbols t c)) (closes env scan1 @ map ?row added)"
    using Cons.IH[OF s1(2) one(1)] by blast
  let ?added = "(if ?new then [s] else []) @ added"
  have unaffected: "streamed_close env t (s, v) c = c" if "t \<in> set added" for t c
    using that rest(3) fst1 by (cases v) (auto simp: streamed_close_def split: if_splits)
  have "closes env scan' = map (\<lambda>(t, c). (t, close_after env (sv # symbols) t c)) (closes env scan0 @ map ?row ?added)"
    using unaffected by (auto simp: rest(4) one(2) close_after_def sv case_prod_unfold)
  moreover have "distinct ?added" using rest(2,3) fst1 by auto
  moreover have "set ?added = {s. (\<exists>p. (s, JObj p) \<in> set (sv # symbols)) \<and> s \<notin> fst ` set (closes env scan0)}"
    using rest(3) fst1 by (auto simp: sv)
  ultimately show ?case using rest(1) by blast
qed

text \<open>\<open>C27\<close>: A merge of a scan with the stream keeps the rows of the scan in place and appends one for every default symbol the scan
  does not have and one for every other symbol streamed with a payload, and no others. The price of a row is the last positive price streamed for its symbol;
  when there is none it is the one the scan had, and 0 for the appended rows.
\<close>

theorem streamed_prices_reach_the_scan:
  assumes "merge_stream_state env defaults scan stream = Inr scan'" and "list_all priced scan"
  shows "\<exists>added. distinct added \<and>
     set added = {s. (\<exists>p. (s, JObj p) \<in> set (as_row (j_get stream ''symbols'' JNull))) \<and> s \<notin> fst ` set (tracked_closes env defaults scan)} \<and>
     closes env scan' = map (\<lambda>(s, c). (s, close_after env (as_row (j_get stream ''symbols'' JNull)) s c))
       (closes env scan @
        map (\<lambda>s. (s, Json (JNum (Fin 0)))) (filter (\<lambda>s. s \<notin> filled_symbol env ` set scan) defaults @ added))"
proof -
  let ?scan = "ensure_default_live_symbols env defaults scan" and ?symbols = "as_row (j_get stream ''symbols'' JNull)"
  have base: "list_all priced ?scan" "closes env ?scan = tracked_closes env defaults scan" using ensured_closes[OF assms(2)] by blast+
  have split: "closes env scan @ map (\<lambda>s. (s, Json (JNum (Fin 0)))) (filter (\<lambda>s. s \<notin> filled_symbol env ` set scan) defaults @ added) =
      tracked_closes env defaults scan @ map (\<lambda>s. (s, Json (JNum (Fin 0)))) added" for added
    by (simp add: tracked_closes_def)
  show ?thesis unfolding split
  proof (cases "?symbols = []")
    case True
    then have "scan' = ?scan" using assms(1) by (auto simp: merge_stream_state_def as_row_def Let_def split: json.splits)
    then show "\<exists>added. distinct added \<and> set added = {s. (\<exists>p. (s, JObj p) \<in> set ?symbols) \<and> s \<notin> fst ` set (tracked_closes env defaults scan)} \<and>
        closes env scan' = map (\<lambda>(s, c). (s, close_after env ?symbols s c)) (tracked_closes env defaults scan @ map (\<lambda>s. (s, Json (JNum (Fin 0)))) added)"
      by (simp add: True close_after_def case_prod_unfold base(2))
  next
    case False
    then obtain scan1 where s1: "fold_res (merge_symbol env stream) ?symbols ?scan = Inr scan1" "scan' = normalize_scan_columns scan1"
      using assms(1) by (auto simp: merge_stream_state_def as_row_def Let_def bind_res_eq_Inr split: json.splits)
    from merge_symbols_closes[OF s1(1) base(1)] normalize_keeps(2)[of scan1 env]
    show "\<exists>added. distinct added \<and> set added = {s. (\<exists>p. (s, JObj p) \<in> set ?symbols) \<and> s \<notin> fst ` set (tracked_closes env defaults scan)} \<and>
        closes env scan' = map (\<lambda>(s, c). (s, close_after env ?symbols s c)) (tracked_closes env defaults scan @ map (\<lambda>s. (s, Json (JNum (Fin 0)))) added)"
      unfolding s1(2) base(2) by auto
  qed
qed

section \<open>Examples\<close>

text \<open>A symbol the scanner would buy, with a fresh stream and a candle; a default symbol without a price, and one only the stream knows.\<close>

definition flow_env :: py_env where
  "flow_env = example_env\<lparr>pe_fromiso := (\<lambda>_. Some 0)\<rparr>"

definition sample_scan :: "db_row list" where
  "sample_scan = [[(''symbol'', c_text ''ETH/USDT''), (''scan_bucket'', c_text ''BUY''), (''last_close'', Json (JNum (Fin 1990))),
     (''buy_score'', Json (JNum (Fin 80))), (''orderflow_score'', Json (JNum (Fin 60)))]]"

definition sample_symbols :: json_row where
  "sample_symbols =
     [(''ETH/USDT'', JObj [(''last_price'', JNum (Fin 2000)), (''updated_at'', JText ''t''),
        (''timeframes'', JObj [(''5m'', JObj [(''close'', JNum (Fin 2000))])])]),
      (''BTC/USDT'', JObj []), (''SOL/USDT'', JObj [(''last_price'', JNum (Fin 150))])]"

definition sample_stream :: json_row where
  "sample_stream = [(''symbols'', JObj sample_symbols)]"

lemma sample_stream_symbols: "as_row (j_get sample_stream ''symbols'' JNull) = sample_symbols"
  by (simp add: sample_stream_def dict_get_or_def as_row_def)

lemma merge_symbol_returns:
  assumes "is_ok (payload_float env p ''last_price'')" and "is_ok (payload_float env p ''orderflow_score'')"
    and "is_ok (payload_float env p ''spread_bps'')" and "is_ok (payload_float env p ''depth_imbalance'')"
    and "is_ok (payload_float env p ''taker_buy_ratio'')" and "is_ok (py_int (j_or (j_get p ''trade_count'' JNull) (JInt 0)))"
  shows "is_ok (merge_symbol env stream (s, JObj p) scan)"
  using assms unfolding is_ok_iff by (elim exE) (simp add: merge_symbol_def)

lemma payload_float_none: "dict_get p k = None \<Longrightarrow> is_ok (payload_float env p k)"
  by (simp add: payload_float_def dict_get_or_def j_or_def truthy_def)

definition price_only :: "json_row \<Rightarrow> bool" where
  "price_only p \<longleftrightarrow> list_all (\<lambda>k. dict_get p k = None) [''orderflow_score'', ''spread_bps'', ''depth_imbalance'', ''taker_buy_ratio'', ''trade_count''] \<and>
     (case dict_get p ''last_price'' of None \<Rightarrow> True | Some (JNum x) \<Rightarrow> x \<noteq> Fin 0 | _ \<Rightarrow> False)"

lemma price_only_returns: "price_only p \<Longrightarrow> is_ok (merge_symbol env stream (s, JObj p) scan)"
proof (rule merge_symbol_returns)
  assume p: "price_only p"
  show "is_ok (payload_float env p ''last_price'')"
    using p by (simp add: price_only_def payload_float_def dict_get_or_def j_or_def truthy_def split: option.splits json.splits)
  show "is_ok (py_int (j_or (j_get p ''trade_count'' JNull) (JInt 0)))" using p by (simp add: price_only_def dict_get_or_def j_or_def truthy_def)
qed (simp_all add: price_only_def payload_float_none)

lemma sample_merge_returns: "is_ok (merge_stream_state flow_env [''BTC/USDT''] sample_scan sample_stream)"
proof -
  have one: "list_all (\<lambda>sv. \<forall>scan. is_ok (merge_symbol flow_env sample_stream sv scan)) sample_symbols"
    unfolding sample_symbols_def list.pred_inject by (intro conjI allI price_only_returns TrueI) (simp_all add: price_only_def)
  have "is_ok (fold_res (merge_symbol flow_env sample_stream) svs scan)"
    if "list_all (\<lambda>sv. \<forall>scan. is_ok (merge_symbol flow_env sample_stream sv scan)) svs" for svs scan
    using that
  proof (induction svs arbitrary: scan)
    case (Cons sv svs)
    then obtain scan1 where "merge_symbol flow_env sample_stream sv scan = Inr scan1" by (auto simp: is_ok_iff)
    with Cons show ?case by simp
  qed (simp add: is_ok_iff)
  from this[OF one, of "ensure_default_live_symbols flow_env [''BTC/USDT''] sample_scan"]
  obtain scan1 where "fold_res (merge_symbol flow_env sample_stream) sample_symbols (ensure_default_live_symbols flow_env [''BTC/USDT''] sample_scan) = Inr scan1"
    by (auto simp: is_ok_iff)
  moreover have "j_get sample_stream ''symbols'' JNull = JObj sample_symbols" by (simp add: sample_stream_def dict_get_or_def)
  moreover have "sample_symbols \<noteq> []" by (simp add: sample_symbols_def)
  ultimately show ?thesis by (simp add: merge_stream_state_def is_ok_iff Let_def)
qed

theorem streamed_prices_reach_the_scan_witness:
  "\<exists>scan'. merge_stream_state flow_env [''BTC/USDT''] sample_scan sample_stream = Inr scan' \<and>
     closes flow_env scan' = [(''ETH/USDT'', Json (JNum (Fin 2000))), (''BTC/USDT'', Json (JNum (Fin 0))), (''SOL/USDT'', Json (JNum (Fin 150)))]"
proof -
  obtain scan' where m: "merge_stream_state flow_env [''BTC/USDT''] sample_scan sample_stream = Inr scan'"
    using sample_merge_returns by (auto simp: is_ok_iff)
  have priced: "list_all priced sample_scan" by (simp add: sample_scan_def priced_def)
  have scan: "closes flow_env sample_scan = [(''ETH/USDT'', Json (JNum (Fin 1990)))]" "filled_symbol flow_env ` set sample_scan = {''ETH/USDT''}"
    by (simp_all add: closes_def filled_symbol_def sample_scan_def dict_get_or_def missing_cell_def)
  have ex_eq: "(\<exists>p. a \<and> p = y) = a" for a and y :: json_row by blast
  have streamed: "(\<exists>p. (s, JObj p) \<in> set sample_symbols) \<longleftrightarrow> s \<in> {''ETH/USDT'', ''BTC/USDT'', ''SOL/USDT''}" for s
    by (simp add: sample_symbols_def, simp only: ex_disj_distrib ex_eq)
  have known: "fst ` set (tracked_closes flow_env [''BTC/USDT''] sample_scan) = {''ETH/USDT'', ''BTC/USDT''}" unfolding tracked_closes_def scan by simp
  have rest: "{s. s \<in> {a, b, c} \<and> s \<notin> {a, b}} = {c}" if "c \<notin> {a, b}" for a b c :: string using that by blast
  have new: "{s. (\<exists>p. (s, JObj p) \<in> set sample_symbols) \<and> s \<notin> fst ` set (tracked_closes flow_env [''BTC/USDT''] sample_scan)} = {''SOL/USDT''}"
    unfolding streamed known by (rule rest) simp
  have price: "close_after flow_env sample_symbols ''ETH/USDT'' c = Json (JNum (Fin 2000))" "close_after flow_env sample_symbols ''BTC/USDT'' c = c"
    "close_after flow_env sample_symbols ''SOL/USDT'' c = Json (JNum (Fin 150))" for c
    by (simp_all add: sample_symbols_def close_after_def streamed_close_def payload_float_def dict_get_or_def j_or_def truthy_def)
  from streamed_prices_reach_the_scan[OF m priced] obtain added where added: "distinct added" "set added = {''SOL/USDT''}"
    "closes flow_env scan' = map (\<lambda>(s, c). (s, close_after flow_env sample_symbols s c))
      ([(''ETH/USDT'', Json (JNum (Fin 1990)))] @ map (\<lambda>s. (s, Json (JNum (Fin 0)))) (filter (\<lambda>s. s \<notin> {''ETH/USDT''}) [''BTC/USDT''] @ added))"
    unfolding sample_stream_symbols scan new by (elim exE conjE) (rule that)
  have only: "xs = [x]" if "distinct xs" "set xs = {x}" for xs and x :: string
    using that by (cases xs) (auto simp: subset_singleton_iff)
  show ?thesis using added(3) unfolding only[OF added(1,2)] by (intro exI[of _ scan'] conjI m) (simp add: price)
qed

definition flow_dash_env :: dash_env where
  "flow_dash_env = file_dash_env\<lparr>de_env := flow_env\<rparr>"

lemma sample_row: "scan_row_of flow_env ''ETH/USDT'' sample_scan = hd sample_scan"
  by (simp add: scan_row_of_def sample_scan_def dict_get_or_def)

lemma flow_returns:
  "\<exists>r. build_signal_flow_rows flow_dash_env sample_scan sample_stream [] [''ETH/USDT''] ''5m'' example_dash = (example_dash, Inr [r])"
proof -
  have "is_ok (build_signal_row flow_env default_risk_settings sample_scan sample_stream [] ''5m'' now ''ETH/USDT'')" for now
    unfolding build_signal_row_def sample_row sample_stream_symbols
    by (simp add: sample_scan_def flow_bot_def cell_float_def c_float_def c_or_def c_truthy_def truthy_def dict_get_or_def Let_def
        case_prod_unfold row_or_payload_def c_int_def is_ok_iff sample_symbols_def as_row_def bind_res_eq_Inr)
  then obtain row where "build_signal_row flow_env default_risk_settings sample_scan sample_stream [] ''5m'' (pe_clock flow_env 0) ''ETH/USDT'' = Inr row"
    by (auto simp: is_ok_iff)
  then show ?thesis
    by (simp add: build_signal_flow_rows_def load_risk_settings_def flow_dash_env_def file_dash_env_def example_dash_def Let_def)
qed

theorem signal_flow_stages_are_earned_witness:
  "\<exists>r. build_signal_flow_rows flow_dash_env sample_scan sample_stream [] [''ETH/USDT''] ''5m'' example_dash = (example_dash, Inr [r]) \<and>
     sr_symbol r = ''ETH/USDT'' \<and> sr_stage r = ''JOURNAL'' \<and> sr_stage_index r = 7"
proof -
  have risk: "load_risk_settings flow_dash_env example_dash = (example_dash, Inr default_risk_settings)"
    by (simp add: load_risk_settings_def flow_dash_env_def file_dash_env_def example_dash_def Let_def)
  obtain r where rows: "build_signal_flow_rows flow_dash_env sample_scan sample_stream [] [''ETH/USDT''] ''5m'' example_dash = (example_dash, Inr [r])"
    using flow_returns by blast
  have kill: "\<not> c_truthy (dict_get_or default_risk_settings ''kill_switch'' (Json (JBool False)))"
    by (simp add: default_risk_settings_def dict_get_or_def c_truthy_def truthy_def)
  have env: "de_env flow_dash_env = flow_env" "pe_clock flow_env (da_clock example_dash) = 0"
    by (simp_all add: flow_dash_env_def flow_env_def example_env_def example_dash_def)
  from signal_flow_stages_are_earned[OF risk rows] have r: "sr_symbol r = ''ETH/USDT''" "row_inputs flow_env sample_scan [] ''5m'' r"
    "stage_earned (input_gates flow_env False sample_scan sample_stream 0 r) r"
    by (simp_all add: env kill)
  have cells: "cell_float flow_env (hd sample_scan) ''confidence_score'' = Inr (Fin 0)" "cell_float flow_env (hd sample_scan) ''watch_score'' = Inr (Fin 0)"
      "cell_float flow_env (hd sample_scan) ''buy_score'' = Inr (Fin 80)" "cell_float flow_env (hd sample_scan) ''orderflow_score'' = Inr (Fin 60)"
      "text_or_default flow_env (hd sample_scan) ''scan_bucket'' ''NO SIGNAL'' = ''BUY''" "''5m'' \<noteq> ''strategy default''"
    by (simp_all add: sample_scan_def cell_float_def c_float_def c_or_def c_truthy_def truthy_def dict_get_or_def text_or_default_def)
  have figures: "sr_bucket r = ''BUY''" "sr_timeframe r = ''5m''" "sr_orderflow_score r = Fin 60" "sr_buy_score r = Fin 80"
      "sr_watch_score r = Fin 0" "sr_confidence_score r = Fin 0"
    using r(2)[unfolded row_inputs_def r(1) sample_row Let_def cells(1-5) if_not_P[OF cells(6)] sum.inject] by metis+
  have candle: "candle_streamed sample_stream ''ETH/USDT'' ''5m''"
    by (simp add: candle_streamed_def sample_stream_def sample_symbols_def)
  have "fresh_socket flow_env 0 s" if "s \<noteq> []" for s
    using that by (simp add: fresh_socket_def utc_datetime_def flow_env_def us_per_second_def)
  moreover have "c_str flow_env (c_or (dict_get_or (hd sample_scan) ''stream_updated_at'' (c_text []))
      (Json (j_get (as_row (j_get sample_symbols ''ETH/USDT'' JNull)) ''updated_at'' (JText [])))) \<noteq> []"
    by (simp add: sample_scan_def sample_symbols_def as_row_def dict_get_or_def c_or_def c_truthy_def truthy_def)
  ultimately have "input_gates flow_env False sample_scan sample_stream 0 r = replicate 7 True"
    unfolding input_gates_def r(1) sample_row sample_stream_symbols figures Let_def using candle by (simp add: numeral_nat fmax_def)
  with r rows show ?thesis by (simp add: stage_earned_def numeral_nat signal_flow_stages_def)
qed

text \<open>
  The light of trade readiness does not look at the spread: a symbol the risk check of the same strategy marks red, and which
  lies in the lane of high risk, is ready for review.
\<close>

lemma ready_light_ignores_the_risk_check:
  defines "r \<equiv> [(''symbol'', c_text ''ETH/USDT''), (''scan_bucket'', c_text ''BUY''), (''orderflow_score'', Json (JNum (Fin 60))),
      (''stream_spread_bps'', Json (JNum (Fin 40)))]"
  shows "traffic_light_for_strategy env ''KCJ ATR Trend Burst 5m'' r ''Trade Readiness'' = Inr (''Green'', ''Ready for trade review'')"
    and "traffic_light_for_strategy env ''KCJ ATR Trend Burst 5m'' r ''Risk Check'' = Inr (''Red'', ''Avoid: spread/liquidity risk'')"
    and "market_bucket_lane env r = Inr ''High Risk / Avoid''"
proof -
  have pair: "strategy_symbol_is_certified ''KCJ ATR Trend Burst 5m'' ''ETH/USDT''"
    by (simp add: strategy_symbol_is_certified_def certified_symbols_for_strategy_def dict_get_or_def)
  show "traffic_light_for_strategy env ''KCJ ATR Trend Burst 5m'' r ''Trade Readiness'' = Inr (''Green'', ''Ready for trade review'')"
    "traffic_light_for_strategy env ''KCJ ATR Trend Burst 5m'' r ''Risk Check'' = Inr (''Red'', ''Avoid: spread/liquidity risk'')"
    using pair by (simp_all add: r_def traffic_light_for_strategy_def text_or_default_def text_of_def cell_float_def c_or_def c_truthy_def truthy_def
        c_float_def dict_get_or_def Let_def)
  show "market_bucket_lane env r = Inr ''High Risk / Avoid''"
    by (simp add: r_def market_bucket_lane_def text_or_default_def cell_float_def c_or_def c_truthy_def truthy_def c_float_def dict_get_or_def Let_def)
qed

end
