(* ===== verification/Runtime_Profile.thy ===== *)
theory Runtime_Profile
  imports Signal_Flow
begin

text \<open>
  The runtime profile of a bot (\<open>runtime_instance_profile\<close> in \<open>dashboards/app.py\<close>): its position, capital, exposure and stop,
  the size recommended, what validation and the strategy matrix say of it, and the health light and guidance drawn from
  them. \<open>file_events\<close> are the trade events of the report file, \<open>stamp\<close> the compact text of a time.
\<close>

section \<open>Ages and returns\<close>

definition seconds_since :: "instant \<Rightarrow> instant \<Rightarrow> pyfloat" where
  "seconds_since now t = fround (of_int (now - t) / 1000000)"

definition run_days_since :: "py_env \<Rightarrow> instant \<Rightarrow> pyfloat \<Rightarrow> string \<Rightarrow> pyfloat" where
  "run_days_since env now least s =
     (if s = [] then least else (case utc_datetime env s of None \<Rightarrow> least | Some t \<Rightarrow> fmax least (fdiv (seconds_since now t) (Fin 86400))))"

text \<open>\<open>pow\<close> is Python's \<open>**\<close>, which raises when the result is too large.\<close>

definition annualized_cagr_from_run_return :: "(pyfloat \<Rightarrow> pyfloat \<Rightarrow> pyfloat res) \<Rightarrow> pyfloat \<Rightarrow> pyfloat \<Rightarrow> pyfloat option res" where
  "annualized_cagr_from_run_return pow run_return_pct run_days =
     (if fle run_days (Fin 0) \<or> fle run_return_pct (Fin (- 100)) then Inr None
      else bind_res (pow (fadd (Fin 1) (fdiv run_return_pct (Fin 100))) (fdiv (Fin 365) run_days)) (\<lambda>growth.
        Inr (Some (fmul (fsub growth (Fin 1)) (Fin 100)))))"

definition cagr_maturity_label :: "pyfloat \<Rightarrow> string" where
  "cagr_maturity_label run_days =
     (if flt run_days (Fin 7) then ''Too early for CAGR'' else if flt run_days (Fin 30) then ''Early annualized'' else ''CAGR'')"

definition runtime_hours_since :: "py_env \<Rightarrow> instant \<Rightarrow> string \<Rightarrow> pyfloat" where
  "runtime_hours_since env now s =
     (if s = [] then Fin 0 else (case utc_datetime env s of None \<Rightarrow> Fin 0 | Some t \<Rightarrow> fmax (Fin 0) (fdiv (seconds_since now t) (Fin 3600))))"

section \<open>Deployment profile\<close>

record deployment_profile =
  dp_defaults :: deployment_defaults
  dp_bot_version :: string
  dp_stop_loss_type :: string
  dp_stop_loss_value :: string
  dp_take_profit_type :: string
  dp_take_profit_value :: string
  dp_trailing_enabled :: bool
  dp_emergency_stop_enabled :: bool
  dp_risk_allocation_category :: string

definition bot_deployment_profile :: "(pyfloat \<Rightarrow> pyfloat) \<Rightarrow> py_env \<Rightarrow> db_row \<Rightarrow> deployment_profile" where
  "bot_deployment_profile q env r =
     (let dd = strategy_deployment_defaults q (text_of env r ''strategy'' []); params = bot_parameters env r;
          overrides = as_row (j_get params ''deployment_overrides'' (JObj []));
          text_param = (\<lambda>k d. py_str env (j_get params k (j_get overrides k (JText d))));
          flag_param = (\<lambda>k d. truthy (j_get params k (j_get overrides k (JBool d))))
      in \<lparr>dp_defaults = dd, dp_bot_version = py_str env (j_get params ''bot_version'' (JText (dd_strategy_version dd))),
          dp_stop_loss_type = text_param ''stop_loss_type'' (dd_stop_type dd), dp_stop_loss_value = text_param ''stop_loss_value'' (dd_stop_value dd),
          dp_take_profit_type = text_param ''take_profit_type'' (dd_tp_type dd), dp_take_profit_value = text_param ''take_profit_value'' (dd_tp_value dd),
          dp_trailing_enabled = flag_param ''trailing_enabled'' (dd_trailing_enabled dd),
          dp_emergency_stop_enabled = flag_param ''emergency_stop_enabled'' (dd_emergency_stop_enabled dd),
          dp_risk_allocation_category = py_str env (j_get params ''risk_allocation_category'' (JText (dd_risk_classification dd)))\<rparr>)"

section \<open>Health and guidance\<close>

definition runtime_health_light :: "string \<Rightarrow> string \<Rightarrow> string \<Rightarrow> string \<times> string" where
  "runtime_health_light alert data_state recovery =
     (if alert = ''CRITICAL'' \<or> data_state \<in> {''STALE'', ''MISSING''} \<or> recovery \<in> {''HALT'', ''HALT_AND_RESTART'', ''HALT_AND_PROTECT''}
      then (''Red'', ''Critical'')
      else if alert = ''WARNING'' \<or> recovery \<in> {''RESTART'', ''THROTTLE''} \<or> data_state = ''CLOCK_DRIFT'' then (''Amber'', ''Warning'')
      else (''Green'', ''Healthy''))"

definition runtime_guidance :: "string \<Rightarrow> string \<Rightarrow> string \<Rightarrow> pyfloat \<Rightarrow> string \<Rightarrow> pyfloat \<Rightarrow> string" where
  "runtime_guidance light position status drawdown signal utilization =
     (if light = ''Red'' then ''Critical runtime state; stop or reconcile before new exposure.''
      else if position = ''OUT_OF_TRADE'' \<and> status \<in> {''RUNNING'', ''DEPLOYED''}
        then ''Bot is running 24x7 but out of trade after exit signal; waiting for next entry.''
      else if position = ''IN_TRADE'' then ''Bot is running 24x7 and currently in trade; monitor stop, P&L, and exit state.''
      else if fle drawdown (Fin (- 8)) then ''Drawdown approaching threshold; monitor closely.''
      else if signal \<in> {''BUY'', ''IN TRADE''} \<and> light = ''Green'' then ''Signal clear; runtime healthy.''
      else if signal = ''WATCH'' then ''Signal developing; wait for confirmation.''
      else if flt utilization (Fin 50) \<and> status \<in> {''RUNNING'', ''DEPLOYED''} then ''Capital allocation below recommended level.''
      else ''No active signal; keep bot under observation.'')"

section \<open>Events and sizes\<close>

definition load_runtime_trade_events :: "dash_env \<Rightarrow> db_row list \<Rightarrow> dash \<Rightarrow> dash \<times> db_row list" where
  "load_runtime_trade_events de file_events d =
     (if de_enabled de
      then (case try_db (\<lambda>db. (db, read_runtime_events (de_env de) (de_newest de ''event_time'') 10000 db)) d of
              (d', Inr rows) \<Rightarrow> (d', if rows = [] then file_events else rows)
            | (d', Inl x) \<Rightarrow> (fall_back de ''RUNTIME_EVENTS'' x d', file_events))
      else (d, file_events))"

definition decision_row ::
    "(instant \<Rightarrow> string) \<Rightarrow> instant \<Rightarrow> instant \<Rightarrow> string \<Rightarrow> string \<Rightarrow> string \<Rightarrow> string \<Rightarrow> size_request \<Rightarrow> size_decision \<Rightarrow> json_row" where
  "decision_row stamp now now2 bot_id strategy instance_id symbol s made =
     (let clean = (\<lambda>x. JNum (fmax (safe_float x (Fin 0)) (Fin 0))) in
      [(''position_size_decision_id'', JText (''psd-'' @ stamp now)), (''bot_id'', JText bot_id), (''strategy_id'', JText strategy),
       (''runtime_instance_id'', JText instance_id), (''symbol'', JText symbol), (''sizing_method'', JText (sq_sizing_method s)),
       (''capital'', clean (sq_capital s)), (''risk_per_trade'', clean (sq_risk_per_trade s)), (''max_allocation'', clean (sq_max_allocation s)),
       (''stop_loss_distance'', clean (sq_stop_loss_distance s)), (''volatility_value'', JNum (sq_volatility_value s)),
       (''regime'', JText (sq_regime s)), (''calculated_quantity'', JNum (sd_calculated_quantity made)),
       (''final_quantity'', JNum (sd_final_quantity made)), (''capital_used'', JNum (sd_capital_used made)),
       (''risk_amount'', JNum (sd_risk_amount made)), (''allocation_percentage'', JNum (sd_allocation_percentage made)),
       (''cap_applied_json'', JList (map JText (sd_cap_applied made))), (''override_flag'', JBool (sd_override_flag made)),
       (''override_reason'', JText []), (''created_at'', JText (iso now2))])"

section \<open>Position figures\<close>

record position_figures =
  pf_exposure :: pyfloat
  pf_quantity :: pyfloat
  pf_last_price :: pyfloat
  pf_pnl :: pyfloat
  pf_pnl_pct :: pyfloat
  pf_stop :: pyfloat
  pf_stop_distance :: pyfloat
  pf_stop_distance_pct :: pyfloat
  pf_risk_multiple :: pyfloat

definition position_figures_of :: "live_mark \<Rightarrow> bool \<Rightarrow> pyfloat \<Rightarrow> position_figures" where
  "position_figures_of mark in_market configured_stop =
     (let exposure = (if in_market then lm_capital mark else Fin 0); last_price = safe_float (lm_last_price mark) (Fin 0);
          entry_price = safe_float (lm_entry_price mark) last_price;
          stop = (if flt (Fin 0) configured_stop then configured_stop
                  else if flt (Fin 0) entry_price \<and> in_market then fmax (Fin 0) (fmul entry_price (dec 98 100)) else Fin 0);
          distance = (if flt (Fin 0) last_price \<and> flt (Fin 0) stop then fmax (Fin 0) (fsub last_price stop) else Fin 0)
      in \<lparr>pf_exposure = exposure, pf_quantity = (if fle last_price (Fin 0) then Fin 0 else fdiv exposure last_price), pf_last_price = last_price,
          pf_pnl = safe_float (lm_pnl mark) (Fin 0), pf_pnl_pct = safe_float (lm_pnl_pct mark) (Fin 0), pf_stop = stop, pf_stop_distance = distance,
          pf_stop_distance_pct = (if fle last_price (Fin 0) then Fin 0 else fmul (fdiv distance last_price) (Fin 100)),
          pf_risk_multiple = (if fle distance (Fin 0) then Fin 0 else fdiv (fmax (Fin 0) (fsub last_price entry_price)) distance)\<rparr>)"

record capital_figures =
  kf_current :: pyfloat
  kf_available :: pyfloat
  kf_utilization_pct :: pyfloat
  kf_drawdown :: pyfloat

definition capital_figures_of :: "live_mark \<Rightarrow> bool \<Rightarrow> position_figures \<Rightarrow> capital_figures" where
  "capital_figures_of mark in_market f =
     (let capital = lm_capital mark in
      \<lparr>kf_current = (if in_market then fadd capital (pf_pnl f) else capital), kf_available = fmax (Fin 0) (fsub capital (pf_exposure f)),
       kf_utilization_pct = (if fle capital (Fin 0) then Fin 0 else fmul (fdiv (pf_exposure f) capital) (Fin 100)),
       kf_drawdown = fmin (Fin 0) (pf_pnl_pct f)\<rparr>)"

section \<open>The profile\<close>

record runtime_profile =
  rp_deployment :: deployment_profile
  rp_name :: string
  rp_strategy :: string
  rp_symbol :: string
  rp_timeframe :: string
  rp_status :: string
  rp_position :: trade_position
  rp_validation_status :: string
  rp_deployment_timestamp :: string
  rp_runtime_hours :: pyfloat
  rp_realized_pnl :: pyfloat
  rp_capital :: pyfloat
  rp_figures :: position_figures
  rp_capital_figures :: capital_figures
  rp_peak_drawdown :: pyfloat
  rp_sizing :: size_decision
  rp_trade_count :: int
  rp_win_rate :: pyfloat
  rp_profit_factor :: pyfloat
  rp_bucket :: string
  rp_strategy_state :: string
  rp_last_signal_at :: string
  rp_backtest_roi :: pyfloat
  rp_backtest_max_drawdown :: pyfloat
  rp_backtest_win_rate :: pyfloat
  rp_backtest_trade_count :: int
  rp_last_backtest :: string
  rp_backtest_timeframe :: string
  rp_backtest_range :: string
  rp_feed_status :: string
  rp_last_heartbeat :: string
  rp_order_execution_status :: string
  rp_warning_count :: nat
  rp_recovery_state :: string
  rp_queue_state :: string
  rp_alert_level :: string
  rp_data_state :: string
  rp_health :: "string \<times> string"
  rp_guidance :: string

text \<open>\<open>a.get(k, b.get(k', d)) or d\<close> of a number.\<close>

definition first_float :: "py_env \<Rightarrow> db_row \<Rightarrow> string \<Rightarrow> db_row \<Rightarrow> string \<Rightarrow> pyfloat res" where
  "first_float env r k q k' =
     c_float env (c_or (case dict_get r k of Some v \<Rightarrow> v | None \<Rightarrow> dict_get_or q k' (Json (JNum (Fin 0)))) (Json (JNum (Fin 0))))"

definition first_int :: "db_row \<Rightarrow> string \<Rightarrow> db_row \<Rightarrow> string \<Rightarrow> int res" where
  "first_int r k q k' = c_int (c_or (case dict_get r k of Some v \<Rightarrow> v | None \<Rightarrow> dict_get_or q k' (Json (JInt 0))) (Json (JInt 0)))"

definition matrix_row :: "py_env \<Rightarrow> string \<Rightarrow> string \<Rightarrow> db_row list \<Rightarrow> db_row" where
  "matrix_row env strategy symbol matrix =
     (case find_first (\<lambda>r. c_str env (c_get r ''strategy'') = strategy \<and> c_str env (c_get r ''symbol'') = symbol) matrix of None \<Rightarrow> [] | Some r \<Rightarrow> r)"

definition risk_or :: "py_env \<Rightarrow> db_row \<Rightarrow> string \<Rightarrow> pyfloat \<Rightarrow> pyfloat res" where
  "risk_or env risk k d = c_float env (c_or (dict_get_or risk k (Json (JNum d))) (Json (JNum d)))"

text \<open>The request for the size the bot should trade with.\<close>

definition profile_size_request ::
    "py_env \<Rightarrow> db_row \<Rightarrow> db_row \<Rightarrow> string \<Rightarrow> pyfloat \<Rightarrow> position_figures \<Rightarrow> size_request res" where
  "profile_size_request env risk scan_row sizing_method capital f =
     bind_res (risk_or env risk ''max_risk_per_trade_pct'' (dec 1 100)) (\<lambda>risk_per_trade.
     bind_res (risk_or env risk ''max_cash_per_trade'' capital) (\<lambda>max_allocation.
     bind_res (cell_float env scan_row ''volatility'') (\<lambda>volatility.
     bind_res (if scan_row = [] then Inr ''normal'' else market_bucket_lane env scan_row) (\<lambda>regime.
     bind_res (risk_or env risk ''max_portfolio_exposure'' capital) (\<lambda>max_exposure.
     bind_res (c_int (c_or (dict_get_or risk ''max_trades_per_window'' (Json (JInt 1))) (Json (JInt 1)))) (\<lambda>trades.
       Inr \<lparr>sq_sizing_method = sizing_method, sq_capital = capital, sq_risk_per_trade = risk_per_trade, sq_max_allocation = max_allocation,
            sq_stop_loss_distance = fmax (pf_stop_distance f) (if flt (Fin 0) (pf_last_price f) then fmul (pf_last_price f) (dec 1 100) else Fin 0),
            sq_price = pf_last_price f, sq_volatility_value = volatility, sq_regime = regime, sq_max_portfolio_exposure = Some max_exposure,
            sq_max_symbol_exposure = None, sq_maximum_concurrent_trades = max 1 trades, sq_exchange_min_qty = Fin 0, sq_exchange_max_qty = None,
            sq_lot_size = Fin 0, sq_override_quantity = None\<rparr>))))))"

text \<open>What validation, matrix, scan and bot row say: the rest of the profile, computed after the size is stored.\<close>

definition profile_of_rows ::
    "py_env \<Rightarrow> instant \<Rightarrow> db_row \<Rightarrow> db_row \<Rightarrow> db_row \<Rightarrow> db_row \<Rightarrow> deployment_profile \<Rightarrow> live_mark \<Rightarrow> trade_position \<Rightarrow> position_figures \<Rightarrow>
     size_decision \<Rightarrow> runtime_profile res" where
  "profile_of_rows env now r scan_row perf validation deployment mark position f sizing =
     (let k = capital_figures_of mark (tp_in_trade position) f; status = text_of env r ''state'' ''DRAFT''; bucket = text_or_default env scan_row ''scan_bucket'' ''NO SIGNAL'';
          timeframe = c_str env (c_or (dict_get_or r ''timeframe'' (c_text (dd_recommended_timeframe (dp_defaults deployment)))) (c_text (dd_recommended_timeframe (dp_defaults deployment))));
          alert = text_or_default env r ''alert_level'' ''INFO''; data_state = text_or_default env r ''data_state'' ''UNKNOWN'';
          recovery = text_or_default env r ''supervisor_action'' ''NONE''; field = (\<lambda>k. dict_get_or r k (c_text []));
          scanned = text_of env scan_row ''scan_bucket'' []
      in bind_res (first_float env perf ''max_drawdown_pct'' validation ''max_drawdown_pct'') (\<lambda>tested_drawdown.
         bind_res (safe_number env (dict_get_or r ''realized_pnl'' (Json (JNum (Fin 0)))) (Fin 0)) (\<lambda>realized.
         bind_res (first_int validation ''total_trades'' perf ''trades'') (\<lambda>trade_count.
         bind_res (first_float env validation ''win_rate'' perf ''win_rate'') (\<lambda>win_rate.
         bind_res (first_float env validation ''profit_factor'' perf ''profit_factor'') (\<lambda>profit_factor.
         bind_res (first_float env validation ''net_pnl'' validation ''total_pnl'') (\<lambda>roi.
         bind_res (cell_float env validation ''max_drawdown_pct'') (\<lambda>max_drawdown.
         bind_res (cell_float env validation ''win_rate'') (\<lambda>tested_win_rate.
         bind_res (cell_int validation ''total_trades'') (\<lambda>tested_trades.
         let health = runtime_health_light alert data_state recovery in
         Inr \<lparr>rp_deployment = deployment, rp_name = text_of env r ''name'' [], rp_strategy = text_of env r ''strategy'' [], rp_symbol = text_of env r ''symbol'' [],
           rp_timeframe = timeframe, rp_status = status, rp_position = position,
           rp_validation_status = (if validation \<noteq> [] then ''BACKTESTED'' else text_or_default env r ''validation_status'' ''PENDING''),
           rp_deployment_timestamp = c_str env (c_or (field ''deployed_at'') (c_text (lm_started_at mark))),
           rp_runtime_hours = runtime_hours_since env now (lm_started_at mark), rp_realized_pnl = realized, rp_capital = lm_capital mark,
           rp_figures = f, rp_capital_figures = k,
           rp_peak_drawdown = safe_float (fmax tested_drawdown (fabs (kf_drawdown k))) (Fin 0), rp_sizing = sizing,
           rp_trade_count = trade_count, rp_win_rate = win_rate, rp_profit_factor = profit_factor, rp_bucket = bucket,
           rp_strategy_state = (if scanned \<in> {''BUY'', ''IN TRADE''} then ''Active signal'' else if scanned = ''WATCH'' then ''Developing'' else ''Idle''),
           rp_last_signal_at = c_str env (c_or (dict_get_or scan_row ''stream_updated_at'' (c_text [])) (field ''last_signal_at'')),
           rp_backtest_roi = roi, rp_backtest_max_drawdown = max_drawdown, rp_backtest_win_rate = tested_win_rate, rp_backtest_trade_count = tested_trades,
           rp_last_backtest = c_str env (c_or (case dict_get validation ''updated_at'' of Some v \<Rightarrow> v | None \<Rightarrow>
              (case dict_get validation ''created_at'' of Some v \<Rightarrow> v | None \<Rightarrow> dict_get_or validation ''run_id'' (c_text []))) (c_text [])),
           rp_backtest_timeframe = text_or_default env validation ''timeframe'' timeframe,
           rp_backtest_range = text_of env validation ''start_date'' ''n/a'' @ '' to '' @ text_of env validation ''end_date'' ''n/a'',
           rp_feed_status = c_str env (c_or (case dict_get scan_row ''stream_status'' of Some v \<Rightarrow> v | None \<Rightarrow> dict_get_or r ''data_state'' (c_text ''UNKNOWN'')) (c_text ''UNKNOWN'')),
           rp_last_heartbeat = c_str env (c_or (field ''heartbeat_at'') (field ''last_heartbeat'')),
           rp_order_execution_status = text_or_default env r ''protection_state'' ''UNKNOWN'',
           rp_warning_count = (if text_of env r ''alert_level'' ''INFO'' \<in> {''WARNING'', ''CRITICAL''} then 1 else 0),
           rp_recovery_state = recovery, rp_queue_state = text_or_default env r ''portfolio_state'' ''UNKNOWN'', rp_alert_level = alert, rp_data_state = data_state,
           rp_health = health,
           rp_guidance = runtime_guidance (fst health) (tp_state position) status (kf_drawdown k) bucket (kf_utilization_pct k)\<rparr>))))))))))"

text \<open>
  The live mark is drawn from the file's events, the position shown from the events of the database if there are any. A
  running bot's size decision is stored.
\<close>

definition runtime_instance_profile ::
    "(pyfloat \<Rightarrow> pyfloat) \<Rightarrow> dash_env \<Rightarrow> (instant \<Rightarrow> string) \<Rightarrow> db_row list \<Rightarrow> db_row \<Rightarrow> db_row list \<Rightarrow> db_row list \<Rightarrow> dash \<Rightarrow>
     (dash, runtime_profile) outcome" where
  "runtime_instance_profile q de stamp file_events r scan matrix d0 =
     (let env = de_env de; symbol = text_of env r ''symbol'' []; strategy = text_of env r ''strategy'' []; params = bot_parameters env r;
          scan_row = scan_row_of env symbol scan; perf = matrix_row env strategy symbol matrix; deployment = bot_deployment_profile q env r
      in bind_act (d0, bot_live_mark de r scan file_events) (\<lambda>d0 mark.
         let (d1, loaded) = load_runtime_trade_events de file_events d0
         in bind_act (d1, runtime_trade_position_status de r (if no_rows loaded then file_events else loaded)) (\<lambda>d1 position.
         let (d2, validation) = validation_metrics_for_bot de (text_of env r ''name'' []) d1
         in bind_act (d2, safe_number env (Json (j_get params ''current_stop_loss'' (j_get params ''stop_loss'' (JNum (Fin 0))))) (Fin 0)) (\<lambda>d2 configured.
         let f = position_figures_of mark (tp_in_trade position) configured
         in bind_act (load_risk_settings de d2) (\<lambda>d3 risk.
            bind_act (d3, profile_size_request env risk scan_row (dd_allocation_model (dp_defaults deployment)) (lm_capital mark) f) (\<lambda>d3 request.
            bind_act (d3, calculate_position_size_decision request) (\<lambda>d3 sizing.
            let d4 = da_tick d3; d5 = da_tick d4;
                row = decision_row stamp (da_now de d3) (da_now de d4) (c_str env (dict_get_or r ''bot_id'' (dict_get_or r ''name'' (c_text [])))) strategy
                  (c_str env (dict_get_or r ''runtime_instance_id'' (dict_get_or r ''bot_id'' (c_text [])))) symbol request sizing;
                d6 = (if text_of env r ''state'' ''DRAFT'' \<in> set live_states then persist_position_size_decision row d5 else d5)
            in (d6, profile_of_rows env (da_now de d6) r scan_row perf validation deployment mark position f sizing))))))))"

end
