(* ===== verification/Profile_Laws.thy ===== *)
theory Profile_Laws
  imports Runtime_Profile
begin

text \<open>Laws of the runtime profile: its figures agree with the position it shows, and a profile stores at most one size decision.\<close>

lemma out_of_a_stopped_runtime:
  assumes "runtime_trade_position_status de r events = Inr p" and "tp_in_trade p"
  shows "str_upper (text_of (de_env de) r ''state'' ''DRAFT'') \<in> set live_states \<or> str_upper (text_of (de_env de) r ''status'' []) \<in> set live_states"
  using assms by (auto simp: runtime_trade_position_status_def Let_def split: if_splits)

lemma profile_fields:
  assumes "profile_of_rows env now r scan_row perf validation deployment mark position f sizing = Inr p"
  shows "rp_capital p = lm_capital mark" "rp_figures p = f" "rp_capital_figures p = capital_figures_of mark (tp_in_trade position) f"
    "rp_position p = position" "rp_status p = text_of env r ''state'' ''DRAFT''"
    "rp_health p = runtime_health_light (rp_alert_level p) (rp_data_state p) (rp_recovery_state p)"
    "fst (rp_health p) = ''Red'' \<Longrightarrow> rp_guidance p = ''Critical runtime state; stop or reconcile before new exposure.''"
    "rp_sizing p = sizing"
  using assms by (auto simp: profile_of_rows_def Let_def bind_res_eq_Inr runtime_guidance_def)

text \<open>What a profile reads leaves the stored sizes alone.\<close>

lemma try_db_keeps_sizes: "try_db op d = (d', x) \<Longrightarrow> da_sizes d' = da_sizes d"
  by (auto simp: try_db_def split: if_splits prod.splits)

lemma fall_back_keeps_sizes [simp]: "da_sizes (fall_back de what x d) = da_sizes d"
  by (simp add: fall_back_def append_file_journal_def da_tick_def)

lemma da_sizes_tick [simp]: "da_sizes (da_tick d) = da_sizes d"
  by (simp add: da_tick_def)

lemma profile_reads_keep_sizes:
  "da_sizes (fst (load_runtime_trade_events de file_events d)) = da_sizes d"
  "da_sizes (fst (validation_metrics_for_bot de name d)) = da_sizes d"
  "da_sizes (fst (load_risk_settings de d)) = da_sizes d"
    apply (auto simp: load_runtime_trade_events_def dest!: try_db_keeps_sizes split: prod.splits sum.splits)[1]
   apply (auto simp: validation_metrics_for_bot_def last_validation_for_bot_def load_validation_runs_frame_def Let_def
      dest!: try_db_keeps_sizes split: prod.splits sum.splits)[1]
  apply (auto simp: load_risk_settings_def Let_def dest!: try_db_keeps_sizes split: prod.splits sum.splits report.splits)[1]
  done

lemma profile_stages:
  assumes "runtime_instance_profile q de stamp file_events r scan matrix d0 = (d', Inr p)"
  shows "\<exists>mark events position configured sizing row scan_row perf validation now d5.
    bot_live_mark de r scan file_events = Inr mark \<and> runtime_trade_position_status de r events = Inr position \<and>
    d' = (if text_of (de_env de) r ''state'' ''DRAFT'' \<in> set live_states then persist_position_size_decision row d5 else d5) \<and>
    da_sizes d5 = da_sizes d0 \<and>
    profile_of_rows (de_env de) now r scan_row perf validation (bot_deployment_profile q (de_env de) r) mark position
       (position_figures_of mark (tp_in_trade position) configured) sizing = Inr p"
  using assms unfolding runtime_instance_profile_def Let_def case_prod_unfold bind_act_eq_Inr prod.inject
  apply (elim exE conjE)
  apply (intro exI conjI)
      apply assumption
     apply assumption
    apply (erule sym)
   apply (metis da_sizes_tick prod.sel(1) profile_reads_keep_sizes)
  apply (simp only:)
  done

lemma whole_capital:
  assumes "fround c = Fin c" and "0 < c"
  shows "fsub (Fin c) (Fin c) = Fin 0" "fsub (Fin c) (Fin 0) = Fin c" "fmax (Fin 0) (Fin c) = Fin c"
    "fmul (fdiv (Fin c) (Fin c)) (Fin 100) = Fin 100" "fmul (fdiv (Fin 0) (Fin c)) (Fin 100) = Fin 0"
  using assms by (simp_all add: fmax_def)

text \<open>\<open>C28\<close>: The figures of a profile agree with the position it shows. In trade the whole capital is exposed, none is free and the
  runtime is live; out of trade nothing is. A red light comes with the advice to stop. A size is stored for a live bot only.
\<close>

theorem runtime_profile_is_consistent:
  assumes "runtime_instance_profile q de stamp file_events r scan matrix d0 = (d', Inr p)"
    and "rp_capital p = Fin c" "fround c = Fin c" "0 < c"
  shows "(if tp_in_trade (rp_position p)
      then pf_exposure (rp_figures p) = Fin c \<and> kf_available (rp_capital_figures p) = Fin 0 \<and> kf_utilization_pct (rp_capital_figures p) = Fin 100 \<and>
        (str_upper (rp_status p) \<in> set live_states \<or> str_upper (text_of (de_env de) r ''status'' []) \<in> set live_states)
      else pf_exposure (rp_figures p) = Fin 0 \<and> kf_available (rp_capital_figures p) = Fin c \<and> kf_utilization_pct (rp_capital_figures p) = Fin 0 \<and>
        kf_current (rp_capital_figures p) = Fin c) \<and>
    (fst (rp_health p) = ''Red'' \<longrightarrow> rp_guidance p = ''Critical runtime state; stop or reconcile before new exposure.'') \<and>
    (if rp_status p \<in> set live_states then \<exists>row. da_sizes d' = push_row 500 row (da_sizes d0) else da_sizes d' = da_sizes d0)"
proof -
  obtain mark events position configured sizing row scan_row perf validation now d5 where
    position: "runtime_trade_position_status de r events = Inr position"
    and d': "d' = (if text_of (de_env de) r ''state'' ''DRAFT'' \<in> set live_states then persist_position_size_decision row d5 else d5)"
    and d5: "da_sizes d5 = da_sizes d0"
    and p: "profile_of_rows (de_env de) now r scan_row perf validation (bot_deployment_profile q (de_env de) r) mark position
       (position_figures_of mark (tp_in_trade position) configured) sizing = Inr p"
    using profile_stages[OF assms(1)] by (elim exE conjE) (rule that)
  note f = profile_fields[OF p]
  have capital: "lm_capital mark = Fin c" using f(1) assms(2) by simp
  note w = whole_capital[OF assms(3,4)]
  have figures: "pf_exposure (rp_figures p) = (if tp_in_trade position then Fin c else Fin 0)"
    "kf_available (rp_capital_figures p) = (if tp_in_trade position then Fin 0 else Fin c)"
    "kf_utilization_pct (rp_capital_figures p) = (if tp_in_trade position then Fin 100 else Fin 0)"
    "\<not> tp_in_trade position \<Longrightarrow> kf_current (rp_capital_figures p) = Fin c"
    using assms(4) w unfolding f(2,3)
    by (simp_all add: position_figures_of_def capital_figures_of_def Let_def capital fmax_def del: fsub_Fin)
  have live: "str_upper (rp_status p) \<in> set live_states \<or> str_upper (text_of (de_env de) r ''status'' []) \<in> set live_states"
    if "tp_in_trade position"
    using out_of_a_stopped_runtime[OF position that] unfolding f(5) .
  show ?thesis
    unfolding f(4) using figures live f(7) d5 unfolding d' f(5)
    by (simp add: persist_position_size_decision_def) blast
qed

text \<open>The size shown is never throttled: no strategy's allocation model names volatility or the regime.\<close>

lemma profile_size_is_not_throttled:
  assumes "profile_size_request env risk scan_row (dd_allocation_model (strategy_deployment_defaults q strategy)) capital f = Inr s"
  shows "throttled s x = x"
proof -
  have "sq_sizing_method s = ''Fixed notional per bot with portfolio exposure gate''"
    using assms by (auto simp: profile_size_request_def bind_res_eq_Inr strategy_deployment_defaults_def Let_def split: prod.splits)
  moreover have "\<not> contains ''volatility'' (str_lower ''Fixed notional per bot with portfolio exposure gate'')"
    "\<not> contains ''regime'' (str_lower ''Fixed notional per bot with portfolio exposure gate'')" by code_simp+
  ultimately show ?thesis by (simp add: throttled_def Let_def split: prod.splits)
qed

text \<open>The profit shown comes from the live mark alone: a position the database's events closed keeps it.\<close>

lemma pnl_ignores_the_shown_position: "pf_pnl (position_figures_of mark in_market stop) = safe_float (lm_pnl mark) (Fin 0)"
  by (simp add: position_figures_of_def Let_def)

section \<open>Example\<close>

definition running_bot :: db_row where
  "running_bot = [(''name'', c_text ''a''), (''state'', c_text ''RUNNING''), (''capital'', Json (JNum (Fin 1000)))]"

lemma running_lookup:
  "dict_get_or running_bot k x = (if k = ''name'' then c_text ''a'' else if k = ''state'' then c_text ''RUNNING''
     else if k = ''capital'' then Json (JNum (Fin 1000)) else x)"
  by (simp add: running_bot_def dict_get_or_def)

lemma running_fields:
  "bot_parameters env running_bot = []" "c_get running_bot k = dict_get_or running_bot k (Json JNull)"
  by (simp_all add: bot_parameters_def running_bot_def dict_get_or_def)

lemma no_cell [simp]: "dict_get_or [] k x = x" "dict_get ([] :: db_row) k = None"
  by (simp_all add: dict_get_or_def)

lemmas cell_rules = cell_float_def cell_int_def c_or_def c_truthy_def truthy_def c_float_def c_int_def text_of_def safe_number_def safe_float_def

lemma running_position:
  "\<exists>position. runtime_trade_position_status file_dash_env running_bot [] = Inr position \<and> tp_in_trade position"
proof -
  have live: "str_upper ''RUNNING'' \<in> set live_states" by code_simp
  have "str_upper [] = []" by code_simp
  moreover have "dated_events file_dash_env ''a'' ''a'' [] = []" by (simp add: dated_events_def)
  ultimately show ?thesis
    using live by (simp add: runtime_trade_position_status_def Let_def running_lookup running_fields cell_rules position_of_events_def position_of_fields_def)
qed

lemma running_mark: "\<exists>mark. bot_live_mark file_dash_env running_bot [] [] = Inr mark \<and> lm_capital mark = Fin 1000 \<and> lm_last_price mark = Fin 0"
proof -
  obtain position where "runtime_trade_position_status file_dash_env running_bot [] = Inr position" using running_position by blast
  then show ?thesis
    by (simp add: bot_live_mark_def Let_def running_lookup running_fields cell_rules scan_row_of_def)
qed

lemma default_size_request:
  "\<exists>s. profile_size_request env default_risk_settings [] m (Fin 1000) f = Inr s \<and> sq_maximum_concurrent_trades s = 6"
  by (simp add: profile_size_request_def risk_or_def default_risk_settings_def dict_get_or_def cell_rules)

lemma six_trades_are_sized:
  assumes "sq_maximum_concurrent_trades s = 6" shows "\<exists>t. calculate_position_size_decision s = Inr t"
proof -
  have "int_to_float 6 = Inr (Fin 6)" by (simp add: int_to_float_def)
  then have "\<exists>c. allocation_cap_of s = Inr c" using assms by (simp add: allocation_cap_of_def Let_def case_prod_unfold)
  then show ?thesis by (auto simp: calculate_position_size_decision_def Let_def case_prod_unfold)
qed

lemma running_reads:
  "load_runtime_trade_events file_dash_env [] d = (d, [])" "load_risk_settings file_dash_env example_dash = (example_dash, Inr default_risk_settings)"
  "validation_metrics_for_bot file_dash_env n example_dash = (example_dash, [])"
  by (simp_all add: load_runtime_trade_events_def load_risk_settings_def validation_metrics_for_bot_def last_validation_for_bot_def
      load_validation_runs_frame_def file_dash_env_def example_dash_def Let_def report_rows_def)

lemma running_rest:
  "\<exists>p. profile_of_rows env now running_bot [] [] [] deployment mark position f sizing = Inr p"
  by (simp add: profile_of_rows_def Let_def first_float_def first_int_def running_lookup cell_rules)

lemma running_profile:
  "\<exists>d p. runtime_instance_profile id file_dash_env (\<lambda>_. []) [] running_bot [] [] example_dash = (d, Inr p) \<and>
     rp_capital p = Fin 1000 \<and> tp_in_trade (rp_position p) \<and> rp_status p = ''RUNNING''"
proof -
  obtain position where position: "runtime_trade_position_status file_dash_env running_bot [] = Inr position" "tp_in_trade position"
    using running_position by blast
  obtain mark where mark: "bot_live_mark file_dash_env running_bot [] [] = Inr mark" "lm_capital mark = Fin 1000" "lm_last_price mark = Fin 0"
    using running_mark by blast
  let ?f = "position_figures_of mark True (Fin 0)" and ?d = "bot_deployment_profile id example_env running_bot"
  obtain s where s: "profile_size_request example_env default_risk_settings [] (dd_allocation_model (dp_defaults ?d)) (Fin 1000) ?f = Inr s"
    "sq_maximum_concurrent_trades s = 6" using default_size_request by blast
  obtain t where t: "calculate_position_size_decision s = Inr t" using six_trades_are_sized[OF s(2)] by blast
  have stop: "safe_number env (Json (JNum (Fin 0))) (Fin 0) = Inr (Fin 0)" for env by (simp add: cell_rules)
  define P where "P = (\<lambda>now. projr (profile_of_rows example_env now running_bot [] [] [] ?d mark position ?f t))"
  have P: "profile_of_rows example_env now running_bot [] [] [] ?d mark position ?f t = Inr (P now)" for now
  proof -
    obtain p where "profile_of_rows example_env now running_bot [] [] [] ?d mark position ?f t = Inr p"
      using running_rest[of example_env now ?d mark position ?f t] by (elim exE) (rule that)
    then show ?thesis by (simp only: P_def sum.sel)
  qed
  have "\<exists>d now. runtime_instance_profile id file_dash_env (\<lambda>_. []) [] running_bot [] [] example_dash = (d, Inr (P now))"
    by (simp add: runtime_instance_profile_def Let_def position mark running_reads scan_row_of_def matrix_row_def running_fields s(1) t stop P)
      (intro conjI impI exI; rule refl)
  then obtain d now where run: "runtime_instance_profile id file_dash_env (\<lambda>_. []) [] running_bot [] [] example_dash = (d, Inr (P now))" by blast
  from profile_fields[OF P[of now]] have "rp_capital (P now) = Fin 1000 \<and> tp_in_trade (rp_position (P now)) \<and> rp_status (P now) = ''RUNNING''"
    using mark position by (simp add: text_of_def running_lookup)
  with run show ?thesis by blast
qed

theorem runtime_profile_is_consistent_witness:
  "\<exists>d p row. runtime_instance_profile id file_dash_env (\<lambda>_. []) [] running_bot [] [] example_dash = (d, Inr p) \<and>
     kf_utilization_pct (rp_capital_figures p) = Fin 100 \<and> da_sizes d = push_row 500 row (da_sizes example_dash)"
proof -
  obtain d p where run: "runtime_instance_profile id file_dash_env (\<lambda>_. []) [] running_bot [] [] example_dash = (d, Inr p)"
    and p: "rp_capital p = Fin 1000" "tp_in_trade (rp_position p)" "rp_status p = ''RUNNING''" using running_profile by blast
  have "''RUNNING'' \<in> set live_states" by (simp add: live_states_def)
  then show ?thesis using runtime_profile_is_consistent[OF run p(1)] run p(2,3) by auto
qed

end
