(* ===== verification/Crash_Stress.thy ===== *)
theory Crash_Stress
  imports Scan_Repository Backtest_Composite
begin

text \<open>
  The crash stress test (\<open>src/scripts/historical_flash_crash_stress.py\<close>): every strategy is replayed over the candles around each
  of five recorded market crashes, the rows are summed up per crash, and the crashes decide the exit code of the script. A
  feature frame is a list of rows of which the script reads the time and three prices; \<open>files\<close> are the feature files by name
  (None: no such file), and the replay of a strategy is a function of the frame. \<open>exc_text\<close> is \<open>str\<close> of an exception.
\<close>

section \<open>Crash events\<close>

record crash_event =
  ce_name :: string
  ce_start :: string
  ce_end :: string
  ce_source :: string
  ce_note :: string

definition older_backfill_note :: string where
  "older_backfill_note = ''Requires older local backfill than the current 365-day files.''"

definition covered_note :: string where
  "covered_note = ''Covered by current local one-hour Binance feature files.''"

definition crash_events :: "crash_event list" where
  "crash_events =
     [\<lparr>ce_name = ''2024-08-05 global risk selloff'', ce_start = ''2024-08-05T00:00:00+00:00'', ce_end = ''2024-08-06T00:00:00+00:00'',
       ce_source = ''CNBC / Cointelegraph reported broad crypto selloff and liquidations around Aug 5, 2024.'', ce_note = older_backfill_note\<rparr>,
      \<lparr>ce_name = ''2025-04-07 tariff/liquidation shock'', ce_start = ''2025-04-07T00:00:00+00:00'', ce_end = ''2025-04-08T00:00:00+00:00'',
       ce_source = ''Crypto Times reported about $1.38B crypto liquidations on Apr 7, 2025.'', ce_note = older_backfill_note\<rparr>,
      \<lparr>ce_name = ''2025-05-30 options-expiry liquidation'', ce_start = ''2025-05-30T00:00:00+00:00'', ce_end = ''2025-05-31T00:00:00+00:00'',
       ce_source = ''Crypto Times reported more than $750M liquidations on May 30, 2025.'', ce_note = covered_note\<rparr>,
      \<lparr>ce_name = ''2025-10-10 liquidation cascade'', ce_start = ''2025-10-10T12:00:00+00:00'', ce_end = ''2025-10-12T00:00:00+00:00'',
       ce_source = ''CoinGecko/Axios reported the Oct 10-11, 2025 crypto liquidation cascade.'', ce_note = covered_note\<rparr>,
      \<lparr>ce_name = ''2026-02-05 bitcoin under 64k'', ce_start = ''2026-02-05T00:00:00+00:00'', ce_end = ''2026-02-06T00:00:00+00:00'',
       ce_source = ''Axios reported Bitcoin fell under $64K on Feb 5, 2026 with forced liquidations amplifying swings.'', ce_note = covered_note\<rparr>]"

definition parse_dt :: "py_env \<Rightarrow> string \<Rightarrow> instant res" where
  "parse_dt env s =
     (case pe_fromiso env (concat (map (\<lambda>c. if c = CHR ''Z'' then ''+00:00'' else [c]) s)) of
        Some t \<Rightarrow> Inr t | None \<Rightarrow> Inl (ValueError ''Invalid isoformat string''))"

definition safe_symbol :: "string \<Rightarrow> string" where
  "safe_symbol symbol = remove_char CHR ''/'' symbol"

definition event_bounds :: "py_env \<Rightarrow> crash_event \<Rightarrow> (instant \<times> instant) res" where
  "event_bounds env e = bind_res (parse_dt env (ce_start e)) (\<lambda>s. bind_res (parse_dt env (ce_end e)) (\<lambda>t. Inr (s, t)))"

section \<open>Frames around an event\<close>

record candle_row =
  cr_open_time :: instant
  cr_open :: pyfloat
  cr_low :: pyfloat
  cr_close :: pyfloat

definition us_per_hour :: int where "us_per_hour = 3600000000"

definition event_window ::
    "py_env \<Rightarrow> int \<Rightarrow> int \<Rightarrow> 'm candle_row_scheme list \<Rightarrow> crash_event \<Rightarrow> 'm candle_row_scheme list res" where
  "event_window env warmup cooldown frame e =
     bind_res (event_bounds env e) (\<lambda>(s, t).
       Inr (filter (\<lambda>r. s - warmup * us_per_hour \<le> cr_open_time r \<and> cr_open_time r \<le> t + cooldown * us_per_hour) frame))"

definition data_coverage :: "py_env \<Rightarrow> 'm candle_row_scheme list \<Rightarrow> crash_event \<Rightarrow> string res" where
  "data_coverage env frame e =
     (if frame = [] then Inr ''missing''
      else bind_res (event_bounds env e) (\<lambda>(s, t).
        let times = set (map cr_open_time frame) in
        Inr (if Min times \<le> s \<and> t \<le> Max times then ''covered''
             else if Max times < s \<or> t < Min times then ''unavailable'' else ''partial'')))"

text \<open>The smallest number of a column that is one, as pandas' \<open>min\<close>.\<close>

definition lowest :: "pyfloat list \<Rightarrow> pyfloat" where
  "lowest xs = (case filter (\<lambda>x. x \<noteq> NaN) xs of [] \<Rightarrow> NaN | y # ys \<Rightarrow> foldl fmin y ys)"

definition market_drop_pct :: "py_env \<Rightarrow> 'm candle_row_scheme list \<Rightarrow> crash_event \<Rightarrow> pyfloat res" where
  "market_drop_pct env frame e =
     bind_res (event_bounds env e) (\<lambda>(s, t).
       let rows = filter (\<lambda>r. s \<le> cr_open_time r \<and> cr_open_time r \<le> t) frame; before = filter (\<lambda>r. cr_open_time r < s) frame
       in if rows = [] then Inr (Fin 0)
          else (let reference = (if before \<noteq> [] then cr_close (last before) else cr_open (hd rows)) in
            Inr (if fle reference (Fin 0) then Fin 0
                 else fround_to (fmul (fdiv (fsub (lowest (map cr_low rows)) reference) reference) (Fin 100)) 2)))"

definition trade_overlaps_event :: "py_env \<Rightarrow> trade \<Rightarrow> crash_event \<Rightarrow> bool res" where
  "trade_overlaps_event env t e =
     bind_res (parse_dt env (tr_entry_time t)) (\<lambda>entry. bind_res (parse_dt env (tr_exit_time t)) (\<lambda>exit.
     bind_res (parse_dt env (ce_end e)) (\<lambda>last.
       if entry \<le> last then bind_res (parse_dt env (ce_start e)) (\<lambda>first. Inr (first \<le> exit)) else Inr False)))"

section \<open>Rows\<close>

record stress_row =
  fr_event :: string
  fr_symbol :: string
  fr_strategy :: string
  fr_coverage :: string
  fr_status :: string
  fr_market_drop_pct :: pyfloat
  fr_trades :: int
  fr_crash_trades :: int
  fr_crash_pnl :: pyfloat
  fr_worst_crash_trade_pct :: pyfloat
  fr_profit_factor :: pyfloat
  fr_max_drawdown_pct :: pyfloat
  fr_reason :: string

text \<open>\<open>min(xs, default=0.0)\<close> and \<open>max(xs, default=0.0)\<close>: the first element is kept until a smaller one is met.\<close>

definition min_or_0 :: "pyfloat list \<Rightarrow> pyfloat" where
  "min_or_0 xs = (case xs of [] \<Rightarrow> Fin 0 | y # ys \<Rightarrow> foldl fmin y ys)"

definition max_or_0 :: "pyfloat list \<Rightarrow> pyfloat" where
  "max_or_0 xs = (case xs of [] \<Rightarrow> Fin 0 | y # ys \<Rightarrow> foldl fmax y ys)"

definition untested_row :: "crash_event \<Rightarrow> string \<Rightarrow> string \<Rightarrow> string \<Rightarrow> string \<Rightarrow> pyfloat \<Rightarrow> string \<Rightarrow> stress_row" where
  "untested_row e symbol strategy coverage status fall reason =
     \<lparr>fr_event = ce_name e, fr_symbol = symbol, fr_strategy = strategy, fr_coverage = coverage, fr_status = status,
      fr_market_drop_pct = fall, fr_trades = 0, fr_crash_trades = 0, fr_crash_pnl = Fin 0, fr_worst_crash_trade_pct = Fin 0,
      fr_profit_factor = Fin 0, fr_max_drawdown_pct = Fin 0, fr_reason = reason\<rparr>"

fun overlapping :: "py_env \<Rightarrow> crash_event \<Rightarrow> trade list \<Rightarrow> trade list res" where
  "overlapping env e [] = Inr []"
| "overlapping env e (t # ts) = bind_res (trade_overlaps_event env t e) (\<lambda>hit. bind_res (overlapping env e ts) (\<lambda>rest.
     Inr (if hit then t # rest else rest)))"

definition tested_row ::
    "py_env \<Rightarrow> crash_event \<Rightarrow> string \<Rightarrow> string \<Rightarrow> string \<Rightarrow> pyfloat \<Rightarrow> (symbol_metrics \<times> trade list) res \<Rightarrow> stress_row res" where
  "tested_row env e symbol strategy coverage fall replayed =
     bind_res replayed (\<lambda>(m, trades). bind_res (overlapping env e trades) (\<lambda>crash.
       Inr \<lparr>fr_event = ce_name e, fr_symbol = symbol, fr_strategy = strategy, fr_coverage = coverage, fr_status = ''tested'',
         fr_market_drop_pct = fall, fr_trades = int (sm_trades m), fr_crash_trades = int (length crash),
         fr_crash_pnl = fround_to (fsum (map tr_pnl crash)) 2,
         fr_worst_crash_trade_pct = fround_to (min_or_0 (map tr_return_pct crash)) 2,
         fr_profit_factor = (if is_finite (sm_profit_factor m) then fround_to (sm_profit_factor m) 2 else Fin 99),
         fr_max_drawdown_pct = fround_to (sm_max_drawdown_pct m) 2, fr_reason = ''historical replay window tested''\<rparr>))"

text \<open>A key, value or type error of a strategy makes a row of its own; any other exception ends the script.\<close>

definition caught_row ::
    "(py_exc \<Rightarrow> string) \<Rightarrow> crash_event \<Rightarrow> string \<Rightarrow> string \<Rightarrow> string \<Rightarrow> pyfloat \<Rightarrow> stress_row res \<Rightarrow> stress_row res" where
  "caught_row exc_text e symbol strategy coverage fall r =
     (case r of
        Inl (KeyError k) \<Rightarrow> Inr (untested_row e symbol strategy coverage ''error'' fall (exc_text (KeyError k)))
      | Inl (ValueError k) \<Rightarrow> Inr (untested_row e symbol strategy coverage ''error'' fall (exc_text (ValueError k)))
      | Inl (TypeError k) \<Rightarrow> Inr (untested_row e symbol strategy coverage ''error'' fall (exc_text (TypeError k)))
      | _ \<Rightarrow> r)"

type_synonym 'm replay = "'m candle_row_scheme list \<Rightarrow> (symbol_metrics \<times> trade list) res"

definition symbol_rows ::
    "py_env \<Rightarrow> (py_exc \<Rightarrow> string) \<Rightarrow> int \<Rightarrow> int \<Rightarrow> (string \<times> 'm replay) list \<Rightarrow> crash_event \<Rightarrow> string \<Rightarrow> 'm candle_row_scheme list \<Rightarrow>
     stress_row list res" where
  "symbol_rows env exc_text warmup cooldown strategies e symbol frame =
     bind_res (data_coverage env frame e) (\<lambda>coverage.
     bind_res (if coverage \<in> {''covered'', ''partial''} then market_drop_pct env frame e else Inr (Fin 0)) (\<lambda>fall.
       if coverage \<noteq> ''covered'' then Inr [untested_row e symbol [] coverage ''skipped'' fall (ce_note e)]
       else bind_res (event_window env warmup cooldown frame e) (\<lambda>window.
         map_res (\<lambda>(name, replay). caught_row exc_text e symbol name coverage fall
           (tested_row env e symbol name coverage fall (replay window))) strategies)))"

section \<open>Summaries\<close>

record stress_summary =
  fs_event :: string
  fs_status :: string
  fs_coverage :: string
  fs_tested_rows :: nat
  fs_skipped_rows :: nat
  fs_overlapping_crash_trades :: int
  fs_crash_pnl :: pyfloat
  fs_avg_profit_factor :: pyfloat
  fs_worst_crash_trade_pct :: pyfloat
  fs_worst_market_drop_pct :: pyfloat
  fs_worst_strategy_drawdown_pct :: pyfloat
  fs_source :: string
  fs_note :: string

text \<open>\<open>statistics.mean\<close> of finite floats: the exact mean, rounded once.\<close>

fun rational_of :: "pyfloat \<Rightarrow> rat" where
  "rational_of (Fin q) = q"
| "rational_of _ = 0"

definition exact_mean :: "pyfloat list \<Rightarrow> pyfloat" where
  "exact_mean xs = fround (sum_list (map rational_of xs) / of_nat (length xs))"

definition is_covered :: "stress_row \<Rightarrow> bool" where "is_covered r \<longleftrightarrow> fr_coverage r = ''covered''"

definition is_tested :: "stress_row \<Rightarrow> bool" where "is_tested r \<longleftrightarrow> is_covered r \<and> fr_status r = ''tested''"

definition summarize_event :: "stress_row list \<Rightarrow> crash_event \<Rightarrow> stress_summary" where
  "summarize_event rows e =
     (let covered = filter is_covered rows; tested = filter is_tested rows;
          pnl = fround_to (fsum (map fr_crash_pnl tested)) 2; worst_trade = min_or_0 (map fr_worst_crash_trade_pct tested);
          worst_drawdown = max_or_0 (map fr_max_drawdown_pct tested); factors = filter is_finite (map fr_profit_factor tested);
          factor = (if factors \<noteq> [] then exact_mean factors else Fin 0);
          hard_fail = (flt pnl (Fin (- 150)) \<or> fle worst_trade (Fin (- 8)) \<or> fle (Fin 18) worst_drawdown)
      in \<lparr>fs_event = ce_name e, fs_status = (if tested = [] then ''SKIP'' else if hard_fail then ''FAIL'' else ''PASS''),
          fs_coverage = (if tested \<noteq> [] then ''covered'' else ''unavailable''), fs_tested_rows = length tested,
          fs_skipped_rows = length (filter (\<lambda>r. \<not> is_covered r) rows),
          fs_overlapping_crash_trades = sum_list (map fr_crash_trades tested), fs_crash_pnl = pnl,
          fs_avg_profit_factor = fround_to factor 2, fs_worst_crash_trade_pct = fround_to worst_trade 2,
          fs_worst_market_drop_pct = fround_to (min_or_0 (map fr_market_drop_pct covered)) 2,
          fs_worst_strategy_drawdown_pct = fround_to worst_drawdown 2, fs_source = ce_source e, fs_note = ce_note e\<rparr>)"

section \<open>The run\<close>

definition feature_file :: "string \<Rightarrow> int \<Rightarrow> string \<Rightarrow> string" where
  "feature_file interval days symbol = safe_symbol symbol @ ''_'' @ interval @ ''_'' @ str_of_int days @ ''d_features.parquet''"

definition cached_frame :: "(string, 'm candle_row_scheme list) dict \<Rightarrow> string \<Rightarrow> 'm candle_row_scheme list" where
  "cached_frame cache symbol = (case dict_get cache symbol of None \<Rightarrow> [] | Some frame \<Rightarrow> frame)"

definition cache_features ::
    "(string \<Rightarrow> 'm candle_row_scheme list res option) \<Rightarrow> string \<Rightarrow> int \<Rightarrow> string list \<Rightarrow> (string, 'm candle_row_scheme list) dict res" where
  "cache_features files interval days symbols =
     fold_res (\<lambda>symbol cache. case files (feature_file interval days symbol) of None \<Rightarrow> Inr cache
       | Some loaded \<Rightarrow> bind_res loaded (\<lambda>frame. Inr (dict_set symbol frame cache))) symbols []"

definition event_rows ::
    "py_env \<Rightarrow> (py_exc \<Rightarrow> string) \<Rightarrow> int \<Rightarrow> int \<Rightarrow> (string \<times> 'm replay) list \<Rightarrow> string list \<Rightarrow> (string, 'm candle_row_scheme list) dict \<Rightarrow>
     crash_event \<Rightarrow> stress_row list res" where
  "event_rows env exc_text warmup cooldown strategies symbols cache e =
     bind_res (map_res (\<lambda>symbol. symbol_rows env exc_text warmup cooldown strategies e symbol (cached_frame cache symbol)) symbols)
       (\<lambda>rows. Inr (concat rows))"

definition run_flash_crash_stress ::
    "py_env \<Rightarrow> (py_exc \<Rightarrow> string) \<Rightarrow> (string \<Rightarrow> 'm candle_row_scheme list res option) \<Rightarrow> string \<Rightarrow> int \<Rightarrow> string list \<Rightarrow> (string \<times> 'm replay) list \<Rightarrow>
     int \<Rightarrow> int \<Rightarrow> (stress_summary list \<times> stress_row list) res" where
  "run_flash_crash_stress env exc_text files interval days symbols strategies warmup cooldown =
     bind_res (cache_features files interval days symbols) (\<lambda>cache.
     bind_res (map_res (event_rows env exc_text warmup cooldown strategies symbols cache) crash_events) (\<lambda>blocks.
       Inr (map (\<lambda>(rows, e). summarize_event rows e) (zip blocks crash_events), concat blocks)))"

definition overall_status :: "stress_summary list \<Rightarrow> string" where
  "overall_status summaries =
     (if filter (\<lambda>s. fs_status s \<noteq> ''SKIP'') summaries = [] then ''FAIL''
      else if list_ex (\<lambda>s. fs_status s = ''FAIL'') summaries then ''FAIL''
      else if list_ex (\<lambda>s. fs_status s = ''SKIP'') summaries then ''WARN'' else ''PASS'')"

definition comma_items :: "string \<Rightarrow> string list" where
  "comma_items s = filter (\<lambda>x. x \<noteq> []) (map str_strip (split_max CHR '','' (length s) s))"

text \<open>The names of the strategies selected, in order and without repetition.\<close>

definition select_strategies :: "(pyfloat \<Rightarrow> pyfloat) \<Rightarrow> string \<Rightarrow> string \<Rightarrow> string list res" where
  "select_strategies q strategy_set strategy_names =
     (let registered = map fst (strategy_registry q);
          requested = (if str_strip strategy_names \<noteq> [] then Inr (comma_items strategy_names)
            else if strategy_set = ''active'' then Inr (active_strategy_names q)
            else if strategy_set = ''all'' then Inr registered
            else Inl (ValueError (''unsupported strategy set: '' @ strategy_set)))
      in bind_res requested (\<lambda>names.
         let missing = filter (\<lambda>n. n \<notin> set registered) names
         in if missing \<noteq> [] then Inl (ValueError (''unknown strategy names: '' @ join_with '', '' missing))
            else if names = [] then Inl (ValueError ''no strategies selected for flash-crash stress'')
            else Inr (rev (remdups (rev names)))))"

definition recommendations :: "stress_summary list \<Rightarrow> string list" where
  "recommendations summaries =
     (let skipped = map fs_event (filter (\<lambda>s. fs_status s = ''SKIP'') summaries);
          guidance = (if skipped \<noteq> [] then [''Backfill older 1h and 5m Binance candles to directly replay skipped windows: '' @
              join_with '', '' skipped @ ''.''] else []) @
            concat (map (\<lambda>s.
              (if fle (Fin 18) (fs_worst_strategy_drawdown_pct s)
               then [fs_event s @ '': add crash-mode drawdown throttle before allowing new entries.''] else []) @
              (if flt (fs_crash_pnl s) (Fin (- 150))
               then [fs_event s @ '': reduce max cash per bot and require orderflow confirmation during liquidation cascades.''] else []) @
              (if fle (fs_worst_crash_trade_pct s) (Fin (- 8))
               then [fs_event s @ '': tighten ATR stop or add gap-risk kill switch.''] else []))
             (filter (\<lambda>s. fs_status s = ''FAIL'') summaries))
      in if guidance = [] then [''Keep historical flash-crash replay in the production readiness gate and rerun after each new strategy is registered.'']
         else guidance)"

text \<open>The script after its arguments are parsed: what the report says, and the exit code.\<close>

record stress_args =
  sa_interval :: string
  sa_days :: int
  sa_symbols :: string
  sa_strategy_set :: string
  sa_strategies :: string
  sa_warmup_bars :: int
  sa_cooldown_bars :: int

record stress_report =
  rr_status :: string
  rr_symbols :: "string list"
  rr_strategy_set :: string
  rr_strategies :: "string list"
  rr_summaries :: "stress_summary list"
  rr_details :: "stress_row list"
  rr_recommendations :: "string list"
  rr_stem :: string
  rr_exit_code :: int

definition stress_main ::
    "(pyfloat \<Rightarrow> pyfloat) \<Rightarrow> py_env \<Rightarrow> (py_exc \<Rightarrow> string) \<Rightarrow> (string \<Rightarrow> 'm replay) \<Rightarrow> (string \<Rightarrow> 'm candle_row_scheme list res option) \<Rightarrow>
     stress_args \<Rightarrow> stress_report res" where
  "stress_main q env exc_text replay_of files a =
     (let symbols = comma_items (sa_symbols a); used = (if str_strip (sa_strategies a) \<noteq> [] then ''custom'' else sa_strategy_set a)
      in bind_res (select_strategies q (sa_strategy_set a) (sa_strategies a)) (\<lambda>names.
         bind_res (run_flash_crash_stress env exc_text files (sa_interval a) (sa_days a) symbols (map (\<lambda>n. (n, replay_of n)) names)
           (sa_warmup_bars a) (sa_cooldown_bars a)) (\<lambda>(summaries, details).
         let status = overall_status summaries in
         Inr \<lparr>rr_status = status, rr_symbols = symbols, rr_strategy_set = used, rr_strategies = names, rr_summaries = summaries,
              rr_details = details, rr_recommendations = recommendations summaries,
              rr_stem = (if used = ''active'' then ''historical_flash_crash_stress'' else ''historical_flash_crash_stress_custom''),
              rr_exit_code = (if status \<in> {''PASS'', ''WARN''} then 0 else 1)\<rparr>)))"

end
