(* ===== verification/Crash_Laws.thy ===== *)
theory Crash_Laws
  imports Crash_Stress Scan_Laws Bot_Registry
begin

text \<open>
  Laws of the crash stress test: what a PASS says of the candles and the strategies, and what it does not say: a strategy that raises
  over a crash is left out of the account.
\<close>

section \<open>Extremes\<close>

lemma foldl_fmin_le:
  assumes "x \<noteq> NaN" "NaN \<notin> set xs"
  shows "foldl fmin x xs \<noteq> NaN \<and> (fle (foldl fmin x xs) c \<longleftrightarrow> fle x c \<or> (\<exists>y\<in>set xs. fle y c))"
  using assms
proof (induction xs arbitrary: x)
  case (Cons y ys)
  have "fmin x y \<noteq> NaN" using Cons.prems fmin_cases[of x y] by auto
  moreover have "fle (fmin x y) c \<longleftrightarrow> fle x c \<or> fle y c"
    using Cons.prems fle_trans[of x y c] fle_trans[of y x c] not_flt[of y x] by (auto simp: fmin_def flt_imp_fle)
  ultimately show ?case using Cons.IH[of "fmin x y"] Cons.prems by auto
qed simp

lemma foldl_fmax_ge:
  assumes "x \<noteq> NaN" "NaN \<notin> set xs"
  shows "foldl fmax x xs \<noteq> NaN \<and> (fle c (foldl fmax x xs) \<longleftrightarrow> fle c x \<or> (\<exists>y\<in>set xs. fle c y))"
  using assms
proof (induction xs arbitrary: x)
  case (Cons y ys)
  have "fmax x y \<noteq> NaN" using Cons.prems fmax_cases[of x y] by auto
  moreover have "fle c (fmax x y) \<longleftrightarrow> fle c x \<or> fle c y"
    using Cons.prems fle_trans[of c x y] fle_trans[of c y x] not_flt[of x y] by (auto simp: fmax_def flt_imp_fle)
  ultimately show ?case using Cons.IH[of "fmax x y"] Cons.prems by auto
qed simp

lemma min_or_0_le: "xs \<noteq> [] \<Longrightarrow> NaN \<notin> set xs \<Longrightarrow> fle (min_or_0 xs) c \<longleftrightarrow> (\<exists>x\<in>set xs. fle x c)"
  using foldl_fmin_le[of "hd xs" "tl xs" c] by (cases xs) (auto simp: min_or_0_def)

lemma max_or_0_ge: "xs \<noteq> [] \<Longrightarrow> NaN \<notin> set xs \<Longrightarrow> fle c (max_or_0 xs) \<longleftrightarrow> (\<exists>x\<in>set xs. fle c x)"
  using foldl_fmax_ge[of "hd xs" "tl xs" c] by (cases xs) (auto simp: max_or_0_def)

lemma fround_known [simp]: "fround q \<noteq> NaN"
  by (simp add: fround_def Let_def)

lemma fround_to_known [simp]: "fround_to x n = NaN \<longleftrightarrow> x = NaN"
  by (cases x) simp_all

lemma fround_to_mono:
  assumes "fle x y"
  shows "fle (fround_to x n) (fround_to y n)"
proof -
  have extreme: "v \<noteq> NaN \<Longrightarrow> fle v PosInf" "v \<noteq> NaN \<Longrightarrow> fle NegInf v" for v by (cases v; simp add: fle_def feq_def)+
  consider p q where "x = Fin p" "y = Fin q" "p \<le> q" | "y = PosInf" "x \<noteq> NaN" | "x = NegInf" "y \<noteq> NaN"
    using assms by (cases x; cases y) (auto simp: fle_def feq_def)
  then show ?thesis
  proof cases
    case (1 p q)
    then have "rhe (p * 10 ^ n) \<le> rhe (q * 10 ^ n)" by (intro rhe_mono) (simp add: mult_right_mono)
    then show ?thesis unfolding 1(1,2) fround_to.simps by (intro fround_mono divide_right_mono) simp_all
  qed (simp_all add: extreme)
qed

lemma min_or_0_least:
  assumes "xs \<noteq> []" "NaN \<notin> set xs"
  shows "min_or_0 xs \<in> set xs \<and> (\<forall>x\<in>set xs. fle (min_or_0 xs) x)"
proof -
  have "foldl fmin x ys \<in> set (x # ys)" for x ys
  proof (induction ys arbitrary: x)
    case (Cons y ys)
    have "fmin x y \<in> {x, y}" by (simp add: fmin_def)
    with Cons.IH[of "fmin x y"] show ?case by auto
  qed simp
  then have "min_or_0 xs \<in> set xs" using assms(1) by (cases xs) (simp_all add: min_or_0_def)
  moreover have "fle (min_or_0 xs) x" if "x \<in> set xs" for x
  proof -
    have "fle x x" using that assms(2) by (cases x) (auto simp: fle_def feq_def)
    then show ?thesis using that min_or_0_le[OF assms, of x] by blast
  qed
  ultimately show ?thesis by blast
qed

text \<open>The worst of some figures, rounded, is above a bound exactly when each of them is.\<close>

lemma rounded_worst:
  assumes "NaN \<notin> set xs" and "c < 0"
  shows "flt (Fin c) (fround_to (min_or_0 xs) 2) \<longleftrightarrow> (\<forall>x\<in>set xs. flt (Fin c) (fround_to x 2))"
proof (cases "xs = []")
  case True
  then show ?thesis using assms(2) by (simp add: min_or_0_def rhe_def)
next
  case False
  note least = min_or_0_least[OF False assms(1)]
  have "flt (Fin c) (fround_to x 2)" if "x \<in> set xs" "flt (Fin c) (fround_to (min_or_0 xs) 2)" for x
  proof -
    have "flt (Fin c) a \<Longrightarrow> fle a b \<Longrightarrow> flt (Fin c) b" for a b by (cases a; cases b) (auto simp: fle_def feq_def)
    moreover have "fle (fround_to (min_or_0 xs) 2) (fround_to x 2)" using that(1) least by (intro fround_to_mono) blast
    ultimately show ?thesis using that(2) by blast
  qed
  then show ?thesis using least by blast
qed

section \<open>The replays of a crash\<close>

text \<open>
  What the script is to replay: of every symbol whose candles reach from the start of the crash to its end, those from \<open>warmup\<close> hours
  before to \<open>cooldown\<close> hours after it, once with every strategy. A strategy that raises, or has a trade with an unreadable time, is
  left out; the trades that count are those open at some time of the crash.
\<close>

definition readable :: "py_env \<Rightarrow> trade \<Rightarrow> bool" where
  "readable env t \<longleftrightarrow> is_ok (parse_dt env (tr_entry_time t)) \<and> is_ok (parse_dt env (tr_exit_time t))"

definition open_during :: "py_env \<Rightarrow> instant \<Rightarrow> instant \<Rightarrow> trade \<Rightarrow> bool" where
  "open_during env begins ends t \<longleftrightarrow>
     (\<exists>entry exit. parse_dt env (tr_entry_time t) = Inr entry \<and> parse_dt env (tr_exit_time t) = Inr exit \<and> entry \<le> ends \<and> begins \<le> exit)"

definition symbol_frame :: "(string \<Rightarrow> 'm candle_row_scheme list res option) \<Rightarrow> string \<Rightarrow> int \<Rightarrow> string \<Rightarrow> 'm candle_row_scheme list" where
  "symbol_frame files interval days symbol =
     (case files (remove_char CHR ''/'' symbol @ ''_'' @ interval @ ''_'' @ str_of_int days @ ''d_features.parquet'') of
        Some (Inr frame) \<Rightarrow> frame | _ \<Rightarrow> [])"

definition reaches_over :: "instant \<Rightarrow> instant \<Rightarrow> 'm candle_row_scheme list \<Rightarrow> bool" where
  "reaches_over begins ends frame \<longleftrightarrow> (\<exists>r\<in>set frame. cr_open_time r \<le> begins) \<and> (\<exists>r\<in>set frame. ends \<le> cr_open_time r)"

definition counted :: "py_env \<Rightarrow> instant \<Rightarrow> instant \<Rightarrow> (symbol_metrics \<times> trade list) res \<Rightarrow> (symbol_metrics \<times> trade list) list" where
  "counted env begins ends outcome =
     (case outcome of Inr (m, trades) \<Rightarrow> if list_all (readable env) trades then [(m, filter (open_during env begins ends) trades)] else []
      | Inl _ \<Rightarrow> [])"

definition crash_replays ::
    "py_env \<Rightarrow> int \<Rightarrow> int \<Rightarrow> (string \<times> 'm replay) list \<Rightarrow> 'm candle_row_scheme list list \<Rightarrow> instant \<Rightarrow> instant \<Rightarrow> (symbol_metrics \<times> trade list) list" where
  "crash_replays env warmup cooldown strategies frames begins ends =
     concat (map (\<lambda>frame. concat (map (\<lambda>(name, replay). counted env begins ends (replay
        (filter (\<lambda>r. begins - warmup * us_per_hour \<le> cr_open_time r \<and> cr_open_time r \<le> ends + cooldown * us_per_hour) frame))) strategies))
       (filter (reaches_over begins ends) frames))"

text \<open>No replay at all is no survival.\<close>

definition survived :: "(symbol_metrics \<times> trade list) list \<Rightarrow> bool" where
  "survived replays \<longleftrightarrow> replays \<noteq> [] \<and>
     \<not> flt (fround_to (fsum (map (\<lambda>(m, trades). fround_to (fsum (map tr_pnl trades)) 2) replays)) 2) (Fin (- 150)) \<and>
     (\<forall>(m, trades)\<in>set replays. flt (fround_to (sm_max_drawdown_pct m) 2) (Fin 18) \<and>
        (\<forall>t\<in>set trades. flt (Fin (- 8)) (fround_to (tr_return_pct t) 2)))"

definition figures_known :: "(symbol_metrics \<times> trade list) list \<Rightarrow> bool" where
  "figures_known replays \<longleftrightarrow> (\<forall>(m, trades)\<in>set replays. sm_max_drawdown_pct m \<noteq> NaN \<and> (\<forall>t\<in>set trades. tr_return_pct t \<noteq> NaN))"

text \<open>The three figures of a row the summary looks at.\<close>

definition row_figures :: "stress_row \<Rightarrow> pyfloat \<times> pyfloat \<times> pyfloat" where
  "row_figures r = (fr_crash_pnl r, fr_worst_crash_trade_pct r, fr_max_drawdown_pct r)"

definition replay_figures :: "symbol_metrics \<times> trade list \<Rightarrow> pyfloat \<times> pyfloat \<times> pyfloat" where
  "replay_figures = (\<lambda>(m, trades). (fround_to (fsum (map tr_pnl trades)) 2, fround_to (min_or_0 (map tr_return_pct trades)) 2,
     fround_to (sm_max_drawdown_pct m) 2))"

lemma overlapping_readable:
  assumes "event_bounds env e = Inr (begins, ends)"
  shows "if list_all (readable env) trades then overlapping env e trades = Inr (filter (open_during env begins ends) trades)
    else \<exists>x. overlapping env e trades = Inl x"
proof -
  have bounds: "parse_dt env (ce_start e) = Inr begins" "parse_dt env (ce_end e) = Inr ends"
    using assms by (auto simp: event_bounds_def bind_res_eq_Inr)
  have one: "trade_overlaps_event env t e = Inr (open_during env begins ends t)" if "readable env t" for t
    using that by (auto simp: readable_def is_ok_iff trade_overlaps_event_def bounds open_during_def)
  have none: "\<exists>x. trade_overlaps_event env t e = Inl x" if "\<not> readable env t" for t
    using that by (auto simp: readable_def is_ok_def trade_overlaps_event_def bounds split: sum.splits)
  show ?thesis
  proof (induction trades)
    case (Cons t ts)
    show ?case
    proof (cases "readable env t")
      case True
      then show ?thesis using Cons.IH by (auto simp: one)
    next
      case False
      then show ?thesis using none[OF False] by auto
    qed
  qed simp
qed

lemma caught_row_figures:
  assumes "event_bounds env e = Inr (begins, ends)"
    and "caught_row exc_text e symbol name ''covered'' fall (tested_row env e symbol name ''covered'' fall outcome) = Inr r"
  shows "map row_figures (filter is_tested [r]) = map replay_figures (counted env begins ends outcome)"
proof (cases "\<exists>m trades. outcome = Inr (m, trades) \<and> list_all (readable env) trades")
  case True
  then obtain m trades where o: "outcome = Inr (m, trades)" "list_all (readable env) trades" by blast
  then show ?thesis using assms(2) overlapping_readable[OF assms(1), of trades]
    by (auto simp: caught_row_def tested_row_def counted_def is_tested_def is_covered_def row_figures_def replay_figures_def)
next
  case False
  have "\<exists>x. tested_row env e symbol name ''covered'' fall outcome = Inl x"
  proof (cases outcome)
    case (Inr p)
    then show ?thesis using False overlapping_readable[OF assms(1), of "snd p"] by (cases p) (auto simp: tested_row_def)
  qed (simp add: tested_row_def)
  then have "fr_status r = ''error''" using assms(2) by (auto simp: caught_row_def untested_row_def split: py_exc.splits)
  moreover have "counted env begins ends outcome = []" using False by (auto simp: counted_def split: sum.split)
  ultimately show ?thesis by (simp add: is_tested_def)
qed

lemma covered_iff:
  assumes "event_bounds env e = Inr (begins, ends)" and "data_coverage env frame e = Inr coverage"
  shows "coverage = ''covered'' \<longleftrightarrow> reaches_over begins ends frame"
proof (cases "frame = []")
  case False
  let ?times = "set (map cr_open_time frame)"
  have span: "Min ?times \<le> begins \<longleftrightarrow> (\<exists>r\<in>set frame. cr_open_time r \<le> begins)" "ends \<le> Max ?times \<longleftrightarrow> (\<exists>r\<in>set frame. ends \<le> cr_open_time r)"
    using False by (simp_all add: Min_le_iff Max_ge_iff)
  have "coverage = (if Min ?times \<le> begins \<and> ends \<le> Max ?times then ''covered''
      else if Max ?times < begins \<or> ends < Min ?times then ''unavailable'' else ''partial'')"
    using assms False unfolding data_coverage_def Let_def by simp
  then show ?thesis unfolding reaches_over_def span[symmetric] by (simp split: if_split)
qed (use assms in \<open>auto simp: data_coverage_def reaches_over_def\<close>)

lemma list_all2_concat:
  assumes "list_all2 (\<lambda>x r. map f (filter P [r]) = map g (h x)) xs rs"
  shows "map f (filter P rs) = map g (concat (map h xs))"
  using assms by (induction rule: list_all2_induct) (auto split: if_splits)

lemma symbol_rows_figures:
  assumes "event_bounds env e = Inr (begins, ends)" and "symbol_rows env exc_text warmup cooldown strategies e symbol frame = Inr rows"
  shows "map row_figures (filter is_tested rows) = map replay_figures (crash_replays env warmup cooldown strategies [frame] begins ends)"
proof -
  obtain coverage where c: "data_coverage env frame e = Inr coverage" using assms(2) by (auto simp: symbol_rows_def bind_res_eq_Inr)
  note covered = covered_iff[OF assms(1) c]
  show ?thesis
  proof (cases "coverage = ''covered''")
    case False
    then obtain fall where "rows = [untested_row e symbol [] coverage ''skipped'' fall (ce_note e)]"
      using assms(2) by (auto simp: symbol_rows_def c bind_res_eq_Inr)
    then show ?thesis using False covered by (simp add: crash_replays_def is_tested_def is_covered_def untested_row_def)
  next
    case True
    let ?window = "filter (\<lambda>r. begins - warmup * us_per_hour \<le> cr_open_time r \<and> cr_open_time r \<le> ends + cooldown * us_per_hour) frame"
    obtain fall where "map_res (\<lambda>(name, replay). caught_row exc_text e symbol name ''covered'' fall
        (tested_row env e symbol name ''covered'' fall (replay ?window))) strategies = Inr rows"
      using assms(2) by (auto simp: symbol_rows_def c True event_window_def assms(1) bind_res_eq_Inr)
    then have "list_all2 (\<lambda>s r. map row_figures (filter is_tested [r]) = map replay_figures (counted env begins ends (snd s ?window))) strategies rows"
      unfolding map_res_Inr_iff by (rule list_all2_mono) (auto dest: caught_row_figures[OF assms(1)])
    from list_all2_concat[OF this] show ?thesis
      using True covered by (simp add: crash_replays_def case_prod_unfold)
  qed
qed

lemma cached_symbol_frame:
  assumes "cache_features files interval days symbols = Inr cache" and "symbol \<in> set symbols"
  shows "cached_frame cache symbol = symbol_frame files interval days symbol"
proof -
  let ?file = "files (feature_file interval days symbol)"
  let ?add = "\<lambda>symbol cache. case files (feature_file interval days symbol) of None \<Rightarrow> Inr cache
       | Some loaded \<Rightarrow> bind_res loaded (\<lambda>frame. Inr (dict_set symbol frame cache))"
  have "dict_get cache symbol = (if symbol \<in> set symbols then (case ?file of Some (Inr frame) \<Rightarrow> Some frame | _ \<Rightarrow> dict_get acc symbol) else dict_get acc symbol)"
    if "fold_res ?add symbols acc = Inr cache" for acc
    using that
  proof (induction symbols arbitrary: acc)
    case (Cons x xs)
    show ?case
    proof (cases "files (feature_file interval days x)")
      case None
      then show ?thesis using Cons by auto
    next
      case (Some loaded)
      then obtain frame where "loaded = Inr frame" "fold_res ?add xs (dict_set x frame acc) = Inr cache"
        using Cons.prems by (auto simp: bind_res_eq_Inr)
      then show ?thesis using Cons.IH Some by (auto split: option.split sum.split)
    qed
  qed simp
  from this[OF assms(1)[unfolded cache_features_def]] assms(2)
  show ?thesis by (auto simp: cached_frame_def symbol_frame_def feature_file_def safe_symbol_def split: option.split sum.split)
qed

lemma event_rows_figures:
  assumes "event_bounds env e = Inr (begins, ends)" and "cache_features files interval days symbols = Inr cache"
    and "event_rows env exc_text warmup cooldown strategies symbols cache e = Inr rows"
  shows "map row_figures (filter is_tested rows) =
    map replay_figures (crash_replays env warmup cooldown strategies (map (symbol_frame files interval days) symbols) begins ends)"
proof -
  obtain blocks where b: "map_res (\<lambda>symbol. symbol_rows env exc_text warmup cooldown strategies e symbol (cached_frame cache symbol)) symbols = Inr blocks"
    and rows: "rows = concat blocks" using assms(3) by (auto simp: event_rows_def bind_res_eq_Inr)
  have frames: "list_all2 (\<lambda>symbol rs. symbol_rows env exc_text warmup cooldown strategies e symbol (symbol_frame files interval days symbol) = Inr rs) symbols blocks"
    using b[unfolded map_res_Inr_iff] cached_symbol_frame[OF assms(2)] by (auto simp: list_all2_conv_all_nth)
  have one: "crash_replays env warmup cooldown strategies (frame # frames) begins ends =
      crash_replays env warmup cooldown strategies [frame] begins ends @ crash_replays env warmup cooldown strategies frames begins ends" for frame frames
    by (simp add: crash_replays_def)
  show ?thesis using frames unfolding rows
  proof (induction rule: list_all2_induct)
    case (Cons symbol symbols rs blocks)
    then show ?case
      by (simp only: list.map concat.simps filter_append map_append symbol_rows_figures[OF assms(1) Cons.hyps(1)]
          one[of "symbol_frame files interval days symbol" "map (symbol_frame files interval days) symbols"])
  qed (simp add: crash_replays_def)
qed

lemma unbounded_rows:
  assumes "event_bounds env e = Inl x" and "event_rows env exc_text warmup cooldown strategies symbols cache e = Inr rows"
  shows "filter is_tested rows = []"
proof -
  have "filter is_tested rs = []" if rs: "symbol_rows env exc_text warmup cooldown strategies e symbol frame = Inr rs" for symbol frame rs
  proof -
    have "frame = []" using rs assms(1) by (auto simp: symbol_rows_def data_coverage_def bind_res_eq_Inr split: if_splits)
    then show ?thesis using rs by (auto simp: symbol_rows_def data_coverage_def untested_row_def is_tested_def is_covered_def)
  qed
  then have "filter is_tested rs = []" if "map_res (\<lambda>symbol. symbol_rows env exc_text warmup cooldown strategies e symbol (cached_frame cache symbol)) symbols = Inr blocks"
      "rs \<in> set blocks" for rs blocks
    using map_res_element[OF that] by blast
  then show ?thesis using assms(2) by (auto simp: event_rows_def bind_res_eq_Inr filter_empty_conv)
qed

section \<open>What a PASS says\<close>

lemma overall_pass: "overall_status summaries = ''PASS'' \<longleftrightarrow> summaries \<noteq> [] \<and> (\<forall>s\<in>set summaries. fs_status s \<notin> {''SKIP'', ''FAIL''})"
  by (auto simp: overall_status_def list_ex_iff filter_empty_conv)

lemma summary_passes_iff:
  assumes "map row_figures (filter is_tested rows) = map replay_figures replays" and "figures_known replays"
  shows "fs_status (summarize_event rows e) \<notin> {''SKIP'', ''FAIL''} \<longleftrightarrow> survived replays"
proof -
  let ?tested = "filter is_tested rows"
  have cols: "map fr_crash_pnl ?tested = map (\<lambda>(m, trades). fround_to (fsum (map tr_pnl trades)) 2) replays"
    "map fr_worst_crash_trade_pct ?tested = map (\<lambda>(m, trades). fround_to (min_or_0 (map tr_return_pct trades)) 2) replays"
    "map fr_max_drawdown_pct ?tested = map (\<lambda>(m, trades). fround_to (sm_max_drawdown_pct m) 2) replays"
    using arg_cong[OF assms(1), of "map fst"] arg_cong[OF assms(1), of "map (fst \<circ> snd)"] arg_cong[OF assms(1), of "map (snd \<circ> snd)"]
    by (simp_all add: comp_def row_figures_def replay_figures_def case_prod_unfold)
  have empty: "?tested = [] \<longleftrightarrow> replays = []" using arg_cong[OF assms(1), of length] by auto
  show ?thesis
  proof (cases "replays = []")
    case True
    then show ?thesis using empty by (simp add: summarize_event_def survived_def Let_def)
  next
    case False
    have known: "sm_max_drawdown_pct m \<noteq> NaN" "NaN \<notin> set (map tr_return_pct trades)" if "(m, trades) \<in> set replays" for m trades
      using bspec[OF assms(2)[unfolded figures_known_def] that] by force+
    have least: "min_or_0 (map tr_return_pct trades) \<noteq> NaN" if "(m, trades) \<in> set replays" for m trades
      using min_or_0_least[of "map tr_return_pct trades"] known(2)[OF that] by (cases "trades = []") (simp add: min_or_0_def, metis list.map_disc_iff)
    have "NaN \<notin> set (map fr_worst_crash_trade_pct ?tested)" "NaN \<notin> set (map fr_max_drawdown_pct ?tested)"
      unfolding cols using known(1) least by (auto simp: image_iff eq_commute[of NaN])
    note worst = min_or_0_le[OF _ this(1), of "Fin (- 8)"] and deepest = max_or_0_ge[OF _ this(2), of "Fin 18"]
    have w: "fle (min_or_0 (map fr_worst_crash_trade_pct ?tested)) (Fin (- 8)) \<longleftrightarrow> \<not> (\<forall>(m, trades)\<in>set replays. \<forall>t\<in>set trades. flt (Fin (- 8)) (fround_to (tr_return_pct t) 2))"
    proof -
      have "fle (fround_to (min_or_0 (map tr_return_pct trades)) 2) (Fin (- 8)) \<longleftrightarrow> \<not> (\<forall>t\<in>set trades. flt (Fin (- 8)) (fround_to (tr_return_pct t) 2))"
        if "(m, trades) \<in> set replays" for m trades
      proof -
        have "(\<not> flt (Fin (- 8)) (fround_to (min_or_0 (map tr_return_pct trades)) 2)) = fle (fround_to (min_or_0 (map tr_return_pct trades)) 2) (Fin (- 8))"
          using least[OF that] by (intro not_flt) simp_all
        then show ?thesis using rounded_worst[OF known(2)[OF that], of "- 8"] by simp
      qed
      then have "(\<exists>p\<in>set replays. fle (fround_to (min_or_0 (map tr_return_pct (snd p))) 2) (Fin (- 8))) \<longleftrightarrow>
          (\<exists>p\<in>set replays. \<not> (\<forall>t\<in>set (snd p). flt (Fin (- 8)) (fround_to (tr_return_pct t) 2)))"
        by (intro bex_cong refl) (metis prod.collapse)
      then show ?thesis using worst False unfolding cols by (simp add: split_beta)
    qed
    have "fle (Fin 18) (fround_to (sm_max_drawdown_pct m) 2) \<longleftrightarrow> \<not> flt (fround_to (sm_max_drawdown_pct m) 2) (Fin 18)" if "(m, trades) \<in> set replays" for m trades
      using known(1)[OF that] by (simp add: not_flt)
    then have "(\<exists>p\<in>set replays. fle (Fin 18) (fround_to (sm_max_drawdown_pct (fst p)) 2)) \<longleftrightarrow>
        (\<exists>p\<in>set replays. \<not> flt (fround_to (sm_max_drawdown_pct (fst p)) 2) (Fin 18))"
      by (intro bex_cong refl) (metis prod.collapse)
    then have d: "fle (Fin 18) (max_or_0 (map fr_max_drawdown_pct ?tested)) \<longleftrightarrow> \<not> (\<forall>(m, trades)\<in>set replays. flt (fround_to (sm_max_drawdown_pct m) 2) (Fin 18))"
      using deepest False unfolding cols by (simp add: split_beta)
    show ?thesis using False empty w d by (auto simp: summarize_event_def survived_def Let_def cols(1) split_beta)
  qed
qed

text \<open>\<open>C29\<close>: When no return of a counted trade and no drawdown of a counted replay is NaN, the script passes exactly when for each of the five crashes: some strategy
  replays the candles of some symbol that reach over the crash without raising; the profits of the trades open during the crash, rounded per replay and summed, are not below -150;
  none of these trades lost 8 percent or more, and no replay drew down 18 percent or more, both rounded to two places.
\<close>

theorem stress_passes_iff_every_crash_survived:
  assumes "run_flash_crash_stress env exc_text files interval days symbols strategies warmup cooldown = Inr (summaries, details)"
    and "\<And>e begins ends. e \<in> set crash_events \<Longrightarrow> parse_dt env (ce_start e) = Inr begins \<Longrightarrow> parse_dt env (ce_end e) = Inr ends \<Longrightarrow>
      figures_known (crash_replays env warmup cooldown strategies (map (symbol_frame files interval days) symbols) begins ends)"
  shows "overall_status summaries = ''PASS'' \<longleftrightarrow>
    (\<forall>e\<in>set crash_events. \<exists>begins ends. parse_dt env (ce_start e) = Inr begins \<and> parse_dt env (ce_end e) = Inr ends \<and>
       survived (crash_replays env warmup cooldown strategies (map (symbol_frame files interval days) symbols) begins ends))"
proof -
  let ?replays = "crash_replays env warmup cooldown strategies (map (symbol_frame files interval days) symbols)"
  obtain cache blocks where c: "cache_features files interval days symbols = Inr cache"
    and b: "list_all2 (\<lambda>e rows. event_rows env exc_text warmup cooldown strategies symbols cache e = Inr rows) crash_events blocks"
    and s: "summaries = map (\<lambda>(rows, e). summarize_event rows e) (zip blocks crash_events)"
    using assms(1) by (auto simp: run_flash_crash_stress_def bind_res_eq_Inr map_res_Inr_iff)
  have pass: "fs_status (summarize_event rows e) \<notin> {''SKIP'', ''FAIL''} \<longleftrightarrow>
      (\<exists>begins ends. parse_dt env (ce_start e) = Inr begins \<and> parse_dt env (ce_end e) = Inr ends \<and> survived (?replays begins ends))"
    if e: "e \<in> set crash_events" and rows: "event_rows env exc_text warmup cooldown strategies symbols cache e = Inr rows" for e rows
  proof (cases "event_bounds env e")
    case (Inl x)
    then have "\<not> (\<exists>begins ends. parse_dt env (ce_start e) = Inr begins \<and> parse_dt env (ce_end e) = Inr ends)"
      by (auto simp: event_bounds_def)
    moreover have "filter is_tested rows = []" by (rule unbounded_rows[OF Inl rows])
    ultimately show ?thesis by (auto simp: summarize_event_def Let_def)
  next
    case (Inr bounds)
    then obtain begins ends where bounds: "event_bounds env e = Inr (begins, ends)" by (cases bounds) simp
    then have "parse_dt env (ce_start e) = Inr begins" "parse_dt env (ce_end e) = Inr ends" by (auto simp: event_bounds_def bind_res_eq_Inr)
    then show ?thesis using summary_passes_iff[OF event_rows_figures[OF bounds c rows] assms(2)[OF e]] by simp
  qed
  have "(\<forall>s\<in>set summaries. fs_status s \<notin> {''SKIP'', ''FAIL''}) \<longleftrightarrow>
      (\<forall>e\<in>set crash_events. \<exists>begins ends. parse_dt env (ce_start e) = Inr begins \<and> parse_dt env (ce_end e) = Inr ends \<and> survived (?replays begins ends))"
  proof -
    from list.rel_mono_strong[OF b, of "\<lambda>e rows. e \<in> set crash_events \<and> event_rows env exc_text warmup cooldown strategies symbols cache e = Inr rows"]
    have own: "list_all2 (\<lambda>e rows. e \<in> set crash_events \<and> event_rows env exc_text warmup cooldown strategies symbols cache e = Inr rows) crash_events blocks"
      by blast
    have "(\<forall>s\<in>set (map (\<lambda>(rows, e). summarize_event rows e) (zip blocks es)). fs_status s \<notin> {''SKIP'', ''FAIL''}) \<longleftrightarrow>
        (\<forall>e\<in>set es. \<exists>begins ends. parse_dt env (ce_start e) = Inr begins \<and> parse_dt env (ce_end e) = Inr ends \<and> survived (?replays begins ends))"
      if "list_all2 (\<lambda>e rows. e \<in> set crash_events \<and> event_rows env exc_text warmup cooldown strategies symbols cache e = Inr rows) es blocks" for es blocks
      using that
    proof (induction rule: list_all2_induct)
      case (Cons e es rows blocks)
      from Cons.hyps(1) have "e \<in> set crash_events" "event_rows env exc_text warmup cooldown strategies symbols cache e = Inr rows" by blast+
      note here = pass[OF this]
      show ?case by (simp only: zip_Cons_Cons list.map list.set ball_simps prod.case here Cons.IH)
    qed (simp only: zip_Nil list.map list.set ball_simps)
    from this[OF own] show ?thesis unfolding s .
  qed
  moreover have "summaries \<noteq> []" using list_all2_lengthD[OF b] by (auto simp: s crash_events_def zip_eq_Nil_iff)
  ultimately show ?thesis by (simp only: overall_pass simp_thms)
qed

text \<open>Adding a strategy that raises over every window changes nothing: a crash passes without it, whatever the strategy would have done.\<close>

lemma raising_strategies_do_not_count:
  assumes "\<And>frame. \<exists>x. replay frame = Inl x"
  shows "crash_replays env warmup cooldown (before @ (name, replay) # after) frames begins ends =
    crash_replays env warmup cooldown (before @ after) frames begins ends"
proof -
  have "counted env begins ends (replay frame) = []" for frame using assms[of frame] by (auto simp: counted_def)
  then show ?thesis by (simp add: crash_replays_def)
qed

text \<open>A profit factor without losses enters the mean of the summary as 99: the filter on finite factors drops no row.\<close>

lemma factors_are_all_averaged:
  assumes "tested_row env e symbol strategy coverage d (Inr (m, trades)) = Inr r" and "\<not> is_finite (sm_profit_factor m)"
  shows "fr_profit_factor r = Fin 99 \<and> is_finite (fr_profit_factor r)"
  using assms by (auto simp: tested_row_def bind_res_eq_Inr)

section \<open>Example\<close>

text \<open>A strategy with one winning trade and one that raises, over a frame that covers every crash: every time reads as 0.\<close>

definition crash_env :: py_env where "crash_env = example_env\<lparr>pe_fromiso := (\<lambda>_. Some 0)\<rparr>"

definition calm_row :: candle_row where
  "calm_row = \<lparr>cr_open_time = 0, cr_open = Fin 1, cr_low = Fin 1, cr_close = Fin 1\<rparr>"

definition calm_files :: "string \<Rightarrow> candle_row list res option" where "calm_files name = Some (Inr [calm_row])"

definition two_strategies :: "(string \<times> unit replay) list" where
  "two_strategies = [(''winner'', \<lambda>_. Inr (btc_figures, [btc_trade])), (''broken'', \<lambda>_. Inl (KeyError ''atr''))]"

lemma whole_cents: "fround_to (Fin 5) 2 = Fin 5" "fround_to (Fin 0) 2 = Fin 0"
  by (simp_all add: rhe_def)

lemma calm_times: "parse_dt crash_env s = Inr 0"
  by (simp add: parse_dt_def crash_env_def)

lemma calm_replays: "crash_replays crash_env w c two_strategies (map (symbol_frame calm_files i n) [''BTC/USDT'']) s t =
    (if 0 \<le> s \<and> t \<le> 0 then [(btc_figures, if 0 \<le> t \<and> s \<le> 0 then [btc_trade] else [])] else [])"
  by (auto simp: crash_replays_def symbol_frame_def calm_files_def reaches_over_def calm_row_def two_strategies_def counted_def readable_def
      calm_times open_during_def is_ok_def)

lemma calm_run: "\<exists>summaries details. run_flash_crash_stress crash_env (\<lambda>_. []) calm_files ''1h'' 365 [''BTC/USDT''] two_strategies 0 0 = Inr (summaries, details)"
proof -
  have "cache_features calm_files ''1h'' 365 [''BTC/USDT''] = Inr [(''BTC/USDT'', [calm_row])]"
    by (simp add: cache_features_def calm_files_def)
  moreover have "\<exists>rows. event_rows crash_env (\<lambda>_. []) 0 0 two_strategies [''BTC/USDT''] [(''BTC/USDT'', [calm_row])] e = Inr rows" for e
    by (simp add: event_rows_def cached_frame_def symbol_rows_def data_coverage_def event_bounds_def calm_times calm_row_def market_drop_pct_def
        event_window_def two_strategies_def caught_row_def tested_row_def trade_overlaps_event_def lowest_def del: fround_to.simps)
  then obtain rows where "\<And>e. event_rows crash_env (\<lambda>_. []) 0 0 two_strategies [''BTC/USDT''] [(''BTC/USDT'', [calm_row])] e = Inr (rows e)" by metis
  ultimately show ?thesis by (simp add: run_flash_crash_stress_def map_res_Inr)
qed

theorem stress_passes_iff_every_crash_survived_witness:
  "\<exists>summaries details. run_flash_crash_stress crash_env (\<lambda>_. []) calm_files ''1h'' 365 [''BTC/USDT''] two_strategies 0 0 = Inr (summaries, details) \<and>
     overall_status summaries = ''PASS''"
proof -
  obtain summaries details where run: "run_flash_crash_stress crash_env (\<lambda>_. []) calm_files ''1h'' 365 [''BTC/USDT''] two_strategies 0 0 = Inr (summaries, details)"
    using calm_run by blast
  have known: "figures_known (crash_replays crash_env 0 0 two_strategies (map (symbol_frame calm_files ''1h'' 365) [''BTC/USDT'']) s t)" for s t
    unfolding calm_replays by (simp add: figures_known_def btc_figures_def btc_trade_def)
  have "survived (crash_replays crash_env 0 0 two_strategies (map (symbol_frame calm_files ''1h'' 365) [''BTC/USDT'']) 0 0)"
    unfolding calm_replays by (simp add: survived_def btc_figures_def btc_trade_def whole_cents del: fround_to.simps)
  then have "overall_status summaries = ''PASS''"
    unfolding stress_passes_iff_every_crash_survived[OF run, OF known] calm_times by blast
  with run show ?thesis by blast
qed

end
