(* ===== verification/Spec2Isabelle.thy ===== *)
theory Spec2Isabelle
  imports Consensus_Pipeline Event_Bus Stability Auth_Access Optimization Atr_Reversion
    Backtest_Composite Runtime_Control Bot_Repository_Safety Dashboard_Deploy Dashboard_Laws Market_History Screen_Access Bot_Validation Trade_Review
    Scan_Laws Signal_Laws Profile_Laws Crash_Laws
begin

text \<open>
  Verification development of the trading platform under \<open>src/aegis_trader\<close>. Every path below is relative to that directory.

  \<^bold>\<open>The program.\<close> Market data (\<open>market_data\<close>) feeds features, order flow and regime (\<open>features\<close>, \<open>orderflow\<close>, \<open>regime\<close>).
  Strategies (\<open>strategies\<close>) turn them into signals, which consensus (\<open>consensus\<close>) and the portfolio risk authority (\<open>risk\<close>) admit or
  refuse before the order manager (\<open>oms\<close>) and the execution engine (\<open>execution\<close>) send them to an exchange gateway (\<open>exchange\<close>);
  \<open>app.py\<close> composes one such pass, and events of all parts cross the bus (\<open>core/event_bus.py\<close>). Bots are the second half: they are
  registered (\<open>runtime/bot_registry.py\<close>), guarded (\<open>bot/stability_framework.py\<close>), run by the headless runtime
  (\<open>runtime\<close>), replayed and certified (\<open>strategies/backtest_plugins.py\<close>, \<open>strategies/optimization.py\<close>, \<open>testing\<close>), and stored in
  report files and in the database (\<open>storage\<close>). The dashboard (\<open>dashboards/app.py\<close>) reads and writes both stores, decides which bot
  may be deployed with which size, and shows only what the security core (\<open>security/auth.py\<close>) permits.

  \<^bold>\<open>Theories, in the order they build on each other.\<close>

  \<^item> Foundations. \<open>Prelude\<close> has the exceptions, results \<open>py_exc + 'a\<close>, state passing \<open>bind_act\<close> and dictionaries; \<open>Py_Float\<close>
    binary64 arithmetic (a value is an exact rational, an infinity or NaN, each result rounded by \<open>fround\<close>; the locale
    \<open>rounding\<close> holds what follows from monotone rounding, interpreted on \<open>rnd\<close>); \<open>Py_Text\<close>, \<open>Py_Time\<close>, \<open>Py_Json\<close>, \<open>Py_Row\<close>,
    \<open>Py_Literals\<close> the text, calendar, JSON, row and literal operations the sources use; \<open>Db_Table\<close> cells, rows and tables.
  \<^item> Trading pass. \<open>Core_Model\<close> (enums and events), \<open>Market_Analysis\<close>, \<open>Strategy_Plugins\<close>, \<open>Risk_Engine\<close> (state
    \<open>risk_engine\<close>, runs of \<open>trading_step\<close>), \<open>Order_Execution\<close> (order book and gateways, locale \<open>exchange_gateway\<close>, interpreted
    on the paper and the Binance gateway), \<open>Consensus_Pipeline\<close> (\<open>run_once\<close>). Shown: daily trades bounded, the kill switch latches,
    a submission without verified protection fails closed, every order left in the book is a protected buy.
  \<^item> Events. \<open>Event_Bus\<close>: publication, dispatch, replay, the async writer; the queue is reached through the locale
    \<open>priority_queue\<close>, interpreted on the sorted list that models it. Shown: dispatch in the order of publication, every queued event is dispatched.
  \<^item> Bots. \<open>Stability\<close> (the guard object of a bot), \<open>Bot_Registry\<close>, \<open>Runtime_Manager\<close> with \<open>Runtime_Safety\<close>, \<open>Runtime_Control\<close>
    (command bus, supervisor, service loop). The laws of a receiver that remembers names are the locales \<open>message_log\<close> and
    \<open>remembering_log\<close> of \<open>Message_Log\<close>, interpreted on the event table of the repository and on the command bus.
    Shown: operations exclude each other, duplicates are refused, reports stay bounded and unique by bot, the service ends when told.
  \<^item> Replays. \<open>Replay_Metrics\<close>, \<open>Exits\<close>, \<open>Atr_Reversion\<close>, \<open>Aapif\<close>, \<open>Backtest_Framework\<close>, \<open>Backtest_Entries\<close>, \<open>Backtest_Loops\<close>,
    \<open>Backtest_Composite\<close>, \<open>Optimization\<close>. Shown: the drawdown lock is final, the trades of a composite are disjoint, the life of a
    reversion trade, the ranking of a grid. \<open>Crash_Stress\<close> with \<open>Crash_Laws\<close>: the stress test of
    \<open>src/scripts/historical_flash_crash_stress.py\<close>, which passes exactly when every crash was replayed and survived.
  \<^item> Security. \<open>Auth_Password\<close>, \<open>Auth_Tables\<close> (unit of work of a session), \<open>Auth\<close> (the operations), \<open>Auth_Safety\<close> (every call
    refines to primitive row changes \<open>db_change\<close>, so what those keep every sequence of calls keeps), \<open>Auth_Access\<close>, and
    \<open>Screen_Access\<close> (screens, navigation and sign-in of the dashboard over those tables). Shown: ended sessions never resolve, tokens are
    used once, a password verifies against its own hash, a screen shown is permitted.
  \<^item> Stores and dashboard. \<open>Bot_Repository\<close> with \<open>Bot_Repository_Safety\<close>; \<open>Dashboard_Store\<close> (files or database, with fallback),
    \<open>Dashboard_Gates\<close>, \<open>Dashboard_Deploy\<close>, \<open>Dashboard_Laws\<close>, \<open>Bot_Validation\<close>, \<open>Signal_Flow\<close> with \<open>Signal_Laws\<close>,
    \<open>Runtime_Profile\<close> with \<open>Profile_Laws\<close>; \<open>Scan_Repository\<close> with \<open>Scan_Laws\<close>, whose locale \<open>keyed_upserts\<close> says what
    writing rows under keys promises and is interpreted on the live scan and on the run figures. Shown: an event is applied once, a deployed
    bot passed the gates, sizes are bounded, a scan is read back and writing it twice changes nothing, the figures of a profile agree.
  \<^item> Market data. \<open>Market_Stream\<close> with \<open>Stream_Laws\<close> (messages of the exchange to bars), \<open>Market_History\<close> (paging, features).
    Shown: a closed bucket aggregates its candles, the state stays bounded, a fetch returns the window, features do not look ahead.
  \<^item> Review. \<open>Trade_Review\<close>: rules, model answers and the agent that overrules them; failure drills.

  \<^bold>\<open>Reading a definition.\<close> An operation has the source's name and takes the state first or last, returning it updated with a result;
  an exception is \<open>Inl\<close> of a \<open>py_exc\<close>, and the state beside it is what the code leaves behind (a transaction that raises leaves the
  database as it was). A dataclass is a \<open>record\<close>, a database or frame row a list of named cells in column order. Floats are \<open>pyfloat\<close>,
  never reals; Python's integers are \<open>int\<close>. Words appear where the code works on bytes (\<open>Auth_Password\<close>).

  \<^bold>\<open>Parameters.\<close> What the repository does not contain is an argument: \<open>**\<close> and \<open>sqrt\<close> of the C library, means, deviations
  and exponentially weighted means of pandas, parsing and printing of floats and ISO times (\<open>py_env\<close>), the clock (an index into a
  sequence of readings), SHA-256 and PBKDF2 (\<open>crypto\<close>), the ccxt client (\<open>ccxt_client\<close>), the server's collation, type conversion and
  ORDER BY (\<open>db_server\<close>, \<open>newest\<close>), HTTP answers of the exchange, answers of the language model, feature files. Where a property
  relies on one, the documented behaviour is a premise, and its witness instantiates it.

  \<^bold>\<open>Bounds.\<close> They are the code's: 250 bars of history, a warm-up of 200 rows (220 for the KCJ burst, 53 for mean reversion), a queue
  of 10000 events, 2000 remembered operations, 500 to 10000 rows of a log, 500 journal rows in the file of which 250 are read, 100
  validation runs, 500 trades and 300 bars per symbol of the stream, 210 rows at least for a validation. Loops recurse on their data:
  the loops of \<open>Event_Bus\<close> and the service loop of \<open>Runtime_Control\<close> are \<open>partial_function\<close>s, so that not returning is \<open>None\<close>, and
  where a property says that one returns this is proved; the paging of \<open>Market_History\<close>
  recurses on a measure of the window left.

  \<^bold>\<open>Not modelled.\<close> The sign of a zero; text beyond ASCII; the indicator columns pandas computes and its inference of column types; single
  precision of the columns of the bot repository; threads, tasks and the web socket (their steps are interleaved explicitly where the
  order matters); caches in front of the loaders; widgets, charts and tables of Streamlit, which is most of \<open>dashboards/app.py\<close>; file
  encodings, parquet, TLS; the other scripts of \<open>src/scripts\<close>, which wire these parts together (also \<open>storage/db.py\<close>, \<open>core/logging.py\<close>).
\<close>

end
